(* ===== verification/Prelude.thy ===== *)
theory Prelude
  imports Main "HOL-Library.Word" "HOL-Library.Monad_Syntax"
begin

unbundle bit_operations_syntax

text \<open>
  Shared vocabulary of the development: the machine integer types of the code, readable memory as
  a list of bytes whose reads are partial, little-endian and big-endian assembly of words from
  bytes, and the lemma collections that the component theories hand to the simplifier.

  A read outside the readable memory is \<open>None\<close>: C++ gives it no meaning, so no value is
  made up for it. An operation that returns \<open>Some\<close> has touched readable memory only.
\<close>

type_synonym u8 = "8 word"
type_synonym u16 = "16 word"
type_synonym u32 = "32 word"
type_synonym u64 = "64 word"
type_synonym bytes = "u8 list"

named_theorems mem_simps \<open>successful reads of memory\<close>
named_theorems inv_intros \<open>operations keep the invariant of their component\<close>

section \<open>Partial reads\<close>

definition rd8 :: "bytes \<Rightarrow> nat \<Rightarrow> u8 option" where
  "rd8 m i = (if i < length m then Some (m ! i) else None)"

lemma rd8_Some [mem_simps]: "i < length m \<Longrightarrow> rd8 m i = Some (m ! i)"
  by (simp add: rd8_def)

lemma rd8_None: "length m \<le> i \<Longrightarrow> rd8 m i = None"
  by (simp add: rd8_def)

lemma rd8_Some_iff: "(\<exists>b. rd8 m i = Some b) \<longleftrightarrow> i < length m"
  by (simp add: rd8_def)

text \<open>A copy of \<open>n\<close> bytes starting at \<open>i\<close> (memcpy, or a pointer and a length).\<close>

definition rd_range :: "bytes \<Rightarrow> nat \<Rightarrow> nat \<Rightarrow> bytes option" where
  "rd_range m i n = (if i + n \<le> length m then Some (take n (drop i m)) else None)"

lemma rd_range_Some [mem_simps]: "i + n \<le> length m \<Longrightarrow> rd_range m i n = Some (take n (drop i m))"
  by (simp add: rd_range_def)

lemma rd_range_length: "rd_range m i n = Some bs \<Longrightarrow> length bs = n"
  by (auto simp: rd_range_def split: if_splits)

section \<open>Words from bytes\<close>

text \<open>\<open>le_word\<close> puts the first byte lowest (a load on the little-endian hosts the code is
  built for), \<open>be_word\<close> puts it highest (network order).\<close>

fun le_word :: "bytes \<Rightarrow> 'a::len word" where
  "le_word [] = 0"
| "le_word (b # bs) = ucast b OR push_bit 8 (le_word bs)"

fun le_bytes :: "nat \<Rightarrow> 'a::len word \<Rightarrow> bytes" where
  "le_bytes 0 w = []"
| "le_bytes (Suc n) w = ucast w # le_bytes n (drop_bit 8 w)"

definition be_word :: "bytes \<Rightarrow> 'a::len word" where
  "be_word bs = le_word (rev bs)"

lemma length_le_bytes [simp]: "length (le_bytes n w) = n"
  by (induction n arbitrary: w) auto

lemma le_word_bits:
  "bit (le_word bs :: 'a::len word) n \<longleftrightarrow>
     n < LENGTH('a) \<and> n div 8 < length bs \<and> bit (bs ! (n div 8)) (n mod 8)"
proof (induction bs arbitrary: n)
  case Nil
  then show ?case by simp
next
  case (Cons b bs)
  have b8: "bit b n \<Longrightarrow> n < 8"
    using bit_imp_le_length [of b n] by simp
  show ?case
  proof (cases "n < 8")
    case True
    then show ?thesis by (simp add: bit_simps)
  next
    case False
    then have "n div 8 = Suc ((n - 8) div 8)" "n mod 8 = (n - 8) mod 8"
      by (simp_all add: le_div_geq le_mod_geq)
    moreover have "\<not> bit b n" using b8 False by blast
    ultimately show ?thesis
      using False Cons.IH [of "n - 8"] by (auto simp: bit_simps)
  qed
qed

lemma le_bytes_nth: "i < n \<Longrightarrow> le_bytes n w ! i = ucast (drop_bit (8 * i) w)"
proof (induction n arbitrary: w i)
  case 0
  then show ?case by simp
next
  case (Suc n)
  then show ?case
    by (cases i) (auto simp: add.commute drop_bit_drop_bit)
qed

text \<open>The two conversions are inverse to each other on \<open>n\<close> bytes and \<open>8 n\<close>-bit words.\<close>

lemma le_word_le_bytes:
  fixes w :: "'a::len word"
  assumes "LENGTH('a) = 8 * n"
  shows "le_word (le_bytes n w) = w"
proof (rule bit_word_eqI)
  fix k assume k: "k < LENGTH('a)"
  then have "k div 8 < n" using assms by (simp add: less_mult_imp_div_less mult.commute)
  then have "bit (le_bytes n w ! (k div 8)) (k mod 8) \<longleftrightarrow> bit w (8 * (k div 8) + k mod 8)"
    by (simp add: le_bytes_nth bit_simps)
  then show "bit (le_word (le_bytes n w) :: 'a word) k \<longleftrightarrow> bit w k"
    using k \<open>k div 8 < n\<close> by (simp add: le_word_bits)
qed

lemma le_bytes_le_word:
  assumes "LENGTH('a::len) = 8 * n" "length bs = n"
  shows "le_bytes n (le_word bs :: 'a word) = bs"
proof (rule nth_equalityI)
  show "length (le_bytes n (le_word bs :: 'a word)) = length bs" using assms by simp
next
  fix i assume "i < length (le_bytes n (le_word bs :: 'a word))"
  then have i: "i < n" by simp
  show "le_bytes n (le_word bs :: 'a word) ! i = bs ! i"
  proof (rule bit_word_eqI)
    fix k assume "k < LENGTH(8)"
    then have k: "k < 8" by simp
    then have "(8 * i + k) div 8 = i" "(8 * i + k) mod 8 = k" "8 * i + k < 8 * n"
      using i by auto
    then show "bit (le_bytes n (le_word bs :: 'a word) ! i) k \<longleftrightarrow> bit (bs ! i) k"
      using i k assms by (simp add: le_bytes_nth bit_simps le_word_bits)
  qed
qed

section \<open>Options\<close>

lemma bind_Some_iff: "Option.bind x f = Some z \<longleftrightarrow> (\<exists>y. x = Some y \<and> f y = Some z)"
  by (cases x) auto

lemma bind_Some_map: "Option.bind x (\<lambda>v. Some (f v)) = map_option f x"
  by (cases x) auto

lemma take_take_drop: "take n (drop i (xs @ ys)) = take n (drop i xs)" if "i + n \<le> length xs"
  using that by simp

lemma nth_append_take_drop: "i < length xs \<Longrightarrow> take i xs @ xs ! i # drop (Suc i) xs = xs"
  by (simp add: id_take_nth_drop [symmetric])

text \<open>An element of a table; \<open>None\<close> is an access outside it.\<close>

definition nth_opt :: "'a list \<Rightarrow> nat \<Rightarrow> 'a option" where
  "nth_opt xs i = (if i < length xs then Some (xs ! i) else None)"

end
