(* ===== verification/PacketCommon.thy ===== *)
theory PacketCommon
  imports Prelude
begin

text \<open>
  \<open>src/src/packetcommon.h\<close>: the stream identifiers and directions of the capture, and the
  conversions from wire bytes to host integers (\<open>eqntoh*\<close> from network order, \<open>eqtoh*\<close> from
  host order, here the little-endian branch of the header). A conversion reads two or four bytes
  through a pointer; the pointer is the memory and an index into it, and the read is partial.
\<close>

datatype EQStreamID = unknown_stream | client2world | world2client | client2zone | zone2client

definition stream_num :: "EQStreamID \<Rightarrow> int" where
  "stream_num s = (case s of unknown_stream \<Rightarrow> -1 | client2world \<Rightarrow> 0 | world2client \<Rightarrow> 1
     | client2zone \<Rightarrow> 2 | zone2client \<Rightarrow> 3)"

instantiation EQStreamID :: linorder
begin

definition less_eq_EQStreamID :: "EQStreamID \<Rightarrow> EQStreamID \<Rightarrow> bool" where
  "less_eq_EQStreamID a b \<longleftrightarrow> stream_num a \<le> stream_num b"

definition less_EQStreamID :: "EQStreamID \<Rightarrow> EQStreamID \<Rightarrow> bool" where
  "less_EQStreamID a b \<longleftrightarrow> stream_num a < stream_num b"

instance
proof
  fix a b :: EQStreamID
  assume "a \<le> b" "b \<le> a"
  then show "a = b"
    by (cases a; cases b) (simp_all add: less_eq_EQStreamID_def stream_num_def)
qed (auto simp: less_eq_EQStreamID_def less_EQStreamID_def)

end

definition DIR_Client :: u8 where "DIR_Client = 0x01"
definition DIR_Server :: u8 where "DIR_Server = 0x02"

section \<open>Wire to host conversions\<close>

definition eqntohuint16 :: "bytes \<Rightarrow> nat \<Rightarrow> u16 option" where
  "eqntohuint16 m i = do {
     d0 \<leftarrow> rd8 m i;
     d1 \<leftarrow> rd8 m (i + 1);
     Some (push_bit 8 (ucast d0) OR ucast d1)
   }"

definition eqntohint16 :: "bytes \<Rightarrow> nat \<Rightarrow> int option" where
  "eqntohint16 m i = do {
     d0 \<leftarrow> rd8 m i;
     d1 \<leftarrow> rd8 m (i + 1);
     Some (sint (push_bit 8 (ucast d0) OR ucast d1 :: u16))
   }"

definition eqntohuint32 :: "bytes \<Rightarrow> nat \<Rightarrow> u32 option" where
  "eqntohuint32 m i = do {
     d0 \<leftarrow> rd8 m i;
     d1 \<leftarrow> rd8 m (i + 1);
     d2 \<leftarrow> rd8 m (i + 2);
     d3 \<leftarrow> rd8 m (i + 3);
     Some (push_bit 24 (ucast d0) OR push_bit 16 (ucast d1) OR push_bit 8 (ucast d2) OR ucast d3)
   }"

definition eqntohint32 :: "bytes \<Rightarrow> nat \<Rightarrow> int option" where
  "eqntohint32 m i = do {
     d0 \<leftarrow> rd8 m i;
     d1 \<leftarrow> rd8 m (i + 1);
     d2 \<leftarrow> rd8 m (i + 2);
     d3 \<leftarrow> rd8 m (i + 3);
     Some (sint (push_bit 24 (ucast d0) OR push_bit 16 (ucast d1) OR push_bit 8 (ucast d2)
                 OR ucast d3 :: u32))
   }"

definition eqtohuint16 :: "bytes \<Rightarrow> nat \<Rightarrow> u16 option" where
  "eqtohuint16 m i = map_option le_word (rd_range m i 2)"

definition eqtohint16 :: "bytes \<Rightarrow> nat \<Rightarrow> int option" where
  "eqtohint16 m i = map_option (\<lambda>bs. sint (le_word bs :: u16)) (rd_range m i 2)"

definition eqtohuint32 :: "bytes \<Rightarrow> nat \<Rightarrow> u32 option" where
  "eqtohuint32 m i = map_option le_word (rd_range m i 4)"

definition eqtohint32 :: "bytes \<Rightarrow> nat \<Rightarrow> int option" where
  "eqtohint32 m i = map_option (\<lambda>bs. sint (le_word bs :: u32)) (rd_range m i 4)"

lemmas eqconv_defs = eqntohuint16_def eqntohint16_def eqntohuint32_def eqntohint32_def
  eqtohuint16_def eqtohint16_def eqtohuint32_def eqtohint32_def

section \<open>The conversions as words of bytes\<close>

lemma take2_drop: "i + 2 \<le> length m \<Longrightarrow> take 2 (drop i m) = [m ! i, m ! Suc i]"
  by (simp add: numeral_2_eq_2 take_Suc_conv_app_nth)

lemma take4_drop:
  "i + 4 \<le> length m \<Longrightarrow> take 4 (drop i m) = [m ! i, m ! (i + 1), m ! (i + 2), m ! (i + 3)]"
  by (simp add: eval_nat_numeral take_Suc_conv_app_nth)

lemma eqntohuint16_Some [mem_simps]:
  assumes "i + 2 \<le> length m"
  shows "eqntohuint16 m i = Some (be_word (take 2 (drop i m)))"
  using assms by (simp add: eqntohuint16_def mem_simps be_word_def take2_drop ac_simps)

lemma eqntohuint32_Some [mem_simps]:
  assumes "i + 4 \<le> length m"
  shows "eqntohuint32 m i = Some (be_word (take 4 (drop i m)))"
  using assms
  by (simp add: eqntohuint32_def mem_simps be_word_def take4_drop push_bit_or ac_simps)

lemma eqtohuint16_Some [mem_simps]:
  "i + 2 \<le> length m \<Longrightarrow> eqtohuint16 m i = Some (le_word (take 2 (drop i m)))"
  by (simp add: eqtohuint16_def mem_simps)

lemma eqtohuint32_Some [mem_simps]:
  "i + 4 \<le> length m \<Longrightarrow> eqtohuint32 m i = Some (le_word (take 4 (drop i m)))"
  by (simp add: eqtohuint32_def mem_simps)

lemma eqntohint16_Some [mem_simps]:
  "i + 2 \<le> length m \<Longrightarrow> eqntohint16 m i = Some (sint (be_word (take 2 (drop i m)) :: u16))"
  by (simp add: eqntohint16_def mem_simps be_word_def take2_drop ac_simps)

lemma eqntohint32_Some [mem_simps]:
  "i + 4 \<le> length m \<Longrightarrow> eqntohint32 m i = Some (sint (be_word (take 4 (drop i m)) :: u32))"
  by (simp add: eqntohint32_def mem_simps be_word_def take4_drop push_bit_or ac_simps)

text \<open>Network order and host order differ by the order of the bytes only.\<close>

lemma eqtohuint16_rev:
  "eqntohuint16 [a, b] 0 = eqtohuint16 [b, a] 0"
  by (simp add: mem_simps be_word_def)

end
