(* ===== verification/NetStream.thy ===== *)
theory NetStream
  imports PacketCommon
begin

text \<open>
  \<open>src/src/netstream.h\<close> and \<open>src/src/netstream.cpp\<close>: the byte and bit cursors with which packet
  handlers unpack wire data. \<open>ns_data\<close> is the readable memory from \<open>m_data\<close> on, \<open>ns_length\<close> is
  \<open>m_length\<close> (so \<open>m_lastPos\<close> is the index \<open>ns_length\<close>) and \<open>ns_pos\<close> is \<open>m_pos\<close>. The memory can
  be longer than the stream: a stream is often a window on a larger packet.
  Every operation returns the value and the moved cursor, or \<open>None\<close> when it touches memory
  that is not there. \<open>QString::fromUtf8\<close> is Qt's and is a parameter.
\<close>

section \<open>NetStream\<close>

record netstream =
  ns_data :: bytes
  ns_length :: nat
  ns_pos :: nat

definition mkNetStream :: "bytes \<Rightarrow> nat \<Rightarrow> netstream" where
  "mkNetStream d len = \<lparr>ns_data = d, ns_length = len, ns_pos = 0\<rparr>"

definition ns_reset :: "netstream \<Rightarrow> netstream" where
  "ns_reset ns = ns\<lparr>ns_pos := 0\<rparr>"

definition ns_end :: "netstream \<Rightarrow> bool" where
  "ns_end ns \<longleftrightarrow> ns_pos ns \<ge> ns_length ns"

text \<open>\<open>m_lastPos - m_pos\<close>, a pointer difference.\<close>

definition ns_left :: "netstream \<Rightarrow> int" where
  "ns_left ns = int (ns_length ns) - int (ns_pos ns)"

definition ns_skip :: "nat \<Rightarrow> netstream \<Rightarrow> netstream" where
  "ns_skip n ns = ns\<lparr>ns_pos := ns_pos ns + n\<rparr>"

definition readUInt8 :: "netstream \<Rightarrow> (u8 \<times> netstream) option" where
  "readUInt8 ns =
     (if ns_left ns \<ge> 1
      then do { val \<leftarrow> rd8 (ns_data ns) (ns_pos ns); Some (val, ns_skip 1 ns) }
      else Some (0, ns))"

definition readInt8 :: "netstream \<Rightarrow> (int \<times> netstream) option" where
  "readInt8 ns =
     (if ns_left ns \<ge> 1
      then do { val \<leftarrow> rd8 (ns_data ns) (ns_pos ns); Some (sint val, ns_skip 1 ns) }
      else Some (0, ns))"

definition readUInt16 :: "netstream \<Rightarrow> (u16 \<times> netstream) option" where
  "readUInt16 ns =
     (if ns_left ns \<ge> 2
      then do { val \<leftarrow> eqntohuint16 (ns_data ns) (ns_pos ns); Some (val, ns_skip 2 ns) }
      else Some (0, ns))"

definition readInt16 :: "netstream \<Rightarrow> (int \<times> netstream) option" where
  "readInt16 ns =
     (if ns_left ns \<ge> 2
      then do { val \<leftarrow> eqntohint16 (ns_data ns) (ns_pos ns); Some (val, ns_skip 2 ns) }
      else Some (0, ns))"

definition readUInt32 :: "netstream \<Rightarrow> (u32 \<times> netstream) option" where
  "readUInt32 ns =
     (if ns_left ns \<ge> 4
      then do { val \<leftarrow> eqntohuint32 (ns_data ns) (ns_pos ns); Some (val, ns_skip 4 ns) }
      else Some (0, ns))"

text \<open>The source keeps the \<open>int32_t\<close> in a \<open>uint32_t\<close> and converts it back on return.\<close>

definition readInt32 :: "netstream \<Rightarrow> (int \<times> netstream) option" where
  "readInt32 ns =
     (if ns_left ns \<ge> 4
      then do { v \<leftarrow> eqntohint32 (ns_data ns) (ns_pos ns);
                let val = (word_of_int v :: u32);
                Some (sint val, ns_skip 4 ns) }
      else Some (0, ns))"

definition readUInt16NC :: "netstream \<Rightarrow> (u16 \<times> netstream) option" where
  "readUInt16NC ns =
     (if ns_left ns \<ge> 2
      then do { val \<leftarrow> eqtohuint16 (ns_data ns) (ns_pos ns); Some (val, ns_skip 2 ns) }
      else Some (0, ns))"

definition readUInt32NC :: "netstream \<Rightarrow> (u32 \<times> netstream) option" where
  "readUInt32NC ns =
     (if ns_left ns \<ge> 4
      then do { val \<leftarrow> eqtohuint32 (ns_data ns) (ns_pos ns); Some (val, ns_skip 4 ns) }
      else Some (0, ns))"

text \<open>\<open>skipBytes\<close> truncates the distance to 32 bits before it compares.\<close>

definition skipBytes :: "nat \<Rightarrow> netstream \<Rightarrow> netstream" where
  "skipBytes byteCount ns =
     (if take_bit 32 (ns_left ns) \<ge> int byteCount then ns_skip byteCount ns else ns)"

text \<open>The loop of \<open>readText\<close>: the byte is read before the bound is tested.\<close>

function text_scan :: "bytes \<Rightarrow> nat \<Rightarrow> nat \<Rightarrow> nat option" where
  "text_scan m lastPos pos =
     (case rd8 m pos of
        None \<Rightarrow> None
      | Some c \<Rightarrow> if c \<noteq> 0 \<and> pos < lastPos then text_scan m lastPos (Suc pos) else Some pos)"
  by pat_completeness auto
termination
  by (relation "measure (\<lambda>(m, lastPos, pos). lastPos - pos)") auto

declare text_scan.simps [simp del]

definition readText :: "(bytes \<Rightarrow> string) \<Rightarrow> netstream \<Rightarrow> (string \<times> netstream) option" where
  "readText fromUtf8 ns =
     (if ns_pos ns < ns_length ns
      then do {
        stop \<leftarrow> text_scan (ns_data ns) (ns_length ns) (ns_pos ns);
        let len = stop - ns_pos ns;
        let after = (if stop < ns_length ns then Suc stop else stop);
        bs \<leftarrow> rd_range (ns_data ns) (ns_pos ns) len;
        Some (fromUtf8 bs, ns\<lparr>ns_pos := after\<rparr>)
      }
      else Some ([], ns))"

text \<open>\<open>QChar(*m_pos)\<close> is the Latin-1 character of the byte.\<close>

definition latin1 :: "u8 \<Rightarrow> char" where
  "latin1 b = char_of (unat b)"

fun lptext_loop :: "nat \<Rightarrow> string \<Rightarrow> netstream \<Rightarrow> (string \<times> netstream) option" where
  "lptext_loop 0 r ns = Some (r, ns)"
| "lptext_loop (Suc n) r ns =
     (if ns_pos ns < ns_length ns
      then do { c \<leftarrow> rd8 (ns_data ns) (ns_pos ns); lptext_loop n (r @ [latin1 c]) (ns_skip 1 ns) }
      else Some (r, ns))"

definition readLPText :: "netstream \<Rightarrow> (string \<times> netstream) option" where
  "readLPText ns = do { (len, ns1) \<leftarrow> readUInt32NC ns; lptext_loop (unat len) [] ns1 }"

lemmas ns_defs = mkNetStream_def ns_reset_def ns_end_def ns_left_def ns_skip_def

section \<open>The cursor stays inside the stream\<close>

text \<open>The stream is a window of the memory and the cursor is inside the window.\<close>

definition ns_ok :: "netstream \<Rightarrow> bool" where
  "ns_ok ns \<longleftrightarrow> ns_pos ns \<le> ns_length ns \<and> ns_length ns \<le> length (ns_data ns)"

lemma ns_ok_mkNetStream [inv_intros]: "len \<le> length d \<Longrightarrow> ns_ok (mkNetStream d len)"
  by (simp add: ns_ok_def mkNetStream_def)

lemma ns_ok_reset [inv_intros]: "ns_ok ns \<Longrightarrow> ns_ok (ns_reset ns)"
  by (simp add: ns_ok_def ns_reset_def)

lemma ns_ok_skip: "ns_ok ns \<Longrightarrow> int n \<le> ns_left ns \<Longrightarrow> ns_ok (ns_skip n ns)"
  by (auto simp: ns_ok_def ns_defs)

lemma ns_skip_fields [simp]:
  "ns_data (ns_skip n ns) = ns_data ns" "ns_length (ns_skip n ns) = ns_length ns"
  "ns_pos (ns_skip n ns) = ns_pos ns + n"
  by (simp_all add: ns_skip_def)

text \<open>
  The contract of a reader: on a well-placed cursor it returns, it leaves the stream's memory and
  length alone, it does not move back, and the cursor stays well placed.
\<close>

definition moves :: "netstream \<Rightarrow> netstream \<Rightarrow> bool" where
  "moves ns ns' \<longleftrightarrow> ns_data ns' = ns_data ns \<and> ns_length ns' = ns_length ns \<and>
     ns_pos ns \<le> ns_pos ns' \<and> ns_ok ns'"

locale ns_reader =
  fixes rd :: "netstream \<Rightarrow> ('v \<times> netstream) option"
  assumes total: "ns_ok ns \<Longrightarrow> \<exists>v ns'. rd ns = Some (v, ns') \<and> moves ns ns'"
begin

lemma returns: "ns_ok ns \<Longrightarrow> rd ns \<noteq> None"
  using total by fastforce

lemma keeps_ok: "ns_ok ns \<Longrightarrow> rd ns = Some (v, ns') \<Longrightarrow> ns_ok ns'"
  using total [of ns] by (auto simp: moves_def)

lemma never_back: "ns_ok ns \<Longrightarrow> rd ns = Some (v, ns') \<Longrightarrow> ns_pos ns \<le> ns_pos ns'"
  using total [of ns] by (auto simp: moves_def)

end

lemma moves_skip:
  "ns_ok ns \<Longrightarrow> int n \<le> ns_left ns \<Longrightarrow> moves ns (ns_skip n ns)"
  by (auto simp: moves_def ns_ok_def ns_left_def)

lemma moves_refl: "ns_ok ns \<Longrightarrow> moves ns ns"
  by (simp add: moves_def)

lemma moves_trans: "moves a b \<Longrightarrow> moves b c \<Longrightarrow> moves a c"
  by (auto simp: moves_def)

text \<open>
  The readers of a fixed width: \<open>width\<close> bytes are converted and skipped when that many are
  left; otherwise the result is 0 and the cursor does not move.
\<close>

locale fixed_reader =
  fixes rd :: "netstream \<Rightarrow> ('v::zero \<times> netstream) option"
    and get :: "bytes \<Rightarrow> nat \<Rightarrow> 'v option"
    and width :: nat
  assumes enough: "int width \<le> ns_left ns \<Longrightarrow>
      rd ns = map_option (\<lambda>v. (v, ns_skip width ns)) (get (ns_data ns) (ns_pos ns))"
    and short: "ns_left ns < int width \<Longrightarrow> rd ns = Some (0, ns)"
    and readable: "i + width \<le> length m \<Longrightarrow> get m i \<noteq> None"
begin

lemma value_read:
  assumes "ns_ok ns" "ns_pos ns + width \<le> ns_length ns"
  shows "\<exists>v. get (ns_data ns) (ns_pos ns) = Some v \<and> rd ns = Some (v, ns_skip width ns)"
proof -
  have "int width \<le> ns_left ns" "ns_pos ns + width \<le> length (ns_data ns)"
    using assms by (auto simp: ns_ok_def ns_left_def)
  then show ?thesis using readable [of "ns_pos ns" "ns_data ns"] enough [of ns] by auto
qed

lemma zero_at_end:
  "ns_ok ns \<Longrightarrow> ns_length ns < ns_pos ns + width \<Longrightarrow> rd ns = Some (0, ns)"
  by (rule short) (simp add: ns_left_def)

end

sublocale fixed_reader \<subseteq> ns_reader rd
proof
  fix ns assume ok: "ns_ok ns"
  show "\<exists>v ns'. rd ns = Some (v, ns') \<and> moves ns ns'"
  proof (cases "ns_pos ns + width \<le> ns_length ns")
    case True
    then have "int width \<le> ns_left ns" by (simp add: ns_left_def)
    then show ?thesis using value_read [OF ok True] moves_skip [OF ok] by blast
  next
    case False
    then show ?thesis using zero_at_end [OF ok] moves_refl [OF ok] by force
  qed
qed

lemma sint_word_of_sint [simp]: "sint (word_of_int (sint w) :: 'a word) = sint (w :: 'a::len word)"
  by simp

interpretation rdU8: fixed_reader readUInt8 rd8 1
  by unfold_locales (auto simp: readUInt8_def mem_simps split: Option.bind_split option.split)

interpretation rdI8: fixed_reader readInt8 "\<lambda>m i. map_option sint (rd8 m i)" 1
  by unfold_locales (auto simp: readInt8_def mem_simps split: Option.bind_split option.split)

interpretation rdU16: fixed_reader readUInt16 eqntohuint16 2
  by unfold_locales (auto simp: readUInt16_def mem_simps split: Option.bind_split option.split)

interpretation rdI16: fixed_reader readInt16 eqntohint16 2
  by unfold_locales (auto simp: readInt16_def mem_simps split: Option.bind_split option.split)

interpretation rdU32: fixed_reader readUInt32 eqntohuint32 4
  by unfold_locales (auto simp: readUInt32_def mem_simps split: Option.bind_split option.split)

lemma eqntohint32_range: "eqntohint32 m i = Some v \<Longrightarrow> sint (word_of_int v :: u32) = v"
  by (auto simp: eqntohint32_def bind_Some_iff)

interpretation rdI32: fixed_reader readInt32 eqntohint32 4
  by unfold_locales
    (auto simp: readInt32_def mem_simps dest: eqntohint32_range split: Option.bind_split option.split)

interpretation rdU16NC: fixed_reader readUInt16NC eqtohuint16 2
  by unfold_locales (auto simp: readUInt16NC_def mem_simps split: Option.bind_split option.split)

interpretation rdU32NC: fixed_reader readUInt32NC eqtohuint32 4
  by unfold_locales (auto simp: readUInt32NC_def mem_simps split: Option.bind_split option.split)

lemma skipBytes_moves [inv_intros]:
  assumes ok: "ns_ok ns"
  shows "moves ns (skipBytes n ns)"
proof (cases "take_bit 32 (ns_left ns) \<ge> int n")
  case True
  have "0 \<le> ns_left ns" using ok by (simp add: ns_ok_def ns_left_def)
  then have "take_bit 32 (ns_left ns) \<le> ns_left ns" by (simp add: take_bit_eq_mod zmod_le_nonneg_dividend)
  then have "int n \<le> ns_left ns" using True by simp
  then show ?thesis using moves_skip [OF ok] True by (simp add: skipBytes_def)
next
  case False
  then show ?thesis using ok by (simp add: skipBytes_def moves_refl)
qed

section \<open>Text\<close>

lemma text_scan_step:
  "pos < length m \<Longrightarrow> m ! pos \<noteq> 0 \<Longrightarrow> pos < lastPos \<Longrightarrow>
    text_scan m lastPos pos = text_scan m lastPos (Suc pos)"
  by (simp add: text_scan.simps [of m lastPos pos] mem_simps)

lemma text_scan_stop:
  "pos < length m \<Longrightarrow> m ! pos = 0 \<or> lastPos \<le> pos \<Longrightarrow> text_scan m lastPos pos = Some pos"
  by (auto simp: text_scan.simps [of m lastPos pos] mem_simps)

lemma text_scan_fault: "length m \<le> pos \<Longrightarrow> text_scan m lastPos pos = None"
  by (simp add: text_scan.simps [of m lastPos pos] rd8_None)

text \<open>The scan stops at the first zero byte or at the end of the stream, whatever comes first.\<close>

lemma text_scan_Some:
  assumes "text_scan m lastPos pos = Some k" "pos \<le> lastPos"
  shows "pos \<le> k \<and> k \<le> lastPos \<and> k < length m \<and> (\<forall>j. pos \<le> j \<and> j < k \<longrightarrow> m ! j \<noteq> 0)
    \<and> (k < lastPos \<longrightarrow> m ! k = 0)"
  using assms
proof (induction "lastPos - pos" arbitrary: pos)
  case 0
  then have "pos < length m" using text_scan_fault [of m pos lastPos] by fastforce
  then have "k = pos" using 0 text_scan_stop [of pos m lastPos] by simp
  then show ?case using 0 \<open>pos < length m\<close> by auto
next
  case (Suc d)
  have m: "pos < length m" using Suc.prems text_scan_fault [of m pos lastPos] by fastforce
  show ?case
  proof (cases "m ! pos = 0")
    case True
    then show ?thesis using Suc.prems m text_scan_stop [of pos m lastPos] by auto
  next
    case False
    then have "text_scan m lastPos (Suc pos) = Some k"
      using Suc m text_scan_step [of pos m lastPos] by simp
    then have "Suc pos \<le> k \<and> k \<le> lastPos \<and> k < length m
        \<and> (\<forall>j. Suc pos \<le> j \<and> j < k \<longrightarrow> m ! j \<noteq> 0) \<and> (k < lastPos \<longrightarrow> m ! k = 0)"
      using Suc.hyps(1) [of "Suc pos"] Suc.hyps(2) by simp
    moreover have "m ! j \<noteq> 0" if "pos \<le> j" "j < k" for j
      using that False calculation by (cases "j = pos") auto
    ultimately show ?thesis by auto
  qed
qed

text \<open>It returns when the text is terminated inside the stream, or when one more byte is
  readable behind the stream.\<close>

lemma text_scan_returns:
  assumes "pos \<le> lastPos" "lastPos \<le> length m"
    "lastPos < length m \<or> (\<exists>k. pos \<le> k \<and> k < lastPos \<and> m ! k = 0)"
  shows "\<exists>k. text_scan m lastPos pos = Some k"
  using assms
proof (induction "lastPos - pos" arbitrary: pos)
  case 0
  then show ?case using text_scan_stop [of pos m lastPos] by auto
next
  case (Suc d)
  have m: "pos < length m" "pos < lastPos" using Suc by auto
  show ?case
  proof (cases "m ! pos = 0")
    case True
    then show ?thesis using m text_scan_stop [of pos m lastPos] by auto
  next
    case False
    then have "lastPos < length m \<or> (\<exists>k. Suc pos \<le> k \<and> k < lastPos \<and> m ! k = 0)"
      using Suc.prems(3) by (metis Suc_leI le_neq_implies_less)
    then show ?thesis
      using Suc.hyps(1) [of "Suc pos"] Suc.hyps(2) Suc.prems m False text_scan_step by auto
  qed
qed

text \<open>An unterminated text that fills the memory makes the scan read one byte behind it.\<close>

lemma text_scan_overrun:
  assumes "pos \<le> length m" "\<forall>k. pos \<le> k \<and> k < length m \<longrightarrow> m ! k \<noteq> 0"
  shows "text_scan m (length m) pos = None"
  using assms
proof (induction "length m - pos" arbitrary: pos)
  case 0
  then show ?case by (simp add: text_scan_fault)
next
  case (Suc d)
  then show ?case
    using text_scan_step [of pos m "length m"] Suc.hyps(1) [of "Suc pos"] by auto
qed

text \<open>A terminated text is returned without its terminator, and the cursor stands behind it.\<close>

lemma readText_terminated:
  assumes "ns_ok ns" "ns_pos ns \<le> k" "k < ns_length ns" "ns_data ns ! k = 0"
    "\<forall>j. ns_pos ns \<le> j \<and> j < k \<longrightarrow> ns_data ns ! j \<noteq> 0"
  shows "readText utf8 ns =
    Some (utf8 (take (k - ns_pos ns) (drop (ns_pos ns) (ns_data ns))), ns\<lparr>ns_pos := Suc k\<rparr>)"
proof -
  have len: "ns_length ns \<le> length (ns_data ns)" using assms(1) by (simp add: ns_ok_def)
  obtain k' where k': "text_scan (ns_data ns) (ns_length ns) (ns_pos ns) = Some k'"
    using text_scan_returns [of "ns_pos ns" "ns_length ns" "ns_data ns"] assms len by auto
  have "ns_pos ns \<le> ns_length ns" using assms(1) by (simp add: ns_ok_def)
  from text_scan_Some [OF k' this] have "k' = k"
    using assms by (metis linorder_neqE_nat order.strict_trans)
  then show ?thesis using k' assms len by (simp add: readText_def mem_simps)
qed

text \<open>With one readable byte behind the stream (the CRC trailer, say) \<open>readText\<close> is a reader.\<close>

lemma readText_moves:
  assumes "ns_ok ns" "ns_length ns < length (ns_data ns)"
  shows "\<exists>s ns'. readText utf8 ns = Some (s, ns') \<and> moves ns ns'"
proof (cases "ns_pos ns < ns_length ns")
  case True
  then obtain k where k: "text_scan (ns_data ns) (ns_length ns) (ns_pos ns) = Some k"
    using text_scan_returns assms by (metis less_imp_le)
  have "ns_pos ns \<le> k \<and> k \<le> ns_length ns" using text_scan_Some [OF k] True by simp
  then show ?thesis
    using True k assms by (auto simp: readText_def mem_simps moves_def ns_ok_def)
next
  case False
  then show ?thesis using assms by (auto simp: readText_def moves_refl)
qed

lemma lptext_loop_moves:
  "ns_ok ns \<Longrightarrow> \<exists>s ns'. lptext_loop n r ns = Some (s, ns') \<and> moves ns ns'
     \<and> s = r @ map latin1 (take n (take (ns_length ns - ns_pos ns) (drop (ns_pos ns) (ns_data ns))))"
proof (induction n arbitrary: r ns)
  case 0
  then show ?case by (simp add: moves_refl)
next
  case (Suc n)
  show ?case
  proof (cases "ns_pos ns < ns_length ns")
    case True
    then have m: "ns_pos ns < length (ns_data ns)" using Suc.prems by (simp add: ns_ok_def)
    have mv: "moves ns (ns_skip 1 ns)" using moves_skip [OF Suc.prems, of 1] True by (simp add: ns_left_def)
    have "take (ns_length ns - ns_pos ns) (drop (ns_pos ns) (ns_data ns)) =
        ns_data ns ! ns_pos ns # take (ns_length ns - Suc (ns_pos ns)) (drop (Suc (ns_pos ns)) (ns_data ns))"
      using True m by (metis Cons_nth_drop_Suc Suc_diff_Suc take_Suc_Cons)
    moreover have "ns_ok (ns_skip 1 ns)" using mv by (simp add: moves_def)
    from Suc.IH [OF this, of "r @ [latin1 (ns_data ns ! ns_pos ns)]"] obtain s ns' where
      "lptext_loop n (r @ [latin1 (ns_data ns ! ns_pos ns)]) (ns_skip 1 ns) = Some (s, ns')"
      "moves (ns_skip 1 ns) ns'"
      "s = (r @ [latin1 (ns_data ns ! ns_pos ns)]) @ map latin1 (take n
         (take (ns_length ns - Suc (ns_pos ns)) (drop (Suc (ns_pos ns)) (ns_data ns))))" by auto
    ultimately show ?thesis using True m mv by (auto simp: mem_simps intro: moves_trans)
  next
    case False
    then show ?thesis using Suc.prems by (simp add: moves_refl)
  qed
qed

interpretation rdLPText: ns_reader readLPText
proof
  fix ns assume "ns_ok ns"
  then obtain v ns1 where 1: "readUInt32NC ns = Some (v, ns1)" "moves ns ns1"
    using rdU32NC.total by blast
  then have "ns_ok ns1" by (simp add: moves_def)
  then obtain s ns' where "lptext_loop (unat v) [] ns1 = Some (s, ns')" "moves ns1 ns'"
    using lptext_loop_moves by blast
  then show "\<exists>v ns'. readLPText ns = Some (v, ns') \<and> moves ns ns'"
    using 1 by (auto simp: readLPText_def intro: moves_trans)
qed

section \<open>Sequences of reads\<close>

text \<open>What a packet handler does to its stream: any sequence of the operations of the class.\<close>

datatype ns_op = OpU8 | OpI8 | OpU16 | OpI16 | OpU32 | OpI32 | OpU16NC | OpU32NC | OpText | OpLPText
  | OpSkip nat | OpReset

definition dropped :: "('a \<times> netstream) option \<Rightarrow> netstream option" where
  "dropped r = map_option snd r"

fun ns_step :: "(bytes \<Rightarrow> string) \<Rightarrow> ns_op \<Rightarrow> netstream \<Rightarrow> netstream option" where
  "ns_step utf8 OpU8 ns = dropped (readUInt8 ns)"
| "ns_step utf8 OpI8 ns = dropped (readInt8 ns)"
| "ns_step utf8 OpU16 ns = dropped (readUInt16 ns)"
| "ns_step utf8 OpI16 ns = dropped (readInt16 ns)"
| "ns_step utf8 OpU32 ns = dropped (readUInt32 ns)"
| "ns_step utf8 OpI32 ns = dropped (readInt32 ns)"
| "ns_step utf8 OpU16NC ns = dropped (readUInt16NC ns)"
| "ns_step utf8 OpU32NC ns = dropped (readUInt32NC ns)"
| "ns_step utf8 OpText ns = dropped (readText utf8 ns)"
| "ns_step utf8 OpLPText ns = dropped (readLPText ns)"
| "ns_step utf8 (OpSkip n) ns = Some (skipBytes n ns)"
| "ns_step utf8 OpReset ns = Some (ns_reset ns)"

fun ns_run :: "(bytes \<Rightarrow> string) \<Rightarrow> ns_op list \<Rightarrow> netstream \<Rightarrow> netstream option" where
  "ns_run utf8 [] ns = Some ns"
| "ns_run utf8 (x # xs) ns = do { ns1 \<leftarrow> ns_step utf8 x ns; ns_run utf8 xs ns1 }"

definition same_stream :: "netstream \<Rightarrow> netstream \<Rightarrow> bool" where
  "same_stream ns ns' \<longleftrightarrow> ns_data ns' = ns_data ns \<and> ns_length ns' = ns_length ns \<and> ns_ok ns'"

lemma moves_same: "moves ns ns' \<Longrightarrow> same_stream ns ns'"
  by (simp add: moves_def same_stream_def)

lemma dropped_same:
  "\<exists>v ns'. r = Some (v, ns') \<and> moves ns ns' \<Longrightarrow> \<exists>ns'. dropped r = Some ns' \<and> same_stream ns ns'"
  by (auto simp: dropped_def dest: moves_same)

lemma ns_step_safe:
  assumes "ns_ok ns" "x = OpText \<Longrightarrow> ns_length ns < length (ns_data ns)"
  shows "\<exists>ns'. ns_step utf8 x ns = Some ns' \<and> same_stream ns ns'"
proof (cases x)
  case OpReset
  then show ?thesis using assms by (simp add: same_stream_def ns_ok_reset) (simp add: ns_reset_def)
next
  case (OpSkip n)
  then show ?thesis using assms by (simp add: moves_same skipBytes_moves)
next
  case OpText
  then show ?thesis using dropped_same [OF readText_moves] assms by simp
qed (simp_all add: dropped_same assms rdU8.total rdI8.total rdU16.total rdI16.total rdU32.total
      rdI32.total rdU16NC.total rdU32NC.total rdLPText.total)

lemma ns_run_safe:
  "ns_ok ns \<Longrightarrow> OpText \<in> set xs \<longrightarrow> ns_length ns < length (ns_data ns) \<Longrightarrow>
    \<exists>ns'. ns_run utf8 xs ns = Some ns' \<and> same_stream ns ns'"
proof (induction xs arbitrary: ns)
  case Nil
  then show ?case by (simp add: same_stream_def)
next
  case (Cons x xs)
  obtain ns1 where 1: "ns_step utf8 x ns = Some ns1" "same_stream ns ns1"
    using ns_step_safe [of ns x utf8] Cons.prems by auto
  then obtain ns2 where "ns_run utf8 xs ns1 = Some ns2" "same_stream ns1 ns2"
    using Cons.IH [of ns1] Cons.prems by (auto simp: same_stream_def)
  then show ?case using 1 by (auto simp: same_stream_def)
qed

section \<open>Messages written field by field\<close>

text \<open>The fields a server writes, in network order, and the reads that take them apart.\<close>

datatype field = F8 u8 | F16 u16 | F32 u32 | FText bytes | FLPText bytes

fun enc_field :: "field \<Rightarrow> bytes" where
  "enc_field (F8 v) = [v]"
| "enc_field (F16 v) = rev (le_bytes 2 v)"
| "enc_field (F32 v) = rev (le_bytes 4 v)"
| "enc_field (FText t) = t @ [0]"
| "enc_field (FLPText t) = le_bytes 4 (of_nat (length t) :: u32) @ t"

fun field_ok :: "field \<Rightarrow> bool" where
  "field_ok (FText t) \<longleftrightarrow> 0 \<notin> set t"
| "field_ok (FLPText t) \<longleftrightarrow> length t < 2 ^ 32"
| "field_ok _ \<longleftrightarrow> True"

datatype fvalue = V8 u8 | V16 u16 | V32 u32 | VText string

fun field_value :: "(bytes \<Rightarrow> string) \<Rightarrow> field \<Rightarrow> fvalue" where
  "field_value utf8 (F8 v) = V8 v"
| "field_value utf8 (F16 v) = V16 v"
| "field_value utf8 (F32 v) = V32 v"
| "field_value utf8 (FText t) = VText (utf8 t)"
| "field_value utf8 (FLPText t) = VText (map latin1 t)"

definition tag :: "('a \<Rightarrow> 'b) \<Rightarrow> ('a \<times> netstream) option \<Rightarrow> ('b \<times> netstream) option" where
  "tag f r = map_option (\<lambda>(v, ns). (f v, ns)) r"

text \<open>Reads a field of the kind of its first argument.\<close>

fun read_field :: "(bytes \<Rightarrow> string) \<Rightarrow> field \<Rightarrow> netstream \<Rightarrow> (fvalue \<times> netstream) option" where
  "read_field utf8 (F8 _) ns = tag V8 (readUInt8 ns)"
| "read_field utf8 (F16 _) ns = tag V16 (readUInt16 ns)"
| "read_field utf8 (F32 _) ns = tag V32 (readUInt32 ns)"
| "read_field utf8 (FText _) ns = tag VText (readText utf8 ns)"
| "read_field utf8 (FLPText _) ns = tag VText (readLPText ns)"

fun read_fields :: "(bytes \<Rightarrow> string) \<Rightarrow> field list \<Rightarrow> netstream \<Rightarrow> (fvalue list \<times> netstream) option" where
  "read_fields utf8 [] ns = Some ([], ns)"
| "read_fields utf8 (f # fs) ns = do {
     (v, ns1) \<leftarrow> read_field utf8 f ns;
     (vs, ns2) \<leftarrow> read_fields utf8 fs ns1;
     Some (v # vs, ns2) }"

text \<open>The cursor stands before the bytes \<open>bs\<close> of the stream.\<close>

definition ahead :: "netstream \<Rightarrow> bytes \<Rightarrow> bool" where
  "ahead ns bs \<longleftrightarrow> ns_ok ns \<and> ns_pos ns + length bs \<le> ns_length ns
     \<and> take (length bs) (drop (ns_pos ns) (ns_data ns)) = bs"

lemma ahead_append:
  assumes "ahead ns (xs @ ys)"
  shows "ahead ns xs" "ahead (ns_skip (length xs) ns) ys"
proof -
  let ?d = "drop (ns_pos ns) (ns_data ns)"
  have t: "take (length xs + length ys) ?d = xs @ ys" using assms by (simp add: ahead_def)
  have "take (length xs) (take (length xs + length ys) ?d) = xs" by (simp only: t) simp
  then show "ahead ns xs" using assms by (simp add: ahead_def)
  have "drop (length xs) (take (length xs + length ys) ?d) = ys" by (simp only: t) simp
  then show "ahead (ns_skip (length xs) ns) ys"
    using assms by (simp add: ahead_def drop_take ns_ok_def ac_simps)
qed

lemma fixed_ahead:
  assumes "ahead ns bs" "fixed_reader rd get (length bs)" "get (ns_data ns) (ns_pos ns) = Some v"
  shows "rd ns = Some (v, ns_skip (length bs) ns)"
  using fixed_reader.value_read [OF assms(2), of ns] assms(1,3) by (auto simp: ahead_def)

lemma ahead_readable: "ahead ns bs \<Longrightarrow> ns_pos ns + length bs \<le> length (ns_data ns)"
  by (simp add: ahead_def ns_ok_def)

lemma be_word_rev_le: "LENGTH('a::len) = 8 * n \<Longrightarrow> be_word (rev (le_bytes n (w :: 'a word))) = w"
  by (simp add: be_word_def le_word_le_bytes)

lemma read_u8_ahead: "ahead ns [v] \<Longrightarrow> readUInt8 ns = Some (v, ns_skip 1 ns)"
  using fixed_ahead [of ns "[v]" readUInt8 rd8 v] rdU8.fixed_reader_axioms ahead_readable [of ns "[v]"]
  by (simp add: ahead_def mem_simps take_Suc hd_drop_conv_nth)

lemma read_u16_ahead: "ahead ns (rev (le_bytes 2 v)) \<Longrightarrow> readUInt16 ns = Some (v, ns_skip 2 ns)"
  using fixed_ahead [of ns "rev (le_bytes 2 v)" readUInt16 eqntohuint16 v] rdU16.fixed_reader_axioms
    ahead_readable [of ns "rev (le_bytes 2 v)"] be_word_rev_le [where n = 2 and w = v]
  by (simp add: ahead_def eqntohuint16_Some del: le_bytes.simps)

lemma read_u32_ahead: "ahead ns (rev (le_bytes 4 v)) \<Longrightarrow> readUInt32 ns = Some (v, ns_skip 4 ns)"
  using fixed_ahead [of ns "rev (le_bytes 4 v)" readUInt32 eqntohuint32 v] rdU32.fixed_reader_axioms
    ahead_readable [of ns "rev (le_bytes 4 v)"] be_word_rev_le [where n = 4 and w = v]
  by (simp add: ahead_def eqntohuint32_Some del: le_bytes.simps)

lemma read_u32nc_ahead: "ahead ns (le_bytes 4 v) \<Longrightarrow> readUInt32NC ns = Some (v, ns_skip 4 ns)"
  using fixed_ahead [of ns "le_bytes 4 v" readUInt32NC eqtohuint32 v] rdU32NC.fixed_reader_axioms
    ahead_readable [of ns "le_bytes 4 v"] le_word_le_bytes [where n = 4 and w = v]
  by (simp add: ahead_def eqtohuint32_Some del: le_bytes.simps)

lemma read_text_ahead:
  assumes a: "ahead ns (t @ [0])" and z: "0 \<notin> set t"
  shows "readText utf8 ns = Some (utf8 t, ns_skip (length t + 1) ns)"
proof -
  let ?p = "ns_pos ns" and ?d = "ns_data ns"
  have d: "take (length t + 1) (drop ?p ?d) = t @ [0]" and ok: "ns_ok ns" and le: "?p + length t < ns_length ns"
    using a by (simp_all add: ahead_def)
  have n: "?d ! (?p + j) = (t @ [0]) ! j" if "j \<le> length t" for j
  proof -
    have "take (length t + 1) (drop ?p ?d) ! j = ?d ! (?p + j)"
      using that le ok by (simp add: ns_ok_def)
    then show ?thesis by (simp only: d)
  qed
  have z1: "?d ! j \<noteq> 0" if "?p \<le> j" "j < ?p + length t" for j
  proof -
    have "?d ! j = t ! (j - ?p)" using n [of "j - ?p"] that by (simp add: nth_append less_diff_conv2)
    moreover have "t ! (j - ?p) \<in> set t" using that by simp
    ultimately show ?thesis using z by metis
  qed
  have z0: "?d ! (?p + length t) = 0" using n [of "length t"] by simp
  have "take (length t) (take (length t + 1) (drop ?p ?d)) = t" by (simp only: d) simp
  then have "take (length t) (drop ?p ?d) = t" by simp
  then show ?thesis
    using readText_terminated [OF ok, of "?p + length t" utf8] le z0 z1 by (simp add: ns_skip_def)
qed

lemma read_lptext_ahead:
  assumes a: "ahead ns (le_bytes 4 (of_nat (length t) :: u32) @ t)" and l: "length t < 2 ^ 32"
  shows "readLPText ns = Some (map latin1 t, ns_skip (4 + length t) ns)"
proof -
  let ?l = "le_bytes 4 (of_nat (length t) :: u32)"
  let ?n = "ns_skip 4 ns"
  have len: "unat (of_nat (length t) :: u32) = length t" using l by (simp add: unat_of_nat)
  have r: "readUInt32NC ns = Some (of_nat (length t), ?n)"
    by (rule read_u32nc_ahead [OF ahead_append(1) [OF a]])
  have h: "ahead ?n t" using ahead_append(2) [OF a] by (simp del: le_bytes.simps)
  have loop: "ahead ns2 t2 \<Longrightarrow>
      lptext_loop (length t2) r ns2 = Some (r @ map latin1 t2, ns_skip (length t2) ns2)" for t2 r ns2
  proof (induction t2 arbitrary: r ns2)
    case Nil
    then show ?case by (simp add: ns_skip_def)
  next
    case (Cons c t2)
    have b: "rd8 (ns_data ns2) (ns_pos ns2) = Some c" "ns_pos ns2 < ns_length ns2"
      using Cons.prems ahead_readable [OF Cons.prems]
      by (auto simp: ahead_def rd8_def take_Suc hd_drop_conv_nth)
    have "ahead (ns_skip 1 ns2) t2" using ahead_append(2) [of ns2 "[c]" t2] Cons.prems by simp
    then show ?case using Cons.IH b by (simp add: ns_skip_def)
  qed
  show ?thesis using r loop [OF h, of "[]"] len by (simp add: readLPText_def ns_skip_def)
qed

lemma read_field_ahead:
  assumes "ahead ns (enc_field f @ rest)" "field_ok f"
  shows "read_field utf8 f ns = Some (field_value utf8 f, ns_skip (length (enc_field f)) ns)"
proof (cases f)
  case (FText t)
  then show ?thesis using read_text_ahead ahead_append(1) [OF assms(1)] assms(2) by (simp add: tag_def)
next
  case (FLPText t)
  then show ?thesis using read_lptext_ahead ahead_append(1) [OF assms(1)] assms(2)
    by (simp add: tag_def del: le_bytes.simps)
qed (use ahead_append(1) [OF assms(1)] in
  \<open>simp_all add: tag_def read_u8_ahead read_u16_ahead read_u32_ahead del: le_bytes.simps\<close>)

lemma read_fields_ahead:
  "ahead ns (concat (map enc_field fs)) \<Longrightarrow> list_all field_ok fs \<Longrightarrow>
    read_fields utf8 fs ns =
      Some (map (field_value utf8) fs, ns_skip (length (concat (map enc_field fs))) ns)"
proof (induction fs arbitrary: ns)
  case Nil
  then show ?case by (simp add: ns_skip_def)
next
  case (Cons f fs)
  have a: "ahead ns (enc_field f @ concat (map enc_field fs))" using Cons.prems by simp
  have 1: "read_field utf8 f ns = Some (field_value utf8 f, ns_skip (length (enc_field f)) ns)"
    by (rule read_field_ahead [OF a]) (use Cons.prems in simp)
  show ?case
    using Cons.IH [OF ahead_append(2) [OF a]] Cons.prems 1 by (simp add: ns_skip_def add.assoc)
qed

section \<open>Properties\<close>

text \<open>C8: handlers cannot drive the stream out of bounds. Whatever sequence of reads, skips and resets
  is made on a stream over readable memory, every operation returns, the stream stays on its
  memory and the cursor stays inside it, provided that when readText is among the operations
  one byte behind the stream is readable (the checksum of a packet).\<close>

theorem netstream_ops_safe:
  assumes "ns_ok ns" "OpText \<in> set ops \<longrightarrow> ns_length ns < length (ns_data ns)"
  shows "\<exists>ns'. ns_run utf8 ops ns = Some ns' \<and> ns_data ns' = ns_data ns
    \<and> ns_length ns' = ns_length ns \<and> ns_pos ns' \<le> ns_length ns'"
  using ns_run_safe [OF assms, of utf8] by (auto simp: same_stream_def ns_ok_def)

theorem netstream_ops_safe_witness:
  "\<exists>ns'. ns_run (map latin1) [OpU16, OpText, OpU32, OpReset, OpSkip 3] (mkNetStream [1, 2, 65, 66, 9] 4)
     = Some ns' \<and> ns_pos ns' \<le> 4"
  using netstream_ops_safe [of "mkNetStream [1, 2, 65, 66, 9] 4" "[OpU16, OpText, OpU32, OpReset, OpSkip 3]"
      "map latin1"]
  by (auto simp: ns_ok_def mkNetStream_def)

text \<open>message round trip. A message written field by field (8-, 16- and 32-bit numbers in network
  order, zero-terminated and length-prefixed texts) is read back field by field with the values
  that were written, and the cursor then stands exactly behind it, whatever follows.\<close>

theorem netstream_reads_what_was_written:
  assumes "list_all field_ok fs"
  shows "read_fields utf8 fs (mkNetStream (concat (map enc_field fs) @ rest)
      (length (concat (map enc_field fs) @ rest))) =
    Some (map (field_value utf8) fs, \<lparr>ns_data = concat (map enc_field fs) @ rest,
      ns_length = length (concat (map enc_field fs) @ rest), ns_pos = length (concat (map enc_field fs))\<rparr>)"
proof -
  let ?bs = "concat (map enc_field fs)"
  have "ahead (mkNetStream (?bs @ rest) (length (?bs @ rest))) ?bs"
    by (simp add: ahead_def mkNetStream_def ns_ok_def)
  from read_fields_ahead [OF this assms] show ?thesis by (simp add: mkNetStream_def ns_skip_def)
qed

theorem netstream_reads_what_was_written_witness:
  "map_option fst (read_fields (map latin1) [F16 0x1234, FText [65, 66], FLPText [0, 67], F32 9]
     (mkNetStream [0x12, 0x34, 65, 66, 0, 2, 0, 0, 0, 0, 67, 0, 0, 0, 9] 15))
   = Some [V16 0x1234, VText ''AB'', VText [CHR 0x00, CHR ''C''], V32 9]"
proof -
  let ?fs = "[F16 0x1234, FText [65, 66], FLPText [0, 67], F32 9]"
  have e: "concat (map enc_field ?fs) = [0x12, 0x34, 65, 66, 0, 2, 0, 0, 0, 0, 67, 0, 0, 0, 9]"
    by code_simp
  have v: "map (field_value (map latin1)) ?fs = [V16 0x1234, VText ''AB'', VText [CHR 0x00, CHR ''C''], V32 9]"
    by (simp add: latin1_def char_of_eq_iff)
  have "list_all field_ok ?fs" by simp
  note r = netstream_reads_what_was_written [OF this, of "map latin1" "[]", unfolded e v append_Nil2]
  have l: "length [0x12, 0x34, 65, 66, 0, 2, 0, 0, 0, 0, 67, 0, 0, 0, 9 :: u8] = 15" by simp
  show ?thesis by (simp only: r [unfolded l] option.map fst_conv)
qed

text \<open>readText reads past its stream. On a stream that fills its memory and whose text has no
  terminating zero byte, the loop tests the byte before the bound and reads one byte behind the
  end of the memory.\<close>

theorem readText_overread:
  assumes "ns_length ns = length (ns_data ns)" "ns_pos ns < ns_length ns"
    "0 \<notin> set (drop (ns_pos ns) (ns_data ns))"
  shows "readText utf8 ns = None"
proof -
  have "\<forall>k. ns_pos ns \<le> k \<and> k < length (ns_data ns) \<longrightarrow> ns_data ns ! k \<noteq> 0"
  proof (intro allI impI)
    fix k assume k: "ns_pos ns \<le> k \<and> k < length (ns_data ns)"
    then have "drop (ns_pos ns) (ns_data ns) ! (k - ns_pos ns) = ns_data ns ! k"
      and "k - ns_pos ns < length (drop (ns_pos ns) (ns_data ns))" by auto
    then have "ns_data ns ! k \<in> set (drop (ns_pos ns) (ns_data ns))" by (metis nth_mem)
    then show "ns_data ns ! k \<noteq> 0" using assms(3) by metis
  qed
  then show ?thesis using text_scan_overrun [of "ns_pos ns" "ns_data ns"] assms(1,2)
    by (simp add: readText_def)
qed

theorem readText_overread_witness:
  "readText (map latin1) (mkNetStream [65, 66] 2) = None"
  by (rule readText_overread) code_simp+

end
