(* ===== verification/BitStream.thy ===== *)
theory BitStream
  imports NetStream
begin

text \<open>
  The bit cursor of \<open>src/src/netstream.cpp\<close>: fields that are not byte aligned, most significant
  bit first. \<open>size_t\<close> arithmetic is written with its wrap-around at 2 to the 64; the shifts on the
  \<open>uint32_t\<close> accumulator are those of 32-bit words.
\<close>

record bitstream =
  bs_data :: bytes
  bs_totalBits :: nat
  bs_currentBit :: nat

definition size_t :: "nat \<Rightarrow> nat" where
  "size_t n = n mod 2 ^ 64"

definition mkBitStream :: "bytes \<Rightarrow> nat \<Rightarrow> bitstream" where
  "mkBitStream d len = \<lparr>bs_data = d, bs_totalBits = size_t (len * 8), bs_currentBit = 0\<rparr>"

definition bs_reset :: "bitstream \<Rightarrow> bitstream" where
  "bs_reset b = b\<lparr>bs_currentBit := 0\<rparr>"

definition bs_end :: "bitstream \<Rightarrow> bool" where
  "bs_end b \<longleftrightarrow> bs_currentBit b \<ge> bs_totalBits b"

text \<open>The loop over the whole bytes in the middle of a field.\<close>

fun middle_loop :: "bytes \<Rightarrow> nat \<Rightarrow> u32 \<Rightarrow> nat \<Rightarrow> (u32 \<times> nat) option" where
  "middle_loop m 0 out cb = Some (out, cb)"
| "middle_loop m (Suc n) out cb =
     do { v \<leftarrow> rd8 m cb; middle_loop m n (push_bit 8 out OR ucast v) (Suc cb) }"

text \<open>The number of bits left in a partly consumed byte, 0 at a byte boundary.\<close>

definition lead_bits :: "nat \<Rightarrow> nat" where
  "lead_bits currentBit = (let lead0 = 8 - currentBit mod 8 in if lead0 = 8 then 0 else lead0)"

text \<open>The field that spans bytes: a partial byte, whole bytes, a partial byte.\<close>

definition read_lead :: "bytes \<Rightarrow> nat \<Rightarrow> nat \<Rightarrow> (u32 \<times> nat) option" where
  "read_lead m currentByte lead =
     (if lead > 0
      then do { v \<leftarrow> rd8 m currentByte; Some (ucast v AND mask lead, Suc currentByte) }
      else Some (0, currentByte))"

definition read_tail :: "bytes \<Rightarrow> nat \<Rightarrow> nat \<Rightarrow> u32 \<Rightarrow> u32 option" where
  "read_tail m currentByte tailBits out =
     (if tailBits > 0
      then do { v \<leftarrow> rd8 m currentByte;
                Some (push_bit tailBits out OR drop_bit (8 - tailBits) (ucast v)) }
      else Some out)"

definition read_span :: "bytes \<Rightarrow> nat \<Rightarrow> nat \<Rightarrow> nat \<Rightarrow> u32 option" where
  "read_span m currentByte lead bitCount =
     (let middle = (bitCount - lead) div 8;
          tailBits = bitCount - (lead + middle * 8)
      in do {
        (out1, cb1) \<leftarrow> read_lead m currentByte lead;
        (out2, cb2) \<leftarrow> middle_loop m middle out1 cb1;
        read_tail m cb2 tailBits out2
      })"

definition readUInt :: "bitstream \<Rightarrow> nat \<Rightarrow> (u32 \<times> bitstream) option" where
  "readUInt b bitCount =
     (if size_t (bs_currentBit b + bitCount) > bs_totalBits b then Some (0, b)
      else
        let currentByte = bs_currentBit b div 8;
            lead = lead_bits (bs_currentBit b);
            b' = b\<lparr>bs_currentBit := size_t (bs_currentBit b + bitCount)\<rparr>
        in if lead > bitCount
           then do {
             v \<leftarrow> rd8 (bs_data b) currentByte;
             let out = (ucast v AND mask lead :: u32);
             Some (drop_bit (lead - bitCount) out, b')
           }
           else do {
             out \<leftarrow> read_span (bs_data b) currentByte lead bitCount;
             Some (out, b')
           })"

text \<open>\<open>retval * (sign ? -1 : 1)\<close> is a product of \<open>uint32_t\<close> values, read back as \<open>int32_t\<close>.\<close>

definition readInt :: "bitstream \<Rightarrow> nat \<Rightarrow> (int \<times> bitstream) option" where
  "readInt b bitCount = do {
     (sign, b1) \<leftarrow> readUInt b 1;
     (retval, b2) \<leftarrow> readUInt b1 (size_t (bitCount + (2 ^ 64 - 1)));
     Some (sint (retval * (if sign \<noteq> 0 then - 1 else 1) :: u32), b2)
   }"

section \<open>The reference reading\<close>

text \<open>Bit \<open>k\<close> of the data, counting from the most significant bit of the first byte, and the
  number that \<open>n\<close> bits from \<open>k\<close> on denote.\<close>

definition bit_at :: "bytes \<Rightarrow> nat \<Rightarrow> bool" where
  "bit_at m k = bit (m ! (k div 8)) (7 - k mod 8)"

fun bits_value :: "bytes \<Rightarrow> nat \<Rightarrow> nat \<Rightarrow> u32" where
  "bits_value m k 0 = 0"
| "bits_value m k (Suc n) = push_bit 1 (bits_value m k n) OR of_bool (bit_at m (k + n))"

lemma bit_shift_in:
  "bit (push_bit 1 w OR of_bool c :: u32) p \<longleftrightarrow> p < 32 \<and> (if p = 0 then c else bit w (p - 1))"
  by (simp only: bit_or_iff bit_push_bit_iff bit_of_bool_iff possible_bit_word) auto

lemma bit_bits_value:
  "bit (bits_value m k n) p \<longleftrightarrow> p < 32 \<and> p < n \<and> bit_at m (k + n - 1 - p)"
proof (induction n arbitrary: p)
  case 0
  then show ?case by simp
next
  case (Suc n)
  have "bit (bits_value m k (Suc n)) p \<longleftrightarrow>
      p < 32 \<and> (if p = 0 then bit_at m (k + n) else bit (bits_value m k n) (p - 1))"
    unfolding bits_value.simps bit_shift_in ..
  also have "\<dots> \<longleftrightarrow> p < 32 \<and> p < Suc n \<and> bit_at m (k + Suc n - 1 - p)"
  proof (cases p)
    case 0
    then show ?thesis by simp
  next
    case (Suc q)
    have "bit (bits_value m k n) q \<longleftrightarrow> q < 32 \<and> q < n \<and> bit_at m (k + n - 1 - q)"
      by (rule Suc.IH)
    then show ?thesis using Suc by auto
  qed
  finally show ?case .
qed

text \<open>A field of \<open>n\<close> bits inside one byte.\<close>

lemma bits_value_in_byte:
  assumes "j + n \<le> 8" "k = 8 * i + j"
  shows "bits_value m k n = ucast (take_bit n (drop_bit (8 - j - n) (m ! i)))"
proof (rule bit_word_eqI)
  fix p assume "p < LENGTH(32)"
  have "p < n \<Longrightarrow> (k + n - 1 - p) div 8 = i \<and> (k + n - 1 - p) mod 8 = j + n - 1 - p"
  proof -
    assume "p < n"
    then have "k + n - 1 - p = 8 * i + (j + n - 1 - p)" "j + n - 1 - p < 8" using assms by auto
    then show ?thesis by simp
  qed
  then show "bit (bits_value m k n) p \<longleftrightarrow>
      bit (ucast (take_bit n (drop_bit (8 - j - n) (m ! i))) :: u32) p"
    using assms \<open>p < LENGTH(32)\<close>
    by (auto simp: bit_bits_value bit_simps bit_at_def)
qed

lemma bits_value_append:
  "bits_value m k (n + l) = push_bit l (bits_value m k n) OR bits_value m (k + n) l"
proof (rule bit_word_eqI)
  fix p assume "p < LENGTH(32)"
  then show "bit (bits_value m k (n + l)) p \<longleftrightarrow>
      bit (push_bit l (bits_value m k n) OR bits_value m (k + n) l) p"
    by (cases "p < l") (auto simp: bit_bits_value bit_simps add.assoc Suc_diff_le)
qed

lemma middle_loop_value:
  assumes "cb + n \<le> length m"
  shows "middle_loop m n out cb =
    Some (push_bit (8 * n) out OR bits_value m (8 * cb) (8 * n), cb + n)"
  using assms
proof (induction n arbitrary: out cb)
  case 0
  then show ?case by simp
next
  case (Suc n)
  have "bits_value m (8 * cb) (8 * Suc n) =
      push_bit (8 * n) (bits_value m (8 * cb) 8) OR bits_value m (8 * Suc cb) (8 * n)"
    using bits_value_append [of m "8 * cb" 8 "8 * n"] by (simp add: algebra_simps)
  moreover have "bits_value m (8 * cb) 8 = ucast (m ! cb)"
    by (subst bits_value_in_byte [where i = cb and j = 0]) (auto simp: take_bit_word_eq_self)
  ultimately show ?case
    using Suc by (simp add: mem_simps push_bit_or ac_simps)
qed

text \<open>A whole read: the pieces of the source (a partial leading byte, whole bytes, a partial
  trailing byte) add up to the reference reading.\<close>

definition bs_ok :: "bitstream \<Rightarrow> bool" where
  "bs_ok b \<longleftrightarrow> bs_currentBit b \<le> bs_totalBits b \<and> bs_totalBits b \<le> 8 * length (bs_data b)
     \<and> bs_totalBits b < 2 ^ 64"

lemma bs_ok_mkBitStream [inv_intros]:
  "len \<le> length d \<Longrightarrow> bs_ok (mkBitStream d len)"
  by (simp add: bs_ok_def mkBitStream_def size_t_def)

lemma lead_bits_cases:
  obtains (aligned) "lead_bits k = 0" "k mod 8 = 0"
  | (partial) "lead_bits k = 8 - k mod 8" "0 < k mod 8" "0 < lead_bits k"
proof (cases "k mod 8 = 0")
  case True
  then show thesis using aligned by (simp add: lead_bits_def)
next
  case False
  then have "lead_bits k = 8 - k mod 8" unfolding lead_bits_def Let_def by auto
  then show thesis using partial False by (simp add: less_diff_conv)
qed

lemma read_lead_value:
  assumes "k div 8 < length m \<or> lead_bits k = 0"
  shows "read_lead m (k div 8) (lead_bits k) =
    Some (bits_value m k (lead_bits k), (k + lead_bits k) div 8) \<and> (k + lead_bits k) mod 8 = 0"
proof (cases k rule: lead_bits_cases)
  case aligned
  then show ?thesis by (simp add: read_lead_def)
next
  case partial
  have k: "k = 8 * (k div 8) + k mod 8" by simp
  have e: "k + lead_bits k = 8 * Suc (k div 8)" using partial(1) by presburger
  have "bits_value m k (lead_bits k) = ucast (take_bit (lead_bits k) (m ! (k div 8)))"
    using partial k by (subst bits_value_in_byte [where i = "k div 8" and j = "k mod 8"]) auto
  moreover have "(ucast (m ! (k div 8)) AND mask (lead_bits k) :: u32) =
      ucast (take_bit (lead_bits k) (m ! (k div 8)))"
    by (rule bit_word_eqI) (auto simp: bit_simps)
  ultimately show ?thesis using partial assms unfolding e
    by (auto simp: read_lead_def mem_simps)
qed

lemma read_tail_value:
  assumes "tb < 8" "0 < tb \<Longrightarrow> cb < length m" "k + n = 8 * cb"
  shows "read_tail m cb tb (bits_value m k n) = Some (bits_value m k (n + tb))"
proof (cases "tb = 0")
  case True
  then show ?thesis by (simp add: read_tail_def)
next
  case False
  have "bits_value m (k + n) tb = ucast (take_bit tb (drop_bit (8 - tb) (m ! cb)))"
    using assms by (subst bits_value_in_byte [where i = cb and j = 0]) auto
  also have "\<dots> = drop_bit (8 - tb) (ucast (m ! cb))"
  proof (rule bit_word_eqI)
    fix p
    have "bit (m ! cb) (8 - tb + p) \<Longrightarrow> p < tb"
      using bit_imp_le_length [of "m ! cb" "8 - tb + p"] assms(1) by simp
    then show "bit (ucast (take_bit tb (drop_bit (8 - tb) (m ! cb))) :: u32) p \<longleftrightarrow>
        bit (drop_bit (8 - tb) (ucast (m ! cb)) :: u32) p"
      by (auto simp: bit_simps dest: bit_imp_le_length)
  qed
  finally show ?thesis using False assms by (simp add: read_tail_def mem_simps bits_value_append)
qed

lemma read_span_value:
  assumes len: "k + n \<le> 8 * length m" and lead: "lead_bits k \<le> n"
  shows "read_span m (k div 8) (lead_bits k) n = Some (bits_value m k n)"
proof -
  define l mid tb i where "l = lead_bits k" and "mid = (n - l) div 8" and "tb = n - (l + mid * 8)"
    and "i = (k + l) div 8"
  have "l \<le> n" using lead by (simp add: l_def)
  then have n: "n = (l + 8 * mid) + tb" "tb < 8" unfolding tb_def mid_def by presburger+
  have "k div 8 < length m \<or> l = 0"
  proof (cases k rule: lead_bits_cases)
    case aligned
    then show ?thesis by (simp add: l_def)
  next
    case partial
    then have "k < 8 * length m" using len lead by linarith
    then show ?thesis by (simp add: less_mult_imp_div_less mult.commute)
  qed
  then have 1: "read_lead m (k div 8) l = Some (bits_value m k l, i)" and al: "k + l = 8 * i"
    using read_lead_value [of k m] by (auto simp: l_def i_def)
  have "i + mid \<le> length m" using len n al by linarith
  then have 2: "middle_loop m mid (bits_value m k l) i = Some (bits_value m k (l + 8 * mid), i + mid)"
    using al by (simp add: middle_loop_value bits_value_append)
  have 3: "read_tail m (i + mid) tb (bits_value m k (l + 8 * mid)) = Some (bits_value m k n)"
  proof -
    have "0 < tb \<Longrightarrow> i + mid < length m" using len n al by linarith
    moreover have "k + (l + 8 * mid) = 8 * (i + mid)" using al by simp
    ultimately show ?thesis using read_tail_value [OF n(2)] by (simp only: n(1) [symmetric])
  qed
  have "read_span m (k div 8) l n = do { (out1, cb1) \<leftarrow> read_lead m (k div 8) l;
      (out2, cb2) \<leftarrow> middle_loop m mid out1 cb1; read_tail m cb2 tb out2 }"
    unfolding read_span_def Let_def mid_def tb_def ..
  also have "\<dots> = Some (bits_value m k n)" by (simp only: 1 2 3 bind.bind_lunit prod.case)
  finally show ?thesis by (simp only: l_def)
qed

lemma field_in_byte:
  "n \<le> r \<Longrightarrow> ucast (take_bit n (drop_bit (r - n) x)) = drop_bit (r - n) (ucast x AND mask r :: u32)"
  for x :: u8
  by (rule bit_word_eqI) (auto simp: bit_simps dest: bit_imp_le_length)

lemma readUInt_reference:
  assumes ok: "bs_ok b" and fits: "bs_currentBit b + n \<le> bs_totalBits b"
  shows "readUInt b n = Some (bits_value (bs_data b) (bs_currentBit b) n,
           b\<lparr>bs_currentBit := bs_currentBit b + n\<rparr>)"
proof -
  let ?k = "bs_currentBit b" let ?m = "bs_data b"
  have sz: "size_t (?k + n) = ?k + n" using ok fits by (simp add: size_t_def bs_ok_def)
  have len: "?k + n \<le> 8 * length ?m" using ok fits by (simp add: bs_ok_def)
  show ?thesis
  proof (cases "lead_bits ?k > n")
    case True
    obtain l: "lead_bits ?k = 8 - ?k mod 8" "0 < ?k mod 8"
      by (rule lead_bits_cases [of ?k]) (use True in simp_all)
    have "?k \<noteq> 8 * length ?m" using l(2) by (metis mod_mult_self1_is_0 less_irrefl)
    then have "?k < 8 * length ?m" using len by linarith
    then have i: "?k div 8 < length ?m" by (simp add: less_mult_imp_div_less mult.commute)
    have k: "?k mod 8 + n \<le> 8" "?k = 8 * (?k div 8) + ?k mod 8" using True l(1) by simp_all
    have "bits_value ?m ?k n =
        ucast (take_bit n (drop_bit (8 - ?k mod 8 - n) (?m ! (?k div 8))))"
      by (rule bits_value_in_byte [OF k])
    also have "\<dots> = drop_bit (lead_bits ?k - n) (ucast (?m ! (?k div 8)) AND mask (lead_bits ?k))"
    proof -
      have "n \<le> 8 - ?k mod 8" using True l(1) by linarith
      then show ?thesis unfolding l(1) by (rule field_in_byte)
    qed
    finally show ?thesis
      using True fits sz i by (simp add: readUInt_def Let_def mem_simps)
  next
    case False
    then show ?thesis
      using read_span_value [OF len] fits sz by (simp add: readUInt_def Let_def)
  qed
qed

lemma readUInt_short:
  "size_t (bs_currentBit b + n) > bs_totalBits b \<Longrightarrow> readUInt b n = Some (0, b)"
  by (simp add: readUInt_def)

lemma bits_value_bound: "uint (bits_value m k n) < 2 ^ n"
proof (induction n)
  case 0
  then show ?case by simp
next
  case (Suc n)
  have "bits_value m k (Suc n) = take_bit (Suc n) (bits_value m k (Suc n))"
    by (rule bit_word_eqI) (auto simp: bit_take_bit_iff bit_bits_value simp del: bits_value.simps)
  then have "uint (bits_value m k (Suc n)) = take_bit (Suc n) (uint (bits_value m k (Suc n)))"
    by (metis unsigned_take_bit_eq)
  then show ?case by (metis take_bit_int_less_exp)
qed

lemma sint_mult_sign:
  fixes w :: u32
  assumes "uint w < 2 ^ 31"
  shows "sint (w * (if s then - 1 else 1)) = (if s then - uint w else uint w)"
proof -
  have ge: "- (2 ^ 31) \<le> uint w" by (rule order_trans [of _ 0]) simp_all
  have "sint w = uint w"
    using assms ge by (simp add: sint_uint signed_take_bit_int_eq_self)
  moreover have "sint (- w) = - uint w"
  proof -
    have "sint (word_of_int (- uint w) :: u32) = signed_take_bit 31 (- uint w)"
      by (subst sint_sbintrunc') simp
    also have "\<dots> = - uint w" using assms ge
      by (intro signed_take_bit_int_eq_self) (simp_all add: less_le_trans [of _ 1] order.strict_trans1 [of _ 0])
    finally show ?thesis by simp
  qed
  ultimately show ?thesis by simp
qed

section \<open>Properties\<close>

text \<open>C9: the bit reader is the reference reading. For every cursor position and every width that
  fits, the split into a leading partial byte, whole bytes and a trailing partial byte yields the
  number whose binary digits are the bits of the data from the cursor on, most significant
  first (the low 32 of them), and the cursor advances by the width.\<close>

theorem bitstream_readUInt:
  assumes "bs_ok b" "bs_currentBit b + n \<le> bs_totalBits b"
  shows "readUInt b n = Some (bits_value (bs_data b) (bs_currentBit b) n,
           b\<lparr>bs_currentBit := bs_currentBit b + n\<rparr>)"
  by (rule readUInt_reference [OF assms])

theorem bitstream_readUInt_witness:
  "readUInt \<lparr>bs_data = [0xab, 0xcd, 0xef], bs_totalBits = 24, bs_currentBit = 4\<rparr> 13
     = Some (0x179b, \<lparr>bs_data = [0xab, 0xcd, 0xef], bs_totalBits = 24, bs_currentBit = 17\<rparr>)"
proof -
  let ?b = "\<lparr>bs_data = [0xab, 0xcd, 0xef], bs_totalBits = 24, bs_currentBit = 4\<rparr>"
  have "bits_value [0xab, 0xcd, 0xef] 4 13 = 0x179b" by code_simp
  then show ?thesis using bitstream_readUInt [of ?b 13] by (simp add: bs_ok_def)
qed

text \<open>readInt reads sign and magnitude. For widths from 1 to 32 bits that fit, the result is the
  magnitude in the bits behind the sign bit, negated when the sign bit is set.\<close>

theorem bitstream_readInt:
  assumes "bs_ok b" "bs_currentBit b + n \<le> bs_totalBits b" "1 \<le> n" "n \<le> 32"
  shows "readInt b n = Some
    (let v = uint (bits_value (bs_data b) (bs_currentBit b + 1) (n - 1))
     in if bit_at (bs_data b) (bs_currentBit b) then - v else v,
     b\<lparr>bs_currentBit := bs_currentBit b + n\<rparr>)"
proof -
  let ?b1 = "b\<lparr>bs_currentBit := bs_currentBit b + 1\<rparr>"
  let ?v = "bits_value (bs_data b) (bs_currentBit b + 1) (n - 1)"
  have n1: "size_t (n + (2 ^ 64 - 1)) = n - 1"
  proof -
    have "n + (2 ^ 64 - 1) = (n - 1) + 2 ^ 64" using assms(3) by simp
    then show ?thesis using assms(4) by (simp only: size_t_def mod_add_self2) simp
  qed
  have 1: "readUInt b 1 = Some (bits_value (bs_data b) (bs_currentBit b) 1, ?b1)"
    using assms readUInt_reference [of b 1] by simp
  have 2: "readUInt ?b1 (n - 1) = Some (?v, b\<lparr>bs_currentBit := bs_currentBit b + n\<rparr>)"
    using assms readUInt_reference [of ?b1 "n - 1"] by (simp add: bs_ok_def)
  have "(2::int) ^ (n - 1) \<le> 2 ^ 31" using assms(4) by (intro power_increasing) auto
  then have "uint ?v < 2 ^ 31" using bits_value_bound [of "bs_data b" "bs_currentBit b + 1" "n - 1"]
    by (rule order.strict_trans2 [rotated])
  note s = sint_mult_sign [OF this, of "bit_at (bs_data b) (bs_currentBit b)"]
  have sg: "bits_value (bs_data b) (bs_currentBit b) 1 \<noteq> 0 \<longleftrightarrow> bit_at (bs_data b) (bs_currentBit b)"
    by simp
  show ?thesis
    unfolding readInt_def 1 n1 bind.bind_lunit prod.case 2 sg s Let_def by simp
qed

theorem bitstream_readInt_witness:
  "readInt \<lparr>bs_data = [0x1a, 0x80], bs_totalBits = 16, bs_currentBit = 3\<rparr> 6
     = Some (- 21, \<lparr>bs_data = [0x1a, 0x80], bs_totalBits = 16, bs_currentBit = 9\<rparr>)"
proof -
  let ?b = "\<lparr>bs_data = [0x1a, 0x80], bs_totalBits = 16, bs_currentBit = 3\<rparr>"
  have "bits_value [0x1a, 0x80] 4 5 = 21" "bit_at [0x1a, 0x80] 3" by code_simp+
  then show ?thesis using bitstream_readInt [of ?b 6] by (simp add: bs_ok_def)
qed

end
