(* ===== verification/Strings.thy ===== *)
theory Strings
  imports Prelude
begin

text \<open>
  The functions of Qt's strings that the code uses, on lists of characters: numbers written in
  decimal and hexadecimal digits, search, cutting, splitting and replacing; and the facts about
  them that the components share.
\<close>

fun dec_string :: "nat \<Rightarrow> string" where
  "dec_string n = (if n < 10 then [char_of (48 + n)] else dec_string (n div 10) @ [char_of (48 + n mod 10)])"

declare dec_string.simps [simp del]

definition hex_digit :: "nat \<Rightarrow> char" where
  "hex_digit n = (if n < 10 then char_of (48 + n) else char_of (87 + n))"

text \<open>\<open>%04x\<close> of a 16-bit value.\<close>

definition hex4 :: "u16 \<Rightarrow> string" where
  "hex4 w = map (\<lambda>k. hex_digit (unat w div 16 ^ k mod 16)) [3, 2, 1, 0]"

definition dec_int :: "int \<Rightarrow> string" where
  "dec_int v = (if v < 0 then ''-'' @ dec_string (nat (- v)) else dec_string (nat v))"

fun hex_string :: "nat \<Rightarrow> string" where
  "hex_string n = (if n < 16 then [hex_digit n] else hex_string (n div 16) @ [hex_digit (n mod 16)])"

declare hex_string.simps [simp del]

text \<open>\<open>QString::indexOf\<close> of a character.\<close>

fun index_of :: "char \<Rightarrow> string \<Rightarrow> nat option" where
  "index_of c [] = None"
| "index_of c (d # s) = (if c = d then Some 0 else map_option Suc (index_of c s))"

text \<open>\<open>QString::left\<close> and \<open>right\<close>: a count that is negative or too large yields the whole string.\<close>

definition q_left :: "int \<Rightarrow> string \<Rightarrow> string" where
  "q_left n s = (if n < 0 \<or> n \<ge> int (length s) then s else take (nat n) s)"

definition q_right :: "int \<Rightarrow> string \<Rightarrow> string" where
  "q_right n s = (if n < 0 \<or> n \<ge> int (length s) then s else drop (length s - nat n) s)"

text \<open>\<open>QString::split\<close> of a character; empty parts are kept.\<close>

fun split_on :: "char \<Rightarrow> string \<Rightarrow> string list" where
  "split_on c [] = [[]]"
| "split_on c (d # s) =
     (if c = d then [] # split_on c s
      else (case split_on c s of [] \<Rightarrow> [[d]] | p # ps \<Rightarrow> (d # p) # ps))"

definition startsWith :: "string \<Rightarrow> string \<Rightarrow> bool" where
  "startsWith p s \<longleftrightarrow> take (length p) s = p"

text \<open>A decimal reader.\<close>

definition digits_value :: "string \<Rightarrow> nat" where
  "digits_value s = foldl (\<lambda>a c. a * 10 + (of_char c - 48)) 0 s"

lemma digit_char: "k < 10 \<Longrightarrow> of_char (char_of (48 + k :: nat)) - (48 :: nat) = k"
  by (simp add: of_char_of take_bit_eq_mod)

lemma digits_value_dec: "digits_value (dec_string n) = n"
proof (induction n rule: dec_string.induct)
  case (1 n)
  have v: "digits_value (s @ [c]) = digits_value s * 10 + (of_char c - 48)" for s c by (simp add: digits_value_def)
  show ?case
  proof (cases "n < 10")
    case True
    then show ?thesis using digit_char [of n] by (simp add: dec_string.simps [of n] digits_value_def)
  next
    case False
    have "n mod 10 < 10" by simp
    then show ?thesis using False 1 by (simp add: dec_string.simps [of n] v digit_char)
  qed
qed

lemma dec_string_digits: "c \<in> set (dec_string n) \<Longrightarrow> 48 \<le> (of_char c :: nat) \<and> (of_char c :: nat) < 58"
proof (induction n rule: dec_string.induct)
  case (1 n)
  have d: "48 \<le> (of_char (char_of (48 + k :: nat)) :: nat) \<and> (of_char (char_of (48 + k :: nat)) :: nat) < 58"
    if "k < 10" for k
    using that by (simp add: of_char_of take_bit_eq_mod)
  show ?case
  proof (cases "n < 10")
    case True
    then show ?thesis using 1 d by (simp add: dec_string.simps [of n])
  next
    case False
    have "n mod 10 < 10" by simp
    then show ?thesis using False 1 d by (auto simp: dec_string.simps [of n])
  qed
qed

lemma dec_string_hyphen: "CHR ''-'' \<notin> set (dec_string n)"
  using dec_string_digits [of "CHR ''-''" n] by auto

lemma dec_string_nonempty: "dec_string n \<noteq> []"
  by (simp add: dec_string.simps [of n])

lemma index_of_append: "c \<notin> set s \<Longrightarrow> index_of c (s @ c # t) = Some (length s)"
  by (induction s) auto

lemma index_of_None: "c \<notin> set s \<Longrightarrow> index_of c s = None"
  by (induction s) auto

text \<open>\<open>QString::lastIndexOf\<close> of a character, and \<open>mid\<close> after it.\<close>

definition after_last :: "char \<Rightarrow> string \<Rightarrow> string" where
  "after_last c s = rev (takeWhile (\<lambda>d. d \<noteq> c) (rev s))"

lemma after_last_subset: "set (after_last c s) \<subseteq> set s"
  using set_takeWhileD [of _ "\<lambda>d. d \<noteq> c" "rev s"] by (auto simp: after_last_def)

text \<open>\<open>QString::replace\<close> of the \<open>n\<close> characters from \<open>pos\<close> on.\<close>

definition replace_at :: "nat \<Rightarrow> nat \<Rightarrow> string \<Rightarrow> string \<Rightarrow> string" where
  "replace_at pos n a s = take pos s @ a @ drop (pos + n) s"

lemma replace_at_append: "length u = pos \<Longrightarrow> length v = n \<Longrightarrow> replace_at pos n a (u @ v @ w) = u @ a @ w"
  by (simp add: replace_at_def)

text \<open>Decimal digits, the class \<open>\d\<close> of an expression.\<close>

definition is_digit :: "char \<Rightarrow> bool" where
  "is_digit c \<longleftrightarrow> 48 \<le> (of_char c :: nat) \<and> (of_char c :: nat) < 58"

text \<open>\<open>QString::trimmed\<close>.\<close>

definition is_space :: "char \<Rightarrow> bool" where
  "is_space c \<longleftrightarrow> (let n = of_char c :: nat in (9 \<le> n \<and> n \<le> 13) \<or> n = 32 \<or> n = 133 \<or> n = 160)"

definition trimmed :: "string \<Rightarrow> string" where
  "trimmed s = rev (dropWhile is_space (rev (dropWhile is_space s)))"

text \<open>The letters A to Z in lower case.\<close>

definition lower_char :: "char \<Rightarrow> char" where
  "lower_char c = (let n = of_char c :: nat in if 65 \<le> n \<and> n \<le> 90 then char_of (n + 32) else c)"

end
