(* ===== verification/PacketInfo.thy ===== *)
theory PacketInfo
  imports PacketCommon Strings "HOL-Library.AList"
begin

text \<open>
  \<open>src/src/packetinfo.h\<close> and \<open>src/src/packetinfo.cpp\<close>: the table of struct sizes
  (\<open>EQPacketTypeDB\<close>), the payload descriptions and their size check (\<open>EQPacketPayload\<close>), the
  opcode objects (\<open>EQPacketOPCode\<close>) and the opcode database with its two indices by id and by
  name (\<open>EQPacketOPCodeDB\<close>).

  The opcode objects live on a heap: \<open>db_heap\<close> maps an address to the live object, \<open>delete\<close>
  clears it, and following a pointer to a deleted object is \<open>None\<close>. A \<open>QHash\<close> is an association
  list with distinct keys; the order of the list is the unspecified iteration order.
  \<open>QXmlStreamReader\<close> and the conversion of digits are Qt's: the token stream, the reader's
  error flag and \<open>toUShort\<close> are parameters.
\<close>

section \<open>EQPacketTypeDB\<close>

type_synonym EQPacketTypeDB = "(string \<times> nat) list"

definition addStruct :: "string \<Rightarrow> nat \<Rightarrow> EQPacketTypeDB \<Rightarrow> EQPacketTypeDB" where
  "addStruct typeName sz db = AList.update typeName sz db"

text \<open>The structs come from a generated file, the four last entries from the code.\<close>

definition new_EQPacketTypeDB :: "(string \<times> nat) list \<Rightarrow> EQPacketTypeDB" where
  "new_EQPacketTypeDB generated =
     addStruct ''unknown'' 0 (addStruct ''none'' 0 (addStruct ''uint8_t'' 1 (addStruct ''char'' 1
       (fold (\<lambda>(n, s). addStruct n s) generated []))))"

definition typedb_size :: "EQPacketTypeDB \<Rightarrow> string \<Rightarrow> nat" where
  "typedb_size db typeName = (case map_of db typeName of None \<Rightarrow> 0 | Some n \<Rightarrow> n)"

definition typedb_valid :: "EQPacketTypeDB \<Rightarrow> string \<Rightarrow> bool" where
  "typedb_valid db typeName = (let sz = typedb_size db typeName in sz \<noteq> 0)"

section \<open>EQPacketPayload\<close>

datatype EQSizeCheckType = SZC_None | SZC_Match | SZC_Modulus

record EQPacketPayload =
  pl_typeName :: string
  pl_typeSize :: nat
  pl_sizeCheckType :: EQSizeCheckType
  pl_dir :: u8

definition new_EQPacketPayload :: EQPacketPayload where
  "new_EQPacketPayload =
     \<lparr>pl_typeName = [], pl_typeSize = 0, pl_sizeCheckType = SZC_None, pl_dir = 0\<rparr>"

definition setType :: "EQPacketTypeDB \<Rightarrow> string \<Rightarrow> EQPacketPayload \<Rightarrow> bool \<times> EQPacketPayload" where
  "setType db typeName pl =
     (if \<not> typedb_valid db typeName then (False, pl)
      else (True, pl\<lparr>pl_typeName := typeName, pl_typeSize := typedb_size db typeName\<rparr>))"

definition payload_match :: "EQPacketPayload \<Rightarrow> nat \<Rightarrow> u8 \<Rightarrow> bool" where
  "payload_match pl sz dir =
     (case pl_sizeCheckType pl of
        SZC_None \<Rightarrow> pl_dir pl AND dir \<noteq> 0 \<and> (pl_typeSize pl \<le> 1 \<or> sz \<ge> pl_typeSize pl)
      | SZC_Match \<Rightarrow> pl_dir pl AND dir \<noteq> 0 \<and> pl_typeSize pl = sz
      | SZC_Modulus \<Rightarrow> pl_dir pl AND dir \<noteq> 0 \<and> pl_typeSize pl > 0 \<and> sz mod pl_typeSize pl = 0)"

section \<open>EQPacketOPCode\<close>

record EQPacketOPCode =
  oc_payloads :: "EQPacketPayload list"
  oc_opcode :: u16
  oc_implicitLen :: u16
  oc_name :: string
  oc_updated :: string
  oc_comments :: "string list"

definition new_EQPacketOPCode :: "u16 \<Rightarrow> string \<Rightarrow> EQPacketOPCode" where
  "new_EQPacketOPCode opcode name = \<lparr>oc_payloads = [], oc_opcode = opcode, oc_implicitLen = 0,
     oc_name = name, oc_updated = [], oc_comments = []\<rparr>"

text \<open>The copy constructor leaves the payload list and the comments out.\<close>

definition copy_EQPacketOPCode :: "EQPacketOPCode \<Rightarrow> EQPacketOPCode" where
  "copy_EQPacketOPCode oc = \<lparr>oc_payloads = [], oc_opcode = oc_opcode oc,
     oc_implicitLen = oc_implicitLen oc, oc_name = oc_name oc, oc_updated = oc_updated oc,
     oc_comments = []\<rparr>"

definition setOPCode :: "u16 \<Rightarrow> EQPacketOPCode \<Rightarrow> EQPacketOPCode" where
  "setOPCode opcode oc = oc\<lparr>oc_opcode := opcode\<rparr>"

definition setImplicitLen :: "u16 \<Rightarrow> EQPacketOPCode \<Rightarrow> EQPacketOPCode" where
  "setImplicitLen len oc = oc\<lparr>oc_implicitLen := len\<rparr>"

definition setName :: "string \<Rightarrow> EQPacketOPCode \<Rightarrow> EQPacketOPCode" where
  "setName name oc = oc\<lparr>oc_name := name\<rparr>"

definition setUpdated :: "string \<Rightarrow> EQPacketOPCode \<Rightarrow> EQPacketOPCode" where
  "setUpdated updated oc = oc\<lparr>oc_updated := updated\<rparr>"

definition addComment :: "string \<Rightarrow> EQPacketOPCode \<Rightarrow> EQPacketOPCode" where
  "addComment comment oc = oc\<lparr>oc_comments := oc_comments oc @ [comment]\<rparr>"

text \<open>\<open>indexOf\<close> finds the first occurrence, \<open>removeAt\<close> removes just that one.\<close>

definition removeComment :: "string \<Rightarrow> EQPacketOPCode \<Rightarrow> bool \<times> EQPacketOPCode" where
  "removeComment comment oc =
     (if comment \<in> set (oc_comments oc)
      then (True, oc\<lparr>oc_comments := remove1 comment (oc_comments oc)\<rparr>)
      else (False, oc))"

definition clearComments :: "EQPacketOPCode \<Rightarrow> EQPacketOPCode" where
  "clearComments oc = oc\<lparr>oc_comments := []\<rparr>"

definition append_payload :: "EQPacketPayload \<Rightarrow> EQPacketOPCode \<Rightarrow> EQPacketOPCode" where
  "append_payload pl oc = oc\<lparr>oc_payloads := oc_payloads oc @ [pl]\<rparr>"

text \<open>\<open>EQPacketOPCode::find\<close>: the first payload that matches.\<close>

fun find_payload :: "EQPacketPayload list \<Rightarrow> nat \<Rightarrow> u8 \<Rightarrow> EQPacketPayload option" where
  "find_payload [] sz dir = None"
| "find_payload (pl # pls) sz dir =
     (if payload_match pl sz dir then Some pl else find_payload pls sz dir)"

section \<open>EQPacketOPCodeDB\<close>

type_synonym addr = nat

record EQPacketOPCodeDB =
  db_heap :: "addr \<rightharpoonup> EQPacketOPCode"
  db_next :: addr
  m_opcodes :: "(u16 \<times> addr) list"
  m_opcodesByName :: "(string \<times> addr) list"

definition new_EQPacketOPCodeDB :: EQPacketOPCodeDB where
  "new_EQPacketOPCodeDB = \<lparr>db_heap = Map.empty, db_next = 0, m_opcodes = [], m_opcodesByName = []\<rparr>"

definition db_find :: "u16 \<Rightarrow> EQPacketOPCodeDB \<Rightarrow> addr option" where
  "db_find opcode db = map_of (m_opcodes db) opcode"

definition db_find_name :: "string \<Rightarrow> EQPacketOPCodeDB \<Rightarrow> addr option" where
  "db_find_name name db = map_of (m_opcodesByName db) name"

text \<open>Writing through a pointer.\<close>

definition db_modify :: "addr \<Rightarrow> (EQPacketOPCode \<Rightarrow> EQPacketOPCode) \<Rightarrow> EQPacketOPCodeDB
    \<Rightarrow> EQPacketOPCodeDB option" where
  "db_modify p f db = do { oc \<leftarrow> db_heap db p; Some (db\<lparr>db_heap := (db_heap db)(p \<mapsto> f oc)\<rparr>) }"

text \<open>\<open>delete\<close>: deleting what is already deleted is a fault.\<close>

definition db_delete :: "addr \<Rightarrow> EQPacketOPCodeDB \<Rightarrow> EQPacketOPCodeDB option" where
  "db_delete p db = do { _ \<leftarrow> db_heap db p; Some (db\<lparr>db_heap := (db_heap db)(p := None)\<rparr>) }"

definition db_add :: "u16 \<Rightarrow> string \<Rightarrow> EQPacketOPCodeDB \<Rightarrow> addr \<times> EQPacketOPCodeDB" where
  "db_add opcode name db =
     (let p = db_next db in
      (p, db\<lparr>db_heap := (db_heap db)(p \<mapsto> new_EQPacketOPCode opcode name), db_next := Suc p,
             m_opcodes := AList.update opcode p (m_opcodes db),
             m_opcodesByName := AList.update name p (m_opcodesByName db)\<rparr>))"

definition db_remove :: "u16 \<Rightarrow> EQPacketOPCodeDB \<Rightarrow> (bool \<times> EQPacketOPCodeDB) option" where
  "db_remove opcode db =
     (case map_of (m_opcodes db) opcode of
        None \<Rightarrow> Some (False, db)
      | Some p \<Rightarrow>
          let db1 = db\<lparr>m_opcodes := AList.delete opcode (m_opcodes db)\<rparr> in do {
            opcodeObj \<leftarrow> db_heap db1 p;
            let db2 = db1\<lparr>m_opcodesByName := AList.delete (oc_name opcodeObj) (m_opcodesByName db1)\<rparr>;
            db3 \<leftarrow> db_delete p db2;
            Some (True, db3)
          })"

definition db_remove_name :: "string \<Rightarrow> EQPacketOPCodeDB \<Rightarrow> (bool \<times> EQPacketOPCodeDB) option" where
  "db_remove_name opcodeName db =
     (case map_of (m_opcodesByName db) opcodeName of
        None \<Rightarrow> Some (False, db)
      | Some p \<Rightarrow>
          let db1 = db\<lparr>m_opcodesByName := AList.delete opcodeName (m_opcodesByName db)\<rparr> in do {
            opcode \<leftarrow> db_heap db1 p;
            let db2 = db1\<lparr>m_opcodes := AList.delete (oc_opcode opcode) (m_opcodes db1)\<rparr>;
            db3 \<leftarrow> db_delete p db2;
            Some (True, db3)
          })"

definition db_move :: "u16 \<Rightarrow> u16 \<Rightarrow> EQPacketOPCodeDB \<Rightarrow> (bool \<times> EQPacketOPCodeDB) option" where
  "db_move oldOPCode newOPCode db =
     (case map_of (m_opcodes db) oldOPCode of
        None \<Rightarrow> Some (False, db)
      | Some p \<Rightarrow> do {
          let db1 = db\<lparr>m_opcodes := AList.delete oldOPCode (m_opcodes db)\<rparr>;
          db2 \<leftarrow> db_modify p (setOPCode newOPCode) db1;
          Some (True, db2\<lparr>m_opcodes := AList.update newOPCode p (m_opcodes db2)\<rparr>)
        })"

definition db_move_name :: "string \<Rightarrow> string \<Rightarrow> EQPacketOPCodeDB \<Rightarrow> (bool \<times> EQPacketOPCodeDB) option"
where
  "db_move_name oldOPCodeName newOPCodeName db =
     (case map_of (m_opcodesByName db) oldOPCodeName of
        None \<Rightarrow> Some (False, db)
      | Some p \<Rightarrow> do {
          let db1 = db\<lparr>m_opcodesByName := AList.delete oldOPCodeName (m_opcodesByName db)\<rparr>;
          db2 \<leftarrow> db_modify p (setName newOPCodeName) db1;
          Some (True, db2\<lparr>m_opcodesByName := AList.update newOPCodeName p (m_opcodesByName db2)\<rparr>)
        })"

text \<open>\<open>clear\<close>: \<open>qDeleteAll\<close> deletes every value of the id table, in iteration order.\<close>

fun qDeleteAll :: "addr list \<Rightarrow> EQPacketOPCodeDB \<Rightarrow> EQPacketOPCodeDB option" where
  "qDeleteAll [] db = Some db"
| "qDeleteAll (p # ps) db = do { db1 \<leftarrow> db_delete p db; qDeleteAll ps db1 }"

definition db_clear :: "EQPacketOPCodeDB \<Rightarrow> EQPacketOPCodeDB option" where
  "db_clear db = do {
     db1 \<leftarrow> qDeleteAll (map snd (m_opcodes db)) db;
     Some (db1\<lparr>m_opcodes := [], m_opcodesByName := []\<rparr>)
   }"

text \<open>The destructor: removes by name while a name is left.\<close>

function db_destroy :: "EQPacketOPCodeDB \<Rightarrow> EQPacketOPCodeDB option" where
  "db_destroy db =
     (case m_opcodesByName db of
        [] \<Rightarrow> Some db
      | (name, p) # _ \<Rightarrow>
          (case db_remove_name name db of
             None \<Rightarrow> None
           | Some (_, db1) \<Rightarrow> db_destroy db1))"
  by pat_completeness auto
termination
proof (relation "measure (\<lambda>db. length (m_opcodesByName db))", goal_cases)
  case 1
  then show ?case by simp
next
  case (2 db x rest name p r b db1)
  then have "m_opcodesByName db1 = AList.delete name (m_opcodesByName db)"
    by (auto simp: db_remove_name_def db_delete_def Let_def bind_Some_iff)
  moreover have "length (AList.delete name ((name, p) # rest)) < length ((name, p) # rest)"
    by (simp add: le_imp_less_Suc AList.length_delete_le)
  ultimately show ?case using 2 by simp
qed

declare db_destroy.simps [simp del]

section \<open>load\<close>

text \<open>What the reader delivers. A start element carries the text that \<open>readElementText\<close> returns when
  it is called there, and the number of tokens this consumes.\<close>

datatype xml_token =
    XStart string "(string \<times> string) list" string nat
  | XEnd string
  | XOther

type_synonym toUShort = "nat \<Rightarrow> string \<Rightarrow> u16 option"

definition parse_dir :: "(string \<times> string) list \<Rightarrow> EQPacketPayload \<Rightarrow> EQPacketPayload" where
  "parse_dir attr pl =
     (case map_of attr ''dir'' of
        None \<Rightarrow> pl
      | Some dir \<Rightarrow>
          if dir = ''both'' then pl\<lparr>pl_dir := DIR_Client OR DIR_Server\<rparr>
          else if dir = ''server'' then pl\<lparr>pl_dir := DIR_Server\<rparr>
          else if dir = ''client'' then pl\<lparr>pl_dir := DIR_Client\<rparr>
          else pl)"

definition parse_typename ::
  "EQPacketTypeDB \<Rightarrow> (string \<times> string) list \<Rightarrow> EQPacketPayload \<Rightarrow> EQPacketPayload" where
  "parse_typename typeDB attr pl =
     (case map_of attr ''typename'' of
        None \<Rightarrow> pl
      | Some typeName \<Rightarrow> if typeName \<noteq> [] then snd (setType typeDB typeName pl) else pl)"

definition parse_szt :: "(string \<times> string) list \<Rightarrow> EQPacketPayload \<Rightarrow> EQPacketPayload" where
  "parse_szt attr pl =
     (case map_of attr ''sizechecktype'' of
        None \<Rightarrow> pl
      | Some szt \<Rightarrow>
          if szt = [] \<or> szt = ''none'' then pl\<lparr>pl_sizeCheckType := SZC_None\<rparr>
          else if szt = ''match'' then pl\<lparr>pl_sizeCheckType := SZC_Match\<rparr>
          else if szt = ''modulus'' then pl\<lparr>pl_sizeCheckType := SZC_Modulus\<rparr>
          else pl)"

definition parse_payload :: "EQPacketTypeDB \<Rightarrow> (string \<times> string) list \<Rightarrow> EQPacketPayload" where
  "parse_payload typeDB attr =
     parse_szt attr (parse_typename typeDB attr (parse_dir attr new_EQPacketPayload))"

text \<open>The \<open>opcode\<close> element: \<open>None\<close> is an early \<open>return false\<close>, else the new object and the tables.\<close>

definition parse_opcode ::
  "toUShort \<Rightarrow> (string \<times> string) list \<Rightarrow> EQPacketOPCodeDB \<Rightarrow> (addr \<times> EQPacketOPCodeDB) option option"
where
  "parse_opcode toUShort attr db =
     (case map_of attr ''id'' of
        None \<Rightarrow> Some None
      | Some idStr \<Rightarrow>
         (case toUShort 16 idStr of
            None \<Rightarrow> Some None
          | Some opcode \<Rightarrow>
             (case map_of attr ''name'' of
                None \<Rightarrow> Some None
              | Some name \<Rightarrow> do {
                  let (cur, db1) = db_add opcode name db;
                  db2 \<leftarrow> (case map_of attr ''updated'' of
                            None \<Rightarrow> Some db1
                          | Some u \<Rightarrow> db_modify cur (setUpdated u) db1);
                  db3 \<leftarrow> (case map_of attr ''implicitlen'' of
                            None \<Rightarrow> Some db2
                          | Some l \<Rightarrow> db_modify cur (setImplicitLen
                              (case toUShort 10 l of None \<Rightarrow> 0 | Some v \<Rightarrow> v)) db2);
                  Some (Some (cur, db3))
                })))"

text \<open>The pull loop; \<open>herr\<close> is the reader's error flag at the end.\<close>

function load_loop ::
  "toUShort \<Rightarrow> EQPacketTypeDB \<Rightarrow> bool \<Rightarrow> xml_token list \<Rightarrow> addr option \<Rightarrow> EQPacketOPCodeDB
     \<Rightarrow> (bool \<times> EQPacketOPCodeDB) option" where
  "load_loop toUShort typeDB herr [] cur db = Some (\<not> herr, db)"
| "load_loop toUShort typeDB herr (XStart name attr txt n # ts) cur db =
     (if name = ''opcode'' then
        (case parse_opcode toUShort attr db of
           None \<Rightarrow> None
         | Some None \<Rightarrow> Some (False, db)
         | Some (Some (p, db1)) \<Rightarrow> load_loop toUShort typeDB herr ts (Some p) db1)
      else if name = ''comment'' \<and> cur \<noteq> None then
        (case db_modify (the cur) (addComment txt) db of
           None \<Rightarrow> None
         | Some db1 \<Rightarrow> load_loop toUShort typeDB herr (drop n ts) cur db1)
      else if name = ''payload'' \<and> cur \<noteq> None then
        (case db_modify (the cur) (append_payload (parse_payload typeDB attr)) db of
           None \<Rightarrow> None
         | Some db1 \<Rightarrow> load_loop toUShort typeDB herr ts cur db1)
      else load_loop toUShort typeDB herr ts cur db)"
| "load_loop toUShort typeDB herr (XEnd name # ts) cur db =
     load_loop toUShort typeDB herr ts (if name = ''opcode'' then None else cur) db"
| "load_loop toUShort typeDB herr (XOther # ts) cur db = load_loop toUShort typeDB herr ts cur db"
  by pat_completeness auto
termination
  by (relation "measure (\<lambda>(_, _, _, ts, _, _). length ts)") auto

text \<open>\<open>load\<close>; \<open>None\<close> as document: the file cannot be opened.\<close>

definition db_load ::
  "toUShort \<Rightarrow> EQPacketTypeDB \<Rightarrow> (xml_token list \<times> bool) option \<Rightarrow> EQPacketOPCodeDB
     \<Rightarrow> (bool \<times> EQPacketOPCodeDB) option" where
  "db_load toUShort typeDB doc db =
     (case doc of None \<Rightarrow> Some (False, db)
      | Some (ts, herr) \<Rightarrow> load_loop toUShort typeDB herr ts None db)"

section \<open>save\<close>

text \<open>\<open>std::map::insert\<close>: sorted by key, an entry that is there stays.\<close>

fun omap_insert :: "u16 \<Rightarrow> 'a \<Rightarrow> (u16 \<times> 'a) list \<Rightarrow> (u16 \<times> 'a) list" where
  "omap_insert k v [] = [(k, v)]"
| "omap_insert k v ((k', v') # xs) =
     (if k < k' then (k, v) # (k', v') # xs
      else if k = k' then (k', v') # xs
      else (k', v') # omap_insert k v xs)"

fun order_opcodes :: "(u16 \<times> addr) list \<Rightarrow> EQPacketOPCodeDB \<Rightarrow> (u16 \<times> EQPacketOPCode) list
    \<Rightarrow> (u16 \<times> EQPacketOPCode) list option" where
  "order_opcodes [] db acc = Some acc"
| "order_opcodes ((k, p) # xs) db acc =
     do { oc \<leftarrow> db_heap db p; order_opcodes xs db (omap_insert (oc_opcode oc) oc acc) }"

definition endl :: string where "endl = [CHR 0x0A]"

definition quoted :: "string \<Rightarrow> string" where "quoted s = [CHR 0x22] @ s @ [CHR 0x22]"

definition sztStr :: "EQSizeCheckType \<Rightarrow> string" where
  "sztStr t = (case t of SZC_None \<Rightarrow> ''none'' | SZC_Match \<Rightarrow> ''match'' | SZC_Modulus \<Rightarrow> ''modulus'')"

text \<open>\<open>dirStrs[dir - 1]\<close>: outside the array of three there is nothing to read.\<close>

definition dirStr :: "u8 \<Rightarrow> string option" where
  "dirStr dir = (if dir = 1 then Some ''client'' else if dir = 2 then Some ''server''
     else if dir = 3 then Some ''both'' else None)"

fun save_payloads :: "string \<Rightarrow> EQPacketPayload list \<Rightarrow> string option" where
  "save_payloads indent [] = Some []"
| "save_payloads indent (pl # pls) = do {
     d \<leftarrow> dirStr (pl_dir pl);
     rest \<leftarrow> save_payloads indent pls;
     Some (indent @ ''<payload dir='' @ quoted d @ '' typename='' @ quoted (pl_typeName pl)
       @ '' sizechecktype='' @ quoted (sztStr (pl_sizeCheckType pl)) @ ''/>'' @ endl @ rest)
   }"

definition save_opcode :: "string \<Rightarrow> EQPacketOPCode \<Rightarrow> string option" where
  "save_opcode indent oc =
     (let inner = indent @ ''    '' in do {
        pls \<leftarrow> save_payloads inner (oc_payloads oc);
        Some (indent @ ''<opcode id='' @ quoted (hex4 (oc_opcode oc)) @ '' name='' @ quoted (oc_name oc)
          @ (if oc_implicitLen oc \<noteq> 0
             then '' implicitlen='' @ quoted (dec_string (unat (oc_implicitLen oc))) else [])
          @ (if oc_updated oc \<noteq> [] then '' updated='' @ quoted (oc_updated oc) else [])
          @ ''>'' @ endl
          @ concat (map (\<lambda>c. inner @ ''<comment>'' @ c @ ''</comment>'' @ endl) (oc_comments oc))
          @ pls @ indent @ ''</opcode>'' @ endl)
      })"

fun save_opcodes :: "(u16 \<times> EQPacketOPCode) list \<Rightarrow> string option" where
  "save_opcodes [] = Some []"
| "save_opcodes ((k, oc) # xs) = do {
     s \<leftarrow> save_opcode ''    '' oc; rest \<leftarrow> save_opcodes xs; Some (s @ rest) }"

text \<open>The text written to a file that could be opened.\<close>

definition db_save :: "EQPacketOPCodeDB \<Rightarrow> string option" where
  "db_save db = do {
     ordered \<leftarrow> order_opcodes (m_opcodes db) db [];
     body \<leftarrow> save_opcodes ordered;
     Some (''<?xml version='' @ quoted ''1.0'' @ '' encoding='' @ quoted ''UTF-8'' @ ''?>'' @ endl
       @ ''<!DOCTYPE seqopcodes SYSTEM '' @ quoted ''seqopcodes.dtd'' @ ''>'' @ endl
       @ ''<seqopcodes>'' @ endl @ body @ ''</seqopcodes>'' @ endl)
   }"

end
