(* ===== verification/PacketInfoProps.thy ===== *)
theory PacketInfoProps
  imports PacketInfo
begin

text \<open>
  The opcode database of \<open>PacketInfo\<close>: whatever is done to it, its two tables point to live objects
  filed under their own key; used without clashes it implements a plain map from ids to opcodes;
  loading a document yields the opcodes it describes, and what is saved depends on this map only.
\<close>

section \<open>A table of pointers\<close>

text \<open>Every entry points to a live object that carries the key of the entry.\<close>

definition index_ok :: "('o \<Rightarrow> 'k) \<Rightarrow> ('k \<times> addr) list \<Rightarrow> (addr \<rightharpoonup> 'o) \<Rightarrow> bool" where
  "index_ok key tbl h \<longleftrightarrow> distinct (map fst tbl) \<and>
     (\<forall>k p. map_of tbl k = Some p \<longrightarrow> (\<exists>oc. h p = Some oc \<and> key oc = k))"

text \<open>Every live object is filed.\<close>

definition index_all :: "('o \<Rightarrow> 'k) \<Rightarrow> ('k \<times> addr) list \<Rightarrow> (addr \<rightharpoonup> 'o) \<Rightarrow> bool" where
  "index_all key tbl h \<longleftrightarrow> (\<forall>p oc. h p = Some oc \<longrightarrow> map_of tbl (key oc) = Some p)"

lemmas alist_maps = update_conv' delete_conv'

lemma index_ok_empty [simp]: "index_ok key [] h"
  by (simp add: index_ok_def)

lemma index_okD: "index_ok key tbl h \<Longrightarrow> map_of tbl k = Some p \<Longrightarrow> \<exists>oc. h p = Some oc \<and> key oc = k"
  by (simp add: index_ok_def)

lemma index_ok_add:
  "index_ok key tbl h \<Longrightarrow> h p = None \<Longrightarrow> key oc = k \<Longrightarrow>
    index_ok key (AList.update k p tbl) (h(p \<mapsto> oc))"
  by (auto simp: index_ok_def alist_maps distinct_update split: if_splits) (metis option.distinct(1))

lemma index_ok_modify:
  "index_ok key tbl h \<Longrightarrow> h p = Some oc \<Longrightarrow> key oc' = key oc \<Longrightarrow> index_ok key tbl (h(p \<mapsto> oc'))"
  by (fastforce simp: index_ok_def)

lemma index_ok_delete:
  assumes ok: "index_ok key tbl h" and p: "h p = Some oc"
  shows "index_ok key (AList.delete (key oc) tbl) (h(p := None))"
proof -
  have "q \<noteq> p" if "k \<noteq> key oc" "map_of tbl k = Some q" for k q
    using index_okD [OF ok that(2)] that p by auto
  then show ?thesis using ok by (auto simp: index_ok_def alist_maps distinct_delete)
qed

lemma index_ok_forget:
  "index_ok key tbl h \<Longrightarrow> index_ok key (AList.delete k tbl) h"
  by (auto simp: index_ok_def alist_maps distinct_delete)

lemma index_ok_rekey:
  assumes ok: "index_ok key tbl h" and p: "h p = Some oc" and k: "key oc = k" "key oc' = k'"
  shows "index_ok key (AList.update k' p (AList.delete k tbl)) (h(p \<mapsto> oc'))"
proof -
  have "q \<noteq> p" if "j \<noteq> k" "map_of tbl j = Some q" for j q
    using index_okD [OF ok that(2)] that p k by auto
  then show ?thesis using ok k
    by (auto simp: index_ok_def alist_maps distinct_update distinct_delete)
qed

lemma index_all_add:
  "index_all key tbl h \<Longrightarrow> h p = None \<Longrightarrow> map_of tbl k = None \<Longrightarrow> key oc = k \<Longrightarrow>
    index_all key (AList.update k p tbl) (h(p \<mapsto> oc))"
  by (auto simp: index_all_def alist_maps) (metis option.distinct(1))

lemma index_all_modify:
  "index_all key tbl h \<Longrightarrow> h p = Some oc \<Longrightarrow> key oc' = key oc \<Longrightarrow> index_all key tbl (h(p \<mapsto> oc'))"
  by (auto simp: index_all_def)

lemma index_all_delete:
  "index_all key tbl h \<Longrightarrow> h p = Some oc \<Longrightarrow> key oc = k \<Longrightarrow>
    index_all key (AList.delete k tbl) (h(p := None))"
  by (auto simp: index_all_def alist_maps) (metis option.inject)

lemma index_all_rekey:
  assumes "index_all key tbl h" "h p = Some oc" "key oc = k" "key oc' = k'" "map_of tbl k' = None \<or> k' = k"
  shows "index_all key (AList.update k' p (AList.delete k tbl)) (h(p \<mapsto> oc'))"
  using assms by (auto simp: index_all_def alist_maps) (metis option.inject option.distinct(1))+

section \<open>The invariant of the database\<close>

definition db_ok :: "EQPacketOPCodeDB \<Rightarrow> bool" where
  "db_ok db \<longleftrightarrow> index_ok oc_opcode (m_opcodes db) (db_heap db)
     \<and> index_ok oc_name (m_opcodesByName db) (db_heap db)
     \<and> (\<forall>p. db_next db \<le> p \<longrightarrow> db_heap db p = None)"

definition db_full :: "EQPacketOPCodeDB \<Rightarrow> bool" where
  "db_full db \<longleftrightarrow> db_ok db \<and> index_all oc_opcode (m_opcodes db) (db_heap db)
     \<and> index_all oc_name (m_opcodesByName db) (db_heap db)"

lemma new_opcode_fields [simp]:
  "oc_opcode (new_EQPacketOPCode k n) = k" "oc_name (new_EQPacketOPCode k n) = n"
  by (simp_all add: new_EQPacketOPCode_def)

lemma db_ok_new: "db_ok new_EQPacketOPCodeDB" "db_full new_EQPacketOPCodeDB"
  by (simp_all add: db_full_def db_ok_def index_all_def new_EQPacketOPCodeDB_def)

lemma db_add_ok: "db_ok db \<Longrightarrow> db_ok (snd (db_add k n db))"
  by (auto simp: db_ok_def db_add_def Let_def intro: index_ok_add)

lemma db_add_alive: "db_add k n db = (p, db') \<Longrightarrow> db_heap db' p = Some (new_EQPacketOPCode k n)"
  by (auto simp: db_add_def Let_def)

lemma db_modify_ok:
  assumes "db_ok db" "db_heap db p \<noteq> None"
    "\<And>oc. oc_opcode (f oc) = oc_opcode oc" "\<And>oc. oc_name (f oc) = oc_name oc"
  shows "\<exists>db' oc. db_modify p f db = Some db' \<and> db_ok db' \<and> db_heap db p = Some oc
    \<and> db_heap db' = (db_heap db)(p \<mapsto> f oc) \<and> m_opcodes db' = m_opcodes db
    \<and> m_opcodesByName db' = m_opcodesByName db"
proof -
  obtain oc where "db_heap db p = Some oc" using assms(2) by auto
  then show ?thesis using assms
    by (auto simp: db_modify_def db_ok_def intro: index_ok_modify)
qed

lemma db_remove_ok:
  assumes ok: "db_ok db"
  shows "\<exists>r db'. db_remove k db = Some (r, db') \<and> db_ok db'"
proof (cases "map_of (m_opcodes db) k")
  case None
  then show ?thesis using ok by (simp add: db_remove_def ex_bool_eq)
next
  case (Some p)
  then obtain oc where "db_heap db p = Some oc" "oc_opcode oc = k"
    using ok by (auto simp: db_ok_def dest: index_okD)
  then show ?thesis using ok Some
    by (auto simp: db_remove_def db_delete_def Let_def db_ok_def intro: index_ok_delete)
qed

lemma db_remove_name_ok:
  assumes ok: "db_ok db"
  shows "\<exists>r db'. db_remove_name n db = Some (r, db') \<and> db_ok db'"
proof (cases "map_of (m_opcodesByName db) n")
  case None
  then show ?thesis using ok by (simp add: db_remove_name_def ex_bool_eq)
next
  case (Some p)
  then obtain oc where "db_heap db p = Some oc" "oc_name oc = n"
    using ok by (auto simp: db_ok_def dest: index_okD)
  then show ?thesis using ok Some
    by (auto simp: db_remove_name_def db_delete_def Let_def db_ok_def intro: index_ok_delete)
qed

lemma db_move_ok:
  assumes ok: "db_ok db"
  shows "\<exists>r db'. db_move k k' db = Some (r, db') \<and> db_ok db'"
proof (cases "map_of (m_opcodes db) k")
  case None
  then show ?thesis using ok by (simp add: db_move_def ex_bool_eq)
next
  case (Some p)
  then obtain oc where "db_heap db p = Some oc" "oc_opcode oc = k"
    using ok by (auto simp: db_ok_def dest: index_okD)
  then show ?thesis using ok Some
    by (auto simp: db_move_def db_modify_def Let_def db_ok_def setOPCode_def
        intro: index_ok_rekey index_ok_modify)
qed

lemma db_move_name_ok:
  assumes ok: "db_ok db"
  shows "\<exists>r db'. db_move_name n n' db = Some (r, db') \<and> db_ok db'"
proof (cases "map_of (m_opcodesByName db) n")
  case None
  then show ?thesis using ok by (simp add: db_move_name_def ex_bool_eq)
next
  case (Some p)
  then obtain oc where "db_heap db p = Some oc" "oc_name oc = n"
    using ok by (auto simp: db_ok_def dest: index_okD)
  then show ?thesis using ok Some
    by (auto simp: db_move_name_def db_modify_def Let_def db_ok_def setName_def
        intro: index_ok_rekey index_ok_modify)
qed

text \<open>\<open>clear\<close> deletes each object once: two ids never share an object.\<close>

lemma qDeleteAll_alive:
  "distinct ps \<Longrightarrow> \<forall>p \<in> set ps. db_heap db p \<noteq> None \<Longrightarrow>
    qDeleteAll ps db = Some (db\<lparr>db_heap := \<lambda>p. if p \<in> set ps then None else db_heap db p\<rparr>)"
proof (induction ps arbitrary: db)
  case Nil
  then show ?case by simp
next
  case (Cons p ps)
  have d: "db_delete p db = Some (db\<lparr>db_heap := (db_heap db)(p := None)\<rparr>)"
    using Cons.prems by (auto simp: db_delete_def)
  have "\<forall>q \<in> set ps. db_heap (db\<lparr>db_heap := (db_heap db)(p := None)\<rparr>) q \<noteq> None"
    using Cons.prems by auto
  note Cons.IH [OF _ this]
  then show ?case using Cons.prems d by (auto simp: fun_eq_iff)
qed

lemma index_distinct_targets:
  "index_ok key tbl h \<Longrightarrow> distinct (map snd tbl)"
proof -
  assume ok: "index_ok key tbl h"
  then have d: "distinct (map fst tbl)" by (simp add: index_ok_def)
  have m: "map_of tbl k = Some p" if "(k, p) \<in> set tbl" for k p
    using d that by simp
  have "inj_on snd (set tbl)"
  proof (rule inj_onI)
    fix x y assume xy: "x \<in> set tbl" "y \<in> set tbl" "snd x = snd y"
    then have "map_of tbl (fst x) = Some (snd x)" "map_of tbl (fst y) = Some (snd x)"
      using m [of "fst x" "snd x"] m [of "fst y" "snd y"] by (metis prod.collapse)+
    then have "fst x = fst y"
      using index_okD [OF ok, of "fst x" "snd x"] index_okD [OF ok, of "fst y" "snd x"] by auto
    then show "x = y" using xy by (simp add: prod_eq_iff)
  qed
  then show ?thesis using d by (simp add: distinct_map)
qed

lemma db_clear_ok:
  assumes ok: "db_ok db"
  shows "\<exists>db'. db_clear db = Some db' \<and> db_ok db' \<and> m_opcodes db' = [] \<and> m_opcodesByName db' = []
    \<and> (db_full db \<longrightarrow> db_heap db' = Map.empty)"
proof -
  let ?ps = "map snd (m_opcodes db)"
  have i: "index_ok oc_opcode (m_opcodes db) (db_heap db)" using ok by (simp add: db_ok_def)
  have m: "map_of (m_opcodes db) k = Some p" if "(k, p) \<in> set (m_opcodes db)" for k p
    using i that by (simp add: index_ok_def)
  have alive: "\<forall>p \<in> set ?ps. db_heap db p \<noteq> None" using m index_okD [OF i] by fastforce
  have q: "qDeleteAll ?ps db = Some (db\<lparr>db_heap := \<lambda>p. if p \<in> set ?ps then None else db_heap db p\<rparr>)"
    by (rule qDeleteAll_alive [OF index_distinct_targets [OF i] alive])
  have "db_heap db p = None" if "db_full db" "p \<notin> set ?ps" for p
  proof (rule ccontr)
    assume "db_heap db p \<noteq> None"
    then obtain oc where "db_heap db p = Some oc" by auto
    then have "map_of (m_opcodes db) (oc_opcode oc) = Some p"
      using that(1) by (simp add: db_full_def index_all_def)
    then have "(oc_opcode oc, p) \<in> set (m_opcodes db)" by (rule map_of_SomeD)
    then show False using that(2) by force
  qed
  then show ?thesis using ok q by (auto simp: db_clear_def db_ok_def fun_eq_iff)
qed

section \<open>Sequences of operations\<close>

datatype db_op = OAdd u16 string | ORemove u16 | ORemoveName string | OMove u16 u16
  | OMoveName string string | OClear | OLoad "(xml_token list \<times> bool) option"

definition dropped :: "('a \<times> 'b) option \<Rightarrow> 'b option" where
  "dropped r = map_option snd r"

fun db_step :: "toUShort \<Rightarrow> EQPacketTypeDB \<Rightarrow> db_op \<Rightarrow> EQPacketOPCodeDB \<Rightarrow> EQPacketOPCodeDB option" where
  "db_step us ty (OAdd k n) db = Some (snd (db_add k n db))"
| "db_step us ty (ORemove k) db = dropped (db_remove k db)"
| "db_step us ty (ORemoveName n) db = dropped (db_remove_name n db)"
| "db_step us ty (OMove k k') db = dropped (db_move k k' db)"
| "db_step us ty (OMoveName n n') db = dropped (db_move_name n n' db)"
| "db_step us ty OClear db = db_clear db"
| "db_step us ty (OLoad doc) db = dropped (db_load us ty doc db)"

fun db_run :: "toUShort \<Rightarrow> EQPacketTypeDB \<Rightarrow> db_op list \<Rightarrow> EQPacketOPCodeDB \<Rightarrow> EQPacketOPCodeDB option" where
  "db_run us ty [] db = Some db"
| "db_run us ty (x # xs) db = do { db1 \<leftarrow> db_step us ty x db; db_run us ty xs db1 }"

lemma droppedI: "\<exists>r db'. x = Some (r, db') \<and> P db' \<Longrightarrow> \<exists>db'. dropped x = Some db' \<and> P db'"
  by (auto simp: dropped_def)

lemma keeps_keys [simp]:
  "oc_opcode (setUpdated u oc) = oc_opcode oc" "oc_name (setUpdated u oc) = oc_name oc"
  "oc_opcode (setImplicitLen l oc) = oc_opcode oc" "oc_name (setImplicitLen l oc) = oc_name oc"
  "oc_opcode (addComment c oc) = oc_opcode oc" "oc_name (addComment c oc) = oc_name oc"
  "oc_opcode (append_payload pl oc) = oc_opcode oc" "oc_name (append_payload pl oc) = oc_name oc"
  by (simp_all add: setUpdated_def setImplicitLen_def addComment_def append_payload_def)

lemma db_modify_opt_ok:
  assumes "db_ok db" "db_heap db p \<noteq> None"
    "\<And>x oc. oc_opcode (f x oc) = oc_opcode oc" "\<And>x oc. oc_name (f x oc) = oc_name oc"
  shows "\<exists>db'. (case v of None \<Rightarrow> Some db | Some x \<Rightarrow> db_modify p (f x) db) = Some db' \<and> db_ok db'
    \<and> db_heap db' p \<noteq> None"
proof (cases v)
  case (Some x)
  show ?thesis using db_modify_ok [of db p "f x"] assms Some by fastforce
qed (use assms in auto)

text \<open>An \<open>opcode\<close> element is refused or adds an object.\<close>

lemma parse_opcode_ok:
  assumes ok: "db_ok db"
  shows "\<exists>r. parse_opcode us attr db = Some r \<and>
    (r = None \<or> (\<exists>p db'. r = Some (p, db') \<and> db_ok db' \<and> db_heap db' p \<noteq> None))"
proof (cases "map_of attr ''id'' = None \<or> us 16 (the (map_of attr ''id'')) = None
    \<or> map_of attr ''name'' = None")
  case True
  then show ?thesis by (auto simp: parse_opcode_def split: option.split)
next
  case False
  then obtain i k n where k: "map_of attr ''id'' = Some i" "us 16 i = Some k" "map_of attr ''name'' = Some n"
    by auto
  obtain p db1 where 1: "db_add k n db = (p, db1)" by fastforce
  then have a: "db_ok db1" "db_heap db1 p \<noteq> None"
    using db_add_ok [OF ok, of k n] db_add_alive [OF 1] by auto
  obtain db2 where 2: "(case map_of attr ''updated'' of None \<Rightarrow> Some db1
      | Some u \<Rightarrow> db_modify p (setUpdated u) db1) = Some db2" "db_ok db2" "db_heap db2 p \<noteq> None"
    using db_modify_opt_ok [OF a, of setUpdated] by (metis keeps_keys(1,2))
  obtain db3 where 3: "(case map_of attr ''implicitlen'' of None \<Rightarrow> Some db2
      | Some l \<Rightarrow> db_modify p (setImplicitLen (case us 10 l of None \<Rightarrow> 0 | Some v \<Rightarrow> v)) db2) = Some db3"
    "db_ok db3" "db_heap db3 p \<noteq> None"
    using db_modify_opt_ok [OF 2(2,3), of "\<lambda>l. setImplicitLen (case us 10 l of None \<Rightarrow> 0 | Some v \<Rightarrow> v)"]
    by (metis (no_types, lifting) keeps_keys(3,4))
  show ?thesis using k 1 2 3 by (simp add: parse_opcode_def)
qed

lemma load_loop_ok:
  "db_ok db \<Longrightarrow> (\<And>p. cur = Some p \<Longrightarrow> db_heap db p \<noteq> None) \<Longrightarrow>
    \<exists>r db'. load_loop us ty herr ts cur db = Some (r, db') \<and> db_ok db'"
proof (induction us ty herr ts cur db rule: load_loop.induct)
  case (1 us ty herr cur db)
  then show ?case by simp
next
  case (2 us ty herr name attr tx n ts cur db)
  consider (opc) "name = ''opcode''" | (com) "name = ''comment''" "cur \<noteq> None"
    | (pay) "name = ''payload''" "cur \<noteq> None"
    | (other) "name \<noteq> ''opcode''" "\<not> (name = ''comment'' \<and> cur \<noteq> None)" "\<not> (name = ''payload'' \<and> cur \<noteq> None)"
    by blast
  then show ?case
  proof cases
    case opc
    show ?thesis
      using parse_opcode_ok [OF 2(5), of us attr] 2(1) [OF opc] 2(5) opc by fastforce
  next
    case com
    then obtain p where p: "cur = Some p" by auto
    obtain db1 where db1: "db_modify p (addComment tx) db = Some db1" "db_ok db1" "db_heap db1 p \<noteq> None"
      using db_modify_ok [OF 2(5) 2(6) [OF p], of "addComment tx"] by auto
    then show ?thesis using 2(2) [of db1] com p by auto
  next
    case pay
    then obtain p where p: "cur = Some p" by auto
    obtain db1 where db1: "db_modify p (append_payload (parse_payload ty attr)) db = Some db1"
      "db_ok db1" "db_heap db1 p \<noteq> None"
      using db_modify_ok [OF 2(5) 2(6) [OF p], of "append_payload (parse_payload ty attr)"] by auto
    then show ?thesis using 2(3) [of db1] pay p by auto
  next
    case other
    then show ?thesis using 2(4) 2(5,6) by auto
  qed
next
  case (3 us ty herr name ts cur db)
  then show ?case by (auto split: if_splits)
next
  case (4 us ty herr ts cur db)
  then show ?case by simp
qed

lemma db_step_ok: "db_ok db \<Longrightarrow> \<exists>db'. db_step us ty x db = Some db' \<and> db_ok db'"
proof (cases x)
  case (OLoad doc)
  assume a: "db_ok db"
  then have "\<exists>r db'. db_load us ty doc db = Some (r, db') \<and> db_ok db'"
    using load_loop_ok [of db None us ty]
    by (auto simp: db_load_def ex_bool_eq split: option.split prod.split)
  then show ?thesis using OLoad droppedI by simp
next
  case OClear
  assume "db_ok db"
  then show ?thesis using OClear db_clear_ok [of db] by auto
qed (auto simp: db_add_ok intro!: droppedI db_remove_ok db_remove_name_ok db_move_ok db_move_name_ok)

lemma db_run_ok: "db_ok db \<Longrightarrow> \<exists>db'. db_run us ty xs db = Some db' \<and> db_ok db'"
proof (induction xs arbitrary: db)
  case (Cons x xs)
  obtain db1 where "db_step us ty x db = Some db1" "db_ok db1"
    using db_step_ok [OF Cons.prems] by blast
  then show ?case using Cons.IH by auto
qed simp

section \<open>The database as a map from ids to opcodes\<close>

definition abs_db :: "EQPacketOPCodeDB \<Rightarrow> u16 \<Rightarrow> EQPacketOPCode option" where
  "abs_db db k = Option.bind (map_of (m_opcodes db) k) (db_heap db)"

fun abs_step :: "db_op \<Rightarrow> (u16 \<rightharpoonup> EQPacketOPCode) \<Rightarrow> (u16 \<rightharpoonup> EQPacketOPCode)" where
  "abs_step (OAdd k n) A = A(k \<mapsto> new_EQPacketOPCode k n)"
| "abs_step (ORemove k) A = A(k := None)"
| "abs_step (ORemoveName n) A = (\<lambda>k. case A k of None \<Rightarrow> None
     | Some oc \<Rightarrow> if oc_name oc = n then None else Some oc)"
| "abs_step (OMove k k') A = (case A k of None \<Rightarrow> A
     | Some oc \<Rightarrow> (A(k := None))(k' \<mapsto> setOPCode k' oc))"
| "abs_step (OMoveName n n') A =
     (\<lambda>k. map_option (\<lambda>oc. if oc_name oc = n then setName n' oc else oc) (A k))"
| "abs_step OClear A = Map.empty"
| "abs_step (OLoad doc) A = A"

text \<open>The operation does not hit an id or a name that is in use for another opcode.\<close>

definition name_free :: "string \<Rightarrow> (u16 \<rightharpoonup> EQPacketOPCode) \<Rightarrow> bool" where
  "name_free n A \<longleftrightarrow> (\<forall>k oc. A k = Some oc \<longrightarrow> oc_name oc \<noteq> n)"

fun clash_free :: "db_op \<Rightarrow> (u16 \<rightharpoonup> EQPacketOPCode) \<Rightarrow> bool" where
  "clash_free (OAdd k n) A \<longleftrightarrow> A k = None \<and> name_free n A"
| "clash_free (OMove k k') A \<longleftrightarrow> A k' = None \<or> k' = k"
| "clash_free (OMoveName n n') A \<longleftrightarrow> name_free n' A \<or> n' = n"
| "clash_free (OLoad doc) A \<longleftrightarrow> False"
| "clash_free _ A \<longleftrightarrow> True"

lemma full_id: "db_full db \<Longrightarrow> db_heap db p = Some oc \<Longrightarrow> map_of (m_opcodes db) (oc_opcode oc) = Some p"
  by (simp add: db_full_def index_all_def)

lemma full_name:
  "db_full db \<Longrightarrow> db_heap db p = Some oc \<Longrightarrow> map_of (m_opcodesByName db) (oc_name oc) = Some p"
  by (simp add: db_full_def index_all_def)

lemma id_D: "db_ok db \<Longrightarrow> map_of (m_opcodes db) k = Some p \<Longrightarrow>
    \<exists>oc. db_heap db p = Some oc \<and> oc_opcode oc = k"
  by (rule index_okD) (simp_all add: db_ok_def)

lemma name_D: "db_ok db \<Longrightarrow> map_of (m_opcodesByName db) n = Some p \<Longrightarrow>
    \<exists>oc. db_heap db p = Some oc \<and> oc_name oc = n"
  by (rule index_okD) (simp_all add: db_ok_def)

lemma full_ok: "db_full db \<Longrightarrow> db_ok db"
  by (simp add: db_full_def)

lemma abs_db_None: "db_ok db \<Longrightarrow> abs_db db k = None \<longleftrightarrow> map_of (m_opcodes db) k = None"
  using id_D [of db k] by (cases "map_of (m_opcodes db) k") (auto simp: abs_db_def)

lemma abs_db_Some: "map_of (m_opcodes db) k = Some p \<Longrightarrow> abs_db db k = db_heap db p"
  by (simp add: abs_db_def)

lemma name_free_iff:
  assumes f: "db_full db"
  shows "name_free n (abs_db db) \<longleftrightarrow> map_of (m_opcodesByName db) n = None"
proof (cases "map_of (m_opcodesByName db) n")
  case None
  have "oc_name oc \<noteq> n" if a: "abs_db db k = Some oc" for k oc
  proof -
    obtain p where "db_heap db p = Some oc" using a by (auto simp: abs_db_def bind_Some_iff)
    then show ?thesis using full_name [OF f] None by force
  qed
  then show ?thesis using None by (simp add: name_free_def)
next
  case (Some p)
  then obtain oc where "db_heap db p = Some oc" "oc_name oc = n" using name_D [OF full_ok [OF f]] by blast
  then have "abs_db db (oc_opcode oc) = Some oc" using full_id [OF f] abs_db_Some by force
  then show ?thesis using Some \<open>oc_name oc = n\<close> by (auto simp: name_free_def)
qed

lemma abs_add:
  assumes f: "db_full db" and c: "abs_db db k = None" "name_free n (abs_db db)"
  shows "db_full (snd (db_add k n db)) \<and> abs_db (snd (db_add k n db)) = abs_step (OAdd k n) (abs_db db)"
proof -
  have u: "map_of (m_opcodes db) k = None" "map_of (m_opcodesByName db) n = None"
    using f c by (simp_all add: abs_db_None name_free_iff db_full_def)
  have h: "db_heap db (db_next db) = None" using f by (simp add: db_full_def db_ok_def)
  have full: "db_full (snd (db_add k n db))"
    using f u h db_add_ok [of db k n]
    by (auto simp: db_full_def db_add_def Let_def intro: index_all_add)
  have "map_of (m_opcodes db) j \<noteq> Some (db_next db)" for j
    using f h by (auto simp: db_full_def db_ok_def dest: index_okD)
  then have "abs_db (snd (db_add k n db)) = (abs_db db)(k \<mapsto> new_EQPacketOPCode k n)"
    by (auto simp: fun_eq_iff abs_db_def db_add_def Let_def alist_maps split: bind_splits)
  then show ?thesis using full by simp
qed

text \<open>The two removals delete one object and file it nowhere.\<close>

lemma abs_delete:
  assumes f: "db_full db" and p: "db_heap db p = Some oc"
    and t: "m_opcodes db' = AList.delete (oc_opcode oc) (m_opcodes db)"
      "m_opcodesByName db' = AList.delete (oc_name oc) (m_opcodesByName db)"
      "db_heap db' = (db_heap db)(p := None)" "db_next db' = db_next db"
  shows "db_full db' \<and> abs_db db' = (abs_db db)(oc_opcode oc := None)"
proof -
  have full: "db_full db'" using f p t
    by (auto simp: db_full_def db_ok_def intro: index_ok_delete index_all_delete)
  have "abs_db db' j = ((abs_db db)(oc_opcode oc := None)) j" for j
  proof (cases "j = oc_opcode oc")
    case False
    then have "map_of (m_opcodes db) j \<noteq> Some p" using id_D [OF full_ok [OF f]] p by fastforce
    then show ?thesis using False
      by (cases "map_of (m_opcodes db) j") (auto simp: abs_db_def t alist_maps)
  qed (simp add: abs_db_def t alist_maps)
  then show ?thesis using full by blast
qed

lemma abs_remove:
  assumes f: "db_full db"
  shows "\<exists>r db'. db_remove k db = Some (r, db') \<and> db_full db' \<and> abs_db db' = abs_step (ORemove k) (abs_db db)"
proof (cases "map_of (m_opcodes db) k")
  case None
  then have "abs_db db k = None" by (simp add: abs_db_def)
  then show ?thesis using f None by (simp add: db_remove_def ex_bool_eq fun_upd_idem)
next
  case (Some p)
  then obtain oc where oc: "db_heap db p = Some oc" "oc_opcode oc = k"
    using id_D [OF full_ok [OF f]] by blast
  let ?db = "db\<lparr>m_opcodes := AList.delete k (m_opcodes db),
    m_opcodesByName := AList.delete (oc_name oc) (m_opcodesByName db), db_heap := (db_heap db)(p := None)\<rparr>"
  have "db_remove k db = Some (True, ?db)"
    using Some oc by (simp add: db_remove_def db_delete_def)
  moreover have "db_full ?db \<and> abs_db ?db = (abs_db db)(k := None)"
    using abs_delete [OF f oc(1), of ?db] oc(2) by simp
  ultimately show ?thesis by auto
qed

lemma abs_remove_name:
  assumes f: "db_full db"
  shows "\<exists>r db'. db_remove_name n db = Some (r, db') \<and> db_full db'
    \<and> abs_db db' = abs_step (ORemoveName n) (abs_db db)"
proof (cases "map_of (m_opcodesByName db) n")
  case None
  then have "name_free n (abs_db db)" using f by (simp add: name_free_iff)
  then have "abs_step (ORemoveName n) (abs_db db) = abs_db db"
    by (auto simp: fun_eq_iff name_free_def split: option.split)
  then show ?thesis using f None by (simp add: db_remove_name_def ex_bool_eq)
next
  case (Some p)
  then obtain oc where oc: "db_heap db p = Some oc" "oc_name oc = n"
    using name_D [OF full_ok [OF f]] by blast
  let ?db = "db\<lparr>m_opcodes := AList.delete (oc_opcode oc) (m_opcodes db),
    m_opcodesByName := AList.delete n (m_opcodesByName db), db_heap := (db_heap db)(p := None)\<rparr>"
  have "db_remove_name n db = Some (True, ?db)"
    using Some oc by (simp add: db_remove_name_def db_delete_def)
  moreover have d: "db_full ?db \<and> abs_db ?db = (abs_db db)(oc_opcode oc := None)"
    using abs_delete [OF f oc(1), of ?db] oc(2) by simp
  moreover have "(abs_db db)(oc_opcode oc := None) = abs_step (ORemoveName n) (abs_db db)"
  proof
    fix j
    show "((abs_db db)(oc_opcode oc := None)) j = abs_step (ORemoveName n) (abs_db db) j"
    proof (cases "abs_db db j")
      case (Some x)
      then obtain q where q: "map_of (m_opcodes db) j = Some q" "db_heap db q = Some x"
        by (auto simp: abs_db_def bind_Some_iff)
      then have x: "oc_opcode x = j" using id_D [OF full_ok [OF f]] by fastforce
      show ?thesis
      proof (cases "oc_name x = n")
        case True
        then have "q = p" using full_name [OF f q(2)] full_name [OF f oc(1)] oc(2) by simp
        then show ?thesis using q oc x Some by simp
      next
        case False
        then have "j \<noteq> oc_opcode oc" using full_id [OF f oc(1)] q oc by auto
        then show ?thesis using Some False by simp
      qed
    qed simp
  qed
  ultimately show ?thesis by auto
qed

text \<open>The two moves change the key of one object.\<close>

lemma abs_move:
  assumes f: "db_full db" and c: "abs_db db k' = None \<or> k' = k"
  shows "\<exists>r db'. db_move k k' db = Some (r, db') \<and> db_full db' \<and> abs_db db' = abs_step (OMove k k') (abs_db db)"
proof (cases "map_of (m_opcodes db) k")
  case None
  then have "abs_db db k = None" by (simp add: abs_db_def)
  then show ?thesis using f None by (simp add: db_move_def ex_bool_eq)
next
  case (Some p)
  then obtain oc where oc: "db_heap db p = Some oc" "oc_opcode oc = k" "abs_db db k = Some oc"
    using id_D [OF full_ok [OF f] Some] abs_db_Some [OF Some] by auto
  let ?oc = "setOPCode k' oc"
  let ?db = "db\<lparr>m_opcodes := AList.update k' p (AList.delete k (m_opcodes db)),
    db_heap := (db_heap db)(p \<mapsto> ?oc)\<rparr>"
  have m: "map_of (m_opcodes db) k' = None \<or> k' = k" using c f by (simp add: abs_db_None db_full_def)
  have e: "oc_name ?oc = oc_name oc" "oc_opcode ?oc = k'" by (simp_all add: setOPCode_def)
  have full: "db_full ?db"
    using f m oc e by (auto simp: db_full_def db_ok_def
        intro: index_ok_rekey index_all_rekey index_ok_modify index_all_modify)
  have "db_move k k' db = Some (True, ?db)" using Some oc by (simp add: db_move_def db_modify_def)
  moreover have "abs_db ?db = ((abs_db db)(k := None))(k' \<mapsto> ?oc)"
  proof
    fix j
    have "map_of (m_opcodes db) j \<noteq> Some p" if "j \<noteq> k" using id_D [OF full_ok [OF f]] oc that by fastforce
    then show "abs_db ?db j = (((abs_db db)(k := None))(k' \<mapsto> ?oc)) j"
      by (cases "map_of (m_opcodes db) j") (auto simp: abs_db_def alist_maps)
  qed
  ultimately show ?thesis using full oc by auto
qed

lemma abs_move_name:
  assumes f: "db_full db" and c: "name_free n' (abs_db db) \<or> n' = n"
  shows "\<exists>r db'. db_move_name n n' db = Some (r, db') \<and> db_full db'
    \<and> abs_db db' = abs_step (OMoveName n n') (abs_db db)"
proof (cases "map_of (m_opcodesByName db) n")
  case None
  then have "name_free n (abs_db db)" using f by (simp add: name_free_iff)
  then have "abs_step (OMoveName n n') (abs_db db) = abs_db db"
    by (auto simp: fun_eq_iff name_free_def map_option_case split: option.split)
  then show ?thesis using f None by (simp add: db_move_name_def ex_bool_eq)
next
  case (Some p)
  then obtain oc where oc: "db_heap db p = Some oc" "oc_name oc = n"
    using name_D [OF full_ok [OF f] Some] by auto
  let ?oc = "setName n' oc"
  let ?db = "db\<lparr>m_opcodesByName := AList.update n' p (AList.delete n (m_opcodesByName db)),
    db_heap := (db_heap db)(p \<mapsto> ?oc)\<rparr>"
  have m: "map_of (m_opcodesByName db) n' = None \<or> n' = n" using c f by (simp add: name_free_iff)
  have e: "oc_opcode ?oc = oc_opcode oc" "oc_name ?oc = n'" by (simp_all add: setName_def)
  have full: "db_full ?db"
    using f m oc e by (auto simp: db_full_def db_ok_def
        intro: index_ok_rekey index_all_rekey index_ok_modify index_all_modify)
  have "db_move_name n n' db = Some (True, ?db)" using Some oc by (simp add: db_move_name_def db_modify_def)
  moreover have "abs_db ?db = abs_step (OMoveName n n') (abs_db db)"
  proof
    fix j
    show "abs_db ?db j = abs_step (OMoveName n n') (abs_db db) j"
    proof (cases "map_of (m_opcodes db) j")
      case None
      then show ?thesis by (simp add: abs_db_def)
    next
      case (Some q)
      then obtain x where x: "db_heap db q = Some x" "oc_opcode x = j" using id_D [OF full_ok [OF f]] by blast
      then have "oc_name x = n \<longleftrightarrow> q = p"
        using full_name [OF f x(1)] full_name [OF f oc(1)] oc by auto
      then show ?thesis using Some x oc by (cases "q = p") (simp_all add: abs_db_def)
    qed
  qed
  ultimately show ?thesis using full by auto
qed

lemma abs_step_refines:
  assumes f: "db_full db" and c: "clash_free x (abs_db db)"
  shows "\<exists>db'. db_step us ty x db = Some db' \<and> db_full db' \<and> abs_db db' = abs_step x (abs_db db)"
proof (cases x)
  case OClear
  have "db_ok db" using f by (simp add: db_full_def)
  from db_clear_ok [OF this] show ?thesis using f OClear
    by (auto simp: db_full_def index_all_def abs_db_def fun_eq_iff)
qed (use f c abs_add abs_remove abs_remove_name abs_move abs_move_name in \<open>auto intro!: droppedI\<close>)

fun clash_free_run :: "db_op list \<Rightarrow> (u16 \<rightharpoonup> EQPacketOPCode) \<Rightarrow> bool" where
  "clash_free_run [] A \<longleftrightarrow> True"
| "clash_free_run (x # xs) A \<longleftrightarrow> clash_free x A \<and> clash_free_run xs (abs_step x A)"

lemma abs_run_refines:
  "db_full db \<Longrightarrow> clash_free_run xs (abs_db db) \<Longrightarrow>
    \<exists>db'. db_run us ty xs db = Some db' \<and> db_full db' \<and> abs_db db' = fold abs_step xs (abs_db db)"
proof (induction xs arbitrary: db)
  case (Cons x xs)
  obtain db1 where 1: "db_step us ty x db = Some db1" "db_full db1" "abs_db db1 = abs_step x (abs_db db)"
    using abs_step_refines [of db x us ty] Cons.prems by auto
  then show ?case using Cons.IH [of db1] Cons.prems by auto
qed simp

lemma destroy_frees:
  "db_full db \<Longrightarrow> \<exists>db'. db_destroy db = Some db' \<and> db_heap db' = Map.empty"
proof (induction "length (m_opcodesByName db)" arbitrary: db rule: less_induct)
  case less
  show ?case
  proof (cases "m_opcodesByName db")
    case Nil
    then have "db_heap db p = None" for p
      using full_name [OF less.prems, of p] by (cases "db_heap db p") auto
    then show ?thesis using Nil by (simp add: db_destroy.simps [of db] fun_eq_iff)
  next
    case (Cons e rest)
    obtain n p where e: "e = (n, p)" by fastforce
    obtain r db1 where 1: "db_remove_name n db = Some (r, db1)" "db_full db1"
      using abs_remove_name [OF less.prems, of n] by blast
    have "map_of (m_opcodesByName db) n = Some p" using Cons e by simp
    then have "m_opcodesByName db1 = AList.delete n (m_opcodesByName db)"
      using 1 by (auto simp: db_remove_name_def db_delete_def Let_def bind_Some_iff)
    then have "length (m_opcodesByName db1) < length (m_opcodesByName db)"
      using Cons e by (simp add: le_imp_less_Suc AList.length_delete_le)
    then have "\<exists>db'. db_destroy db1 = Some db' \<and> db_heap db' = Map.empty" using less.hyps 1 by simp
    then show ?thesis using Cons e 1 by (simp add: db_destroy.simps [of db])
  qed
qed

section \<open>Documents\<close>

text \<open>An opcode as a document describes it, and the tokens of its element.\<close>

record opcode_desc =
  d_id :: string
  d_name :: string
  d_updated :: "string option"
  d_implicit :: "string option"
  d_comments :: "string list"
  d_payloads :: "(string \<times> string) list list"

definition opt_attr :: "string \<Rightarrow> string option \<Rightarrow> (string \<times> string) list" where
  "opt_attr k v = (case v of None \<Rightarrow> [] | Some s \<Rightarrow> [(k, s)])"

definition desc_attrs :: "opcode_desc \<Rightarrow> (string \<times> string) list" where
  "desc_attrs d = [(''id'', d_id d), (''name'', d_name d)] @ opt_attr ''updated'' (d_updated d)
     @ opt_attr ''implicitlen'' (d_implicit d)"

definition comment_tokens :: "string list \<Rightarrow> xml_token list" where
  "comment_tokens cs = concat (map (\<lambda>c. [XStart ''comment'' [] c 2, XOther, XEnd ''comment'']) cs)"

definition payload_tokens :: "(string \<times> string) list list \<Rightarrow> xml_token list" where
  "payload_tokens as = concat (map (\<lambda>a. [XStart ''payload'' a [] 0, XEnd ''payload'']) as)"

definition desc_tokens :: "opcode_desc \<Rightarrow> xml_token list" where
  "desc_tokens d = XStart ''opcode'' (desc_attrs d) [] 0 # comment_tokens (d_comments d)
     @ payload_tokens (d_payloads d) @ [XEnd ''opcode'']"

definition doc_tokens :: "opcode_desc list \<Rightarrow> xml_token list" where
  "doc_tokens ds = XStart ''seqopcodes'' [] [] 0 # concat (map desc_tokens ds) @ [XEnd ''seqopcodes'']"

definition desc_id :: "toUShort \<Rightarrow> opcode_desc \<Rightarrow> u16" where
  "desc_id us d = the (us 16 (d_id d))"

definition desc_opcode :: "toUShort \<Rightarrow> EQPacketTypeDB \<Rightarrow> opcode_desc \<Rightarrow> EQPacketOPCode" where
  "desc_opcode us ty d = \<lparr>oc_payloads = map (parse_payload ty) (d_payloads d), oc_opcode = desc_id us d,
     oc_implicitLen = (case d_implicit d of None \<Rightarrow> 0
       | Some l \<Rightarrow> (case us 10 l of None \<Rightarrow> 0 | Some v \<Rightarrow> v)),
     oc_name = d_name d, oc_updated = (case d_updated d of None \<Rightarrow> [] | Some u \<Rightarrow> u),
     oc_comments = d_comments d\<rparr>"

text \<open>The cursor of \<open>load\<close> stands on the object filed under \<open>k\<close>, whose value is \<open>oc\<close>.\<close>

definition at :: "EQPacketOPCodeDB \<Rightarrow> u16 \<Rightarrow> addr \<Rightarrow> EQPacketOPCode \<Rightarrow> bool" where
  "at db k p oc \<longleftrightarrow> db_ok db \<and> map_of (m_opcodes db) k = Some p \<and> db_heap db p = Some oc"

lemma at_abs: "at db k p oc \<Longrightarrow> abs_db db k = Some oc"
  by (simp add: at_def abs_db_def)

lemma at_modify:
  assumes a: "at db k p oc" and f: "\<And>oc. oc_opcode (f oc) = oc_opcode oc" "\<And>oc. oc_name (f oc) = oc_name oc"
  shows "\<exists>db'. db_modify p f db = Some db' \<and> at db' k p (f oc) \<and> abs_db db' = (abs_db db)(k \<mapsto> f oc)"
proof -
  have ok: "db_ok db" and m: "map_of (m_opcodes db) k = Some p" and h: "db_heap db p = Some oc"
    using a by (simp_all add: at_def)
  obtain db' oc2 where d: "db_modify p f db = Some db'" "db_ok db'" "db_heap db p = Some oc2"
    "db_heap db' = (db_heap db)(p \<mapsto> f oc2)" "m_opcodes db' = m_opcodes db"
    using db_modify_ok [where p = p and f = f, OF ok _ f] h by auto
  have "abs_db db' j = ((abs_db db)(k \<mapsto> f oc)) j" for j
  proof (cases "j = k")
    case False
    then have "map_of (m_opcodes db) j \<noteq> Some p" using id_D [OF ok, of j p] id_D [OF ok m] by auto
    then show ?thesis using False d by (cases "map_of (m_opcodes db) j") (auto simp: abs_db_def)
  qed (use d h m in \<open>simp add: abs_db_def\<close>)
  then show ?thesis using d h m by (auto simp: at_def)
qed

lemma at_add:
  assumes ok: "db_ok db"
  shows "\<exists>p db'. db_add k n db = (p, db') \<and> at db' k p (new_EQPacketOPCode k n)
    \<and> abs_db db' = (abs_db db)(k \<mapsto> new_EQPacketOPCode k n)"
proof -
  have "map_of (m_opcodes db) j \<noteq> Some (db_next db)" for j
    using ok id_D [OF ok, of j "db_next db"] by (auto simp: db_ok_def)
  then show ?thesis using db_add_ok [OF ok, of k n]
    by (auto simp: db_add_def Let_def at_def alist_maps abs_db_def fun_eq_iff split: bind_splits)
qed

lemma at_modify_opt:
  assumes a: "at db k p oc"
    and f: "\<And>x oc. oc_opcode (f x oc) = oc_opcode oc" "\<And>x oc. oc_name (f x oc) = oc_name oc"
  shows "\<exists>db'. (case v of None \<Rightarrow> Some db | Some x \<Rightarrow> db_modify p (f x) db) = Some db' \<and>
    at db' k p (case v of None \<Rightarrow> oc | Some x \<Rightarrow> f x oc) \<and>
    abs_db db' = (abs_db db)(k \<mapsto> case v of None \<Rightarrow> oc | Some x \<Rightarrow> f x oc)"
proof (cases v)
  case None
  then show ?thesis using a at_abs [OF a] by (simp add: fun_upd_idem)
next
  case (Some x)
  then show ?thesis using at_modify [OF a, of "f x"] f by simp
qed

lemma load_comments:
  "at db k p oc \<Longrightarrow> \<exists>db'. load_loop us ty herr (comment_tokens cs @ ts) (Some p) db
      = load_loop us ty herr ts (Some p) db'
    \<and> at db' k p (oc\<lparr>oc_comments := oc_comments oc @ cs\<rparr>)
    \<and> abs_db db' = (abs_db db)(k \<mapsto> oc\<lparr>oc_comments := oc_comments oc @ cs\<rparr>)"
proof (induction cs arbitrary: db oc)
  case Nil
  then show ?case using at_abs [OF Nil] by (auto simp: comment_tokens_def fun_upd_idem)
next
  case (Cons c cs)
  obtain db1 where 1: "db_modify p (addComment c) db = Some db1" "at db1 k p (addComment c oc)"
    "abs_db db1 = (abs_db db)(k \<mapsto> addComment c oc)"
    using at_modify [OF Cons.prems, of "addComment c"] by auto
  have "load_loop us ty herr (comment_tokens (c # cs) @ ts) (Some p) db
    = load_loop us ty herr (comment_tokens cs @ ts) (Some p) db1"
    using 1(1) by (simp add: comment_tokens_def numeral_2_eq_2)
  then show ?case using Cons.IH [OF 1(2), unfolded 1(3) fun_upd_upd] by (simp add: addComment_def)
qed

lemma load_payloads:
  "at db k p oc \<Longrightarrow> \<exists>db'. load_loop us ty herr (payload_tokens as @ ts) (Some p) db
      = load_loop us ty herr ts (Some p) db'
    \<and> at db' k p (oc\<lparr>oc_payloads := oc_payloads oc @ map (parse_payload ty) as\<rparr>)
    \<and> abs_db db' = (abs_db db)(k \<mapsto> oc\<lparr>oc_payloads := oc_payloads oc @ map (parse_payload ty) as\<rparr>)"
proof (induction as arbitrary: db oc)
  case Nil
  then show ?case using at_abs [OF Nil] by (auto simp: payload_tokens_def fun_upd_idem)
next
  case (Cons a as)
  let ?f = "append_payload (parse_payload ty a)"
  obtain db1 where 1: "db_modify p ?f db = Some db1" "at db1 k p (?f oc)"
    "abs_db db1 = (abs_db db)(k \<mapsto> ?f oc)"
    using at_modify [OF Cons.prems, of ?f] by auto
  have "load_loop us ty herr (payload_tokens (a # as) @ ts) (Some p) db
    = load_loop us ty herr (payload_tokens as @ ts) (Some p) db1"
    using 1(1) by (simp add: payload_tokens_def)
  then show ?case using Cons.IH [OF 1(2), unfolded 1(3) fun_upd_upd] by (simp add: append_payload_def)
qed

lemma opt_attr_lookup:
  "map_of (desc_attrs d) ''id'' = Some (d_id d)" "map_of (desc_attrs d) ''name'' = Some (d_name d)"
  "map_of (desc_attrs d) ''updated'' = d_updated d" "map_of (desc_attrs d) ''implicitlen'' = d_implicit d"
  by (auto simp: desc_attrs_def opt_attr_def map_add_def split: option.split)

definition desc_shell :: "toUShort \<Rightarrow> opcode_desc \<Rightarrow> EQPacketOPCode" where
  "desc_shell us d = (new_EQPacketOPCode (desc_id us d) (d_name d))\<lparr>
     oc_updated := (case d_updated d of None \<Rightarrow> [] | Some u \<Rightarrow> u),
     oc_implicitLen := (case d_implicit d of None \<Rightarrow> 0 | Some l \<Rightarrow> (case us 10 l of None \<Rightarrow> 0 | Some v \<Rightarrow> v))\<rparr>"

lemma parse_desc:
  assumes ok: "db_ok db" and i: "us 16 (d_id d) \<noteq> None"
  shows "\<exists>p db'. parse_opcode us (desc_attrs d) db = Some (Some (p, db'))
    \<and> at db' (desc_id us d) p (desc_shell us d)
    \<and> abs_db db' = (abs_db db)(desc_id us d \<mapsto> desc_shell us d)"
proof -
  let ?k = "desc_id us d"
  let ?imp = "\<lambda>l. setImplicitLen (case us 10 l of None \<Rightarrow> 0 | Some v \<Rightarrow> v)"
  have k: "us 16 (d_id d) = Some ?k" using i by (auto simp: desc_id_def)
  obtain p db1 where 1: "db_add ?k (d_name d) db = (p, db1)"
    "at db1 ?k p (new_EQPacketOPCode ?k (d_name d))"
    "abs_db db1 = (abs_db db)(?k \<mapsto> new_EQPacketOPCode ?k (d_name d))"
    using at_add [OF ok] by blast
  obtain db2 oc2 where 2: "(case d_updated d of None \<Rightarrow> Some db1 | Some u \<Rightarrow> db_modify p (setUpdated u) db1) = Some db2"
    "at db2 ?k p oc2" "abs_db db2 = (abs_db db1)(?k \<mapsto> oc2)"
    "oc2 = (case d_updated d of None \<Rightarrow> new_EQPacketOPCode ?k (d_name d)
      | Some u \<Rightarrow> setUpdated u (new_EQPacketOPCode ?k (d_name d)))"
    using at_modify_opt [OF 1(2), of setUpdated "d_updated d"] by auto
  obtain db3 oc3 where 3: "(case d_implicit d of None \<Rightarrow> Some db2 | Some l \<Rightarrow> db_modify p (?imp l) db2) = Some db3"
    "at db3 ?k p oc3" "abs_db db3 = (abs_db db2)(?k \<mapsto> oc3)"
    "oc3 = (case d_implicit d of None \<Rightarrow> oc2 | Some l \<Rightarrow> ?imp l oc2)"
    using at_modify_opt [OF 2(2), of ?imp "d_implicit d"] by auto
  have "oc3 = desc_shell us d"
    by (simp add: 2(4) 3(4) desc_shell_def setUpdated_def setImplicitLen_def new_EQPacketOPCode_def
        split: option.split)
  then show ?thesis using k 1 2 3 by (simp add: parse_opcode_def opt_attr_lookup)
qed

lemma desc_opcode_shell: "desc_opcode us ty d = (desc_shell us d)
    \<lparr>oc_comments := d_comments d, oc_payloads := map (parse_payload ty) (d_payloads d)\<rparr>"
  by (simp add: desc_opcode_def desc_shell_def new_EQPacketOPCode_def)

lemma load_desc:
  assumes ok: "db_ok db" and i: "us 16 (d_id d) \<noteq> None"
  shows "\<exists>db'. load_loop us ty herr (desc_tokens d @ ts) cur db = load_loop us ty herr ts None db'
    \<and> db_ok db' \<and> abs_db db' = (abs_db db)(desc_id us d \<mapsto> desc_opcode us ty d)"
proof -
  obtain p db1 where 1: "parse_opcode us (desc_attrs d) db = Some (Some (p, db1))"
    "at db1 (desc_id us d) p (desc_shell us d)"
    "abs_db db1 = (abs_db db)(desc_id us d \<mapsto> desc_shell us d)"
    using parse_desc [where us = us and d = d, OF assms] by blast
  let ?rest = "payload_tokens (d_payloads d) @ [XEnd ''opcode''] @ ts"
  obtain db2 where 2: "load_loop us ty herr (comment_tokens (d_comments d) @ ?rest) (Some p) db1
      = load_loop us ty herr ?rest (Some p) db2"
    "at db2 (desc_id us d) p ((desc_shell us d)\<lparr>oc_comments := d_comments d\<rparr>)"
    "abs_db db2 = (abs_db db1)(desc_id us d \<mapsto> (desc_shell us d)\<lparr>oc_comments := d_comments d\<rparr>)"
    using load_comments [OF 1(2), of us ty herr "d_comments d" ?rest]
    by (auto simp: desc_shell_def new_EQPacketOPCode_def)
  obtain db3 where 3: "load_loop us ty herr ?rest (Some p) db2
      = load_loop us ty herr ([XEnd ''opcode''] @ ts) (Some p) db3"
    "at db3 (desc_id us d) p (desc_opcode us ty d)"
    "abs_db db3 = (abs_db db2)(desc_id us d \<mapsto> desc_opcode us ty d)"
    using load_payloads [OF 2(2), of us ty herr "d_payloads d" "[XEnd ''opcode''] @ ts"]
    by (auto simp: desc_opcode_shell desc_shell_def new_EQPacketOPCode_def)
  have "load_loop us ty herr (desc_tokens d @ ts) cur db
      = load_loop us ty herr (comment_tokens (d_comments d) @ ?rest) (Some p) db1"
    using 1(1) by (simp add: desc_tokens_def)
  then show ?thesis using 1 2 3 by (auto simp: at_def)
qed

lemma load_descs:
  "db_ok db \<Longrightarrow> \<forall>d \<in> set ds. us 16 (d_id d) \<noteq> None \<Longrightarrow>
    \<exists>db'. load_loop us ty herr (concat (map desc_tokens ds) @ ts) None db = load_loop us ty herr ts None db'
    \<and> db_ok db' \<and> abs_db db' = fold (\<lambda>d A. A(desc_id us d \<mapsto> desc_opcode us ty d)) ds (abs_db db)"
proof (induction ds arbitrary: db)
  case (Cons d ds)
  have i: "us 16 (d_id d) \<noteq> None" using Cons.prems by simp
  obtain db1 where 1: "load_loop us ty herr (desc_tokens d @ concat (map desc_tokens ds) @ ts) None db
      = load_loop us ty herr (concat (map desc_tokens ds) @ ts) None db1" "db_ok db1"
    "abs_db db1 = (abs_db db)(desc_id us d \<mapsto> desc_opcode us ty d)"
    using load_desc [where us = us and d = d, OF Cons.prems(1) i] by blast
  then show ?case using Cons.IH [OF 1(2)] Cons.prems(2) by auto
qed auto

lemma load_document:
  assumes "db_ok db" "\<forall>d \<in> set ds. us 16 (d_id d) \<noteq> None"
  shows "\<exists>db'. db_load us ty (Some (doc_tokens ds, False)) db = Some (True, db') \<and> db_ok db'
    \<and> abs_db db' = fold (\<lambda>d A. A(desc_id us d \<mapsto> desc_opcode us ty d)) ds (abs_db db)"
proof -
  obtain db' where "load_loop us ty False (concat (map desc_tokens ds) @ [XEnd ''seqopcodes'']) None db
      = load_loop us ty False [XEnd ''seqopcodes''] None db'" "db_ok db'"
    "abs_db db' = fold (\<lambda>d A. A(desc_id us d \<mapsto> desc_opcode us ty d)) ds (abs_db db)"
    using load_descs [where us = us and ds = ds, OF assms] by blast
  then show ?thesis by (simp add: db_load_def doc_tokens_def)
qed

section \<open>save\<close>

definition sorted_keys :: "(u16 \<times> 'a) list \<Rightarrow> bool" where
  "sorted_keys xs \<longleftrightarrow> sorted_wrt (<) (map fst xs)"

lemma omap_keys: "fst ` set (omap_insert k v xs) = insert k (fst ` set xs)"
  by (induction k v xs rule: omap_insert.induct) auto

lemma omap_sorted: "sorted_keys xs \<Longrightarrow> sorted_keys (omap_insert k v xs)"
proof (induction k v xs rule: omap_insert.induct)
  case (2 k v k' v' xs)
  have "\<forall>x \<in> fst ` set xs. k' < x" using 2(2) by (auto simp: sorted_keys_def)
  then have "\<forall>x \<in> fst ` set (omap_insert k v xs). k' < x" if "k' < k"
    using that unfolding omap_keys by simp
  then show ?case using 2 by (auto simp: sorted_keys_def intro: order.strict_trans)
qed (simp add: sorted_keys_def)

lemma omap_lookup: "k \<notin> fst ` set xs \<Longrightarrow> map_of (omap_insert k v xs) = (map_of xs)(k \<mapsto> v)"
  by (induction k v xs rule: omap_insert.induct) (auto simp: fun_eq_iff)

lemma order_opcodes_spec:
  "\<forall>(k, p) \<in> set xs. \<exists>oc. db_heap db p = Some oc \<and> oc_opcode oc = k \<Longrightarrow> distinct (map fst xs) \<Longrightarrow>
    sorted_keys acc \<Longrightarrow> fst ` set xs \<inter> fst ` set acc = {} \<Longrightarrow>
    \<exists>ys. order_opcodes xs db acc = Some ys \<and> sorted_keys ys
      \<and> map_of ys = (\<lambda>k. case map_of xs k of None \<Rightarrow> map_of acc k | Some p \<Rightarrow> db_heap db p)"
proof (induction xs arbitrary: acc)
  case (Cons e xs)
  obtain k p where e: "e = (k, p)" by fastforce
  obtain oc where oc: "db_heap db p = Some oc" "oc_opcode oc = k" using Cons.prems(1) e by auto
  let ?acc = "omap_insert k oc acc"
  have "fst ` set xs \<inter> fst ` set ?acc = {}" using Cons.prems(2,4) e by (auto simp: omap_keys)
  moreover have "\<forall>(k, p) \<in> set xs. \<exists>oc. db_heap db p = Some oc \<and> oc_opcode oc = k" "distinct (map fst xs)"
    using Cons.prems by simp_all
  ultimately obtain ys where ys: "order_opcodes xs db ?acc = Some ys" "sorted_keys ys"
    "map_of ys = (\<lambda>k. case map_of xs k of None \<Rightarrow> map_of ?acc k | Some p \<Rightarrow> db_heap db p)"
    using Cons.IH [of ?acc] omap_sorted [OF Cons.prems(3)] by blast
  have k: "map_of xs k = None" "k \<notin> fst ` set acc"
    using Cons.prems(2,4) e by (auto simp: map_of_eq_None_iff)
  have "map_of ys = (\<lambda>j. case map_of (e # xs) j of None \<Rightarrow> map_of acc j | Some p \<Rightarrow> db_heap db p)"
    using ys(3) k oc e by (auto simp: fun_eq_iff omap_lookup split: option.split)
  then show ?case using ys oc e by simp
qed simp

lemma db_ordered:
  assumes ok: "db_ok db"
  shows "\<exists>ys. order_opcodes (m_opcodes db) db [] = Some ys \<and> sorted_keys ys \<and> map_of ys = abs_db db"
proof -
  have d: "distinct (map fst (m_opcodes db))" using ok by (simp add: db_ok_def index_ok_def)
  have "\<forall>(k, p) \<in> set (m_opcodes db). \<exists>oc. db_heap db p = Some oc \<and> oc_opcode oc = k"
    using id_D [OF ok] d by auto
  from order_opcodes_spec [OF this d, of "[]"] obtain ys where
    "order_opcodes (m_opcodes db) db [] = Some ys" "sorted_keys ys"
    "map_of ys = (\<lambda>k. case map_of (m_opcodes db) k of None \<Rightarrow> map_of [] k | Some p \<Rightarrow> db_heap db p)"
    by (auto simp: sorted_keys_def)
  moreover from this(3) have "map_of ys = abs_db db"
    by (simp add: abs_db_def fun_eq_iff split: option.split)
  ultimately show ?thesis by blast
qed

lemma sorted_keys_unique:
  assumes "sorted_keys xs" "sorted_keys ys" "map_of xs = map_of ys"
  shows "xs = ys"
proof -
  have d: "distinct (map fst xs)" "distinct (map fst ys)" and s: "sorted (map fst xs)" "sorted (map fst ys)"
    using assms(1,2) by (simp_all add: sorted_keys_def strict_sorted_iff)
  have "e \<in> set xs \<longleftrightarrow> e \<in> set ys" for e
    using map_of_eq_Some_iff [OF d(1), of "fst e" "snd e"] map_of_eq_Some_iff [OF d(2), of "fst e" "snd e"]
      assms(3) by simp
  then have e: "set xs = set ys" by blast
  have "inj_on fst (set xs \<union> set ys)" using d(1) e by (simp add: distinct_map)
  then show ?thesis using map_sorted_distinct_set_unique s d e by blast
qed

text \<open>A payload whose direction has a name in the table of three.\<close>

definition dir_ok :: "EQPacketPayload \<Rightarrow> bool" where
  "dir_ok pl \<longleftrightarrow> pl_dir pl = 1 \<or> pl_dir pl = 2 \<or> pl_dir pl = 3"

lemma dirStr_None: "dirStr (pl_dir pl) = None \<longleftrightarrow> \<not> dir_ok pl"
  by (simp add: dirStr_def dir_ok_def)

lemma save_payloads_None: "save_payloads indent pls = None \<longleftrightarrow> \<not> list_all dir_ok pls"
proof (induction pls)
  case (Cons pl pls)
  then show ?case using dirStr_None [of pl]
    by (cases "dirStr (pl_dir pl)"; cases "save_payloads indent pls") auto
qed simp

lemma save_opcode_None: "save_opcode indent oc = None \<longleftrightarrow> \<not> list_all dir_ok (oc_payloads oc)"
  unfolding save_opcode_def Let_def save_payloads_None [of "indent @ ''    ''", symmetric]
  by (cases "save_payloads (indent @ ''    '') (oc_payloads oc)") simp_all

lemma save_opcodes_None:
  "save_opcodes xs = None \<longleftrightarrow> (\<exists>(k, oc) \<in> set xs. \<not> list_all dir_ok (oc_payloads oc))"
proof (induction xs)
  case (Cons e xs)
  obtain k oc where e: "e = (k, oc)" by fastforce
  show ?case using Cons save_opcode_None [of "''    ''" oc] e
    by (cases "save_opcode ''    '' oc"; cases "save_opcodes xs") auto
qed simp

lemma db_save_None:
  assumes ok: "db_ok db"
  shows "db_save db = None \<longleftrightarrow> (\<exists>k oc. abs_db db k = Some oc \<and> \<not> list_all dir_ok (oc_payloads oc))"
proof -
  obtain ys where ys: "order_opcodes (m_opcodes db) db [] = Some ys" "sorted_keys ys" "map_of ys = abs_db db"
    using db_ordered [OF ok] by blast
  have "distinct (map fst ys)" using ys(2) by (simp add: sorted_keys_def strict_sorted_iff)
  then have "(\<exists>(k, oc) \<in> set ys. \<not> list_all dir_ok (oc_payloads oc))
      \<longleftrightarrow> (\<exists>k oc. abs_db db k = Some oc \<and> \<not> list_all dir_ok (oc_payloads oc))"
    unfolding ys(3) [symmetric] by (auto simp: map_of_eq_Some_iff)
  moreover have "db_save db = None \<longleftrightarrow> save_opcodes ys = None"
    by (cases "save_opcodes ys") (simp_all add: db_save_def ys(1))
  ultimately show ?thesis by (simp add: save_opcodes_None)
qed

lemma db_save_abs:
  assumes "db_ok db" "db_ok db'" "abs_db db = abs_db db'"
  shows "db_save db = db_save db'"
proof -
  obtain ys zs where "order_opcodes (m_opcodes db) db [] = Some ys" "sorted_keys ys" "map_of ys = abs_db db"
    "order_opcodes (m_opcodes db') db' [] = Some zs" "sorted_keys zs" "map_of zs = abs_db db'"
    using db_ordered [OF assms(1)] db_ordered [OF assms(2)] by blast
  moreover from this have "ys = zs" using sorted_keys_unique assms(3) by metis
  ultimately show ?thesis by (simp only: db_save_def)
qed

section \<open>Properties\<close>

text \<open>C10: the opcode database never follows a dangling pointer. Any sequence of additions, removals and
  moves by id or by name, clears and loads of any document, from the empty database, with clashing
  ids and names or not, completes, and leaves two tables whose every entry points to a live
  opcode that carries the id, or the name, under which it is filed.\<close>

theorem opcodedb_never_dangles: "\<exists>db'. db_run us ty xs new_EQPacketOPCodeDB = Some db' \<and> db_ok db'"
  by (rule db_run_ok) (rule db_ok_new)

text \<open>C11: refinement. As long as no operation hits an id or a name that is in use by another opcode, the
  database with its heap and its two tables behaves as one map from ids to opcodes: both tables
  stay complete and the map evolves by the abstract operations.\<close>

theorem opcodedb_refines_map:
  assumes "clash_free_run xs Map.empty"
  shows "\<exists>db'. db_run us ty xs new_EQPacketOPCodeDB = Some db' \<and> db_full db'
    \<and> abs_db db' = fold abs_step xs Map.empty"
proof -
  have "abs_db new_EQPacketOPCodeDB = Map.empty"
    by (simp add: abs_db_def new_EQPacketOPCodeDB_def fun_eq_iff)
  then show ?thesis
    using abs_run_refines [OF db_ok_new(2), of xs us ty] assms by simp
qed

theorem opcodedb_refines_map_witness:
  "\<exists>db'. db_run (\<lambda>_ _. None) [] [OAdd 1 ''a'', OAdd 2 ''b'', OMove 1 3, ORemoveName ''b'']
       new_EQPacketOPCodeDB = Some db'
     \<and> abs_db db' = [3 \<mapsto> setOPCode 3 (new_EQPacketOPCode 1 ''a'')]"
proof -
  let ?xs = "[OAdd 1 ''a'', OAdd 2 ''b'', OMove 1 3, ORemoveName ''b'']"
  have "clash_free_run ?xs Map.empty" by (auto simp: name_free_def new_EQPacketOPCode_def)
  from opcodedb_refines_map [OF this, of "\<lambda>_ _. None" "[]"] show ?thesis
    by (auto simp: fun_eq_iff setOPCode_def split: if_splits)
qed

text \<open>no leak. From a database whose tables are complete the destructor, which removes one name
  after the other, ends and has deleted every opcode object exactly once.\<close>

theorem opcodedb_destructor_frees_all:
  assumes "db_full db"
  shows "\<exists>db'. db_destroy db = Some db' \<and> db_heap db' = Map.empty"
  by (rule destroy_frees [OF assms])

theorem opcodedb_destructor_frees_all_witness:
  "\<exists>db'. db_destroy (snd (db_add 7 ''x'' new_EQPacketOPCodeDB)) = Some db' \<and> db_heap db' = Map.empty"
proof (rule opcodedb_destructor_frees_all)
  show "db_full (snd (db_add 7 ''x'' new_EQPacketOPCodeDB))"
    using abs_add [OF db_ok_new(2), of 7 "''x''"]
    by (simp add: abs_db_def name_free_def new_EQPacketOPCodeDB_def)
qed

text \<open>loading. From a well-formed document whose ids are hexadecimal numbers, load succeeds and the
  database answers each id with the opcode of the last element that has it: its name, its update
  date, its implicit length, its comments and its payload descriptions in document order; other
  ids are answered as before.\<close>

theorem opcodedb_load_document:
  assumes "\<forall>d \<in> set ds. us 16 (d_id d) \<noteq> None" "db_run us ty xs new_EQPacketOPCodeDB = Some db"
  shows "\<exists>db'. db_load us ty (Some (doc_tokens ds, False)) db = Some (True, db')
    \<and> abs_db db' = fold (\<lambda>d A. A(desc_id us d \<mapsto> desc_opcode us ty d)) ds (abs_db db)"
proof -
  have "db_ok db" using db_run_ok [OF db_ok_new(1), of us ty xs] assms(2) by auto
  then show ?thesis using load_document assms(1) by blast
qed

theorem opcodedb_load_document_witness:
  "\<exists>db'. db_load (\<lambda>_ s. if s = ''00a1'' then Some 0xa1 else None) [(''spawnStruct'', 40)]
       (Some (doc_tokens [\<lparr>d_id = ''00a1'', d_name = ''OP_NewSpawn'', d_updated = None, d_implicit = None,
          d_comments = [''c''], d_payloads = [[(''dir'', ''server''), (''typename'', ''spawnStruct''),
            (''sizechecktype'', ''match'')]]\<rparr>], False)) new_EQPacketOPCodeDB = Some (True, db')
     \<and> abs_db db' 0xa1 = Some \<lparr>oc_payloads = [\<lparr>pl_typeName = ''spawnStruct'', pl_typeSize = 40,
         pl_sizeCheckType = SZC_Match, pl_dir = 2\<rparr>], oc_opcode = 0xa1, oc_implicitLen = 0,
         oc_name = ''OP_NewSpawn'', oc_updated = [], oc_comments = [''c'']\<rparr>"
proof -
  let ?us = "\<lambda>_ s. if s = ''00a1'' then Some 0xa1 else None" and ?ty = "[(''spawnStruct'', 40)]"
  let ?a = "[(''dir'', ''server''), (''typename'', ''spawnStruct''), (''sizechecktype'', ''match'')]"
  let ?ds = "[\<lparr>d_id = ''00a1'', d_name = ''OP_NewSpawn'', d_updated = None, d_implicit = None,
          d_comments = [''c''], d_payloads = [?a]\<rparr>]"
  have "parse_payload ?ty ?a = \<lparr>pl_typeName = ''spawnStruct'', pl_typeSize = 40,
      pl_sizeCheckType = SZC_Match, pl_dir = 2\<rparr>" by code_simp
  moreover have "\<forall>d \<in> set ?ds. ?us 16 (d_id d) \<noteq> None"
    "db_run ?us ?ty [] new_EQPacketOPCodeDB = Some new_EQPacketOPCodeDB" by simp_all
  note opcodedb_load_document [OF this]
  ultimately show ?thesis by (auto simp: desc_opcode_def desc_id_def)
qed

text \<open>saving is canonical. What save writes depends only on the map from ids to opcodes, not on the
  order in which the hash table iterates nor on how the database came about.\<close>

theorem opcodedb_save_canonical:
  assumes "db_run us ty xs new_EQPacketOPCodeDB = Some db" "db_run us' ty' xs' new_EQPacketOPCodeDB = Some db'"
    "abs_db db = abs_db db'"
  shows "db_save db = db_save db'"
proof -
  have "db_ok db" using db_run_ok [OF db_ok_new(1), of us ty xs] assms(1) by auto
  moreover have "db_ok db'" using db_run_ok [OF db_ok_new(1), of us' ty' xs'] assms(2) by auto
  ultimately show ?thesis using db_save_abs assms(3) by blast
qed

theorem opcodedb_save_canonical_witness:
  "map_option db_save (db_run (\<lambda>_ _. None) [] [OAdd 1 ''a'', OAdd 2 ''b''] new_EQPacketOPCodeDB) =
   map_option db_save (db_run (\<lambda>_ _. None) [] [OAdd 2 ''b'', OAdd 1 ''a''] new_EQPacketOPCodeDB)"
proof -
  let ?r = "\<lambda>xs. db_run (\<lambda>_ _. None) [] xs new_EQPacketOPCodeDB"
  obtain db db' where d: "?r [OAdd 1 ''a'', OAdd 2 ''b''] = Some db" "?r [OAdd 2 ''b'', OAdd 1 ''a''] = Some db'"
    by simp
  have "abs_db db = abs_db db'"
    using d by (auto simp: abs_db_def fun_eq_iff db_add_def Let_def new_EQPacketOPCodeDB_def)
  from opcodedb_save_canonical [OF d this] show ?thesis using d by simp
qed

text \<open>save reads outside its table of direction names exactly when some opcode in the database has a
  payload whose direction is none of client, server and both, as it is after loading a payload
  element without a dir attribute.\<close>

theorem opcodedb_save_fault:
  assumes "db_run us ty xs new_EQPacketOPCodeDB = Some db"
  shows "db_save db = None \<longleftrightarrow>
    (\<exists>k oc. abs_db db k = Some oc \<and> \<not> list_all dir_ok (oc_payloads oc))"
proof -
  have "db_ok db" using db_run_ok [OF db_ok_new(1), of us ty xs] assms by auto
  then show ?thesis by (rule db_save_None)
qed

theorem opcodedb_save_fault_witness:
  "\<exists>db. db_run (\<lambda>_ s. Some 5) [] [OLoad (Some (doc_tokens [\<lparr>d_id = ''5'', d_name = ''n'', d_updated = None,
      d_implicit = None, d_comments = [], d_payloads = [[(''typename'', ''x'')]]\<rparr>], False))]
      new_EQPacketOPCodeDB = Some db \<and> db_save db = None"
proof -
  let ?d = "\<lparr>d_id = ''5'', d_name = ''n'', d_updated = None,
      d_implicit = None, d_comments = [], d_payloads = [[(''typename'', ''x'')]]\<rparr>"
  let ?us = "\<lambda>_ s. Some 5" let ?xs = "[OLoad (Some (doc_tokens [?d], False))]"
  obtain db where 1: "db_load ?us [] (Some (doc_tokens [?d], False)) new_EQPacketOPCodeDB = Some (True, db)"
    "abs_db db = (abs_db new_EQPacketOPCodeDB)(desc_id ?us ?d \<mapsto> desc_opcode ?us [] ?d)"
    using load_document [OF db_ok_new(1), of "[?d]" ?us "[]"] by auto
  then have r: "db_run ?us [] ?xs new_EQPacketOPCodeDB = Some db" by (simp add: dropped_def)
  have "\<not> list_all dir_ok (oc_payloads (desc_opcode ?us [] ?d))"
    by (simp add: desc_opcode_def parse_payload_def parse_dir_def parse_typename_def parse_szt_def
        setType_def typedb_valid_def typedb_size_def dir_ok_def new_EQPacketPayload_def)
  then show ?thesis using r opcodedb_save_fault [OF r] 1(2) by (metis fun_upd_same)
qed

end
