(* ===== verification/PacketFormat.thy ===== *)
theory PacketFormat
  imports PacketCommon
begin

text \<open>
  \<open>src/src/packetformat.h\<close> and \<open>src/src/packetformat.cpp\<close>: the view of a captured packet.
  \<open>EQProtocolPacket::init\<close> reads the protocol header of a UDP payload, \<open>EQUDPIPPacketFormat::init\<close>
  the IP and UDP headers in front of it; every captured packet passes through both.

  A pointer into a packet is the readable memory from there on (a list of bytes). Reading
  behind it is \<open>None\<close>. Lengths are \<open>uint32_t\<close> and wrap.
\<close>

section \<open>Opcodes\<close>

definition OP_SessionRequest :: u16 where "OP_SessionRequest = 0x0100"
definition OP_SessionResponse :: u16 where "OP_SessionResponse = 0x0200"
definition OP_Combined :: u16 where "OP_Combined = 0x0300"
definition OP_SessionDisconnect :: u16 where "OP_SessionDisconnect = 0x0500"
definition OP_KeepAlive :: u16 where "OP_KeepAlive = 0x0600"
definition OP_SessionStatRequest :: u16 where "OP_SessionStatRequest = 0x0700"
definition OP_SessionStatResponse :: u16 where "OP_SessionStatResponse = 0x0800"
definition OP_Packet :: u16 where "OP_Packet = 0x0900"
definition OP_Oversized :: u16 where "OP_Oversized = 0x0d00"
definition OP_AckFuture :: u16 where "OP_AckFuture = 0x1100"
definition OP_Ack :: u16 where "OP_Ack = 0x1500"
definition OP_AppCombined :: u16 where "OP_AppCombined = 0x1900"
definition OP_AckAfterDisconnect :: u16 where "OP_AckAfterDisconnect = 0x1d00"

lemmas op_defs = OP_SessionRequest_def OP_SessionResponse_def OP_Combined_def OP_SessionDisconnect_def
  OP_KeepAlive_def OP_SessionStatRequest_def OP_SessionStatResponse_def OP_Packet_def OP_Oversized_def
  OP_AckFuture_def OP_Ack_def OP_AppCombined_def OP_AckAfterDisconnect_def

definition IS_APP_OPCODE :: "u16 \<Rightarrow> bool" where
  "IS_APP_OPCODE w \<longleftrightarrow> w AND 0x00ff \<noteq> 0"

definition IS_NET_OPCODE :: "u16 \<Rightarrow> bool" where
  "IS_NET_OPCODE w \<longleftrightarrow> w AND 0x00ff = 0"

definition PROTOCOL_FLAG_COMPRESSED :: u8 where "PROTOCOL_FLAG_COMPRESSED = 0x5a"

section \<open>EQProtocolPacket\<close>

text \<open>
  \<open>ep_payload\<close> and \<open>ep_rawPayload\<close> are offsets from \<open>m_packet\<close>, \<open>ep_payload = None\<close> and
  \<open>ep_arqSeq = None\<close> a field that \<open>init\<close> leaves unset.
\<close>

record EQProtocolPacket =
  ep_packet :: bytes
  ep_length :: u32
  ep_netOp :: u16
  ep_flags :: u8
  ep_payload :: "nat option"
  ep_payloadLength :: u32
  ep_rawPayload :: nat
  ep_rawPayloadLength :: u32
  ep_bDecoded :: bool
  ep_arqSeq :: "u16 option"
  ep_ownCopy :: bool
  ep_subpacket :: bool

definition wrapped_opcode :: "u16 \<Rightarrow> bool" where
  "wrapped_opcode op \<longleftrightarrow> op = OP_SessionStatRequest \<or> op = OP_SessionStatResponse \<or> op = OP_Combined
     \<or> op = OP_Packet \<or> op = OP_Oversized \<or> op = OP_AppCombined"

definition hasFlags :: "EQProtocolPacket \<Rightarrow> bool" where
  "hasFlags p = (if ep_subpacket p then False
     else if wrapped_opcode (ep_netOp p) then True else IS_APP_OPCODE (ep_netOp p))"

definition hasArqSeq :: "EQProtocolPacket \<Rightarrow> bool" where
  "hasArqSeq p \<longleftrightarrow> ep_netOp p = OP_Packet \<or> ep_netOp p = OP_Oversized"

definition hasCRC :: "EQProtocolPacket \<Rightarrow> bool" where
  "hasCRC p = (if ep_subpacket p then False
     else if wrapped_opcode (ep_netOp p) then True else IS_APP_OPCODE (ep_netOp p))"

definition packet_crc :: "EQProtocolPacket \<Rightarrow> u16 option" where
  "packet_crc p = (if ep_length p \<ge> 2 then eqntohuint16 (ep_packet p) (unat (ep_length p - 2)) else Some 0xDEAD)"

definition crc_size :: "EQProtocolPacket \<Rightarrow> u32" where
  "crc_size p = (if hasCRC p then 2 else 0)"

text \<open>The branch without flags, the branch with flags, and the sequence number.\<close>

definition init_noflags :: "EQProtocolPacket \<Rightarrow> EQProtocolPacket" where
  "init_noflags p = (let len = ep_length p - 2 - crc_size p in
     p\<lparr>ep_flags := 0, ep_rawPayload := 2, ep_rawPayloadLength := len,
       ep_payload := Some 2, ep_payloadLength := len, ep_bDecoded := True\<rparr>)"

definition init_flags :: "EQProtocolPacket \<Rightarrow> EQProtocolPacket option" where
  "init_flags p = do {
     p1 \<leftarrow> (if IS_APP_OPCODE (ep_netOp p)
           then do { fl \<leftarrow> rd8 (ep_packet p) 1; b2 \<leftarrow> rd8 (ep_packet p) 2; b0 \<leftarrow> rd8 (ep_packet p) 0;
                     Some (p\<lparr>ep_flags := fl, ep_netOp := push_bit 8 (ucast b2) OR ucast b0\<rparr>) }
           else do { fl \<leftarrow> rd8 (ep_packet p) 2; Some (p\<lparr>ep_flags := fl\<rparr>) });
     let p2 = p1\<lparr>ep_rawPayload := 3, ep_rawPayloadLength := ep_length p1 - 2 - 1 - crc_size p1\<rparr>;
     Some (if ep_flags p2 AND PROTOCOL_FLAG_COMPRESSED = 0
           then p2\<lparr>ep_payloadLength := ep_rawPayloadLength p2, ep_payload := Some (ep_rawPayload p2),
                   ep_bDecoded := True\<rparr>
           else p2\<lparr>ep_bDecoded := False\<rparr>)
   }"

definition take_arqSeq :: "EQProtocolPacket \<Rightarrow> EQProtocolPacket option" where
  "take_arqSeq p =
     (if hasArqSeq p \<and> ep_bDecoded p
      then do { off \<leftarrow> ep_payload p; seq \<leftarrow> eqntohuint16 (ep_packet p) off;
                Some (p\<lparr>ep_arqSeq := Some seq, ep_payload := Some (off + 2),
                        ep_payloadLength := ep_payloadLength p - 2\<rparr>) }
      else Some p)"

definition ep_init :: "bytes \<Rightarrow> u32 \<Rightarrow> bool \<Rightarrow> bool \<Rightarrow> EQProtocolPacket option" where
  "ep_init packet len copy subpacket = do {
     mem \<leftarrow> (if copy then rd_range packet 0 (unat len) else Some packet);
     netOp \<leftarrow> eqtohuint16 mem 0;
     let p = \<lparr>ep_packet = mem, ep_length = len, ep_netOp = netOp, ep_flags = 0, ep_payload = None,
              ep_payloadLength = 0, ep_rawPayload = 0, ep_rawPayloadLength = 0, ep_bDecoded = False,
              ep_arqSeq = None, ep_ownCopy = copy, ep_subpacket = subpacket\<rparr>;
     p1 \<leftarrow> (if \<not> hasFlags p then Some (init_noflags p) else init_flags p);
     take_arqSeq p1
   }"

text \<open>The copy constructor, for a packet whose payload lies in its own memory: a deep copy owns
  exactly \<open>m_length\<close> bytes and keeps the offsets.\<close>

definition ep_copy :: "EQProtocolPacket \<Rightarrow> bool \<Rightarrow> EQProtocolPacket option" where
  "ep_copy p copy =
     (if \<not> copy then Some (p\<lparr>ep_ownCopy := False\<rparr>)
      else do { mem \<leftarrow> rd_range (ep_packet p) 0 (unat (ep_length p));
                Some (p\<lparr>ep_packet := mem, ep_ownCopy := True\<rparr>) })"

text \<open>\<open>operator=\<close> initialises from the other's raw packet, with the own ownership flag.\<close>

definition ep_assign :: "EQProtocolPacket \<Rightarrow> EQProtocolPacket \<Rightarrow> EQProtocolPacket option" where
  "ep_assign this p = ep_init (ep_packet p) (ep_length p) (ep_ownCopy this) (ep_subpacket p)"

section \<open>EQUDPIPPacketFormat\<close>

record EQUDPIPPacketFormat =
  up_proto :: EQProtocolPacket
  up_dataLength :: u32
  up_mem :: bytes
  up_udp :: nat
  up_rawpayload :: nat
  up_rawpayloadSize :: u32
  up_sessionKey :: u32

definition ip_hl :: "bytes \<Rightarrow> u32 option" where
  "ip_hl m = do { b \<leftarrow> rd8 m 0; Some (ucast (b AND 0x0f)) }"

definition ip_len :: "bytes \<Rightarrow> u16 option" where
  "ip_len m = eqntohuint16 m 2"

definition udp_init :: "bytes \<Rightarrow> EQUDPIPPacketFormat option" where
  "udp_init m = do {
     total \<leftarrow> ip_len m;
     let dataLength = (ucast total :: u32);
     hl \<leftarrow> ip_hl m;
     let ipHeaderLength = hl * 4;
     let length1 = dataLength - ipHeaderLength;
     let udp = unat ipHeaderLength;
     let length2 = length1 - 8;
     let data2 = udp + 8;
     proto \<leftarrow> (if data2 \<le> length m then ep_init (drop data2 m) length2 False False else None);
     Some \<lparr>up_proto = proto, up_dataLength = dataLength, up_mem = m, up_udp = udp,
           up_rawpayload = data2, up_rawpayloadSize = length2, up_sessionKey = 0\<rparr>
   }"

definition getSourcePort :: "EQUDPIPPacketFormat \<Rightarrow> u16 option" where
  "getSourcePort p = eqntohuint16 (up_mem p) (up_udp p)"

definition getDestPort :: "EQUDPIPPacketFormat \<Rightarrow> u16 option" where
  "getDestPort p = eqntohuint16 (up_mem p) (up_udp p + 2)"

text \<open>Addresses stay in network order: the value of the four bytes as loaded.\<close>

definition getIPv4SourceN :: "EQUDPIPPacketFormat \<Rightarrow> u32 option" where
  "getIPv4SourceN p = eqtohuint32 (up_mem p) 12"

definition getIPv4DestN :: "EQUDPIPPacketFormat \<Rightarrow> u32 option" where
  "getIPv4DestN p = eqtohuint32 (up_mem p) 16"

definition setSessionKey :: "u32 \<Rightarrow> EQUDPIPPacketFormat \<Rightarrow> EQUDPIPPacketFormat" where
  "setSessionKey k p = p\<lparr>up_sessionKey := k\<rparr>"

text \<open>The UDP payload handed to a stream: a pointer and a length. A range that leaves the captured
  packet is \<open>None\<close>.\<close>

definition udp_payload :: "EQUDPIPPacketFormat \<Rightarrow> bytes option" where
  "udp_payload p = rd_range (up_mem p) (up_rawpayload p) (unat (up_rawpayloadSize p))"

section \<open>Which captures are safe\<close>

definition capture_ok :: "bytes \<Rightarrow> bool" where
  "capture_ok m \<longleftrightarrow> 20 \<le> length m \<and>
     (let hl = unat (m ! 0 AND 0x0f) * 4; total = unat (the (ip_len m)) in
      20 \<le> hl \<and> hl + 8 \<le> total \<and> total \<le> length m \<and> hl + 8 + 5 \<le> length m)"

lemma hasFlags_update [simp]:
  "hasFlags (p\<lparr>ep_flags := f\<rparr>) = hasFlags p" "hasCRC (p\<lparr>ep_flags := f\<rparr>) = hasCRC p"
  by (simp_all add: hasFlags_def hasCRC_def)

lemma take_arqSeq_total:
  assumes "5 \<le> length (ep_packet p)" "ep_bDecoded p \<longrightarrow> ep_payload p = Some 2 \<or> ep_payload p = Some 3"
  shows "\<exists>q. take_arqSeq p = Some q \<and> ep_packet q = ep_packet p \<and> ep_netOp q = ep_netOp p"
  using assms by (auto simp: take_arqSeq_def mem_simps)

lemma init_flags_total:
  assumes "5 \<le> length (ep_packet p)"
  shows "\<exists>q. init_flags p = Some q \<and> ep_packet q = ep_packet p
    \<and> (ep_bDecoded q \<longrightarrow> ep_payload q = Some 3)"
proof -
  have "rd8 (ep_packet p) 0 = Some (ep_packet p ! 0)" "rd8 (ep_packet p) 1 = Some (ep_packet p ! 1)"
    "rd8 (ep_packet p) 2 = Some (ep_packet p ! 2)" using assms by (simp_all add: rd8_def) auto
  then show ?thesis by (auto simp: init_flags_def Let_def)
qed

lemma ep_init_total:
  assumes "5 \<le> length m"
  shows "\<exists>p. ep_init m len False sub = Some p \<and> ep_packet p = m"
proof -
  obtain w where w: "eqtohuint16 m 0 = Some w" using assms by (simp add: mem_simps)
  let ?p = "\<lparr>ep_packet = m, ep_length = len, ep_netOp = w, ep_flags = 0, ep_payload = None,
              ep_payloadLength = 0, ep_rawPayload = 0, ep_rawPayloadLength = 0, ep_bDecoded = False,
              ep_arqSeq = None, ep_ownCopy = False, ep_subpacket = sub\<rparr>"
  obtain p1 where p1: "(if \<not> hasFlags ?p then Some (init_noflags ?p) else init_flags ?p) = Some p1"
    "ep_packet p1 = m" "ep_bDecoded p1 \<longrightarrow> ep_payload p1 = Some 2 \<or> ep_payload p1 = Some 3"
    using init_flags_total [of ?p] assms by (cases "hasFlags ?p") (auto simp: init_noflags_def Let_def)
  obtain q where "take_arqSeq p1 = Some q" "ep_packet q = m" using take_arqSeq_total [of p1] p1 assms by auto
  then show ?thesis using w p1 by (simp add: ep_init_def Let_def)
qed

lemma unat_u16_to_u32: "unat (ucast (w :: u16) :: u32) = unat w"
  by (simp add: unsigned_ucast_eq take_bit_nat_eq_self order.strict_trans [OF unsigned_less])

text \<open>The UDP header and the payload of a safe capture.\<close>

lemma capture_okD:
  assumes "capture_ok m"
  obtains h t where "ip_hl m = Some h" "ip_len m = Some t" "20 \<le> unat h * 4" "unat h \<le> 15"
    "unat h * 4 + 8 \<le> unat t" "unat t \<le> length m" "unat h * 4 + 13 \<le> length m"
proof -
  have len: "20 \<le> length m" using assms by (simp add: capture_ok_def)
  let ?h = "ucast (m ! 0 AND 0x0f) :: u32"
  have "rd8 m 0 = Some (m ! 0)" using len by (auto simp: rd8_def)
  then have h: "ip_hl m = Some ?h" by (simp add: ip_hl_def)
  obtain t where t: "ip_len m = Some t" using len by (simp add: ip_len_def mem_simps)
  have "m ! 0 AND 0x0f = take_bit 4 (m ! 0)" by (simp add: take_bit_eq_mask mask_eq_exp_minus_1)
  then have "unat (m ! 0 AND 0x0f) = take_bit 4 (unat (m ! 0))" by (simp add: unsigned_take_bit_eq)
  then have b: "unat (m ! 0 AND 0x0f) < 16" using take_bit_nat_less_exp [of 4 "unat (m ! 0)"] by simp
  have u: "unat ?h = unat (m ! 0 AND 0x0f)"
    by (simp add: unsigned_ucast_eq take_bit_nat_eq_self order.strict_trans [OF unsigned_less])
  show thesis
    by (rule that [OF h t]) (use assms b u t in \<open>auto simp: capture_ok_def Let_def\<close>)
qed

lemma udp_init_ok:
  assumes ok: "capture_ok m"
  shows "\<exists>p. udp_init m = Some p \<and> up_mem p = m \<and> up_udp p + 8 = up_rawpayload p
    \<and> up_rawpayload p + unat (up_rawpayloadSize p) = unat (the (ip_len m))
    \<and> unat (the (ip_len m)) \<le> length m"
proof -
  obtain h t where c: "ip_hl m = Some h" "ip_len m = Some t" "20 \<le> unat h * 4" "unat h \<le> 15"
    "unat h * 4 + 8 \<le> unat t" "unat t \<le> length m" "unat h * 4 + 13 \<le> length m"
    by (rule capture_okD [OF ok])
  have h4: "unat (h * 4) = unat h * 4" using c(4) by (simp add: unat_word_ariths)
  have t4: "unat (ucast t :: u32) = unat t" by (rule unat_u16_to_u32)
  let ?l2 = "ucast t - h * 4 - 8 :: u32"
  have "h * 4 \<le> ucast t" using c(5) h4 t4 by (simp add: word_le_nat_alt)
  then have l1: "unat (ucast t - h * 4 :: u32) = unat t - unat h * 4"
    using h4 t4 by (simp add: unat_sub)
  have "8 \<le> ucast t - h * 4" using c(5) l1 by (simp add: word_le_nat_alt)
  then have l2: "unat ?l2 = unat t - unat h * 4 - 8" using l1 by (simp add: unat_sub)
  have "5 \<le> length (drop (unat h * 4 + 8) m)" using c(7) by simp
  then obtain pr where "ep_init (drop (unat h * 4 + 8) m) ?l2 False False = Some pr"
    using ep_init_total by blast
  then have "udp_init m = Some \<lparr>up_proto = pr, up_dataLength = ucast t, up_mem = m, up_udp = unat h * 4,
      up_rawpayload = unat h * 4 + 8, up_rawpayloadSize = ?l2, up_sessionKey = 0\<rparr>"
    using c h4 by (simp add: udp_init_def Let_def)
  then show ?thesis using c l2 by simp
qed

lemma udp_access:
  assumes ok: "capture_ok m" and p: "udp_init m = Some p"
  shows "getSourcePort p \<noteq> None" "getDestPort p \<noteq> None" "getIPv4SourceN p \<noteq> None" "getIPv4DestN p \<noteq> None"
    "udp_payload p \<noteq> None" "\<exists>b. udp_payload p = Some b \<and> length b = unat (up_rawpayloadSize p)"
proof -
  have f: "up_mem p = m" "up_udp p + 8 = up_rawpayload p"
    "up_rawpayload p + unat (up_rawpayloadSize p) \<le> length m"
    using udp_init_ok [OF ok] p by auto
  have len: "20 \<le> length m" using ok by (simp add: capture_ok_def)
  have u: "up_udp p + 8 \<le> length m" using f by linarith
  show "getSourcePort p \<noteq> None" "getDestPort p \<noteq> None" "getIPv4SourceN p \<noteq> None" "getIPv4DestN p \<noteq> None"
    using f(1) u len by (simp_all add: getSourcePort_def getDestPort_def getIPv4SourceN_def getIPv4DestN_def mem_simps)
  show "udp_payload p \<noteq> None" using f by (simp add: udp_payload_def rd_range_def)
  show "\<exists>b. udp_payload p = Some b \<and> length b = unat (up_rawpayloadSize p)"
    using f by (simp add: udp_payload_def rd_range_def)
qed

end
