(* ===== verification/PacketFragment.thy ===== *)
theory PacketFragment
  imports PacketCommon
begin

text \<open>
  \<open>src/src/packetfragment.h\<close> and \<open>src/src/packetfragment.cpp\<close>: the buffer in which the pieces of an
  oversized packet are collected. The buffer is a list of cells, \<open>None\<close> for a cell that was
  allocated and never written; \<open>fs_data = None\<close> is the null pointer. A packet is the memory from
  its payload pointer on and its payload length. Results: \<open>None\<close> is an access outside memory,
  \<open>Inl ()\<close> is \<open>exit\<close> (\<open>seqFatal\<close>), \<open>Inr\<close> the new state.
\<close>

record EQPacketFragmentSequence =
  fs_streamid :: EQStreamID
  fs_data :: "u8 option list option"
  fs_totalLength :: u32
  fs_dataSize :: nat
  fs_dataAllocSize :: u32

definition new_EQPacketFragmentSequence :: "EQStreamID \<Rightarrow> EQPacketFragmentSequence" where
  "new_EQPacketFragmentSequence streamid = \<lparr>fs_streamid = streamid, fs_data = None,
     fs_totalLength = 0, fs_dataSize = 0, fs_dataAllocSize = 0\<rparr>"

definition fs_reset :: "EQPacketFragmentSequence \<Rightarrow> EQPacketFragmentSequence" where
  "fs_reset fs = fs\<lparr>fs_dataSize := 0, fs_totalLength := 0\<rparr>"

definition isComplete :: "EQPacketFragmentSequence \<Rightarrow> bool" where
  "isComplete fs \<longleftrightarrow> fs_dataSize fs \<noteq> 0 \<and> unat (fs_totalLength fs) = fs_dataSize fs"

text \<open>\<open>memcpy\<close> of \<open>bs\<close> to offset \<open>off\<close> of a buffer.\<close>

definition write_at :: "u8 option list option \<Rightarrow> nat \<Rightarrow> bytes \<Rightarrow> u8 option list option option" where
  "write_at buf off bs =
     (if bs = [] then Some buf
      else case buf of
        None \<Rightarrow> None
      | Some xs \<Rightarrow> if off + length bs \<le> length xs
                   then Some (Some (take off xs @ map Some bs @ drop (off + length bs) xs))
                   else None)"

definition add_first :: "EQPacketFragmentSequence \<Rightarrow> bytes \<Rightarrow> u32 \<Rightarrow> EQPacketFragmentSequence option" where
  "add_first fs payload payloadLength = do {
     total \<leftarrow> eqntohuint32 payload 0;
     fs1 \<leftarrow> (if total = 0 then do { _ \<leftarrow> eqtohuint16 payload 4; Some (fs\<lparr>fs_totalLength := total\<rparr>) }
            else if total > fs_dataAllocSize fs
            then Some (fs\<lparr>fs_totalLength := total, fs_dataAllocSize := total,
                          fs_data := Some (replicate (unat total) None)\<rparr>)
            else Some (fs\<lparr>fs_totalLength := total\<rparr>));
     let n = unat (payloadLength - 4);
     src \<leftarrow> rd_range payload 4 n;
     d \<leftarrow> write_at (fs_data fs1) 0 src;
     Some (fs1\<lparr>fs_data := d, fs_dataSize := n\<rparr>)
   }"

definition add_next :: "EQPacketFragmentSequence \<Rightarrow> bytes \<Rightarrow> u32
    \<Rightarrow> (unit + EQPacketFragmentSequence) option" where
  "add_next fs payload payloadLength =
     (if fs_dataSize fs + unat payloadLength > unat (fs_dataAllocSize fs) then Some (Inl ())
      else do {
        src \<leftarrow> rd_range payload 0 (unat payloadLength);
        d \<leftarrow> write_at (fs_data fs) (fs_dataSize fs) src;
        Some (Inr (fs\<lparr>fs_data := d, fs_dataSize := fs_dataSize fs + unat payloadLength\<rparr>))
      })"

definition addFragment :: "EQPacketFragmentSequence \<Rightarrow> bytes \<Rightarrow> u32
    \<Rightarrow> (unit + EQPacketFragmentSequence) option" where
  "addFragment fs payload payloadLength =
     (if fs_dataSize fs = 0 then map_option Inr (add_first fs payload payloadLength)
      else add_next fs payload payloadLength)"

fun add_fragments :: "EQPacketFragmentSequence \<Rightarrow> bytes list \<Rightarrow> (unit + EQPacketFragmentSequence) option" where
  "add_fragments fs [] = Some (Inr fs)"
| "add_fragments fs (p # ps) =
     (case addFragment fs p (of_nat (length p)) of
        None \<Rightarrow> None | Some (Inl u) \<Rightarrow> Some (Inl u) | Some (Inr fs1) \<Rightarrow> add_fragments fs1 ps)"

section \<open>Collecting a message\<close>

text \<open>The buffer is as long as the allocation says, and the message fits.\<close>

definition fs_ok :: "EQPacketFragmentSequence \<Rightarrow> bool" where
  "fs_ok fs \<longleftrightarrow> (case fs_data fs of None \<Rightarrow> fs_dataAllocSize fs = 0
     | Some xs \<Rightarrow> length xs = unat (fs_dataAllocSize fs))"

text \<open>The first bytes of the buffer are \<open>bs\<close>, of a message of \<open>n\<close> bytes.\<close>

definition holds :: "EQPacketFragmentSequence \<Rightarrow> bytes \<Rightarrow> nat \<Rightarrow> bool" where
  "holds fs bs n \<longleftrightarrow> fs_ok fs \<and> fs_dataSize fs = length bs \<and> unat (fs_totalLength fs) = n
     \<and> n \<le> unat (fs_dataAllocSize fs) \<and> (\<exists>xs. fs_data fs = Some xs \<and> take (length bs) xs = map Some bs)"

lemma unat_of_nat_u32: "k < 2 ^ 32 \<Longrightarrow> unat (of_nat k :: u32) = k"
  by (simp add: unat_of_nat)

lemma add_first_holds:
  assumes ok: "fs_ok fs" and p: "p = rev (le_bytes 4 (of_nat n :: u32)) @ bs"
    and n: "0 < n" "n < 2 ^ 32" "length bs \<le> n" "length p < 2 ^ 32"
  shows "\<exists>fs1. add_first fs p (of_nat (length p)) = Some fs1 \<and> holds fs1 bs n"
proof -
  have "take 4 (drop 0 p) = rev (le_bytes 4 (of_nat n :: u32))" by (simp add: p)
  then have t: "eqntohuint32 p 0 = Some (of_nat n)"
    by (simp add: eqntohuint32_Some p be_word_def le_word_le_bytes)
  have un: "unat (of_nat n :: u32) = n" using n by (simp add: unat_of_nat)
  then have n0: "(of_nat n :: u32) \<noteq> 0" using n(1) by (metis unat_0 less_irrefl)
  have lp: "unat (of_nat (length p) :: u32) = length bs + 4"
    using unat_of_nat_u32 [OF n(4)] p by simp
  then have "4 \<le> (of_nat (length p) :: u32)" by (simp add: word_le_nat_alt)
  then have l4: "unat (of_nat (length p) - 4 :: u32) = length bs" using lp by (simp add: unat_sub)
  have src: "rd_range p 4 (length bs) = Some bs" by (simp add: rd_range_def p)
  define fs1 where "fs1 = (if (of_nat n :: u32) > fs_dataAllocSize fs
            then fs\<lparr>fs_totalLength := of_nat n, fs_dataAllocSize := of_nat n,
                          fs_data := Some (replicate (unat (of_nat n :: u32)) None)\<rparr>
            else fs\<lparr>fs_totalLength := of_nat n\<rparr>)"
  have f1: "fs_ok fs1" "unat (fs_totalLength fs1) = n" "n \<le> unat (fs_dataAllocSize fs1)"
    using ok un by (auto simp: fs1_def fs_ok_def word_less_nat_alt not_less split: option.splits)
  then obtain xs where xs: "fs_data fs1 = Some xs" "length xs = unat (fs_dataAllocSize fs1)"
    using n(1) by (auto simp: fs_ok_def split: option.splits)
  have e: "add_first fs p (of_nat (length p)) =
    do { d \<leftarrow> write_at (fs_data fs1) 0 bs; Some (fs1\<lparr>fs_data := d, fs_dataSize := length bs\<rparr>) }"
    unfolding add_first_def t bind.bind_lunit Let_def l4 src using n0 by (simp add: fs1_def)
  show ?thesis using e xs f1 n(3) by (auto simp: write_at_def holds_def fs_ok_def)
qed

lemma add_next_holds:
  assumes h: "holds fs bs n" and b: "bs \<noteq> []" and n: "length bs + length p \<le> n" "length p < 2 ^ 32"
  shows "\<exists>fs1. addFragment fs p (of_nat (length p)) = Some (Inr fs1) \<and> holds fs1 (bs @ p) n"
proof -
  have lp: "unat (of_nat (length p) :: u32) = length p" using n(2) by (simp add: unat_of_nat)
  obtain xs where xs: "fs_data fs = Some xs" "length xs = unat (fs_dataAllocSize fs)"
    "take (length bs) xs = map Some bs" "n \<le> length xs"
    using h by (auto simp: holds_def fs_ok_def)
  have s: "fs_dataSize fs = length bs" using h by (simp add: holds_def)
  have fit: "length bs + length p \<le> length xs" using n xs by simp
  have r: "rd_range p 0 (length p) = Some p" by (simp add: rd_range_def)
  show ?thesis
  proof (cases "p = []")
    case True
    then show ?thesis using h b fit xs s
      by (auto simp: addFragment_def add_next_def lp rd_range_def write_at_def holds_def fs_ok_def)
  next
    case False
    let ?ys = "take (length bs) xs @ map Some p @ drop (length bs + length p) xs"
    have "addFragment fs p (of_nat (length p)) =
      Some (Inr (fs\<lparr>fs_data := Some ?ys, fs_dataSize := length bs + length p\<rparr>))"
      using False b fit xs s by (simp add: addFragment_def add_next_def lp r write_at_def)
    then show ?thesis using h xs fit by (auto simp: holds_def fs_ok_def)
  qed
qed

lemma add_rest_holds:
  "holds fs bs n \<Longrightarrow> bs \<noteq> [] \<Longrightarrow> length bs + length (concat ps) \<le> n \<Longrightarrow> n < 2 ^ 32 \<Longrightarrow>
    \<exists>fs1. add_fragments fs ps = Some (Inr fs1) \<and> holds fs1 (bs @ concat ps) n"
proof (induction ps arbitrary: fs bs)
  case (Cons p ps)
  obtain fs1 where "addFragment fs p (of_nat (length p)) = Some (Inr fs1)" "holds fs1 (bs @ p) n"
    using add_next_holds [OF Cons.prems(1,2), of p] Cons.prems(3,4) by auto
  then show ?case using Cons.IH [of fs1 "bs @ p"] Cons.prems by (auto simp: add.assoc)
qed simp

lemma fs_ok_new: "fs_ok (new_EQPacketFragmentSequence s)"
  by (simp add: fs_ok_def new_EQPacketFragmentSequence_def)

lemma fs_ok_reset: "fs_ok fs \<Longrightarrow> fs_ok (fs_reset fs)"
  by (auto simp: fs_ok_def fs_reset_def split: option.splits)

section \<open>Properties\<close>

text \<open>C13: an oversized packet is put together. When the first fragment starts with the length of the
  whole message and the pieces, with something in the first, add up to it, the buffer holds after
  the last piece exactly the pieces in order and is complete, whatever allocation was left from
  earlier messages.\<close>

theorem fragments_reassembled:
  assumes "fs_ok fs" "fs_dataSize fs = 0" "bs \<noteq> []"
    "n = length bs + length (concat ps)" "n + 4 < 2 ^ 32"
  shows "\<exists>fs1 xs. add_fragments fs ((rev (le_bytes 4 (of_nat n :: u32)) @ bs) # ps) = Some (Inr fs1)
    \<and> isComplete fs1 \<and> fs_data fs1 = Some xs \<and> take (fs_dataSize fs1) xs = map Some (bs @ concat ps)"
proof -
  let ?p = "rev (le_bytes 4 (of_nat n :: u32)) @ bs"
  have "0 < length bs" using assms(3) by simp
  then have "0 < n" "n < 2 ^ 32" "length bs \<le> n" "length ?p < 2 ^ 32" using assms(4,5) by simp_all
  then obtain fs1 where 1: "add_first fs ?p (of_nat (length ?p)) = Some fs1" "holds fs1 bs n"
    using add_first_holds [OF assms(1) refl] by blast
  obtain fs2 where 2: "add_fragments fs1 ps = Some (Inr fs2)" "holds fs2 (bs @ concat ps) n"
    using add_rest_holds [OF 1(2) assms(3)] assms(4) \<open>n < 2 ^ 32\<close> by blast
  have "add_fragments fs (?p # ps) = Some (Inr fs2)"
    using 1(1) 2(1) assms(2) by (simp add: addFragment_def)
  then show ?thesis using 2(2) \<open>0 < n\<close> assms(4) by (auto simp: holds_def isComplete_def)
qed

theorem fragments_reassembled_witness:
  "\<exists>fs1 xs. add_fragments (new_EQPacketFragmentSequence zone2client) [[0, 0, 0, 5, 1, 2], [3, 4], [5]] = Some (Inr fs1)
    \<and> isComplete fs1 \<and> fs_data fs1 = Some xs \<and> take (fs_dataSize fs1) xs = map Some [1, 2, 3, 4, 5]"
proof -
  have "rev (le_bytes 4 (of_nat 5 :: u32)) @ [1, 2] = [0, 0, 0, 5, 1, 2]" by code_simp
  then show ?thesis
    using fragments_reassembled [of "new_EQPacketFragmentSequence zone2client" "[1, 2]" 5 "[[3, 4], [5]]"] fs_ok_new
    by (simp add: new_EQPacketFragmentSequence_def del: le_bytes.simps)
qed

text \<open>the first fragment overruns the buffer. When the length announced in front of the message is
  not 0 and smaller than what the fragment carries, and the buffer is no larger, the copy of the
  first fragment writes behind the allocation: only later fragments are checked.\<close>

theorem first_fragment_overruns:
  assumes "fs_ok fs" "fs_dataSize fs = 0" "0 < tot" "unat (fs_dataAllocSize fs) \<le> tot"
    "tot < length bs" "length bs + 4 < 2 ^ 32"
  shows "addFragment fs (rev (le_bytes 4 (of_nat tot :: u32)) @ bs) (of_nat (length bs + 4)) = None"
proof -
  let ?p = "rev (le_bytes 4 (of_nat tot :: u32)) @ bs"
  have "take 4 (drop 0 ?p) = rev (le_bytes 4 (of_nat tot :: u32))" by simp
  then have t: "eqntohuint32 ?p 0 = Some (of_nat tot)"
    by (simp add: eqntohuint32_Some be_word_def le_word_le_bytes)
  have un: "unat (of_nat tot :: u32) = tot" using assms by (simp add: unat_of_nat)
  then have n0: "(of_nat tot :: u32) \<noteq> 0" using assms(3) by (metis unat_0 less_irrefl)
  have lp: "unat (of_nat (length bs + 4) :: u32) = length bs + 4" by (rule unat_of_nat_u32) (use assms(6) in simp)
  then have "4 \<le> (of_nat (length bs + 4) :: u32)" by (simp add: word_le_nat_alt)
  then have l4: "unat (of_nat (length bs + 4) - 4 :: u32) = length bs" using assms(6) by (simp add: unat_of_nat_u32)
  have src: "rd_range ?p 4 (length bs) = Some bs" by (simp add: rd_range_def)
  have "bs \<noteq> []" using assms(5) by auto
  then have "add_first fs ?p (of_nat (length bs + 4)) = None"
    unfolding add_first_def t bind.bind_lunit Let_def l4 src using n0 assms un
    by (auto simp: write_at_def fs_ok_def word_less_nat_alt split: option.splits)
  then show ?thesis using assms(2) by (simp add: addFragment_def)
qed

theorem first_fragment_overruns_witness:
  "addFragment (new_EQPacketFragmentSequence zone2client) [0, 0, 0, 1, 7, 7] 6 = None"
proof -
  have "rev (le_bytes 4 (of_nat 1 :: u32)) @ [7, 7] = [0, 0, 0, 1, 7, 7]" by code_simp
  then show ?thesis
    using first_fragment_overruns [of "new_EQPacketFragmentSequence zone2client" 1 "[7, 7]"] fs_ok_new
    by (simp add: new_EQPacketFragmentSequence_def del: le_bytes.simps)
qed

end
