(* ===== verification/EQMacCipher.thy ===== *)
theory EQMacCipher
  imports PacketCommon
begin

text \<open>
  The payload obfuscation of \<open>src/src/eqmac_decoder.cpp\<close>: \<open>decryptZoneSpawn\<close> and
  \<open>decryptProfile\<close> work on the 64-bit little-endian words of the buffer, chained by a running key,
  and then undo the encoder's swap of the first and the middle word; bytes behind the last whole
  word pass through. The encoder is EQMacEmu's and not in this repository; the inverses below are
  computed from the decoder, to show that decoding loses nothing.
\<close>

definition rol64 :: "u64 \<Rightarrow> nat \<Rightarrow> u64" where
  "rol64 x n = push_bit n x OR drop_bit (64 - n) x"

definition ror64 :: "u64 \<Rightarrow> nat \<Rightarrow> u64" where
  "ror64 x n = drop_bit n x OR push_bit (64 - n) x"

section \<open>The buffer as words\<close>

text \<open>\<open>reinterpret_cast<uint64_t*>(buf)\<close>, \<open>n\<close> words of it.\<close>

fun words_of :: "nat \<Rightarrow> bytes \<Rightarrow> u64 list" where
  "words_of 0 bs = []"
| "words_of (Suc n) bs = le_word (take 8 bs) # words_of n (drop 8 bs)"

fun bytes_of :: "u64 list \<Rightarrow> bytes" where
  "bytes_of [] = []"
| "bytes_of (w # ws) = le_bytes 8 w @ bytes_of ws"

text \<open>The last step of both decoders: exchange \<open>data[0]\<close> and \<open>data[n / 2]\<close>.\<close>

definition unswap :: "u64 list \<Rightarrow> u64 list" where
  "unswap ws =
     (let n = length ws
      in if n \<ge> 2 then ws[0 := ws ! (n div 2), n div 2 := ws ! 0] else ws)"

section \<open>The two decoders\<close>

fun zone_spawn_loop :: "u64 \<Rightarrow> u64 list \<Rightarrow> u64 list" where
  "zone_spawn_loop crypt [] = []"
| "zone_spawn_loop crypt (d # ds) =
     (let e1 = d + crypt;
          e2 = ror64 e1 14;
          e3 = e2 - 0x659365E7;
          p = ror64 e3 29
      in p # zone_spawn_loop (crypt + p - 0x659365E7) ds)"

definition decryptZoneSpawn :: "bytes \<Rightarrow> bytes" where
  "decryptZoneSpawn buf =
     (let n = length buf div 8
      in if n = 0 then buf
         else bytes_of (unswap (zone_spawn_loop 0 (words_of n buf))) @ drop (8 * n) buf)"

fun profile_loop :: "u64 \<Rightarrow> u64 list \<Rightarrow> u64 list" where
  "profile_loop crypt [] = []"
| "profile_loop crypt (d # ds) =
     (let e1 = d + crypt;
          e2 = ror64 e1 7;
          e3 = e2 - 0x422437A9;
          p = rol64 e3 25
      in p # profile_loop (crypt + p - 0x422437A9) ds)"

definition decryptProfile :: "bytes \<Rightarrow> bytes" where
  "decryptProfile buf =
     (let n = length buf div 8
      in if n = 0 then buf
         else bytes_of (unswap (profile_loop 0x659365E7 (words_of n buf))) @ drop (8 * n) buf)"

section \<open>Words and rotations\<close>

lemma bit_rol64: "0 < n \<Longrightarrow> n < 64 \<Longrightarrow>
    bit (rol64 x n) i \<longleftrightarrow> i < 64 \<and> bit x (if n \<le> i then i - n else i + 64 - n)"
  by (auto simp: rol64_def bit_simps add.commute dest: bit_imp_le_length)

lemma bit_ror64: "0 < n \<Longrightarrow> n < 64 \<Longrightarrow>
    bit (ror64 x n) i \<longleftrightarrow> i < 64 \<and> bit x (if i < 64 - n then i + n else i - (64 - n))"
  by (auto simp: ror64_def bit_simps add.commute dest: bit_imp_le_length)

lemma ror64_rol64 [simp]: "0 < n \<Longrightarrow> n < 64 \<Longrightarrow> ror64 (rol64 x n) n = x"
  by (rule bit_word_eqI) (auto simp: bit_ror64 bit_rol64)

lemma rol64_ror64 [simp]: "0 < n \<Longrightarrow> n < 64 \<Longrightarrow> rol64 (ror64 x n) n = x"
  by (rule bit_word_eqI) (auto simp: bit_ror64 bit_rol64)

lemma length_words_of [simp]: "length (words_of n bs) = n"
  by (induction n arbitrary: bs) auto

lemma length_bytes_of [simp]: "length (bytes_of ws) = 8 * length ws"
  by (induction ws) auto

lemma words_of_bytes_of: "words_of (length ws) (bytes_of ws @ rest) = ws"
  by (induction ws) (simp_all add: le_word_le_bytes)

lemma bytes_of_words_of: "8 * n \<le> length bs \<Longrightarrow> bytes_of (words_of n bs) = take (8 * n) bs"
proof (induction n arbitrary: bs)
  case 0
  then show ?case by simp
next
  case (Suc n)
  have "le_bytes 8 (le_word (take 8 bs) :: u64) = take 8 bs"
    using Suc.prems by (intro le_bytes_le_word) simp_all
  then show ?case using Suc by (simp add: take_add)
qed

lemma length_unswap [simp]: "length (unswap ws) = length ws"
  by (simp add: unswap_def Let_def)

lemma unswap_unswap [simp]: "unswap (unswap ws) = ws"
proof (cases "length ws \<ge> 2")
  case True
  define m where "m = length ws div 2"
  have m: "0 < m" "m < length ws" "ws \<noteq> []" using True by (auto simp: m_def)
  have u: "unswap vs = vs[0 := vs ! m, m := vs ! 0]" if "length vs = length ws" for vs
    using that True by (simp add: unswap_def m_def Let_def)
  have "unswap (unswap ws) = (unswap ws)[0 := unswap ws ! m, m := unswap ws ! 0]"
    by (rule u) simp
  also have "\<dots> ! i = ws ! i" if "i < length ws" for i
    using that m by (cases "i = 0"; cases "i = m") (simp_all add: u nth_list_update)
  ultimately show ?thesis by (simp add: list_eq_iff_nth_eq)
next
  case False
  then show ?thesis by (simp add: unswap_def)
qed

section \<open>A decoder built from an invertible chained loop loses nothing\<close>

text \<open>
  Both decoders have the same shape. The contract of their loop: it keeps the length and has an
  inverse. The consequences for whole buffers are proved once.
\<close>

locale chained_cipher =
  fixes loop :: "u64 list \<Rightarrow> u64 list" and unloop :: "u64 list \<Rightarrow> u64 list"
  assumes loop_unloop: "loop (unloop ws) = ws"
    and unloop_loop: "unloop (loop ws) = ws"
    and loop_length: "length (loop ws) = length ws"
begin

definition dec :: "bytes \<Rightarrow> bytes" where
  "dec buf = (let n = length buf div 8 in if n = 0 then buf
     else bytes_of (unswap (loop (words_of n buf))) @ drop (8 * n) buf)"

definition enc :: "bytes \<Rightarrow> bytes" where
  "enc buf = (let n = length buf div 8 in if n = 0 then buf
     else bytes_of (unloop (unswap (words_of n buf))) @ drop (8 * n) buf)"

lemma unloop_length: "length (unloop ws) = length ws"
  using loop_length [of "unloop ws"] by (simp add: loop_unloop)

lemma length_enc: "length (enc buf) = length buf"
  by (simp add: enc_def Let_def unloop_length)

lemma length_dec: "length (dec buf) = length buf"
  by (simp add: dec_def Let_def loop_length)

lemma words_app: "length ws = n \<Longrightarrow> words_of n (bytes_of ws @ rest) = ws"
  using words_of_bytes_of by blast

lemma dec_enc: "dec (enc buf) = buf"
proof (cases "length buf div 8 = 0")
  case True
  then show ?thesis by (simp add: dec_def enc_def)
next
  case False
  let ?n = "length buf div 8"
  let ?ws = "unloop (unswap (words_of ?n buf))"
  have e: "enc buf = bytes_of ?ws @ drop (8 * ?n) buf" using False unfolding enc_def Let_def by simp
  have n: "length (enc buf) div 8 = ?n" by (simp add: length_enc)
  have "dec (enc buf) = bytes_of (unswap (loop (words_of ?n (enc buf)))) @ drop (8 * ?n) (enc buf)"
    unfolding dec_def n Let_def using False by simp
  then show ?thesis
    unfolding e by (simp add: words_app unloop_length loop_unloop bytes_of_words_of)
qed

lemma enc_dec: "enc (dec buf) = buf"
proof (cases "length buf div 8 = 0")
  case True
  then show ?thesis by (simp add: dec_def enc_def)
next
  case False
  let ?n = "length buf div 8"
  let ?ws = "unswap (loop (words_of ?n buf))"
  have e: "dec buf = bytes_of ?ws @ drop (8 * ?n) buf" using False unfolding dec_def Let_def by simp
  have n: "length (dec buf) div 8 = ?n" by (simp add: length_dec)
  have "enc (dec buf) = bytes_of (unloop (unswap (words_of ?n (dec buf)))) @ drop (8 * ?n) (dec buf)"
    unfolding enc_def n Let_def using False by simp
  then show ?thesis
    unfolding e by (simp add: words_app loop_length unloop_loop bytes_of_words_of)
qed

lemma dec_inj: "dec x = dec y \<Longrightarrow> x = y"
  by (metis enc_dec)

lemma dec_tail: "drop (8 * (length buf div 8)) (dec buf) = drop (8 * (length buf div 8)) buf"
  by (simp add: dec_def Let_def loop_length)

end

text \<open>The inverse loops: each step undone in the opposite order.\<close>

fun zone_spawn_unloop :: "u64 \<Rightarrow> u64 list \<Rightarrow> u64 list" where
  "zone_spawn_unloop crypt [] = []"
| "zone_spawn_unloop crypt (p # ps) =
     (rol64 (rol64 p 29 + 0x659365E7) 14 - crypt)
       # zone_spawn_unloop (crypt + p - 0x659365E7) ps"

fun profile_unloop :: "u64 \<Rightarrow> u64 list \<Rightarrow> u64 list" where
  "profile_unloop crypt [] = []"
| "profile_unloop crypt (p # ps) =
     (rol64 (ror64 p 25 + 0x422437A9) 7 - crypt)
       # profile_unloop (crypt + p - 0x422437A9) ps"

lemma zone_spawn_loop_unloop [simp]: "zone_spawn_loop c (zone_spawn_unloop c ps) = ps"
  by (induction c ps rule: zone_spawn_unloop.induct) simp_all

lemma zone_spawn_unloop_loop [simp]: "zone_spawn_unloop c (zone_spawn_loop c ds) = ds"
  by (induction c ds rule: zone_spawn_loop.induct) (simp_all add: Let_def)

lemma length_zone_spawn_loop [simp]: "length (zone_spawn_loop c ds) = length ds"
  by (induction c ds rule: zone_spawn_loop.induct) (simp_all add: Let_def)

lemma profile_loop_unloop [simp]: "profile_loop c (profile_unloop c ps) = ps"
  by (induction c ps rule: profile_unloop.induct) simp_all

lemma profile_unloop_loop [simp]: "profile_unloop c (profile_loop c ds) = ds"
  by (induction c ds rule: profile_loop.induct) (simp_all add: Let_def)

lemma length_profile_loop [simp]: "length (profile_loop c ds) = length ds"
  by (induction c ds rule: profile_loop.induct) (simp_all add: Let_def)

interpretation zone_spawn: chained_cipher "zone_spawn_loop 0" "zone_spawn_unloop 0"
  by unfold_locales simp_all

interpretation profile: chained_cipher "profile_loop 0x659365E7" "profile_unloop 0x659365E7"
  by unfold_locales simp_all

lemma decryptZoneSpawn_dec: "decryptZoneSpawn = zone_spawn.dec"
  by (rule ext) (simp add: decryptZoneSpawn_def zone_spawn.dec_def)

lemma decryptProfile_dec: "decryptProfile = profile.dec"
  by (rule ext) (simp add: decryptProfile_def profile.dec_def)

text \<open>The encoders that the decoders undo.\<close>

definition encryptZoneSpawn :: "bytes \<Rightarrow> bytes" where
  "encryptZoneSpawn buf =
     (let n = length buf div 8
      in if n = 0 then buf
         else bytes_of (zone_spawn_unloop 0 (unswap (words_of n buf))) @ drop (8 * n) buf)"

definition encryptProfile :: "bytes \<Rightarrow> bytes" where
  "encryptProfile buf =
     (let n = length buf div 8
      in if n = 0 then buf
         else bytes_of (profile_unloop 0x659365E7 (unswap (words_of n buf))) @ drop (8 * n) buf)"

lemma encryptZoneSpawn_enc: "encryptZoneSpawn = zone_spawn.enc"
  by (rule ext) (simp add: encryptZoneSpawn_def zone_spawn.enc_def)

lemma encryptProfile_enc: "encryptProfile = profile.enc"
  by (rule ext) (simp add: encryptProfile_def profile.enc_def)

section \<open>Properties\<close>

text \<open>decoding the spawn and profile payloads is lossless: each decoder undoes its encoder and
  is undone by it, on buffers of every length, so no two wire payloads decode to the same bytes;
  the length and the bytes behind the last whole 64-bit word are unchanged.\<close>

theorem cipher_bijective:
  "decryptZoneSpawn (encryptZoneSpawn buf) = buf \<and> encryptZoneSpawn (decryptZoneSpawn buf) = buf \<and>
   decryptProfile (encryptProfile buf) = buf \<and> encryptProfile (decryptProfile buf) = buf \<and>
   length (decryptZoneSpawn buf) = length buf \<and> length (decryptProfile buf) = length buf \<and>
   drop (8 * (length buf div 8)) (decryptZoneSpawn buf) = drop (8 * (length buf div 8)) buf \<and>
   drop (8 * (length buf div 8)) (decryptProfile buf) = drop (8 * (length buf div 8)) buf"
  unfolding decryptZoneSpawn_dec decryptProfile_dec encryptZoneSpawn_enc encryptProfile_enc
  by (intro conjI zone_spawn.dec_enc zone_spawn.enc_dec profile.dec_enc profile.enc_dec
      zone_spawn.length_dec profile.length_dec zone_spawn.dec_tail profile.dec_tail)

end
