(* ===== verification/EQMacDecoder.thy ===== *)
theory EQMacDecoder
  imports EQMacCipher
begin

text \<open>
  \<open>src/src/eqmac_decoder.h\<close> and \<open>src/src/eqmac_decoder.cpp\<close>: the inbound decoder of the EQ Mac
  (Quarm) transport, the live packet path of the daemon. \<open>process\<close> takes one UDP payload, skips
  the acknowledgement fields the flags announce, drops retransmissions by their \<open>dwARQ\<close>,
  reassembles fragments and hands each complete application packet to the callback.

  The model returns the decoder's new state and the list of callback calls in order; \<open>None\<close> is an
  access outside the UDP payload or outside a fragment table. zlib's \<open>inflate\<close> is a parameter:
  \<open>zinflate inp cap\<close> is the whole output when it reports \<open>Z_STREAM_END\<close> within \<open>cap\<close> bytes.
\<close>

definition readBE16 :: "bytes \<Rightarrow> nat \<Rightarrow> u16 option" where
  "readBE16 m i = do { p0 \<leftarrow> rd8 m i; p1 \<leftarrow> rd8 m (i + 1); Some (push_bit 8 (ucast p0) OR ucast p1) }"

definition kCrcTrailerLen :: nat where "kCrcTrailerLen = 4"
definition kAppOpZoneSpawns :: u16 where "kAppOpZoneSpawns = 0x5f41"
definition kAppOpNewSpawn :: u16 where "kAppOpNewSpawn = 0x6b42"
definition kAppOpPlayerProfile :: u16 where "kAppOpPlayerProfile = 0x3640"
definition kInflateOutCap :: nat where "kInflateOutCap = 96 * 1024"

record FragmentGroup =
  fg_opcode :: u16
  fg_total :: u16
  fg_received_count :: u16
  fg_received :: "bool list"
  fg_data :: bytes

record EQMacDecoder =
  m_fragments :: "u16 \<rightharpoonup> FragmentGroup"
  m_lastArq :: int

definition new_FragmentGroup :: FragmentGroup where
  "new_FragmentGroup = \<lparr>fg_opcode = 0, fg_total = 0, fg_received_count = 0, fg_received = [], fg_data = []\<rparr>"

definition new_EQMacDecoder :: EQMacDecoder where
  "new_EQMacDecoder = \<lparr>m_fragments = Map.empty, m_lastArq = -1\<rparr>"

definition eqmac_reset :: "EQMacDecoder \<Rightarrow> EQMacDecoder" where
  "eqmac_reset d = d\<lparr>m_fragments := Map.empty, m_lastArq := -1\<rparr>"

section \<open>Deobfuscation of the three packed opcodes\<close>

type_synonym app_packet = "u16 \<times> bytes"
type_synonym zinflate = "bytes \<Rightarrow> nat \<Rightarrow> bytes option"

text \<open>The inflated bytes; empty (size 0) on failure.\<close>

definition inflateBuffer :: "zinflate \<Rightarrow> bytes \<Rightarrow> nat \<Rightarrow> bytes" where
  "inflateBuffer zinflate inb outCap = (case zinflate inb outCap of None \<Rightarrow> [] | Some out \<Rightarrow> out)"

definition emitWithDecode :: "zinflate \<Rightarrow> u16 \<Rightarrow> bytes \<Rightarrow> app_packet list" where
  "emitWithDecode zinflate opcode data =
     (if opcode = kAppOpZoneSpawns \<or> opcode = kAppOpNewSpawn \<or> opcode = kAppOpPlayerProfile
      then if data = [] then [(opcode, data)]
           else let scratch = (if opcode = kAppOpPlayerProfile then decryptProfile data
                               else decryptZoneSpawn data);
                    inflated = inflateBuffer zinflate scratch kInflateOutCap
                in if length inflated = 0 then [] else [(opcode, inflated)]
      else [(opcode, data)])"

section \<open>The header\<close>

record hdr_info =
  a1_ARQ :: bool
  a2_Closing :: bool
  a3_Fragment :: bool
  a4_ASQ :: bool
  a6_Closing :: bool
  b2_ARSP :: bool
  b3_Unknown :: bool
  b4_size :: nat

definition decode_hdr :: "u8 \<Rightarrow> u8 \<Rightarrow> hdr_info" where
  "decode_hdr a b = \<lparr>
     a1_ARQ = (drop_bit 1 a AND 1 \<noteq> 0), a2_Closing = (drop_bit 2 a AND 1 \<noteq> 0),
     a3_Fragment = (drop_bit 3 a AND 1 \<noteq> 0), a4_ASQ = (drop_bit 4 a AND 1 \<noteq> 0),
     a6_Closing = (drop_bit 6 a AND 1 \<noteq> 0),
     b2_ARSP = (drop_bit 2 b AND 1 \<noteq> 0), b3_Unknown = (drop_bit 3 b AND 1 \<noteq> 0),
     b4_size = unat ((drop_bit 4 b AND 1) OR push_bit 1 (drop_bit 5 b AND 1)
       OR push_bit 2 (drop_bit 6 b AND 1) OR push_bit 3 (drop_bit 7 b AND 1))\<rparr>"

text \<open>Past HDR, dwSEQ, dwARSP, b3ARSP and the ack fields; \<open>None\<close>: the packet ends early and
  \<open>process\<close> returns.\<close>

definition skip_acks :: "hdr_info \<Rightarrow> nat \<Rightarrow> nat option" where
  "skip_acks h len =
     (let off = 4 in
      if b2_ARSP h \<and> off + 2 > len then None else
      let off = (if b2_ARSP h then off + 2 else off) in
      if b3_Unknown h \<and> off + 2 > len then None else
      let off = (if b3_Unknown h then off + 2 else off) in
      if b4_size h > 0 \<and> off + b4_size h > len then None else
      Some (if b4_size h > 0 then off + b4_size h else off))"

text \<open>The retransmission filter: the new high-water mark, or \<open>None\<close> for a packet to drop.\<close>

definition arq_accept :: "EQMacDecoder \<Rightarrow> u16 \<Rightarrow> EQMacDecoder option" where
  "arq_accept d dwARQ =
     (if m_lastArq d < 0 then Some (d\<lparr>m_lastArq := uint dwARQ\<rparr>)
      else let delta = sint (dwARQ - (word_of_int (m_lastArq d) :: u16))
           in if delta \<le> 0 then None else Some (d\<lparr>m_lastArq := uint dwARQ\<rparr>))"

section \<open>Fragments\<close>

definition reassemble ::
  "zinflate \<Rightarrow> EQMacDecoder \<Rightarrow> u16 \<Rightarrow> u16 \<Rightarrow> u16 \<Rightarrow> u16 \<Rightarrow> bytes
     \<Rightarrow> (EQMacDecoder \<times> app_packet list) option" where
  "reassemble zinflate d fragSeq fragCurr fragTotal opcode payload =
     (if fragTotal = 0 then Some (d, [])
      else
        let fg0 = (case m_fragments d fragSeq of None \<Rightarrow> new_FragmentGroup | Some g \<Rightarrow> g);
            fg = (if fragCurr = 0
                  then fg0\<lparr>fg_opcode := opcode, fg_total := fragTotal, fg_received_count := 0,
                           fg_received := replicate (unat fragTotal) False, fg_data := []\<rparr>
                  else fg0)
        in if unat fragCurr \<ge> length (fg_received fg)
           then Some (d\<lparr>m_fragments := (m_fragments d)(fragSeq := None)\<rparr>, [])
           else do {
             seen \<leftarrow> nth_opt (fg_received fg) (unat fragCurr);
             if seen then Some (d\<lparr>m_fragments := (m_fragments d)(fragSeq \<mapsto> fg)\<rparr>, [])
             else
               let fg' = fg\<lparr>fg_received := (fg_received fg)[unat fragCurr := True],
                            fg_received_count := fg_received_count fg + 1,
                            fg_data := fg_data fg @ payload\<rparr>
               in if fg_received_count fg' = fg_total fg'
                  then Some (d\<lparr>m_fragments := (m_fragments d)(fragSeq := None)\<rparr>,
                             emitWithDecode zinflate (fg_opcode fg') (fg_data fg'))
                  else Some (d\<lparr>m_fragments := (m_fragments d)(fragSeq \<mapsto> fg')\<rparr>, [])
           })"

section \<open>process\<close>

text \<open>From the ASQ field on: closing pair, opcode, payload and delivery.\<close>

definition process_body ::
  "zinflate \<Rightarrow> EQMacDecoder \<Rightarrow> hdr_info \<Rightarrow> u16 \<Rightarrow> u16 \<Rightarrow> u16 \<Rightarrow> bytes \<Rightarrow> nat
     \<Rightarrow> (EQMacDecoder \<times> app_packet list) option" where
  "process_body zinflate d h fragSeq fragCurr fragTotal buf off =
     (let len = length buf;
          asq = (if a4_ASQ h \<and> a1_ARQ h then 2 else if a4_ASQ h then 1 else 0)
      in if off + asq > len then Some (d, []) else
      let off = off + asq in
      if a2_Closing h \<and> a6_Closing h then Some (d, []) else
      if len \<le> off + kCrcTrailerLen then Some (d, []) else
      if fragCurr = 0 \<and> off + 2 > len then Some (d, []) else do {
        opcode \<leftarrow> (if fragCurr = 0 then readBE16 buf off else Some 0);
        let off = (if fragCurr = 0 then off + 2 else off);
        if len < off + kCrcTrailerLen then Some (d, []) else do {
          payload \<leftarrow> rd_range buf off (len - off - kCrcTrailerLen);
          if a3_Fragment h
          then reassemble zinflate d fragSeq fragCurr fragTotal opcode payload
          else if opcode \<noteq> 0 then Some (d, emitWithDecode zinflate opcode payload)
          else Some (d, [])
        }
      })"

definition process_frag ::
  "zinflate \<Rightarrow> EQMacDecoder \<Rightarrow> hdr_info \<Rightarrow> bytes \<Rightarrow> nat \<Rightarrow> (EQMacDecoder \<times> app_packet list) option"
where
  "process_frag zinflate d h buf off =
     (if a3_Fragment h
      then if off + 6 > length buf then Some (d, [])
           else do {
             fragSeq \<leftarrow> readBE16 buf off;
             fragCurr \<leftarrow> readBE16 buf (off + 2);
             fragTotal \<leftarrow> readBE16 buf (off + 4);
             process_body zinflate d h fragSeq fragCurr fragTotal buf (off + 6)
           }
      else process_body zinflate d h 0 0 0 buf off)"

definition process_arq ::
  "zinflate \<Rightarrow> EQMacDecoder \<Rightarrow> hdr_info \<Rightarrow> bytes \<Rightarrow> nat \<Rightarrow> (EQMacDecoder \<times> app_packet list) option"
where
  "process_arq zinflate d h buf off =
     (if a1_ARQ h
      then if off + 2 > length buf then Some (d, [])
           else do {
             dwARQ \<leftarrow> readBE16 buf off;
             (case arq_accept d dwARQ of
                None \<Rightarrow> Some (d, [])
              | Some d' \<Rightarrow> process_frag zinflate d' h buf (off + 2))
           }
      else process_frag zinflate d h buf off)"

definition eqmac_process ::
  "zinflate \<Rightarrow> EQMacDecoder \<Rightarrow> bytes \<Rightarrow> (EQMacDecoder \<times> app_packet list) option" where
  "eqmac_process zinflate d buf =
     (if length buf < 10 then Some (d, [])
      else do {
        a \<leftarrow> rd8 buf 0;
        b \<leftarrow> rd8 buf 1;
        let h = decode_hdr a b;
        (case skip_acks h (length buf) of
           None \<Rightarrow> Some (d, [])
         | Some off \<Rightarrow> process_arq zinflate d h buf off)
      })"

text \<open>A stream of UDP payloads through one decoder.\<close>

fun eqmac_run ::
  "zinflate \<Rightarrow> EQMacDecoder \<Rightarrow> bytes list \<Rightarrow> (EQMacDecoder \<times> app_packet list) option" where
  "eqmac_run zinflate d [] = Some (d, [])"
| "eqmac_run zinflate d (buf # bufs) = do {
     (d1, out1) \<leftarrow> eqmac_process zinflate d buf;
     (d2, out2) \<leftarrow> eqmac_run zinflate d1 bufs;
     Some (d2, out1 @ out2)
   }"

section \<open>No access outside the payload\<close>

lemma readBE16_Some [mem_simps]:
  "i + 2 \<le> length m \<Longrightarrow> readBE16 m i = Some (be_word (take 2 (drop i m)))"
  using eqntohuint16_Some by (simp add: readBE16_def eqntohuint16_def)

lemma nth_opt_Some [mem_simps]: "i < length xs \<Longrightarrow> nth_opt xs i = Some (xs ! i)"
  by (simp add: nth_opt_def)

lemma reassemble_total: "reassemble z d s c t opc p \<noteq> None"
  unfolding reassemble_def Let_def by (simp add: nth_opt_Some)

lemma process_body_total: "process_body z d h s c t buf off \<noteq> None"
proof -
  have "reassemble z d s c t opc p \<noteq> None" for opc p by (rule reassemble_total)
  then show ?thesis
    unfolding process_body_def Let_def kCrcTrailerLen_def
    by (auto simp: mem_simps split: if_splits)
qed

lemma process_frag_total: "process_frag z d h buf off \<noteq> None"
  unfolding process_frag_def using process_body_total by (auto simp: mem_simps)

lemma process_arq_total: "process_arq z d h buf off \<noteq> None"
  unfolding process_arq_def using process_frag_total by (auto simp: mem_simps split: option.split)

lemma eqmac_process_total: "eqmac_process z d buf \<noteq> None"
proof (cases "length buf < 10")
  case True
  then show ?thesis by (simp add: eqmac_process_def)
next
  case False
  then have "rd8 buf 0 = Some (buf ! 0)" "rd8 buf 1 = Some (buf ! 1)" by (auto simp: rd8_def)
  then show ?thesis
    unfolding eqmac_process_def Let_def using process_arq_total by (auto split: option.split)
qed

lemma eqmac_run_total: "eqmac_run z d bufs \<noteq> None"
proof (induction bufs arbitrary: d)
  case Nil
  then show ?case by simp
next
  case (Cons b bs)
  obtain d1 out1 where 1: "eqmac_process z d b = Some (d1, out1)"
    using eqmac_process_total [of z d b] by auto
  obtain d2 out2 where "eqmac_run z d1 bs = Some (d2, out2)" using Cons [of d1] by auto
  with 1 show ?case by simp
qed

end
