(* ===== verification/EQMacProps.thy ===== *)
theory EQMacProps
  imports EQMacDecoder
begin

text \<open>
  What the decoder of \<open>EQMacDecoder\<close> guarantees: no access outside the payload, retransmissions
  dropped, consistent fragment tables, and delivery of what a peer puts on the wire (a packet
  layout written from the wire format in \<open>src/src/eqmac_decoder.h\<close>).
\<close>

section \<open>Retransmissions\<close>

text \<open>The sequence number the decoder reads from a payload, if it gets that far.\<close>

definition packet_arq :: "bytes \<Rightarrow> u16 option" where
  "packet_arq buf =
     (if length buf < 10 then None
      else let h = decode_hdr (buf ! 0) (buf ! 1) in
        case skip_acks h (length buf) of
          None \<Rightarrow> None
        | Some off \<Rightarrow> if a1_ARQ h \<and> off + 2 \<le> length buf then readBE16 buf off else None)"

text \<open>A sequence number is new when it is ahead of the high-water mark in the 16-bit circle.\<close>

definition arq_new :: "EQMacDecoder \<Rightarrow> u16 \<Rightarrow> bool" where
  "arq_new d q \<longleftrightarrow> m_lastArq d < 0 \<or> 0 < sint (q - (word_of_int (m_lastArq d) :: u16))"

lemma arq_accept_eq:
  "arq_accept d q = (if arq_new d q then Some (d\<lparr>m_lastArq := uint q\<rparr>) else None)"
  by (auto simp: arq_accept_def arq_new_def Let_def)

lemma arq_new_same: "\<not> arq_new (d\<lparr>m_lastArq := uint q\<rparr>) q"
  by (simp add: arq_new_def not_less)

lemma arq_new_next:
  "arq_new (d\<lparr>m_lastArq := uint q\<rparr>) (q + 1)"
  by (simp add: arq_new_def)

lemma eqmac_process_cases:
  assumes "packet_arq buf = Some q"
  shows "\<exists>h off. eqmac_process z d buf =
    (if arq_new d q then process_frag z (d\<lparr>m_lastArq := uint q\<rparr>) h buf off else Some (d, []))"
proof -
  have len: "10 \<le> length buf" using assms by (auto simp: packet_arq_def split: if_splits)
  then have r: "rd8 buf 0 = Some (buf ! 0)" "rd8 buf (Suc 0) = Some (buf ! Suc 0)"
    by (auto simp: rd8_def)
  from assms len obtain off where
    "skip_acks (decode_hdr (buf ! 0) (buf ! Suc 0)) (length buf) = Some off"
    "a1_ARQ (decode_hdr (buf ! 0) (buf ! Suc 0))" "off + 2 \<le> length buf" "readBE16 buf off = Some q"
    by (auto simp: packet_arq_def Let_def split: if_splits option.splits)
  then have "eqmac_process z d buf = (if arq_new d q
      then process_frag z (d\<lparr>m_lastArq := uint q\<rparr>) (decode_hdr (buf ! 0) (buf ! Suc 0)) buf (off + 2)
      else Some (d, []))"
    using len r by (simp add: eqmac_process_def process_arq_def arq_accept_eq)
  then show ?thesis by blast
qed

text \<open>Nothing behind the ARQ field touches the high-water mark.\<close>

lemma reassemble_lastArq: "reassemble z d s c t opc p = Some (d', out) \<Longrightarrow> m_lastArq d' = m_lastArq d"
  by (auto simp: reassemble_def Let_def mem_simps split: if_splits)

lemma process_body_lastArq:
  "process_body z d h s c t buf off = Some (d', out) \<Longrightarrow> m_lastArq d' = m_lastArq d"
  by (auto simp: process_body_def Let_def bind_Some_iff reassemble_lastArq split: if_splits)

lemma process_frag_lastArq:
  "process_frag z d h buf off = Some (d', out) \<Longrightarrow> m_lastArq d' = m_lastArq d"
  by (auto simp: process_frag_def bind_Some_iff dest: process_body_lastArq split: if_splits)

lemma eqmac_process_arq:
  assumes "packet_arq buf = Some q" "eqmac_process z d buf = Some (d', out)"
  shows "if arq_new d q then m_lastArq d' = uint q else d' = d \<and> out = []"
proof -
  obtain h off where e: "eqmac_process z d buf =
    (if arq_new d q then process_frag z (d\<lparr>m_lastArq := uint q\<rparr>) h buf off else Some (d, []))"
    using eqmac_process_cases [OF assms(1)] by blast
  show ?thesis
  proof (cases "arq_new d q")
    case True
    then have "process_frag z (d\<lparr>m_lastArq := uint q\<rparr>) h buf off = Some (d', out)"
      using e assms(2) by simp
    from process_frag_lastArq [OF this] show ?thesis using True by simp
  next
    case False
    then show ?thesis using e assms(2) by simp
  qed
qed

section \<open>Fragment tables\<close>

definition group_ok :: "FragmentGroup \<Rightarrow> bool" where
  "group_ok g \<longleftrightarrow> length (fg_received g) = unat (fg_total g)
     \<and> unat (fg_received_count g) = count_list (fg_received g) True
     \<and> unat (fg_received_count g) < unat (fg_total g)"

definition decoder_ok :: "EQMacDecoder \<Rightarrow> bool" where
  "decoder_ok d \<longleftrightarrow> (\<forall>s g. m_fragments d s = Some g \<longrightarrow> group_ok g)
     \<and> -1 \<le> m_lastArq d \<and> m_lastArq d < 2 ^ 16"

lemma count_list_update_True:
  "i < length xs \<Longrightarrow> \<not> xs ! i \<Longrightarrow> count_list (xs[i := True]) True = Suc (count_list xs True)"
  by (induction xs arbitrary: i) (auto simp: nth_Cons split: nat.splits)

lemma count_list_le_length: "count_list xs x \<le> length xs"
  by (induction xs) auto

lemma unat_Suc_below: "unat (w :: u16) < unat (v :: u16) \<Longrightarrow> unat (w + 1) = Suc (unat w)"
proof -
  assume a: "unat w < unat v"
  have "unat v < 2 ^ 16" using unsigned_less [of v] by simp
  then have "Suc (unat w) < 2 ^ 16" using a by linarith
  then show ?thesis by (simp add: unat_word_ariths)
qed

text \<open>A group that has just been completed or not: marking one more fragment of an open group.\<close>

lemma group_ok_mark:
  assumes "length (fg_received g) = unat (fg_total g)"
    "unat (fg_received_count g) = count_list (fg_received g) True"
    "unat (fg_received_count g) < unat (fg_total g)"
    "i < length (fg_received g)" "\<not> fg_received g ! i"
    "fg_received_count g + 1 \<noteq> fg_total g"
  shows "group_ok (g\<lparr>fg_received := (fg_received g)[i := True],
     fg_received_count := fg_received_count g + 1, fg_data := xs\<rparr>)"
proof -
  have "unat (fg_received_count g + 1) = Suc (unat (fg_received_count g))"
    by (rule unat_Suc_below [OF assms(3)])
  moreover have "unat (fg_received_count g + 1) \<noteq> unat (fg_total g)"
    using assms(6) by (metis unsigned_word_eqI)
  ultimately show ?thesis
    using assms by (simp add: group_ok_def count_list_update_True)
qed

lemma decoder_ok_erase: "decoder_ok d \<Longrightarrow> decoder_ok (d\<lparr>m_fragments := (m_fragments d)(s := None)\<rparr>)"
  by (auto simp: decoder_ok_def)

lemma decoder_ok_set:
  "decoder_ok d \<Longrightarrow> group_ok g \<Longrightarrow> decoder_ok (d\<lparr>m_fragments := (m_fragments d)(s \<mapsto> g)\<rparr>)"
  by (auto simp: decoder_ok_def)

lemma reassemble_ok:
  assumes ok: "decoder_ok d" and r: "reassemble z d s c t opc p = Some (d', out)"
  shows "decoder_ok d'"
proof (cases "t = 0")
  case True
  then show ?thesis using ok r by (simp add: reassemble_def)
next
  case False
  define fg0 where "fg0 = (case m_fragments d s of None \<Rightarrow> new_FragmentGroup | Some g \<Rightarrow> g)"
  define fg where "fg = (if c = 0 then fg0\<lparr>fg_opcode := opc, fg_total := t, fg_received_count := 0,
      fg_received := replicate (unat t) False, fg_data := []\<rparr> else fg0)"
  have 0: "reassemble z d s c t opc p =
     (if unat c \<ge> length (fg_received fg)
      then Some (d\<lparr>m_fragments := (m_fragments d)(s := None)\<rparr>, [])
      else if fg_received fg ! unat c
      then Some (d\<lparr>m_fragments := (m_fragments d)(s \<mapsto> fg)\<rparr>, [])
      else if fg_received_count fg + 1 = fg_total fg
      then Some (d\<lparr>m_fragments := (m_fragments d)(s := None)\<rparr>,
        emitWithDecode z (fg_opcode fg) (fg_data fg @ p))
      else Some (d\<lparr>m_fragments := (m_fragments d)(s \<mapsto> fg\<lparr>fg_received := (fg_received fg)[unat c := True],
        fg_received_count := fg_received_count fg + 1, fg_data := fg_data fg @ p\<rparr>)\<rparr>, []))"
    using False by (simp add: reassemble_def Let_def mem_simps flip: fg0_def fg_def)
  have g: "group_ok fg" if "unat c < length (fg_received fg)"
  proof (cases "c = 0")
    case True
    have "unat t > 0" using False by (simp add: unat_gt_0)
    then show ?thesis using True by (simp add: fg_def group_ok_def)
  next
    case False
    then show ?thesis
      using that ok by (auto simp: fg_def fg0_def decoder_ok_def new_FragmentGroup_def split: option.splits)
  qed
  show ?thesis
    using r ok g unfolding 0
    by (auto simp: decoder_ok_erase not_le intro!: decoder_ok_set group_ok_mark
        dest: iffD1 [OF group_ok_def] split: if_splits)
qed

lemma process_body_ok:
  "decoder_ok d \<Longrightarrow> process_body z d h s c t buf off = Some (d', out) \<Longrightarrow> decoder_ok d'"
  by (auto simp: process_body_def Let_def bind_Some_iff split: if_splits dest: reassemble_ok)

lemma process_frag_ok:
  "decoder_ok d \<Longrightarrow> process_frag z d h buf off = Some (d', out) \<Longrightarrow> decoder_ok d'"
  by (auto simp: process_frag_def bind_Some_iff dest: process_body_ok split: if_splits)

lemma decoder_ok_arq: "decoder_ok d \<Longrightarrow> arq_accept d q = Some d' \<Longrightarrow> decoder_ok d'"
proof -
  have "- 1 \<le> uint q" by (rule order_trans [of _ 0]) simp_all
  moreover have "uint q < 2 ^ 16" using uint_bounded [of q] by simp
  ultimately show "decoder_ok d \<Longrightarrow> arq_accept d q = Some d' \<Longrightarrow> decoder_ok d'"
    by (auto simp: arq_accept_eq decoder_ok_def split: if_splits)
qed

lemma process_arq_ok:
  "decoder_ok d \<Longrightarrow> process_arq z d h buf off = Some (d', out) \<Longrightarrow> decoder_ok d'"
  by (auto simp: process_arq_def bind_Some_iff dest: process_frag_ok decoder_ok_arq
      split: if_splits option.splits)

lemma eqmac_process_ok:
  "decoder_ok d \<Longrightarrow> eqmac_process z d buf = Some (d', out) \<Longrightarrow> decoder_ok d'"
  by (auto simp: eqmac_process_def bind_Some_iff Let_def dest: process_arq_ok
      split: if_splits option.splits)

lemma decoder_ok_new: "decoder_ok new_EQMacDecoder"
  by (simp add: decoder_ok_def new_EQMacDecoder_def)

lemma decoder_ok_reset: "decoder_ok (eqmac_reset d)"
  by (simp add: decoder_ok_def eqmac_reset_def)

lemma eqmac_run_ok:
  "decoder_ok d \<Longrightarrow> eqmac_run z d bufs = Some (d', out) \<Longrightarrow> decoder_ok d'"
  by (induction bufs arbitrary: d out) (auto simp: bind_Some_iff dest: eqmac_process_ok)

section \<open>Packets on the wire\<close>

definition be16 :: "u16 \<Rightarrow> bytes" where
  "be16 w = rev (le_bytes 2 w)"

lemma length_be16 [simp]: "length (be16 w) = 2"
  by (simp add: be16_def)

lemma be_word_be16 [simp]: "be_word (be16 w) = w"
  by (simp add: be16_def be_word_def le_word_le_bytes)

text \<open>
  The layout of the header comment: flags, dwSEQ, the acknowledgement fields, dwARQ, fraginfo, ASQ,
  the opcode (not on a later fragment), payload, CRC.
\<close>

definition asq_len :: "hdr_info \<Rightarrow> nat" where
  "asq_len h = (if a4_ASQ h \<and> a1_ARQ h then 2 else if a4_ASQ h then 1 else 0)"

definition acks_len :: "hdr_info \<Rightarrow> nat" where
  "acks_len h = (if b2_ARSP h then 2 else 0) + (if b3_Unknown h then 2 else 0) + b4_size h"

record wire =
  w_a :: u8
  w_b :: u8
  w_seq :: bytes
  w_acks :: bytes
  w_arq :: u16
  w_frag :: "u16 \<times> u16 \<times> u16"
  w_asq :: bytes
  w_opcode :: u16
  w_payload :: bytes
  w_crc :: bytes

definition w_hdr :: "wire \<Rightarrow> hdr_info" where
  "w_hdr w = decode_hdr (w_a w) (w_b w)"

text \<open>Whether the packet carries an opcode: every packet but a later fragment.\<close>

definition w_has_opcode :: "wire \<Rightarrow> bool" where
  "w_has_opcode w \<longleftrightarrow> \<not> a3_Fragment (w_hdr w) \<or> fst (snd (w_frag w)) = 0"

definition wire_body :: "wire \<Rightarrow> bytes" where
  "wire_body w = w_asq w @ (if w_has_opcode w then be16 (w_opcode w) else []) @ w_payload w @ w_crc w"

definition wire_frag :: "wire \<Rightarrow> bytes" where
  "wire_frag w = (if a3_Fragment (w_hdr w)
     then be16 (fst (w_frag w)) @ be16 (fst (snd (w_frag w))) @ be16 (snd (snd (w_frag w))) else [])
     @ wire_body w"

definition wire_arq :: "wire \<Rightarrow> bytes" where
  "wire_arq w = (if a1_ARQ (w_hdr w) then be16 (w_arq w) else []) @ wire_frag w"

definition wire_bytes :: "wire \<Rightarrow> bytes" where
  "wire_bytes w = w_a w # w_b w # w_seq w @ w_acks w @ wire_arq w"

text \<open>The fields have the widths the flags announce, the closing pair is not set, and a later
  fragment carries data.\<close>

definition wire_ok :: "wire \<Rightarrow> bool" where
  "wire_ok w \<longleftrightarrow> length (w_seq w) = 2 \<and> length (w_acks w) = acks_len (w_hdr w)
     \<and> length (w_asq w) = asq_len (w_hdr w) \<and> length (w_crc w) = 4
     \<and> \<not> (a2_Closing (w_hdr w) \<and> a6_Closing (w_hdr w))
     \<and> (w_has_opcode w \<or> w_payload w \<noteq> [])"

text \<open>What the decoder owes its client for such a packet.\<close>

definition deliver :: "zinflate \<Rightarrow> EQMacDecoder \<Rightarrow> wire \<Rightarrow> (EQMacDecoder \<times> app_packet list) option" where
  "deliver z d w =
     (if a3_Fragment (w_hdr w)
      then (case w_frag w of (s, c, t) \<Rightarrow>
             reassemble z d s c t (if c = 0 then w_opcode w else 0) (w_payload w))
      else if w_opcode w \<noteq> 0 then Some (d, emitWithDecode z (w_opcode w) (w_payload w))
      else Some (d, []))"

lemma readBE16_drop:
  assumes "drop off buf = be16 w @ rest"
  shows "readBE16 buf off = Some w" "off + 2 \<le> length buf" "drop (off + 2) buf = rest"
proof -
  have "length (drop off buf) = 2 + length rest" using assms by simp
  then show le: "off + 2 \<le> length buf" by simp
  have "take 2 (drop off buf) = be16 w" using assms by simp
  then show "readBE16 buf off = Some w" using le by (simp add: mem_simps)
  have "drop (off + 2) buf = drop 2 (drop off buf)" by (simp add: add.commute)
  then show "drop (off + 2) buf = rest" using assms by simp
qed

lemma process_body_wire:
  assumes ok: "wire_ok w" and d: "drop off buf = wire_body w" and off: "off \<le> length buf"
    and f: "w_frag w = (s, c, t)" and nf: "\<not> a3_Fragment (w_hdr w) \<Longrightarrow> c = 0"
  shows "process_body z dd (w_hdr w) s c t buf off = deliver z dd w"
proof -
  let ?h = "w_hdr w"
  let ?o = "off + asq_len ?h"
  have op: "w_has_opcode w \<longleftrightarrow> c = 0" using f nf by (auto simp: w_has_opcode_def)
  have "length (drop off buf) = length (wire_body w)" using d by simp
  then have len: "length buf = ?o + (if c = 0 then 2 else 0) + length (w_payload w) + 4"
    using ok off op by (cases "c = 0") (simp_all add: wire_body_def wire_ok_def)
  have "drop ?o buf = drop (asq_len ?h) (drop off buf)" by (simp add: add.commute)
  then have d1: "drop ?o buf = (if c = 0 then be16 (w_opcode w) else []) @ w_payload w @ w_crc w"
    using ok op by (simp add: d wire_body_def wire_ok_def)
  let ?p = "if c = 0 then ?o + 2 else ?o"
  have d2: "drop ?p buf = w_payload w @ w_crc w"
    using d1 readBE16_drop(3) by (cases "c = 0") simp_all
  have len2: "length buf = ?p + length (w_payload w) + 4" using len by simp
  have opc: "(if c = 0 then readBE16 buf ?o else Some 0) = Some (if c = 0 then w_opcode w else 0)"
    using d1 readBE16_drop(1) by (cases "c = 0") simp_all
  have pay: "rd_range buf ?p (length buf - ?p - kCrcTrailerLen) = Some (w_payload w)"
    using d2 len2 ok by (simp add: rd_range_def kCrcTrailerLen_def)
  have gt: "?o + kCrcTrailerLen < length buf"
    using len ok op by (auto simp: kCrcTrailerLen_def wire_ok_def)
  have asq: "(if a4_ASQ ?h \<and> a1_ARQ ?h then 2 else if a4_ASQ ?h then 1 else 0) = asq_len ?h"
    by (simp add: asq_len_def)
  have b: "(length buf < off + asq_len ?h) = False" "(a2_Closing ?h \<and> a6_Closing ?h) = False"
    "(length buf \<le> ?o + kCrcTrailerLen) = False" "(c = 0 \<and> length buf < ?o + 2) = False"
    "(length buf < ?p + kCrcTrailerLen) = False"
    using ok gt len len2 by (simp_all add: wire_ok_def kCrcTrailerLen_def)
  have "process_body z dd ?h s c t buf off =
      (if a3_Fragment ?h then reassemble z dd s c t (if c = 0 then w_opcode w else 0) (w_payload w)
       else if (if c = 0 then w_opcode w else 0) \<noteq> 0
       then Some (dd, emitWithDecode z (if c = 0 then w_opcode w else 0) (w_payload w))
       else Some (dd, []))"
    unfolding process_body_def Let_def asq opc bind.bind_lunit
    by (simp only: b if_False pay bind.bind_lunit)
  then show ?thesis using f nf by (simp add: deliver_def)
qed

lemma process_frag_wire:
  assumes ok: "wire_ok w" and d: "drop off buf = wire_frag w" and off: "off \<le> length buf"
  shows "process_frag z dd (w_hdr w) buf off = deliver z dd w"
proof (cases "a3_Fragment (w_hdr w)")
  case True
  obtain s c t where f: "w_frag w = (s, c, t)" by (cases "w_frag w")
  then have d0: "drop off buf = be16 s @ be16 c @ be16 t @ wire_body w"
    using d True by (simp add: wire_frag_def)
  note r0 = readBE16_drop [OF d0]
  note r1 = readBE16_drop [OF r0(3)]
  note r2 = readBE16_drop [OF r1(3)]
  have o: "off + 2 + 2 = off + 4" "off + 4 + 2 = off + 6" by simp_all
  note r = r0(1) r1(1) r2 [unfolded o]
  have "process_frag z dd (w_hdr w) buf off = process_body z dd (w_hdr w) s c t buf (off + 6)"
    using True r(1-4) leD [OF r(4)] by (simp only: process_frag_def if_True bind.bind_lunit if_False)
  also have "\<dots> = deliver z dd w"
    by (rule process_body_wire [OF ok r(5,4) f]) (use True in simp)
  finally show ?thesis .
next
  case False
  let ?w = "w\<lparr>w_frag := (0, 0, 0)\<rparr>"
  have h: "w_hdr ?w = w_hdr w" "wire_body ?w = wire_body w" "deliver z dd ?w = deliver z dd w"
    "wire_ok ?w"
    using False ok by (simp_all add: w_hdr_def wire_body_def deliver_def wire_ok_def w_has_opcode_def)
  have "process_body z dd (w_hdr ?w) 0 0 0 buf off = deliver z dd ?w"
    by (rule process_body_wire) (use d off h False in \<open>simp_all add: wire_frag_def\<close>)
  then show ?thesis using False h by (simp add: process_frag_def)
qed

lemma skip_acks_wire: "4 + acks_len h \<le> len \<Longrightarrow> skip_acks h len = Some (4 + acks_len h)"
  by (auto simp: skip_acks_def acks_len_def Let_def)

text \<open>A well-formed packet is delivered, unless its sequence number is an old one.\<close>

lemma eqmac_process_wire:
  assumes ok: "wire_ok w"
  shows "eqmac_process z d (wire_bytes w) =
    (if a1_ARQ (w_hdr w)
     then if arq_new d (w_arq w) then deliver z (d\<lparr>m_lastArq := uint (w_arq w)\<rparr>) w else Some (d, [])
     else deliver z d w)"
proof -
  let ?buf = "wire_bytes w" and ?h = "w_hdr w"
  let ?off = "4 + acks_len ?h"
  have body: "6 \<le> length (wire_frag w) "
    using ok by (auto simp: wire_frag_def wire_body_def wire_ok_def w_has_opcode_def)
  then have len: "10 \<le> length ?buf" and off: "?off \<le> length ?buf"
    using ok by (auto simp: wire_bytes_def wire_arq_def wire_ok_def)
  have "?buf = (w_a w # w_b w # w_seq w @ w_acks w) @ wire_arq w" by (simp add: wire_bytes_def)
  moreover have "length (w_a w # w_b w # w_seq w @ w_acks w) = ?off" using ok by (simp add: wire_ok_def)
  ultimately have d: "drop ?off ?buf = wire_arq w" by (metis append_eq_conv_conj)
  have rd: "rd8 ?buf 0 = Some (w_a w)" "rd8 ?buf 1 = Some (w_b w)"
    by (simp_all add: rd8_def wire_bytes_def)
  have p: "eqmac_process z d ?buf = process_arq z d ?h ?buf ?off"
    using len by (simp add: eqmac_process_def Let_def rd [simplified] skip_acks_wire off flip: w_hdr_def)
  show ?thesis
  proof (cases "a1_ARQ ?h")
    case True
    then have "drop ?off ?buf = be16 (w_arq w) @ wire_frag w" using d by (simp add: wire_arq_def)
    note r = readBE16_drop [OF this]
    then show ?thesis using True p r process_frag_wire [OF ok r(3)]
      by (simp add: process_arq_def arq_accept_eq)
  next
    case False
    then show ?thesis using p d process_frag_wire [OF ok _ off]
      by (simp add: process_arq_def wire_arq_def)
  qed
qed

section \<open>Fragments in order\<close>

text \<open>The group after the first \<open>k\<close> of \<open>n\<close> fragments.\<close>

definition partial_group :: "u16 \<Rightarrow> nat \<Rightarrow> nat \<Rightarrow> bytes \<Rightarrow> FragmentGroup" where
  "partial_group opc n k xs = \<lparr>fg_opcode = opc, fg_total = of_nat n, fg_received_count = of_nat k,
     fg_received = replicate k True @ replicate (n - k) False, fg_data = xs\<rparr>"

lemma partial_group_step:
  assumes k: "k < n" and n: "n < 2 ^ 16"
    and d: "k = 0 \<and> xs = [] \<or> 0 < k \<and> m_fragments d s = Some (partial_group opc n k xs)"
    and o: "k = 0 \<Longrightarrow> opc' = opc"
  shows "reassemble z d s (of_nat k) (of_nat n) opc' p =
    Some (if Suc k = n
      then (d\<lparr>m_fragments := (m_fragments d)(s := None)\<rparr>, emitWithDecode z opc (xs @ p))
      else (d\<lparr>m_fragments := (m_fragments d)(s \<mapsto> partial_group opc n (Suc k) (xs @ p))\<rparr>, []))"
proof -
  have gen: "unat (of_nat j :: u16) = j" if "j < 2 ^ 16" for j
    using that by (simp add: unat_of_nat)
  have un: "unat (of_nat n :: u16) = n" "unat (of_nat k :: u16) = k"
    using k n by (simp_all add: gen)
  then have n0: "(of_nat n :: u16) \<noteq> 0" and k0: "(of_nat k :: u16) = 0 \<longleftrightarrow> k = 0"
    using k by (auto simp: unat_eq_zero [symmetric])
  have eq: "(of_nat k + 1 :: u16) = of_nat n \<longleftrightarrow> Suc k = n"
  proof
    assume "(of_nat k + 1 :: u16) = of_nat n"
    then have "(of_nat (Suc k) :: u16) = of_nat n" by (simp add: add.commute)
    moreover have "unat (of_nat (Suc k) :: u16) = Suc k" 
      by (rule gen) (use k n in linarith)
    ultimately have "Suc k = unat (of_nat n :: u16)" by metis
    then show "Suc k = n" using un(1) by metis
  qed auto
  have eq1: "(1 + of_nat k :: u16) = of_nat n \<longleftrightarrow> Suc k = n" using eq by (simp add: add.commute)
  have upd: "(replicate k True @ replicate (n - k) False)[k := True]
      = replicate (Suc k) True @ replicate (n - Suc k) False"
    using k by (simp add: list_update_append Suc_diff_Suc [symmetric] replicate_app_Cons_same)
  have g: "(if (of_nat k :: u16) = 0
      then (case m_fragments d s of None \<Rightarrow> new_FragmentGroup | Some g \<Rightarrow> g)
        \<lparr>fg_opcode := opc', fg_total := of_nat n, fg_received_count := 0,
          fg_received := replicate (unat (of_nat n :: u16)) False, fg_data := []\<rparr>
      else (case m_fragments d s of None \<Rightarrow> new_FragmentGroup | Some g \<Rightarrow> g)) = partial_group opc n k xs"
    using d k o k0 un by (auto simp: partial_group_def)
  have len: "length (fg_received (partial_group opc n k xs)) = n" using k by (simp add: partial_group_def)
  have nth: "nth_opt (fg_received (partial_group opc n k xs)) k = Some False"
    using k by (simp add: partial_group_def nth_opt_def nth_append)
  show ?thesis
    using k unfolding reassemble_def Let_def g
    by (simp add: n0 un len nth) (simp add: partial_group_def upd eq1 add.commute)
qed

text \<open>A message cut into \<open>length ws\<close> packets with consecutive sequence numbers.\<close>

definition fragment_train :: "u16 \<Rightarrow> u16 \<Rightarrow> u16 \<Rightarrow> wire list \<Rightarrow> bool" where
  "fragment_train s q opc ws \<longleftrightarrow> length ws < 2 ^ 16 \<and> (\<forall>i < length ws.
     wire_ok (ws ! i) \<and> a1_ARQ (w_hdr (ws ! i)) \<and> a3_Fragment (w_hdr (ws ! i))
     \<and> w_frag (ws ! i) = (s, of_nat i, of_nat (length ws)) \<and> w_arq (ws ! i) = q + of_nat i
     \<and> w_opcode (ws ! i) = opc)"

lemma fragment_train_step:
  assumes t: "fragment_train s q opc ws" and k: "k < length ws" and new: "arq_new d (q + of_nat k)"
    and d: "k = 0 \<and> xs = [] \<or> 0 < k \<and> m_fragments d s = Some (partial_group opc (length ws) k xs)"
  shows "eqmac_process z d (wire_bytes (ws ! k)) =
    (let d1 = d\<lparr>m_lastArq := uint (q + of_nat k)\<rparr>; ys = xs @ w_payload (ws ! k) in
     Some (if Suc k = length ws
      then (d1\<lparr>m_fragments := (m_fragments d)(s := None)\<rparr>, emitWithDecode z opc ys)
      else (d1\<lparr>m_fragments := (m_fragments d)(s \<mapsto> partial_group opc (length ws) (Suc k) ys)\<rparr>, [])))"
proof -
  have w: "wire_ok (ws ! k)" "a1_ARQ (w_hdr (ws ! k))" "a3_Fragment (w_hdr (ws ! k))"
    "w_frag (ws ! k) = (s, of_nat k, of_nat (length ws))" "w_arq (ws ! k) = q + of_nat k"
    "w_opcode (ws ! k) = opc" and n: "length ws < 2 ^ 16"
    using t k by (auto simp: fragment_train_def)
  let ?d1 = "d\<lparr>m_lastArq := uint (q + of_nat k)\<rparr>"
  let ?opc = "if (of_nat k :: u16) = 0 then opc else 0"
  have r: "reassemble z ?d1 s (of_nat k) (of_nat (length ws)) ?opc (w_payload (ws ! k)) =
    Some (if Suc k = length ws
      then (?d1\<lparr>m_fragments := (m_fragments ?d1)(s := None)\<rparr>, emitWithDecode z opc (xs @ w_payload (ws ! k)))
      else (?d1\<lparr>m_fragments := (m_fragments ?d1)(s \<mapsto>
        partial_group opc (length ws) (Suc k) (xs @ w_payload (ws ! k)))\<rparr>, []))"
    by (rule partial_group_step [OF k n]) (use d in auto)
  show ?thesis
    unfolding eqmac_process_wire [OF w(1)] deliver_def Let_def w(4)
    by (simp only: w new if_True prod.case r) simp
qed

lemma fragment_train_run:
  assumes t: "fragment_train s q opc ws" and k: "k < length ws" and new: "arq_new d (q + of_nat k)"
    and d: "k = 0 \<and> xs = [] \<or> 0 < k \<and> m_fragments d s = Some (partial_group opc (length ws) k xs)"
  shows "eqmac_run z d (map wire_bytes (drop k ws)) =
    Some (d\<lparr>m_lastArq := uint (q + of_nat (length ws - 1)), m_fragments := (m_fragments d)(s := None)\<rparr>,
      emitWithDecode z opc (xs @ concat (map w_payload (drop k ws))))"
  using k new d
proof (induction "length ws - k" arbitrary: k d xs)
  case 0
  then show ?case by simp
next
  case (Suc m)
  have drop: "drop k ws = ws ! k # drop (Suc k) ws" using Suc.prems(1) by (simp add: Cons_nth_drop_Suc)
  note step = fragment_train_step [OF t Suc.prems]
  show ?case
  proof (cases "Suc k = length ws")
    case True
    then have "length ws - 1 = k" by simp
    then show ?thesis using True step unfolding drop by (simp add: Let_def)
  next
    case False
    let ?ys = "xs @ w_payload (ws ! k)"
    let ?d2 = "d\<lparr>m_lastArq := uint (q + of_nat k),
      m_fragments := (m_fragments d)(s \<mapsto> partial_group opc (length ws) (Suc k) ?ys)\<rparr>"
    have "arq_new ?d2 (q + of_nat k + 1)"
      using arq_new_next [where d = d and q = "q + of_nat k"] by (simp add: arq_new_def)
    then have new2: "arq_new ?d2 (q + of_nat (Suc k))" by (simp add: ac_simps)
    have "eqmac_run z ?d2 (map wire_bytes (drop (Suc k) ws)) =
      Some (?d2\<lparr>m_lastArq := uint (q + of_nat (length ws - 1)), m_fragments := (m_fragments ?d2)(s := None)\<rparr>,
        emitWithDecode z opc (?ys @ concat (map w_payload (drop (Suc k) ws))))"
      by (rule Suc.hyps(1)) (use Suc.hyps(2) Suc.prems(1) False new2 in auto)
    then show ?thesis using False step unfolding drop by (simp add: Let_def)
  qed
qed

section \<open>Properties\<close>

text \<open>C7: the decoder reads and writes only inside the UDP payload and inside its fragment tables,
  whatever bytes arrive in whatever order and whatever zlib answers: a run over any list of
  payloads never reaches an access outside them, and it always returns.\<close>

theorem eqmac_run_memory_safe: "eqmac_run z d bufs \<noteq> None"
  by (rule eqmac_run_total)

text \<open>the retransmission filter. Once a packet with a sequence number has been processed, every
  later packet with the same number, whatever it carries, leaves the decoder as it is and delivers
  nothing, until a newer one moves the high-water mark.\<close>

theorem eqmac_retransmission_dropped:
  assumes "packet_arq buf = Some q" "eqmac_process z d buf = Some (d', out)"
    and "packet_arq buf' = Some q"
  shows "eqmac_process z d' buf' = Some (d', [])"
proof -
  obtain d2 out2 where 2: "eqmac_process z d' buf' = Some (d2, out2)"
    using eqmac_process_total [of z d' buf'] by auto
  have "\<not> arq_new d' q"
    using eqmac_process_arq [OF assms(1,2)] arq_new_same [where d = d and q = q]
    by (auto simp: arq_new_def split: if_splits)
  then show ?thesis using eqmac_process_arq [OF assms(3) 2] 2 by simp
qed

theorem eqmac_retransmission_dropped_witness:
  "eqmac_process (\<lambda>_ _. None) (new_EQMacDecoder\<lparr>m_lastArq := 5\<rparr>)
     [2, 0, 0, 0, 0, 5, 0x12, 0x34, 7, 7, 0, 0, 0, 0]
   = Some (new_EQMacDecoder\<lparr>m_lastArq := 5\<rparr>, [])"
  by (rule eqmac_retransmission_dropped [where q = 5 and d = new_EQMacDecoder
        and buf = "[2, 0, 0, 0, 0, 5, 0x12, 0x34, 9, 0, 0, 0, 0]" and out = "[(0x1234, [9])]"]) code_simp+

text \<open>the fragment tables are consistent after any run from a fresh decoder: in every open group
  the received flags have one entry per announced fragment, the counter is the number of flags set
  and is below the announced total (a complete group never stays), and the high-water mark is -1
  or a 16-bit value.\<close>

theorem eqmac_tables_consistent:
  assumes "eqmac_run z new_EQMacDecoder bufs = Some (d', out)"
  shows "decoder_ok d'"
  using eqmac_run_ok [OF decoder_ok_new assms] .

theorem eqmac_tables_consistent_witness:
  "\<exists>d'. eqmac_run (\<lambda>_ _. None) new_EQMacDecoder
       [[0x0a, 0, 0, 0, 0, 5, 0, 1, 0, 0, 0, 2, 0x12, 0x34, 9, 0, 0, 0, 0]] = Some (d', [])
     \<and> m_fragments d' 1 \<noteq> None \<and> decoder_ok d'"
proof -
  let ?bufs = "[[0x0a, 0, 0, 0, 0, 5, 0, 1, 0, 0, 0, 2, 0x12, 0x34, 9, 0, 0, 0, 0]] :: bytes list"
  let ?p = "\<lambda>d'. eqmac_run (\<lambda>_ _. None) new_EQMacDecoder ?bufs = Some (d', [])
    \<and> m_fragments d' 1 \<noteq> None"
  have "(case eqmac_run (\<lambda>_ _. None) new_EQMacDecoder ?bufs of
      Some r \<Rightarrow> snd r = [] \<and> m_fragments (fst r) 1 \<noteq> None | None \<Rightarrow> False)" by code_simp
  then obtain d' where "?p d'" by (auto split: option.splits)
  then show ?thesis using eqmac_tables_consistent by blast
qed

text \<open>C6: what the wire format promises is delivered. A packet laid out as the header comment of the
  code describes (flags, sequence, acknowledgements, ARQ, fragment info, ASQ, opcode, payload,
  checksum) yields exactly the message it carries: a whole message through the callback, a
  fragment into its group, and nothing for an old sequence number.\<close>

theorem eqmac_decodes_wire_format:
  assumes "wire_ok w"
  shows "eqmac_process z d (wire_bytes w) =
    (if a1_ARQ (w_hdr w)
     then if arq_new d (w_arq w) then deliver z (d\<lparr>m_lastArq := uint (w_arq w)\<rparr>) w else Some (d, [])
     else deliver z d w)"
  by (rule eqmac_process_wire [OF assms])

definition sample_wire :: wire where
  "sample_wire = \<lparr>w_a = 0x12, w_b = 0x04, w_seq = [0, 1], w_acks = [0, 9], w_arq = 7,
     w_frag = (0, 0, 0), w_asq = [1, 2], w_opcode = 0x4243, w_payload = [10, 20, 30],
     w_crc = [0, 0, 0, 0]\<rparr>"

theorem eqmac_decodes_wire_format_witness:
  "eqmac_process (\<lambda>_ _. None) new_EQMacDecoder (wire_bytes sample_wire)
     = Some (new_EQMacDecoder\<lparr>m_lastArq := 7\<rparr>, [(0x4243, [10, 20, 30])])"
proof -
  have "wire_ok sample_wire" by code_simp
  note e = eqmac_decodes_wire_format [OF this, of "\<lambda>_ _. None" new_EQMacDecoder]
  have "a1_ARQ (w_hdr sample_wire)" "arq_new new_EQMacDecoder (w_arq sample_wire)"
    "deliver (\<lambda>_ _. None) (new_EQMacDecoder\<lparr>m_lastArq := uint (w_arq sample_wire)\<rparr>) sample_wire
      = Some (new_EQMacDecoder\<lparr>m_lastArq := 7\<rparr>, [(0x4243, [10, 20, 30])])"
    by code_simp+
  then show ?thesis using e by simp
qed

text \<open>C1: reassembly. A message cut into n fragments (n below 2^16) that arrive in order with
  consecutive sequence numbers is delivered exactly once, after the last fragment, as the
  concatenation of the fragment payloads under the opcode of the first, from every decoder state
  for which the first number is new, also when stale data of an older message is in the group;
  the group is then gone and the other groups are untouched.\<close>

theorem eqmac_reassembles_in_order:
  assumes "fragment_train s q opc ws" "ws \<noteq> []" "arq_new d q"
  shows "eqmac_run z d (map wire_bytes ws) =
    Some (d\<lparr>m_lastArq := uint (q + of_nat (length ws - 1)), m_fragments := (m_fragments d)(s := None)\<rparr>,
      emitWithDecode z opc (concat (map w_payload ws)))"
  using fragment_train_run [OF assms(1), of 0 d "[]" z] assms(2,3) by simp

definition sample_train :: "wire list" where
  "sample_train = map (\<lambda>i. sample_wire\<lparr>w_a := 0x0a, w_b := 0, w_acks := [], w_asq := [],
     w_arq := 0xffff + of_nat i, w_frag := (3, of_nat i, 2), w_payload := [of_nat i, 42]\<rparr>) [0, 1]"

theorem eqmac_reassembles_in_order_witness:
  "eqmac_run (\<lambda>_ _. None) (new_EQMacDecoder\<lparr>m_lastArq := 0xfffe\<rparr>) (map wire_bytes sample_train)
     = Some (new_EQMacDecoder\<lparr>m_lastArq := 0\<rparr>, [(0x4243, [0, 42, 1, 42])])"
proof -
  have f: "list_all (\<lambda>i. wire_ok (sample_train ! i) \<and> a1_ARQ (w_hdr (sample_train ! i))
      \<and> a3_Fragment (w_hdr (sample_train ! i))
      \<and> w_frag (sample_train ! i) = (3, of_nat i, of_nat (length sample_train))
      \<and> w_arq (sample_train ! i) = 0xffff + of_nat i
      \<and> w_opcode (sample_train ! i) = 0x4243) [0..<length sample_train]"
    by code_simp
  have l: "length sample_train = 2" by (simp add: sample_train_def)
  have "fragment_train 3 0xffff 0x4243 sample_train"
    using f unfolding fragment_train_def list_all_iff by (auto simp: l)
  moreover have "arq_new (new_EQMacDecoder\<lparr>m_lastArq := 0xfffe\<rparr>) 0xffff" by code_simp
  moreover have "emitWithDecode (\<lambda>_ _. None) 0x4243 (concat (map w_payload sample_train))
     = [(0x4243, [0, 42, 1, 42])]" by code_simp
  moreover have "sample_train \<noteq> []" using l by auto
  ultimately show ?thesis
    using eqmac_reassembles_in_order [where s = 3 and q = "0xffff" and opc = "0x4243"
        and ws = sample_train and d = "new_EQMacDecoder\<lparr>m_lastArq := 0xfffe\<rparr>" and z = "\<lambda>_ _. None"] l
    by (auto simp: new_EQMacDecoder_def)
qed

end
