(* ===== verification/Crc.thy ===== *)
theory Crc
  imports PacketCommon
begin

text \<open>
  The checksums of \<open>src/src/util.cpp\<close> (\<open>calcCRC32\<close>, \<open>calcCRC16\<close>) and the table
  \<open>src/src/crctab.h\<close> they look up. The buffer is a list of bytes; a loop that runs past its end
  is \<open>None\<close>.
\<close>

section \<open>The table\<close>

definition crctab :: "u32 list" where
  "crctab = [
   0x00000000, 0x77073096, 0xee0e612c, 0x990951ba, 0x076dc419, 0x706af48f,
   0xe963a535, 0x9e6495a3, 0x0edb8832, 0x79dcb8a4, 0xe0d5e91e, 0x97d2d988,
   0x09b64c2b, 0x7eb17cbd, 0xe7b82d07, 0x90bf1d91, 0x1db71064, 0x6ab020f2,
   0xf3b97148, 0x84be41de, 0x1adad47d, 0x6ddde4eb, 0xf4d4b551, 0x83d385c7,
   0x136c9856, 0x646ba8c0, 0xfd62f97a, 0x8a65c9ec, 0x14015c4f, 0x63066cd9,
   0xfa0f3d63, 0x8d080df5, 0x3b6e20c8, 0x4c69105e, 0xd56041e4, 0xa2677172,
   0x3c03e4d1, 0x4b04d447, 0xd20d85fd, 0xa50ab56b, 0x35b5a8fa, 0x42b2986c,
   0xdbbbc9d6, 0xacbcf940, 0x32d86ce3, 0x45df5c75, 0xdcd60dcf, 0xabd13d59,
   0x26d930ac, 0x51de003a, 0xc8d75180, 0xbfd06116, 0x21b4f4b5, 0x56b3c423,
   0xcfba9599, 0xb8bda50f, 0x2802b89e, 0x5f058808, 0xc60cd9b2, 0xb10be924,
   0x2f6f7c87, 0x58684c11, 0xc1611dab, 0xb6662d3d, 0x76dc4190, 0x01db7106,
   0x98d220bc, 0xefd5102a, 0x71b18589, 0x06b6b51f, 0x9fbfe4a5, 0xe8b8d433,
   0x7807c9a2, 0x0f00f934, 0x9609a88e, 0xe10e9818, 0x7f6a0dbb, 0x086d3d2d,
   0x91646c97, 0xe6635c01, 0x6b6b51f4, 0x1c6c6162, 0x856530d8, 0xf262004e,
   0x6c0695ed, 0x1b01a57b, 0x8208f4c1, 0xf50fc457, 0x65b0d9c6, 0x12b7e950,
   0x8bbeb8ea, 0xfcb9887c, 0x62dd1ddf, 0x15da2d49, 0x8cd37cf3, 0xfbd44c65,
   0x4db26158, 0x3ab551ce, 0xa3bc0074, 0xd4bb30e2, 0x4adfa541, 0x3dd895d7,
   0xa4d1c46d, 0xd3d6f4fb, 0x4369e96a, 0x346ed9fc, 0xad678846, 0xda60b8d0,
   0x44042d73, 0x33031de5, 0xaa0a4c5f, 0xdd0d7cc9, 0x5005713c, 0x270241aa,
   0xbe0b1010, 0xc90c2086, 0x5768b525, 0x206f85b3, 0xb966d409, 0xce61e49f,
   0x5edef90e, 0x29d9c998, 0xb0d09822, 0xc7d7a8b4, 0x59b33d17, 0x2eb40d81,
   0xb7bd5c3b, 0xc0ba6cad, 0xedb88320, 0x9abfb3b6, 0x03b6e20c, 0x74b1d29a,
   0xead54739, 0x9dd277af, 0x04db2615, 0x73dc1683, 0xe3630b12, 0x94643b84,
   0x0d6d6a3e, 0x7a6a5aa8, 0xe40ecf0b, 0x9309ff9d, 0x0a00ae27, 0x7d079eb1,
   0xf00f9344, 0x8708a3d2, 0x1e01f268, 0x6906c2fe, 0xf762575d, 0x806567cb,
   0x196c3671, 0x6e6b06e7, 0xfed41b76, 0x89d32be0, 0x10da7a5a, 0x67dd4acc,
   0xf9b9df6f, 0x8ebeeff9, 0x17b7be43, 0x60b08ed5, 0xd6d6a3e8, 0xa1d1937e,
   0x38d8c2c4, 0x4fdff252, 0xd1bb67f1, 0xa6bc5767, 0x3fb506dd, 0x48b2364b,
   0xd80d2bda, 0xaf0a1b4c, 0x36034af6, 0x41047a60, 0xdf60efc3, 0xa867df55,
   0x316e8eef, 0x4669be79, 0xcb61b38c, 0xbc66831a, 0x256fd2a0, 0x5268e236,
   0xcc0c7795, 0xbb0b4703, 0x220216b9, 0x5505262f, 0xc5ba3bbe, 0xb2bd0b28,
   0x2bb45a92, 0x5cb36a04, 0xc2d7ffa7, 0xb5d0cf31, 0x2cd99e8b, 0x5bdeae1d,
   0x9b64c2b0, 0xec63f226, 0x756aa39c, 0x026d930a, 0x9c0906a9, 0xeb0e363f,
   0x72076785, 0x05005713, 0x95bf4a82, 0xe2b87a14, 0x7bb12bae, 0x0cb61b38,
   0x92d28e9b, 0xe5d5be0d, 0x7cdcefb7, 0x0bdbdf21, 0x86d3d2d4, 0xf1d4e242,
   0x68ddb3f8, 0x1fda836e, 0x81be16cd, 0xf6b9265b, 0x6fb077e1, 0x18b74777,
   0x88085ae6, 0xff0f6a70, 0x66063bca, 0x11010b5c, 0x8f659eff, 0xf862ae69,
   0x616bffd3, 0x166ccf45, 0xa00ae278, 0xd70dd2ee, 0x4e048354, 0x3903b3c2,
   0xa7672661, 0xd06016f7, 0x4969474d, 0x3e6e77db, 0xaed16a4a, 0xd9d65adc,
   0x40df0b66, 0x37d83bf0, 0xa9bcae53, 0xdebb9ec5, 0x47b2cf7f, 0x30b5ffe9,
   0xbdbdf21c, 0xcabac28a, 0x53b39330, 0x24b4a3a6, 0xbad03605, 0xcdd70693,
   0x54de5729, 0x23d967bf, 0xb3667a2e, 0xc4614ab8, 0x5d681b02, 0x2a6f2b94,
   0xb40bbe37, 0xc30c8ea1, 0x5a05df1b, 0x2d02ef8d]"

text \<open>The entry that \<open>RUNTIME_CRCTAB\<close> computes: eight steps of division by the polynomial.\<close>

definition crc_bit :: "u32 \<Rightarrow> u32" where
  "crc_bit c = (if c AND 1 \<noteq> 0 then 0xEDB88320 XOR drop_bit 1 c else drop_bit 1 c)"

definition crctab_entry :: "u32 \<Rightarrow> u32" where
  "crctab_entry i = (crc_bit ^^ 8) i"

section \<open>The checksums\<close>

definition crc_step :: "u32 \<Rightarrow> u32 \<Rightarrow> u32" where
  "crc_step b crc = drop_bit 8 crc XOR crctab ! unat ((b XOR crc) AND 0xFF)"

fun crc_loop :: "u8 list \<Rightarrow> nat \<Rightarrow> u32 \<Rightarrow> u32 option" where
  "crc_loop p 0 crc = Some crc"
| "crc_loop [] (Suc n) crc = None"
| "crc_loop (b # p) (Suc n) crc = crc_loop p n (crc_step (ucast b) crc)"

definition calcCRC32 :: "bytes \<Rightarrow> u32 \<Rightarrow> u32 option" where
  "calcCRC32 p len = do { crc \<leftarrow> crc_loop p (unat len) 0xFFFFFFFF; Some (crc XOR 0xFFFFFFFF) }"

definition calcCRC16 :: "bytes \<Rightarrow> u32 \<Rightarrow> u32 \<Rightarrow> u16 option" where
  "calcCRC16 p len seed =
     (if len > 25600 then Some 0xDEAD
      else
        let crc0 = 0xFFFFFFFF;
            crc1 = crc_step seed crc0;
            crc2 = crc_step (drop_bit 8 seed) crc1;
            crc3 = crc_step (drop_bit 16 seed) crc2;
            crc4 = crc_step (drop_bit 24 seed) crc3
        in do { crc \<leftarrow> crc_loop p (unat len) crc4; Some (ucast (crc XOR 0xFFFFFFFF)) })"

section \<open>The table is the polynomial's\<close>

lemma length_crctab: "length crctab = 256"
  by (simp add: crctab_def)

lemma crc_bit_alt: "crc_bit c = (if bit c 0 then 0xEDB88320 else 0) XOR drop_bit 1 c"
proof -
  have "c AND 1 \<noteq> 0 \<longleftrightarrow> bit c 0" by (simp add: bit_0 and_one_eq odd_iff_mod_2_eq_one even_iff_mod_2_eq_zero)
  then show ?thesis by (simp add: crc_bit_def)
qed

lemma crc_bit_xor: "crc_bit (a XOR b) = crc_bit a XOR crc_bit b"
  by (simp add: crc_bit_alt bit_xor_iff drop_bit_xor ac_simps)

lemma crc_bits_xor: "(crc_bit ^^ n) (a XOR b) = (crc_bit ^^ n) a XOR (crc_bit ^^ n) b"
  by (induction n) (simp_all add: crc_bit_xor)

lemma crc_bit_zero: "crc_bit c = 0 \<Longrightarrow> c = 0"
proof -
  assume z: "crc_bit c = 0"
  have "\<not> bit c 0"
  proof
    assume "bit c 0"
    then have "bit (0xEDB88320 XOR drop_bit 1 c) 31 = bit (0 :: u32) 31" using z by (simp add: crc_bit_alt)
    moreover have "bit (0xEDB88320 :: u32) 31" by (simp add: bit_numeral_word_iff)
    moreover have "\<not> bit (drop_bit 1 c) 31" using bit_imp_le_length [of c 32] by (auto simp: bit_drop_bit_eq)
    ultimately show False by (simp add: bit_xor_iff)
  qed
  then have "bit (drop_bit 1 c) n = bit (0 :: u32) n" "\<not> bit c 0" for n
    using z by (simp_all add: crc_bit_alt)
  then have "\<not> bit c n" for n by (cases n) (simp_all add: bit_drop_bit_eq)
  then show "c = 0" by (intro bit_word_eqI) simp
qed

lemma crc_bit_inj: "crc_bit a = crc_bit b \<Longrightarrow> a = b"
proof -
  assume "crc_bit a = crc_bit b"
  then have "crc_bit (a XOR b) = 0" by (simp add: crc_bit_xor)
  then have "a XOR b = 0" by (rule crc_bit_zero)
  then have "bit (a XOR b) n = bit (0 :: u32) n" for n by simp
  then show "a = b" by (intro bit_word_eqI) (simp add: bit_xor_iff)
qed

text \<open>Two facts about neighbours determine the whole table.\<close>

lemma crctab_even: "map (\<lambda>i. crc_bit (crctab ! (2 * i))) [0..<128] = take 128 crctab"
  by code_simp

lemma crctab_odd: "map (\<lambda>i. crctab ! (2 * i) XOR crctab ! 1) [0..<128] = map (\<lambda>i. crctab ! (2 * i + 1)) [0..<128]"
  by code_simp

lemma crctab_0_1: "crctab ! 0 = 0" "crctab ! 1 = crctab_entry 1"
  by code_simp+

lemma crctab_entry_xor: "crctab_entry (a XOR b) = crctab_entry a XOR crctab_entry b"
  by (simp add: crctab_entry_def crc_bits_xor)

lemma crctab_entry_double: "i < 128 \<Longrightarrow> crc_bit (crctab_entry (of_nat (2 * i))) = crctab_entry (of_nat i)"
proof -
  assume i: "i < 128"
  have u: "unat (of_nat j :: u32) = j" if "j < 256" for j
    using that by (simp add: unat_of_nat)
  have "\<not> bit (of_nat (2 * i) :: u32) 0" by (simp add: bit_0)
  moreover have "drop_bit 1 (of_nat (2 * i) :: u32) = of_nat i"
  proof -
    have "unat (drop_bit 1 (of_nat (2 * i) :: u32)) = drop_bit 1 (take_bit 32 (unat (of_nat (2 * i) :: u32)))"
      using unsigned_drop_bit_eq [of 1 "of_nat (2 * i) :: u32", where 'a = nat] by simp
    also have "\<dots> = i" unfolding u [of "2 * i", OF _] using i
      by (simp only: u) (simp add: take_bit_eq_mod drop_bit_eq_div)
    finally have "unat (drop_bit 1 (of_nat (2 * i) :: u32)) = unat (of_nat i :: u32)"
      using u [of i] i by simp
    then show ?thesis by (simp only: word_unat_eq_iff)
  qed
  ultimately have "crc_bit (of_nat (2 * i)) = of_nat i" by (simp only: crc_bit_alt) simp
  then show ?thesis unfolding crctab_entry_def funpow_swap1 by simp
qed

lemma of_nat_double_Suc: "(of_nat (2 * i + 1) :: u32) = of_nat (2 * i) XOR 1"
  by (simp add: xor_one_eq)

lemma crctab_generated: "i < 256 \<Longrightarrow> crctab ! i = crctab_entry (of_nat i)"
proof (induction i rule: less_induct)
  case (less i)
  define j where "j = i div 2"
  have j: "j < 128" using less.prems by (simp add: j_def)
  have e: "crc_bit (crctab ! (2 * j)) = crctab ! j"
    using arg_cong [OF crctab_even, of "\<lambda>xs. xs ! j"] j by (simp add: length_crctab)
  have o: "crctab ! (2 * j) XOR crctab ! 1 = crctab ! (2 * j + 1)"
    using arg_cong [OF crctab_odd, of "\<lambda>xs. xs ! j"] j by simp
  have "crctab ! (2 * j) = crctab_entry (of_nat (2 * j))"
  proof (cases "j = 0")
    case True
    then show ?thesis using crctab_0_1(1) by (simp add: crctab_entry_def crc_bit_def funpow_swap1 eval_nat_numeral)
  next
    case False
    then have "j < i" by (simp add: j_def)
    then have "crctab ! j = crctab_entry (of_nat j)" using less.IH j by simp
    then show ?thesis using crctab_entry_double [OF j] e by (metis crc_bit_inj)
  qed
  moreover have "i = 2 * j \<or> i = 2 * j + 1" by (simp add: j_def) presburger
  ultimately show ?case
    using o crctab_0_1(2) crctab_entry_xor [of "of_nat (2 * j)" 1] of_nat_double_Suc [of j] by metis
qed

section \<open>The bitwise checksum\<close>

text \<open>The defining algorithm: add a byte, divide by the polynomial bit by bit.\<close>

definition crc_ref :: "bytes \<Rightarrow> u32" where
  "crc_ref bs = fold (\<lambda>b crc. (crc_bit ^^ 8) (crc XOR ucast b)) bs 0xFFFFFFFF XOR 0xFFFFFFFF"

lemma crc_bits_high: "\<forall>k < n. \<not> bit y k \<Longrightarrow> (crc_bit ^^ n) y = drop_bit n y"
proof (induction n)
  case (Suc n)
  then have "(crc_bit ^^ Suc n) y = crc_bit (drop_bit n y)" by simp
  moreover have "\<not> bit (drop_bit n y) 0" using Suc.prems by (simp add: bit_drop_bit_eq)
  then have "crc_bit (drop_bit n y) = drop_bit (Suc n) y" by (simp add: crc_bit_alt [of "drop_bit n y"])
  ultimately show ?case by simp
qed simp

lemma crc_bits_table: "(crc_bit ^^ 8) x = drop_bit 8 x XOR crctab ! unat (x AND 0xFF)"
proof -
  have m: "x AND 0xFF = take_bit 8 x" by (simp add: take_bit_eq_mask mask_eq_exp_minus_1)
  define lo hi where "lo = take_bit 8 x" and "hi = x XOR lo"
  have x: "x = hi XOR lo" by (simp add: hi_def xor.assoc)
  have "\<forall>k < 8. \<not> bit hi k" by (simp add: hi_def lo_def bit_xor_iff bit_take_bit_iff)
  then have 1: "(crc_bit ^^ 8) hi = drop_bit 8 hi" by (rule crc_bits_high)
  have 2: "drop_bit 8 hi = drop_bit 8 x"
    by (rule bit_word_eqI) (simp add: hi_def lo_def bit_drop_bit_eq bit_xor_iff bit_take_bit_iff)
  have "unat lo = take_bit 8 (unat x)" unfolding lo_def by (rule unsigned_take_bit_eq)
  then have "unat lo < 256" using take_bit_nat_less_exp [of 8 "unat x"] by simp
  from crctab_generated [OF this] have 3: "crctab ! unat lo = (crc_bit ^^ 8) lo"
    by (simp add: crctab_entry_def)
  have "(crc_bit ^^ 8) x = (crc_bit ^^ 8) (hi XOR lo)" using x by simp
  also have "\<dots> = drop_bit 8 x XOR crctab ! unat lo" by (simp only: crc_bits_xor 1 2 3)
  finally show ?thesis unfolding m lo_def .
qed

lemma crc_step_byte: "crc_step (ucast b) crc = (crc_bit ^^ 8) (crc XOR ucast (b :: u8))"
proof -
  have "drop_bit 8 (crc XOR ucast b) = drop_bit 8 crc"
    by (rule bit_word_eqI) (auto simp: bit_drop_bit_eq bit_xor_iff bit_ucast_iff dest: bit_imp_le_length)
  then show ?thesis by (simp add: crc_step_def crc_bits_table xor.commute)
qed

lemma crc_step_low: "crc_step w crc = crc_step (ucast (ucast w :: u8)) crc"
proof -
  have "(w XOR crc) AND 0xFF = (ucast (ucast w :: u8) XOR crc) AND 0xFF"
  proof (rule bit_word_eqI)
    fix n
    have "bit (0xFF :: u32) n \<longleftrightarrow> n < 8"
      using bit_mask_iff [of 8 n, where 'a = "32 word"] by (auto simp: mask_eq_exp_minus_1 possible_bit_word)
    then show "bit ((w XOR crc) AND 0xFF) n = bit ((ucast (ucast w :: u8) XOR crc) AND 0xFF) n"
      by (auto simp: bit_and_iff bit_xor_iff bit_ucast_iff)
  qed
  then show ?thesis by (simp add: crc_step_def)
qed

lemma crc_loop_fold: "n \<le> length p \<Longrightarrow>
    crc_loop p n crc = Some (fold (\<lambda>b crc. (crc_bit ^^ 8) (crc XOR ucast b)) (take n p) crc)"
  by (induction p n crc rule: crc_loop.induct) (simp_all add: crc_step_byte)

section \<open>Properties\<close>

text \<open>C12: the checksums are CRC-32. On a buffer of at least the given length the table-driven
  calcCRC32 is the bit-by-bit division by the reflected polynomial 0xEDB88320, and calcCRC16, up
  to its limit of 25600 bytes, is the low half of the CRC-32 of the buffer with the four bytes of
  the seed, lowest first, put in front. In particular the 256 table entries are right.\<close>

theorem checksums_are_crc32:
  assumes "unat len \<le> length p" "len \<le> 25600"
  shows "calcCRC32 p len = Some (crc_ref (take (unat len) p))
    \<and> calcCRC16 p len seed = Some (ucast (crc_ref (le_bytes 4 seed @ take (unat len) p)))"
proof -
  have "\<not> 25600 < len" using assms(2) by simp
  then show ?thesis
    using assms(1) crc_step_low [of seed] crc_step_low [of "drop_bit 8 seed"]
      crc_step_low [of "drop_bit 16 seed"] crc_step_low [of "drop_bit 24 seed"]
    by (simp add: calcCRC32_def calcCRC16_def crc_loop_fold crc_ref_def crc_step_byte
        eval_nat_numeral drop_bit_drop_bit del: crc_bit_def)
qed

theorem checksums_are_crc32_witness:
  "crc_ref [0x31, 0x32, 0x33, 0x34, 0x35, 0x36, 0x37, 0x38, 0x39] = 0xCBF43926"
proof -
  let ?p = "[0x31, 0x32, 0x33, 0x34, 0x35, 0x36, 0x37, 0x38, 0x39] :: bytes"
  have "calcCRC32 ?p 9 = Some 0xCBF43926" by code_simp
  then show ?thesis using checksums_are_crc32 [of 9 ?p 0] by simp
qed

end
