(* ===== verification/PacketStream.thy ===== *)
theory PacketStream
  imports PacketInfoProps PacketFormat PacketFragment EQMacProps Crc
begin

text \<open>
  \<open>src/src/packetstream.h\<close> and \<open>src/src/packetstream.cpp\<close>: one of the four packet streams of the
  daemon. \<open>handlePacket\<close> gives every UDP flow its own transport decoder and dispatches each
  message it yields to the handlers that \<open>connect2\<close> attached to the payload descriptions of its
  opcode. Modelled is the live path and the state it shares with the older protocol
  (\<open>setCache\<close>, \<open>resetCache\<close>, \<open>calculateCRC\<close>, session keys, \<open>close\<close>); \<open>processPacket\<close> and
  \<open>processCache\<close>, which nothing calls any more, are not.

  Signals are events, in order. A handler (a Qt receiver and slot) is a value of a type parameter
  and its activation an event; a handler does not call back into the stream. A payload
  description is identified by the address of its opcode object and its position there, which
  stands for the pointer the code keys its dispatchers with.
\<close>

datatype 'h stream_event =
    EvNumPacket int
  | EvRaw bytes u16
  | EvDecoded bytes u16 "addr option"
  | EvActivate 'h bytes
  | EvDecodedU bytes u16 "addr option" bool
  | EvCacheSize nat

type_synonym payload_id = "addr \<times> nat"

record 'h EQPacketStream =
  st_dispatchers :: "(payload_id \<times> 'h list) list"
  st_streamid :: EQStreamID
  st_dir :: u8
  st_packetCount :: int
  st_tracking :: u8
  st_cache :: "(u16 \<times> EQProtocolPacket) list"
  st_arqSeqExp :: u16
  st_arqSeqGiveUp :: u16
  st_arqSeqFound :: bool
  st_fragment :: EQPacketFragmentSequence
  st_sessionId :: u32
  st_sessionKey :: u32
  st_clientPort :: u16
  st_clientIP :: u32
  st_maxLength :: u32
  st_decoders :: "u32 \<rightharpoonup> EQMacDecoder"

definition new_EQPacketStream :: "EQStreamID \<Rightarrow> u8 \<Rightarrow> u16 \<Rightarrow> 'h EQPacketStream" where
  "new_EQPacketStream streamid dir giveUp = \<lparr>st_dispatchers = [], st_streamid = streamid, st_dir = dir,
     st_packetCount = 0, st_tracking = 0, st_cache = [], st_arqSeqExp = 0, st_arqSeqGiveUp = giveUp,
     st_arqSeqFound = False, st_fragment = new_EQPacketFragmentSequence streamid, st_sessionId = 0,
     st_sessionKey = 0, st_clientPort = 0, st_clientIP = 0, st_maxLength = 0, st_decoders = Map.empty\<rparr>"

definition setSessionTracking :: "u8 \<Rightarrow> 'h EQPacketStream \<Rightarrow> 'h EQPacketStream" where
  "setSessionTracking v st = st\<lparr>st_tracking := v\<rparr>"

definition setArqSeqGiveUp :: "u16 \<Rightarrow> 'h EQPacketStream \<Rightarrow> 'h EQPacketStream" where
  "setArqSeqGiveUp v st = st\<lparr>st_arqSeqGiveUp := v\<rparr>"

section \<open>connect2\<close>

text \<open>The scan of the payload list: it stops at a payload that fits, and otherwise leaves the cursor
  on the last payload.\<close>

definition payload_fits :: "u8 \<Rightarrow> string \<Rightarrow> EQSizeCheckType \<Rightarrow> EQPacketPayload \<Rightarrow> bool" where
  "payload_fits dir payloadType szt pl \<longleftrightarrow> pl_dir pl AND dir \<noteq> 0 \<and> pl_typeName pl = payloadType
     \<and> pl_sizeCheckType pl = szt"

fun scan_payloads :: "u8 \<Rightarrow> string \<Rightarrow> EQSizeCheckType \<Rightarrow> EQPacketPayload list \<Rightarrow> nat \<Rightarrow> nat option \<Rightarrow> nat option"
where
  "scan_payloads dir payloadType szt [] i payload = payload"
| "scan_payloads dir payloadType szt (pl # pls) i payload =
     (if payload_fits dir payloadType szt pl then Some i
      else scan_payloads dir payloadType szt pls (Suc i) (Some i))"

text \<open>\<open>connect_ok\<close> is what Qt answers to the connection of the handler.\<close>

definition connect2 ::
  "('h \<Rightarrow> bool) \<Rightarrow> EQPacketOPCodeDB \<Rightarrow> string \<Rightarrow> string \<Rightarrow> EQSizeCheckType \<Rightarrow> 'h \<Rightarrow> 'h EQPacketStream
     \<Rightarrow> (bool \<times> 'h EQPacketStream) option" where
  "connect2 connect_ok db opcodeName payloadType szt h st =
     (case db_find_name opcodeName db of
        None \<Rightarrow> Some (False, st)
      | Some p \<Rightarrow> do {
          oc \<leftarrow> db_heap db p;
          (case scan_payloads (st_dir st) payloadType szt (oc_payloads oc) 0 None of
             None \<Rightarrow> Some (False, st)
           | Some i \<Rightarrow>
               let hs = (case map_of (st_dispatchers st) (p, i) of None \<Rightarrow> [] | Some hs \<Rightarrow> hs);
                   hs' = (if connect_ok h then hs @ [h] else hs)
               in Some (connect_ok h,
                    st\<lparr>st_dispatchers := AList.update (p, i) hs' (st_dispatchers st)\<rparr>))
        })"

section \<open>Cache and session state\<close>

definition resetCache :: "'h EQPacketStream \<Rightarrow> 'h EQPacketStream \<times> 'h stream_event list" where
  "resetCache st = (st\<lparr>st_cache := []\<rparr>, [EvCacheSize 0])"

definition stream_reset :: "'h EQPacketStream \<Rightarrow> 'h EQPacketStream \<times> 'h stream_event list" where
  "stream_reset st = (let (st1, ev) = resetCache st in
     (st1\<lparr>st_fragment := fs_reset (st_fragment st1), st_arqSeqExp := 0, st_arqSeqFound := False,
          st_clientPort := 0, st_clientIP := 0, st_sessionId := 0, st_sessionKey := 0,
          st_decoders := Map.empty\<rparr>, ev))"

definition calculateCRC :: "'h EQPacketStream \<Rightarrow> EQProtocolPacket \<Rightarrow> u16 option" where
  "calculateCRC st p = calcCRC16 (ep_packet p) (ucast (ucast (ep_length p) :: u16) - 2) (st_sessionKey st)"

definition setCache :: "u16 \<Rightarrow> EQProtocolPacket \<Rightarrow> 'h EQPacketStream
    \<Rightarrow> ('h EQPacketStream \<times> 'h stream_event list) option" where
  "setCache seq p st =
     (case map_of (st_cache st) seq of
        None \<Rightarrow> do {
          q \<leftarrow> ep_copy p True;
          let c = AList.update seq q (st_cache st);
          Some (st\<lparr>st_cache := c\<rparr>, [EvCacheSize (length c)])
        }
      | Some old \<Rightarrow> do {
          valid \<leftarrow> (if \<not> hasCRC p then Some True
                   else do { a \<leftarrow> calculateCRC st p; b \<leftarrow> packet_crc p; Some (a = b) });
          if valid then do { q \<leftarrow> ep_copy p True;
                             Some (st\<lparr>st_cache := AList.update seq q (st_cache st)\<rparr>, []) }
          else Some (st, [])
        })"

definition receiveSessionKey :: "u32 \<Rightarrow> EQStreamID \<Rightarrow> u32 \<Rightarrow> 'h EQPacketStream \<Rightarrow> 'h EQPacketStream" where
  "receiveSessionKey sessionId streamid key st =
     (if streamid \<noteq> st_streamid st \<and> st_sessionId st = sessionId then st\<lparr>st_sessionKey := key\<rparr> else st)"

definition stream_close :: "u32 \<Rightarrow> EQStreamID \<Rightarrow> u8 \<Rightarrow> 'h EQPacketStream
    \<Rightarrow> 'h EQPacketStream \<times> 'h stream_event list" where
  "stream_close sessionId streamId tracking st =
     (if sessionId = st_sessionId st
      then let (st1, ev) = stream_reset st in (setSessionTracking tracking st1, ev)
      else (st, []))"

section \<open>dispatchPacket\<close>

fun dispatch_payloads :: "(payload_id \<times> 'h list) list \<Rightarrow> u8 \<Rightarrow> bytes \<Rightarrow> addr \<Rightarrow> nat \<Rightarrow> EQPacketPayload list
    \<Rightarrow> bool \<times> 'h stream_event list" where
  "dispatch_payloads ds dir data p i [] = (False, [])"
| "dispatch_payloads ds dir data p i (pl # pls) =
     (let (found, evs) = dispatch_payloads ds dir data p (Suc i) pls in
      if payload_match pl (length data) dir
      then (True, (case map_of ds (p, i) of None \<Rightarrow> [] | Some hs \<Rightarrow> map (\<lambda>h. EvActivate h data) hs) @ evs)
      else (found, evs))"

definition dispatchPacket ::
  "EQPacketOPCodeDB \<Rightarrow> 'h EQPacketStream \<Rightarrow> bytes \<Rightarrow> u16 \<Rightarrow> addr option \<Rightarrow> 'h stream_event list option" where
  "dispatchPacket db st data opCode opcodeEntry =
     (case opcodeEntry of
        None \<Rightarrow> Some [EvDecoded data opCode None, EvDecodedU data opCode None True]
      | Some p \<Rightarrow> do {
          oc \<leftarrow> db_heap db p;
          let (found, evs) = dispatch_payloads (st_dispatchers st) (st_dir st) data p 0 (oc_payloads oc);
          Some (EvDecoded data opCode (Some p) # evs @ [EvDecodedU data opCode (Some p) (\<not> found)])
        })"

text \<open>The callback that \<open>handlePacket\<close> gives to the decoder, for the messages in order.\<close>

fun dispatch_messages ::
  "EQPacketOPCodeDB \<Rightarrow> 'h EQPacketStream \<Rightarrow> app_packet list \<Rightarrow> 'h stream_event list option" where
  "dispatch_messages db st [] = Some []"
| "dispatch_messages db st ((opcode, data) # ms) = do {
     ev1 \<leftarrow> dispatchPacket db st data opcode (db_find opcode db);
     ev2 \<leftarrow> dispatch_messages db st ms;
     Some (ev1 @ ev2)
   }"

section \<open>handlePacket\<close>

text \<open>The filter for the latched client.\<close>

definition latched_out :: "'h EQPacketStream \<Rightarrow> u16 \<Rightarrow> u16 \<Rightarrow> u32 \<Rightarrow> u32 \<Rightarrow> bool" where
  "latched_out st srcPort dstPort srcIP dstIP \<longleftrightarrow>
     st_clientPort st \<noteq> 0 \<and> st_clientIP st \<noteq> 0 \<and>
     (st_dir st = DIR_Server \<and> st_clientPort st \<noteq> dstPort \<or>
      st_dir st = DIR_Client \<and> st_clientPort st \<noteq> srcPort \<or>
      st_dir st = DIR_Server \<and> st_clientIP st \<noteq> dstIP \<or>
      st_dir st = DIR_Client \<and> st_clientIP st \<noteq> srcIP)"

definition tuple_key :: "u16 \<Rightarrow> u16 \<Rightarrow> u32" where
  "tuple_key srcPort dstPort = push_bit 16 (ucast srcPort) OR ucast dstPort"

definition decoder_slot :: "'h EQPacketStream \<Rightarrow> u32 \<Rightarrow> EQMacDecoder" where
  "decoder_slot st k = (case st_decoders st k of None \<Rightarrow> new_EQMacDecoder | Some d \<Rightarrow> d)"

definition handlePacket ::
  "zinflate \<Rightarrow> EQPacketOPCodeDB \<Rightarrow> 'h EQPacketStream \<Rightarrow> EQUDPIPPacketFormat
     \<Rightarrow> ('h EQPacketStream \<times> EQUDPIPPacketFormat \<times> 'h stream_event list) option" where
  "handlePacket z db st packet = do {
     let st1 = st\<lparr>st_packetCount := st_packetCount st + 1\<rparr>;
     let ev0 = EvNumPacket (st_packetCount st1);
     let packet1 = setSessionKey (st_sessionKey st1) packet;
     srcPort \<leftarrow> getSourcePort packet1;
     dstPort \<leftarrow> getDestPort packet1;
     srcIP \<leftarrow> getIPv4SourceN packet1;
     dstIP \<leftarrow> getIPv4DestN packet1;
     if latched_out st1 srcPort dstPort srcIP dstIP then Some (st1, packet1, [ev0])
     else do {
       let key = tuple_key srcPort dstPort;
       payload \<leftarrow> udp_payload packet1;
       (d', msgs) \<leftarrow> eqmac_process z (decoder_slot st1 key) payload;
       evs \<leftarrow> dispatch_messages db st1 msgs;
       Some (st1\<lparr>st_decoders := (st_decoders st1)(key \<mapsto> d')\<rparr>, packet1,
             ev0 # EvRaw payload (ep_netOp (up_proto packet1)) # evs)
     }
   }"

text \<open>A sequence of captured packets through one stream; the events of a packet are listed with its flow.\<close>

fun stream_run ::
  "zinflate \<Rightarrow> EQPacketOPCodeDB \<Rightarrow> 'h EQPacketStream \<Rightarrow> bytes list
     \<Rightarrow> ('h EQPacketStream \<times> 'h stream_event list list) option" where
  "stream_run z db st [] = Some (st, [])"
| "stream_run z db st (m # ms) = do {
     packet \<leftarrow> udp_init m;
     (st1, _, ev) \<leftarrow> handlePacket z db st packet;
     (st2, evs) \<leftarrow> stream_run z db st1 ms;
     Some (st2, ev # evs)
   }"

end
