(* ===== verification/PacketStreamProps.thy ===== *)
theory PacketStreamProps
  imports PacketStream
begin

text \<open>
  The live packet path: a stream never faults on well-formed captures, the flows that share it do
  not disturb each other, and a handler is activated with data that fits the payload it was
  connected to.
\<close>

section \<open>Dispatching returns\<close>

lemma dispatchPacket_total:
  assumes "db_ok db" "\<And>p. e = Some p \<Longrightarrow> db_heap db p \<noteq> None"
  shows "\<exists>evs. dispatchPacket db st data opc e = Some evs"
  using assms by (fastforce simp: dispatchPacket_def split: option.split prod.split)

lemma dispatch_messages_total:
  assumes "db_ok db"
  shows "\<exists>evs. dispatch_messages db st ms = Some evs"
proof (induction ms)
  case (Cons m ms)
  obtain opc data where m: "m = (opc, data)" by fastforce
  have "db_heap db p \<noteq> None" if "db_find opc db = Some p" for p
    using id_D [OF assms] that by (fastforce simp: db_find_def)
  then obtain ev1 where "dispatchPacket db st data opc (db_find opc db) = Some ev1"
    using dispatchPacket_total [OF assms] by metis
  then show ?case using Cons m by auto
qed simp

text \<open>The messages that a list of events announces.\<close>

fun decoded_of :: "'h stream_event list \<Rightarrow> app_packet list" where
  "decoded_of [] = []"
| "decoded_of (EvDecoded data opc e # evs) = (opc, data) # decoded_of evs"
| "decoded_of (ev # evs) = decoded_of evs"

lemma decoded_of_append [simp]: "decoded_of (xs @ ys) = decoded_of xs @ decoded_of ys"
  by (induction xs rule: decoded_of.induct) auto

lemma decoded_of_dispatch_payloads [simp]:
  "decoded_of (snd (dispatch_payloads ds dir data p i pls)) = []"
proof (induction ds dir data p i pls rule: dispatch_payloads.induct)
  case (2 ds dir data p i pl pls)
  have "decoded_of (map (\<lambda>h. EvActivate h data) hs) = []" for hs :: "'h list" by (induction hs) auto
  then show ?case using 2 by (auto simp: Let_def split: prod.split option.split)
qed simp

lemma dispatchPacket_decoded: "dispatchPacket db st data opc e = Some evs \<Longrightarrow> decoded_of evs = [(opc, data)]"
proof -
  assume a: "dispatchPacket db st data opc e = Some evs"
  show ?thesis
  proof (cases e)
    case (Some p)
    then obtain oc where "db_heap db p = Some oc" using a by (auto simp: dispatchPacket_def bind_Some_iff)
    moreover obtain found x2 where
      d: "dispatch_payloads (st_dispatchers st) (st_dir st) data p 0 (oc_payloads oc) = (found, x2)" by fastforce
    moreover have "decoded_of x2 = []" using decoded_of_dispatch_payloads d by (metis snd_conv)
    ultimately show ?thesis using a Some by (auto simp: dispatchPacket_def)
  qed (use a in \<open>auto simp: dispatchPacket_def\<close>)
qed

lemma dispatch_messages_decoded: "dispatch_messages db st ms = Some evs \<Longrightarrow> decoded_of evs = ms"
proof (induction ms arbitrary: evs)
  case (Cons m ms)
  obtain opc data where m: "m = (opc, data)" by fastforce
  then obtain ev1 ev2 where "dispatchPacket db st data opc (db_find opc db) = Some ev1"
    "dispatch_messages db st ms = Some ev2" "evs = ev1 @ ev2"
    using Cons.prems by (auto simp: bind_Some_iff)
  then show ?case using Cons.IH dispatchPacket_decoded m by force
qed simp

section \<open>One packet\<close>

text \<open>What a capture contributes: its flow and its UDP payload.\<close>

definition flow_of :: "bytes \<Rightarrow> u32" where
  "flow_of m = (case udp_init m of None \<Rightarrow> 0 | Some p \<Rightarrow>
     tuple_key (the (getSourcePort p)) (the (getDestPort p)))"

definition payload_of :: "bytes \<Rightarrow> bytes" where
  "payload_of m = (case udp_init m of None \<Rightarrow> [] | Some p \<Rightarrow> the (udp_payload p))"

text \<open>No session is latched.\<close>

definition unlatched :: "'h EQPacketStream \<Rightarrow> bool" where
  "unlatched st \<longleftrightarrow> st_clientPort st = 0"

lemma accessors_session [simp]:
  "getSourcePort (setSessionKey k p) = getSourcePort p" "getDestPort (setSessionKey k p) = getDestPort p"
  "getIPv4SourceN (setSessionKey k p) = getIPv4SourceN p" "getIPv4DestN (setSessionKey k p) = getIPv4DestN p"
  "udp_payload (setSessionKey k p) = udp_payload p"
  by (simp_all add: setSessionKey_def getSourcePort_def getDestPort_def getIPv4SourceN_def
      getIPv4DestN_def udp_payload_def)

lemma handle_capture:
  assumes ok: "capture_ok m" and db: "db_ok db" and u: "unlatched st"
  shows "\<exists>p d' msgs st1 p1 ev. udp_init m = Some p
    \<and> eqmac_process z (decoder_slot st (flow_of m)) (payload_of m) = Some (d', msgs)
    \<and> handlePacket z db st p = Some (st1, p1, ev) \<and> decoded_of ev = msgs
    \<and> st_decoders st1 = (st_decoders st)(flow_of m \<mapsto> d') \<and> unlatched st1
    \<and> st_dispatchers st1 = st_dispatchers st \<and> st_dir st1 = st_dir st
    \<and> st_packetCount st1 = st_packetCount st + 1"
proof -
  obtain p where p: "udp_init m = Some p" using udp_init_ok [OF ok] by blast
  note acc = udp_access [OF ok p]
  obtain sp dp sip dip b where a: "getSourcePort p = Some sp" "getDestPort p = Some dp"
    "getIPv4SourceN p = Some sip" "getIPv4DestN p = Some dip" "udp_payload p = Some b"
    using acc by blast
  have f: "flow_of m = tuple_key sp dp" "payload_of m = b" using p a by (simp_all add: flow_of_def payload_of_def)
  obtain d' msgs where e: "eqmac_process z (decoder_slot st (tuple_key sp dp)) b = Some (d', msgs)"
    using eqmac_process_total [of z] by fastforce
  let ?st1 = "st\<lparr>st_packetCount := st_packetCount st + 1\<rparr>"
  obtain evs where v: "dispatch_messages db ?st1 msgs = Some evs" using dispatch_messages_total [OF db] by blast
  have "\<not> latched_out ?st1 sp dp sip dip" using u by (simp add: latched_out_def unlatched_def)
  moreover have "decoder_slot ?st1 k = decoder_slot st k" for k by (simp add: decoder_slot_def)
  ultimately have "handlePacket z db st p = Some (?st1\<lparr>st_decoders := (st_decoders st)(tuple_key sp dp \<mapsto> d')\<rparr>,
      setSessionKey (st_sessionKey st) p,
      EvNumPacket (st_packetCount st + 1) # EvRaw b (ep_netOp (up_proto (setSessionKey (st_sessionKey st) p))) # evs)"
    using a e v by (simp add: handlePacket_def Let_def)
  then show ?thesis using p f e dispatch_messages_decoded [OF v] u by (auto simp: unlatched_def)
qed

section \<open>Flows\<close>

definition flow_payloads :: "u32 \<Rightarrow> bytes list \<Rightarrow> bytes list" where
  "flow_payloads k ms = map payload_of (filter (\<lambda>m. flow_of m = k) ms)"

text \<open>The events of the packets of one flow.\<close>

definition flow_events :: "u32 \<Rightarrow> bytes list \<Rightarrow> 'h stream_event list list \<Rightarrow> 'h stream_event list" where
  "flow_events k ms evs = concat (map snd (filter (\<lambda>(m, ev). flow_of m = k) (zip ms evs)))"

lemma stream_run_flow:
  "list_all capture_ok ms \<Longrightarrow> db_ok db \<Longrightarrow> unlatched st \<Longrightarrow>
    \<exists>st' evs. stream_run z db st ms = Some (st', evs) \<and> unlatched st' \<and> length evs = length ms
      \<and> (\<forall>k. eqmac_run z (decoder_slot st k) (flow_payloads k ms)
            = Some (decoder_slot st' k, decoded_of (flow_events k ms evs)))"
proof (induction ms arbitrary: st)
  case Nil
  then show ?case by (simp add: flow_payloads_def flow_events_def)
next
  case (Cons m ms)
  obtain p d' msgs st1 p1 ev where h: "udp_init m = Some p"
    "eqmac_process z (decoder_slot st (flow_of m)) (payload_of m) = Some (d', msgs)"
    "handlePacket z db st p = Some (st1, p1, ev)" "decoded_of ev = msgs"
    "st_decoders st1 = (st_decoders st)(flow_of m \<mapsto> d')" "unlatched st1"
    using handle_capture [of m db st z] Cons.prems by auto
  obtain st' evs where r: "stream_run z db st1 ms = Some (st', evs)" "unlatched st'" "length evs = length ms"
    "\<forall>k. eqmac_run z (decoder_slot st1 k) (flow_payloads k ms)
            = Some (decoder_slot st' k, decoded_of (flow_events k ms evs))"
    using Cons.IH [of st1] Cons.prems h(6) by auto
  have "eqmac_run z (decoder_slot st k) (flow_payloads k (m # ms))
            = Some (decoder_slot st' k, decoded_of (flow_events k (m # ms) (ev # evs)))" for k
  proof (cases "flow_of m = k")
    case True
    then have "decoder_slot st1 k = d'" using h(5) by (simp add: decoder_slot_def)
    then have "eqmac_run z d' (flow_payloads k ms) = Some (decoder_slot st' k, decoded_of (flow_events k ms evs))"
      using r(4) by metis
    then show ?thesis using True h(2,4) by (simp add: flow_payloads_def flow_events_def)
  next
    case False
    then have "decoder_slot st1 k = decoder_slot st k" using h(5) by (simp add: decoder_slot_def)
    then have "eqmac_run z (decoder_slot st k) (flow_payloads k ms) =
        Some (decoder_slot st' k, decoded_of (flow_events k ms evs))"
      using r(4) by metis
    then show ?thesis using False by (simp add: flow_payloads_def flow_events_def)
  qed
  then show ?case using h r by auto
qed

section \<open>Handlers\<close>






lemma scan_payloads_none:
  "\<not> list_ex (payload_fits dir ty szt) pls \<Longrightarrow> pls \<noteq> [] \<Longrightarrow>
    scan_payloads dir ty szt pls i acc = Some (i + length pls - 1)"
proof (induction pls arbitrary: i acc)
  case (Cons pl pls)
  then show ?case by (cases "pls = []") auto
qed simp






text \<open>The size a match guarantees.\<close>

lemma payload_match_size:
  "payload_match pl n dir \<Longrightarrow> pl_dir pl AND dir \<noteq> 0 \<and>
    (case pl_sizeCheckType pl of SZC_None \<Rightarrow> pl_typeSize pl \<le> 1 \<or> pl_typeSize pl \<le> n
      | SZC_Match \<Rightarrow> n = pl_typeSize pl | SZC_Modulus \<Rightarrow> pl_typeSize pl dvd n)"
  by (auto simp: payload_match_def split: EQSizeCheckType.splits)

section \<open>What the live path does to a stream\<close>

inductive live_step :: "zinflate \<Rightarrow> EQPacketOPCodeDB \<Rightarrow> 'h EQPacketStream \<Rightarrow> 'h EQPacketStream \<Rightarrow> bool"
  for z db where
  packet: "handlePacket z db st p = Some (st', p', ev) \<Longrightarrow> live_step z db st st'"
| connect: "connect2 ok db opn ty szt h st = Some (r, st') \<Longrightarrow> live_step z db st st'"
| reset: "live_step z db st (fst (stream_reset st))"
| tracking: "live_step z db st (setSessionTracking v st)"
| giveup: "live_step z db st (setArqSeqGiveUp w st)"
| key: "live_step z db st (receiveSessionKey i s k st)"
| close: "live_step z db st (fst (stream_close i s v st))"

lemma handlePacket_unlatched:
  assumes "handlePacket z db st p = Some (st', p', ev)" "unlatched st"
  shows "unlatched st'"
proof -
  have "\<not> latched_out (st\<lparr>st_packetCount := st_packetCount st + 1\<rparr>) a b c d" for a b c d
    using assms(2) by (simp add: latched_out_def unlatched_def)
  then show ?thesis using assms by (auto simp: handlePacket_def Let_def bind_Some_iff unlatched_def)
qed

lemma connect2_client_port: "connect2 ok db opn ty szt h st = Some (r, st') \<Longrightarrow> st_clientPort st' = st_clientPort st"
proof -
  assume c: "connect2 ok db opn ty szt h st = Some (r, st')"
  show ?thesis
  proof (cases "db_find_name opn db")
    case (Some p)
    then obtain oc where oc: "db_heap db p = Some oc" using c by (auto simp: connect2_def bind_Some_iff)
    show ?thesis
      by (cases "scan_payloads (st_dir st) ty szt (oc_payloads oc) 0 None")
        (use c Some oc in \<open>auto simp: connect2_def Let_def\<close>)
  qed (use c in \<open>simp add: connect2_def\<close>)
qed

lemma live_step_unlatched: "live_step z db st st' \<Longrightarrow> unlatched st \<Longrightarrow> unlatched st'"
proof (induction rule: live_step.induct)
  case (packet st p st' p' ev)
  then show ?case by (rule handlePacket_unlatched)
next
  case (connect ok opn ty szt h st r st')
  then show ?case by (simp add: connect2_client_port unlatched_def)
qed (auto simp: unlatched_def stream_reset_def resetCache_def setSessionTracking_def setArqSeqGiveUp_def
    receiveSessionKey_def stream_close_def Let_def)

lemma live_reachable_unlatched: "(live_step z db)\<^sup>*\<^sup>* st st' \<Longrightarrow> unlatched st \<Longrightarrow> unlatched st'"
  by (induction rule: rtranclp_induct) (auto dest: live_step_unlatched)

section \<open>Properties\<close>

text \<open>C2: flows are independent. Through a stream that has no latched client, any sequence of
  well-formed captures, of any number of UDP flows interleaved in any way, is handled without a
  fault, and for every flow the messages announced for its packets and the state of its decoder
  are those of one decoder that is fed the payloads of this flow alone.\<close>

theorem stream_flows_isolated:
  assumes "list_all capture_ok ms" "db_ok db" "unlatched st"
  shows "\<exists>st' evs. stream_run z db st ms = Some (st', evs) \<and>
    (\<forall>k. eqmac_run z (decoder_slot st k) (flow_payloads k ms)
       = Some (decoder_slot st' k, decoded_of (flow_events k ms evs)))"
  using stream_run_flow [OF assms] by blast

definition sample_capture :: "u8 \<Rightarrow> bytes" where
  "sample_capture port = [0x45, 0, 0, 41, 0, 0, 0, 0, 64, 17, 0, 0, 10, 0, 0, 1, 10, 0, 0, 2,
     0x1b, port, 0x30, 0x39, 0, 21, 0, 0, 2, 0, 0, 0, 0, 5, 0x12, 0x34, 9, 0, 0, 0, 0]"

theorem stream_flows_isolated_witness:
  "\<exists>st' evs. stream_run (\<lambda>_ _. None) new_EQPacketOPCodeDB (new_EQPacketStream zone2client DIR_Server 32 :: unit EQPacketStream)
      [sample_capture 88, sample_capture 99, sample_capture 88] = Some (st', evs)
    \<and> decoded_of (flow_events (tuple_key 0x1b58 0x3039) [sample_capture 88, sample_capture 99, sample_capture 88] evs)
      = [(0x1234, [9])]"
proof -
  let ?ms = "[sample_capture 88, sample_capture 99, sample_capture 88]" and ?k = "tuple_key 0x1b58 0x3039"
  let ?st = "new_EQPacketStream zone2client DIR_Server 32 :: unit EQPacketStream"
  have c: "list_all capture_ok ?ms" by code_simp
  have u: "unlatched ?st" by (simp add: unlatched_def new_EQPacketStream_def)
  have "flow_payloads ?k ?ms = [[2, 0, 0, 0, 0, 5, 0x12, 0x34, 9, 0, 0, 0, 0], [2, 0, 0, 0, 0, 5, 0x12, 0x34, 9, 0, 0, 0, 0]]"
    by code_simp
  moreover have "map_option snd (eqmac_run (\<lambda>_ _. None) new_EQMacDecoder
      [[2, 0, 0, 0, 0, 5, 0x12, 0x34, 9, 0, 0, 0, 0], [2, 0, 0, 0, 0, 5, 0x12, 0x34, 9, 0, 0, 0, 0]])
    = Some [(0x1234, [9])]" by code_simp
  moreover have "decoder_slot ?st ?k = new_EQMacDecoder" by (simp add: decoder_slot_def new_EQPacketStream_def)
  ultimately have r: "map_option snd (eqmac_run (\<lambda>_ _. None) (decoder_slot ?st ?k) (flow_payloads ?k ?ms))
      = Some [(0x1234, [9])]" by simp
  obtain st' evs where "stream_run (\<lambda>_ _. None) new_EQPacketOPCodeDB ?st ?ms = Some (st', evs)"
    "eqmac_run (\<lambda>_ _. None) (decoder_slot ?st ?k) (flow_payloads ?k ?ms)
       = Some (decoder_slot st' ?k, decoded_of (flow_events ?k ?ms evs))"
    using stream_flows_isolated [OF c db_ok_new(1) u, of "\<lambda>_ _. None"] by blast
  then show ?thesis using r by auto
qed


definition sample_opcode :: EQPacketOPCode where
  "sample_opcode = (new_EQPacketOPCode 7 ''OP_X'')\<lparr>oc_payloads :=
     [\<lparr>pl_typeName = ''xStruct'', pl_typeSize = 3, pl_sizeCheckType = SZC_Match, pl_dir = 2\<rparr>]\<rparr>"

definition sample_db :: EQPacketOPCodeDB where
  "sample_db = \<lparr>db_heap = [0 \<mapsto> sample_opcode], db_next = 1, m_opcodes = [(7, 0)],
     m_opcodesByName = [(''OP_X'', 0)]\<rparr>"


text \<open>a request that fits nothing is attached all the same. When the opcode has payload
  descriptions but none fits, connect2 does not refuse: it attaches the handler to the last
  description of the opcode, whatever its type, direction and size check.\<close>

theorem connect2_attaches_to_last_payload:
  assumes "db_find_name opn db = Some p" "db_heap db p = Some oc" "oc_payloads oc \<noteq> []"
    "\<not> list_ex (payload_fits (st_dir st) ty szt) (oc_payloads oc)" "ok h"
  shows "\<exists>st' hs. connect2 ok db opn ty szt h st = Some (True, st')
    \<and> map_of (st_dispatchers st') (p, length (oc_payloads oc) - 1) = Some (hs @ [h])"
  using scan_payloads_none [OF assms(4,3), of 0 None] assms(1,2,5)
  by (auto simp: connect2_def Let_def update_conv')

theorem connect2_attaches_to_last_payload_witness:
  "\<exists>st' hs. connect2 (\<lambda>_. True) sample_db ''OP_X'' ''otherStruct'' SZC_None ''h''
      (new_EQPacketStream zone2client 2 32) = Some (True, st')
    \<and> map_of (st_dispatchers st') (0, 0) = Some (hs @ [''h''])"
proof -
  let ?st = "new_EQPacketStream zone2client 2 32 :: string EQPacketStream"
  have "db_find_name ''OP_X'' sample_db = Some 0" "db_heap sample_db 0 = Some sample_opcode"
    "oc_payloads sample_opcode \<noteq> []"
    "\<not> list_ex (payload_fits (st_dir ?st) ''otherStruct'' SZC_None) (oc_payloads sample_opcode)"
    by (simp_all add: sample_db_def sample_opcode_def db_find_name_def payload_fits_def)
  from connect2_attaches_to_last_payload [OF this, where ok = "\<lambda>_. True" and h = "''h''"]
  show ?thesis by (simp add: sample_opcode_def)
qed

text \<open>the client latch is never set. Whatever the live path does to a new stream (packets,
  connections, resets, tracking changes, session keys, closes), the latched client port stays 0,
  so the filter that is there to keep a second session apart never rejects a packet.\<close>

theorem client_latch_never_set:
  assumes "(live_step z db)\<^sup>*\<^sup>* (new_EQPacketStream sid dir g) st"
  shows "\<not> latched_out st srcPort dstPort srcIP dstIP"
  using live_reachable_unlatched [OF assms]
  by (simp add: unlatched_def latched_out_def new_EQPacketStream_def)

theorem client_latch_never_set_witness:
  "\<not> latched_out (setSessionTracking 2 (new_EQPacketStream zone2client DIR_Server 32 :: unit EQPacketStream)) 1 2 3 4"
  by (rule client_latch_never_set [of "\<lambda>_ _. None" new_EQPacketOPCodeDB]) (blast intro: live_step.tracking)

text \<open>an IP length below the header length wraps. When the total length in the IP header is less
  than the IP and UDP headers, the payload length wraps to almost 4 GiB, and the stream hands the
  decoder a range that leaves the captured packet.\<close>

theorem short_ip_length_overruns:
  assumes "udp_init m = Some p" "ip_len m = Some t" "ip_hl m = Some h" "unat h \<le> 15"
    "unat t < unat h * 4 + 8" "length m < 2 ^ 32 - 100" "unlatched st"
  shows "2 ^ 32 - 68 \<le> unat (up_rawpayloadSize p) \<and> handlePacket z db st p = None"
proof -
  have h4: "unat (h * 4) = unat h * 4" using assms(4) by (simp add: unat_word_ariths)
  have t4: "unat (ucast t :: u32) = unat t" by (rule unat_u16_to_u32)
  have e: "ucast t - h * 4 - 8 = (ucast t :: u32) - (h * 4 + 8)" by (simp add: diff_diff_eq)
  have s8: "unat (h * 4 + 8) = unat h * 4 + 8" using h4 assms(4) by (simp add: unat_word_ariths)
  have "unat (ucast t - h * 4 - 8 :: u32) = 2 ^ 32 + unat t - (unat h * 4 + 8)"
    unfolding e using assms(5) t4 s8 unat_sub_if' [of "ucast t" "h * 4 + 8 :: u32"] by simp
  then have big: "2 ^ 32 - 68 \<le> unat (ucast t - h * 4 - 8 :: u32)" using assms(4) by simp
  have p: "up_rawpayloadSize p = ucast t - h * 4 - 8" "up_mem p = m"
    using assms(1,2,3) by (auto simp: udp_init_def Let_def bind_Some_iff split: if_splits)
  have none: "udp_payload p = None" using big p assms(6) by (simp add: udp_payload_def rd_range_def)
  have "\<not> latched_out (st\<lparr>st_packetCount := st_packetCount st + 1\<rparr>) a b c d" for a b c d
    using assms(7) by (simp add: latched_out_def unlatched_def)
  then have "handlePacket z db st p = None"
    using none by (auto simp: handlePacket_def Let_def split: Option.bind_splits)
  then show ?thesis using big p by simp
qed

definition short_capture :: bytes where
  "short_capture = [0x45, 0, 0, 5, 0, 0, 0, 0, 64, 17, 0, 0, 10, 0, 0, 1, 10, 0, 0, 2,
     0x1b, 0x58, 0x30, 0x39, 0, 21, 0, 0, 2, 0, 0, 0, 0, 5, 0x12, 0x34, 9, 0, 0, 0, 0]"

theorem short_ip_length_overruns_witness:
  "2 ^ 32 - 68 \<le> unat (up_rawpayloadSize (the (udp_init short_capture))) \<and>
   handlePacket (\<lambda>_ _. None) new_EQPacketOPCodeDB
     (new_EQPacketStream zone2client DIR_Server 32 :: unit EQPacketStream) (the (udp_init short_capture)) = None"
proof (rule short_ip_length_overruns [where m = short_capture and t = 5 and h = 5])
  have "\<exists>pr. ep_init (drop 28 short_capture) l False False = Some pr" for l
    using ep_init_total [of "drop 28 short_capture" l False] by (auto simp: short_capture_def)
  then have "udp_init short_capture \<noteq> None" if "ip_len short_capture = Some 5" "ip_hl short_capture = Some 5"
    using that by (auto simp: udp_init_def Let_def short_capture_def split: Option.bind_splits)
  moreover show l: "ip_len short_capture = Some 5" by code_simp
  moreover show h: "ip_hl short_capture = Some 5" by code_simp
  ultimately show "udp_init short_capture = Some (the (udp_init short_capture))" by simp
qed (simp_all add: short_capture_def unlatched_def new_EQPacketStream_def)

end
