(* ===== verification/OrdMap.thy ===== *)
theory OrdMap
  imports Prelude "HOL-Library.AList"
begin

text \<open>
  \<open>std::map\<close> as the code uses it: an association list with strictly ascending keys, which is its
  iteration order. \<open>om_assign\<close> is \<open>m[k] = v\<close> and \<open>om_erase\<close> is the removal of a key.
\<close>

type_synonym ('k, 'v) omap = "('k \<times> 'v) list"

fun om_assign :: "'k::linorder \<Rightarrow> 'v \<Rightarrow> ('k, 'v) omap \<Rightarrow> ('k, 'v) omap" where
  "om_assign k v [] = [(k, v)]"
| "om_assign k v ((k', v') # m) =
     (if k < k' then (k, v) # (k', v') # m
      else if k = k' then (k, v) # m
      else (k', v') # om_assign k v m)"

fun om_erase :: "'k \<Rightarrow> ('k, 'v) omap \<Rightarrow> ('k, 'v) omap" where
  "om_erase k [] = []"
| "om_erase k ((k', v') # m) = (if k = k' then m else (k', v') # om_erase k m)"

fun om_ok :: "('k::linorder, 'v) omap \<Rightarrow> bool" where
  "om_ok [] = True"
| "om_ok ((k, v) # m) = ((\<forall>x \<in> fst ` set m. k < x) \<and> om_ok m)"

lemma om_assign_keys [simp]: "fst ` set (om_assign k v m) = insert k (fst ` set m)"
  by (induction k v m rule: om_assign.induct) auto

lemma om_assign_lookup [simp]: "map_of (om_assign k v m) = (map_of m)(k \<mapsto> v)"
  by (induction k v m rule: om_assign.induct) (auto simp: fun_eq_iff)

lemma om_assign_ok [inv_intros]: "om_ok m \<Longrightarrow> om_ok (om_assign k v m)"
  by (induction k v m rule: om_assign.induct) (auto simp del: om_assign_keys simp: om_assign_keys [unfolded])

lemma om_erase_subset: "set (om_erase k m) \<subseteq> set m"
  by (induction k m rule: om_erase.induct) auto

lemma om_erase_ok [inv_intros]: "om_ok m \<Longrightarrow> om_ok (om_erase k m)"
proof (induction k m rule: om_erase.induct)
  case (2 k k' v' m)
  then show ?case using om_erase_subset [of k m] by fastforce
qed simp

lemma om_ok_notin: "om_ok ((k, v) # m) \<Longrightarrow> k \<notin> fst ` set m"
  by auto

lemma om_erase_lookup: "om_ok m \<Longrightarrow> map_of (om_erase k m) = (map_of m)(k := None)"
proof (induction k m rule: om_erase.induct)
  case (2 k k' v' m)
  then have "map_of m k' = None" using om_ok_notin by (metis map_of_eq_None_iff)
  then show ?case using 2 by (auto simp: fun_eq_iff)
qed (simp add: fun_eq_iff)

lemma om_ok_distinct: "om_ok m \<Longrightarrow> distinct (map fst m)"
  by (induction m rule: om_ok.induct) force+

lemma om_head_le: "om_ok ((k, v) # m) \<Longrightarrow> map_of ((k, v) # m) x = Some w \<Longrightarrow> k \<le> x"
  using map_of_SomeD [of m x w] by (force split: if_splits)

lemma om_tail_None: "om_ok ((k, v) # m) \<Longrightarrow> map_of m k = None"
  using om_ok_notin by (simp add: map_of_eq_None_iff)

text \<open>Two such lists with the same entries are the same list.\<close>

lemma om_ext:
  "om_ok m \<Longrightarrow> om_ok m' \<Longrightarrow> map_of m = map_of m' \<Longrightarrow> m = m'"
proof (induction m arbitrary: m' rule: om_ok.induct)
  case 1
  then show ?case by (cases m') (auto simp: fun_eq_iff split: if_splits)
next
  case (2 k v m)
  have "m' \<noteq> []"
  proof
    assume "m' = []"
    then have "map_of ((k, v) # m) k = map_of [] k" by (simp only: 2(4))
    then show False by simp
  qed
  then obtain k' v' n where m': "m' = (k', v') # n" by (cases m') auto
  have e: "map_of ((k', v') # n) = map_of ((k, v) # m)" by (simp only: 2(4) m')
  have l1: "map_of ((k', v') # n) k = Some v" unfolding e by simp
  have l2: "map_of ((k, v) # m) k' = Some v'" unfolding e [symmetric] by simp
  have "k' \<le> k" using om_head_le [OF _ l1] 2(3) m' by simp
  moreover have "k \<le> k'" using om_head_le [OF 2(2) l2] .
  ultimately have k: "k' = k" by simp
  then have v: "v' = v" using l1 by simp
  have n: "map_of m k = None" "map_of n k = None"
    using om_tail_None [OF 2(2)] om_tail_None [of k' v' n] 2(3) m' k by simp_all
  have "map_of m x = map_of n x" for x
    using fun_cong [OF e, of x] n k by (cases "x = k") simp_all
  then have "m = n" using 2(1) [of n] 2(2,3) m' by (simp add: fun_eq_iff)
  then show ?case using m' k v by simp
qed

end
