(* ===== verification/Filters.thy ===== *)
theory Filters
  imports OrdMap PacketInfo
begin

text \<open>
  \<open>src/src/filter.h\<close> and \<open>src/src/filter.cpp\<close>: filter items (a regular expression and a level
  range), the list of items of one filter type (\<open>Filter\<close>), the lists of all types with the mask
  of a spawn (\<open>Filters\<close>), the registry of types (\<open>FilterTypes\<close>) and the XML file.

  Regular expressions, the conversion of digits and the XML reader are Qt's: whether a pattern
  is valid and whether it is found in a text, \<open>toInt\<close>, \<open>toUShort\<close> and the token stream are
  parameters. A \<open>Filter\<close> is owned by its map entry and an item by its list, so both are values.
  \<open>1 << type\<close> for a type of 32 or more is undefined behaviour and \<open>None\<close>.
\<close>

section \<open>FilterItem\<close>

record re_engine =
  re_valid :: "string \<Rightarrow> bool"
  re_find :: "bool \<Rightarrow> string \<Rightarrow> string \<Rightarrow> bool"

type_synonym toInt = "string \<Rightarrow> int option"

record FilterItem =
  fi_pattern :: string
  fi_caseInsensitive :: bool
  fi_original :: string
  fi_minLevel :: u8
  fi_maxLevel :: u8

text \<open>The replacement of \<open>Name:\<close>, in any case, by \<open>Name:#?\<close>.\<close>

fun fix_pattern :: "string \<Rightarrow> string" where
  "fix_pattern [] = []"
| "fix_pattern (c # cs) =
     (if map lower_char (take 5 (c # cs)) = ''name:'' then ''Name:#?'' @ fix_pattern (drop 4 cs)
      else c # fix_pattern cs)"

definition item_init :: "string \<Rightarrow> bool \<Rightarrow> u8 \<Rightarrow> u8 \<Rightarrow> FilterItem" where
  "item_init regexString caseSensitive minLevel maxLevel =
     (let filterString = regexString in
      \<lparr>fi_pattern = fix_pattern filterString, fi_caseInsensitive = \<not> caseSensitive,
       fi_original = filterString, fi_minLevel = minLevel, fi_maxLevel = maxLevel\<rparr>)"

text \<open>The level string behind the semicolon. A number that is not ok leaves the level 0.\<close>

definition int_or_zero :: "int option \<Rightarrow> u32" where
  "int_or_zero r = (case r of None \<Rightarrow> 0 | Some level \<Rightarrow> word_of_int level)"

definition INT_MAX :: u32 where "INT_MAX = 0x7FFFFFFF"

definition parse_levels :: "toInt \<Rightarrow> string \<Rightarrow> u32 \<times> u32" where
  "parse_levels toInt levelString =
     (let (minLevel, maxLevel) =
        (case index_of (CHR ''-'') levelString of
           None \<Rightarrow> (int_or_zero (toInt levelString), 0)
         | Some b \<Rightarrow>
             let rest = drop (Suc b) levelString in
             (int_or_zero (toInt (take b levelString)),
              if rest = [] then INT_MAX else int_or_zero (toInt rest)))
      in (minLevel, if maxLevel < minLevel then minLevel else maxLevel))"

definition new_FilterItem :: "toInt \<Rightarrow> string \<Rightarrow> bool \<Rightarrow> FilterItem" where
  "new_FilterItem toInt filterPattern caseSensitive =
     (case index_of (CHR '';'') filterPattern of
        None \<Rightarrow> item_init filterPattern caseSensitive 0 0
      | Some b \<Rightarrow>
          let (minLevel, maxLevel) = parse_levels toInt (drop (Suc b) filterPattern)
          in item_init (take b filterPattern) caseSensitive (ucast minLevel) (ucast maxLevel))"

definition new_FilterItem_levels :: "string \<Rightarrow> bool \<Rightarrow> u8 \<Rightarrow> u8 \<Rightarrow> FilterItem" where
  "new_FilterItem_levels filterPattern caseSensitive minLevel maxLevel =
     item_init filterPattern caseSensitive minLevel maxLevel"

definition item_valid :: "re_engine \<Rightarrow> FilterItem \<Rightarrow> bool" where
  "item_valid re fi = re_valid re (fi_pattern fi)"

definition item_isFiltered :: "re_engine \<Rightarrow> FilterItem \<Rightarrow> string \<Rightarrow> u8 \<Rightarrow> bool" where
  "item_isFiltered re fi filterString level =
     (if \<not> re_valid re (fi_pattern fi) then False
      else if re_find re (fi_caseInsensitive fi) (fi_pattern fi) filterString
      then if fi_minLevel fi > 0 \<or> fi_maxLevel fi > 0
           then if fi_maxLevel fi \<noteq> fi_minLevel fi
                then level \<ge> fi_minLevel fi \<and> level \<le> fi_maxLevel fi
                else level = fi_minLevel fi
           else True
      else False)"

definition item_save :: "string \<Rightarrow> FilterItem \<Rightarrow> string" where
  "item_save indent fi =
     indent @ ''<oldfilter>''
     @ (if fi_pattern fi \<noteq> [] then ''<regex>'' @ fi_original fi @ ''</regex>'' else [])
     @ (if fi_minLevel fi \<noteq> 0 \<or> fi_maxLevel fi \<noteq> 0
        then ''<level''
          @ (if fi_minLevel fi \<noteq> 0 then '' min='' @ quoted (dec_string (unat (fi_minLevel fi))) else [])
          @ (if fi_maxLevel fi \<noteq> 0 then '' max='' @ quoted (dec_string (unat (fi_maxLevel fi))) else [])
          @ ''/>''
        else [])
     @ ''</oldfilter>'' @ endl"

section \<open>Filter\<close>

record Filter =
  f_items :: "FilterItem list"
  f_caseSensitive :: bool

definition new_Filter :: "bool \<Rightarrow> Filter" where
  "new_Filter caseSensitive = \<lparr>f_items = [], f_caseSensitive = caseSensitive\<rparr>"

definition filter_setCaseSensitive :: "bool \<Rightarrow> Filter \<Rightarrow> Filter" where
  "filter_setCaseSensitive cs f = f\<lparr>f_caseSensitive := cs\<rparr>"

definition filter_isFiltered :: "re_engine \<Rightarrow> Filter \<Rightarrow> string \<Rightarrow> u8 \<Rightarrow> bool" where
  "filter_isFiltered re f filterString level =
     list_ex (\<lambda>fi. item_isFiltered re fi filterString level) (f_items f)"

definition findFilter :: "string \<Rightarrow> Filter \<Rightarrow> FilterItem option" where
  "findFilter filterPattern f = find (\<lambda>fi. fi_pattern fi = filterPattern) (f_items f)"

text \<open>\<open>addFilter\<close>, with the levels in the pattern and with levels of their own.\<close>

definition filter_add_parsed :: "re_engine \<Rightarrow> toInt \<Rightarrow> string \<Rightarrow> Filter \<Rightarrow> bool \<times> Filter" where
  "filter_add_parsed re toInt filterPattern f =
     (if findFilter filterPattern f \<noteq> None then (False, f)
      else let fi = new_FilterItem toInt filterPattern (f_caseSensitive f)
           in (item_valid re fi, f\<lparr>f_items := f_items f @ [fi]\<rparr>))"

definition filter_add :: "re_engine \<Rightarrow> string \<Rightarrow> u8 \<Rightarrow> u8 \<Rightarrow> Filter \<Rightarrow> bool \<times> Filter" where
  "filter_add re filterPattern minLevel maxLevel f =
     (if findFilter filterPattern f \<noteq> None then (False, f)
      else let fi = new_FilterItem_levels filterPattern (f_caseSensitive f) minLevel maxLevel
           in (item_valid re fi, f\<lparr>f_items := f_items f @ [fi]\<rparr>))"

fun remove_item :: "string \<Rightarrow> FilterItem list \<Rightarrow> FilterItem list" where
  "remove_item filterPattern [] = []"
| "remove_item filterPattern (fi # fis) =
     (if fi_pattern fi = filterPattern then fis else fi # remove_item filterPattern fis)"

definition filter_rem :: "string \<Rightarrow> Filter \<Rightarrow> Filter" where
  "filter_rem filterPattern f = f\<lparr>f_items := remove_item filterPattern (f_items f)\<rparr>"

definition filter_save :: "string \<Rightarrow> Filter \<Rightarrow> string" where
  "filter_save indent f = concat (map (item_save (indent @ ''    '')) (f_items f))"

text \<open>The getters: an index at or beyond the end has an answer, a negative one is out of range.\<close>

definition item_at :: "int \<Rightarrow> Filter \<Rightarrow> FilterItem option" where
  "item_at i f = (if 0 \<le> i \<and> nat i < length (f_items f) then Some (f_items f ! nat i) else None)"

definition filter_get :: "'a \<Rightarrow> (FilterItem \<Rightarrow> 'a) \<Rightarrow> int \<Rightarrow> Filter \<Rightarrow> 'a option" where
  "filter_get missing get i f =
     (if i \<ge> int (length (f_items f)) then Some missing else map_option get (item_at i f))"

definition getFilterString :: "int \<Rightarrow> Filter \<Rightarrow> string option" where
  "getFilterString = filter_get [] fi_pattern"

definition getOrigFilterString :: "int \<Rightarrow> Filter \<Rightarrow> string option" where
  "getOrigFilterString = filter_get [] fi_original"

definition getMinLevel :: "int \<Rightarrow> Filter \<Rightarrow> int option" where
  "getMinLevel = filter_get (-1) (\<lambda>fi. uint (fi_minLevel fi))"

definition getMaxLevel :: "int \<Rightarrow> Filter \<Rightarrow> int option" where
  "getMaxLevel = filter_get (-1) (\<lambda>fi. uint (fi_maxLevel fi))"

section \<open>FilterTypes\<close>

record FilterTypes =
  ft_allocated :: u32
  ft_filters :: "(u32, string) omap"
  ft_maxType :: u8

definition new_FilterTypes :: FilterTypes where
  "new_FilterTypes = \<lparr>ft_allocated = 0, ft_filters = [], ft_maxType = 0\<rparr>"

definition mask_of :: "u8 \<Rightarrow> u32 option" where
  "mask_of ty = (if unat ty < 32 then Some (push_bit (unat ty) 1) else None)"

definition validMask :: "FilterTypes \<Rightarrow> u32 \<Rightarrow> bool" where
  "validMask ft msk \<longleftrightarrow> ft_allocated ft AND msk \<noteq> 0"

definition name_of_mask :: "FilterTypes \<Rightarrow> u32 \<Rightarrow> string" where
  "name_of_mask ft msk = (case map_of (ft_filters ft) msk of
     Some n \<Rightarrow> n | None \<Rightarrow> ''Unknown:'' @ dec_string (unat msk))"

definition name_of_type :: "FilterTypes \<Rightarrow> u8 \<Rightarrow> string option" where
  "name_of_type ft ty = map_option (name_of_mask ft) (mask_of ty)"

text \<open>The loop of \<open>registerType\<close> from \<open>i\<close> on; it yields the type and its mask.\<close>

function register_from :: "string \<Rightarrow> FilterTypes \<Rightarrow> nat \<Rightarrow> ((u8 \<times> u32) option \<times> FilterTypes) option" where
  "register_from name ft i =
     (if i \<le> 32
      then (case mask_of (of_nat i) of
          None \<Rightarrow> None
        | Some tmpMask \<Rightarrow>
            if ft_allocated ft AND tmpMask = 0
            then let ty = of_nat i in
                 Some (Some (ty, tmpMask),
                       ft\<lparr>ft_allocated := ft_allocated ft OR tmpMask,
                          ft_filters := om_assign tmpMask name (ft_filters ft),
                          ft_maxType := (if ty > ft_maxType ft then ty else ft_maxType ft)\<rparr>)
            else register_from name ft (Suc i))
      else Some (None, ft))"
  by pat_completeness auto
termination by (relation "measure (\<lambda>(_, _, i). 33 - i)") auto

declare register_from.simps [simp del]

definition registerType :: "string \<Rightarrow> FilterTypes \<Rightarrow> ((u8 \<times> u32) option \<times> FilterTypes) option" where
  "registerType name ft = register_from name ft 0"

text \<open>\<open>erase\<close> of an iterator that was not found is undefined.\<close>

definition unregisterType :: "u8 \<Rightarrow> FilterTypes \<Rightarrow> FilterTypes option" where
  "unregisterType ty ft = do {
     tmpMask \<leftarrow> mask_of ty;
     if ft_allocated ft AND tmpMask \<noteq> 0
     then do {
       _ \<leftarrow> map_of (ft_filters ft) tmpMask;
       Some (ft\<lparr>ft_allocated := ft_allocated ft AND NOT tmpMask,
                ft_filters := om_erase tmpMask (ft_filters ft),
                ft_maxType := (if ty = ft_maxType ft then ft_maxType ft - 1 else ft_maxType ft)\<rparr>)
     }
     else Some ft
   }"

text \<open>The search for a name. The counter is a \<open>uint8_t\<close>; it never gets to wrap, since type 32 has
  no mask.\<close>

function type_from :: "FilterTypes \<Rightarrow> string \<Rightarrow> nat \<Rightarrow> u8 option" where
  "type_from ft query i =
     (if i \<le> unat (ft_maxType ft)
      then (case name_of_type ft (of_nat i) of
          None \<Rightarrow> None
        | Some n \<Rightarrow> if n = query then Some (of_nat i) else type_from ft query (Suc i))
      else Some 255)"
  by pat_completeness auto
termination by (relation "measure (\<lambda>(ft, _, i). Suc (unat (ft_maxType ft)) - i)") auto

declare type_from.simps [simp del]

definition type_of_name :: "FilterTypes \<Rightarrow> string \<Rightarrow> u8 option" where
  "type_of_name ft query = type_from ft query 0"

function mask_from :: "FilterTypes \<Rightarrow> string \<Rightarrow> nat \<Rightarrow> u32 option" where
  "mask_from ft query i =
     (if i \<le> unat (ft_maxType ft)
      then (case name_of_type ft (of_nat i) of
          None \<Rightarrow> None
        | Some n \<Rightarrow> if n = query then mask_of (of_nat i) else mask_from ft query (Suc i))
      else Some 0)"
  by pat_completeness auto
termination by (relation "measure (\<lambda>(ft, _, i). Suc (unat (ft_maxType ft)) - i)") auto

declare mask_from.simps [simp del]

definition mask_of_name :: "FilterTypes \<Rightarrow> string \<Rightarrow> u32 option" where
  "mask_of_name ft query = mask_from ft query 0"

definition names :: "FilterTypes \<Rightarrow> u32 \<Rightarrow> string" where
  "names ft msk = concat (map (\<lambda>(k, n). if msk AND k \<noteq> 0 then n @ '':'' else []) (ft_filters ft))"

section \<open>Filters\<close>

record Filters =
  fs_file :: string
  fs_filters :: "(u32, Filter) omap"
  fs_caseSensitive :: bool

definition new_Filters :: "bool \<Rightarrow> Filters" where
  "new_Filters caseSensitive = \<lparr>fs_file = [], fs_filters = [], fs_caseSensitive = caseSensitive\<rparr>"

definition filters_clear :: "Filters \<Rightarrow> Filters" where
  "filters_clear fs = fs\<lparr>fs_filters := []\<rparr>"

definition clearType :: "u8 \<Rightarrow> Filters \<Rightarrow> Filters option" where
  "clearType ty fs = do {
     mask \<leftarrow> mask_of ty;
     Some (fs\<lparr>fs_filters := om_erase mask (fs_filters fs)\<rparr>)
   }"

text \<open>Only the filters that exist learn the new setting.\<close>

definition filters_setCaseSensitive :: "bool \<Rightarrow> Filters \<Rightarrow> Filters" where
  "filters_setCaseSensitive cs fs =
     fs\<lparr>fs_filters := map (\<lambda>(k, f). (k, filter_setCaseSensitive cs f)) (fs_filters fs)\<rparr>"

definition filterMask :: "re_engine \<Rightarrow> string \<Rightarrow> u8 \<Rightarrow> Filters \<Rightarrow> u32" where
  "filterMask re filterString level fs =
     fold (\<lambda>(k, f) mask. if filter_isFiltered re f filterString level then mask OR k else mask)
       (fs_filters fs) 0"

definition filters_add :: "re_engine \<Rightarrow> FilterTypes \<Rightarrow> u8 \<Rightarrow> string \<Rightarrow> u8 \<Rightarrow> u8 \<Rightarrow> Filters
    \<Rightarrow> (bool \<times> Filters) option" where
  "filters_add re ft ty filterPattern minLevel maxLevel fs = do {
     mask \<leftarrow> mask_of ty;
     if \<not> validMask ft mask then Some (False, fs)
     else let f = (case map_of (fs_filters fs) mask of None \<Rightarrow> new_Filter (fs_caseSensitive fs) | Some f \<Rightarrow> f);
              (ok, f') = filter_add re filterPattern minLevel maxLevel f
          in Some (ok, fs\<lparr>fs_filters := om_assign mask f' (fs_filters fs)\<rparr>)
   }"

definition filters_rem :: "FilterTypes \<Rightarrow> u8 \<Rightarrow> string \<Rightarrow> Filters \<Rightarrow> Filters option" where
  "filters_rem ft ty filterPattern fs = do {
     mask \<leftarrow> mask_of ty;
     if \<not> validMask ft mask then Some fs
     else (case map_of (fs_filters fs) mask of
             None \<Rightarrow> Some fs
           | Some f \<Rightarrow> Some (fs\<lparr>fs_filters := om_assign mask (filter_rem filterPattern f) (fs_filters fs)\<rparr>))
   }"

definition filters_get :: "'a \<Rightarrow> (Filter \<Rightarrow> 'a option) \<Rightarrow> u8 \<Rightarrow> Filters \<Rightarrow> 'a option" where
  "filters_get missing get ty fs = do {
     mask \<leftarrow> mask_of ty;
     (case map_of (fs_filters fs) mask of None \<Rightarrow> Some missing | Some f \<Rightarrow> get f)
   }"

definition numFilters :: "u8 \<Rightarrow> Filters \<Rightarrow> int option" where
  "numFilters = filters_get 0 (\<lambda>f. Some (int (length (f_items f))))"

definition filters_getFilterString :: "u8 \<Rightarrow> int \<Rightarrow> Filters \<Rightarrow> string option" where
  "filters_getFilterString ty i = filters_get [] (getFilterString i) ty"

definition filters_getOrigFilterString :: "u8 \<Rightarrow> int \<Rightarrow> Filters \<Rightarrow> string option" where
  "filters_getOrigFilterString ty i = filters_get [] (getOrigFilterString i) ty"

definition filters_getMinLevel :: "u8 \<Rightarrow> int \<Rightarrow> Filters \<Rightarrow> int option" where
  "filters_getMinLevel ty i = filters_get (-1) (getMinLevel i) ty"

definition filters_getMaxLevel :: "u8 \<Rightarrow> int \<Rightarrow> Filters \<Rightarrow> int option" where
  "filters_getMaxLevel ty i = filters_get (-1) (getMaxLevel i) ty"

section \<open>The filter file\<close>

text \<open>The tokens of \<open>QXmlStreamReader\<close>. \<open>FOther\<close> stands for those the loop ignores.\<close>

datatype filter_token =
    FStartDocument
  | FEndDocument
  | FStartElement string "(string \<times> string) list"
  | FEndElement string
  | FCharacters string
  | FInvalid
  | FOther

record LoadXmlContentHandler =
  h_currentType :: u8
  h_currentFilterPattern :: string
  h_currentMinLevel :: u8
  h_currentMaxLevel :: u8
  h_inRegex :: bool

definition startDocument :: "LoadXmlContentHandler \<Rightarrow> LoadXmlContentHandler" where
  "startDocument h = h\<lparr>h_currentType := 255, h_currentFilterPattern := [], h_currentMinLevel := 0,
     h_currentMaxLevel := 0, h_inRegex := False\<rparr>"

text \<open>The value of an attribute, empty when it is missing, and \<open>uint8_t(value.toUShort())\<close>.\<close>

definition attr_value :: "string \<Rightarrow> (string \<times> string) list \<Rightarrow> string" where
  "attr_value n attr = (case map_of attr n of None \<Rightarrow> [] | Some v \<Rightarrow> v)"

definition level_value :: "toUShort \<Rightarrow> string \<Rightarrow> u8" where
  "level_value toUShort v = (case toUShort 10 v of None \<Rightarrow> 0 | Some w \<Rightarrow> ucast w)"

definition startElement :: "toUShort \<Rightarrow> FilterTypes \<Rightarrow> string \<Rightarrow> (string \<times> string) list \<Rightarrow> LoadXmlContentHandler
    \<Rightarrow> (bool \<times> LoadXmlContentHandler) option" where
  "startElement toUShort ft name attr h =
     (if name = ''oldfilter''
      then Some (True, h\<lparr>h_currentFilterPattern := [], h_currentMinLevel := 0, h_currentMaxLevel := 0\<rparr>)
      else if name = ''regex'' then Some (True, h\<lparr>h_inRegex := True\<rparr>)
      else if name = ''level''
      then let h1 = (if attr_value ''min'' attr \<noteq> []
                     then h\<lparr>h_currentMinLevel := level_value toUShort (attr_value ''min'' attr)\<rparr> else h);
               h2 = (if attr_value ''max'' attr \<noteq> []
                     then h1\<lparr>h_currentMaxLevel := level_value toUShort (attr_value ''max'' attr)\<rparr> else h1)
           in Some (True, h2)
      else if name = ''section''
      then (if attr_value ''name'' attr = [] then Some (False, h)
            else do { ty \<leftarrow> type_of_name ft (attr_value ''name'' attr); Some (True, h\<lparr>h_currentType := ty\<rparr>) })
      else Some (True, h))"

definition characters :: "string \<Rightarrow> LoadXmlContentHandler \<Rightarrow> LoadXmlContentHandler" where
  "characters ch h = (if h_inRegex h then h\<lparr>h_currentFilterPattern := ch\<rparr> else h)"

definition endElement :: "re_engine \<Rightarrow> FilterTypes \<Rightarrow> string \<Rightarrow> LoadXmlContentHandler \<Rightarrow> Filters
    \<Rightarrow> (LoadXmlContentHandler \<times> Filters) option" where
  "endElement re ft name h fs =
     (let h1 = (if name = ''regex'' then h\<lparr>h_inRegex := False\<rparr> else h) in
      if name = ''oldfilter''
      then (if h_currentType h1 \<le> ft_maxType ft
            then do {
              (_, fs1) \<leftarrow> filters_add re ft (h_currentType h1) (h_currentFilterPattern h1)
                            (h_currentMinLevel h1) (h_currentMaxLevel h1) fs;
              Some (h1, fs1)
            }
            else Some (h1, fs))
      else if name = ''section'' then Some (h1\<lparr>h_currentType := 255\<rparr>, fs)
      else Some (h1, fs))"

text \<open>One token: whether the loop goes on, the handler and the filters.\<close>

fun load_step :: "re_engine \<Rightarrow> toUShort \<Rightarrow> FilterTypes \<Rightarrow> filter_token \<Rightarrow> LoadXmlContentHandler \<Rightarrow> Filters
    \<Rightarrow> (bool \<times> LoadXmlContentHandler \<times> Filters) option" where
  "load_step re toUShort ft FStartDocument h fs = Some (True, startDocument h, fs)"
| "load_step re toUShort ft FEndDocument h fs = Some (True, h, fs)"
| "load_step re toUShort ft (FStartElement name attr) h fs =
     do { (ok, h1) \<leftarrow> startElement toUShort ft name attr h; Some (ok, h1, fs) }"
| "load_step re toUShort ft (FEndElement name) h fs =
     do { (h1, fs1) \<leftarrow> endElement re ft name h fs; Some (True, h1, fs1) }"
| "load_step re toUShort ft (FCharacters ch) h fs = Some (True, characters ch h, fs)"
| "load_step re toUShort ft FInvalid h fs = Some (False, h, fs)"
| "load_step re toUShort ft FOther h fs = Some (True, h, fs)"

fun load_tokens :: "re_engine \<Rightarrow> toUShort \<Rightarrow> FilterTypes \<Rightarrow> filter_token list \<Rightarrow> LoadXmlContentHandler
    \<Rightarrow> Filters \<Rightarrow> (bool \<times> Filters) option" where
  "load_tokens re toUShort ft [] h fs = Some (True, fs)"
| "load_tokens re toUShort ft (t # ts) h fs = do {
     (status, h1, fs1) \<leftarrow> load_step re toUShort ft t h fs;
     if status then load_tokens re toUShort ft ts h1 fs1 else Some (False, fs1)
   }"

text \<open>\<open>open_file\<close> is the token stream of a file that can be opened, \<open>h0\<close> the handler as its
  constructor leaves it: without values.\<close>

definition filters_load :: "re_engine \<Rightarrow> toUShort \<Rightarrow> (string \<Rightarrow> filter_token list option) \<Rightarrow> LoadXmlContentHandler
    \<Rightarrow> FilterTypes \<Rightarrow> string \<Rightarrow> Filters \<Rightarrow> (bool \<times> Filters) option" where
  "filters_load re toUShort open_file h0 ft filename fs =
     (let fs1 = (filters_clear fs)\<lparr>fs_file := filename\<rparr> in
      if filename = [] then Some (False, fs1)
      else (case open_file filename of
              None \<Rightarrow> Some (False, fs1)
            | Some tokens \<Rightarrow> load_tokens re toUShort ft tokens h0 fs1))"

text \<open>The text that \<open>save\<close> writes.\<close>

definition filters_save :: "FilterTypes \<Rightarrow> Filters \<Rightarrow> string" where
  "filters_save ft fs =
     ''<?xml version='' @ quoted ''1.0'' @ '' encoding='' @ quoted ''UTF-8'' @ ''?>'' @ endl
     @ ''<!DOCTYPE seqfilters SYSTEM '' @ quoted ''seqfilters.dtd'' @ ''>'' @ endl
     @ ''<seqfilters>'' @ endl
     @ concat (map (\<lambda>(k, f). ''    <section name='' @ quoted (name_of_mask ft k) @ ''>'' @ endl
          @ filter_save ''    '' f @ ''    </section>'' @ endl) (fs_filters fs))
     @ ''</seqfilters>'' @ endl"

end
