(* ===== verification/FilterMgr.thy ===== *)
theory FilterMgr
  imports Filters
begin

text \<open>
  \<open>src/src/filtermgr.h\<close> and \<open>src/src/filtermgr.cpp\<close>: the global filters, the filters of the zone
  and the filters registered at run time. The search for files is the data location manager's and
  the file system's, so it is a parameter, with the regular expressions and the XML reader. The
  signals are a list of events. Logging is left out.
\<close>

record filter_env =
  fe_re :: re_engine
  fe_toUShort :: toUShort
  fe_open :: "string \<Rightarrow> filter_token list option"
  fe_handler :: LoadXmlContentHandler
  fe_findExisting :: "string \<Rightarrow> string"
  fe_findWrite :: "string \<Rightarrow> string"
  fe_fileName :: "string \<Rightarrow> string"

datatype filter_event = FiltersChanged | RuntimeFiltersChanged u8

record FilterMgr =
  fm_types :: FilterTypes
  fm_filterFile :: string
  fm_filters :: Filters
  fm_zoneFilterFile :: string
  fm_zoneFilters :: Filters
  fm_runtimeTypes :: FilterTypes
  fm_runtimeFilters :: Filters
  fm_caseSensitive :: bool

definition FILTER_TYPE_TABLE :: "string list" where
  "FILTER_TYPE_TABLE = [''Hunt'', ''Caution'', ''Danger'', ''Locate'', ''Alert'', ''Filtered'', ''Tracer'']"

definition SIZEOF_FILTERS :: u8 where "SIZEOF_FILTERS = 7"

fun register_all :: "string list \<Rightarrow> FilterTypes \<Rightarrow> FilterTypes option" where
  "register_all [] ft = Some ft"
| "register_all (n # ns) ft = do { (_, ft1) \<leftarrow> registerType n ft; register_all ns ft1 }"

section \<open>Loading and saving\<close>

definition env_load :: "filter_env \<Rightarrow> FilterTypes \<Rightarrow> string \<Rightarrow> Filters \<Rightarrow> Filters option" where
  "env_load env ft file fs =
     map_option snd (filters_load (fe_re env) (fe_toUShort env) (fe_open env) (fe_handler env) ft file fs)"

definition loadFilters_file :: "filter_env \<Rightarrow> string \<Rightarrow> FilterMgr \<Rightarrow> (FilterMgr \<times> filter_event list) option" where
  "loadFilters_file env fileName fm = do {
     let file = fe_findExisting env fileName;
     fs \<leftarrow> env_load env (fm_types fm) file (fm_filters fm);
     Some (fm\<lparr>fm_filterFile := file, fm_filters := fs\<rparr>, [FiltersChanged])
   }"

definition loadFilters :: "filter_env \<Rightarrow> FilterMgr \<Rightarrow> (FilterMgr \<times> filter_event list) option" where
  "loadFilters env fm = loadFilters_file env (fe_fileName env (fm_filterFile fm)) fm"

definition loadZone_file :: "filter_env \<Rightarrow> string \<Rightarrow> FilterMgr \<Rightarrow> (FilterMgr \<times> filter_event list) option" where
  "loadZone_file env fileName fm = do {
     let file = fe_findExisting env fileName;
     fs \<leftarrow> env_load env (fm_types fm) file (fm_zoneFilters fm);
     Some (fm\<lparr>fm_zoneFilterFile := file, fm_zoneFilters := fs\<rparr>, [FiltersChanged])
   }"

definition loadZone :: "filter_env \<Rightarrow> string \<Rightarrow> FilterMgr \<Rightarrow> (FilterMgr \<times> filter_event list) option" where
  "loadZone env shortZoneName fm = loadZone_file env (shortZoneName @ ''.xml'') fm"

definition loadZoneFilters :: "filter_env \<Rightarrow> FilterMgr \<Rightarrow> (FilterMgr \<times> filter_event list) option" where
  "loadZoneFilters env fm = loadZone_file env (fe_fileName env (fm_zoneFilterFile fm)) fm"

text \<open>Saving yields the file and the text to write to it.\<close>

definition saveFilters :: "filter_env \<Rightarrow> FilterMgr \<Rightarrow> FilterMgr \<times> string \<times> string" where
  "saveFilters env fm =
     (let file = fe_findWrite env (fe_fileName env (fm_filterFile fm))
      in (fm\<lparr>fm_filterFile := file\<rparr>, file, filters_save (fm_types fm) (fm_filters fm)))"

definition saveZoneFilters :: "filter_env \<Rightarrow> FilterMgr \<Rightarrow> FilterMgr \<times> string \<times> string" where
  "saveZoneFilters env fm =
     (let file = fe_findWrite env (fe_fileName env (fm_zoneFilterFile fm))
      in (fm\<lparr>fm_zoneFilterFile := file\<rparr>, file, filters_save (fm_types fm) (fm_zoneFilters fm)))"

definition new_FilterMgr :: "filter_env \<Rightarrow> string \<Rightarrow> bool \<Rightarrow> FilterMgr option" where
  "new_FilterMgr env filterFile spawnfilter_case = do {
     types \<leftarrow> register_all FILTER_TYPE_TABLE new_FilterTypes;
     let fm0 = \<lparr>fm_types = types, fm_filterFile = [], fm_filters = new_Filters spawnfilter_case,
                fm_zoneFilterFile = [], fm_zoneFilters = new_Filters spawnfilter_case,
                fm_runtimeTypes = new_FilterTypes, fm_runtimeFilters = new_Filters spawnfilter_case,
                fm_caseSensitive = spawnfilter_case\<rparr>;
     (fm1, _) \<leftarrow> loadFilters_file env filterFile fm0;
     (fm2, _) \<leftarrow> loadZone env ''unknown'' fm1;
     Some fm2
   }"

section \<open>Operations\<close>

definition setCaseSensitive :: "bool \<Rightarrow> FilterMgr \<Rightarrow> FilterMgr" where
  "setCaseSensitive cs fm = fm\<lparr>fm_caseSensitive := cs,
     fm_filters := filters_setCaseSensitive cs (fm_filters fm),
     fm_zoneFilters := filters_setCaseSensitive cs (fm_zoneFilters fm),
     fm_runtimeFilters := filters_setCaseSensitive cs (fm_runtimeFilters fm)\<rparr>"

definition mgr_filterMask :: "re_engine \<Rightarrow> string \<Rightarrow> u8 \<Rightarrow> FilterMgr \<Rightarrow> u32" where
  "mgr_filterMask re filterString level fm =
     filterMask re filterString level (fm_filters fm) OR filterMask re filterString level (fm_zoneFilters fm)"

definition filterString :: "u32 \<Rightarrow> FilterMgr \<Rightarrow> string" where
  "filterString msk fm = names (fm_types fm) msk"

definition filterName :: "u8 \<Rightarrow> FilterMgr \<Rightarrow> string option" where
  "filterName ty fm = name_of_type (fm_types fm) ty"

definition mgr_addFilter :: "filter_env \<Rightarrow> u8 \<Rightarrow> string \<Rightarrow> FilterMgr \<Rightarrow> (bool \<times> FilterMgr \<times> filter_event list) option"
where
  "mgr_addFilter env ty pat fm =
     (if ty \<ge> SIZEOF_FILTERS then Some (False, fm, [])
      else do {
        (ok, fs) \<leftarrow> filters_add (fe_re env) (fm_types fm) ty pat 0 0 (fm_filters fm);
        Some (ok, fm\<lparr>fm_filters := fs\<rparr>, [FiltersChanged])
      })"

definition mgr_remFilter :: "u8 \<Rightarrow> string \<Rightarrow> FilterMgr \<Rightarrow> (FilterMgr \<times> filter_event list) option" where
  "mgr_remFilter ty pat fm =
     (if ty \<ge> SIZEOF_FILTERS then Some (fm, [])
      else do {
        fs \<leftarrow> filters_rem (fm_types fm) ty pat (fm_filters fm);
        Some (fm\<lparr>fm_filters := fs\<rparr>, [FiltersChanged])
      })"

definition addZoneFilter :: "filter_env \<Rightarrow> u8 \<Rightarrow> string \<Rightarrow> FilterMgr \<Rightarrow> (bool \<times> FilterMgr \<times> filter_event list) option"
where
  "addZoneFilter env ty pat fm =
     (if ty \<ge> SIZEOF_FILTERS then Some (False, fm, [])
      else do {
        (ok, fs) \<leftarrow> filters_add (fe_re env) (fm_types fm) ty pat 0 0 (fm_zoneFilters fm);
        Some (ok, fm\<lparr>fm_zoneFilters := fs\<rparr>, [FiltersChanged])
      })"

definition remZoneFilter :: "u8 \<Rightarrow> string \<Rightarrow> FilterMgr \<Rightarrow> (FilterMgr \<times> filter_event list) option" where
  "remZoneFilter ty pat fm =
     (if ty \<ge> SIZEOF_FILTERS then Some (fm, [])
      else do {
        fs \<leftarrow> filters_rem (fm_types fm) ty pat (fm_zoneFilters fm);
        Some (fm\<lparr>fm_zoneFilters := fs\<rparr>, [FiltersChanged])
      })"

definition editFilter :: "filter_env \<Rightarrow> u8 \<Rightarrow> string \<Rightarrow> string \<Rightarrow> FilterMgr
    \<Rightarrow> (bool \<times> FilterMgr \<times> filter_event list) option" where
  "editFilter env ty oldPattern newPattern fm =
     (if ty \<ge> SIZEOF_FILTERS then Some (False, fm, [])
      else do {
        fs1 \<leftarrow> filters_rem (fm_types fm) ty oldPattern (fm_filters fm);
        (ok, fs2) \<leftarrow> filters_add (fe_re env) (fm_types fm) ty newPattern 0 0 fs1;
        Some (ok, fm\<lparr>fm_filters := fs2\<rparr>, [FiltersChanged])
      })"

definition editZoneFilter :: "filter_env \<Rightarrow> u8 \<Rightarrow> string \<Rightarrow> string \<Rightarrow> FilterMgr
    \<Rightarrow> (bool \<times> FilterMgr \<times> filter_event list) option" where
  "editZoneFilter env ty oldPattern newPattern fm =
     (if ty \<ge> SIZEOF_FILTERS then Some (False, fm, [])
      else do {
        fs1 \<leftarrow> filters_rem (fm_types fm) ty oldPattern (fm_zoneFilters fm);
        (ok, fs2) \<leftarrow> filters_add (fe_re env) (fm_types fm) ty newPattern 0 0 fs1;
        Some (ok, fm\<lparr>fm_zoneFilters := fs2\<rparr>, [FiltersChanged])
      })"

section \<open>Filters registered at run time\<close>

definition registerRuntimeFilter :: "string \<Rightarrow> FilterMgr \<Rightarrow> ((u8 \<times> u32) option \<times> FilterMgr) option" where
  "registerRuntimeFilter name fm = do {
     (r, ft) \<leftarrow> registerType name (fm_runtimeTypes fm);
     Some (r, fm\<lparr>fm_runtimeTypes := ft\<rparr>)
   }"

definition unregisterRuntimeFilter :: "u8 \<Rightarrow> FilterMgr \<Rightarrow> FilterMgr option" where
  "unregisterRuntimeFilter ty fm = do {
     fs \<leftarrow> clearType ty (fm_runtimeFilters fm);
     ft \<leftarrow> unregisterType ty (fm_runtimeTypes fm);
     Some (fm\<lparr>fm_runtimeFilters := fs, fm_runtimeTypes := ft\<rparr>)
   }"

definition runtimeFilterMask :: "re_engine \<Rightarrow> string \<Rightarrow> u8 \<Rightarrow> FilterMgr \<Rightarrow> u32" where
  "runtimeFilterMask re str level fm = filterMask re str level (fm_runtimeFilters fm)"

definition runtimeFilterString :: "u32 \<Rightarrow> FilterMgr \<Rightarrow> string" where
  "runtimeFilterString msk fm = names (fm_runtimeTypes fm) msk"

definition runtimeFilterAddFilter :: "re_engine \<Rightarrow> u8 \<Rightarrow> string \<Rightarrow> FilterMgr \<Rightarrow> (bool \<times> FilterMgr) option" where
  "runtimeFilterAddFilter re ty pat fm = do {
     (ok, fs) \<leftarrow> filters_add re (fm_runtimeTypes fm) ty pat 0 0 (fm_runtimeFilters fm);
     Some (ok, fm\<lparr>fm_runtimeFilters := fs\<rparr>)
   }"

definition runtimeFilterRemFilter :: "u8 \<Rightarrow> string \<Rightarrow> FilterMgr \<Rightarrow> FilterMgr option" where
  "runtimeFilterRemFilter ty pat fm = do {
     fs \<leftarrow> filters_rem (fm_runtimeTypes fm) ty pat (fm_runtimeFilters fm);
     Some (fm\<lparr>fm_runtimeFilters := fs\<rparr>)
   }"

definition runtimeFilterCommit :: "u8 \<Rightarrow> FilterMgr \<Rightarrow> FilterMgr \<times> filter_event list" where
  "runtimeFilterCommit ty fm = (fm, [RuntimeFiltersChanged ty])"

end
