(* ===== verification/SlotTable.thy ===== *)
theory SlotTable
  imports Prelude
begin

text \<open>
  The contract of a table with a fixed number of slots whose insertion takes the lowest free slot.
  Three parts of the program keep such a table: the filter types, the message filters and the
  members of the group. The consequences are proved once, from the contract.
\<close>

fun put_all :: "('v \<Rightarrow> 's \<Rightarrow> (nat \<times> 's) option) \<Rightarrow> 'v list \<Rightarrow> 's \<Rightarrow> (nat list \<times> 's) option" where
  "put_all put [] s = Some ([], s)"
| "put_all put (v # vs) s = do {
     (n, s1) \<leftarrow> put v s;
     (ns, s2) \<leftarrow> put_all put vs s1;
     Some (n # ns, s2)
   }"

locale slot_table =
  fixes get :: "'s \<Rightarrow> nat \<Rightarrow> 'v option"
    and put :: "'v \<Rightarrow> 's \<Rightarrow> (nat \<times> 's) option"
    and cap :: nat
    and good :: "'s \<Rightarrow> bool"
    and storable :: "'v \<Rightarrow> bool"
  assumes put_free: "good s \<Longrightarrow> storable v \<Longrightarrow> n < cap \<Longrightarrow> get s n = None \<Longrightarrow> (\<forall>i<n. get s i \<noteq> None) \<Longrightarrow>
      \<exists>s'. put v s = Some (n, s') \<and> good s' \<and> get s' = (get s)(n \<mapsto> v)"
    and put_full: "good s \<Longrightarrow> storable v \<Longrightarrow> (\<forall>i<cap. get s i \<noteq> None) \<Longrightarrow> put v s = None"
begin

lemma put_cases:
  assumes "good s" "storable v"
  obtains (full) "\<forall>i<cap. get s i \<noteq> None" "put v s = None"
  | (free) n s' where "n < cap" "get s n = None" "\<forall>i<n. get s i \<noteq> None" "put v s = Some (n, s')"
      "good s'" "get s' = (get s)(n \<mapsto> v)"
proof (cases "\<exists>n<cap. get s n = None")
  case True
  define n where "n = (LEAST n. n < cap \<and> get s n = None)"
  have n: "n < cap" "get s n = None" using LeastI_ex [of "\<lambda>n. n < cap \<and> get s n = None"] True
    by (auto simp: n_def)
  have "get s i \<noteq> None" if "i < n" for i
    using not_less_Least [of i "\<lambda>n. n < cap \<and> get s n = None"] that n(1) by (auto simp: n_def)
  then show thesis using put_free [OF assms n] free n by auto
next
  case False
  then show thesis using put_full [OF assms] full by auto
qed

lemma put_Some:
  assumes "good s" "storable v" "put v s = Some (n, s')"
  shows "n < cap \<and> get s n = None \<and> good s' \<and> get s' = (get s)(n \<mapsto> v)"
  using assms(3) by (rule_tac put_cases [OF assms(1,2)]) auto

text \<open>A table whose first \<open>k\<close> slots are taken is filled in order.\<close>

lemma fill_from:
  "good s \<Longrightarrow> list_all storable vs \<Longrightarrow> (\<forall>i<k. get s i \<noteq> None) \<Longrightarrow> (\<forall>i\<ge>k. get s i = None) \<Longrightarrow>
    k + length vs \<le> cap \<Longrightarrow>
    \<exists>s'. put_all put vs s = Some ([k..<k + length vs], s') \<and> good s'
      \<and> (\<forall>i. get s' i = (if k \<le> i \<and> i < k + length vs then Some (vs ! (i - k)) else get s i))"
proof (induction vs arbitrary: s k)
  case (Cons v vs)
  then obtain s1 where s1: "put v s = Some (k, s1)" "good s1" "get s1 = (get s)(k \<mapsto> v)"
    using put_free [of s v k] by auto
  have "\<forall>i<Suc k. get s1 i \<noteq> None" "\<forall>i\<ge>Suc k. get s1 i = None"
    using Cons.prems s1 by (auto simp: less_Suc_eq)
  then obtain s' where s': "put_all put vs s1 = Some ([Suc k..<Suc k + length vs], s')" "good s'"
    "\<forall>i. get s' i = (if Suc k \<le> i \<and> i < Suc k + length vs then Some (vs ! (i - Suc k)) else get s1 i)"
    using Cons.IH [of s1 "Suc k"] Cons.prems s1 by auto
  have "[k..<k + length (v # vs)] = k # [Suc k..<Suc k + length vs]" by (simp add: upt_rec)
  moreover have "get s' i = (if k \<le> i \<and> i < k + length (v # vs) then Some ((v # vs) ! (i - k)) else get s i)" for i
    using s'(3) s1(3) by (cases "i = k") (auto simp: Suc_diff_le nth_Cons')
  ultimately show ?case using s1 s' by simp
qed simp

lemma fill:
  assumes "good s" "list_all storable vs" "\<forall>i. get s i = None" "length vs \<le> cap"
  shows "\<exists>s'. put_all put vs s = Some ([0..<length vs], s') \<and> good s'
    \<and> (\<forall>i. get s' i = (if i < length vs then Some (vs ! i) else None))"
proof -
  obtain s' where "put_all put vs s = Some ([0..<length vs], s')" "good s'"
    "\<forall>i. get s' i = (if i < length vs then Some (vs ! i) else get s i)"
    using fill_from [of s vs 0] assms by auto
  then show ?thesis using assms(3) by (intro exI [of _ s']) auto
qed

end

end
