(* ===== verification/FilterTypesProps.thy ===== *)
theory FilterTypesProps
  imports FilterMgr SlotTable
begin

text \<open>
  The registry of filter types is a table of 32 slots whose entries are names: registration takes
  the lowest free type and a type is found again by its name.
\<close>

section \<open>Masks\<close>

lemma mask_of_Some: "t < 32 \<Longrightarrow> mask_of (of_nat t) = Some (2 ^ t)"
  by (simp add: mask_of_def unat_of_nat)

lemma mask_of_cases: "mask_of ty = (if unat ty < 32 then Some (2 ^ unat ty) else None)"
  by (simp add: mask_of_def)

lemma bit_mask: "t < 32 \<Longrightarrow> bit (2 ^ t :: u32) n \<longleftrightarrow> n = t"
  by (auto simp: bit_simps)

lemma and_mask:
  assumes "t < 32"
  shows "(w :: u32) AND 2 ^ t = 0 \<longleftrightarrow> \<not> bit w t"
proof -
  have "bit (w AND 2 ^ t) n \<longleftrightarrow> bit w t \<and> n = t" for n using assms by (auto simp: bit_and_iff bit_mask)
  then show ?thesis using assms by (auto simp: bit_eq_iff [of "w AND 2 ^ t"])
qed

lemma mask_eq_iff: "t < 32 \<Longrightarrow> t' < 32 \<Longrightarrow> (2 :: u32) ^ t = 2 ^ t' \<longleftrightarrow> t = t'"
  by (metis bit_mask)

lemma u8_of_nat: "t < 256 \<Longrightarrow> unat (of_nat t :: u8) = t"
  by (simp add: unat_of_nat)

section \<open>The registry as a table\<close>

definition type_name :: "FilterTypes \<Rightarrow> nat \<Rightarrow> string option" where
  "type_name ft t = (if t < 32 then map_of (ft_filters ft) (2 ^ t) else None)"

definition types_ok :: "FilterTypes \<Rightarrow> bool" where
  "types_ok ft \<longleftrightarrow> om_ok (ft_filters ft)
     \<and> (\<forall>m. map_of (ft_filters ft) m \<noteq> None \<longrightarrow> (\<exists>t<32. m = 2 ^ t))
     \<and> (\<forall>t<32. bit (ft_allocated ft) t \<longleftrightarrow> type_name ft t \<noteq> None)
     \<and> (\<forall>t. type_name ft t \<noteq> None \<longrightarrow> t \<le> unat (ft_maxType ft))"

lemma types_ok_new: "types_ok new_FilterTypes"
  by (simp add: types_ok_def new_FilterTypes_def type_name_def)

lemma types_okD:
  assumes "types_ok ft"
  shows "om_ok (ft_filters ft)" "t < 32 \<Longrightarrow> bit (ft_allocated ft) t \<longleftrightarrow> type_name ft t \<noteq> None"
    "type_name ft t = Some n \<Longrightarrow> t < 32 \<and> t \<le> unat (ft_maxType ft)"
    "map_of (ft_filters ft) m = Some n \<Longrightarrow> \<exists>t<32. m = 2 ^ t \<and> type_name ft t = Some n"
  using assms by (auto simp: types_ok_def type_name_def split: if_splits)

text \<open>The registry after registering \<open>name\<close> as type \<open>n\<close>.\<close>

definition add_type :: "nat \<Rightarrow> string \<Rightarrow> FilterTypes \<Rightarrow> FilterTypes" where
  "add_type n name ft =
     ft\<lparr>ft_allocated := ft_allocated ft OR 2 ^ n,
        ft_filters := om_assign (2 ^ n) name (ft_filters ft),
        ft_maxType := (if of_nat n > ft_maxType ft then of_nat n else ft_maxType ft)\<rparr>"

lemma type_name_add: "n < 32 \<Longrightarrow> type_name (add_type n name ft) = (type_name ft)(n \<mapsto> name)"
  by (auto simp: fun_eq_iff type_name_def add_type_def mask_eq_iff)

lemma types_ok_add [inv_intros]:
  assumes ok: "types_ok ft" and n: "n < 32"
  shows "types_ok (add_type n name ft)"
  unfolding types_ok_def
proof (intro conjI allI impI)
  show "om_ok (ft_filters (add_type n name ft))"
    using types_okD(1) [OF ok] by (simp add: add_type_def om_assign_ok)
next
  fix m assume "map_of (ft_filters (add_type n name ft)) m \<noteq> None"
  then show "\<exists>t<32. m = 2 ^ t"
    using types_okD(4) [OF ok, of m] n by (cases "m = 2 ^ n") (auto simp: add_type_def)
next
  fix t :: nat assume t: "t < 32"
  have "bit (ft_allocated (add_type n name ft)) t \<longleftrightarrow> bit (ft_allocated ft) t \<or> t = n"
    using t n by (simp add: add_type_def bit_or_iff bit_mask)
  then show "bit (ft_allocated (add_type n name ft)) t \<longleftrightarrow> type_name (add_type n name ft) t \<noteq> None"
    using types_okD(2) [OF ok t] type_name_add [OF n, of name ft] by auto
next
  fix t assume t: "type_name (add_type n name ft) t \<noteq> None"
  have m: "unat (ft_maxType (add_type n name ft)) = max n (unat (ft_maxType ft))"
    using n u8_of_nat [of n] by (auto simp: add_type_def word_less_nat_alt)
  show "t \<le> unat (ft_maxType (add_type n name ft))"
    using t types_okD(3) [OF ok, of t] m by (cases "t = n") (auto simp: type_name_add [OF n])
qed

lemma register_from_used:
  assumes "\<forall>i. k \<le> i \<and> i < n \<longrightarrow> bit (ft_allocated ft) i" "k \<le> n" "n \<le> 32"
  shows "register_from name ft k = register_from name ft n"
  using assms
proof (induction "n - k" arbitrary: k)
  case (Suc d)
  then have k: "k < 32" "bit (ft_allocated ft) k" "k < n" by auto
  then have "register_from name ft k = register_from name ft (Suc k)"
    by (subst register_from.simps) (simp add: mask_of_Some and_mask)
  also have "\<dots> = register_from name ft n" using Suc k by auto
  finally show ?case .
qed simp

lemma register_free:
  assumes ok: "types_ok ft" and n: "n < 32" "type_name ft n = None" "\<forall>i<n. type_name ft i \<noteq> None"
  shows "registerType name ft = Some (Some (of_nat n, 2 ^ n), add_type n name ft)"
proof -
  have "bit (ft_allocated ft) i" if "i < n" for i using types_okD(2) [OF ok, of i] n that by simp
  moreover have "\<not> bit (ft_allocated ft) n" using types_okD(2) [OF ok n(1)] n(2) by simp
  ultimately show ?thesis
    using n(1) register_from_used [of 0 n ft name]
    by (simp add: registerType_def register_from.simps [of name ft n] mask_of_Some and_mask add_type_def Let_def)
qed

lemma register_full:
  assumes ok: "types_ok ft" and n: "\<forall>i<32. type_name ft i \<noteq> None"
  shows "registerType name ft = None"
proof -
  have "bit (ft_allocated ft) i" if "i < 32" for i using types_okD(2) [OF ok that] n that by simp
  moreover have "mask_of 32 = None" by (simp add: mask_of_def)
  ultimately show ?thesis using register_from_used [of 0 32 ft name]
    by (simp add: registerType_def register_from.simps [of name ft 32])
qed

definition put_type :: "string \<Rightarrow> FilterTypes \<Rightarrow> (nat \<times> FilterTypes) option" where
  "put_type name ft = (case registerType name ft of
     Some (Some (ty, _), ft') \<Rightarrow> Some (unat ty, ft') | _ \<Rightarrow> None)"

interpretation types: slot_table type_name put_type 32 types_ok "\<lambda>_. True"
proof unfold_locales
  fix ft name n assume a: "types_ok ft" "n < 32" "type_name ft n = None" "\<forall>i<n. type_name ft i \<noteq> None"
  then show "\<exists>s'. put_type name ft = Some (n, s') \<and> types_ok s' \<and> type_name s' = (type_name ft)(n \<mapsto> name)"
    using u8_of_nat [of n]
    by (intro exI [of _ "add_type n name ft"])
      (simp add: put_type_def register_free types_ok_add type_name_add)
next
  fix ft name assume "types_ok ft" "\<forall>i<32. type_name ft i \<noteq> None"
  then show "put_type name ft = None" by (simp add: put_type_def register_full)
qed

section \<open>Unregistering\<close>

lemma unregister_ok:
  assumes ok: "types_ok ft" and t: "unat ty < 32"
  shows "\<exists>ft'. unregisterType ty ft = Some ft' \<and> type_name ft' = (type_name ft)(unat ty := None) \<and> types_ok ft'"
proof (cases "type_name ft (unat ty)")
  case None
  then have "unregisterType ty ft = Some ft"
    using types_okD(2) [OF ok t] t by (simp add: unregisterType_def mask_of_def and_mask)
  then show ?thesis using None ok by auto
next
  case (Some n)
  let ?k = "2 ^ unat ty :: u32"
  let ?mt = "if ty = ft_maxType ft then ft_maxType ft - 1 else ft_maxType ft"
  let ?ft = "ft\<lparr>ft_allocated := ft_allocated ft AND NOT ?k, ft_filters := om_erase ?k (ft_filters ft),
                ft_maxType := ?mt\<rparr>"
  have om: "om_ok (ft_filters ft)" using types_okD(1) [OF ok] .
  have "map_of (ft_filters ft) ?k = Some n" using Some t by (simp add: type_name_def)
  then have u: "unregisterType ty ft = Some ?ft"
    using types_okD(2) [OF ok t] t Some by (simp add: unregisterType_def mask_of_def and_mask)
  have tn: "type_name ?ft = (type_name ft)(unat ty := None)"
    using t by (auto simp: fun_eq_iff type_name_def om_erase_lookup [OF om] mask_eq_iff)
  have b: "bit (ft_allocated ?ft) t' \<longleftrightarrow> bit (ft_allocated ft) t' \<and> t' \<noteq> unat ty" if "t' < 32" for t'
    using t that by (auto simp: bit_and_iff bit_not_iff bit_mask)
  have mx: "t' \<le> unat ?mt" if "type_name ?ft t' \<noteq> None" for t'
  proof -
    have a: "t' \<le> unat (ft_maxType ft)" "t' \<noteq> unat ty" using that types_okD(3) [OF ok, of t'] by (auto simp: tn split: if_splits)
    show ?thesis
    proof (cases "ty = ft_maxType ft")
      case True
      then have "ft_maxType ft \<noteq> 0" using a by (metis le_zero_eq unat_0)
      then have "unat (ft_maxType ft - 1) = unat (ft_maxType ft) - 1" by (simp add: unat_minus_one)
      then show ?thesis using True a by simp
    qed (use a in simp)
  qed
  have "types_ok ?ft"
    unfolding types_ok_def
  proof (intro conjI allI impI)
    show "om_ok (ft_filters ?ft)" using om_erase_ok [OF om] by simp
  next
    fix m assume "map_of (ft_filters ?ft) m \<noteq> None"
    then obtain x where "map_of (ft_filters ft) m = Some x" by (auto simp: om_erase_lookup [OF om] split: if_splits)
    then show "\<exists>t<32. m = 2 ^ t" using types_okD(4) [OF ok] by blast
  next
    fix t' :: nat assume "t' < 32"
    then show "bit (ft_allocated ?ft) t' \<longleftrightarrow> type_name ?ft t' \<noteq> None"
      using b types_okD(2) [OF ok, of t'] by (simp add: tn)
  next
    fix t' assume "type_name ?ft t' \<noteq> None"
    then show "t' \<le> unat (ft_maxType ?ft)" using mx by simp
  qed
  then show ?thesis using u tn by auto
qed

section \<open>Looking a type up\<close>

lemma name_of_type_registered:
  "type_name ft t = Some n \<Longrightarrow> name_of_type ft (of_nat t) = Some n"
  by (auto simp: type_name_def name_of_type_def name_of_mask_def mask_of_Some split: if_splits)

text \<open>Names that no generated name of an unused type can be mistaken for.\<close>

definition real_name :: "string \<Rightarrow> bool" where
  "real_name n \<longleftrightarrow> take 8 n \<noteq> ''Unknown:''"

lemma name_of_type_free:
  "t < 32 \<Longrightarrow> type_name ft t = None \<Longrightarrow> name_of_type ft (of_nat t) = Some n \<Longrightarrow> \<not> real_name n"
  by (auto simp: type_name_def name_of_type_def name_of_mask_def mask_of_Some real_name_def)

lemma type_from_found:
  assumes "types_ok ft" "type_name ft t = Some n" "real_name n"
    "\<forall>i<t. type_name ft i \<noteq> Some n" "k \<le> t"
  shows "type_from ft n k = Some (of_nat t)"
  using assms(5)
proof (induction "t - k" arbitrary: k)
  case 0
  then show ?case using assms types_okD(3) [OF assms(1,2)] name_of_type_registered [OF assms(2)]
    by (simp add: type_from.simps [of ft n k])
next
  case (Suc d)
  then have k: "k < t" "k < 32" "k \<le> unat (ft_maxType ft)" using types_okD(3) [OF assms(1,2)] by auto
  obtain m where m: "name_of_type ft (of_nat k) = Some m" using k(2) by (auto simp: name_of_type_def mask_of_Some)
  have "m \<noteq> n"
  proof (cases "type_name ft k")
    case None
    then show ?thesis using name_of_type_free [OF k(2) None m] assms(3) by auto
  next
    case (Some x)
    then show ?thesis using name_of_type_registered [OF Some] m assms(4) k(1) by auto
  qed
  then have "type_from ft n k = type_from ft n (Suc k)" using k m by (simp add: type_from.simps [of ft n k])
  then show ?case using Suc k by simp
qed

text \<open>Registering several names.\<close>

lemma register_all_put:
  "put_all put_type ns ft = Some (ts, ft') \<Longrightarrow> register_all ns ft = Some ft'"
proof (induction ns arbitrary: ft ts)
  case (Cons n ns)
  then obtain t ts' ft1 where "put_type n ft = Some (t, ft1)" "put_all put_type ns ft1 = Some (ts', ft')"
    by (auto simp: bind_Some_iff)
  moreover from this have "\<exists>r. registerType n ft = Some (r, ft1)" by (auto simp: put_type_def split: option.splits)
  ultimately show ?case using Cons.IH [of ft1 ts'] by auto
qed simp

lemma register_all_new:
  assumes "length ns \<le> 32"
  shows "\<exists>ft. register_all ns new_FilterTypes = Some ft \<and> types_ok ft
    \<and> (\<forall>i. type_name ft i = (if i < length ns then Some (ns ! i) else None))"
proof -
  have "\<forall>i. type_name new_FilterTypes i = None" by (simp add: type_name_def new_FilterTypes_def)
  then show ?thesis
    using types.fill [OF types_ok_new, of ns] assms register_all_put by (fastforce simp: list_all_iff)
qed

section \<open>Properties\<close>

text \<open>filter types are assigned from 0 on and found again by name. Registering up to 32 distinct
  names, none of them of the form of a generated name, in a new registry succeeds, gives the
  i-th name type i and mask 2 to the i, and the lookups by name and by type are inverse to each
  other.\<close>

theorem filter_types_registered:
  assumes "length ns \<le> 32" "distinct ns" "list_all real_name ns"
  shows "\<exists>ft. register_all ns new_FilterTypes = Some ft \<and>
    (\<forall>i<length ns. type_of_name ft (ns ! i) = Some (of_nat i)
      \<and> name_of_type ft (of_nat i) = Some (ns ! i) \<and> name_of_mask ft (2 ^ i) = ns ! i)"
proof -
  obtain ft where ft: "register_all ns new_FilterTypes = Some ft" "types_ok ft"
    "\<forall>i. type_name ft i = (if i < length ns then Some (ns ! i) else None)"
    using register_all_new [OF assms(1)] by blast
  have "type_of_name ft (ns ! i) = Some (of_nat i) \<and> name_of_type ft (of_nat i) = Some (ns ! i)
      \<and> name_of_mask ft (2 ^ i) = ns ! i" if i: "i < length ns" for i
  proof -
    have t: "type_name ft i = Some (ns ! i)" using ft(3) i by simp
    have "\<forall>j<i. type_name ft j \<noteq> Some (ns ! i)"
      using ft(3) i assms(2) by (auto simp: nth_eq_iff_index_eq)
    moreover have "real_name (ns ! i)" using assms(3) i by (simp add: list_all_length)
    ultimately have "type_of_name ft (ns ! i) = Some (of_nat i)"
      unfolding type_of_name_def using type_from_found [OF ft(2) t] by blast
    moreover have "name_of_mask ft (2 ^ i) = ns ! i" using t by (simp add: type_name_def name_of_mask_def split: if_splits)
    ultimately show ?thesis using name_of_type_registered [OF t] by simp
  qed
  then show ?thesis using ft(1) by blast
qed

theorem filter_types_registered_witness:
  "\<exists>ft. register_all FILTER_TYPE_TABLE new_FilterTypes = Some ft \<and> type_of_name ft ''Tracer'' = Some 6"
proof -
  have "length FILTER_TYPE_TABLE \<le> 32" "distinct FILTER_TYPE_TABLE" "list_all real_name FILTER_TYPE_TABLE"
    by (simp_all add: FILTER_TYPE_TABLE_def real_name_def)
  from filter_types_registered [OF this] obtain ft where
    ft: "register_all FILTER_TYPE_TABLE new_FilterTypes = Some ft"
    "\<forall>i<length FILTER_TYPE_TABLE. type_of_name ft (FILTER_TYPE_TABLE ! i) = Some (of_nat i)" by blast
  have "type_of_name ft (FILTER_TYPE_TABLE ! 6) = Some (of_nat 6)"
    by (rule ft(2) [rule_format]) (simp add: FILTER_TYPE_TABLE_def)
  then show ?thesis using ft(1) by (simp add: FILTER_TYPE_TABLE_def)
qed

text \<open>the registry is a partial map, with two boundary faults. While a type is free,
  registration extends the map of a consistent registry at the lowest free type; with all 32
  types taken the loop goes one step too far and shifts by 32, which is undefined. Unregistering
  a type below 32 removes just this type. And once the only type, type 0, is unregistered, the largest
  type wraps to 255 and the lookup of any name that is not of a generated form is undefined.\<close>

theorem filter_types_refine_map:
  assumes "types_ok ft"
  shows "(\<forall>n<32. type_name ft n = None \<and> (\<forall>i<n. type_name ft i \<noteq> None) \<longrightarrow>
      (\<exists>ft'. registerType name ft = Some (Some (of_nat n, 2 ^ n), ft') \<and> types_ok ft'
        \<and> type_name ft' = (type_name ft)(n \<mapsto> name)))
    \<and> ((\<forall>i<32. type_name ft i \<noteq> None) \<longrightarrow> registerType name ft = None)
    \<and> (unat ty < 32 \<longrightarrow> (\<exists>ft'. unregisterType ty ft = Some ft' \<and> types_ok ft'
        \<and> type_name ft' = (type_name ft)(unat ty := None)))
    \<and> (ft_maxType ft = 0 \<and> type_name ft 0 \<noteq> None \<and> real_name query \<longrightarrow>
        (\<exists>ft'. unregisterType 0 ft = Some ft' \<and> ft_maxType ft' = 255 \<and> type_of_name ft' query = None))"
proof (intro conjI allI impI)
  fix n :: nat assume "n < 32" "type_name ft n = None \<and> (\<forall>i<n. type_name ft i \<noteq> None)"
  then show "\<exists>ft'. registerType name ft = Some (Some (of_nat n, 2 ^ n), ft') \<and> types_ok ft'
        \<and> type_name ft' = (type_name ft)(n \<mapsto> name)"
    using register_free [OF assms] types_ok_add [OF assms] type_name_add by blast
next
  show "\<forall>i<32. type_name ft i \<noteq> None \<Longrightarrow> registerType name ft = None" by (rule register_full [OF assms])
next
  show "unat ty < 32 \<Longrightarrow> \<exists>ft'. unregisterType ty ft = Some ft' \<and> types_ok ft'
        \<and> type_name ft' = (type_name ft)(unat ty := None)"
    using unregister_ok [OF assms] by blast
next
  assume a: "ft_maxType ft = 0 \<and> type_name ft 0 \<noteq> None \<and> real_name query"
  obtain ft' where u: "unregisterType 0 ft = Some ft'" "types_ok ft'" "type_name ft' = (type_name ft)(0 := None)"
    using unregister_ok [OF assms, of 0] by auto
  have "ft_maxType ft' = 255"
    using u(1) a types_okD(2) [OF assms, of 0]
    by (auto simp: unregisterType_def mask_of_def and_mask [of 0, simplified] bind_Some_iff)
  moreover have "type_name ft' = Map.empty"
    using u(3) types_okD(3) [OF assms] a by (fastforce simp: fun_eq_iff)
  ultimately have "type_from ft' query k = None" if "k \<le> 32" for k
    using that a
  proof (induction "32 - k" arbitrary: k)
    case 0
    then show ?case by (simp add: type_from.simps [of ft' query 32] name_of_type_def mask_of_def)
  next
    case (Suc d)
    then have "k < 32" by simp
    then obtain m where m: "name_of_type ft' (of_nat k) = Some m" by (auto simp: name_of_type_def mask_of_Some)
    have "k < 32" using Suc by simp
    then have "m \<noteq> query" using name_of_type_free [OF _ _ m] Suc by auto
    then show ?case using Suc m by (simp add: type_from.simps [of ft' query k])
  qed
  then show "\<exists>ft'. unregisterType 0 ft = Some ft' \<and> ft_maxType ft' = 255 \<and> type_of_name ft' query = None"
    using u(1) \<open>ft_maxType ft' = 255\<close> by (auto simp: type_of_name_def)
qed

theorem filter_types_refine_map_witness:
  "\<exists>ft ft'. registerType ''A'' new_FilterTypes = Some (Some (0, 1), ft)
    \<and> unregisterType 0 ft = Some ft' \<and> type_of_name ft' ''B'' = None"
proof -
  have n: "type_name new_FilterTypes i = None" for i by (simp add: type_name_def new_FilterTypes_def)
  obtain ft where ft: "registerType ''A'' new_FilterTypes = Some (Some (0, 1), ft)" "types_ok ft"
    "type_name ft = (type_name new_FilterTypes)(0 \<mapsto> ''A'')"
    using filter_types_refine_map [OF types_ok_new, of "''A''"] n by fastforce
  have "ft_maxType ft = 0"
    using ft(1) register_free [OF types_ok_new, of 0 "''A''"] n by (simp add: add_type_def new_FilterTypes_def)
  then show ?thesis using filter_types_refine_map [OF ft(2), of "''A''" 0 "''B''"] ft
    by (auto simp: real_name_def)
qed

end
