(* ===== verification/FilterProps.thy ===== *)
theory FilterProps
  imports FilterTypesProps
begin

text \<open>
  What the filters mean: which bit of a spawn's mask is set, what the level suffix of a pattern
  selects, that the manager never faults, and that a saved filter file loads back.
\<close>

section \<open>Well-formed filters\<close>

text \<open>No item is hidden by an earlier one, and the pattern of each is the fixed original.\<close>

fun items_ok :: "FilterItem list \<Rightarrow> bool" where
  "items_ok [] = True"
| "items_ok (fi # fis) = (fi_pattern fi = fix_pattern (fi_original fi)
     \<and> (\<forall>fi' \<in> set fis. fi_original fi' \<noteq> fi_pattern fi) \<and> items_ok fis)"

definition filters_ok :: "FilterTypes \<Rightarrow> Filters \<Rightarrow> bool" where
  "filters_ok ft fs \<longleftrightarrow> om_ok (fs_filters fs) \<and>
     (\<forall>k f. map_of (fs_filters fs) k = Some f \<longrightarrow> items_ok (f_items f) \<and> (\<exists>t<32. k = 2 ^ t \<and> type_name ft t \<noteq> None))"

lemma filters_ok_new [inv_intros]: "filters_ok ft (new_Filters cs)"
  by (simp add: filters_ok_def new_Filters_def)

lemma items_ok_append:
  "items_ok (fis @ [fi]) \<longleftrightarrow> items_ok fis \<and> fi_pattern fi = fix_pattern (fi_original fi)
     \<and> (\<forall>fi' \<in> set fis. fi_original fi \<noteq> fi_pattern fi')"
  by (induction fis rule: items_ok.induct) auto

lemma findFilter_None: "findFilter p f = None \<longleftrightarrow> (\<forall>fi \<in> set (f_items f). fi_pattern fi \<noteq> p)"
  by (auto simp: findFilter_def find_None_iff)

lemma item_init_fields [simp]:
  "fi_pattern (item_init p cs a b) = fix_pattern p" "fi_original (item_init p cs a b) = p"
  "fi_minLevel (item_init p cs a b) = a" "fi_maxLevel (item_init p cs a b) = b"
  "fi_caseInsensitive (item_init p cs a b) = (\<not> cs)"
  by (simp_all add: item_init_def)

lemma filter_add_ok [inv_intros]: "items_ok (f_items f) \<Longrightarrow> items_ok (f_items (snd (filter_add re p a b f)))"
  by (auto simp: filter_add_def new_FilterItem_levels_def Let_def items_ok_append findFilter_None)

lemma remove_item_subset: "set (remove_item p fis) \<subseteq> set fis"
  by (induction fis) auto

lemma remove_item_ok [inv_intros]: "items_ok fis \<Longrightarrow> items_ok (remove_item p fis)"
proof (induction fis)
  case (Cons fi fis)
  then show ?case using remove_item_subset [of p fis] by auto
qed simp

lemma filters_okD:
  assumes "filters_ok ft fs"
  shows "om_ok (fs_filters fs)"
    "map_of (fs_filters fs) k = Some f \<Longrightarrow> items_ok (f_items f)"
    "map_of (fs_filters fs) k = Some f \<Longrightarrow> \<exists>t<32. k = 2 ^ t \<and> type_name ft t \<noteq> None"
  using assms by (auto simp: filters_ok_def)

lemma filters_ok_assign:
  assumes "filters_ok ft fs" "t < 32" "type_name ft t \<noteq> None" "items_ok (f_items f)"
  shows "filters_ok ft (fs\<lparr>fs_filters := om_assign (2 ^ t) f (fs_filters fs)\<rparr>)"
  using assms by (auto simp: filters_ok_def om_assign_ok)

lemma validMask_iff: "types_ok ft \<Longrightarrow> t < 32 \<Longrightarrow> validMask ft (2 ^ t) \<longleftrightarrow> type_name ft t \<noteq> None"
  using types_okD(2) by (auto simp: validMask_def and_mask)

text \<open>Adding and removing, for a type below 32.\<close>

lemma filters_add_total:
  assumes "filters_ok ft fs" "types_ok ft" "unat ty < 32"
  shows "\<exists>ok fs'. filters_add re ft ty p a b fs = Some (ok, fs') \<and> filters_ok ft fs'"
proof (cases "type_name ft (unat ty)")
  case None
  then show ?thesis using assms validMask_iff by (simp add: filters_add_def mask_of_def ex_bool_eq)
next
  case (Some n)
  define f where "f = (case map_of (fs_filters fs) (2 ^ unat ty) of None \<Rightarrow> new_Filter (fs_caseSensitive fs) | Some f \<Rightarrow> f)"
  have "items_ok (f_items f)" using filters_okD(2) [OF assms(1)]
    by (auto simp: f_def new_Filter_def split: option.splits)
  then have "items_ok (f_items (snd (filter_add re p a b f)))" by (rule filter_add_ok)
  then have "filters_ok ft (fs\<lparr>fs_filters := om_assign (2 ^ unat ty) (snd (filter_add re p a b f)) (fs_filters fs)\<rparr>)"
    using filters_ok_assign assms(1,3) Some by blast
  moreover have "validMask ft (2 ^ unat ty)" using validMask_iff assms(2,3) Some by auto
  ultimately show ?thesis using assms(3)
    by (auto simp: filters_add_def mask_of_def Let_def f_def [symmetric] split: prod.splits)
qed

lemma filters_rem_total:
  assumes "filters_ok ft fs" "types_ok ft" "unat ty < 32"
  shows "\<exists>fs'. filters_rem ft ty p fs = Some fs' \<and> filters_ok ft fs'"
proof (cases "map_of (fs_filters fs) (2 ^ unat ty)")
  case None
  then show ?thesis using assms by (simp add: filters_rem_def mask_of_def)
next
  case (Some f)
  have "type_name ft (unat ty) \<noteq> None" using filters_okD(3) [OF assms(1) Some] mask_eq_iff assms(3) by auto
  moreover have "items_ok (f_items (filter_rem p f))"
    using filters_okD(2) [OF assms(1) Some] remove_item_ok by (simp add: filter_rem_def)
  ultimately show ?thesis using assms Some filters_ok_assign
    by (auto simp: filters_rem_def mask_of_def)
qed

section \<open>Masks of spawns\<close>

text \<open>The levels an item selects.\<close>

definition in_levels :: "FilterItem \<Rightarrow> u8 \<Rightarrow> bool" where
  "in_levels fi level \<longleftrightarrow> fi_minLevel fi = 0 \<and> fi_maxLevel fi = 0
     \<or> fi_minLevel fi \<le> level \<and> level \<le> fi_maxLevel fi"

definition item_hits :: "re_engine \<Rightarrow> FilterItem \<Rightarrow> string \<Rightarrow> u8 \<Rightarrow> bool" where
  "item_hits re fi s level \<longleftrightarrow> re_valid re (fi_pattern fi)
     \<and> re_find re (fi_caseInsensitive fi) (fi_pattern fi) s \<and> in_levels fi level"

lemma item_isFiltered_iff: "item_isFiltered re fi s level \<longleftrightarrow> item_hits re fi s level"
  by (auto simp: item_isFiltered_def item_hits_def in_levels_def word_gt_0)

lemma filterMask_fold:
  "bit (fold (\<lambda>(k, f) m. if P f then m OR k else m) xs acc) n \<longleftrightarrow>
     bit acc n \<or> (\<exists>(k, f) \<in> set xs. P f \<and> bit (k :: u32) n)"
  by (induction xs arbitrary: acc) (auto simp: bit_or_iff split: if_splits)

lemma filterMask_bit:
  assumes "filters_ok ft fs" "t < 32"
  shows "bit (filterMask re s level fs) t \<longleftrightarrow>
    (\<exists>f fi. map_of (fs_filters fs) (2 ^ t) = Some f \<and> fi \<in> set (f_items f) \<and> item_hits re fi s level)"
proof -
  have d: "distinct (map fst (fs_filters fs))" using filters_okD(1) [OF assms(1)] by (rule om_ok_distinct)
  have b: "bit k t \<longleftrightarrow> k = 2 ^ t" if "(k, f) \<in> set (fs_filters fs)" for k f
    using filters_okD(3) [OF assms(1) map_of_is_SomeI [OF d that]] assms(2) bit_mask by auto
  have "bit (filterMask re s level fs) t \<longleftrightarrow>
      (\<exists>(k, f) \<in> set (fs_filters fs). filter_isFiltered re f s level \<and> bit k t)"
    by (simp add: filterMask_def filterMask_fold)
  also have "\<dots> \<longleftrightarrow> (\<exists>f. (2 ^ t, f) \<in> set (fs_filters fs) \<and> filter_isFiltered re f s level)"
    using b by blast
  also have "\<dots> \<longleftrightarrow> (\<exists>f. map_of (fs_filters fs) (2 ^ t) = Some f \<and> filter_isFiltered re f s level)"
    using d by (simp add: map_of_eq_Some_iff)
  finally show ?thesis by (auto simp: filter_isFiltered_def list_ex_iff item_isFiltered_iff)
qed

section \<open>The manager\<close>

text \<open>Loading a file cannot fault: the type of a section is one of the registered types or 255.\<close>

definition fixed_types :: "FilterTypes \<Rightarrow> bool" where
  "fixed_types ft \<longleftrightarrow> types_ok ft \<and> ft_maxType ft < 32"

lemma type_from_total: "unat (ft_maxType ft) < 32 \<Longrightarrow> \<exists>ty. type_from ft q k = Some ty"
proof (induction "32 - k" arbitrary: k rule: less_induct)
  case less
  show ?case
  proof (cases "k \<le> unat (ft_maxType ft)")
    case True
    then obtain m where "name_of_type ft (of_nat k) = Some m" using less.prems
      by (auto simp: name_of_type_def mask_of_Some)
    then show ?thesis using less True by (auto simp: type_from.simps [of ft q k])
  qed (simp add: type_from.simps [of ft q k])
qed

lemma startElement_total: "unat (ft_maxType ft) < 32 \<Longrightarrow> startElement tu ft n attr h \<noteq> None"
  using type_from_total [of ft "attr_value ''name'' attr" 0]
  by (auto simp: startElement_def Let_def type_of_name_def)

lemma load_step_total:
  assumes "fixed_types ft" "filters_ok ft fs"
  shows "\<exists>st h' fs'. load_step re tu ft tok h fs = Some (st, h', fs') \<and> filters_ok ft fs'"
proof (cases tok)
  case (FStartElement n attr)
  have "unat (ft_maxType ft) < 32" using assms(1) by (simp add: fixed_types_def word_less_nat_alt)
  then obtain r where "startElement tu ft n attr h = Some r" using startElement_total by blast
  then show ?thesis using FStartElement assms(2) by (cases r) (auto simp: ex_bool_eq)
next
  case (FEndElement n)
  show ?thesis
  proof (cases "n = ''oldfilter'' \<and> h_currentType h \<le> ft_maxType ft")
    case True
    then have "unat (h_currentType h) < 32" using assms(1)
      by (auto simp: fixed_types_def word_less_nat_alt word_le_nat_alt)
    then show ?thesis
      using filters_add_total [OF assms(2), of "h_currentType h" re "h_currentFilterPattern h"
          "h_currentMinLevel h" "h_currentMaxLevel h"] assms(1) True FEndElement
      by (auto simp: endElement_def fixed_types_def Let_def)
  qed (use FEndElement assms(2) in \<open>auto simp: endElement_def Let_def\<close>)
qed (use assms in \<open>auto simp: ex_bool_eq\<close>)

lemma load_tokens_total:
  "fixed_types ft \<Longrightarrow> filters_ok ft fs \<Longrightarrow>
    \<exists>st fs'. load_tokens re tu ft toks h fs = Some (st, fs') \<and> filters_ok ft fs'"
proof (induction toks arbitrary: h fs)
  case (Cons tok toks)
  obtain st h' fs1 where "load_step re tu ft tok h fs = Some (st, h', fs1)" "filters_ok ft fs1"
    using load_step_total [OF Cons.prems] by blast
  then show ?case using Cons.IH [OF Cons.prems(1), of fs1 h'] by (cases st) (auto simp: ex_bool_eq)
qed (auto simp: ex_bool_eq)

lemma env_load_total:
  assumes "fixed_types ft"
  shows "\<exists>fs'. env_load env ft file fs = Some fs' \<and> filters_ok ft fs'"
proof -
  let ?fs = "(filters_clear fs)\<lparr>fs_file := file\<rparr>"
  have ok: "filters_ok ft ?fs" by (simp add: filters_clear_def filters_ok_def)
  show ?thesis
  proof (cases "file = [] \<or> fe_open env file = None")
    case True
    then show ?thesis using ok by (auto simp: env_load_def filters_load_def Let_def)
  next
    case False
    then obtain toks where "fe_open env file = Some toks" "file \<noteq> []" by auto
    then show ?thesis using load_tokens_total [OF assms ok, of "fe_re env" "fe_toUShort env" toks "fe_handler env"]
      by (auto simp: env_load_def filters_load_def Let_def)
  qed
qed

text \<open>The state of a manager in use.\<close>

definition mgr_ok :: "FilterMgr \<Rightarrow> bool" where
  "mgr_ok fm \<longleftrightarrow> register_all FILTER_TYPE_TABLE new_FilterTypes = Some (fm_types fm)
     \<and> filters_ok (fm_types fm) (fm_filters fm) \<and> filters_ok (fm_types fm) (fm_zoneFilters fm)
     \<and> types_ok (fm_runtimeTypes fm) \<and> filters_ok (fm_runtimeTypes fm) (fm_runtimeFilters fm)"

lemma table_types:
  assumes "register_all FILTER_TYPE_TABLE new_FilterTypes = Some ft"
  shows "fixed_types ft" "ft_maxType ft = 6" "type_name ft t \<noteq> None \<longleftrightarrow> t < 7"
proof -
  have l: "length FILTER_TYPE_TABLE = 7" by (simp add: FILTER_TYPE_TABLE_def)
  obtain ft' where ft': "register_all FILTER_TYPE_TABLE new_FilterTypes = Some ft'" "types_ok ft'"
    "\<forall>i. type_name ft' i = (if i < length FILTER_TYPE_TABLE then Some (FILTER_TYPE_TABLE ! i) else None)"
    using register_all_new [of FILTER_TYPE_TABLE] l by auto
  then show t: "type_name ft t \<noteq> None \<longleftrightarrow> t < 7" using assms l by simp
  have "map_option ft_maxType (register_all FILTER_TYPE_TABLE new_FilterTypes) = Some 6" by code_simp
  then show m: "ft_maxType ft = 6" using assms by simp
  show "fixed_types ft" using m ft' assms by (simp add: fixed_types_def)
qed

text \<open>The operations of a client; the loads name the file.\<close>

datatype mgr_op =
    OpAdd u8 string | OpRem u8 string | OpAddZone u8 string | OpRemZone u8 string
  | OpEdit u8 string string | OpEditZone u8 string string
  | OpLoad string | OpReload | OpLoadZone string | OpReloadZone | OpSave | OpSaveZone
  | OpCase bool | OpRegister string | OpUnregister u8 | OpRunAdd u8 string | OpRunRem u8 string | OpCommit u8

fun mgr_step :: "filter_env \<Rightarrow> mgr_op \<Rightarrow> FilterMgr \<Rightarrow> FilterMgr option" where
  "mgr_step env (OpAdd ty p) fm = map_option (fst \<circ> snd) (mgr_addFilter env ty p fm)"
| "mgr_step env (OpRem ty p) fm = map_option fst (mgr_remFilter ty p fm)"
| "mgr_step env (OpAddZone ty p) fm = map_option (fst \<circ> snd) (addZoneFilter env ty p fm)"
| "mgr_step env (OpRemZone ty p) fm = map_option fst (remZoneFilter ty p fm)"
| "mgr_step env (OpEdit ty p q) fm = map_option (fst \<circ> snd) (editFilter env ty p q fm)"
| "mgr_step env (OpEditZone ty p q) fm = map_option (fst \<circ> snd) (editZoneFilter env ty p q fm)"
| "mgr_step env (OpLoad f) fm = map_option fst (loadFilters_file env f fm)"
| "mgr_step env OpReload fm = map_option fst (loadFilters env fm)"
| "mgr_step env (OpLoadZone z) fm = map_option fst (loadZone env z fm)"
| "mgr_step env OpReloadZone fm = map_option fst (loadZoneFilters env fm)"
| "mgr_step env OpSave fm = Some (fst (saveFilters env fm))"
| "mgr_step env OpSaveZone fm = Some (fst (saveZoneFilters env fm))"
| "mgr_step env (OpCase cs) fm = Some (setCaseSensitive cs fm)"
| "mgr_step env (OpRegister n) fm = map_option snd (registerRuntimeFilter n fm)"
| "mgr_step env (OpUnregister ty) fm = unregisterRuntimeFilter ty fm"
| "mgr_step env (OpRunAdd ty p) fm = map_option snd (runtimeFilterAddFilter (fe_re env) ty p fm)"
| "mgr_step env (OpRunRem ty p) fm = runtimeFilterRemFilter ty p fm"
| "mgr_step env (OpCommit ty) fm = Some (fst (runtimeFilterCommit ty fm))"

fun mgr_run :: "filter_env \<Rightarrow> mgr_op list \<Rightarrow> FilterMgr \<Rightarrow> FilterMgr option" where
  "mgr_run env [] fm = Some fm"
| "mgr_run env (x # xs) fm = do { fm1 \<leftarrow> mgr_step env x fm; mgr_run env xs fm1 }"

text \<open>What a client must respect: types of run time filters are below 32. The editing operations
  take any type.\<close>

fun op_in_range :: "mgr_op \<Rightarrow> bool" where
  "op_in_range (OpUnregister ty) \<longleftrightarrow> ty < 32"
| "op_in_range (OpRunAdd ty p) \<longleftrightarrow> ty < 32"
| "op_in_range (OpRunRem ty p) \<longleftrightarrow> ty < 32"
| "op_in_range _ \<longleftrightarrow> True"

definition used_types :: "FilterTypes \<Rightarrow> nat" where
  "used_types ft = length (filter (\<lambda>t. type_name ft t \<noteq> None) [0..<32])"

definition registrations :: "mgr_op list \<Rightarrow> nat" where
  "registrations xs = length (filter (\<lambda>x. case x of OpRegister n \<Rightarrow> True | _ \<Rightarrow> False) xs)"

lemma used_types_card: "used_types ft = card {t. t < 32 \<and> type_name ft t \<noteq> None}"
proof -
  have "set (filter (\<lambda>t. type_name ft t \<noteq> None) [0..<32]) = {t. t < 32 \<and> type_name ft t \<noteq> None}" by auto
  then show ?thesis unfolding used_types_def by (metis distinct_card distinct_filter distinct_upt)
qed

lemma used_types_insert:
  assumes "n < 32" "type_name ft n = None" "type_name ft' = (type_name ft)(n \<mapsto> v)"
  shows "used_types ft' = Suc (used_types ft)"
proof -
  have "{t. t < 32 \<and> type_name ft' t \<noteq> None} = insert n {t. t < 32 \<and> type_name ft t \<noteq> None}"
    using assms by auto
  then show ?thesis using assms by (simp add: used_types_card)
qed

lemma used_types_mono:
  "(\<forall>t. type_name ft' t \<noteq> None \<longrightarrow> type_name ft t \<noteq> None) \<Longrightarrow> used_types ft' \<le> used_types ft"
  unfolding used_types_card by (rule card_mono) auto

lemma free_type:
  assumes "used_types ft < 32"
  shows "\<exists>i<32. type_name ft i = None"
proof (rule ccontr)
  assume "\<not> ?thesis"
  then have "filter (\<lambda>t. type_name ft t \<noteq> None) [0..<32] = [0..<32]" by (auto simp: filter_id_conv)
  then show False using assms by (simp add: used_types_def)
qed

lemma filters_ok_types:
  "filters_ok ft fs \<Longrightarrow> (\<And>t. type_name ft t \<noteq> None \<Longrightarrow> type_name ft' t \<noteq> None) \<Longrightarrow> filters_ok ft' fs"
  unfolding filters_ok_def by blast

lemma register_runtime:
  assumes "mgr_ok fm" "used_types (fm_runtimeTypes fm) < 32"
  shows "\<exists>r fm'. registerRuntimeFilter n fm = Some (r, fm') \<and> mgr_ok fm'
    \<and> used_types (fm_runtimeTypes fm') = Suc (used_types (fm_runtimeTypes fm))"
proof -
  let ?ft = "fm_runtimeTypes fm"
  have ok: "types_ok ?ft" "filters_ok ?ft (fm_runtimeFilters fm)" using assms(1) by (simp_all add: mgr_ok_def)
  obtain t ft' where t: "t < 32" "type_name ?ft t = None" "put_type n ?ft = Some (t, ft')" "types_ok ft'"
    "type_name ft' = (type_name ?ft)(t \<mapsto> n)"
    using free_type [OF assms(2)] by (rule_tac types.put_cases [OF ok(1), of n]) auto
  have "filters_ok ft' (fm_runtimeFilters fm)" by (rule filters_ok_types [OF ok(2)]) (simp add: t(5))
  then have "mgr_ok (fm\<lparr>fm_runtimeTypes := ft'\<rparr>)" using assms(1) t(4) by (simp add: mgr_ok_def)
  moreover have "\<exists>r. registerType n ?ft = Some (r, ft')"
    using t(3) by (auto simp: put_type_def split: option.splits)
  ultimately show ?thesis using used_types_insert [OF t(1,2,5)] by (auto simp: registerRuntimeFilter_def)
qed

lemma unregister_runtime:
  assumes "mgr_ok fm" "unat ty < 32"
  shows "\<exists>fm'. unregisterRuntimeFilter ty fm = Some fm' \<and> mgr_ok fm'
    \<and> used_types (fm_runtimeTypes fm') \<le> used_types (fm_runtimeTypes fm)"
proof -
  let ?ft = "fm_runtimeTypes fm" and ?fs = "fm_runtimeFilters fm"
  have ok: "types_ok ?ft" "filters_ok ?ft ?fs" using assms(1) by (simp_all add: mgr_ok_def)
  obtain ft' where u: "unregisterType ty ?ft = Some ft'" "types_ok ft'"
    "type_name ft' = (type_name ?ft)(unat ty := None)"
    using unregister_ok [OF ok(1) assms(2)] by blast
  let ?fs' = "?fs\<lparr>fs_filters := om_erase (2 ^ unat ty) (fs_filters ?fs)\<rparr>"
  have om: "om_ok (fs_filters ?fs)" using filters_okD(1) [OF ok(2)] .
  have "filters_ok ft' ?fs'"
    unfolding filters_ok_def
  proof (intro conjI allI impI)
    show "om_ok (fs_filters ?fs')" using om_erase_ok [OF om] by simp
  next
    fix k f assume "map_of (fs_filters ?fs') k = Some f"
    then have kf: "map_of (fs_filters ?fs) k = Some f" "k \<noteq> 2 ^ unat ty"
      by (auto simp: om_erase_lookup [OF om] split: if_splits)
    show "items_ok (f_items f)" using filters_okD(2) [OF ok(2) kf(1)] .
    obtain t where t: "t < 32" "k = 2 ^ t" "type_name ?ft t \<noteq> None" using filters_okD(3) [OF ok(2) kf(1)] by blast
    have "t \<noteq> unat ty" using kf(2) t(2) by blast
    then show "\<exists>t<32. k = 2 ^ t \<and> type_name ft' t \<noteq> None" using t u(3) by auto
  qed
  then have "mgr_ok (fm\<lparr>fm_runtimeFilters := ?fs', fm_runtimeTypes := ft'\<rparr>)"
    using assms(1) u(2) by (simp add: mgr_ok_def)
  moreover have "used_types ft' \<le> used_types ?ft" using u(3) by (intro used_types_mono) (auto split: if_splits)
  ultimately show ?thesis using u(1) assms(2)
    by (auto simp: unregisterRuntimeFilter_def clearType_def mask_of_def)
qed

lemma filters_ok_case [inv_intros]:
  assumes "filters_ok ft fs"
  shows "filters_ok ft (filters_setCaseSensitive cs fs)"
proof -
  have om: "om_ok (map (\<lambda>(k, f). (k, filter_setCaseSensitive cs f)) m)" if "om_ok m" for m :: "(u32, Filter) omap"
    using that by (induction m rule: om_ok.induct) auto
  have lk: "map_of (map (\<lambda>(k, f). (k, filter_setCaseSensitive cs f)) m) k
      = map_option (filter_setCaseSensitive cs) (map_of m k)" for m :: "(u32, Filter) omap" and k
    by (induction m) auto
  have "f_items (filter_setCaseSensitive cs f) = f_items f" for f by (simp add: filter_setCaseSensitive_def)
  then show ?thesis using assms om by (auto simp: filters_ok_def filters_setCaseSensitive_def lk)
qed

text \<open>Every operation, on a manager in use.\<close>

lemma mgr_okD:
  assumes "mgr_ok fm"
  shows "fixed_types (fm_types fm)" "types_ok (fm_types fm)" "types_ok (fm_runtimeTypes fm)"
    "filters_ok (fm_types fm) (fm_filters fm)" "filters_ok (fm_types fm) (fm_zoneFilters fm)"
    "filters_ok (fm_runtimeTypes fm) (fm_runtimeFilters fm)"
  using assms table_types(1) by (auto simp: mgr_ok_def fixed_types_def)

lemma mgr_ok_updates:
  "mgr_ok fm \<Longrightarrow> filters_ok (fm_types fm) fs \<Longrightarrow> mgr_ok (fm\<lparr>fm_filters := fs\<rparr>)"
  "mgr_ok fm \<Longrightarrow> filters_ok (fm_types fm) fs \<Longrightarrow> mgr_ok (fm\<lparr>fm_zoneFilters := fs\<rparr>)"
  "mgr_ok fm \<Longrightarrow> filters_ok (fm_runtimeTypes fm) fs \<Longrightarrow> mgr_ok (fm\<lparr>fm_runtimeFilters := fs\<rparr>)"
  "mgr_ok fm \<Longrightarrow> mgr_ok (fm\<lparr>fm_filterFile := file\<rparr>)" "mgr_ok fm \<Longrightarrow> mgr_ok (fm\<lparr>fm_zoneFilterFile := file\<rparr>)"
  by (simp_all add: mgr_ok_def)

lemma legacy_type: "\<not> SIZEOF_FILTERS \<le> ty \<Longrightarrow> unat ty < 32"
  by (simp add: SIZEOF_FILTERS_def word_le_nat_alt)

lemma edit_steps:
  assumes ok: "mgr_ok fm"
  shows "\<exists>fm'. mgr_step env (OpAdd ty p) fm = Some fm' \<and> mgr_ok fm' \<and> fm_runtimeTypes fm' = fm_runtimeTypes fm"
    "\<exists>fm'. mgr_step env (OpAddZone ty p) fm = Some fm' \<and> mgr_ok fm' \<and> fm_runtimeTypes fm' = fm_runtimeTypes fm"
    "\<exists>fm'. mgr_step env (OpRem ty p) fm = Some fm' \<and> mgr_ok fm' \<and> fm_runtimeTypes fm' = fm_runtimeTypes fm"
    "\<exists>fm'. mgr_step env (OpRemZone ty p) fm = Some fm' \<and> mgr_ok fm' \<and> fm_runtimeTypes fm' = fm_runtimeTypes fm"
    "\<exists>fm'. mgr_step env (OpEdit ty p q) fm = Some fm' \<and> mgr_ok fm' \<and> fm_runtimeTypes fm' = fm_runtimeTypes fm"
    "\<exists>fm'. mgr_step env (OpEditZone ty p q) fm = Some fm' \<and> mgr_ok fm' \<and> fm_runtimeTypes fm' = fm_runtimeTypes fm"
proof -
  note t = mgr_okD(2) [OF ok]
  have add: "\<exists>ok fs'. filters_add (fe_re env) (fm_types fm) ty p 0 0 fs = Some (ok, fs') \<and> filters_ok (fm_types fm) fs'"
    and rem: "\<exists>fs'. filters_rem (fm_types fm) ty p fs = Some fs' \<and> filters_ok (fm_types fm) fs'"
    if "filters_ok (fm_types fm) fs" "\<not> SIZEOF_FILTERS \<le> ty" for fs p
    using filters_add_total [OF that(1) t] filters_rem_total [OF that(1) t] legacy_type [OF that(2)] by blast+
  note f = mgr_okD(4) [OF ok] and z = mgr_okD(5) [OF ok]
  show "\<exists>fm'. mgr_step env (OpAdd ty p) fm = Some fm' \<and> mgr_ok fm' \<and> fm_runtimeTypes fm' = fm_runtimeTypes fm"
    using add [OF f, of p] ok mgr_ok_updates by (cases "SIZEOF_FILTERS \<le> ty") (auto simp: mgr_addFilter_def)
  show "\<exists>fm'. mgr_step env (OpAddZone ty p) fm = Some fm' \<and> mgr_ok fm' \<and> fm_runtimeTypes fm' = fm_runtimeTypes fm"
    using add [OF z, of p] ok mgr_ok_updates by (cases "SIZEOF_FILTERS \<le> ty") (auto simp: addZoneFilter_def)
  show "\<exists>fm'. mgr_step env (OpRem ty p) fm = Some fm' \<and> mgr_ok fm' \<and> fm_runtimeTypes fm' = fm_runtimeTypes fm"
    using rem [OF f, of p] ok mgr_ok_updates by (cases "SIZEOF_FILTERS \<le> ty") (auto simp: mgr_remFilter_def)
  show "\<exists>fm'. mgr_step env (OpRemZone ty p) fm = Some fm' \<and> mgr_ok fm' \<and> fm_runtimeTypes fm' = fm_runtimeTypes fm"
    using rem [OF z, of p] ok mgr_ok_updates by (cases "SIZEOF_FILTERS \<le> ty") (auto simp: remZoneFilter_def)
  have edit: "\<exists>fs1 ok fs2. filters_rem (fm_types fm) ty p fs = Some fs1
      \<and> filters_add (fe_re env) (fm_types fm) ty q 0 0 fs1 = Some (ok, fs2) \<and> filters_ok (fm_types fm) fs2"
    if "filters_ok (fm_types fm) fs" "\<not> SIZEOF_FILTERS \<le> ty" for fs
    using rem [OF that, of p] add [OF _ that(2), of _ q] by blast
  show "\<exists>fm'. mgr_step env (OpEdit ty p q) fm = Some fm' \<and> mgr_ok fm' \<and> fm_runtimeTypes fm' = fm_runtimeTypes fm"
    using edit [OF f] ok mgr_ok_updates(1) by (cases "SIZEOF_FILTERS \<le> ty") (auto simp: editFilter_def)
  show "\<exists>fm'. mgr_step env (OpEditZone ty p q) fm = Some fm' \<and> mgr_ok fm' \<and> fm_runtimeTypes fm' = fm_runtimeTypes fm"
    using edit [OF z] ok mgr_ok_updates(2) by (cases "SIZEOF_FILTERS \<le> ty") (auto simp: editZoneFilter_def)
qed

lemma load_steps:
  assumes ok: "mgr_ok fm"
  shows "\<exists>fm'. map_option fst (loadFilters_file env f fm) = Some fm' \<and> mgr_ok fm' \<and> fm_runtimeTypes fm' = fm_runtimeTypes fm"
    "\<exists>fm'. map_option fst (loadZone_file env f fm) = Some fm' \<and> mgr_ok fm' \<and> fm_runtimeTypes fm' = fm_runtimeTypes fm"
proof -
  obtain fs where "env_load env (fm_types fm) (fe_findExisting env f) (fm_filters fm) = Some fs" "filters_ok (fm_types fm) fs"
    using env_load_total [OF mgr_okD(1) [OF ok]] by blast
  then show "\<exists>fm'. map_option fst (loadFilters_file env f fm) = Some fm' \<and> mgr_ok fm' \<and> fm_runtimeTypes fm' = fm_runtimeTypes fm"
    using ok by (simp add: loadFilters_file_def Let_def mgr_ok_def)
  obtain fs where "env_load env (fm_types fm) (fe_findExisting env f) (fm_zoneFilters fm) = Some fs" "filters_ok (fm_types fm) fs"
    using env_load_total [OF mgr_okD(1) [OF ok]] by blast
  then show "\<exists>fm'. map_option fst (loadZone_file env f fm) = Some fm' \<and> mgr_ok fm' \<and> fm_runtimeTypes fm' = fm_runtimeTypes fm"
    using ok by (simp add: loadZone_file_def Let_def mgr_ok_def)
qed

lemma runtime_steps:
  assumes ok: "mgr_ok fm" and r: "unat ty < 32"
  shows "\<exists>fm'. mgr_step env (OpRunAdd ty p) fm = Some fm' \<and> mgr_ok fm' \<and> fm_runtimeTypes fm' = fm_runtimeTypes fm"
    "\<exists>fm'. mgr_step env (OpRunRem ty p) fm = Some fm' \<and> mgr_ok fm' \<and> fm_runtimeTypes fm' = fm_runtimeTypes fm"
proof -
  note t = mgr_okD(3,6) [OF ok]
  show "\<exists>fm'. mgr_step env (OpRunAdd ty p) fm = Some fm' \<and> mgr_ok fm' \<and> fm_runtimeTypes fm' = fm_runtimeTypes fm"
    using filters_add_total [OF t(2,1) r, of "fe_re env" p 0 0] ok mgr_ok_updates(3)
    by (auto simp: runtimeFilterAddFilter_def)
  show "\<exists>fm'. mgr_step env (OpRunRem ty p) fm = Some fm' \<and> mgr_ok fm' \<and> fm_runtimeTypes fm' = fm_runtimeTypes fm"
    using filters_rem_total [OF t(2,1) r, of p] ok mgr_ok_updates(3)
    by (auto simp: runtimeFilterRemFilter_def)
qed

lemma mgr_step_total:
  assumes ok: "mgr_ok fm" and r: "op_in_range x"
    and room: "used_types (fm_runtimeTypes fm) + registrations [x] \<le> 32"
  shows "\<exists>fm'. mgr_step env x fm = Some fm' \<and> mgr_ok fm'
    \<and> used_types (fm_runtimeTypes fm') \<le> used_types (fm_runtimeTypes fm) + registrations [x]"
proof (cases x)
  case (OpRegister n)
  then have "used_types (fm_runtimeTypes fm) < 32" using room by (simp add: registrations_def)
  then show ?thesis using register_runtime [OF ok, of n] OpRegister by (auto simp: registrations_def)
next
  case (OpUnregister ty)
  then have "unat ty < 32" using r by (simp add: word_less_nat_alt)
  then show ?thesis using unregister_runtime [OF ok, of ty] OpUnregister by (auto simp: registrations_def)
next
  case (OpRunAdd ty p)
  then have "unat ty < 32" using r by (simp add: word_less_nat_alt)
  then show ?thesis using runtime_steps(1) [OF ok, of ty env p] OpRunAdd by (auto simp: registrations_def)
next
  case (OpRunRem ty p)
  then have "unat ty < 32" using r by (simp add: word_less_nat_alt)
  then show ?thesis using runtime_steps(2) [OF ok, of ty env p] OpRunRem by (auto simp: registrations_def)
next
  case (OpAdd ty p)
  then show ?thesis using edit_steps(1) [OF ok, of env ty p] by auto
next
  case (OpAddZone ty p)
  then show ?thesis using edit_steps(2) [OF ok, of env ty p] by auto
next
  case (OpRem ty p)
  then show ?thesis using edit_steps(3) [OF ok, of env ty p] by auto
next
  case (OpRemZone ty p)
  then show ?thesis using edit_steps(4) [OF ok, of env ty p] by auto
next
  case (OpEdit ty p q)
  then show ?thesis using edit_steps(5) [OF ok, of env ty p q] by auto
next
  case (OpEditZone ty p q)
  then show ?thesis using edit_steps(6) [OF ok, of env ty p q] by auto
next
  case (OpLoad f)
  then show ?thesis using load_steps(1) [OF ok, of env f] by auto
next
  case OpReload
  then show ?thesis using load_steps(1) [OF ok, of env "fe_fileName env (fm_filterFile fm)"] by (auto simp: loadFilters_def)
next
  case (OpLoadZone z)
  then show ?thesis using load_steps(2) [OF ok, of env "z @ ''.xml''"] by (auto simp: loadZone_def)
next
  case OpReloadZone
  then show ?thesis using load_steps(2) [OF ok, of env "fe_fileName env (fm_zoneFilterFile fm)"]
    by (auto simp: loadZoneFilters_def)
next
  case OpSave
  then show ?thesis using ok mgr_ok_updates(4) by (simp add: saveFilters_def Let_def)
next
  case OpSaveZone
  then show ?thesis using ok mgr_ok_updates(5) by (simp add: saveZoneFilters_def Let_def)
next
  case (OpCase cs)
  then show ?thesis using ok filters_ok_case by (simp add: setCaseSensitive_def mgr_ok_def)
next
  case (OpCommit ty)
  then show ?thesis using ok by (simp add: runtimeFilterCommit_def)
qed

lemma registrations_Cons: "registrations (x # xs) = registrations [x] + registrations xs"
  by (simp add: registrations_def)

lemma mgr_run_total:
  "mgr_ok fm \<Longrightarrow> list_all op_in_range xs \<Longrightarrow>
    used_types (fm_runtimeTypes fm) + registrations xs \<le> 32 \<Longrightarrow>
    \<exists>fm'. mgr_run env xs fm = Some fm' \<and> mgr_ok fm'"
proof (induction xs arbitrary: fm)
  case (Cons x xs)
  obtain fm1 where "mgr_step env x fm = Some fm1" "mgr_ok fm1"
    "used_types (fm_runtimeTypes fm1) \<le> used_types (fm_runtimeTypes fm) + registrations [x]"
    using mgr_step_total [of fm x env] Cons.prems by (auto simp: registrations_Cons [of x xs])
  then show ?case using Cons by (simp add: registrations_Cons [of x xs])
qed simp

lemma new_FilterMgr_ok: "\<exists>fm. new_FilterMgr env file cs = Some fm \<and> mgr_ok fm \<and> used_types (fm_runtimeTypes fm) = 0"
proof -
  have l: "length FILTER_TYPE_TABLE \<le> 32" by (simp add: FILTER_TYPE_TABLE_def)
  obtain ft where ft: "register_all FILTER_TYPE_TABLE new_FilterTypes = Some ft"
    using register_all_new [OF l] by blast
  let ?fm0 = "\<lparr>fm_types = ft, fm_filterFile = [], fm_filters = new_Filters cs,
                fm_zoneFilterFile = [], fm_zoneFilters = new_Filters cs,
                fm_runtimeTypes = new_FilterTypes, fm_runtimeFilters = new_Filters cs,
                fm_caseSensitive = cs\<rparr>"
  have "mgr_ok ?fm0" using ft by (simp add: mgr_ok_def filters_ok_new types_ok_new)
  from load_steps(1) [OF this, of env "file"] obtain fm1 e1 where 1: "loadFilters_file env file ?fm0 = Some (fm1, e1)"
    "mgr_ok fm1" "fm_runtimeTypes fm1 = new_FilterTypes" by auto
  from load_steps(2) [OF 1(2), of env "''unknown.xml''"] obtain fm2 e2 where
    2: "loadZone_file env ''unknown.xml'' fm1 = Some (fm2, e2)" "mgr_ok fm2" "fm_runtimeTypes fm2 = new_FilterTypes"
    using 1(3) by auto
  have "used_types new_FilterTypes = 0" by (simp add: used_types_def type_name_def new_FilterTypes_def)
  then show ?thesis using ft 1 2 by (simp add: new_FilterMgr_def loadZone_def Let_def)
qed

section \<open>Levels in a pattern\<close>

definition toInt_decimal :: "toInt \<Rightarrow> bool" where
  "toInt_decimal toInt \<longleftrightarrow> (\<forall>n < 2 ^ 31. toInt (dec_string n) = Some (int n))"

lemma parse_levels_range:
  assumes "toInt_decimal toInt" "a < 256" "b < 256"
  shows "parse_levels toInt (dec_string a @ ''-'' @ dec_string b) = (of_nat a, of_nat (max a b))"
    "parse_levels toInt (dec_string a @ ''-'') = (of_nat a, INT_MAX)"
    "parse_levels toInt (dec_string a) = (of_nat a, of_nat a)"
proof -
  have t: "toInt (dec_string a) = Some (int a)" "toInt (dec_string b) = Some (int b)"
    using assms by (simp_all add: toInt_decimal_def)
  have u: "unat (of_nat a :: u32) = a" "unat (of_nat b :: u32) = b" using assms by (simp_all add: unat_of_nat)
  have lt: "(of_nat b :: u32) < of_nat a \<longleftrightarrow> b < a" by (simp add: word_less_nat_alt u)
  note i = index_of_append [OF dec_string_hyphen, of a, simplified] index_of_None [OF dec_string_hyphen, of a]
  show "parse_levels toInt (dec_string a @ ''-'' @ dec_string b) = (of_nat a, of_nat (max a b))"
    using t lt by (simp add: parse_levels_def i int_or_zero_def dec_string_nonempty max_def)
  have "\<not> (INT_MAX :: u32) < of_nat a" using assms(2) u by (simp add: word_less_nat_alt INT_MAX_def)
  then show "parse_levels toInt (dec_string a @ ''-'') = (of_nat a, INT_MAX)"
    using t i(1) [of "[]"] by (simp add: parse_levels_def int_or_zero_def)
  have "(0 :: u32) < of_nat a \<longleftrightarrow> a \<noteq> 0" using u by (simp add: word_less_nat_alt)
  then show "parse_levels toInt (dec_string a) = (of_nat a, of_nat a)"
    using t i(2) by (auto simp: parse_levels_def int_or_zero_def)
qed

lemma level_bytes:
  assumes "a < 256"
  shows "ucast (of_nat a :: u32) = (of_nat a :: u8)" "unat (of_nat a :: u8) = a" "(ucast INT_MAX :: u8) = 255"
proof -
  show "unat (of_nat a :: u8) = a" using assms by (simp add: unat_of_nat)
  show "ucast (of_nat a :: u32) = (of_nat a :: u8)"
    using assms by (simp add: unsigned_of_nat take_bit_nat_eq_self)
  show "(ucast INT_MAX :: u8) = 255" by (simp add: INT_MAX_def)
qed

lemma new_FilterItem_suffix:
  assumes "CHR '';'' \<notin> set re"
  shows "new_FilterItem toInt (re @ '';'' @ lv) cs =
    (let (a, b) = parse_levels toInt lv in item_init re cs (ucast a) (ucast b))"
  by (simp add: new_FilterItem_def index_of_append [OF assms])

section \<open>Properties\<close>

text \<open>C16: a bit of a spawn's mask says that a filter of this type matches. For well-formed filters and
  a type below 32, the bit of the type is set in \<open>filterMask\<close> exactly when the list of the type
  has an item whose expression is valid and found in the spawn's text and whose level range,
  when it has one, contains the level.\<close>

theorem filter_mask_exact:
  assumes "filters_ok ft fs" "t < 32"
  shows "bit (filterMask re s level fs) t \<longleftrightarrow>
    (\<exists>f fi. map_of (fs_filters fs) (2 ^ t) = Some f \<and> fi \<in> set (f_items f)
      \<and> re_valid re (fi_pattern fi) \<and> re_find re (fi_caseInsensitive fi) (fi_pattern fi) s
      \<and> (fi_minLevel fi = 0 \<and> fi_maxLevel fi = 0 \<or> fi_minLevel fi \<le> level \<and> level \<le> fi_maxLevel fi))"
  using filterMask_bit [OF assms] by (simp add: item_hits_def in_levels_def)

definition prefix_engine :: re_engine where
  "prefix_engine = \<lparr>re_valid = (\<lambda>_. True), re_find = (\<lambda>_ p s. take (length p) s = p)\<rparr>"

theorem filter_mask_exact_witness:
  "bit (filterMask prefix_engine ''an orc'' 5 ((new_Filters False)\<lparr>fs_filters :=
     [(2 ^ 3, \<lparr>f_items = [item_init ''an'' False 2 9], f_caseSensitive = False\<rparr>)]\<rparr>)) 3"
proof -
  let ?f = "\<lparr>f_items = [item_init ''an'' False 2 9], f_caseSensitive = False\<rparr>"
  let ?fs = "(new_Filters False)\<lparr>fs_filters := [(2 ^ 3, ?f)]\<rparr>"
  obtain ft where ft: "register_all FILTER_TYPE_TABLE new_FilterTypes = Some ft"
    using register_all_new [of FILTER_TYPE_TABLE] by (auto simp: FILTER_TYPE_TABLE_def)
  have "type_name ft 3 \<noteq> None" using table_types(3) [OF ft] by simp
  then have "\<exists>t<32. (2 ^ 3 :: u32) = 2 ^ t \<and> type_name ft t \<noteq> None" by (intro exI [of _ 3]) simp
  then have "filters_ok ft ?fs" by (auto simp: filters_ok_def new_Filters_def)
  from filter_mask_exact [OF this, of 3] show ?thesis
    by (simp add: new_Filters_def prefix_engine_def)
qed

text \<open>C14: the filter manager never faults. From its construction on, whatever files it finds and
  whatever the client asks for (adding, removing and editing patterns of any type, loading,
  saving, case changes, filters registered at run time), every operation returns and keeps the
  manager well formed, as long as run time types stay below 32 and at most 32 are registered.\<close>

theorem filter_manager_never_faults:
  assumes "list_all op_in_range xs" "registrations xs \<le> 32"
  shows "\<exists>fm fm'. new_FilterMgr env path cs = Some fm \<and> mgr_run env xs fm = Some fm' \<and> mgr_ok fm'"
proof -
  obtain fm where fm: "new_FilterMgr env path cs = Some fm" "mgr_ok fm" "used_types (fm_runtimeTypes fm) = 0"
    using new_FilterMgr_ok by blast
  then show ?thesis using mgr_run_total [OF fm(2) assms(1), of env] assms(2) by auto
qed

definition sample_env :: filter_env where
  "sample_env = \<lparr>fe_re = prefix_engine, fe_toUShort = (\<lambda>_ _. None), fe_open = (\<lambda>_. None),
     fe_handler = \<lparr>h_currentType = 0, h_currentFilterPattern = [], h_currentMinLevel = 0,
       h_currentMaxLevel = 0, h_inRegex = False\<rparr>,
     fe_findExisting = (\<lambda>f. ''/f/'' @ f), fe_findWrite = (\<lambda>f. ''/f/'' @ f), fe_fileName = (\<lambda>f. f)\<rparr>"

theorem filter_manager_never_faults_witness:
  "\<exists>fm fm'. new_FilterMgr sample_env ''filters.xml'' False = Some fm
    \<and> mgr_run sample_env [OpAdd 0 ''Name:a'', OpRegister ''R'', OpRunAdd 0 ''x'', OpUnregister 0, OpAdd 9 ''b''] fm = Some fm'"
proof -
  let ?xs = "[OpAdd 0 ''Name:a'', OpRegister ''R'', OpRunAdd 0 ''x'', OpUnregister 0, OpAdd 9 ''b'']"
  have "list_all op_in_range ?xs" "registrations ?xs \<le> 32" by (simp_all add: registrations_def)
  from filter_manager_never_faults [OF this, of sample_env "''filters.xml''" False] show ?thesis by blast
qed

lemma level_suffix_cases:
  assumes "CHR '';'' \<notin> set pat" "toInt_decimal toInt" "0 < a" "a \<le> b" "b < 256"
  shows "item_isFiltered re (new_FilterItem toInt (pat @ '';'' @ dec_string a @ ''-'' @ dec_string b) cs) s level
      \<longleftrightarrow> re_valid re (fix_pattern pat) \<and> re_find re (\<not> cs) (fix_pattern pat) s \<and> a \<le> unat level \<and> unat level \<le> b"
    "item_isFiltered re (new_FilterItem toInt (pat @ '';'' @ dec_string a @ ''-'') cs) s level
      \<longleftrightarrow> re_valid re (fix_pattern pat) \<and> re_find re (\<not> cs) (fix_pattern pat) s \<and> a \<le> unat level"
    "item_isFiltered re (new_FilterItem toInt (pat @ '';'' @ dec_string a) cs) s level
      \<longleftrightarrow> re_valid re (fix_pattern pat) \<and> re_find re (\<not> cs) (fix_pattern pat) s \<and> unat level = a"
proof -
  have ab: "a < 256" "b < 256" using assms by simp_all
  note p = parse_levels_range [OF assms(2) ab] and l = level_bytes [OF ab(1)] level_bytes [OF ab(2)]
  have nz: "(of_nat a :: u8) \<noteq> 0" using l(2) assms(3) by (metis neq0_conv unat_0)
  have "unat level < 2 ^ LENGTH(8)" by (rule unsigned_less)
  then have x: "level \<le> 255" by (simp add: word_le_nat_alt)
  show "item_isFiltered re (new_FilterItem toInt (pat @ '';'' @ dec_string a @ ''-'' @ dec_string b) cs) s level
      \<longleftrightarrow> re_valid re (fix_pattern pat) \<and> re_find re (\<not> cs) (fix_pattern pat) s \<and> a \<le> unat level \<and> unat level \<le> b"
    using new_FilterItem_suffix [OF assms(1), of toInt "dec_string a @ ''-'' @ dec_string b" cs] p(1) assms(4) l nz
    by (simp add: item_isFiltered_iff item_hits_def in_levels_def word_le_nat_alt max_def)
  show "item_isFiltered re (new_FilterItem toInt (pat @ '';'' @ dec_string a @ ''-'') cs) s level
      \<longleftrightarrow> re_valid re (fix_pattern pat) \<and> re_find re (\<not> cs) (fix_pattern pat) s \<and> a \<le> unat level"
    using new_FilterItem_suffix [OF assms(1), of toInt "dec_string a @ ''-''" cs] p(2) l nz x
    by (simp add: item_isFiltered_iff item_hits_def in_levels_def word_le_nat_alt)
  show "item_isFiltered re (new_FilterItem toInt (pat @ '';'' @ dec_string a) cs) s level
      \<longleftrightarrow> re_valid re (fix_pattern pat) \<and> re_find re (\<not> cs) (fix_pattern pat) s \<and> unat level = a"
    using new_FilterItem_suffix [OF assms(1), of toInt "dec_string a" cs] p(3) l nz
    by (auto simp: item_isFiltered_iff item_hits_def in_levels_def word_le_nat_alt)
qed

text \<open>a level suffix selects its levels. An item built from an expression without semicolon and
  a suffix with decimal levels matches exactly the spawns whose text the expression is found in
  and whose level is in the range: ";a" is the level a, ";a-b" the levels from a to b, ";a-" all
  levels from a on.\<close>

theorem level_suffix_selects:
  assumes "CHR '';'' \<notin> set pat" "toInt_decimal toInt" "0 < a" "a \<le> b" "b < 256"
  shows "(item_isFiltered re (new_FilterItem toInt (pat @ '';'' @ dec_string a @ ''-'' @ dec_string b) cs) s level
      \<longleftrightarrow> re_valid re (fix_pattern pat) \<and> re_find re (\<not> cs) (fix_pattern pat) s \<and> a \<le> unat level \<and> unat level \<le> b)
    \<and> (item_isFiltered re (new_FilterItem toInt (pat @ '';'' @ dec_string a @ ''-'') cs) s level
      \<longleftrightarrow> re_valid re (fix_pattern pat) \<and> re_find re (\<not> cs) (fix_pattern pat) s \<and> a \<le> unat level)
    \<and> (item_isFiltered re (new_FilterItem toInt (pat @ '';'' @ dec_string a) cs) s level
      \<longleftrightarrow> re_valid re (fix_pattern pat) \<and> re_find re (\<not> cs) (fix_pattern pat) s \<and> unat level = a)"
  using level_suffix_cases [OF assms] by blast

theorem level_suffix_selects_witness:
  "item_isFiltered prefix_engine (new_FilterItem (\<lambda>s. Some (int (digits_value s))) ''an;2-9'' True) ''an orc'' 5"
proof -
  have t: "toInt_decimal (\<lambda>s. Some (int (digits_value s)))" by (simp add: toInt_decimal_def digits_value_dec)
  have d: "dec_string 2 = ''2''" "dec_string 9 = ''9''" by code_simp+
  have "CHR '';'' \<notin> set ''an''" "(0 :: nat) < 2" "(2 :: nat) \<le> 9" "(9 :: nat) < 256" by simp_all
  from level_suffix_selects [OF this(1) t this(2-4), THEN conjunct1, of prefix_engine True "''an orc''" 5, unfolded d]
  show ?thesis by (simp add: prefix_engine_def lower_char_def)
qed

lemma env_load_missing:
  "fe_open env f = None \<Longrightarrow> env_load env ft f fs = Some ((filters_clear fs)\<lparr>fs_file := f\<rparr>)"
  by (auto simp: env_load_def filters_load_def Let_def intro: exI [of _ False])

lemma new_FilterMgr_no_files:
  assumes "\<And>f. fe_open env f = None" "new_FilterMgr env path cs = Some fm"
  shows "fs_filters (fm_filters fm) = []"
  using assms(2) by (auto simp: new_FilterMgr_def loadZone_def loadFilters_file_def loadZone_file_def Let_def
      bind_Some_iff env_load_missing [OF assms(1)] filters_clear_def)

text \<open>the manager does not read a level suffix. A pattern with a semicolon that is added through
  the manager becomes an item for all levels whose expression still holds the suffix, although
  the constructor for patterns would have split it off; the comment in \<open>init\<close> says it is removed.\<close>

theorem manager_keeps_level_suffix:
  assumes "mgr_ok fm" "ty < SIZEOF_FILTERS" "CHR '';'' \<notin> set pat"
    "\<And>f fi. map_of (fs_filters (fm_filters fm)) (2 ^ unat ty) = Some f \<Longrightarrow> fi \<in> set (f_items f)
       \<Longrightarrow> fi_pattern fi \<noteq> pat @ '';'' @ lv"
  shows "\<exists>ok fm' ev f fi. mgr_addFilter env ty (pat @ '';'' @ lv) fm = Some (ok, fm', ev)
    \<and> map_of (fs_filters (fm_filters fm')) (2 ^ unat ty) = Some f \<and> fi \<in> set (f_items f)
    \<and> fi_pattern fi = fix_pattern (pat @ '';'' @ lv) \<and> fi_minLevel fi = 0 \<and> fi_maxLevel fi = 0
    \<and> fi_pattern (new_FilterItem toInt (pat @ '';'' @ lv) cs) = fix_pattern pat"
proof -
  let ?p = "pat @ '';'' @ lv" and ?fs = "fm_filters fm"
  have ty: "unat ty < 7" using assms(2) by (simp add: SIZEOF_FILTERS_def word_less_nat_alt)
  have ft: "register_all FILTER_TYPE_TABLE new_FilterTypes = Some (fm_types fm)" using assms(1) by (simp add: mgr_ok_def)
  have v: "validMask (fm_types fm) (2 ^ unat ty)"
    using validMask_iff [OF mgr_okD(2) [OF assms(1)]] table_types(3) [OF ft] ty by simp
  define f where "f = (case map_of (fs_filters ?fs) (2 ^ unat ty) of None \<Rightarrow> new_Filter (fs_caseSensitive ?fs) | Some f \<Rightarrow> f)"
  have "findFilter ?p f = None"
    using assms(4) by (auto simp: findFilter_None f_def new_Filter_def split: option.splits)
  then have a: "filter_add (fe_re env) ?p 0 0 f = (item_valid (fe_re env) (item_init ?p (f_caseSensitive f) 0 0),
      f\<lparr>f_items := f_items f @ [item_init ?p (f_caseSensitive f) 0 0]\<rparr>)"
    by (simp add: filter_add_def new_FilterItem_levels_def Let_def)
  have "fi_pattern (new_FilterItem toInt ?p cs) = fix_pattern pat"
    using new_FilterItem_suffix [OF assms(3)] by (simp add: split_beta)
  moreover have "\<not> SIZEOF_FILTERS \<le> ty" using assms(2) by simp
  moreover have "filters_add (fe_re env) (fm_types fm) ty ?p 0 0 ?fs = Some (item_valid (fe_re env) (item_init ?p (f_caseSensitive f) 0 0),
      ?fs\<lparr>fs_filters := om_assign (2 ^ unat ty) (f\<lparr>f_items := f_items f @ [item_init ?p (f_caseSensitive f) 0 0]\<rparr>) (fs_filters ?fs)\<rparr>)"
    using ty v by (simp add: filters_add_def mask_of_def f_def [symmetric] a [simplified])
  ultimately show ?thesis by (auto simp: mgr_addFilter_def)
qed

theorem manager_keeps_level_suffix_witness:
  "\<exists>fm fm' ok ev f fi. new_FilterMgr sample_env ''filters.xml'' False = Some fm
    \<and> mgr_addFilter sample_env 1 ''an orc;5-9'' fm = Some (ok, fm', ev)
    \<and> map_of (fs_filters (fm_filters fm')) 2 = Some f \<and> fi \<in> set (f_items f)
    \<and> fi_pattern fi = fix_pattern ''an orc;5-9''"
proof -
  obtain fm where fm: "new_FilterMgr sample_env ''filters.xml'' False = Some fm" "mgr_ok fm"
    using new_FilterMgr_ok by blast
  have e: "fs_filters (fm_filters fm) = []"
    by (rule new_FilterMgr_no_files [OF _ fm(1)]) (simp add: sample_env_def)
  have "\<exists>ok fm' ev f fi. mgr_addFilter sample_env 1 (''an orc'' @ '';'' @ ''5-9'') fm = Some (ok, fm', ev)
    \<and> map_of (fs_filters (fm_filters fm')) (2 ^ unat (1 :: u8)) = Some f \<and> fi \<in> set (f_items f)
    \<and> fi_pattern fi = fix_pattern (''an orc'' @ '';'' @ ''5-9'') \<and> fi_minLevel fi = 0 \<and> fi_maxLevel fi = 0
    \<and> fi_pattern (new_FilterItem (\<lambda>_. None) (''an orc'' @ '';'' @ ''5-9'') True) = fix_pattern ''an orc''"
    by (rule manager_keeps_level_suffix [OF fm(2)]) (simp_all add: SIZEOF_FILTERS_def e)
  then obtain ok fm' ev f fi where "mgr_addFilter sample_env 1 (''an orc'' @ '';'' @ ''5-9'') fm = Some (ok, fm', ev)"
    "map_of (fs_filters (fm_filters fm')) (2 ^ unat (1 :: u8)) = Some f" "fi \<in> set (f_items f)"
    "fi_pattern fi = fix_pattern (''an orc'' @ '';'' @ ''5-9'')" by blast
  then show ?thesis using fm(1) by (intro exI [of _ fm] exI [of _ fm'] exI [of _ ok] exI [of _ ev] exI [of _ f] exI [of _ fi]) simp
qed

end
