(* ===== verification/FilterFile.thy ===== *)
theory FilterFile
  imports FilterProps
begin

text \<open>
  The filter file as an XML document: the text that \<open>Filters::save\<close> writes is the print of a
  document, and loading the tokens of this document restores the filters.
\<close>

section \<open>Documents\<close>

datatype xml =
    XElem string "(string \<times> string) list" "xml list"
  | XEmpty string "(string \<times> string) list"
  | XText string

definition print_attrs :: "(string \<times> string) list \<Rightarrow> string" where
  "print_attrs attrs = concat (map (\<lambda>(n, v). '' '' @ n @ ''='' @ quoted v) attrs)"

fun xml_print :: "xml \<Rightarrow> string" where
  "xml_print (XElem n attrs ds) = ''<'' @ n @ print_attrs attrs @ ''>'' @ concat (map xml_print ds) @ ''</'' @ n @ ''>''"
| "xml_print (XEmpty n attrs) = ''<'' @ n @ print_attrs attrs @ ''/>''"
| "xml_print (XText s) = s"

fun xml_tokens :: "xml \<Rightarrow> filter_token list" where
  "xml_tokens (XElem n attrs ds) = FStartElement n attrs # concat (map xml_tokens ds) @ [FEndElement n]"
| "xml_tokens (XEmpty n attrs) = [FStartElement n attrs, FEndElement n]"
| "xml_tokens (XText s) = [FCharacters s]"

text \<open>Plain documents: no character that XML would have to escape, no empty text and no two texts
  in a row, so that a reader reports every text as one token.\<close>

definition plain_char :: "char \<Rightarrow> bool" where
  "plain_char c \<longleftrightarrow> c \<notin> {CHR ''<'', CHR ''>'', CHR ''&'', CHR 0x22} \<and> (let n = of_char c :: nat in 32 \<le> n \<and> n < 127)"

definition plain_text :: "string \<Rightarrow> bool" where
  "plain_text s \<longleftrightarrow> s \<noteq> [] \<and> list_all (\<lambda>c. plain_char c \<or> c = CHR 0x0A) s"

fun no_text_pair :: "xml list \<Rightarrow> bool" where
  "no_text_pair (XText s # XText t # ds) = False"
| "no_text_pair (d # ds) = no_text_pair ds"
| "no_text_pair [] = True"

fun xml_plain :: "xml \<Rightarrow> bool" where
  "xml_plain (XElem n attrs ds) \<longleftrightarrow> list_all (\<lambda>(n, v). list_all plain_char v) attrs \<and> no_text_pair ds \<and> list_all xml_plain ds"
| "xml_plain (XEmpty n attrs) \<longleftrightarrow> list_all (\<lambda>(n, v). list_all plain_char v) attrs"
| "xml_plain (XText s) \<longleftrightarrow> plain_text s"

text \<open>What the reader is relied on for: the tokens of a plain document behind the declaration and
  the document type.\<close>

definition file_text :: "xml \<Rightarrow> string" where
  "file_text d = ''<?xml version='' @ quoted ''1.0'' @ '' encoding='' @ quoted ''UTF-8'' @ ''?>'' @ endl
     @ ''<!DOCTYPE seqfilters SYSTEM '' @ quoted ''seqfilters.dtd'' @ ''>'' @ endl @ xml_print d @ endl"

definition reads_document :: "(string \<Rightarrow> filter_token list) \<Rightarrow> xml \<Rightarrow> bool" where
  "reads_document reader d \<longleftrightarrow> (xml_plain d \<longrightarrow>
     reader (file_text d) = FStartDocument # FOther # xml_tokens d @ [FEndDocument])"

section \<open>The document of a filter file\<close>

definition level_attrs :: "FilterItem \<Rightarrow> (string \<times> string) list" where
  "level_attrs fi =
     (if fi_minLevel fi \<noteq> 0 then [(''min'', dec_string (unat (fi_minLevel fi)))] else [])
     @ (if fi_maxLevel fi \<noteq> 0 then [(''max'', dec_string (unat (fi_maxLevel fi)))] else [])"

definition item_doc :: "FilterItem \<Rightarrow> xml" where
  "item_doc fi = XElem ''oldfilter'' []
     ((if fi_pattern fi \<noteq> [] then [XElem ''regex'' [] [XText (fi_original fi)]] else [])
      @ (if level_attrs fi \<noteq> [] then [XEmpty ''level'' (level_attrs fi)] else []))"

definition section_doc :: "FilterTypes \<Rightarrow> u32 \<Rightarrow> Filter \<Rightarrow> xml" where
  "section_doc ft k f = XElem ''section'' [(''name'', name_of_mask ft k)]
     (concat (map (\<lambda>fi. [XText (endl @ ''        ''), item_doc fi]) (f_items f)) @ [XText (endl @ ''    '')])"

definition filters_doc :: "FilterTypes \<Rightarrow> Filters \<Rightarrow> xml" where
  "filters_doc ft fs = XElem ''seqfilters'' []
     (concat (map (\<lambda>(k, f). [XText (endl @ ''    ''), section_doc ft k f]) (fs_filters fs)) @ [XText endl])"

lemma concat_shift: "concat (map (\<lambda>x. e @ g x) xs) @ e = e @ concat (map (\<lambda>x. g x @ e) xs)"
  by (induction xs) auto

lemma item_save_print: "item_save indent fi = indent @ xml_print (item_doc fi) @ endl"
  by (auto simp: item_save_def item_doc_def level_attrs_def print_attrs_def)

lemma section_print:
  "xml_print (section_doc ft k f) = ''<section name='' @ quoted (name_of_mask ft k) @ ''>'' @ endl
     @ filter_save ''    '' f @ ''    </section>''"
proof -
  have "concat (map xml_print (concat (map (\<lambda>fi. [XText (endl @ ''        ''), item_doc fi]) xs)))
      = concat (map (\<lambda>fi. endl @ (''        '' @ xml_print (item_doc fi))) xs)" for xs by (induction xs) auto
  moreover have "filter_save ''    '' f = concat (map (\<lambda>fi. (''        '' @ xml_print (item_doc fi)) @ endl) (f_items f))"
    by (simp add: filter_save_def item_save_print [abs_def])
  ultimately show ?thesis
    using concat_shift [of endl "\<lambda>fi. ''        '' @ xml_print (item_doc fi)" "f_items f"]
    by (simp add: section_doc_def print_attrs_def)
qed

text \<open>The saved text is the document's.\<close>

lemma filters_save_text: "filters_save ft fs = file_text (filters_doc ft fs)"
proof -
  have "concat (map xml_print (concat (map (\<lambda>(k, f). [XText (endl @ ''    ''), section_doc ft k f]) xs)))
      = concat (map (\<lambda>x. endl @ (''    '' @ xml_print (section_doc ft (fst x) (snd x)))) xs)" for xs
    by (induction xs) auto
  moreover have "concat (map (\<lambda>(k, f). ''    <section name='' @ quoted (name_of_mask ft k) @ ''>'' @ endl
          @ filter_save ''    '' f @ ''    </section>'' @ endl) xs)
      = concat (map (\<lambda>x. (''    '' @ xml_print (section_doc ft (fst x) (snd x))) @ endl) xs)" for xs
    by (induction xs) (auto simp: section_print)
  ultimately show ?thesis
    using concat_shift [of endl "\<lambda>x. ''    '' @ xml_print (section_doc ft (fst x) (snd x))" "fs_filters fs"]
    by (simp add: filters_save_def file_text_def filters_doc_def print_attrs_def)
qed

section \<open>Loading the document\<close>

text \<open>The items a filter list with a given case setting can hold.\<close>

definition made_item :: "bool \<Rightarrow> FilterItem \<Rightarrow> bool" where
  "made_item cs fi \<longleftrightarrow> fi = item_init (fi_original fi) cs (fi_minLevel fi) (fi_maxLevel fi)"

lemma fix_pattern_empty: "fix_pattern p = [] \<longleftrightarrow> p = []"
  by (cases p) auto

definition toUShort_decimal :: "toUShort \<Rightarrow> bool" where
  "toUShort_decimal tu \<longleftrightarrow> (\<forall>n<256. tu 10 (dec_string n) = Some (of_nat n))"

lemma level_value_dec:
  assumes "toUShort_decimal tu"
  shows "level_value tu (dec_string (unat (w :: u8))) = w"
proof -
  have w: "unat w < 256" using unsigned_less [of w] by simp
  then have "tu 10 (dec_string (unat w)) = Some (of_nat (unat w))" using assms by (simp add: toUShort_decimal_def)
  moreover have "ucast (ucast w :: u16) = w" by (rule bit_word_eqI) (simp add: bit_simps)
  ultimately show ?thesis by (simp add: level_value_def)
qed

lemma load_tokens_Cons:
  "load_step re tu ft tok h fs = Some (True, h1, fs1) \<Longrightarrow>
    load_tokens re tu ft (tok # toks) h fs = load_tokens re tu ft toks h1 fs1"
  by simp

text \<open>The tokens of an item, inside a section of type \<open>ty\<close>.\<close>

lemma load_item:
  assumes "made_item cs fi" "toUShort_decimal tu" "\<not> h_inRegex h" "h_currentType h = ty" "ty \<le> ft_maxType ft"
    "filters_add re ft ty (fi_original fi) (fi_minLevel fi) (fi_maxLevel fi) fs = Some (ok, fs1)"
  shows "\<exists>h1. load_tokens re tu ft (xml_tokens (item_doc fi) @ toks) h fs = load_tokens re tu ft toks h1 fs1
    \<and> \<not> h_inRegex h1 \<and> h_currentType h1 = ty"
proof -
  let ?h0 = "h\<lparr>h_currentFilterPattern := [], h_currentMinLevel := 0, h_currentMaxLevel := 0\<rparr>"
  let ?h1 = "?h0\<lparr>h_currentFilterPattern := fi_original fi\<rparr>"
  let ?h2 = "?h1\<lparr>h_currentMinLevel := fi_minLevel fi, h_currentMaxLevel := fi_maxLevel fi\<rparr>"
  have p: "fi_pattern fi = fix_pattern (fi_original fi)" using assms(1) by (metis made_item_def item_init_fields(1))
  have r: "load_tokens re tu ft ((if fi_pattern fi \<noteq> [] then xml_tokens (XElem ''regex'' [] [XText (fi_original fi)]) else []) @ ts) ?h0 fs
      = load_tokens re tu ft ts ?h1 fs" for ts
    using assms(3) p by (cases h) (auto simp: startElement_def characters_def endElement_def fix_pattern_empty)
  have l: "load_tokens re tu ft ((if level_attrs fi \<noteq> [] then xml_tokens (XEmpty ''level'' (level_attrs fi)) else []) @ ts) ?h1 fs
      = load_tokens re tu ft ts ?h2 fs" for ts
    using level_value_dec [OF assms(2)] dec_string_nonempty
    by (cases h) (auto simp: level_attrs_def startElement_def endElement_def attr_value_def Let_def)
  have e: "load_tokens re tu ft (FEndElement ''oldfilter'' # ts) ?h2 fs = load_tokens re tu ft ts ?h2 fs1" for ts
    using assms(4-6) by (simp add: endElement_def)
  have "xml_tokens (item_doc fi) @ toks = FStartElement ''oldfilter'' [] #
      (if fi_pattern fi \<noteq> [] then xml_tokens (XElem ''regex'' [] [XText (fi_original fi)]) else []) @
      (if level_attrs fi \<noteq> [] then xml_tokens (XEmpty ''level'' (level_attrs fi)) else []) @
      FEndElement ''oldfilter'' # toks"
    by (simp add: item_doc_def)
  moreover have "load_tokens re tu ft (FStartElement ''oldfilter'' [] # ts) h fs = load_tokens re tu ft ts ?h0 fs" for ts
    by (simp add: startElement_def)
  ultimately have "load_tokens re tu ft (xml_tokens (item_doc fi) @ toks) h fs = load_tokens re tu ft toks ?h2 fs1"
    by (simp only: r l e)
  then show ?thesis using assms(3,4) by (intro exI [of _ ?h2]) simp
qed

text \<open>Adding to the last entry of the map.\<close>

lemma om_assign_last:
  "(\<forall>x \<in> fst ` set m. x < k) \<Longrightarrow> om_assign k v m = m @ [(k, v)]"
  "(\<forall>x \<in> fst ` set m. x < k) \<Longrightarrow> om_assign k v (m @ [(k, v')]) = m @ [(k, v)]"
  by (induction m) (auto dest: less_imp_not_less)

lemma map_of_last: "(\<forall>x \<in> fst ` set m. x < (k :: 'a::linorder)) \<Longrightarrow> map_of m k = None"
  by (force simp: map_of_eq_None_iff)

text \<open>The entry under construction, with the items read so far.\<close>

definition partial :: "(u32, Filter) omap \<Rightarrow> u32 \<Rightarrow> bool \<Rightarrow> FilterItem list \<Rightarrow> (u32, Filter) omap" where
  "partial m k cs fis = (if fis = [] then m else m @ [(k, \<lparr>f_items = fis, f_caseSensitive = cs\<rparr>)])"

lemma add_partial:
  assumes "mask_of ty = Some k" "validMask ft k" "\<forall>x \<in> fst ` set m. x < k" "made_item cs fi"
    "fs_caseSensitive fs = cs" "fs_filters fs = partial m k cs fis" "items_ok (fis @ fi # rest)"
  shows "\<exists>ok. filters_add re ft ty (fi_original fi) (fi_minLevel fi) (fi_maxLevel fi) fs
    = Some (ok, fs\<lparr>fs_filters := partial m k cs (fis @ [fi])\<rparr>)"
proof -
  let ?f = "\<lparr>f_items = fis, f_caseSensitive = cs\<rparr>"
  have "\<forall>fi' \<in> set fis. fi_original fi \<noteq> fi_pattern fi'" using assms(7)
    by (induction fis rule: items_ok.induct) auto
  then have "findFilter (fi_original fi) ?f = None" by (auto simp: findFilter_None)
  moreover have "new_FilterItem_levels (fi_original fi) cs (fi_minLevel fi) (fi_maxLevel fi) = fi"
    using assms(4) by (simp add: made_item_def new_FilterItem_levels_def)
  ultimately have a: "filter_add re (fi_original fi) (fi_minLevel fi) (fi_maxLevel fi) ?f
      = (item_valid re fi, \<lparr>f_items = fis @ [fi], f_caseSensitive = cs\<rparr>)"
    by (simp add: filter_add_def Let_def)
  have g: "(case map_of (fs_filters fs) k of None \<Rightarrow> new_Filter (fs_caseSensitive fs) | Some f \<Rightarrow> f) = ?f"
    using assms(5,6) map_of_last [OF assms(3)] by (simp add: partial_def new_Filter_def map_add_def)
  have "om_assign k \<lparr>f_items = fis @ [fi], f_caseSensitive = cs\<rparr> (fs_filters fs) = partial m k cs (fis @ [fi])"
    using assms(6) om_assign_last [OF assms(3)] by (simp add: partial_def)
  then show ?thesis using assms(1,2) g a by (simp add: filters_add_def Let_def)
qed

lemma load_items:
  assumes "mask_of ty = Some k" "validMask ft k" "\<forall>x \<in> fst ` set m. x < k" "ty \<le> ft_maxType ft" "toUShort_decimal tu"
  shows "list_all (made_item cs) fis' \<Longrightarrow> items_ok (fis @ fis') \<Longrightarrow> \<not> h_inRegex h \<Longrightarrow> h_currentType h = ty \<Longrightarrow>
    fs_caseSensitive fs = cs \<Longrightarrow> fs_filters fs = partial m k cs fis \<Longrightarrow>
    \<exists>h1. load_tokens re tu ft (concat (map (\<lambda>fi. FCharacters w # xml_tokens (item_doc fi)) fis') @ toks) h fs
      = load_tokens re tu ft toks h1 (fs\<lparr>fs_filters := partial m k cs (fis @ fis')\<rparr>)
    \<and> \<not> h_inRegex h1 \<and> h_currentType h1 = ty"
proof (induction fis' arbitrary: fis h fs)
  case (Cons fi fis')
  let ?rest = "concat (map (\<lambda>fi. FCharacters w # xml_tokens (item_doc fi)) fis') @ toks"
  let ?fs1 = "fs\<lparr>fs_filters := partial m k cs (fis @ [fi])\<rparr>"
  have mi: "made_item cs fi" using Cons.prems(1) by simp
  obtain ok where "filters_add re ft ty (fi_original fi) (fi_minLevel fi) (fi_maxLevel fi) fs = Some (ok, ?fs1)"
    using add_partial [OF assms(1-3) mi Cons.prems(5,6,2)] by blast
  from load_item [OF mi assms(5) Cons.prems(3,4) assms(4) this, of ?rest] obtain h1 where
    h1: "load_tokens re tu ft (xml_tokens (item_doc fi) @ ?rest) h fs = load_tokens re tu ft ?rest h1 ?fs1"
    "\<not> h_inRegex h1" "h_currentType h1 = ty" by blast
  have ok1: "items_ok ((fis @ [fi]) @ fis')" "fs_caseSensitive ?fs1 = cs" "list_all (made_item cs) fis'"
    using Cons.prems by simp_all
  have "\<exists>h2. load_tokens re tu ft ?rest h1 ?fs1
      = load_tokens re tu ft toks h2 (?fs1\<lparr>fs_filters := partial m k cs ((fis @ [fi]) @ fis')\<rparr>)
    \<and> \<not> h_inRegex h2 \<and> h_currentType h2 = ty"
    by (rule Cons.IH [OF ok1(3,1) h1(2,3) ok1(2)]) simp
  then show ?case using h1(1) Cons.prems(3) by (simp add: characters_def)
next
  case Nil
  have "fs\<lparr>fs_filters := partial m k cs fis\<rparr> = fs" using Nil(6) by (cases fs) simp
  then show ?case using Nil(3,4) by auto
qed

lemma load_section:
  assumes "mask_of ty = Some k" "validMask ft k" "type_of_name ft (name_of_mask ft k) = Some ty" "name_of_mask ft k \<noteq> []"
    "ty \<le> ft_maxType ft" "toUShort_decimal tu" "\<forall>x \<in> fst ` set (fs_filters fs). x < k"
    "list_all (made_item (fs_caseSensitive fs)) (f_items f)" "items_ok (f_items f)" "\<not> h_inRegex h"
  shows "\<exists>h1. load_tokens re tu ft (FCharacters w # xml_tokens (section_doc ft k f) @ toks) h fs
      = load_tokens re tu ft toks h1 (fs\<lparr>fs_filters := partial (fs_filters fs) k (fs_caseSensitive fs) (f_items f)\<rparr>)
    \<and> \<not> h_inRegex h1"
proof -
  let ?h = "h\<lparr>h_currentType := ty\<rparr>" and ?w = "endl @ ''        ''"
  let ?tail = "FCharacters (endl @ ''    '') # FEndElement ''section'' # toks"
  have p0: "fs_filters fs = partial (fs_filters fs) k (fs_caseSensitive fs) []" by (simp add: partial_def)
  have "\<exists>h1. load_tokens re tu ft (concat (map (\<lambda>fi. FCharacters ?w # xml_tokens (item_doc fi)) (f_items f)) @ ?tail) ?h fs
      = load_tokens re tu ft ?tail h1 (fs\<lparr>fs_filters := partial (fs_filters fs) k (fs_caseSensitive fs) ([] @ f_items f)\<rparr>)
    \<and> \<not> h_inRegex h1 \<and> h_currentType h1 = ty"
    by (rule load_items [OF assms(1,2,7,5,6) assms(8) _ _ _ _ p0]) (use assms(9,10) in simp_all)
  then obtain h1 where h1: "load_tokens re tu ft (concat (map (\<lambda>fi. FCharacters ?w # xml_tokens (item_doc fi)) (f_items f)) @ ?tail) ?h fs
      = load_tokens re tu ft ?tail h1 (fs\<lparr>fs_filters := partial (fs_filters fs) k (fs_caseSensitive fs) (f_items f)\<rparr>)"
    "\<not> h_inRegex h1" by auto
  have c: "concat (map xml_tokens (concat (map (\<lambda>fi. [XText v, item_doc fi]) xs)))
      = concat (map (\<lambda>fi. FCharacters v # xml_tokens (item_doc fi)) xs)" for v xs by (induction xs) auto
  have "load_tokens re tu ft (FCharacters w # xml_tokens (section_doc ft k f) @ toks) h fs
      = load_tokens re tu ft (concat (map (\<lambda>fi. FCharacters ?w # xml_tokens (item_doc fi)) (f_items f)) @ ?tail) ?h fs"
    using assms(3,4,10) by (simp add: section_doc_def c characters_def startElement_def attr_value_def)
  then show ?thesis using h1 by (intro exI [of _ "h1\<lparr>h_currentType := 255\<rparr>"]) (simp add: characters_def endElement_def)
qed

section \<open>Saveable filters\<close>

definition saveable :: "FilterTypes \<Rightarrow> Filters \<Rightarrow> bool" where
  "saveable ft fs \<longleftrightarrow> fixed_types ft \<and> filters_ok ft fs
     \<and> (\<forall>t t' n. type_name ft t = Some n \<and> type_name ft t' = Some n \<longrightarrow> t = t')
     \<and> (\<forall>t n. type_name ft t = Some n \<longrightarrow> n \<noteq> [] \<and> real_name n \<and> list_all plain_char n)
     \<and> (\<forall>k f. map_of (fs_filters fs) k = Some f \<longrightarrow> f_caseSensitive f = fs_caseSensitive fs
          \<and> list_all (\<lambda>fi. made_item (fs_caseSensitive fs) fi \<and> list_all plain_char (fi_original fi)) (f_items f))"

definition drop_empty :: "(u32, Filter) omap \<Rightarrow> (u32, Filter) omap" where
  "drop_empty m = filter (\<lambda>(k, f). f_items f \<noteq> []) m"

text \<open>The type of an entry, from its mask.\<close>

lemma saveable_type:
  assumes "saveable ft fs" "map_of (fs_filters fs) k = Some f"
  obtains ty where "mask_of ty = Some k" "validMask ft k" "type_of_name ft (name_of_mask ft k) = Some ty"
    "name_of_mask ft k \<noteq> []" "list_all plain_char (name_of_mask ft k)" "ty \<le> ft_maxType ft"
proof -
  have ft: "types_ok ft" and fs: "filters_ok ft fs" using assms(1) by (auto simp: saveable_def fixed_types_def)
  obtain t n where t: "t < 32" "k = 2 ^ t" "type_name ft t = Some n" using filters_okD(3) [OF fs assms(2)] by auto
  have n: "n \<noteq> []" "real_name n" "list_all plain_char n" "\<forall>i<t. type_name ft i \<noteq> Some n"
    using assms(1) t(3) unfolding saveable_def by blast+
  have nm: "name_of_mask ft k = n" using t by (simp add: type_name_def name_of_mask_def)
  have "type_of_name ft n = Some (of_nat t)"
    unfolding type_of_name_def by (rule type_from_found [OF ft t(3) n(2,4)]) simp
  moreover have "(of_nat t :: u8) \<le> ft_maxType ft"
    using types_okD(3) [OF ft t(3)] u8_of_nat [of t] by (simp add: word_le_nat_alt)
  moreover have "mask_of (of_nat t) = Some k" using mask_of_Some t by simp
  moreover have "validMask ft k" using validMask_iff [OF ft t(1)] t by simp
  ultimately show thesis using that nm n by simp
qed

lemma load_sections:
  assumes "saveable ft gs" "toUShort_decimal tu"
  shows "om_ok xs \<Longrightarrow> set xs \<subseteq> set (fs_filters gs) \<Longrightarrow> fs_caseSensitive fs = fs_caseSensitive gs \<Longrightarrow>
    (\<forall>x \<in> fst ` set (fs_filters fs). \<forall>y \<in> fst ` set xs. x < y) \<Longrightarrow> \<not> h_inRegex h \<Longrightarrow>
    \<exists>h1. load_tokens re tu ft (concat (map (\<lambda>(k, f). FCharacters w # xml_tokens (section_doc ft k f)) xs) @ toks) h fs
      = load_tokens re tu ft toks h1 (fs\<lparr>fs_filters := fs_filters fs @ drop_empty xs\<rparr>)
    \<and> \<not> h_inRegex h1"
proof (induction xs arbitrary: h fs)
  case Nil
  then show ?case by (intro exI [of _ h]) (simp add: drop_empty_def)
next
  case (Cons x xs)
  obtain k f where x: "x = (k, f)" by fastforce
  have om: "om_ok (fs_filters gs)" using assms(1) by (auto simp: saveable_def filters_ok_def)
  have m: "map_of (fs_filters gs) k = Some f"
    using Cons.prems(2) x om_ok_distinct [OF om] by (simp add: map_of_eq_Some_iff)
  obtain ty where ty: "mask_of ty = Some k" "validMask ft k" "type_of_name ft (name_of_mask ft k) = Some ty"
    "name_of_mask ft k \<noteq> []" "ty \<le> ft_maxType ft" using saveable_type [OF assms(1) m] by blast
  have f: "f_caseSensitive f = fs_caseSensitive fs" "list_all (made_item (fs_caseSensitive fs)) (f_items f)"
    "items_ok (f_items f)"
    using assms(1) m Cons.prems(3) by (auto simp: saveable_def filters_ok_def list_all_iff)
  have lt: "\<forall>x \<in> fst ` set (fs_filters fs). x < k" using Cons.prems(4) x by auto
  let ?fs1 = "fs\<lparr>fs_filters := partial (fs_filters fs) k (fs_caseSensitive fs) (f_items f)\<rparr>"
  let ?rest = "concat (map (\<lambda>(k, f). FCharacters w # xml_tokens (section_doc ft k f)) xs) @ toks"
  obtain h1 where h1: "load_tokens re tu ft (FCharacters w # xml_tokens (section_doc ft k f) @ ?rest) h fs
      = load_tokens re tu ft ?rest h1 ?fs1" "\<not> h_inRegex h1"
    using load_section [OF ty assms(2) lt f(2,3) Cons.prems(5)] by blast
  have p: "partial (fs_filters fs) k (fs_caseSensitive fs) (f_items f) = fs_filters fs @ drop_empty [(k, f)]"
    using f(1) by (cases f) (simp add: partial_def drop_empty_def)
  have sub: "fst ` set (partial (fs_filters fs) k (fs_caseSensitive fs) (f_items f)) \<subseteq> insert k (fst ` set (fs_filters fs))"
    by (auto simp: partial_def)
  have c4: "\<forall>x \<in> fst ` set (fs_filters ?fs1). \<forall>y \<in> fst ` set xs. x < y"
  proof (intro ballI)
    fix a b assume a: "a \<in> fst ` set (fs_filters ?fs1)" and b: "b \<in> fst ` set xs"
    have "a = k \<or> a \<in> fst ` set (fs_filters fs)" using a sub by auto
    then show "a < b" using b Cons.prems(1,4) x by auto
  qed
  have c: "om_ok xs" "set xs \<subseteq> set (fs_filters gs)" "fs_caseSensitive ?fs1 = fs_caseSensitive gs"
    using Cons.prems x by auto
  obtain h2 where h2: "load_tokens re tu ft ?rest h1 ?fs1
      = load_tokens re tu ft toks h2 (?fs1\<lparr>fs_filters := fs_filters ?fs1 @ drop_empty xs\<rparr>)" "\<not> h_inRegex h2"
    using Cons.IH [OF c c4 h1(2)] by blast
  have "fs_filters ?fs1 @ drop_empty xs = fs_filters fs @ drop_empty (x # xs)" by (simp add: p x drop_empty_def)
  then show ?case using h1 h2 x by (intro exI [of _ h2]) simp
qed

text \<open>The document is plain.\<close>

lemma dec_string_plain: "list_all plain_char (dec_string n)"
proof -
  have "plain_char c" if "c \<in> set (dec_string n)" for c
    using dec_string_digits [OF that] by (auto simp: plain_char_def Let_def)
  then show ?thesis by (simp add: list_all_iff)
qed

lemma no_text_pair_alternating:
  "(\<And>x s. x \<in> set xs \<Longrightarrow> e x \<noteq> XText s) \<Longrightarrow> no_text_pair (concat (map (\<lambda>x. [XText v, e x]) xs) @ [XText w])"
proof (induction xs)
  case (Cons x xs)
  let ?r = "concat (map (\<lambda>x. [XText v, e x]) xs) @ [XText w]"
  have "no_text_pair ?r" using Cons by simp
  then have "no_text_pair (XText v # e x # ?r)" using Cons.prems [of x] by (cases "e x") auto
  then show ?case by simp
qed simp

lemma item_doc_plain:
  assumes "fi_pattern fi = fix_pattern (fi_original fi)" "list_all plain_char (fi_original fi)"
  shows "xml_plain (item_doc fi)"
  using assms dec_string_plain
  by (auto simp: item_doc_def level_attrs_def plain_text_def list_all_iff fix_pattern_empty)

lemma plain_white: "plain_text (endl @ ''        '')" "plain_text (endl @ ''    '')" "plain_text endl"
  by (simp_all add: plain_text_def endl_def plain_char_def)

lemma section_doc_plain:
  assumes "list_all plain_char (name_of_mask ft k)" "\<forall>fi \<in> set (f_items f). xml_plain (item_doc fi)"
  shows "xml_plain (section_doc ft k f)"
proof -
  have "no_text_pair (concat (map (\<lambda>fi. [XText (endl @ ''        ''), item_doc fi]) (f_items f)) @ [XText (endl @ ''    '')])"
    by (rule no_text_pair_alternating) (simp add: item_doc_def)
  moreover have "list_all xml_plain (concat (map (\<lambda>fi. [XText (endl @ ''        ''), item_doc fi]) (f_items f)))"
    using assms(2) plain_white by (auto simp: list_all_iff)
  ultimately show ?thesis using assms(1) plain_white by (simp add: section_doc_def)
qed

lemma filters_doc_plain:
  assumes "saveable ft fs"
  shows "xml_plain (filters_doc ft fs)"
proof -
  have d: "distinct (map fst (fs_filters fs))"
    using assms by (auto simp: saveable_def filters_ok_def om_ok_distinct)
  have s: "xml_plain (section_doc ft k f)" if kf: "(k, f) \<in> set (fs_filters fs)" for k f
  proof -
    have m: "map_of (fs_filters fs) k = Some f" using d kf by (simp add: map_of_eq_Some_iff)
    obtain ty where "list_all plain_char (name_of_mask ft k)" by (rule saveable_type [OF assms m])
    moreover have "xml_plain (item_doc fi)" if "fi \<in> set (f_items f)" for fi
    proof -
      have "made_item (fs_caseSensitive fs) fi" "list_all plain_char (fi_original fi)"
        using assms m that by (auto simp: saveable_def list_all_iff)
      then show ?thesis by (intro item_doc_plain) (metis made_item_def item_init_fields(1))
    qed
    ultimately show ?thesis by (intro section_doc_plain) auto
  qed
  have "no_text_pair (concat (map (\<lambda>x. [XText (endl @ ''    ''), section_doc ft (fst x) (snd x)]) (fs_filters fs)) @ [XText endl])"
    by (rule no_text_pair_alternating) (simp add: section_doc_def)
  moreover have "list_all xml_plain (concat (map (\<lambda>x. [XText (endl @ ''    ''), section_doc ft (fst x) (snd x)]) (fs_filters fs)))"
    using s plain_white by (auto simp: list_all_iff)
  ultimately show ?thesis using plain_white by (simp add: filters_doc_def case_prod_unfold)
qed

section \<open>Property\<close>

text \<open>C15: a saved filter file loads back. For filters whose names and patterns need no escaping and
  whose items were made under the case setting they have, reading the text that \<open>save\<close> writes
  restores exactly the filters, their order, levels and case setting; only types whose list has
  become empty are gone.\<close>

theorem filters_save_load:
  assumes "saveable ft fs" "toUShort_decimal tu" "reads_document reader (filters_doc ft fs)"
    "fs_caseSensitive gs = fs_caseSensitive fs" "filename \<noteq> []"
  shows "filters_load re tu (\<lambda>_. Some (reader (filters_save ft fs))) h0 ft filename gs
    = Some (True, fs\<lparr>fs_file := filename, fs_filters := drop_empty (fs_filters fs)\<rparr>)"
proof -
  let ?gs = "(filters_clear gs)\<lparr>fs_file := filename\<rparr>" and ?w = "endl @ ''    ''"
  let ?secs = "concat (map (\<lambda>(k, f). FCharacters ?w # xml_tokens (section_doc ft k f)) (fs_filters fs))"
  have r: "reader (filters_save ft fs) = FStartDocument # FOther # xml_tokens (filters_doc ft fs) @ [FEndDocument]"
    using assms(3) filters_doc_plain [OF assms(1)] by (simp add: reads_document_def filters_save_text)
  have c: "concat (map xml_tokens (concat (map (\<lambda>(k, f). [XText ?w, section_doc ft k f]) xs)))
      = concat (map (\<lambda>(k, f). FCharacters ?w # xml_tokens (section_doc ft k f)) xs)" for xs by (induction xs) auto
  have toks: "reader (filters_save ft fs) = FStartDocument # FOther # FStartElement ''seqfilters'' [] #
      ?secs @ [FCharacters endl, FEndElement ''seqfilters'', FEndDocument]"
    unfolding r filters_doc_def xml_tokens.simps map_append concat_append c by simp
  have om: "om_ok (fs_filters fs)" using assms(1) by (auto simp: saveable_def filters_ok_def)
  have "\<exists>h1. load_tokens re tu ft (?secs @ [FCharacters endl, FEndElement ''seqfilters'', FEndDocument]) (startDocument h0) ?gs
      = load_tokens re tu ft [FCharacters endl, FEndElement ''seqfilters'', FEndDocument] h1
          (?gs\<lparr>fs_filters := fs_filters ?gs @ drop_empty (fs_filters fs)\<rparr>) \<and> \<not> h_inRegex h1"
    by (rule load_sections [OF assms(1,2) om])
      (use assms(4) in \<open>simp_all add: filters_clear_def startDocument_def\<close>)
  then obtain h1 where h1: "load_tokens re tu ft (?secs @ [FCharacters endl, FEndElement ''seqfilters'', FEndDocument]) (startDocument h0) ?gs
      = load_tokens re tu ft [FCharacters endl, FEndElement ''seqfilters'', FEndDocument] h1
          (?gs\<lparr>fs_filters := fs_filters ?gs @ drop_empty (fs_filters fs)\<rparr>)" "\<not> h_inRegex h1" by blast
  have "load_tokens re tu ft (reader (filters_save ft fs)) h0 ?gs
      = Some (True, ?gs\<lparr>fs_filters := fs_filters ?gs @ drop_empty (fs_filters fs)\<rparr>)"
    unfolding toks using h1 by (simp add: startElement_def characters_def endElement_def)
  moreover have "?gs\<lparr>fs_filters := fs_filters ?gs @ drop_empty (fs_filters fs)\<rparr>
      = fs\<lparr>fs_file := filename, fs_filters := drop_empty (fs_filters fs)\<rparr>"
    using assms(4) by (cases fs, cases gs) (simp add: filters_clear_def)
  ultimately show ?thesis using assms(5) by (simp add: filters_load_def Let_def)
qed

text \<open>The legacy types with one item.\<close>

definition sample_types :: FilterTypes where
  "sample_types = the (register_all FILTER_TYPE_TABLE new_FilterTypes)"

definition sample_filters :: Filters where
  "sample_filters = (new_Filters False)\<lparr>fs_filters :=
     [(1, \<lparr>f_items = [item_init ''Name:a'' False 0 7], f_caseSensitive = False\<rparr>)]\<rparr>"

theorem filters_save_load_witness:
  "filters_load prefix_engine (\<lambda>_ s. Some (of_nat (digits_value s)))
      (\<lambda>_. Some (FStartDocument # FOther # xml_tokens (filters_doc sample_types sample_filters) @ [FEndDocument]))
      (fe_handler sample_env) sample_types ''f.xml'' (new_Filters False)
    = Some (True, sample_filters\<lparr>fs_file := ''f.xml''\<rparr>)"
proof -
  let ?t = "FStartDocument # FOther # xml_tokens (filters_doc sample_types sample_filters) @ [FEndDocument]"
  have l: "length FILTER_TYPE_TABLE \<le> 32" "length FILTER_TYPE_TABLE = 7" by (simp_all add: FILTER_TYPE_TABLE_def)
  have ft: "register_all FILTER_TYPE_TABLE new_FilterTypes = Some sample_types"
    "\<forall>i. type_name sample_types i = (if i < 7 then Some (FILTER_TYPE_TABLE ! i) else None)"
    using register_all_new [OF l(1)] l(2) by (auto simp: sample_types_def)
  have d: "distinct FILTER_TYPE_TABLE" by (simp add: FILTER_TYPE_TABLE_def)
  have n: "n \<noteq> [] \<and> real_name n \<and> list_all plain_char n" if "type_name sample_types t = Some n" for t n
  proof -
    have "n \<in> set FILTER_TYPE_TABLE" using that ft(2) l(2) by (auto split: if_splits)
    then show ?thesis by (auto simp: FILTER_TYPE_TABLE_def real_name_def plain_char_def Let_def)
  qed
  have i: "t = t'" if "type_name sample_types t = Some n \<and> type_name sample_types t' = Some n" for t t' n
    using that ft(2) l(2) d nth_eq_iff_index_eq [OF d, of t t'] by (auto split: if_splits)
  have "\<exists>t<32. (1 :: u32) = 2 ^ t \<and> type_name sample_types t \<noteq> None" using ft(2) by (intro exI [of _ 0]) simp
  then have ok: "filters_ok sample_types sample_filters"
    by (auto simp: filters_ok_def sample_filters_def new_Filters_def)
  have s: "saveable sample_types sample_filters"
    unfolding saveable_def using table_types(1) [OF ft(1)] ok i n
    by (auto simp: sample_filters_def new_Filters_def made_item_def plain_char_def Let_def)
  have tu: "toUShort_decimal (\<lambda>_ s. Some (of_nat (digits_value s)))" by (simp add: toUShort_decimal_def digits_value_dec)
  have "reads_document (\<lambda>_. ?t) (filters_doc sample_types sample_filters)" by (simp add: reads_document_def)
  from filters_save_load [OF s tu this, of "new_Filters False" "''f.xml''" prefix_engine "fe_handler sample_env"]
  show ?thesis by (simp add: sample_filters_def new_Filters_def drop_empty_def)
qed

end
