(* ===== verification/Spells.thy ===== *)
theory Spells
  imports PacketInfo
begin

text \<open>
  \<open>src/src/spells.h\<close> and \<open>src/src/spells.cpp\<close>: the table of spells that is read from the spell
  file. Reading the file and splitting it into lines are Qt's, so the lines are given; the
  conversion of digits is the parameter \<open>toUShort\<close>. Access to a list beyond its end is \<open>None\<close>.
\<close>

definition playerClasses :: nat where "playerClasses = 15"

record Spell =
  sp_name :: string
  sp_spell :: u16
  sp_buffDurationFormula :: u16
  sp_buffDurationArgument :: u16
  sp_targetType :: u8
  sp_classLevels :: "u8 list"

text \<open>\<open>toUShort\<close> without an error flag: 0 for what is not a number.\<close>

definition ushort_value :: "toUShort \<Rightarrow> string \<Rightarrow> u16" where
  "ushort_value toUShort s = (case toUShort 10 s of None \<Rightarrow> 0 | Some w \<Rightarrow> w)"

fun class_levels :: "toUShort \<Rightarrow> string list \<Rightarrow> nat list \<Rightarrow> u8 list option" where
  "class_levels toUShort spellInfo [] = Some []"
| "class_levels toUShort spellInfo (i # is) = do {
     f \<leftarrow> nth_opt spellInfo (38 + i);
     ls \<leftarrow> class_levels toUShort spellInfo is;
     Some (ucast (ushort_value toUShort f) # ls)
   }"

definition new_Spell :: "toUShort \<Rightarrow> string \<Rightarrow> Spell option" where
  "new_Spell toUShort spells_enLine = do {
     let spellInfo = split_on (CHR ''^'') spells_enLine;
     f0 \<leftarrow> nth_opt spellInfo 0;
     f1 \<leftarrow> nth_opt spellInfo 1;
     f11 \<leftarrow> nth_opt spellInfo 11;
     f12 \<leftarrow> nth_opt spellInfo 12;
     f32 \<leftarrow> nth_opt spellInfo 32;
     levels \<leftarrow> class_levels toUShort spellInfo [0..<playerClasses];
     Some \<lparr>sp_name = f1, sp_spell = ushort_value toUShort f0,
           sp_buffDurationFormula = ushort_value toUShort f11,
           sp_buffDurationArgument = ushort_value toUShort f12,
           sp_targetType = ucast (ushort_value toUShort f32), sp_classLevels = levels\<rparr>
   }"

section \<open>Durations\<close>

text \<open>The result is an \<open>int16_t\<close>, here the word of its bits. \<open>lroundf\<close> of half the level and of 0.6
  times the level are computed on integers: the level is at most 255, halves are rounded up, and
  a multiple of 0.6 is never halfway between two integers.\<close>

definition min16 :: "u16 \<Rightarrow> u16 \<Rightarrow> u16" where
  "min16 a b = (if sint b < sint a then b else a)"

definition round_half :: "nat \<Rightarrow> nat" where "round_half n = (n + 1) div 2"

definition round_six_tenths :: "nat \<Rightarrow> nat" where "round_six_tenths n = (6 * n + 5) div 10"

definition calcDuration :: "Spell \<Rightarrow> u8 \<Rightarrow> u16" where
  "calcDuration sp level =
     (let f = sp_buffDurationFormula sp; arg = sp_buffDurationArgument sp; l = unat level in
      if f = 0 then 0
      else if f = 1 \<or> f = 6 then min16 (of_nat (round_half l)) arg
      else if f = 3 \<or> f = 4 \<or> f = 11 \<or> f = 12 then arg
      else if f = 2 then min16 (of_nat (round_six_tenths l)) arg
      else if f = 5 then 3
      else if f = 7 then min16 (of_nat l) arg
      else if f = 8 then min16 (of_nat (l + 10)) arg
      else if f = 9 then min16 (of_nat (l * 2 + 10)) arg
      else if f = 10 then min16 (of_nat (l * 3 + 10)) arg
      else if f = 50 then 65535
      else if f = 51 then arg
      else if f = 3600 then 3600
      else arg)"

definition PLAYER_CLASSES :: nat where "PLAYER_CLASSES = 16"

definition class_level :: "Spell \<Rightarrow> u8 \<Rightarrow> u8 option" where
  "class_level sp cls =
     (if cls > 0 \<and> unat cls \<le> PLAYER_CLASSES then nth_opt (sp_classLevels sp) (unat cls - 1) else Some 255)"

section \<open>The table\<close>

text \<open>\<open>sps_table = None\<close> is the null pointer.\<close>

record Spells =
  sps_maxSpell :: u16
  sps_table :: "Spell option list option"

fun parse_spells :: "toUShort \<Rightarrow> string list \<Rightarrow> Spell list option" where
  "parse_spells toUShort [] = Some []"
| "parse_spells toUShort (l # ls) = do {
     sp \<leftarrow> new_Spell toUShort l;
     rest \<leftarrow> parse_spells toUShort ls;
     Some (sp # rest)
   }"

definition unloadSpells :: "Spells \<Rightarrow> Spells" where
  "unloadSpells sps = sps\<lparr>sps_table := None\<rparr>"

fun insert_spells :: "Spell list \<Rightarrow> Spell option list \<Rightarrow> Spell option list option" where
  "insert_spells [] t = Some t"
| "insert_spells (sp # q) t =
     (if unat (sp_spell sp) < length t then insert_spells q (t[unat (sp_spell sp) := Some sp]) else None)"

text \<open>\<open>file = None\<close> is a file that cannot be opened.\<close>

definition loadSpells :: "toUShort \<Rightarrow> string list option \<Rightarrow> Spells \<Rightarrow> Spells option" where
  "loadSpells toUShort file sps =
     (let sps1 = unloadSpells sps in
      case file of
        None \<Rightarrow> Some sps1
      | Some ls \<Rightarrow> do {
          q \<leftarrow> parse_spells toUShort ls;
          let mx = fold (\<lambda>sp m. if sp_spell sp > m then sp_spell sp else m) q (sps_maxSpell sps1);
          t \<leftarrow> insert_spells q (replicate (unat mx + 1) None);
          Some (sps1\<lparr>sps_maxSpell := mx, sps_table := Some t\<rparr>)
        })"

definition new_Spells :: "toUShort \<Rightarrow> string list option \<Rightarrow> Spells option" where
  "new_Spells toUShort file = loadSpells toUShort file \<lparr>sps_maxSpell = 0, sps_table = None\<rparr>"

text \<open>The lookup: no spell is \<open>Some None\<close>; following the null table is a fault.\<close>

definition spell_lookup :: "Spells \<Rightarrow> u16 \<Rightarrow> Spell option option" where
  "spell_lookup sps spell =
     (if spell \<ge> sps_maxSpell sps then Some None
      else do { t \<leftarrow> sps_table sps; nth_opt t (unat spell) })"

section \<open>What the table holds\<close>

lemma insert_spells_ok:
  "\<forall>sp \<in> set q. unat (sp_spell sp) < length t \<Longrightarrow>
    \<exists>t'. insert_spells q t = Some t' \<and> length t' = length t
      \<and> (\<forall>i < length t. t' ! i = (case find (\<lambda>sp. unat (sp_spell sp) = i) (rev q) of
            None \<Rightarrow> t ! i | Some sp \<Rightarrow> Some sp))"
proof (induction q arbitrary: t)
  case (Cons sp q)
  let ?t = "t[unat (sp_spell sp) := Some sp]"
  obtain t' where t': "insert_spells q ?t = Some t'" "length t' = length t"
    "\<forall>i < length t. t' ! i = (case find (\<lambda>sp. unat (sp_spell sp) = i) (rev q) of
            None \<Rightarrow> ?t ! i | Some sp \<Rightarrow> Some sp)"
    using Cons.IH [of ?t] Cons.prems by auto
  have f: "find P (xs @ [x]) = (case find P xs of None \<Rightarrow> if P x then Some x else None | Some y \<Rightarrow> Some y)"
    for P and xs :: "Spell list" and x by (induction xs) auto
  have "t' ! i = (case find (\<lambda>sp. unat (sp_spell sp) = i) (rev (sp # q)) of None \<Rightarrow> t ! i | Some sp \<Rightarrow> Some sp)"
    if "i < length t" for i
    using t'(3) that by (auto simp: f nth_list_update split: option.splits)
  then show ?case using t' Cons.prems by auto
qed simp

lemma max_fold:
  "m \<le> fold (\<lambda>sp m. if sp_spell sp > m then sp_spell sp else m) q m
    \<and> (\<forall>sp \<in> set q. sp_spell sp \<le> fold (\<lambda>sp m. if sp_spell sp > m then sp_spell sp else m) q m)
    \<and> (fold (\<lambda>sp m. if sp_spell sp > m then sp_spell sp else m) q m = m
        \<or> (\<exists>sp \<in> set q. sp_spell sp = fold (\<lambda>sp m. if sp_spell sp > m then sp_spell sp else m) q m))"
proof (induction q arbitrary: m)
  case (Cons sp q)
  let ?m = "if sp_spell sp > m then sp_spell sp else m"
  have "m \<le> ?m" "sp_spell sp \<le> ?m" by auto
  then show ?case using Cons.IH [of ?m] by (auto intro: order_trans)
qed simp

text \<open>The spell of a number in a list: the last one wins.\<close>

definition last_spell :: "Spell list \<Rightarrow> u16 \<Rightarrow> Spell option" where
  "last_spell q i = find (\<lambda>sp. sp_spell sp = i) (rev q)"

lemma spells_table:
  assumes "parse_spells tu ls = Some q" "new_Spells tu (Some ls) = Some sps"
  shows "i < sps_maxSpell sps \<Longrightarrow> spell_lookup sps i = Some (last_spell q i)"
    "sps_maxSpell sps \<le> i \<Longrightarrow> spell_lookup sps i = Some None"
    "\<forall>sp \<in> set q. sp_spell sp \<le> sps_maxSpell sps"
    "q \<noteq> [] \<Longrightarrow> \<exists>sp \<in> set q. sp_spell sp = sps_maxSpell sps"
proof -
  let ?mx = "fold (\<lambda>sp m. if sp_spell sp > m then sp_spell sp else m) q 0"
  define n where "n = unat ?mx + 1"
  define t0 where "t0 = replicate n (None :: Spell option)"
  have "\<forall>sp \<in> set q. unat (sp_spell sp) < length t0"
    using max_fold [of 0 q] by (auto simp: t0_def n_def word_le_nat_alt less_Suc_eq_le)
  from insert_spells_ok [OF this] obtain t where t: "insert_spells q t0 = Some t" "length t = n"
    "\<forall>i < n. t ! i = (case find (\<lambda>sp. unat (sp_spell sp) = i) (rev q) of None \<Rightarrow> t0 ! i | Some sp \<Rightarrow> Some sp)"
    by (auto simp: t0_def)
  have t3: "t ! i = find (\<lambda>sp. unat (sp_spell sp) = i) (rev q)" if "i < n" for i
    using t(3) that by (auto simp: t0_def split: option.splits)
  have s: "sps = \<lparr>sps_maxSpell = ?mx, sps_table = Some t\<rparr>"
    using assms t(1) by (simp add: new_Spells_def loadSpells_def unloadSpells_def Let_def t0_def n_def)
  show "sps_maxSpell sps \<le> i \<Longrightarrow> spell_lookup sps i = Some None" by (simp add: spell_lookup_def)
  show "\<forall>sp \<in> set q. sp_spell sp \<le> sps_maxSpell sps" using max_fold [of 0 q] s by simp
  show "q \<noteq> [] \<Longrightarrow> \<exists>sp \<in> set q. sp_spell sp = sps_maxSpell sps"
    using max_fold [of 0 q] s by (cases q) auto
  assume i: "i < sps_maxSpell sps"
  then have n: "unat i < n" using s by (simp add: word_less_nat_alt n_def)
  have "find (\<lambda>sp. unat (sp_spell sp) = unat i) (rev q) = last_spell q i"
    by (simp add: last_spell_def word_unat_eq_iff)
  then show "spell_lookup sps i = Some (last_spell q i)"
    using i s t(2) t3 [OF n] n by (simp add: spell_lookup_def nth_opt_def not_le [symmetric])
qed

section \<open>Property\<close>

text \<open>the spell table finds what the file holds, except its last number. When every line of the file
  has its fields, loading succeeds, and looking up a number below the largest one yields the last
  spell of the file with this number, if there is one. The spell with the largest number is in
  the table but is never found.\<close>

theorem spells_found_but_last:
  assumes "parse_spells tu ls = Some q" "q \<noteq> []"
  shows "\<exists>sps sp. new_Spells tu (Some ls) = Some sps \<and> sp \<in> set q
    \<and> (\<forall>sp' \<in> set q. sp_spell sp' \<le> sp_spell sp)
    \<and> (\<forall>i < sp_spell sp. spell_lookup sps i = Some (last_spell q i))
    \<and> spell_lookup sps (sp_spell sp) = Some None"
proof -
  let ?mx = "fold (\<lambda>sp m. if sp_spell sp > m then sp_spell sp else m) q 0"
  have "\<forall>sp \<in> set q. unat (sp_spell sp) < length (replicate (unat ?mx + 1) (None :: Spell option))"
    using max_fold [of 0 q] by (auto simp: word_le_nat_alt less_Suc_eq_le)
  from insert_spells_ok [OF this] obtain t where "insert_spells q (replicate (unat ?mx + 1) None) = Some t" by blast
  then obtain sps where sps: "new_Spells tu (Some ls) = Some sps"
    using assms(1) by (auto simp: new_Spells_def loadSpells_def unloadSpells_def Let_def)
  obtain sp where "sp \<in> set q" "sp_spell sp = sps_maxSpell sps" using spells_table(4) [OF assms(1) sps assms(2)] by blast
  then show ?thesis using sps spells_table [OF assms(1) sps] by auto
qed

definition sample_line :: "string \<Rightarrow> string" where
  "sample_line i = i @ concat (replicate 60 ''^0'')"

theorem spells_found_but_last_witness:
  "\<exists>sps. new_Spells (\<lambda>_ s. if s = ''2'' then Some 2 else if s = ''1'' then Some 1 else None)
      (Some [sample_line ''1'', sample_line ''2'']) = Some sps \<and> spell_lookup sps 2 = Some None"
proof -
  let ?tu = "\<lambda>_ s. if s = ''2'' then Some 2 else if s = ''1'' then Some 1 else None"
  have "map_option (map sp_spell) (parse_spells ?tu [sample_line ''1'', sample_line ''2'']) = Some [1, 2]" by code_simp
  then obtain q where q: "parse_spells ?tu [sample_line ''1'', sample_line ''2''] = Some q" "map sp_spell q = [1, 2]" by auto
  then have "q \<noteq> []" by auto
  from spells_found_but_last [OF q(1) this] obtain sps sp where
    s: "new_Spells ?tu (Some [sample_line ''1'', sample_line ''2'']) = Some sps" "sp \<in> set q"
    "\<forall>sp' \<in> set q. sp_spell sp' \<le> sp_spell sp" "spell_lookup sps (sp_spell sp) = Some None" by blast
  have m: "sp_spell ` set q = {1, 2}" using q(2) by (metis list.set_map list.simps(15) set_empty2)
  then have "2 \<le> sp_spell sp" "sp_spell sp \<in> {1, 2}" using s(2,3) by (metis imageE insertCI, blast)
  then have "sp_spell sp = 2" by (auto simp: word_le_nat_alt)
  then show ?thesis using s by auto
qed

end
