(* ===== verification/SpawnWire.thy ===== *)
theory SpawnWire
  imports PacketCommon
begin

text \<open>
  The packets about spawns of \<open>src/src/everquest.h\<close>, which the handlers read through a pointer to a
  packed structure: the structures with the fields the code reads, taken from the bytes at the
  offsets of the declarations. A structure that does not fit the bytes is \<open>None\<close>.
\<close>

definition u16_at :: "bytes \<Rightarrow> nat \<Rightarrow> u16" where "u16_at bs i = le_word (take 2 (drop i bs))"
definition u32_at :: "bytes \<Rightarrow> nat \<Rightarrow> u32" where "u32_at bs i = le_word (take 4 (drop i bs))"

text \<open>A string in the packet is the bytes from its address to the first zero byte; without one
  before the end of the structure the read leaves it.\<close>

fun c_str :: "bytes \<Rightarrow> bytes option" where
  "c_str [] = None"
| "c_str (b # bs) = (if b = 0 then Some [] else map_option ((#) b) (c_str bs))"

lemma c_str_terminated: "0 \<in> set bs \<Longrightarrow> c_str bs = Some (takeWhile (\<lambda>b. b \<noteq> 0) bs)"
  by (induction bs) auto

lemma c_str_fault: "c_str bs = None \<longleftrightarrow> 0 \<notin> set bs"
  by (induction bs) auto

record spawnStruct =
  s_heading :: u8
  s_deltaHeading :: u8
  s_y :: u16
  s_x :: u16
  s_z :: u16
  s_deltaY :: u32
  s_deltaZ :: u32
  s_deltaX :: u32
  s_petOwnerId :: u16
  s_animation :: u8
  s_spawnId :: u16
  s_bodytype :: u16
  s_curHp :: u16
  s_guildID :: u16
  s_race :: u16
  s_NPC :: u8
  s_class :: u8
  s_gender :: u8
  s_level :: u8
  s_light :: u8
  s_GM :: u8
  s_equipment :: "u16 list"
  s_deity :: u16
  s_name :: bytes
  s_lastName :: bytes

definition sizeof_spawnStruct :: nat where "sizeof_spawnStruct = 224"

definition spawn_fields :: "bytes \<Rightarrow> spawnStruct" where
  "spawn_fields bs = (let d = u32_at bs 13 in
     \<lparr>s_heading = bs ! 5, s_deltaHeading = bs ! 6, s_y = u16_at bs 7, s_x = u16_at bs 9, s_z = u16_at bs 11,
      s_deltaY = take_bit 11 d, s_deltaZ = take_bit 11 (drop_bit 11 d), s_deltaX = drop_bit 22 d,
      s_petOwnerId = u16_at bs 18, s_animation = bs ! 20, s_spawnId = u16_at bs 76, s_bodytype = u16_at bs 78,
      s_curHp = u16_at bs 80, s_guildID = u16_at bs 82, s_race = u16_at bs 84, s_NPC = bs ! 86, s_class = bs ! 87,
      s_gender = bs ! 88, s_level = bs ! 89, s_light = bs ! 94, s_GM = bs ! 99,
      s_equipment = map (\<lambda>i. u16_at bs (104 + 2 * i)) [0..<9], s_deity = u16_at bs 124,
      s_name = drop 127 bs, s_lastName = drop 191 bs\<rparr>)"

definition read_spawnStruct :: "bytes \<Rightarrow> nat \<Rightarrow> spawnStruct option" where
  "read_spawnStruct m i = map_option spawn_fields (rd_range m i sizeof_spawnStruct)"

section \<open>Positions\<close>

record spawnPositionUpdate =
  u_spawnId :: u16
  u_animation :: u8
  u_heading :: u8
  u_deltaHeading :: u8
  u_y :: u16
  u_x :: u16
  u_z :: u16
  u_deltaY :: u16
  u_deltaZ :: u16
  u_deltaX :: u16

definition sizeof_spawnPositionUpdate :: nat where "sizeof_spawnPositionUpdate = 15"

text \<open>A signed field of ten bits, as the \<open>int16_t\<close> it is passed as.\<close>

definition signed10 :: "nat \<Rightarrow> u32 \<Rightarrow> u16" where
  "signed10 k w = scast (ucast (drop_bit k w) :: 10 word)"

definition read_positionUpdate :: "bytes \<Rightarrow> nat \<Rightarrow> spawnPositionUpdate option" where
  "read_positionUpdate m i = do {
     bs \<leftarrow> rd_range m i sizeof_spawnPositionUpdate;
     let d = u32_at bs 11;
     Some \<lparr>u_spawnId = u16_at bs 0, u_animation = bs ! 2, u_heading = bs ! 3, u_deltaHeading = bs ! 4,
       u_y = u16_at bs 5, u_x = u16_at bs 7, u_z = u16_at bs 9,
       u_deltaY = signed10 0 d, u_deltaZ = signed10 11 d, u_deltaX = signed10 22 d\<rparr>
   }"

section \<open>Doors and drops\<close>

record doorStruct =
  d_name :: bytes
  d_y :: u32
  d_x :: u32
  d_z :: u32
  d_heading :: u32
  d_doorId :: u8
  d_zonePoint :: u32

definition sizeof_doorStruct :: nat where "sizeof_doorStruct = 136"

definition read_doorStruct :: "bytes \<Rightarrow> nat \<Rightarrow> doorStruct option" where
  "read_doorStruct m i = do {
     bs \<leftarrow> rd_range m i sizeof_doorStruct;
     Some \<lparr>d_name = bs, d_y = u32_at bs 32, d_x = u32_at bs 36, d_z = u32_at bs 40, d_heading = u32_at bs 44,
       d_doorId = bs ! 80, d_zonePoint = u32_at bs 84\<rparr>
   }"

text \<open>\<open>makeDropStruct\<close> is filled by the code, not read from a packet.\<close>

record makeDropStruct =
  dr_dropId :: u32
  dr_heading :: u32
  dr_z :: u32
  dr_x :: u32
  dr_y :: u32
  dr_idFile :: bytes

definition idFile_size :: nat where "idFile_size = 30"

section \<open>The smaller structures\<close>

record spawnIllusionStruct =
  il_spawnId :: u32
  il_race :: u32
  il_gender :: u8

definition read_illusion :: "bytes \<Rightarrow> spawnIllusionStruct option" where
  "read_illusion m = map_option (\<lambda>bs. \<lparr>il_spawnId = u32_at bs 0, il_race = u32_at bs 68, il_gender = bs ! 72\<rparr>)
     (rd_range m 0 332)"

record spawnAppearanceStruct =
  ap_spawnId :: u16
  ap_type :: u16
  ap_parameter :: u32

definition read_appearance :: "bytes \<Rightarrow> spawnAppearanceStruct option" where
  "read_appearance m = map_option (\<lambda>bs. \<lparr>ap_spawnId = u16_at bs 0, ap_type = u16_at bs 2, ap_parameter = u32_at bs 4\<rparr>)
     (rd_range m 0 8)"

record hpNpcUpdateStruct =
  hp_spawnId :: u32
  hp_curHP :: u32
  hp_maxHP :: u32

definition read_hpUpdate :: "bytes \<Rightarrow> hpNpcUpdateStruct option" where
  "read_hpUpdate m = map_option (\<lambda>bs. \<lparr>hp_spawnId = u32_at bs 0, hp_curHP = u32_at bs 4, hp_maxHP = u32_at bs 8\<rparr>)
     (rd_range m 0 12)"

record considerStruct =
  con_playerid :: u16
  con_targetid :: u16

definition read_consider :: "bytes \<Rightarrow> considerStruct option" where
  "read_consider m = map_option (\<lambda>bs. \<lparr>con_playerid = u16_at bs 0, con_targetid = u16_at bs 2\<rparr>) (rd_range m 0 24)"

record newCorpseStruct =
  nc_spawnId :: u16
  nc_killerId :: u16

definition read_corpse :: "bytes \<Rightarrow> newCorpseStruct option" where
  "read_corpse m = map_option (\<lambda>bs. \<lparr>nc_spawnId = u16_at bs 0, nc_killerId = u16_at bs 2\<rparr>) (rd_range m 0 20)"

end
