(* ===== verification/Profile.thy ===== *)
theory Profile
  imports SpawnWire
begin

text \<open>
  \<open>charProfileStruct\<close> of \<open>src/src/everquest.h\<close>, the profile of the player's character: the fields the zone manager and the player
  read, at their offsets in the packed structure, and \<open>ZoneMgr::fillProfileStruct\<close>, which copies it from a packet.
  A signed field is its 16 bits. The spell book is the memory that \<open>Player::loadProfile\<close> copies from its address.
\<close>

record spellBuff =
  sb_bufftype :: u8
  sb_level :: u8
  sb_spellid :: u16
  sb_duration :: u16

definition read_spellBuff :: "bytes \<Rightarrow> nat \<Rightarrow> spellBuff" where
  "read_spellBuff bs i = \<lparr>sb_bufftype = bs ! i, sb_level = bs ! (i + 1), sb_spellid = u16_at bs (i + 4), sb_duration = u16_at bs (i + 6)\<rparr>"

record charProfileStruct =
  cp_name :: bytes
  cp_lastName :: bytes
  cp_gender :: u8
  cp_race :: u16
  cp_class :: u16
  cp_level :: u8
  cp_exp :: u32
  cp_MANA :: u16
  cp_curHp :: u16
  cp_stats :: "u16 list"
  cp_languages :: "u8 list"
  cp_buffs :: "spellBuff list"
  cp_spellBook :: bytes
  cp_y :: u32
  cp_x :: u32
  cp_z :: u32
  cp_heading :: u32
  cp_skills :: "u16 list"
  cp_zoneId :: u32
  cp_deity :: u16
  cp_guildID :: u16
  cp_expAA :: u32
  cp_aapoints :: u16

definition sizeof_charProfileStruct :: nat where "sizeof_charProfileStruct = 8460"

definition MAX_KNOWN_SKILLS :: nat where "MAX_KNOWN_SKILLS = 100"
definition MAX_KNOWN_LANGS :: nat where "MAX_KNOWN_LANGS = 32"
definition MAX_SPELLBOOK_SLOTS :: nat where "MAX_SPELLBOOK_SLOTS = 800"
definition MAX_BUFFS :: nat where "MAX_BUFFS = 15"

text \<open>The statistics are in the order strength, stamina, charisma, dexterity, intelligence, agility and wisdom.\<close>

definition profile_fields :: "bytes \<Rightarrow> charProfileStruct" where
  "profile_fields bs =
     \<lparr>cp_name = drop 6 bs, cp_lastName = drop 70 bs, cp_gender = bs ! 140, cp_race = u16_at bs 142, cp_class = u16_at bs 144,
      cp_level = bs ! 148, cp_exp = u32_at bs 152, cp_MANA = u16_at bs 158, cp_curHp = u16_at bs 160,
      cp_stats = map (\<lambda>i. u16_at bs (164 + 2 * i)) [0..<7], cp_languages = take MAX_KNOWN_LANGS (drop 284 bs),
      cp_buffs = map (\<lambda>i. read_spellBuff bs (616 + 10 * i)) [0..<MAX_BUFFS], cp_spellBook = drop 1846 bs,
      cp_y = u32_at bs 2904, cp_x = u32_at bs 2908, cp_z = u32_at bs 2912, cp_heading = u32_at bs 2916,
      cp_skills = map (\<lambda>i. u16_at bs (2988 + 2 * i)) [0..<MAX_KNOWN_SKILLS], cp_zoneId = u32_at bs 3444,
      cp_deity = u16_at bs 4944, cp_guildID = u16_at bs 4946, cp_expAA = u32_at bs 5420, cp_aapoints = u16_at bs 5902\<rparr>"

text \<open>The structure was cleared before; data that is too short leaves it cleared.\<close>

definition fillProfileStruct :: "bytes \<Rightarrow> charProfileStruct \<times> nat" where
  "fillProfileStruct data =
     (if length data < sizeof_charProfileStruct then (profile_fields (replicate sizeof_charProfileStruct 0), 0)
      else (profile_fields (take sizeof_charProfileStruct data), sizeof_charProfileStruct))"

end
