(* ===== verification/SpellShell.thy ===== *)
theory SpellShell
  imports Spells Profile
begin

text \<open>
  \<open>src/src/spellshell.h\<close> and \<open>src/src/spellshell.cpp\<close>: the list of active spells. The items live on
  a heap; the list and \<open>m_lastPlayerSpell\<close> hold addresses, and following the address of a deleted
  item is \<open>None\<close>. Signals are events with the item as it is when the signal is emitted.

  What the shell asks of its collaborators at a call is the record \<open>spell_world\<close>: the player, the
  spell table, the names of spawns, the names of spells that are not in the table, the timer
  preference and the time.
\<close>

record SpellItem =
  si_spellName :: string
  si_casterName :: string
  si_targetName :: string
  si_duration :: int
  si_castTime :: int
  si_spellId :: u16
  si_casterId :: u16
  si_targetId :: u16

definition new_SpellItem :: SpellItem where
  "new_SpellItem = \<lparr>si_spellName = [], si_casterName = [], si_targetName = [], si_duration = 0,
     si_castTime = 0, si_spellId = 0, si_casterId = 0, si_targetId = 0\<rparr>"

record spell_world =
  w_playerId :: u16
  w_playerName :: string
  w_playerLevel :: u8
  w_spells :: Spells
  w_spawnName :: "u16 \<Rightarrow> string option"
  w_spell_name :: "u16 \<Rightarrow> string"
  w_spellTimer :: int
  w_now :: int

definition item_update :: "spell_world \<Rightarrow> u16 \<Rightarrow> Spell option \<Rightarrow> int \<Rightarrow> u16 \<Rightarrow> string \<Rightarrow> u16 \<Rightarrow> string
    \<Rightarrow> SpellItem \<Rightarrow> SpellItem" where
  "item_update w spellId spell duration casterId casterName targetId targetName si =
     (let si1 = si\<lparr>si_spellId := spellId, si_duration := duration\<rparr>;
          si2 = (case spell of
             Some sp \<Rightarrow> (let s = si1\<lparr>si_spellName := sp_name sp\<rparr> in
                         if sp_targetType sp \<noteq> 0x06 then s\<lparr>si_targetId := targetId\<rparr> else s)
           | None \<Rightarrow> si1\<lparr>si_spellName := w_spell_name w spellId, si_targetId := targetId\<rparr>)
      in si2\<lparr>si_casterId := casterId,
             si_casterName := (if casterName \<noteq> [] then casterName else ''N/A''),
             si_targetName := (if targetName \<noteq> [] then targetName else ''N/A''),
             si_castTime := w_now w\<rparr>)"

text \<open>\<open>durationStr\<close>, with the two digit fields of \<open>asprintf\<close>.\<close>

definition two_digits :: "nat \<Rightarrow> string" where
  "two_digits n = (if n < 10 then ''0'' @ dec_string n else dec_string n)"

definition durationStr :: "SpellItem \<Rightarrow> string" where
  "durationStr si = (let d = nat (if si_duration si < 0 then 0 else si_duration si); h = d div 3600; r = d mod 3600
     in two_digits h @ '':'' @ two_digits (r div 60) @ '':'' @ two_digits (r mod 60))"

section \<open>The shell\<close>

datatype spell_event = AddSpell SpellItem | DelSpell SpellItem | ChangeSpell SpellItem | ClearSpells

record SpellShell =
  ss_heap :: "addr \<rightharpoonup> SpellItem"
  ss_next :: addr
  ss_list :: "addr list"
  ss_last :: "addr option"
  ss_timer :: "int option"

definition new_SpellShell :: SpellShell where
  "new_SpellShell = \<lparr>ss_heap = Map.empty, ss_next = 0, ss_list = [], ss_last = None, ss_timer = None\<rparr>"

type_synonym shell_result = "(SpellShell \<times> spell_event list) option"

text \<open>The first item of the list that satisfies a test. A deleted item in front of it is a fault.\<close>

fun find_item :: "(SpellItem \<Rightarrow> bool) \<Rightarrow> (addr \<rightharpoonup> SpellItem) \<Rightarrow> addr list \<Rightarrow> addr option option" where
  "find_item P heap [] = Some None"
| "find_item P heap (p # ps) = do { si \<leftarrow> heap p; if P si then Some (Some p) else find_item P heap ps }"

definition findSpell_target :: "u16 \<Rightarrow> u16 \<Rightarrow> string \<Rightarrow> SpellShell \<Rightarrow> addr option option" where
  "findSpell_target spellId targetId targetName ss =
     find_item (\<lambda>i. si_spellId i = spellId \<and>
        (si_targetId i = targetId \<or> si_targetId i = 0 \<and> si_targetName i = targetName)) (ss_heap ss) (ss_list ss)"

definition findSpell :: "u16 \<Rightarrow> SpellShell \<Rightarrow> addr option option" where
  "findSpell spellId ss = find_item (\<lambda>i. si_spellId i = spellId) (ss_heap ss) (ss_list ss)"

definition modify_item :: "addr \<Rightarrow> (SpellItem \<Rightarrow> SpellItem) \<Rightarrow> SpellShell \<Rightarrow> (SpellItem \<times> SpellShell) option" where
  "modify_item p f ss = do { si \<leftarrow> ss_heap ss p; Some (f si, ss\<lparr>ss_heap := (ss_heap ss)(p \<mapsto> f si)\<rparr>) }"

definition change_item :: "addr \<Rightarrow> (SpellItem \<Rightarrow> SpellItem) \<Rightarrow> SpellShell \<Rightarrow> shell_result" where
  "change_item p f ss = do { (si, ss1) \<leftarrow> modify_item p f ss; Some (ss1, [ChangeSpell si]) }"

text \<open>\<open>new SpellItem\<close>, \<open>update\<close>, append, and the timer is started when it is not running.\<close>

definition append_item :: "spell_world \<Rightarrow> SpellItem \<Rightarrow> SpellShell \<Rightarrow> addr \<times> SpellShell \<times> spell_event list" where
  "append_item w si ss =
     (let p = ss_next ss; l = ss_list ss @ [p] in
      (p, ss\<lparr>ss_heap := (ss_heap ss)(p \<mapsto> si), ss_next := Suc p, ss_list := l,
             ss_timer := (if length l > 0 \<and> ss_timer ss = None then Some (1000 * w_spellTimer w) else ss_timer ss)\<rparr>,
       [AddSpell si]))"

fun delete_items :: "addr list \<Rightarrow> (addr \<rightharpoonup> SpellItem) \<Rightarrow> (addr \<rightharpoonup> SpellItem) option" where
  "delete_items [] heap = Some heap"
| "delete_items (p # ps) heap = do { _ \<leftarrow> heap p; delete_items ps (heap(p := None)) }"

definition shell_clear :: "SpellShell \<Rightarrow> shell_result" where
  "shell_clear ss = do {
     heap \<leftarrow> delete_items (ss_list ss) (ss_heap ss);
     Some (ss\<lparr>ss_last := None, ss_heap := heap, ss_list := [], ss_timer := None\<rparr>, [ClearSpells])
   }"

text \<open>\<open>deleteSpell\<close>; a pointer that is not in the list would be removed at index -1.\<close>

definition deleteSpell :: "addr \<Rightarrow> SpellShell \<Rightarrow> shell_result" where
  "deleteSpell p ss =
     (if p \<in> set (ss_list ss)
      then do {
        let last1 = (if ss_last ss = Some p then None else ss_last ss);
        let l = remove1 p (ss_list ss);
        si \<leftarrow> ss_heap ss p;
        Some (ss\<lparr>ss_last := last1, ss_list := l, ss_timer := (if l = [] then None else ss_timer ss),
                 ss_heap := (ss_heap ss)(p := None)\<rparr>, [DelSpell si])
      }
      else None)"

section \<open>Packets\<close>

record startCastStruct =
  c_spellId :: u16
  c_targetId :: u16

definition target_name :: "spell_world \<Rightarrow> u16 \<Rightarrow> string" where
  "target_name w tid = (if tid \<noteq> 0 then (case w_spawnName w tid of Some n \<Rightarrow> n | None \<Rightarrow> []) else [])"

definition selfStartSpellCast :: "spell_world \<Rightarrow> startCastStruct \<Rightarrow> SpellShell \<Rightarrow> shell_result" where
  "selfStartSpellCast w c ss = do {
     spell \<leftarrow> spell_lookup (w_spells w) (c_spellId c);
     let duration = (case spell of None \<Rightarrow> 0 | Some sp \<Rightarrow> sint (calcDuration sp (w_playerLevel w)) * 6);
     let self = (case spell of None \<Rightarrow> False | Some sp \<Rightarrow> sp_targetType sp = 6);
     let targetName = (if self then w_playerName w else target_name w (c_targetId c));
     item \<leftarrow> (if self then findSpell (c_spellId c) ss else findSpell_target (c_spellId c) (c_targetId c) targetName ss);
     let upd = item_update w (c_spellId c) spell duration (w_playerId w) (w_playerName w) (c_targetId c) targetName;
     (case item of
        Some p \<Rightarrow> change_item p upd ss
      | None \<Rightarrow> let (p, ss1, ev) = append_item w (upd new_SpellItem) ss in Some (ss1\<lparr>ss_last := Some p\<rparr>, ev))
   }"

definition buffLoad :: "spell_world \<Rightarrow> spellBuff \<Rightarrow> SpellShell \<Rightarrow> shell_result" where
  "buffLoad w c ss = do {
     spell \<leftarrow> spell_lookup (w_spells w) (sb_spellid c);
     let duration = uint (sb_duration c) * 6;
     item \<leftarrow> findSpell_target (sb_spellid c) (w_playerId w) (w_playerName w) ss;
     let upd = item_update w (sb_spellid c) spell duration 0 ''Buff'' (w_playerId w) (w_playerName w);
     (case item of
        Some p \<Rightarrow> change_item p upd ss
      | None \<Rightarrow> let (p, ss1, ev) = append_item w (upd new_SpellItem) ss in Some (ss1, ev))
   }"

record buffStruct =
  b_spawnid :: u16
  b_spellid :: u16
  b_duration :: u16
  b_changetype :: u32

text \<open>The spell id has 16 bits, so that it is never the 32-bit value it is compared with.\<close>

definition buff :: "spell_world \<Rightarrow> buffStruct \<Rightarrow> u8 \<Rightarrow> SpellShell \<Rightarrow> shell_result" where
  "buff w b dir ss =
     (if dir = DIR_Client then Some (ss, [])
      else if (ucast (b_spellid b) :: u32) = 0xffffffff then Some (ss, [])
      else do {
        spell \<leftarrow> spell_lookup (w_spells w) (b_spellid b);
        let self = (case spell of None \<Rightarrow> False | Some sp \<Rightarrow> sp_targetType sp = 6);
        item \<leftarrow> (if self then findSpell (b_spellid b) ss
                else findSpell_target (b_spellid b) (b_spawnid b) (target_name w (b_spawnid b)) ss);
        (case item of
           None \<Rightarrow> Some (ss, [])
         | Some p \<Rightarrow>
             if b_changetype b = 1 then deleteSpell p ss
             else if b_changetype b = 2
             then change_item p (\<lambda>si. si\<lparr>si_duration := uint (b_duration b) * 6\<rparr>) ss
             else Some (ss, []))
      })"

record actionStruct =
  a_target :: u16
  a_source :: u16
  a_level :: u16
  a_type :: u8
  a_spell :: u16

definition action :: "spell_world \<Rightarrow> actionStruct \<Rightarrow> SpellShell \<Rightarrow> shell_result" where
  "action w a ss =
     (if a_type a \<noteq> 0xe7 then Some (ss, [])
      else do {
        let targetName = target_name w (a_target a);
        item \<leftarrow> findSpell_target (a_spell a) (a_target a) targetName ss;
        if item \<noteq> None \<or> a_target a = w_playerId w
        then do {
          spell \<leftarrow> spell_lookup (w_spells w) (a_spell a);
          let duration = (case spell of None \<Rightarrow> 0 | Some sp \<Rightarrow> sint (calcDuration sp (ucast (a_level a))) * 6);
          let casterName = target_name w (a_source a);
          let upd = item_update w (a_spell a) spell duration (a_source a) casterName (a_target a) targetName;
          (case item of
             Some p \<Rightarrow> change_item p upd ss
           | None \<Rightarrow> let (p, ss1, ev) = append_item w (upd new_SpellItem) ss in Some (ss1, ev))
        }
        else Some (ss, [])
      })"

section \<open>Messages, zones, deaths and the timer\<close>

definition message_spell :: "string \<Rightarrow> string option" where
  "message_spell str =
     (let spell = q_right (int (length str) - 7) str in
      if q_left 25 spell = ''Your target resisted the ''
      then let s1 = q_right (int (length spell) - 25) spell in Some (q_left (int (length s1) - 7) s1)
      else if q_right 20 spell = '' spell has worn off.''
      then let s1 = q_right (int (length spell) - 5) spell in Some (q_left (int (length s1) - 20) s1)
      else None)"

definition spellMessage :: "string \<Rightarrow> SpellShell \<Rightarrow> shell_result" where
  "spellMessage str ss =
     (case message_spell str of
        None \<Rightarrow> Some (ss, [])
      | Some spell \<Rightarrow> do {
          item \<leftarrow> find_item (\<lambda>i. si_spellName i = spell) (ss_heap ss) (ss_list ss);
          (case item of
             None \<Rightarrow> Some (ss, [])
           | Some p \<Rightarrow> do { (_, ss1) \<leftarrow> modify_item p (\<lambda>si. si\<lparr>si_duration := 0\<rparr>) ss; Some (ss1, []) })
        })"

fun reset_ids :: "addr list \<Rightarrow> (addr \<rightharpoonup> SpellItem) \<Rightarrow> (addr \<rightharpoonup> SpellItem) option" where
  "reset_ids [] heap = Some heap"
| "reset_ids (p # ps) heap = do {
     si \<leftarrow> heap p;
     reset_ids ps (heap(p \<mapsto> si\<lparr>si_targetId := 0, si_casterId := 0\<rparr>))
   }"

definition zoneChanged :: "SpellShell \<Rightarrow> shell_result" where
  "zoneChanged ss = do {
     heap \<leftarrow> reset_ids (ss_list ss) (ss_heap ss);
     Some (ss\<lparr>ss_last := None, ss_heap := heap\<rparr>, [])
   }"

fun kill_items :: "u16 \<Rightarrow> addr list \<Rightarrow> (addr \<rightharpoonup> SpellItem)
    \<Rightarrow> (addr list \<times> (addr \<rightharpoonup> SpellItem) \<times> spell_event list) option" where
  "kill_items k [] heap = Some ([], heap, [])"
| "kill_items k (p # ps) heap = do {
     si \<leftarrow> heap p;
     if si_targetId si = k
     then do { (l, heap1, ev) \<leftarrow> kill_items k ps (heap(p := None)); Some (l, heap1, DelSpell si # ev) }
     else do { (l, heap1, ev) \<leftarrow> kill_items k ps heap; Some (p # l, heap1, ev) }
   }"

definition killSpawn :: "spell_world \<Rightarrow> u16 \<Rightarrow> SpellShell \<Rightarrow> shell_result" where
  "killSpawn w deceased ss =
     (if deceased = w_playerId w then shell_clear ss
      else do {
        last1 \<leftarrow> (case ss_last ss of
                   None \<Rightarrow> Some None
                 | Some p \<Rightarrow> do { si \<leftarrow> ss_heap ss p; Some (if si_targetId si = deceased then None else Some p) });
        (l, heap, ev) \<leftarrow> kill_items deceased (ss_list ss) (ss_heap ss);
        Some (ss\<lparr>ss_last := last1, ss_list := l, ss_heap := heap,
                 ss_timer := (if l = [] then None else ss_timer ss)\<rparr>, ev)
      })"

fun time_items :: "int \<Rightarrow> addr list \<Rightarrow> (addr \<rightharpoonup> SpellItem) \<Rightarrow> addr option
    \<Rightarrow> (addr list \<times> (addr \<rightharpoonup> SpellItem) \<times> addr option \<times> spell_event list) option" where
  "time_items s [] heap lst = Some ([], heap, lst, [])"
| "time_items s (p # ps) heap lst = do {
     si \<leftarrow> heap p;
     let d = si_duration si - s;
     if d > -6
     then do {
       let si1 = si\<lparr>si_duration := d\<rparr>;
       (l, heap1, last1, ev) \<leftarrow> time_items s ps (heap(p \<mapsto> si1)) lst;
       Some (p # l, heap1, last1, ChangeSpell si1 # ev)
     }
     else do {
       let last0 = (if lst = Some p then None else lst);
       (l, heap1, last1, ev) \<leftarrow> time_items s ps (heap(p := None)) last0;
       Some (l, heap1, last1, DelSpell si # ev)
     }
   }"

definition timeout :: "spell_world \<Rightarrow> SpellShell \<Rightarrow> shell_result" where
  "timeout w ss = do {
     (l, heap, last1, ev) \<leftarrow> time_items (w_spellTimer w) (ss_list ss) (ss_heap ss) (ss_last ss);
     Some (ss\<lparr>ss_list := l, ss_heap := heap, ss_last := last1,
              ss_timer := (if l = [] then None else ss_timer ss)\<rparr>, ev)
   }"

end
