(* ===== verification/SpellShellProps.thy ===== *)
theory SpellShellProps
  imports SpellShell
begin

text \<open>
  The spell shell keeps its list, its heap, its last spell and its timer in step, and the timer
  ends every spell.
\<close>

section \<open>The invariant\<close>

definition shell_ok :: "SpellShell \<Rightarrow> bool" where
  "shell_ok ss \<longleftrightarrow> distinct (ss_list ss) \<and> (\<forall>p. ss_heap ss p \<noteq> None \<longleftrightarrow> p \<in> set (ss_list ss))
     \<and> (\<forall>p \<in> set (ss_list ss). p < ss_next ss)
     \<and> (\<forall>p. ss_last ss = Some p \<longrightarrow> p \<in> set (ss_list ss))
     \<and> (ss_timer ss = None \<longleftrightarrow> ss_list ss = [])"

lemma spell_shell_ok_new: "shell_ok new_SpellShell"
  by (simp add: shell_ok_def new_SpellShell_def)

lemma shell_okD:
  assumes "shell_ok ss"
  shows "distinct (ss_list ss)" "ss_heap ss p \<noteq> None \<longleftrightarrow> p \<in> set (ss_list ss)"
    "p \<in> set (ss_list ss) \<Longrightarrow> p < ss_next ss" "p \<in> set (ss_list ss) \<Longrightarrow> \<exists>si. ss_heap ss p = Some si"
    "ss_last ss = Some p \<Longrightarrow> p \<in> set (ss_list ss)" "ss_timer ss = None \<longleftrightarrow> ss_list ss = []"
  using assms by (auto simp: shell_ok_def)

lemma find_item_ok:
  "(\<forall>p \<in> set ps. heap p \<noteq> None) \<Longrightarrow> \<exists>r. find_item P heap ps = Some r
    \<and> (\<forall>p. r = Some p \<longrightarrow> p \<in> set ps \<and> (\<exists>si. heap p = Some si \<and> P si))
    \<and> (r = None \<longrightarrow> (\<forall>p \<in> set ps. \<not> P (the (heap p))))"
proof (induction ps)
  case (Cons p ps)
  obtain si where "heap p = Some si" using Cons.prems by auto
  then show ?case using Cons by (cases "P si") auto
qed simp

lemma find_item_shell:
  assumes "shell_ok ss"
  shows "\<exists>r. find_item P (ss_heap ss) (ss_list ss) = Some r \<and> (\<forall>p. r = Some p \<longrightarrow> p \<in> set (ss_list ss))"
  using find_item_ok [of "ss_list ss" "ss_heap ss" P] shell_okD(2) [OF assms] by auto

lemma change_item_ok [inv_intros]:
  assumes "shell_ok ss" "p \<in> set (ss_list ss)"
  shows "\<exists>ss' ev. change_item p f ss = Some (ss', ev) \<and> shell_ok ss'"
proof -
  obtain si where "ss_heap ss p = Some si" using shell_okD(4) [OF assms] by blast
  then show ?thesis using assms by (auto simp: change_item_def modify_item_def shell_ok_def)
qed

lemma append_item_ok [inv_intros]:
  assumes "shell_ok ss" "append_item w si ss = (p, ss', ev)"
  shows "shell_ok ss' \<and> shell_ok (ss'\<lparr>ss_last := Some p\<rparr>)"
proof -
  let ?ss = "ss\<lparr>ss_heap := (ss_heap ss)(p \<mapsto> si), ss_next := Suc p, ss_list := ss_list ss @ [p],
      ss_timer := (if ss_timer ss = None then Some (1000 * w_spellTimer w) else ss_timer ss)\<rparr>"
  have e: "p = ss_next ss" "ss' = ?ss" using assms(2) by (auto simp: append_item_def Let_def)
  have n: "p \<notin> set (ss_list ss)" using shell_okD(3) [OF assms(1)] e(1) by blast
  have h: "((ss_heap ss)(p \<mapsto> si)) q \<noteq> None \<longleftrightarrow> q \<in> set (ss_list ss @ [p])" for q
    using shell_okD(2) [OF assms(1), of q] by auto
  have l: "\<forall>q \<in> set (ss_list ss @ [p]). q < Suc p"
    using shell_okD(3) [OF assms(1)] e(1) by (auto simp: less_Suc_eq)
  show ?thesis unfolding e(2) shell_ok_def using assms(1) n h l
    by (auto simp: shell_ok_def simp del: fun_upd_apply)
qed

lemma delete_items_all:
  "distinct ps \<Longrightarrow> (\<forall>p \<in> set ps. heap p \<noteq> None) \<Longrightarrow>
    delete_items ps heap = Some (\<lambda>p. if p \<in> set ps then None else heap p)"
proof (induction ps arbitrary: heap)
  case (Cons p ps)
  let ?h = "heap(p := None)"
  obtain si where si: "heap p = Some si" using Cons.prems by auto
  have "delete_items ps ?h = Some (\<lambda>q. if q \<in> set ps then None else ?h q)"
    by (rule Cons.IH) (use Cons.prems in auto)
  moreover have "(\<lambda>q. if q \<in> set ps then None else ?h q) = (\<lambda>q. if q \<in> set (p # ps) then None else heap q)"
    by (rule ext) auto
  ultimately show ?case using si by simp
qed simp

lemma shell_clear_ok [inv_intros]:
  assumes "shell_ok ss"
  shows "shell_clear ss = Some (ss\<lparr>ss_last := None, ss_heap := Map.empty, ss_list := [], ss_timer := None\<rparr>, [ClearSpells])
    \<and> shell_ok (ss\<lparr>ss_last := None, ss_heap := Map.empty, ss_list := [], ss_timer := None\<rparr>)"
proof -
  have "(\<lambda>p. if p \<in> set (ss_list ss) then None else ss_heap ss p) = Map.empty"
    using shell_okD(2) [OF assms] by (intro ext) (metis (no_types))
  then show ?thesis using delete_items_all [OF shell_okD(1) [OF assms]] shell_okD(2) [OF assms]
    by (simp add: shell_clear_def shell_ok_def)
qed

lemma deleteSpell_ok [inv_intros]:
  assumes "shell_ok ss" "p \<in> set (ss_list ss)"
  shows "\<exists>ss' ev. deleteSpell p ss = Some (ss', ev) \<and> shell_ok ss'"
proof -
  obtain si where "ss_heap ss p = Some si" using shell_okD(4) [OF assms] by blast
  then show ?thesis using assms by (auto simp: deleteSpell_def Let_def shell_ok_def)
qed

lemma reset_ids_ok:
  "(\<forall>p \<in> set ps. heap p \<noteq> None) \<Longrightarrow>
    \<exists>heap'. reset_ids ps heap = Some heap' \<and> (\<forall>p. heap' p \<noteq> None \<longleftrightarrow> heap p \<noteq> None)"
proof (induction ps arbitrary: heap)
  case (Cons p ps)
  obtain si where si: "heap p = Some si" using Cons.prems by auto
  let ?h = "heap(p \<mapsto> si\<lparr>si_targetId := 0, si_casterId := 0\<rparr>)"
  have "\<forall>q \<in> set ps. ?h q \<noteq> None" using Cons.prems by auto
  from Cons.IH [OF this] obtain h' where "reset_ids ps ?h = Some h'" "\<forall>q. h' q \<noteq> None \<longleftrightarrow> ?h q \<noteq> None" by blast
  moreover have "\<forall>q. ?h q \<noteq> None \<longleftrightarrow> heap q \<noteq> None" using si by simp
  ultimately show ?case using si by auto
qed simp

text \<open>What a death and a timer event leave of the list and the heap.\<close>

lemma kill_items_ok:
  "distinct ps \<Longrightarrow> (\<forall>p \<in> set ps. heap p \<noteq> None) \<Longrightarrow> \<exists>ev. kill_items k ps heap =
     Some (filter (\<lambda>p. si_targetId (the (heap p)) \<noteq> k) ps,
           (\<lambda>p. if p \<in> set ps \<and> si_targetId (the (heap p)) = k then None else heap p), ev)"
proof (induction ps arbitrary: heap)
  case (Cons p ps)
  obtain si where si: "heap p = Some si" using Cons.prems by auto
  let ?h = "if si_targetId si = k then heap(p := None) else heap"
  have h: "\<forall>q \<in> set ps. ?h q = heap q" "\<forall>q \<in> set ps. ?h q \<noteq> None" using Cons.prems by auto
  obtain ev where ev: "kill_items k ps ?h = Some (filter (\<lambda>p. si_targetId (the (?h p)) \<noteq> k) ps,
           (\<lambda>p. if p \<in> set ps \<and> si_targetId (the (?h p)) = k then None else ?h p), ev)"
    using Cons.IH [OF _ h(2)] Cons.prems(1) by auto
  have f: "filter (\<lambda>p. si_targetId (the (?h p)) \<noteq> k) ps = filter (\<lambda>p. si_targetId (the (heap p)) \<noteq> k) ps"
    by (rule filter_cong) (use h(1) in auto)
  have m: "(\<lambda>p. if p \<in> set ps \<and> si_targetId (the (?h p)) = k then None else ?h p)
      = (\<lambda>q. if q \<in> set (p # ps) \<and> si_targetId (the (heap q)) = k then None else heap q)"
    by (rule ext) (use h(1) si Cons.prems(1) in auto)
  show ?case using ev [unfolded f m] si by (cases "si_targetId si = k") simp_all
qed simp

definition time_left :: "int \<Rightarrow> (addr \<rightharpoonup> SpellItem) \<Rightarrow> addr \<Rightarrow> bool" where
  "time_left s heap p \<longleftrightarrow> si_duration (the (heap p)) - s > -6"

definition age :: "int \<Rightarrow> SpellItem \<Rightarrow> SpellItem" where
  "age s si = si\<lparr>si_duration := si_duration si - s\<rparr>"

lemma time_items_ok:
  "distinct ps \<Longrightarrow> (\<forall>p \<in> set ps. heap p \<noteq> None) \<Longrightarrow> \<exists>ev. time_items s ps heap lst =
     Some (filter (time_left s heap) ps,
           (\<lambda>p. if p \<in> set ps then if time_left s heap p then map_option (age s) (heap p) else None else heap p),
           (case lst of Some p \<Rightarrow> if p \<in> set ps \<and> \<not> time_left s heap p then None else lst | None \<Rightarrow> None), ev)"
proof (induction ps arbitrary: heap lst)
  case Nil
  then show ?case by (simp split: option.splits)
next
  case (Cons p ps)
  obtain si where si: "heap p = Some si" using Cons.prems by auto
  have p: "p \<notin> set ps" "distinct ps" using Cons.prems by simp_all
  let ?t = "si_duration si - s > -6"
  let ?h = "if ?t then heap(p \<mapsto> age s si) else heap(p := None)"
  let ?l = "if \<not> ?t \<and> lst = Some p then None else lst"
  have h: "\<forall>q \<in> set ps. ?h q = heap q" "\<forall>q \<in> set ps. ?h q \<noteq> None" using Cons.prems by auto
  obtain ev where ev: "time_items s ps ?h ?l = Some (filter (time_left s ?h) ps,
           (\<lambda>p. if p \<in> set ps then if time_left s ?h p then map_option (age s) (?h p) else None else ?h p),
           (case ?l of Some p \<Rightarrow> if p \<in> set ps \<and> \<not> time_left s ?h p then None else ?l | None \<Rightarrow> None), ev)"
    using Cons.IH [OF p(2) h(2)] by blast
  have t: "time_left s ?h q = time_left s heap q" if "q \<in> set ps" for q using h(1) that by (simp add: time_left_def)
  have tp: "time_left s heap p \<longleftrightarrow> ?t" using si by (simp add: time_left_def)
  have f: "filter (time_left s ?h) ps = filter (time_left s heap) ps" by (rule filter_cong) (use t in auto)
  have m: "(\<lambda>p. if p \<in> set ps then if time_left s ?h p then map_option (age s) (?h p) else None else ?h p)
      = (\<lambda>q. if q \<in> set (p # ps) then if time_left s heap q then map_option (age s) (heap q) else None else heap q)"
    by (rule ext) (use h(1) t tp p si in auto)
  have l: "(case ?l of Some p \<Rightarrow> if p \<in> set ps \<and> \<not> time_left s ?h p then None else ?l | None \<Rightarrow> None)
      = (case lst of Some q \<Rightarrow> if q \<in> set (p # ps) \<and> \<not> time_left s heap q then None else lst | None \<Rightarrow> None)"
    using t tp p by (auto split: option.splits)
  have fp: "filter (time_left s heap) (p # ps) = (if ?t then p # filter (time_left s heap) ps else filter (time_left s heap) ps)"
    using tp by simp
  show ?case
  proof (cases ?t)
    case True
    then show ?thesis unfolding fp using ev [unfolded f m l] si by (simp add: age_def [of s si, symmetric] Let_def del: set_simps)
  next
    case False
    then show ?thesis unfolding fp using ev [unfolded f m l] si by (simp add: Let_def del: set_simps)
  qed
qed

section \<open>Every operation\<close>

text \<open>The spell table answers every request.\<close>

definition table_ok :: "spell_world \<Rightarrow> bool" where
  "table_ok w \<longleftrightarrow> (\<forall>i. spell_lookup (w_spells w) i \<noteq> None)"

lemma new_Spells_table:
  assumes "new_Spells tu inp = Some sps"
  shows "spell_lookup sps i \<noteq> None"
proof (cases inp)
  case None
  then show ?thesis using assms by (auto simp: new_Spells_def loadSpells_def unloadSpells_def Let_def spell_lookup_def)
next
  case (Some ls)
  obtain q where q: "parse_spells tu ls = Some q"
    using assms Some by (auto simp: new_Spells_def loadSpells_def Let_def bind_Some_iff)
  show ?thesis using spells_table(1,2) [OF q, of sps i] assms Some
    by (cases "i < sps_maxSpell sps") (auto simp: not_less)
qed

definition step_ok :: "shell_result \<Rightarrow> bool" where
  "step_ok r \<longleftrightarrow> (\<exists>ss ev. r = Some (ss, ev) \<and> shell_ok ss)"

lemma step_ok_Some: "shell_ok ss \<Longrightarrow> step_ok (Some (ss, ev))"
  by (simp add: step_ok_def)

text \<open>An item that is changed when it is found and appended when it is not.\<close>

lemma change_or_append:
  assumes "shell_ok ss" "\<forall>p. item = Some p \<longrightarrow> p \<in> set (ss_list ss)"
  shows "step_ok (case item of Some p \<Rightarrow> change_item p f ss
      | None \<Rightarrow> let (p, ss1, ev) = append_item w si ss in Some (ss1, ev))"
    "step_ok (case item of Some p \<Rightarrow> change_item p f ss
      | None \<Rightarrow> let (p, ss1, ev) = append_item w si ss in Some (ss1\<lparr>ss_last := Some p\<rparr>, ev))"
proof -
  obtain p ss1 ev where a: "append_item w si ss = (p, ss1, ev)" by (cases "append_item w si ss") auto
  note ok = append_item_ok [OF assms(1) a]
  show "step_ok (case item of Some p \<Rightarrow> change_item p f ss
      | None \<Rightarrow> let (p, ss1, ev) = append_item w si ss in Some (ss1, ev))"
    using change_item_ok [OF assms(1)] assms(2) ok a by (cases item) (auto simp: step_ok_def)
  show "step_ok (case item of Some p \<Rightarrow> change_item p f ss
      | None \<Rightarrow> let (p, ss1, ev) = append_item w si ss in Some (ss1\<lparr>ss_last := Some p\<rparr>, ev))"
    using change_item_ok [OF assms(1)] assms(2) ok a by (cases item) (auto simp: step_ok_def)
qed

lemma find_steps:
  assumes "shell_ok ss"
  shows "\<exists>r. findSpell i ss = Some r \<and> (\<forall>p. r = Some p \<longrightarrow> p \<in> set (ss_list ss))"
    "\<exists>r. findSpell_target i t n ss = Some r \<and> (\<forall>p. r = Some p \<longrightarrow> p \<in> set (ss_list ss))"
  using find_item_shell [OF assms] by (simp_all add: findSpell_def findSpell_target_def)

lemma selfStartSpellCast_ok:
  assumes "shell_ok ss" "table_ok w"
  shows "step_ok (selfStartSpellCast w c ss)"
proof -
  obtain sp where sp: "spell_lookup (w_spells w) (c_spellId c) = Some sp" using assms(2) by (auto simp: table_ok_def)
  let ?self = "case sp of None \<Rightarrow> False | Some sp \<Rightarrow> sp_targetType sp = 6"
  let ?tn = "if ?self then w_playerName w else target_name w (c_targetId c)"
  obtain r where r: "(if ?self then findSpell (c_spellId c) ss else findSpell_target (c_spellId c) (c_targetId c) ?tn ss) = Some r"
    "\<forall>p. r = Some p \<longrightarrow> p \<in> set (ss_list ss)" using find_steps [OF assms(1)] by metis
  show ?thesis unfolding selfStartSpellCast_def Let_def sp bind.simps r(1)
    by (rule change_or_append(2) [OF assms(1) r(2), unfolded Let_def])
qed

lemma buffLoad_ok:
  assumes "shell_ok ss" "table_ok w"
  shows "step_ok (buffLoad w c ss)"
proof -
  obtain sp where sp: "spell_lookup (w_spells w) (sb_spellid c) = Some sp" using assms(2) by (auto simp: table_ok_def)
  obtain r where r: "findSpell_target (sb_spellid c) (w_playerId w) (w_playerName w) ss = Some r"
    "\<forall>p. r = Some p \<longrightarrow> p \<in> set (ss_list ss)" using find_steps(2) [OF assms(1)] by blast
  show ?thesis unfolding buffLoad_def Let_def sp bind.simps r(1)
    by (rule change_or_append(1) [OF assms(1) r(2), unfolded Let_def])
qed

lemma buff_ok:
  assumes "shell_ok ss" "table_ok w"
  shows "step_ok (buff w b dir ss)"
proof -
  obtain sp where sp: "spell_lookup (w_spells w) (b_spellid b) = Some sp" using assms(2) by (auto simp: table_ok_def)
  let ?self = "case sp of None \<Rightarrow> False | Some sp \<Rightarrow> sp_targetType sp = 6"
  obtain r where r: "(if ?self then findSpell (b_spellid b) ss
      else findSpell_target (b_spellid b) (b_spawnid b) (target_name w (b_spawnid b)) ss) = Some r"
    "\<forall>p. r = Some p \<longrightarrow> p \<in> set (ss_list ss)" using find_steps [OF assms(1)] by metis
  have "step_ok (case r of None \<Rightarrow> Some (ss, []) | Some p \<Rightarrow>
      if b_changetype b = 1 then deleteSpell p ss
      else if b_changetype b = 2 then change_item p (\<lambda>si. si\<lparr>si_duration := uint (b_duration b) * 6\<rparr>) ss
      else Some (ss, []))"
    using deleteSpell_ok [OF assms(1)] change_item_ok [OF assms(1)] r(2) assms(1)
    by (cases r) (auto simp: step_ok_def)
  then show ?thesis unfolding buff_def Let_def sp bind.simps r(1) using step_ok_Some [OF assms(1)] by simp
qed

lemma action_ok:
  assumes "shell_ok ss" "table_ok w"
  shows "step_ok (action w a ss)"
proof -
  obtain sp where sp: "spell_lookup (w_spells w) (a_spell a) = Some sp" using assms(2) by (auto simp: table_ok_def)
  obtain r where r: "findSpell_target (a_spell a) (a_target a) (target_name w (a_target a)) ss = Some r"
    "\<forall>p. r = Some p \<longrightarrow> p \<in> set (ss_list ss)" using find_steps(2) [OF assms(1)] by blast
  note s = step_ok_Some [OF assms(1), of "[]"] change_or_append(1) [OF assms(1) r(2), unfolded Let_def]
  show ?thesis unfolding action_def Let_def sp bind.simps r(1) using s by auto
qed

lemma spellMessage_ok:
  assumes "shell_ok ss"
  shows "step_ok (spellMessage str ss)"
proof (cases "message_spell str")
  case (Some n)
  obtain r where r: "find_item (\<lambda>i. si_spellName i = n) (ss_heap ss) (ss_list ss) = Some r"
    "\<forall>p. r = Some p \<longrightarrow> p \<in> set (ss_list ss)" using find_item_shell [OF assms] by blast
  show ?thesis
  proof (cases r)
    case (Some p)
    then obtain ss' ev where "change_item p (\<lambda>si. si\<lparr>si_duration := 0\<rparr>) ss = Some (ss', ev)" "shell_ok ss'"
      using change_item_ok [OF assms] r(2) by blast
    then show ?thesis using Some r(1) \<open>message_spell str = Some n\<close>
      by (auto simp: spellMessage_def change_item_def bind_Some_iff step_ok_def)
  qed (use r(1) Some assms in \<open>simp add: spellMessage_def step_ok_def\<close>)
qed (use assms in \<open>simp add: spellMessage_def step_ok_def\<close>)

lemma zoneChanged_ok:
  assumes "shell_ok ss"
  shows "step_ok (zoneChanged ss)"
proof -
  have "\<forall>p \<in> set (ss_list ss). ss_heap ss p \<noteq> None" using shell_okD(2) [OF assms] by blast
  from reset_ids_ok [OF this] obtain h where "reset_ids (ss_list ss) (ss_heap ss) = Some h"
    "\<forall>p. h p \<noteq> None \<longleftrightarrow> ss_heap ss p \<noteq> None" by blast
  then show ?thesis using assms by (simp add: zoneChanged_def step_ok_def shell_ok_def)
qed

lemma killSpawn_ok:
  assumes ok: "shell_ok ss"
  shows "step_ok (killSpawn w k ss)"
proof (cases "k = w_playerId w")
  case True
  then show ?thesis using shell_clear_ok [OF ok] by (simp add: killSpawn_def step_ok_def)
next
  case False
  let ?P = "\<lambda>p. si_targetId (the (ss_heap ss p)) \<noteq> k"
  let ?l = "filter ?P (ss_list ss)"
  let ?h = "\<lambda>p. if p \<in> set (ss_list ss) \<and> \<not> ?P p then None else ss_heap ss p"
  have "\<forall>p \<in> set (ss_list ss). ss_heap ss p \<noteq> None" using shell_okD(2) [OF ok] by blast
  from kill_items_ok [OF shell_okD(1) [OF ok] this, of k] obtain ev where
    ev: "kill_items k (ss_list ss) (ss_heap ss) = Some (?l, ?h, ev)" by auto
  obtain last1 where l: "(case ss_last ss of None \<Rightarrow> Some None
      | Some p \<Rightarrow> do { si \<leftarrow> ss_heap ss p; Some (if si_targetId si = k then None else Some p) }) = Some last1"
    "\<forall>p. last1 = Some p \<longrightarrow> p \<in> set ?l"
  proof (cases "ss_last ss")
    case (Some p)
    then have "p \<in> set (ss_list ss)" using shell_okD(5) [OF ok] by blast
    moreover then obtain si where "ss_heap ss p = Some si" using shell_okD(4) [OF ok] by blast
    ultimately show thesis using Some that by auto
  qed (use that in auto)
  have "killSpawn w k ss = Some (ss\<lparr>ss_last := last1, ss_list := ?l, ss_heap := ?h,
      ss_timer := (if ?l = [] then None else ss_timer ss)\<rparr>, ev)"
    using False ev l(1) by (simp add: killSpawn_def)
  moreover have "shell_ok (ss\<lparr>ss_last := last1, ss_list := ?l, ss_heap := ?h,
      ss_timer := (if ?l = [] then None else ss_timer ss)\<rparr>)"
    using ok l(2) by (auto simp: shell_ok_def)
  ultimately show ?thesis by (simp add: step_ok_def)
qed

text \<open>A timer event, exactly.\<close>

lemma timeout_exact:
  assumes ok: "shell_ok ss"
  shows "\<exists>ss' ev. timeout w ss = Some (ss', ev) \<and> shell_ok ss'
    \<and> ss_list ss' = filter (time_left (w_spellTimer w) (ss_heap ss)) (ss_list ss)
    \<and> (\<forall>p \<in> set (ss_list ss'). ss_heap ss' p = map_option (age (w_spellTimer w)) (ss_heap ss p))"
proof -
  let ?T = "time_left (w_spellTimer w) (ss_heap ss)"
  let ?l = "filter ?T (ss_list ss)"
  let ?h = "\<lambda>p. if p \<in> set (ss_list ss) then if ?T p then map_option (age (w_spellTimer w)) (ss_heap ss p) else None
      else ss_heap ss p"
  let ?last = "case ss_last ss of Some p \<Rightarrow> if p \<in> set (ss_list ss) \<and> \<not> ?T p then None else ss_last ss | None \<Rightarrow> None"
  let ?ss = "ss\<lparr>ss_list := ?l, ss_heap := ?h, ss_last := ?last, ss_timer := (if ?l = [] then None else ss_timer ss)\<rparr>"
  have "\<forall>p \<in> set (ss_list ss). ss_heap ss p \<noteq> None" using shell_okD(2) [OF ok] by blast
  from time_items_ok [OF shell_okD(1) [OF ok] this, of "w_spellTimer w" "ss_last ss"] obtain ev where
    "timeout w ss = Some (?ss, ev)" by (auto simp: timeout_def)
  moreover have "shell_ok ?ss" using ok by (auto simp: shell_ok_def split: option.splits if_splits)
  ultimately show ?thesis by auto
qed

datatype spell_op = OpCast startCastStruct | OpBuffLoad spellBuff | OpBuff buffStruct u8 | OpAction actionStruct
  | OpMessage string | OpZone | OpKill u16 | OpTimeout | OpClear | OpDelete nat

fun spell_step :: "spell_world \<Rightarrow> spell_op \<Rightarrow> SpellShell \<Rightarrow> shell_result" where
  "spell_step w (OpCast c) ss = selfStartSpellCast w c ss"
| "spell_step w (OpBuffLoad c) ss = buffLoad w c ss"
| "spell_step w (OpBuff b dir) ss = buff w b dir ss"
| "spell_step w (OpAction a) ss = action w a ss"
| "spell_step w (OpMessage m) ss = spellMessage m ss"
| "spell_step w OpZone ss = zoneChanged ss"
| "spell_step w (OpKill k) ss = killSpawn w k ss"
| "spell_step w OpTimeout ss = timeout w ss"
| "spell_step w OpClear ss = shell_clear ss"
| "spell_step w (OpDelete n) ss = (if n < length (ss_list ss) then deleteSpell (ss_list ss ! n) ss else Some (ss, []))"

fun spell_run :: "(spell_world \<times> spell_op) list \<Rightarrow> SpellShell \<Rightarrow> SpellShell option" where
  "spell_run [] ss = Some ss"
| "spell_run ((w, x) # xs) ss = do { (ss1, _) \<leftarrow> spell_step w x ss; spell_run xs ss1 }"

lemma spell_step_ok:
  assumes "shell_ok ss" "table_ok w"
  shows "step_ok (spell_step w x ss)"
proof (cases x)
  case (OpDelete n)
  then show ?thesis using deleteSpell_ok [OF assms(1)] assms(1) by (auto simp: step_ok_def)
next
  case OpTimeout
  then show ?thesis using timeout_exact [OF assms(1), of w] by (auto simp: step_ok_def)
next
  case OpClear
  then show ?thesis using shell_clear_ok [OF assms(1)] by (auto simp: step_ok_def)
qed (use assms selfStartSpellCast_ok buffLoad_ok buff_ok action_ok spellMessage_ok zoneChanged_ok killSpawn_ok in simp_all)

lemma spell_run_ok: "shell_ok ss \<Longrightarrow> list_all (\<lambda>(w, x). table_ok w) xs \<Longrightarrow> \<exists>ss'. spell_run xs ss = Some ss' \<and> shell_ok ss'"
proof (induction xs arbitrary: ss)
  case (Cons wx xs)
  obtain w x where wx: "wx = (w, x)" by fastforce
  then obtain ss1 ev where "spell_step w x ss = Some (ss1, ev)" "shell_ok ss1"
    using spell_step_ok [of ss w x] Cons.prems by (auto simp: step_ok_def)
  then show ?case using Cons wx by simp
qed simp

section \<open>The timer ends every spell\<close>

fun timeouts :: "spell_world \<Rightarrow> nat \<Rightarrow> SpellShell \<Rightarrow> SpellShell option" where
  "timeouts w 0 ss = Some ss"
| "timeouts w (Suc n) ss = do { (ss1, _) \<leftarrow> timeout w ss; timeouts w n ss1 }"

lemma timeouts_list:
  assumes "w_spellTimer w = s" "0 \<le> s"
  shows "shell_ok ss \<Longrightarrow> \<exists>ss'. timeouts w (Suc n) ss = Some ss' \<and> shell_ok ss'
    \<and> ss_list ss' = filter (time_left (int (Suc n) * s) (ss_heap ss)) (ss_list ss)"
proof (induction n arbitrary: ss)
  case 0
  then show ?case using timeout_exact [of ss w] assms(1) by auto
next
  case (Suc n)
  obtain ss1 ev where 1: "timeout w ss = Some (ss1, ev)" "shell_ok ss1"
    "ss_list ss1 = filter (time_left s (ss_heap ss)) (ss_list ss)"
    "\<forall>p \<in> set (ss_list ss1). ss_heap ss1 p = map_option (age s) (ss_heap ss p)"
    using timeout_exact [OF Suc.prems, of w] assms(1) by auto
  obtain ss' where 2: "timeouts w (Suc n) ss1 = Some ss'" "shell_ok ss'"
    "ss_list ss' = filter (time_left (int (Suc n) * s) (ss_heap ss1)) (ss_list ss1)"
    using Suc.IH [OF 1(2)] by blast
  have t: "time_left (int (Suc n) * s) (ss_heap ss1) p \<longleftrightarrow> time_left (int (Suc (Suc n)) * s) (ss_heap ss) p"
    if p: "p \<in> set (ss_list ss1)" for p
  proof -
    obtain si where "ss_heap ss p = Some si" using p 1(3) shell_okD(4) [OF Suc.prems] by auto
    then show ?thesis using 1(4) p by (simp add: time_left_def age_def algebra_simps)
  qed
  have m: "time_left s (ss_heap ss) p" if "time_left (int (Suc (Suc n)) * s) (ss_heap ss) p" for p
  proof -
    have "s \<le> int (Suc (Suc n)) * s" using assms(2) by (simp add: mult_le_cancel_right1)
    then show ?thesis using that by (simp add: time_left_def)
  qed
  have "ss_list ss' = filter (time_left (int (Suc (Suc n)) * s) (ss_heap ss)) (ss_list ss1)"
    unfolding 2(3) by (rule filter_cong) (use t in auto)
  also have "\<dots> = filter (time_left (int (Suc (Suc n)) * s) (ss_heap ss)) (ss_list ss)"
    unfolding 1(3) filter_filter by (rule filter_cong) (use m in auto)
  finally show ?case using 1(1) 2(1,2) by simp
qed

lemma timeouts_end:
  assumes "shell_ok ss" "0 < s"
  shows "\<exists>N. \<forall>n\<ge>N. filter (time_left (int (Suc n) * s) (ss_heap ss)) (ss_list ss) = []"
proof -
  define D where "D = Max (insert 0 ((\<lambda>p. si_duration (the (ss_heap ss p))) ` set (ss_list ss)))"
  have d: "si_duration (the (ss_heap ss p)) \<le> D" if "p \<in> set (ss_list ss)" for p
    unfolding D_def using that by (intro Max_ge) auto
  have "\<not> time_left (int (Suc n) * s) (ss_heap ss) p"
    if n: "nat (D + 6) \<le> n" and p: "p \<in> set (ss_list ss)" for n p
  proof -
    define X where "X = int (Suc n) * s"
    have "int (Suc n) * 1 \<le> X" unfolding X_def using assms(2) by (intro mult_left_mono) auto
    then have "D + 6 < X" using n by simp
    then show ?thesis unfolding time_left_def X_def [symmetric] using d [OF p] by linarith
  qed
  then show ?thesis by (auto simp: filter_empty_conv)
qed

section \<open>Properties\<close>

text \<open>C17: the spell shell is memory safe and never loses an item. From an empty shell on, whatever
  packets, messages, zone changes, deaths, timer events and deletions arrive, in any order and
  with any state of the player, the spawns and the clock, no operation follows a deleted item:
  the list holds each live item once, the last spell is in the list, and the timer runs exactly
  while the list is not empty.\<close>

theorem spell_shell_memory_safe:
  assumes "list_all (\<lambda>(w, x). \<forall>i. spell_lookup (w_spells w) i \<noteq> None) xs"
  shows "\<exists>ss. spell_run xs new_SpellShell = Some ss \<and> distinct (ss_list ss)
    \<and> (\<forall>p. ss_heap ss p \<noteq> None \<longleftrightarrow> p \<in> set (ss_list ss))
    \<and> (\<forall>p. ss_last ss = Some p \<longrightarrow> p \<in> set (ss_list ss)) \<and> (ss_timer ss = None \<longleftrightarrow> ss_list ss = [])"
proof -
  have "list_all (\<lambda>(w, x). table_ok w) xs" using assms by (simp add: table_ok_def)
  from spell_run_ok [OF spell_shell_ok_new this] show ?thesis by (auto simp: shell_ok_def)
qed

definition sample_world :: spell_world where
  "sample_world = \<lparr>w_playerId = 7, w_playerName = ''Me'', w_playerLevel = 20,
     w_spells = \<lparr>sps_maxSpell = 2, sps_table = Some [None,
        Some \<lparr>sp_name = ''Aura'', sp_spell = 1, sp_buffDurationFormula = 50, sp_buffDurationArgument = 0,
              sp_targetType = 5, sp_classLevels = []\<rparr>, None]\<rparr>,
     w_spawnName = (\<lambda>_. None), w_spell_name = (\<lambda>_. []), w_spellTimer = 6, w_now = 0\<rparr>"

lemma sample_lookup: "spell_lookup (w_spells sample_world) i \<noteq> None"
proof (cases "i < 2")
  case True
  then have "unat i < 3" by (simp add: word_less_nat_alt)
  then show ?thesis by (simp add: spell_lookup_def sample_world_def nth_opt_def)
qed (simp add: spell_lookup_def sample_world_def not_less)

theorem spell_shell_memory_safe_witness:
  "\<exists>ss. spell_run [(sample_world, OpCast \<lparr>c_spellId = 5, c_targetId = 9\<rparr>), (sample_world, OpZone),
      (sample_world, OpKill 0), (sample_world, OpTimeout)] new_SpellShell = Some ss
    \<and> (ss_timer ss = None \<longleftrightarrow> ss_list ss = [])"
proof -
  let ?xs = "[(sample_world, OpCast \<lparr>c_spellId = 5, c_targetId = 9\<rparr>), (sample_world, OpZone),
      (sample_world, OpKill 0), (sample_world, OpTimeout)]"
  have "list_all (\<lambda>(w, x). \<forall>i. spell_lookup (w_spells w) i \<noteq> None) ?xs" using sample_lookup by simp
  from spell_shell_memory_safe [OF this] show ?thesis by (auto simp del: spell_run.simps)
qed

text \<open>C18: every spell ends. With a positive timer period s, after n+1 timer events the list holds
  exactly the items whose duration was more than (n+1) s - 6, in their order, and from some
  number of timer events on the list is empty and the timer is stopped.\<close>

theorem spells_expire:
  assumes "shell_ok ss" "0 < w_spellTimer w"
  shows "(\<forall>n. \<exists>ss'. timeouts w (Suc n) ss = Some ss' \<and> ss_list ss' =
      filter (\<lambda>p. si_duration (the (ss_heap ss p)) > int (Suc n) * w_spellTimer w - 6) (ss_list ss))
    \<and> (\<exists>N. \<forall>n\<ge>N. \<exists>ss'. timeouts w (Suc n) ss = Some ss' \<and> ss_list ss' = [] \<and> ss_timer ss' = None)"
proof -
  have s: "0 \<le> w_spellTimer w" using assms(2) by simp
  have e: "time_left t (ss_heap ss) = (\<lambda>p. si_duration (the (ss_heap ss p)) > t - 6)" for t
    by (auto simp: time_left_def fun_eq_iff)
  have t: "\<exists>ss'. timeouts w (Suc n) ss = Some ss' \<and> shell_ok ss'
      \<and> ss_list ss' = filter (time_left (int (Suc n) * w_spellTimer w) (ss_heap ss)) (ss_list ss)" for n
    by (rule timeouts_list [OF refl s assms(1)])
  obtain N where N: "\<forall>n\<ge>N. filter (time_left (int (Suc n) * w_spellTimer w) (ss_heap ss)) (ss_list ss) = []"
    using timeouts_end [OF assms] by blast
  have "\<exists>ss'. timeouts w (Suc n) ss = Some ss' \<and> ss_list ss' = [] \<and> ss_timer ss' = None" if n: "n \<ge> N" for n
  proof -
    obtain ss' where "timeouts w (Suc n) ss = Some ss'" "shell_ok ss'" "ss_list ss' = []" using t [of n] N n by metis
    then show ?thesis using shell_okD(6) by blast
  qed
  then show ?thesis using t unfolding e by blast
qed

theorem spells_expire_witness:
  "\<exists>N. \<forall>n\<ge>N. \<exists>ss'. timeouts sample_world (Suc n) \<lparr>ss_heap = [0 \<mapsto> new_SpellItem\<lparr>si_duration := 30\<rparr>],
      ss_next = 1, ss_list = [0], ss_last = None, ss_timer = Some 6000\<rparr> = Some ss' \<and> ss_list ss' = [] \<and> ss_timer ss' = None"
proof -
  have "shell_ok \<lparr>ss_heap = [0 \<mapsto> new_SpellItem\<lparr>si_duration := 30\<rparr>],
      ss_next = 1, ss_list = [0], ss_last = None, ss_timer = Some 6000\<rparr>" by (auto simp: shell_ok_def)
  from spells_expire [OF this, of sample_world] show ?thesis by (auto simp: sample_world_def)
qed

text \<open>a permanent spell is dropped at once. A spell with the permanent duration formula 50 gets the
  duration 65535 in a 16-bit signed integer, which is -1; cast as a new spell it has -6 seconds,
  and the next timer event deletes it, whatever the period.\<close>

theorem permanent_spell_dropped:
  assumes "shell_ok ss" "spell_lookup (w_spells w) (c_spellId c) = Some (Some sp)" "sp_buffDurationFormula sp = 50"
    "selfStartSpellCast w c ss = Some (ss1, [AddSpell si])" "0 \<le> w_spellTimer w"
  shows "si_duration si = -6 \<and> (\<exists>p ss2 ev. ss_list ss1 = ss_list ss @ [p] \<and> ss_heap ss1 p = Some si
    \<and> timeout w ss1 = Some (ss2, ev) \<and> p \<notin> set (ss_list ss2))"
proof -
  have d: "sint (calcDuration sp (w_playerLevel w)) = -1" using assms(3) by (simp add: calcDuration_def)
  let ?self = "sp_targetType sp = 6"
  let ?tn = "if ?self then w_playerName w else target_name w (c_targetId c)"
  let ?upd = "item_update w (c_spellId c) (Some sp) (-6) (w_playerId w) (w_playerName w) (c_targetId c) ?tn"
  obtain r where r: "(if ?self then findSpell (c_spellId c) ss else findSpell_target (c_spellId c) (c_targetId c) ?tn ss) = Some r"
    using find_steps [OF assms(1)] by metis
  have c: "(case r of Some p \<Rightarrow> change_item p ?upd ss
      | None \<Rightarrow> let (p, ss1, ev) = append_item w (?upd new_SpellItem) ss in Some (ss1\<lparr>ss_last := Some p\<rparr>, ev))
      = Some (ss1, [AddSpell si])"
    using assms(4) r unfolding selfStartSpellCast_def Let_def assms(2) bind.simps option.case d by simp
  have "r = None" using c by (cases r) (auto simp: change_item_def bind_Some_iff)
  then have a: "si = ?upd new_SpellItem" "ss1 = fst (snd (append_item w si ss))\<lparr>ss_last := Some (ss_next ss)\<rparr>"
    using c by (auto simp: append_item_def Let_def)
  have dur: "si_duration si = -6" unfolding a(1) item_update_def by (simp add: Let_def)
  have l: "ss_list ss1 = ss_list ss @ [ss_next ss]" "ss_heap ss1 (ss_next ss) = Some si"
    unfolding a(2) by (simp_all add: append_item_def Let_def)
  have "shell_ok ss1" using append_item_ok [OF assms(1)] unfolding a(2) append_item_def Let_def by simp
  from timeout_exact [OF this, of w] obtain ss2 ev where t: "timeout w ss1 = Some (ss2, ev)"
    "ss_list ss2 = filter (time_left (w_spellTimer w) (ss_heap ss1)) (ss_list ss1)" by blast
  have "\<not> time_left (w_spellTimer w) (ss_heap ss1) (ss_next ss)" using l(2) dur assms(5) by (simp add: time_left_def)
  then have "ss_next ss \<notin> set (ss_list ss2)" using t(2) by simp
  then show ?thesis using dur l t(1) by blast
qed

theorem permanent_spell_dropped_witness:
  "\<exists>ss1 si. selfStartSpellCast sample_world \<lparr>c_spellId = 1, c_targetId = 9\<rparr> new_SpellShell = Some (ss1, [AddSpell si])
    \<and> si_duration si = -6"
proof -
  let ?sp = "\<lparr>sp_name = ''Aura'', sp_spell = 1, sp_buffDurationFormula = 50, sp_buffDurationArgument = 0,
              sp_targetType = 5, sp_classLevels = []\<rparr>" and ?c = "\<lparr>c_spellId = 1, c_targetId = 9\<rparr>"
  have l: "spell_lookup (w_spells sample_world) (c_spellId ?c) = Some (Some ?sp)"
    by (simp add: spell_lookup_def sample_world_def nth_opt_def word_le_nat_alt)
  obtain ss1 si where c: "selfStartSpellCast sample_world ?c new_SpellShell = Some (ss1, [AddSpell si])"
    using l by (auto simp: selfStartSpellCast_def Let_def findSpell_target_def new_SpellShell_def append_item_def)
  show ?thesis using permanent_spell_dropped [OF spell_shell_ok_new l _ c] c by (simp add: sample_world_def)
qed

end
