(* ===== verification/Motion.thy ===== *)
theory Motion
  imports Prelude
begin

text \<open>
  \<open>src/src/point.h\<close> at \<open>int16_t\<close> (the \<open>EQPoint\<close> of the code) and \<open>src/src/fixpt.h\<close> at \<open>int\<close>: points,
  the fixed point products, and the conversions from the \<open>float\<close> fields of packets. The result of a
  signed operation that leaves \<open>int\<close>, and of a conversion that leaves its target, is \<open>None\<close>.
\<close>

record EQPoint =
  pt_x :: u16
  pt_y :: u16
  pt_z :: u16

definition setPoint :: "u16 \<Rightarrow> u16 \<Rightarrow> u16 \<Rightarrow> 'a EQPoint_scheme \<Rightarrow> 'a EQPoint_scheme" where
  "setPoint x y z p = p\<lparr>pt_x := x, pt_y := y, pt_z := z\<rparr>"

definition addPoint :: "u16 \<Rightarrow> u16 \<Rightarrow> u16 \<Rightarrow> 'a EQPoint_scheme \<Rightarrow> 'a EQPoint_scheme" where
  "addPoint x y z p = p\<lparr>pt_x := pt_x p + x, pt_y := pt_y p + y, pt_z := pt_z p + z\<rparr>"

text \<open>\<open>calcDist\<close> is the square root of this number. It is exact in a double, and the root of a
  larger number below \<open>2 ^ 36\<close> is a larger double, so the code's comparisons are comparisons of
  squares. The third coordinate of the other point is 0 unless the caller gives one.\<close>

definition distSq :: "'a EQPoint_scheme \<Rightarrow> u16 \<Rightarrow> u16 \<Rightarrow> u16 \<Rightarrow> nat" where
  "distSq p x y z = nat ((sint (pt_x p) - sint x)\<^sup>2 + (sint (pt_y p) - sint y)\<^sup>2 + (sint (pt_z p) - sint z)\<^sup>2)"

section \<open>Fixed point numbers\<close>

definition c_int :: "int \<Rightarrow> int option" where
  "c_int v = (if - (2 ^ 31) \<le> v \<and> v < 2 ^ 31 then Some v else None)"

definition fixPtMulI :: "int \<Rightarrow> int \<Rightarrow> int option" where "fixPtMulI a b = c_int (a * b)"

definition fixPtMulII :: "int \<Rightarrow> nat \<Rightarrow> int \<Rightarrow> int option" where
  "fixPtMulII a q b = map_option (\<lambda>v. v div 2 ^ q) (c_int (a * b))"

definition qFormat :: nat where "qFormat = 14"

text \<open>\<open>fixPtToFixed\<close> of the \<open>float\<close> nearest to 0.0013, which is \<open>11166915 / 2 ^ 33\<close>.\<close>

definition animationCoefficientFixPt :: int where
  "animationCoefficientFixPt = (11166915 * 2 ^ qFormat) div 2 ^ 33"

lemma animationCoefficientFixPt_21: "animationCoefficientFixPt = 21"
  by (simp add: animationCoefficientFixPt_def qFormat_def)

section \<open>Single precision numbers\<close>

text \<open>A \<open>float\<close> is its 32 bits: \<open>(-1) ^ sign * mantissa * 2 ^ (exponent - 150)\<close>.\<close>

definition float_mantissa :: "u32 \<Rightarrow> int" where
  "float_mantissa w = (let e = (unat w div 2 ^ 23) mod 2 ^ 8; f = int (unat w mod 2 ^ 23)
     in if e = 0 then f else 2 ^ 23 + f)"

definition float_exponent :: "u32 \<Rightarrow> nat" where
  "float_exponent w = (let e = (unat w div 2 ^ 23) mod 2 ^ 8 in if e = 0 then 1 else e)"

definition float_finite :: "u32 \<Rightarrow> bool" where
  "float_finite w \<longleftrightarrow> (unat w div 2 ^ 23) mod 2 ^ 8 \<noteq> 255"

definition float_sign :: "u32 \<Rightarrow> int" where
  "float_sign w = (if bit w 31 then -1 else 1)"

text \<open>\<open>k * value\<close> towards zero; \<open>k\<close> is 1, or the 10 of \<open>Door::update\<close>, where the product is exact.\<close>

definition float_trunc :: "int \<Rightarrow> u32 \<Rightarrow> int option" where
  "float_trunc k w = (if float_finite w
     then Some (float_sign w * (k * float_mantissa w * 2 ^ (float_exponent w - 150) div 2 ^ (150 - float_exponent w)))
     else None)"

definition float_int16 :: "int \<Rightarrow> u32 \<Rightarrow> u16 option" where
  "float_int16 k w = do {
     v \<leftarrow> float_trunc k w;
     if - (2 ^ 15) \<le> v \<and> v < 2 ^ 15 then Some (word_of_int v) else None
   }"

text \<open>\<open>lrintf\<close> rounds to nearest, ties to even, to a \<open>long\<close> that is then cut to a byte.\<close>

definition float_round :: "u32 \<Rightarrow> int option" where
  "float_round w = (if \<not> float_finite w then None
     else let m = float_mantissa w * 2 ^ (float_exponent w - 150); d = 2 ^ (150 - float_exponent w);
              q = m div d; r = m mod d;
              n = (if 2 * r > d \<or> (2 * r = d \<and> odd q) then q + 1 else q)
          in Some (float_sign w * n))"

definition float_int8 :: "u32 \<Rightarrow> u8 option" where
  "float_int8 w = do {
     v \<leftarrow> float_round w;
     if - (2 ^ 63) \<le> v \<and> v < 2 ^ 63 then Some (word_of_int v) else None
   }"

end
