(* ===== verification/Spawn.thy ===== *)
theory Spawn
  imports SpawnWire Motion PacketInfo SpellShell
begin

text \<open>
  \<open>src/src/spawn.h\<close> and \<open>src/src/spawn.cpp\<close>: the things of a zone. The class hierarchy is a hierarchy
  of records: a point, an item with a name and filter flags, and the spawns, doors and drops that
  extend it. The getters a subclass overrides are a record of functions (\<open>vtable\<close>) that the
  inherited code is given.

  What the code takes from outside is the record \<open>spawn_env\<close>: the clock (the readings within one call
  are the same), the decoding of text and numbers by the Qt library, and the tables of names that
  are included from headers of plain data. The copy of a spawn, which nothing calls, and the dump of
  its memory to a file and back are left out.
\<close>

datatype spawnItemType = tUnknown | tDoors | tDrop | tSpawn | tPlayer

definition SPAWN_PLAYER :: u8 where "SPAWN_PLAYER = 0"
definition SPAWN_NPC :: u8 where "SPAWN_NPC = 1"
definition SPAWN_PC_CORPSE :: u8 where "SPAWN_PC_CORPSE = 2"
definition SPAWN_NPC_CORPSE :: u8 where "SPAWN_NPC_CORPSE = 3"
definition SPAWN_NPC_UNKNOWN :: u8 where "SPAWN_NPC_UNKNOWN = 4"
definition SPAWN_DROP :: u8 where "SPAWN_DROP = 6"
definition SPAWN_DOOR :: u8 where "SPAWN_DOOR = 7"
definition SPAWN_SELF :: u8 where "SPAWN_SELF = 10"

lemmas SPAWN_defs = SPAWN_PLAYER_def SPAWN_NPC_def SPAWN_PC_CORPSE_def SPAWN_NPC_CORPSE_def
  SPAWN_NPC_UNKNOWN_def SPAWN_DROP_def SPAWN_DOOR_def SPAWN_SELF_def

record spawn_env =
  q_msec :: int
  q_time :: int
  q_utf8 :: "bytes \<Rightarrow> string"
  q_toInt :: "string \<Rightarrow> int"
  t_race :: "nat \<Rightarrow> string option"
  t_type :: "nat \<Rightarrow> string option"
  t_item :: "nat \<Rightarrow> nat \<Rightarrow> string option"
  t_class :: "u8 \<Rightarrow> string"

section \<open>Names of things worn\<close>

definition print_item :: "spawn_env \<Rightarrow> u16 \<Rightarrow> string" where
  "print_item env item =
     (let itemLo = unat item mod 256; itemHi = unat item div 256;
          itemStr = (if itemHi = 0x00 \<or> itemHi = 0x01 \<or> (0x27 \<le> itemHi \<and> itemHi \<le> 0x30) \<or> itemHi = 0x4e
                     then t_item env itemHi itemLo else None)
      in case itemStr of Some s \<Rightarrow> s | None \<Rightarrow> ''U'' @ hex4 item)"

definition materialnames :: "string option list" where
  "materialnames = [Some ''None'', Some ''Leather'', Some ''Ringmail'', Some ''Plate'', Some ''Cured Silk'',
     Some ''Chitin'', None, Some ''Scale/BlackIron?'', None, None, Some ''ElementRobe'', Some ''BlightedRobe'',
     Some ''Crystalline'', Some ''OracleRobe'', Some ''KedgeRobe'', Some ''MetallicRobe'', Some ''Robe'',
     Some ''VeliousLeather'', Some ''VeliousChain'', Some ''PogPlate'', Some ''Ulthork/Tizmak'', Some ''Ry`Gorr'',
     Some ''Kael/Guardian'', Some ''VeliousMonk'']"

definition print_material :: "u8 \<Rightarrow> string" where
  "print_material material =
     (case (if unat material < length materialnames then materialnames ! unat material else None) of
        Some s \<Rightarrow> s
      | None \<Rightarrow> ''U'' @ [hex_digit (unat material div 16), hex_digit (unat material mod 16)])"

section \<open>Item\<close>

record Item = EQPoint +
  m_name :: string
  m_filterFlags :: u32
  m_runtimeFilterFlags :: u32
  m_lastUpdate :: int
  m_spawnTime :: int
  m_lastChanged :: int
  m_ID :: u16
  m_NPC :: u8
  m_heading :: u8
  m_type :: spawnItemType

definition updateLast :: "spawn_env \<Rightarrow> 'a Item_scheme \<Rightarrow> 'a Item_scheme" where
  "updateLast env i = i\<lparr>m_lastUpdate := q_msec env\<rparr>"

definition updateLastChanged :: "spawn_env \<Rightarrow> 'a Item_scheme \<Rightarrow> 'a Item_scheme" where
  "updateLastChanged env i = i\<lparr>m_lastChanged := q_time env\<rparr>"

definition time_string :: "int \<Rightarrow> string" where
  "time_string ms = (let s = nat ms div 1000
     in two_digits (s div 3600) @ '':'' @ two_digits (s div 60 mod 60) @ '':'' @ two_digits (s mod 60))"

definition fld :: "string \<Rightarrow> string \<Rightarrow> string" where "fld k v = k @ '':'' @ v @ '':''"

definition pos_fields :: "'a Item_scheme \<Rightarrow> string" where
  "pos_fields i = fld ''X'' (dec_int (sint (pt_x i))) @ fld ''Y'' (dec_int (sint (pt_y i))) @ fld ''Z'' (dec_int (sint (pt_z i)))"

text \<open>\<open>Item::filterString\<close> with the strings of the subclass.\<close>

definition item_filterString :: "string \<Rightarrow> string \<Rightarrow> 'a Item_scheme \<Rightarrow> string" where
  "item_filterString raceStr classStr i =
     fld ''Name'' (m_name i) @ fld ''Race'' raceStr @ fld ''Class'' classStr
     @ fld ''NPC'' (dec_string (unat (m_NPC i))) @ pos_fields i"

section \<open>Spawn\<close>

record EquipStruct =
  equip0 :: u32
  equip1 :: u32
  equip2 :: u32
  eq_itemId :: u32
  equip3 :: u32

definition SlotEmpty :: EquipStruct where
  "SlotEmpty = \<lparr>equip0 = 0, equip1 = 0, equip2 = 0, eq_itemId = 0, equip3 = 0\<rparr>"

definition tNumWearSlots :: nat where "tNumWearSlots = 10"
definition tLastMaterial :: nat where "tLastMaterial = 6"
definition tFirstWeapon :: nat where "tFirstWeapon = 7"
definition tLastWeapon :: nat where "tLastWeapon = 8"
definition tLastCoreWearSlot :: nat where "tLastCoreWearSlot = 8"
definition tUnknown1 :: nat where "tUnknown1 = 9"

lemmas slot_defs = tNumWearSlots_def tLastMaterial_def tFirstWeapon_def tLastWeapon_def tLastCoreWearSlot_def tUnknown1_def

record Spawn = Item +
  m_lastName :: string
  m_guildTag :: string
  m_spawnTrackList :: "(u16 \<times> u16 \<times> u16) list"
  m_cookedDeltaXFixPt :: int
  m_cookedDeltaYFixPt :: int
  m_cookedDeltaZFixPt :: int
  m_deltaX :: u16
  m_deltaY :: u16
  m_deltaZ :: u16
  m_deltaHeading :: u8
  m_petOwnerID :: u16
  m_curHP :: u32
  m_maxHP :: u32
  m_guildID :: u16
  m_guildServerID :: u16
  m_deity :: u16
  m_deityTeam :: u16
  m_equipment :: "EquipStruct list"
  m_race :: u16
  m_raceTeam :: u16
  m_level :: u32
  m_gender :: u8
  m_class :: u8
  m_light :: u8
  m_typeflag :: u8
  m_animation :: u8
  m_gm :: u8
  m_isMount :: bool
  m_isMercenary :: bool
  m_isAura :: bool
  m_considered :: bool
  m_notUpdated :: bool

text \<open>The virtual getters.\<close>

record 's vtable =
  v_name :: "'s \<Rightarrow> string"
  v_lastName :: "'s \<Rightarrow> string"
  v_level :: "'s \<Rightarrow> u32"
  v_deity :: "'s \<Rightarrow> u16"
  v_race :: "'s \<Rightarrow> u16"
  v_class :: "'s \<Rightarrow> u8"

definition spawn_vt :: "Spawn vtable" where
  "spawn_vt = \<lparr>v_name = m_name, v_lastName = m_lastName, v_level = m_level, v_deity = m_deity, v_race = m_race, v_class = m_class\<rparr>"

definition isSelf :: "'a Spawn_scheme \<Rightarrow> bool" where "isSelf s \<longleftrightarrow> m_NPC s = SPAWN_SELF"
definition isCorpse :: "'a Spawn_scheme \<Rightarrow> bool" where "isCorpse s \<longleftrightarrow> m_NPC s = SPAWN_PC_CORPSE \<or> m_NPC s = SPAWN_NPC_CORPSE"
definition isPlayer :: "'a Spawn_scheme \<Rightarrow> bool" where "isPlayer s \<longleftrightarrow> m_NPC s = SPAWN_PLAYER \<or> m_NPC s = SPAWN_SELF"

definition deity_team :: "u16 \<Rightarrow> u16" where
  "deity_team d = (if d \<in> {204, 208, 212, 210, 215} then 1
     else if d \<in> {202, 205, 207, 209, 213, 214, 216} then 2
     else if d \<in> {201, 203, 206, 211} then 3 else 5)"

definition race_team :: "u16 \<Rightarrow> u16" where
  "race_team r = (if r \<in> {1, 2, 3, 130} then 1 else if r \<in> {4, 5, 7} then 2
     else if r \<in> {6, 9, 10, 128} then 3 else if r \<in> {8, 11, 12} then 4 else 5)"

definition setDeity :: "'a Spawn_scheme vtable \<Rightarrow> u16 \<Rightarrow> 'a Spawn_scheme \<Rightarrow> 'a Spawn_scheme" where
  "setDeity vt d s = (let s1 = s\<lparr>m_deity := d\<rparr> in s1\<lparr>m_deityTeam := deity_team (v_deity vt s1)\<rparr>)"

definition setRace :: "'a Spawn_scheme vtable \<Rightarrow> u16 \<Rightarrow> 'a Spawn_scheme \<Rightarrow> 'a Spawn_scheme" where
  "setRace vt r s = (let s1 = s\<lparr>m_race := r\<rparr> in s1\<lparr>m_raceTeam := race_team (v_race vt s1)\<rparr>)"

text \<open>The products fit \<open>int\<close> for every 16-bit velocity.\<close>

definition cooked :: "u16 \<Rightarrow> int" where "cooked d = animationCoefficientFixPt * sint d"

definition setDeltas :: "u16 \<Rightarrow> u16 \<Rightarrow> u16 \<Rightarrow> 'a Spawn_scheme \<Rightarrow> 'a Spawn_scheme" where
  "setDeltas dx dy dz s = s\<lparr>m_deltaX := dx, m_deltaY := dy, m_deltaZ := dz,
     m_cookedDeltaXFixPt := cooked dx, m_cookedDeltaYFixPt := cooked dy, m_cookedDeltaZFixPt := cooked dz\<rparr>"

definition setHeading :: "u8 \<Rightarrow> u8 \<Rightarrow> 'a Spawn_scheme \<Rightarrow> 'a Spawn_scheme" where
  "setHeading h dh s = s\<lparr>m_heading := h, m_deltaHeading := dh\<rparr>"

definition setEquipment :: "nat \<Rightarrow> EquipStruct \<Rightarrow> 'a Spawn_scheme \<Rightarrow> 'a Spawn_scheme" where
  "setEquipment slot item s = (if slot < tNumWearSlots then s\<lparr>m_equipment := (m_equipment s)[slot := item]\<rparr> else s)"

definition material_only :: "u16 \<Rightarrow> EquipStruct" where
  "material_only e = SlotEmpty\<lparr>eq_itemId := ucast e\<rparr>"

definition mount_races :: "u32 set" where
  "mount_races = {216, 348, 492, 517, 518, 519, 583, 584, 594, 597, 598, 623, 625, 631, 652, 654, 655, 656, 657,
     671, 672, 673, 674, 675, 676, 677, 679, 680, 682, 684, 709, 720, 721}"

definition calcIsMount :: "u32 \<Rightarrow> u8 \<Rightarrow> bool" where
  "calcIsMount race level \<longleftrightarrow> level = 30 \<and> race \<in> mount_races"

section \<open>Positions\<close>

definition item_setPos :: "u16 \<Rightarrow> u16 \<Rightarrow> u16 \<Rightarrow> 'a Item_scheme \<Rightarrow> 'a Item_scheme" where
  "item_setPos x y z i = setPoint x y z i"

text \<open>The track of a spawn: a point is added when \<open>x\<close> or \<open>y\<close> differs from the last one.\<close>

definition track_point :: "nat \<Rightarrow> u16 \<times> u16 \<times> u16 \<Rightarrow> (u16 \<times> u16 \<times> u16) list \<Rightarrow> (u16 \<times> u16 \<times> u16) list" where
  "track_point walkpathlength p track =
     (let count = length track in
      if count = 0 \<or> fst (last track) \<noteq> fst p \<or> fst (snd (last track)) \<noteq> fst (snd p)
      then (if walkpathlength > 0 \<and> count > 2 \<and> count > walkpathlength then tl track else track) @ [p]
      else track)"

definition spawn_setPos :: "u16 \<Rightarrow> u16 \<Rightarrow> u16 \<Rightarrow> bool \<Rightarrow> nat \<Rightarrow> 'a Spawn_scheme \<Rightarrow> 'a Spawn_scheme" where
  "spawn_setPos x y z walkpathrecord walkpathlength s =
     (let s1 = item_setPos x y z s in
      if \<not> walkpathrecord \<or> (isSelf s1 \<and> m_spawnTrackList s1 = [] \<and> x = 0 \<and> y = 0 \<and> z = 0) then s1
      else s1\<lparr>m_spawnTrackList := track_point walkpathlength (x, y, z) (m_spawnTrackList s1)\<rparr>)"

definition msec_per_day :: int where "msec_per_day = 86400 * 1000"

definition approximatePosition :: "bool \<Rightarrow> int \<Rightarrow> 'a Spawn_scheme \<Rightarrow> (bool \<times> u16 \<times> u16 \<times> u16) option" where
  "approximatePosition animating curTime s =
     (let here = (pt_x s, pt_y s, pt_z s) in
      if \<not> animating then Some (True, here)
      else let d = curTime - m_lastUpdate s; msec = (if d < 0 then d + msec_per_day else d) in
        if msec < 90 * 1000
        then do {
          dx \<leftarrow> fixPtMulII (m_cookedDeltaXFixPt s) qFormat msec;
          dy \<leftarrow> fixPtMulII (m_cookedDeltaYFixPt s) qFormat msec;
          dz \<leftarrow> fixPtMulII (m_cookedDeltaZFixPt s) qFormat msec;
          Some (True, pt_x s + word_of_int dx, pt_y s + word_of_int dy, pt_z s + word_of_int dz)
        }
        else Some (False, here))"

section \<open>Construction and updates\<close>

text \<open>The fields a constructor leaves to its body are all set there, or by \<open>update\<close>.\<close>

definition blank_spawn :: "spawn_env \<Rightarrow> spawnItemType \<Rightarrow> u16 \<Rightarrow> Spawn" where
  "blank_spawn env t i =
     \<lparr>pt_x = 0, pt_y = 0, pt_z = 0, m_name = [], m_filterFlags = 0, m_runtimeFilterFlags = 0,
      m_lastUpdate = q_msec env, m_spawnTime = q_msec env, m_lastChanged = q_time env, m_ID = i, m_NPC = 99,
      m_heading = 0, m_type = t, m_lastName = [], m_guildTag = [], m_spawnTrackList = [],
      m_cookedDeltaXFixPt = 0, m_cookedDeltaYFixPt = 0, m_cookedDeltaZFixPt = 0, m_deltaX = 0, m_deltaY = 0, m_deltaZ = 0,
      m_deltaHeading = 0, m_petOwnerID = 0, m_curHP = 0, m_maxHP = 0, m_guildID = 0xffff, m_guildServerID = 0,
      m_deity = 0, m_deityTeam = deity_team 0, m_equipment = replicate tNumWearSlots SlotEmpty, m_race = 0,
      m_raceTeam = race_team 0, m_level = 0, m_gender = 0, m_class = 0, m_light = 0, m_typeflag = 0, m_animation = 0,
      m_gm = 0, m_isMount = False, m_isMercenary = False, m_isAura = False, m_considered = False, m_notUpdated = False\<rparr>"

definition new_unknown_Spawn :: "spawn_env \<Rightarrow> u16 \<Rightarrow> u16 \<Rightarrow> u16 \<Rightarrow> u16 \<Rightarrow> u16 \<Rightarrow> u16 \<Rightarrow> u16 \<Rightarrow> u8 \<Rightarrow> u8 \<Rightarrow> u8 \<Rightarrow> Spawn" where
  "new_unknown_Spawn env i x y z deltaX deltaY deltaZ heading deltaHeading animation =
     setHeading heading deltaHeading (setDeltas deltaX deltaY deltaZ (spawn_setPos x y z False 0
       ((blank_spawn env tSpawn i)\<lparr>m_name := ''unknown'', m_NPC := SPAWN_NPC_UNKNOWN, m_animation := animation\<rparr>)))"

text \<open>The default constructor, with which the player's object begins.\<close>

definition new_fake_Spawn :: "spawn_env \<Rightarrow> Spawn" where
  "new_fake_Spawn env = updateLast env (setHeading 0 0 (setDeltas 0 0 0 (item_setPos 0 0 0
     ((blank_spawn env tSpawn 0)\<lparr>m_name := ''fake'', m_NPC := SPAWN_NPC_UNKNOWN\<rparr>))))"

text \<open>A corpse without a deity is a dead monster.\<close>

definition npc_of :: "spawnStruct \<Rightarrow> u8" where
  "npc_of s = (if s_NPC s = SPAWN_PC_CORPSE \<and> s_deity s = 0 then SPAWN_NPC_CORPSE else s_NPC s)"

definition core_equipment :: "u16 list \<Rightarrow> 'a Spawn_scheme \<Rightarrow> 'a Spawn_scheme" where
  "core_equipment es = fold (\<lambda>i. setEquipment i (material_only (es ! i))) [0..<Suc tLastCoreWearSlot]"

definition update_motion :: "spawnStruct \<Rightarrow> 'a Spawn_scheme \<Rightarrow> 'a Spawn_scheme" where
  "update_motion s sp = (if isCorpse sp then setHeading 0 0 (setDeltas 0 0 0 sp)
     else setHeading (s_heading s) (s_deltaHeading s)
       (setDeltas (ucast (drop_bit 2 (s_deltaX s))) (ucast (drop_bit 2 (s_deltaY s))) (ucast (drop_bit 2 (s_deltaZ s))) sp))"

definition spawn_update :: "spawn_env \<Rightarrow> 'a Spawn_scheme vtable \<Rightarrow> spawnStruct \<Rightarrow> 'a Spawn_scheme \<Rightarrow> 'a Spawn_scheme option" where
  "spawn_update env vt s sp = do {
     name \<leftarrow> c_str (s_name s);
     lastName \<leftarrow> c_str (s_lastName s);
     let sp1 = spawn_setPos (signed_drop_bit 3 (s_x s)) (signed_drop_bit 3 (s_y s)) (signed_drop_bit 3 (s_z s)) False 0
       (sp\<lparr>m_name := q_utf8 env name, m_lastName := q_utf8 env lastName\<rparr>);
     let sp2 = setRace vt (s_race s) (setDeity vt (s_deity s)
       (sp1\<lparr>m_petOwnerID := s_petOwnerId s, m_light := s_light s, m_gender := s_gender s\<rparr>));
     let sp3 = setEquipment tUnknown1 SlotEmpty (core_equipment (s_equipment s)
       (sp2\<lparr>m_class := s_class s, m_curHP := scast (s_curHp s), m_maxHP := 100, m_guildID := s_guildID s,
            m_guildServerID := 0, m_level := ucast (s_level s)\<rparr>));
     let sp4 = sp3\<lparr>m_typeflag := ucast (s_bodytype s), m_gm := s_GM s,
       m_isMount := calcIsMount (ucast (s_race s)) (s_level s), m_isMercenary := False, m_isAura := False,
       m_NPC := npc_of s, m_animation := s_animation s\<rparr>;
     Some (updateLast env ((update_motion s sp4)\<lparr>m_considered := False, m_notUpdated := False\<rparr>))
   }"

definition new_Spawn :: "spawn_env \<Rightarrow> spawnStruct \<Rightarrow> Spawn option" where
  "new_Spawn env s = spawn_update env spawn_vt s (blank_spawn env tSpawn (s_spawnId s))"

definition Spawn_Corpse_Designator :: string where
  "Spawn_Corpse_Designator = CHR 0x27 # ''s corpse''"

definition backfill_NPC :: "spawnStruct \<Rightarrow> 'a Spawn_scheme \<Rightarrow> 'a Spawn_scheme" where
  "backfill_NPC s sp =
     (if isCorpse sp
      then sp\<lparr>m_curHP := 0,
              m_NPC := (if s_NPC s = SPAWN_PC_CORPSE \<and> s_deity s = 0 then SPAWN_NPC_CORPSE
                        else if s_NPC s = SPAWN_PLAYER \<or> s_NPC s = SPAWN_SELF then SPAWN_PC_CORPSE else SPAWN_NPC_CORPSE)\<rparr>
      else if m_NPC sp = SPAWN_NPC_UNKNOWN then sp\<lparr>m_NPC := npc_of s\<rparr> else sp)"

definition fill_equipment :: "u16 list \<Rightarrow> 'a Spawn_scheme \<Rightarrow> 'a Spawn_scheme" where
  "fill_equipment es = fold (\<lambda>i sp. if eq_itemId (m_equipment sp ! i) = eq_itemId SlotEmpty
     then setEquipment i (material_only (es ! i)) sp else sp) [0..<Suc tLastCoreWearSlot]"

definition backfill :: "spawn_env \<Rightarrow> 'a Spawn_scheme vtable \<Rightarrow> spawnStruct \<Rightarrow> 'a Spawn_scheme \<Rightarrow> 'a Spawn_scheme option" where
  "backfill env vt s sp = do {
     name \<leftarrow> c_str (s_name s);
     lastName \<leftarrow> c_str (s_lastName s);
     let sp1 = setRace vt (s_race s) (setDeity vt (s_deity s) (sp\<lparr>m_gender := s_gender s\<rparr>));
     let sp2 = backfill_NPC s (sp1\<lparr>m_class := s_class s, m_typeflag := ucast (s_bodytype s), m_petOwnerID := s_petOwnerId s\<rparr>);
     let sp3 = sp2\<lparr>m_name := q_utf8 env name, m_lastName := q_utf8 env lastName\<rparr>;
     let sp4 = (if isCorpse sp3
       then setHeading 0 0 (setDeltas 0 0 0 (sp3\<lparr>m_name := m_name sp3 @ Spawn_Corpse_Designator\<rparr>)) else sp3);
     let sp5 = fill_equipment (s_equipment s) sp4;
     let sp6 = (if m_light sp5 = 0 then sp5\<lparr>m_light := s_light s\<rparr> else sp5);
     let sp7 = (if sint (m_level sp6) < int (unat (s_level s)) then sp6\<lparr>m_level := ucast (s_level s)\<rparr> else sp6);
     Some (if s_NPC s = SPAWN_PLAYER \<or> s_NPC s = SPAWN_SELF
           then sp7\<lparr>m_guildID := s_guildID s, m_guildServerID := 0\<rparr> else sp7\<lparr>m_guildID := 0xffff\<rparr>)
   }"

definition spawn_kill :: "'a Spawn_scheme \<Rightarrow> 'a Spawn_scheme" where
  "spawn_kill s =
     (let s1 = (setHeading 0 0 (setDeltas 0 0 0 s))\<lparr>m_curHP := 0, m_maxHP := 0\<rparr>
      in if m_NPC s1 = SPAWN_PLAYER \<or> m_NPC s1 = SPAWN_SELF \<or> m_NPC s1 = SPAWN_PC_CORPSE
         then s1\<lparr>m_NPC := SPAWN_PC_CORPSE\<rparr> else s1\<lparr>m_NPC := SPAWN_NPC_CORPSE\<rparr>)"

section \<open>Descriptions\<close>

definition lightnames :: "string list" where
  "lightnames = [[], ''CDL'', ''TR'', ''TGS'', ''SL'', ''SoM'', ''LL'', ''FL'', ''GOS'', ''LG'', ''LS'', ''GLS'', ''FBE'', ''CL'']"

definition lightName :: "'a Spawn_scheme \<Rightarrow> string" where
  "lightName s = (let l = unat (m_light s) in if l < length lightnames then lightnames ! l else dec_string l)"

definition item_id :: "'a Spawn_scheme \<Rightarrow> nat \<Rightarrow> u32" where
  "item_id s slot = eq_itemId (m_equipment s ! slot)"

definition equipmentStr :: "spawn_env \<Rightarrow> nat \<Rightarrow> 'a Spawn_scheme \<Rightarrow> string" where
  "equipmentStr env slot s =
     (if slot \<le> tLastMaterial then print_material (ucast (item_id s slot))
      else if slot \<le> tLastWeapon then print_item env (ucast (item_id s slot))
      else if slot < tNumWearSlots then print_material (ucast (item_id s slot))
      else [])"

definition genderName :: "'a Spawn_scheme \<Rightarrow> string" where
  "genderName s = (if m_gender s = 0 then ''Male'' else if m_gender s = 1 then ''Female'' else ''Neuter'')"

definition deitynames :: "string list" where
  "deitynames = [''Bertoxxulous'', ''Brell Serilis'', ''Cazic Thule'', ''Erollisi Marr'', ''Bristlebane'', ''Innoruuk'',
     ''Karana'', ''Mithaniel Marr'', ''Prexus'', ''Quellious'', ''Rallos Zek'', ''Rodcet Nife'', ''Solusek Ro'',
     ''The Tribunal'', ''Tunare'', ''Veeshan'']"

definition deityName :: "u16 \<Rightarrow> string" where
  "deityName d = (if d = 0 then ''NPC'' else if d = 396 then ''Agnostic''
     else if 201 \<le> d \<and> d \<le> 216 then deitynames ! (unat d - 201) else dec_string (unat d))"

definition cleaned :: "string \<Rightarrow> string" where
  "cleaned s = map (\<lambda>c. if c = CHR ''_'' then CHR '' '' else c)
     (filter (\<lambda>c. \<not> (of_char c \<ge> (48 :: nat) \<and> of_char c \<le> (57 :: nat))) s)"

definition transformed :: "string \<Rightarrow> string" where
  "transformed s = (let temp = cleaned s in
     if startsWith ''a '' temp then drop 2 temp @ '', '' @ ''a''
     else if startsWith ''an '' temp then drop 3 temp @ '', '' @ ''an''
     else if startsWith ''the '' temp then drop 4 temp @ '', '' @ ''the''
     else temp)"

definition cleanedName :: "'s vtable \<Rightarrow> 's \<Rightarrow> string" where "cleanedName vt s = cleaned (v_name vt s)"
definition transformedName :: "'s vtable \<Rightarrow> 's \<Rightarrow> string" where "transformedName vt s = transformed (v_name vt s)"

definition name_or_number :: "(nat \<Rightarrow> string option) \<Rightarrow> nat \<Rightarrow> string" where
  "name_or_number t n = (case t n of Some s \<Rightarrow> s | None \<Rightarrow> dec_string n)"

definition raceString :: "spawn_env \<Rightarrow> 's vtable \<Rightarrow> 's \<Rightarrow> string" where
  "raceString env vt s = name_or_number (t_race env) (unat (v_race vt s))"

definition typeString :: "spawn_env \<Rightarrow> 'a Spawn_scheme \<Rightarrow> string" where
  "typeString env s = name_or_number (t_type env) (unat (m_typeflag s))"

definition slot_info :: "(u32 \<Rightarrow> string) \<Rightarrow> 'a Spawn_scheme \<Rightarrow> nat \<Rightarrow> string" where
  "slot_info print s i = (if item_id s i \<noteq> 0
     then [''HCAWGLF12B'' ! i] @ '':'' @ print (item_id s i) @ '' '' else [])"

definition spawn_info :: "spawn_env \<Rightarrow> 'a Spawn_scheme \<Rightarrow> string" where
  "spawn_info env s =
     (if m_light s \<noteq> 0 then ''Light:'' @ lightName s @ '' '' else [])
     @ concat (map (slot_info (\<lambda>w. print_material (ucast w)) s) [0..<Suc tLastMaterial])
     @ concat (map (slot_info (\<lambda>w. print_item env (ucast w)) s) [tFirstWeapon..<Suc tLastWeapon])
     @ slot_info (\<lambda>w. print_material (ucast w)) s tUnknown1
     @ (if item_id s tUnknown1 \<noteq> 0 then ''U1:U'' @ hex_string (unat (item_id s tUnknown1)) @ '' '' else [])"

definition dotted :: "string \<Rightarrow> string" where "dotted s = map (\<lambda>c. if c = CHR '':'' then CHR ''.'' else c) s"

definition spawn_filterString :: "spawn_env \<Rightarrow> 'a Spawn_scheme vtable \<Rightarrow> 'a Spawn_scheme \<Rightarrow> string" where
  "spawn_filterString env vt s =
     fld ''Name'' (transformedName vt s) @ fld ''Level'' (dec_int (sint (v_level vt s))) @ fld ''Race'' (raceString env vt s)
     @ fld ''Class'' (t_class env (v_class vt s)) @ fld ''NPC'' (dec_string (if m_NPC s = 10 then 0 else unat (m_NPC s)))
     @ pos_fields s @ fld ''Light'' (lightName s) @ fld ''Deity'' (deityName (v_deity vt s))
     @ fld ''RTeam'' (dec_int (sint (m_raceTeam s))) @ fld ''DTeam'' (dec_int (sint (m_deityTeam s)))
     @ fld ''Type'' (typeString env s) @ fld ''LastName'' (v_lastName vt s) @ fld ''Guild'' (m_guildTag s)
     @ fld ''Spawn'' (dotted (time_string (m_spawnTime s))) @ fld ''Info'' (spawn_info env s)
     @ (if m_gm s \<noteq> 0 then fld ''GM'' (dec_string (unat (m_gm s))) else [])"

definition spawn_dumpString :: "spawn_env \<Rightarrow> 'a Spawn_scheme vtable \<Rightarrow> 'a Spawn_scheme \<Rightarrow> string" where
  "spawn_dumpString env vt s =
     fld ''ID'' (dec_string (unat (m_ID s))) @ fld ''Name'' (transformedName vt s) @ fld ''LastName'' (v_lastName vt s)
     @ fld ''Level'' (dec_int (sint (v_level vt s))) @ fld ''HP'' (dec_int (sint (m_curHP s))) @ fld ''MaxHP'' (dec_int (sint (m_maxHP s)))
     @ fld ''Race'' (raceString env vt s) @ fld ''Class'' (t_class env (v_class vt s)) @ fld ''NPC'' (dec_string (unat (m_NPC s)))
     @ pos_fields s @ fld ''Deity'' (deityName (v_deity vt s)) @ fld ''RTeam'' (dec_int (sint (m_raceTeam s)))
     @ fld ''DTeam'' (dec_int (sint (m_deityTeam s))) @ fld ''Type'' (typeString env s) @ fld ''Guild'' (m_guildTag s)
     @ fld ''Info'' (spawn_info env s) @ fld ''FilterFlags'' (dec_string (unat (m_filterFlags s)))"

section \<open>The kinds of change\<close>

definition tSpawnChangedPosition :: u32 where "tSpawnChangedPosition = 1"
definition tSpawnChangedHP :: u32 where "tSpawnChangedHP = 2"
definition tSpawnChangedWearing :: u32 where "tSpawnChangedWearing = 4"
definition tSpawnChangedLevel :: u32 where "tSpawnChangedLevel = 16"
definition tSpawnChangedFilter :: u32 where "tSpawnChangedFilter = 64"
definition tSpawnChangedRuntimeFilter :: u32 where "tSpawnChangedRuntimeFilter = 128"
definition tSpawnChangedALL :: u32 where "tSpawnChangedALL = 1023"

section \<open>The player\<close>

text \<open>The part of \<open>src/src/player.h\<close> that the spawn shell sees: the identity and the last kill.\<close>

record Player = Spawn +
  m_defaultName :: string
  m_defaultLastName :: string
  m_realName :: string
  m_defaultRace :: u16
  m_defaultDeity :: u16
  m_defaultClass :: u8
  m_defaultLevel :: u8
  m_lastSpawnKilledName :: string
  m_lastSpawnKilledLevel :: u32
  m_freshKill :: bool
  m_useDefaults :: bool
  m_useAutoDetectedSettings :: bool

definition defaults_used :: "'a Player_scheme \<Rightarrow> bool" where
  "defaults_used p \<longleftrightarrow> \<not> m_useAutoDetectedSettings p \<or> m_useDefaults p"

definition player_vt :: "'a Player_scheme vtable" where
  "player_vt = \<lparr>v_name = (\<lambda>p. if defaults_used p then m_defaultName p else m_name p),
     v_lastName = (\<lambda>p. if defaults_used p then m_defaultLastName p else m_lastName p),
     v_level = (\<lambda>p. if defaults_used p then ucast (m_defaultLevel p) else m_level p),
     v_deity = (\<lambda>p. if defaults_used p then m_defaultDeity p else m_deity p),
     v_race = (\<lambda>p. if defaults_used p then m_defaultRace p else m_race p),
     v_class = (\<lambda>p. if defaults_used p then m_defaultClass p else m_class p)\<rparr>"

definition setLastKill :: "string \<Rightarrow> u32 \<Rightarrow> 'a Player_scheme \<Rightarrow> 'a Player_scheme" where
  "setLastKill name level p = p\<lparr>m_lastSpawnKilledName := name, m_lastSpawnKilledLevel := level, m_freshKill := True\<rparr>"

section \<open>Doors and drops\<close>

record Door = Item +
  m_zonePoint :: u32

definition blank_item :: "spawn_env \<Rightarrow> spawnItemType \<Rightarrow> u16 \<Rightarrow> u8 \<Rightarrow> Item" where
  "blank_item env t i npc = \<lparr>pt_x = 0, pt_y = 0, pt_z = 0, m_name = [], m_filterFlags = 0, m_runtimeFilterFlags = 0,
     m_lastUpdate = q_msec env, m_spawnTime = q_msec env, m_lastChanged = q_time env, m_ID = i, m_NPC = npc,
     m_heading = 0, m_type = t\<rparr>"

definition door_update :: "spawn_env \<Rightarrow> doorStruct \<Rightarrow> Door \<Rightarrow> Door option" where
  "door_update env d door = do {
     x \<leftarrow> float_int16 1 (d_x d);
     y \<leftarrow> float_int16 1 (d_y d);
     z \<leftarrow> float_int16 10 (d_z d);
     h \<leftarrow> float_int8 (d_heading d);
     name \<leftarrow> c_str (d_name d);
     Some (updateLast env ((item_setPos x y z door)\<lparr>m_heading := h,
       m_name := ''Door: '' @ q_utf8 env name @ '' ('' @ dec_string (unat (d_doorId d)) @ '') '', m_zonePoint := d_zonePoint d\<rparr>))
   }"

definition new_Door :: "spawn_env \<Rightarrow> doorStruct \<Rightarrow> Door option" where
  "new_Door env d = door_update env d (Item.extend (blank_item env tDoors (ucast (d_doorId d)) SPAWN_DOOR) (Door.fields 0))"

record Drop = Item +
  m_itemNr :: u32
  m_idFile :: string

definition drop_name :: "spawn_env \<Rightarrow> bytes \<Rightarrow> string \<Rightarrow> string" where
  "drop_name env idFile name =
     (if name = []
      then let buff = (if take 2 idFile = [73, 84] then takeWhile (\<lambda>c. c \<noteq> CHR ''_'') (q_utf8 env (drop 2 idFile)) else q_utf8 env idFile);
               itemId = q_toInt env buff
           in ''Drop: '' @ (if itemId > 0 then print_item env (word_of_int itemId) else q_utf8 env idFile)
      else ''Drop: '' @ [CHR 0x27] @ name @ [CHR 0x27])"

definition drop_update :: "spawn_env \<Rightarrow> makeDropStruct \<Rightarrow> string \<Rightarrow> Drop \<Rightarrow> Drop option" where
  "drop_update env d name dr = do {
     x \<leftarrow> float_int16 1 (dr_x d);
     y \<leftarrow> float_int16 1 (dr_y d);
     z \<leftarrow> float_int16 1 (dr_z d);
     h \<leftarrow> float_int8 (dr_heading d);
     Some (updateLast env ((item_setPos x y z dr)\<lparr>m_heading := h, m_idFile := q_utf8 env (dr_idFile d), m_name := drop_name env (dr_idFile d) name\<rparr>))
   }"

definition new_Drop :: "spawn_env \<Rightarrow> makeDropStruct \<Rightarrow> string \<Rightarrow> Drop option" where
  "new_Drop env d name = drop_update env d name
     (Item.extend (blank_item env tDrop (ucast (dr_dropId d)) SPAWN_DROP) (Drop.fields 0 []))"

section \<open>Objects\<close>

text \<open>An \<open>Item*\<close> points to one of these.\<close>

datatype obj = OSpawn Spawn | OPlayer Player | ODoor Door | ODrop Drop

definition obj_type :: "obj \<Rightarrow> spawnItemType" where
  "obj_type ob = (case ob of OSpawn s \<Rightarrow> m_type s | OPlayer p \<Rightarrow> m_type p | ODoor d \<Rightarrow> m_type d | ODrop d \<Rightarrow> m_type d)"

definition filterString :: "spawn_env \<Rightarrow> obj \<Rightarrow> string" where
  "filterString env ob = (case ob of
     OSpawn s \<Rightarrow> spawn_filterString env spawn_vt s
   | OPlayer p \<Rightarrow> spawn_filterString env player_vt p
   | ODoor d \<Rightarrow> item_filterString ''Door'' ''Thing'' d
   | ODrop d \<Rightarrow> item_filterString ''Drop'' ''Thing'' d)"

definition item_dumpString :: "string \<Rightarrow> 'a Item_scheme \<Rightarrow> string" where
  "item_dumpString filterStr i = fld ''ID'' (dec_string (unat (m_ID i))) @ filterStr"

definition dumpString :: "spawn_env \<Rightarrow> obj \<Rightarrow> string" where
  "dumpString env ob = (case ob of
     OSpawn s \<Rightarrow> spawn_dumpString env spawn_vt s
   | OPlayer p \<Rightarrow> spawn_dumpString env player_vt p
   | ODoor d \<Rightarrow> item_dumpString (filterString env ob) d
   | ODrop d \<Rightarrow> item_dumpString (filterString env ob) d)"

end
