(* ===== verification/SpawnShell.thy ===== *)
theory SpawnShell
  imports Spawn NetStream
begin

text \<open>
  \<open>src/src/spawnshell.h\<close> and \<open>src/src/spawnshell.cpp\<close>: the items of the zone. The objects live in a
  store (\<open>sh_heap\<close>, addresses to objects), the four maps of the class hold addresses, and
  following an address that is not in the store, or casting an object to a class it is not of, is
  \<open>None\<close>. The player's object has the address 0 and is not owned by the shell. A signal is an event
  with the address and the object as it is when the signal is emitted.

  The order in which a \<open>QHash\<close> is walked is the parameter \<open>h_order\<close>; the filters, the guild names and
  the zoning state are asked through \<open>shell_env\<close>. The saving of spawns to a file is left out.
\<close>

type_synonym ptr = nat
type_synonym item_map = "u32 \<Rightarrow> ptr option"

datatype shell_event = EAddItem ptr obj | EDelItem ptr obj | EChangeItem ptr obj u32 | EKillSpawn ptr obj "ptr option" u16
  | ESpawnConsidered ptr obj | ETargetSpawn u32 | EClearItems | ENumSpawns nat

record shell_env = spawn_env +
  h_order :: "item_map \<Rightarrow> u32 list"
  h_filterMask :: "string \<Rightarrow> u8 \<Rightarrow> u32"
  h_runtimeMask :: "string \<Rightarrow> u8 \<Rightarrow> u32"
  h_guildName :: "u16 \<Rightarrow> u16 \<Rightarrow> string"
  h_isZoning :: bool
  h_walkpathrecord :: bool
  h_walkpathlength :: nat
  h_createUnknownSpawns :: bool

definition MAX_DEAD_SPAWNIDS :: nat where "MAX_DEAD_SPAWNIDS = 50"

record SpawnShell =
  sh_heap :: "ptr \<Rightarrow> obj option"
  sh_next :: ptr
  sh_deadID :: "u16 list"
  sh_cntDead :: nat
  sh_posDead :: nat
  sh_spawns :: item_map
  sh_drops :: item_map
  sh_doors :: item_map
  sh_players :: item_map


definition benv :: "shell_env \<Rightarrow> spawn_env" where "benv env = spawn_env.truncate env"

section \<open>The store\<close>

definition player_ptr :: ptr where "player_ptr = 0"

definition get_obj :: "SpawnShell \<Rightarrow> ptr \<Rightarrow> obj option" where "get_obj sh a = sh_heap sh a"

definition get_player :: "SpawnShell \<Rightarrow> Player option" where
  "get_player sh = (case sh_heap sh player_ptr of Some (OPlayer p) \<Rightarrow> Some p | _ \<Rightarrow> None)"

definition put_obj :: "ptr \<Rightarrow> obj \<Rightarrow> SpawnShell \<Rightarrow> SpawnShell" where
  "put_obj a ob sh = sh\<lparr>sh_heap := (sh_heap sh)(a \<mapsto> ob)\<rparr>"

definition alloc :: "obj \<Rightarrow> SpawnShell \<Rightarrow> ptr \<times> SpawnShell" where
  "alloc ob sh = (sh_next sh, sh\<lparr>sh_heap := (sh_heap sh)(sh_next sh \<mapsto> ob), sh_next := Suc (sh_next sh)\<rparr>)"

text \<open>An operation of the class \<open>Spawn\<close> on the object at an address, whose class is a spawn or the
  player: \<open>on_spawn f g a\<close> runs \<open>f\<close> on a plain spawn and \<open>g\<close> on the player.\<close>

definition on_spawn :: "(Spawn \<Rightarrow> Spawn) \<Rightarrow> (Player \<Rightarrow> Player) \<Rightarrow> ptr \<Rightarrow> SpawnShell \<Rightarrow> SpawnShell option" where
  "on_spawn f g a sh = (case sh_heap sh a of
     Some (OSpawn s) \<Rightarrow> Some (put_obj a (OSpawn (f s)) sh)
   | Some (OPlayer p) \<Rightarrow> Some (put_obj a (OPlayer (g p)) sh)
   | _ \<Rightarrow> None)"

text \<open>The methods of \<open>Item\<close> that every class inherits.\<close>

definition setFilterFlags :: "u32 \<Rightarrow> obj \<Rightarrow> obj" where
  "setFilterFlags w ob = (case ob of OSpawn s \<Rightarrow> OSpawn (s\<lparr>m_filterFlags := w\<rparr>) | OPlayer p \<Rightarrow> OPlayer (p\<lparr>m_filterFlags := w\<rparr>)
     | ODoor d \<Rightarrow> ODoor (d\<lparr>m_filterFlags := w\<rparr>) | ODrop d \<Rightarrow> ODrop (d\<lparr>m_filterFlags := w\<rparr>))"

definition setRuntimeFilterFlags :: "u32 \<Rightarrow> obj \<Rightarrow> obj" where
  "setRuntimeFilterFlags w ob = (case ob of OSpawn s \<Rightarrow> OSpawn (s\<lparr>m_runtimeFilterFlags := w\<rparr>)
     | OPlayer p \<Rightarrow> OPlayer (p\<lparr>m_runtimeFilterFlags := w\<rparr>)
     | ODoor d \<Rightarrow> ODoor (d\<lparr>m_runtimeFilterFlags := w\<rparr>) | ODrop d \<Rightarrow> ODrop (d\<lparr>m_runtimeFilterFlags := w\<rparr>))"

definition touch :: "spawn_env \<Rightarrow> obj \<Rightarrow> obj" where
  "touch env ob = (case ob of OSpawn s \<Rightarrow> OSpawn (updateLastChanged env s) | OPlayer p \<Rightarrow> OPlayer (updateLastChanged env p)
     | ODoor d \<Rightarrow> ODoor (updateLastChanged env d) | ODrop d \<Rightarrow> ODrop (updateLastChanged env d))"

definition filterFlags :: "obj \<Rightarrow> u32" where
  "filterFlags ob = (case ob of OSpawn s \<Rightarrow> m_filterFlags s | OPlayer p \<Rightarrow> m_filterFlags p
     | ODoor d \<Rightarrow> m_filterFlags d | ODrop d \<Rightarrow> m_filterFlags d)"

definition runtimeFilterFlags :: "obj \<Rightarrow> u32" where
  "runtimeFilterFlags ob = (case ob of OSpawn s \<Rightarrow> m_runtimeFilterFlags s | OPlayer p \<Rightarrow> m_runtimeFilterFlags p
     | ODoor d \<Rightarrow> m_runtimeFilterFlags d | ODrop d \<Rightarrow> m_runtimeFilterFlags d)"

definition obj_id :: "obj \<Rightarrow> u16" where
  "obj_id ob = (case ob of OSpawn s \<Rightarrow> m_ID s | OPlayer p \<Rightarrow> m_ID p | ODoor d \<Rightarrow> m_ID d | ODrop d \<Rightarrow> m_ID d)"

definition obj_distSq :: "obj \<Rightarrow> u16 \<Rightarrow> u16 \<Rightarrow> nat" where
  "obj_distSq ob x y = (case ob of OSpawn s \<Rightarrow> distSq s x y 0 | OPlayer p \<Rightarrow> distSq p x y 0
     | ODoor d \<Rightarrow> distSq d x y 0 | ODrop d \<Rightarrow> distSq d x y 0)"

text \<open>\<open>((Spawn* )item)->level()\<close>, when the type of the item is \<open>tSpawn\<close>.\<close>

definition filter_level :: "obj \<Rightarrow> u8 option" where
  "filter_level ob = (if obj_type ob \<noteq> tSpawn then Some 0
     else case ob of OSpawn s \<Rightarrow> Some (ucast (v_level spawn_vt s)) | OPlayer p \<Rightarrow> Some (ucast (v_level player_vt p)) | _ \<Rightarrow> None)"

section \<open>The maps\<close>

definition getMap :: "spawnItemType \<Rightarrow> SpawnShell \<Rightarrow> item_map" where
  "getMap t sh = (case t of tDrop \<Rightarrow> sh_drops sh | tDoors \<Rightarrow> sh_doors sh | tPlayer \<Rightarrow> sh_players sh | _ \<Rightarrow> sh_spawns sh)"

definition setMap :: "spawnItemType \<Rightarrow> item_map \<Rightarrow> SpawnShell \<Rightarrow> SpawnShell" where
  "setMap t mp sh = (case t of tDrop \<Rightarrow> sh\<lparr>sh_drops := mp\<rparr> | tDoors \<Rightarrow> sh\<lparr>sh_doors := mp\<rparr>
     | tPlayer \<Rightarrow> sh\<lparr>sh_players := mp\<rparr> | _ \<Rightarrow> sh\<lparr>sh_spawns := mp\<rparr>)"

definition insert_item :: "spawnItemType \<Rightarrow> u32 \<Rightarrow> ptr \<Rightarrow> SpawnShell \<Rightarrow> SpawnShell" where
  "insert_item t k a sh = setMap t ((getMap t sh)(k \<mapsto> a)) sh"

text \<open>The addresses in the order of the walk, and the number of entries.\<close>

definition ptrs :: "shell_env \<Rightarrow> item_map \<Rightarrow> ptr list" where
  "ptrs env mp = map (\<lambda>k. the (mp k)) (h_order env mp)"

definition count :: "shell_env \<Rightarrow> item_map \<Rightarrow> nat" where "count env mp = length (h_order env mp)"

fun each :: "(ptr \<Rightarrow> SpawnShell \<Rightarrow> (SpawnShell \<times> shell_event list) option) \<Rightarrow> ptr list \<Rightarrow> SpawnShell
    \<Rightarrow> (SpawnShell \<times> shell_event list) option" where
  "each f [] sh = Some (sh, [])"
| "each f (a # as) sh = do {
     (sh1, e1) \<leftarrow> f a sh;
     (sh2, e2) \<leftarrow> each f as sh1;
     Some (sh2, e1 @ e2)
   }"

definition new_SpawnShell :: "Player \<Rightarrow> SpawnShell" where
  "new_SpawnShell p = \<lparr>sh_heap = [player_ptr \<mapsto> OPlayer p], sh_next = 1, sh_deadID = replicate MAX_DEAD_SPAWNIDS 0,
     sh_cntDead = 0, sh_posDead = 0, sh_spawns = Map.empty, sh_drops = Map.empty, sh_doors = Map.empty,
     sh_players = [0 \<mapsto> player_ptr]\<rparr>"

text \<open>\<open>qDeleteAll\<close>: deleting an object twice has no meaning.\<close>

fun delete_all :: "ptr list \<Rightarrow> (ptr \<Rightarrow> obj option) \<Rightarrow> (ptr \<Rightarrow> obj option) option" where
  "delete_all [] hp = Some hp"
| "delete_all (a # as) hp = (if hp a = None then None else delete_all as (hp(a := None)))"

definition shell_clear :: "shell_env \<Rightarrow> SpawnShell \<Rightarrow> (SpawnShell \<times> shell_event list) option" where
  "shell_clear env sh = do {
     h1 \<leftarrow> delete_all (ptrs env (sh_spawns sh)) (sh_heap sh);
     h2 \<leftarrow> delete_all (ptrs env (sh_doors sh)) h1;
     h3 \<leftarrow> delete_all (ptrs env (sh_drops sh)) h2;
     let sh1 = sh\<lparr>sh_heap := h3, sh_spawns := Map.empty, sh_doors := Map.empty, sh_drops := Map.empty,
       sh_players := [0 \<mapsto> player_ptr]\<rparr>;
     p \<leftarrow> get_player sh1;
     Some (sh1\<lparr>sh_cntDead := 0, sh_posDead := 0, sh_deadID := replicate MAX_DEAD_SPAWNIDS 0\<rparr>,
           [EClearItems, EChangeItem player_ptr (OPlayer p) tSpawnChangedALL])
   }"

definition findID :: "spawnItemType \<Rightarrow> u32 \<Rightarrow> SpawnShell \<Rightarrow> ptr option option" where
  "findID t k sh = do {
     p \<leftarrow> get_player sh;
     Some (if t = tSpawn \<and> k = ucast (m_ID p) then Some player_ptr
           else if t \<noteq> tPlayer then getMap t sh k else None)
   }"

text \<open>\<open>findClosestItem\<close>: the bound and the result are squares of the code's distances, and no bound is
  the infinite default.\<close>

fun closest :: "SpawnShell \<Rightarrow> u16 \<Rightarrow> u16 \<Rightarrow> ptr list \<Rightarrow> nat option \<times> ptr option \<Rightarrow> (nat option \<times> ptr option) option" where
  "closest sh x y [] acc = Some acc"
| "closest sh x y (a # as) acc = do {
     ob \<leftarrow> get_obj sh a;
     let distance = obj_distSq ob x y;
     closest sh x y as (if (case fst acc of None \<Rightarrow> True | Some d \<Rightarrow> distance < d) then (Some distance, Some a) else acc)
   }"

definition findClosestItem :: "shell_env \<Rightarrow> spawnItemType \<Rightarrow> u16 \<Rightarrow> u16 \<Rightarrow> nat option \<Rightarrow> SpawnShell
    \<Rightarrow> (nat option \<times> ptr option) option" where
  "findClosestItem env t x y minDistance sh = closest sh x y (ptrs env (getMap t sh)) (minDistance, None)"

text \<open>\<open>updateGuildTag\<close>: the loops over the spawns and the players.\<close>

definition set_guild_tag :: "shell_env \<Rightarrow> 'a Spawn_scheme \<Rightarrow> 'a Spawn_scheme" where
  "set_guild_tag env s = s\<lparr>m_guildTag := h_guildName env (m_guildID s) (m_guildServerID s)\<rparr>"

definition tag_item :: "shell_env \<Rightarrow> u32 \<Rightarrow> ptr \<Rightarrow> SpawnShell \<Rightarrow> (SpawnShell \<times> shell_event list) option" where
  "tag_item env guildId a sh = do {
     ob \<leftarrow> get_obj sh a;
     gid \<leftarrow> (case ob of OSpawn s \<Rightarrow> Some (m_guildID s) | OPlayer p \<Rightarrow> Some (m_guildID p) | _ \<Rightarrow> None);
     if guildId = ucast gid
     then do {
       sh1 \<leftarrow> on_spawn (updateLastChanged (benv env) \<circ> set_guild_tag env) (updateLastChanged (benv env) \<circ> set_guild_tag env) a sh;
       ob1 \<leftarrow> get_obj sh1 a;
       Some (sh1, [EChangeItem a ob1 tSpawnChangedALL])
     }
     else Some (sh, [])
   }"

definition updateGuildTag :: "shell_env \<Rightarrow> u32 \<Rightarrow> SpawnShell \<Rightarrow> (SpawnShell \<times> shell_event list) option" where
  "updateGuildTag env guildId sh = do {
     (sh1, e1) \<leftarrow> each (tag_item env guildId) (ptrs env (sh_spawns sh)) sh;
     (sh2, e2) \<leftarrow> each (tag_item env guildId) (ptrs env (sh_players sh1)) sh1;
     Some (sh2, e1 @ e2)
   }"

text \<open>The searches by name stop at the first spawn of the walk that matches.\<close>

fun find_spawn :: "(Spawn \<Rightarrow> bool) \<Rightarrow> ptr list \<Rightarrow> SpawnShell \<Rightarrow> ptr option option" where
  "find_spawn P [] sh = Some None"
| "find_spawn P (a # as) sh = (case sh_heap sh a of
     Some (OSpawn s) \<Rightarrow> if P s then Some (Some a) else find_spawn P as sh
   | _ \<Rightarrow> None)"

definition findSpawnByName :: "shell_env \<Rightarrow> string \<Rightarrow> SpawnShell \<Rightarrow> ptr option option" where
  "findSpawnByName env name sh = do {
     r \<leftarrow> find_spawn (\<lambda>s. name = v_name spawn_vt s) (ptrs env (sh_spawns sh)) sh;
     p \<leftarrow> get_player sh;
     Some (case r of Some a \<Rightarrow> Some a | None \<Rightarrow> if name = v_name player_vt p then Some player_ptr else None)
   }"

definition findPlayerByDisplayName :: "shell_env \<Rightarrow> string \<Rightarrow> SpawnShell \<Rightarrow> ptr option option" where
  "findPlayerByDisplayName env name sh = do {
     r \<leftarrow> find_spawn (\<lambda>s. isPlayer s \<and> (name = v_name spawn_vt s \<or> name = transformedName spawn_vt s)) (ptrs env (sh_spawns sh)) sh;
     p \<leftarrow> get_player sh;
     Some (case r of Some a \<Rightarrow> Some a
       | None \<Rightarrow> if name = v_name player_vt p \<or> name = transformedName player_vt p then Some player_ptr else None)
   }"

definition deleteItem :: "shell_env \<Rightarrow> spawnItemType \<Rightarrow> u32 \<Rightarrow> SpawnShell \<Rightarrow> (SpawnShell \<times> shell_event list) option" where
  "deleteItem env t k sh = (case getMap t sh k of
     None \<Rightarrow> Some (sh, [])
   | Some a \<Rightarrow> do {
       ob \<leftarrow> get_obj sh a;
       let sh1 = setMap t ((getMap t sh)(k := None)) sh;
       Some (sh1, [EDelItem a ob, ENumSpawns (count env (sh_spawns sh1))])
     })"

definition updateFilterFlags :: "shell_env \<Rightarrow> ptr \<Rightarrow> SpawnShell \<Rightarrow> (bool \<times> SpawnShell) option" where
  "updateFilterFlags env a sh = do {
     ob \<leftarrow> get_obj sh a;
     level \<leftarrow> filter_level ob;
     let flags = h_filterMask env (filterString (benv env) ob) level;
     Some (if flags \<noteq> filterFlags ob then (True, put_obj a (setFilterFlags flags ob) sh) else (False, sh))
   }"

definition updateRuntimeFilterFlags :: "shell_env \<Rightarrow> ptr \<Rightarrow> SpawnShell \<Rightarrow> (bool \<times> SpawnShell) option" where
  "updateRuntimeFilterFlags env a sh = do {
     ob \<leftarrow> get_obj sh a;
     level \<leftarrow> filter_level ob;
     let flags = h_runtimeMask env (filterString (benv env) ob) level;
     Some (if flags \<noteq> runtimeFilterFlags ob then (True, put_obj a (setRuntimeFilterFlags flags ob) sh) else (False, sh))
   }"

text \<open>The two updates of the flags of a spawn, which the handlers do one after the other.\<close>

definition updateBothFlags :: "shell_env \<Rightarrow> ptr \<Rightarrow> SpawnShell \<Rightarrow> SpawnShell option" where
  "updateBothFlags env a sh = do {
     (_, sh1) \<leftarrow> updateFilterFlags env a sh;
     (_, sh2) \<leftarrow> updateRuntimeFilterFlags env a sh1;
     Some sh2
   }"

text \<open>The lines \<open>dumpSpawns\<close> writes.\<close>

fun dump_items :: "shell_env \<Rightarrow> ptr list \<Rightarrow> SpawnShell \<Rightarrow> string list option" where
  "dump_items env [] sh = Some []"
| "dump_items env (a # as) sh = do {
     ob \<leftarrow> get_obj sh a;
     ls \<leftarrow> dump_items env as sh;
     Some (dumpString (benv env) ob # ls)
   }"

definition dumpSpawns :: "shell_env \<Rightarrow> spawnItemType \<Rightarrow> SpawnShell \<Rightarrow> string list option" where
  "dumpSpawns env t sh = dump_items env (ptrs env (getMap t sh)) sh"

section \<open>Ground items and doors\<close>

text \<open>The float fields are kept as their bits. The name is copied into the fixed buffer of the
  structure with its closing zero byte: a longer one leaves the buffer.\<close>

definition copy_idFile :: "string \<Rightarrow> bytes option" where
  "copy_idFile name = (let bs = takeWhile (\<lambda>b. b \<noteq> 0) (map (\<lambda>c. of_nat (of_char c)) name)
     in if length bs < idFile_size then Some bs else None)"

definition read_makeDrop :: "shell_env \<Rightarrow> bytes \<Rightarrow> nat \<Rightarrow> makeDropStruct option" where
  "read_makeDrop env data len = do {
     (dropId, n1) \<leftarrow> readUInt32NC (mkNetStream data len);
     (name, n2) \<leftarrow> readText (q_utf8 env) n1;
     idFile \<leftarrow> copy_idFile name;
     (_, n3) \<leftarrow> readUInt32NC n2;
     (_, n4) \<leftarrow> readUInt32NC n3;
     (_, n5) \<leftarrow> readUInt32NC n4;
     (heading, n6) \<leftarrow> readUInt32NC n5;
     (_, n7) \<leftarrow> readUInt32NC n6;
     (_, n8) \<leftarrow> readUInt32NC n7;
     (_, n9) \<leftarrow> readUInt32NC n8;
     (y, n10) \<leftarrow> readUInt32NC n9;
     (x, n11) \<leftarrow> readUInt32NC n10;
     (z, n12) \<leftarrow> readUInt32NC n11;
     Some \<lparr>dr_dropId = dropId, dr_heading = heading, dr_z = z, dr_x = x, dr_y = y, dr_idFile = idFile\<rparr>
   }"

text \<open>The name given to the drop is empty: it was emptied after the copy, or was empty before.\<close>

definition put_drop :: "shell_env \<Rightarrow> makeDropStruct \<Rightarrow> SpawnShell \<Rightarrow> (SpawnShell \<times> shell_event list) option" where
  "put_drop env ds sh = (case sh_drops sh (dr_dropId ds) of
     Some a \<Rightarrow> (case sh_heap sh a of
       Some (ODrop dr) \<Rightarrow> do {
         dr1 \<leftarrow> drop_update (benv env) ds [] dr;
         (_, sh1) \<leftarrow> updateFilterFlags env a (put_obj a (ODrop dr1) sh);
         ob \<leftarrow> get_obj sh1 a;
         Some (put_obj a (touch (benv env) ob) sh1, [EChangeItem a (touch (benv env) ob) tSpawnChangedALL])
       }
     | _ \<Rightarrow> None)
   | None \<Rightarrow> do {
       dr \<leftarrow> new_Drop (benv env) ds [];
       let (a, sh1) = alloc (ODrop dr) sh;
       (_, sh2) \<leftarrow> updateFilterFlags env a sh1;
       ob \<leftarrow> get_obj sh2 a;
       Some (insert_item tDrop (dr_dropId ds) a sh2, [EAddItem a ob])
     })"

definition newGroundItem :: "shell_env \<Rightarrow> bytes \<Rightarrow> nat \<Rightarrow> u8 \<Rightarrow> SpawnShell \<Rightarrow> (SpawnShell \<times> shell_event list) option" where
  "newGroundItem env data len dir sh =
     (if h_isZoning env \<or> dir \<noteq> DIR_Server then Some (sh, [])
      else do { ds \<leftarrow> read_makeDrop env data len; put_drop env ds sh })"

definition removeGroundItem :: "shell_env \<Rightarrow> bytes \<Rightarrow> u8 \<Rightarrow> SpawnShell \<Rightarrow> (SpawnShell \<times> shell_event list) option" where
  "removeGroundItem env data dir sh =
     (if h_isZoning env \<or> dir \<noteq> DIR_Server then Some (sh, [])
      else do { dropId \<leftarrow> eqtohuint32 data 0; deleteItem env tDrop dropId sh })"

definition newDoorSpawn :: "shell_env \<Rightarrow> doorStruct \<Rightarrow> SpawnShell \<Rightarrow> (SpawnShell \<times> shell_event list) option" where
  "newDoorSpawn env d sh = (case sh_doors sh (ucast (d_doorId d)) of
     Some a \<Rightarrow> (case sh_heap sh a of
       Some (ODoor door) \<Rightarrow> do {
         door1 \<leftarrow> door_update (benv env) d door;
         (_, sh1) \<leftarrow> updateFilterFlags env a (put_obj a (ODoor door1) sh);
         ob \<leftarrow> get_obj sh1 a;
         Some (put_obj a (touch (benv env) ob) sh1, [EChangeItem a (touch (benv env) ob) tSpawnChangedALL])
       }
     | _ \<Rightarrow> None)
   | None \<Rightarrow> do {
       door \<leftarrow> new_Door (benv env) d;
       let (a, sh1) = alloc (ODoor door) sh;
       (_, sh2) \<leftarrow> updateFilterFlags env a sh1;
       ob \<leftarrow> get_obj sh2 a;
       Some (insert_item tDoors (ucast (d_doorId d)) a sh2, [EAddItem a ob])
     })"

text \<open>A loop over an array of records in the packet: \<open>n\<close> records of \<open>size\<close> bytes from \<open>i\<close> on.\<close>

fun over_array :: "(bytes \<Rightarrow> nat \<Rightarrow> 'r option) \<Rightarrow> ('r \<Rightarrow> SpawnShell \<Rightarrow> (SpawnShell \<times> shell_event list) option)
    \<Rightarrow> nat \<Rightarrow> nat \<Rightarrow> nat \<Rightarrow> bytes \<Rightarrow> SpawnShell \<Rightarrow> (SpawnShell \<times> shell_event list) option" where
  "over_array rd f sz 0 i data sh = Some (sh, [])"
| "over_array rd f sz (Suc n) i data sh = do {
     r \<leftarrow> rd data i;
     (sh1, e1) \<leftarrow> f r sh;
     (sh2, e2) \<leftarrow> over_array rd f sz n (i + sz) data sh1;
     Some (sh2, e1 @ e2)
   }"

definition newDoorSpawns :: "shell_env \<Rightarrow> bytes \<Rightarrow> nat \<Rightarrow> SpawnShell \<Rightarrow> (SpawnShell \<times> shell_event list) option" where
  "newDoorSpawns env data len =
     over_array read_doorStruct (newDoorSpawn env) sizeof_doorStruct (len div sizeof_doorStruct) 0 data"

section \<open>Spawns\<close>

text \<open>The recently deleted ids: every slot below the count that holds the id is emptied.\<close>

definition forget_dead :: "u16 \<Rightarrow> SpawnShell \<Rightarrow> SpawnShell" where
  "forget_dead k sh = sh\<lparr>sh_deadID := map (\<lambda>d. if d = k then 0 else d) (take (sh_cntDead sh) (sh_deadID sh))
     @ drop (sh_cntDead sh) (sh_deadID sh)\<rparr>"

definition put_spawn :: "shell_env \<Rightarrow> spawnStruct \<Rightarrow> SpawnShell \<Rightarrow> (SpawnShell \<times> shell_event list) option" where
  "put_spawn env s sh = (case sh_spawns sh (ucast (s_spawnId s)) of
     Some a \<Rightarrow> (case sh_heap sh a of
       Some (OSpawn sp) \<Rightarrow> do {
         sp1 \<leftarrow> spawn_update (benv env) spawn_vt s sp;
         sh1 \<leftarrow> updateBothFlags env a (put_obj a (OSpawn sp1) sh);
         sh2 \<leftarrow> on_spawn (set_guild_tag env \<circ> updateLastChanged (benv env)) (set_guild_tag env \<circ> updateLastChanged (benv env)) a sh1;
         ob \<leftarrow> get_obj sh2 a;
         Some (sh2, [EChangeItem a ob tSpawnChangedALL])
       }
     | _ \<Rightarrow> None)
   | None \<Rightarrow> do {
       sp \<leftarrow> new_Spawn (benv env) s;
       let (a, sh1) = alloc (OSpawn sp) sh;
       sh2 \<leftarrow> updateBothFlags env a sh1;
       let sh3 = insert_item tSpawn (ucast (s_spawnId s)) a sh2;
       sh4 \<leftarrow> on_spawn (set_guild_tag env) (set_guild_tag env) a sh3;
       ob \<leftarrow> get_obj sh4 a;
       Some (sh4, [EAddItem a ob, ENumSpawns (count env (sh_spawns sh4))])
     })"

definition newSpawn :: "shell_env \<Rightarrow> spawnStruct \<Rightarrow> SpawnShell \<Rightarrow> (SpawnShell \<times> shell_event list) option" where
  "newSpawn env s sh = (if s_NPC s = SPAWN_SELF then Some (sh, []) else put_spawn env s (forget_dead (s_spawnId s) sh))"

definition newSpawn_packet :: "shell_env \<Rightarrow> bytes \<Rightarrow> SpawnShell \<Rightarrow> (SpawnShell \<times> shell_event list) option" where
  "newSpawn_packet env data sh =
     (if h_isZoning env then Some (sh, []) else do { s \<leftarrow> read_spawnStruct data 0; newSpawn env s sh })"

definition zoneSpawns :: "shell_env \<Rightarrow> bytes \<Rightarrow> nat \<Rightarrow> SpawnShell \<Rightarrow> (SpawnShell \<times> shell_event list) option" where
  "zoneSpawns env data len =
     over_array read_spawnStruct (newSpawn env) sizeof_spawnStruct (len div sizeof_spawnStruct) 0 data"

text \<open>A packet that is too short leaves the structure as it was: all zero.\<close>

definition fillSpawnStruct :: "bytes \<Rightarrow> nat \<Rightarrow> spawnStruct option" where
  "fillSpawnStruct data len = (if len < sizeof_spawnStruct then Some (spawn_fields (replicate sizeof_spawnStruct 0))
     else read_spawnStruct data 0)"

definition playerChangedID :: "shell_env \<Rightarrow> u16 \<Rightarrow> u16 \<Rightarrow> SpawnShell \<Rightarrow> (SpawnShell \<times> shell_event list) option" where
  "playerChangedID env oldPlayerID newPlayerID sh = do {
     (sh1, e1) \<leftarrow> deleteItem env tPlayer 0 sh;
     if oldPlayerID = newPlayerID then Some (sh1, e1)
     else do {
       (sh2, e2) \<leftarrow> deleteItem env tPlayer (ucast oldPlayerID) sh1;
       (sh3, e3) \<leftarrow> deleteItem env tSpawn (ucast newPlayerID) sh2;
       let sh4 = insert_item tPlayer (ucast newPlayerID) player_ptr sh3;
       p \<leftarrow> get_player sh4;
       Some (sh4, e1 @ e2 @ e3 @ [EChangeItem player_ptr (OPlayer p) tSpawnChangedALL])
     }
   }"

text \<open>\<open>Player::setPlayerID\<close>, whose signals \<open>changedID\<close> and \<open>changeItem\<close> are connected to the shell.\<close>

definition setPlayerID :: "shell_env \<Rightarrow> u16 \<Rightarrow> SpawnShell \<Rightarrow> (SpawnShell \<times> shell_event list) option" where
  "setPlayerID env k sh = do {
     p \<leftarrow> get_player sh;
     if m_ID p = k then Some (sh, [])
     else do {
       (sh1, e1) \<leftarrow> playerChangedID env (m_ID p) k (put_obj player_ptr (OPlayer (p\<lparr>m_ID := k\<rparr>)) sh);
       p1 \<leftarrow> get_player sh1;
       let p2 = updateLastChanged (benv env) p1;
       Some (put_obj player_ptr (OPlayer p2) sh1, e1 @ [EChangeItem player_ptr (OPlayer p2) tSpawnChangedALL])
     }
   }"

definition latin1_bytes :: "string \<Rightarrow> bytes" where
  "latin1_bytes s = takeWhile (\<lambda>b. b \<noteq> 0) (map (\<lambda>c. of_nat (of_char c)) s)"

definition zoneEntry :: "shell_env \<Rightarrow> bytes \<Rightarrow> nat \<Rightarrow> SpawnShell \<Rightarrow> (SpawnShell \<times> shell_event list) option" where
  "zoneEntry env data len sh = do {
     s \<leftarrow> fillSpawnStruct data len;
     p \<leftarrow> get_player sh;
     name \<leftarrow> c_str (s_name s);
     if name = latin1_bytes (m_realName p)
     then do {
       (sh1, e1) \<leftarrow> setPlayerID env (s_spawnId s) sh;
       p1 \<leftarrow> get_player sh1;
       p2 \<leftarrow> spawn_update (benv env) player_vt s p1;
       Some (put_obj player_ptr (OPlayer p2) sh1, e1 @ [EChangeItem player_ptr (OPlayer p2) tSpawnChangedALL])
     }
     else (case sh_spawns sh (ucast (s_spawnId s)) of
       Some a \<Rightarrow> (case sh_heap sh a of
         Some (OSpawn sp) \<Rightarrow> do { sp1 \<leftarrow> spawn_update (benv env) spawn_vt s sp; Some (put_obj a (OSpawn sp1) sh, []) }
       | _ \<Rightarrow> None)
     | None \<Rightarrow> newSpawn env s sh)
   }"

section \<open>Positions\<close>

definition move_spawn :: "shell_env \<Rightarrow> u16 \<Rightarrow> u16 \<Rightarrow> u16 \<Rightarrow> u16 \<Rightarrow> u16 \<Rightarrow> u16 \<Rightarrow> u8 \<Rightarrow> u8 \<Rightarrow> u8
    \<Rightarrow> 'a Spawn_scheme \<Rightarrow> 'a Spawn_scheme" where
  "move_spawn env x y z xVel yVel zVel heading deltaHeading animation s =
     updateLastChanged (benv env) (updateLast (benv env) (setHeading heading deltaHeading (setDeltas xVel yVel zVel
       ((spawn_setPos x y z (h_walkpathrecord env) (h_walkpathlength env) s)\<lparr>m_animation := animation\<rparr>))))"

text \<open>The first slot below the count that holds the id; an empty slot holds 0.\<close>

fun dead_slot :: "nat \<Rightarrow> u16 \<Rightarrow> u16 list \<Rightarrow> nat option" where
  "dead_slot 0 k ds = None"
| "dead_slot (Suc n) k [] = None"
| "dead_slot (Suc n) k (d # ds) = (if d \<noteq> 0 \<and> d = k then Some 0 else map_option Suc (dead_slot n k ds))"

definition updateSpawn :: "shell_env \<Rightarrow> u16 \<Rightarrow> u16 \<Rightarrow> u16 \<Rightarrow> u16 \<Rightarrow> u16 \<Rightarrow> u16 \<Rightarrow> u16 \<Rightarrow> u8 \<Rightarrow> u8 \<Rightarrow> u8
    \<Rightarrow> SpawnShell \<Rightarrow> (SpawnShell \<times> shell_event list) option" where
  "updateSpawn env i x y z xVel yVel zVel heading deltaHeading animation sh = do {
     p \<leftarrow> get_player sh;
     (case (if i = m_ID p then Some player_ptr else sh_spawns sh (ucast i)) of
       Some a \<Rightarrow> do {
         sh1 \<leftarrow> on_spawn (move_spawn env x y z xVel yVel zVel heading deltaHeading animation)
                 (move_spawn env x y z xVel yVel zVel heading deltaHeading animation) a sh;
         ob \<leftarrow> get_obj sh1 a;
         Some (sh1, [EChangeItem a ob tSpawnChangedPosition])
       }
     | None \<Rightarrow>
         if \<not> h_createUnknownSpawns env then Some (sh, [])
         else (case dead_slot (sh_cntDead sh) i (sh_deadID sh) of
           Some j \<Rightarrow> Some (sh\<lparr>sh_deadID := (sh_deadID sh)[j := 0]\<rparr>, [])
         | None \<Rightarrow> do {
             let (a, sh1) = alloc (OSpawn (new_unknown_Spawn (benv env) i x y z xVel yVel zVel heading deltaHeading animation)) sh;
             sh2 \<leftarrow> updateBothFlags env a sh1;
             let sh3 = insert_item tSpawn (ucast i) a sh2;
             ob \<leftarrow> get_obj sh3 a;
             Some (sh3, [EAddItem a ob, ENumSpawns (count env (sh_spawns sh3))])
           }))
   }"

definition update_moving :: "shell_env \<Rightarrow> spawnPositionUpdate \<Rightarrow> SpawnShell \<Rightarrow> (SpawnShell \<times> shell_event list) option" where
  "update_moving env u = updateSpawn env (u_spawnId u) (u_x u) (u_y u) (u_z u) (u_deltaX u) (u_deltaY u) (u_deltaZ u)
     (u_heading u) (u_deltaHeading u) (u_animation u)"

definition update_still :: "shell_env \<Rightarrow> spawnPositionUpdate \<Rightarrow> SpawnShell \<Rightarrow> (SpawnShell \<times> shell_event list) option" where
  "update_still env u = updateSpawn env (u_spawnId u) (u_x u) (u_y u) (u_z u) 0 0 0
     (u_heading u) (u_deltaHeading u) (u_animation u)"

definition playerUpdate2 :: "shell_env \<Rightarrow> bytes \<Rightarrow> SpawnShell \<Rightarrow> (SpawnShell \<times> shell_event list) option" where
  "playerUpdate2 env data sh = (if h_isZoning env then Some (sh, [])
     else do { u \<leftarrow> read_positionUpdate data 0; update_moving env u sh })"

definition playerUpdate :: "shell_env \<Rightarrow> bytes \<Rightarrow> u8 \<Rightarrow> SpawnShell \<Rightarrow> (SpawnShell \<times> shell_event list) option" where
  "playerUpdate env data dir sh = (if h_isZoning env \<or> dir = DIR_Client then Some (sh, [])
     else do { u \<leftarrow> read_positionUpdate data 0; update_moving env u sh })"

definition updateSpawns :: "shell_env \<Rightarrow> bytes \<Rightarrow> nat \<Rightarrow> SpawnShell \<Rightarrow> (SpawnShell \<times> shell_event list) option" where
  "updateSpawns env data len sh =
     (if h_isZoning env \<or> len < 4 then Some (sh, [])
      else do {
        numUpdates \<leftarrow> eqtohint32 data 0;
        let n = min (nat numUpdates) ((len - 4) div sizeof_spawnPositionUpdate);
        over_array read_positionUpdate (update_still env) sizeof_spawnPositionUpdate n 4 data sh
      })"

section \<open>Changes of a spawn\<close>

text \<open>The handler of a change: the spawn of the id, if it is known, is changed and announced.\<close>

definition modify_spawn :: "shell_env \<Rightarrow> u32 \<Rightarrow> (Spawn \<Rightarrow> Spawn) \<Rightarrow> u32 \<Rightarrow> SpawnShell \<Rightarrow> (SpawnShell \<times> shell_event list) option" where
  "modify_spawn env k f changes sh = (case sh_spawns sh k of
     None \<Rightarrow> Some (sh, [])
   | Some a \<Rightarrow> (case sh_heap sh a of
       Some (OSpawn s) \<Rightarrow> (let s1 = updateLastChanged (benv env) (f s)
         in Some (put_obj a (OSpawn s1) sh, [EChangeItem a (OSpawn s1) changes]))
     | _ \<Rightarrow> None))"

definition illusionSpawn :: "shell_env \<Rightarrow> bytes \<Rightarrow> SpawnShell \<Rightarrow> (SpawnShell \<times> shell_event list) option" where
  "illusionSpawn env data sh = do {
     il \<leftarrow> read_illusion data;
     modify_spawn env (il_spawnId il) (\<lambda>s. setRace spawn_vt (ucast (il_race il)) (s\<lparr>m_gender := il_gender il\<rparr>)) tSpawnChangedALL sh
   }"

definition updateSpawnAppearance :: "shell_env \<Rightarrow> bytes \<Rightarrow> SpawnShell \<Rightarrow> (SpawnShell \<times> shell_event list) option" where
  "updateSpawnAppearance env data sh = do {
     app \<leftarrow> read_appearance data;
     if ap_type app = 1
     then modify_spawn env (ucast (ap_spawnId app)) (\<lambda>s. s\<lparr>m_level := ap_parameter app\<rparr>) tSpawnChangedLevel sh
     else Some (sh, [])
   }"

definition updateNpcHP :: "shell_env \<Rightarrow> bytes \<Rightarrow> SpawnShell \<Rightarrow> (SpawnShell \<times> shell_event list) option" where
  "updateNpcHP env data sh = do {
     hp \<leftarrow> read_hpUpdate data;
     modify_spawn env (hp_spawnId hp) (\<lambda>s. s\<lparr>m_curHP := hp_curHP hp, m_maxHP := hp_maxHP hp\<rparr>) tSpawnChangedHP sh
   }"

definition spawnWearingUpdate :: "shell_env \<Rightarrow> bytes \<Rightarrow> SpawnShell \<Rightarrow> (SpawnShell \<times> shell_event list) option" where
  "spawnWearingUpdate env data sh = do {
     k \<leftarrow> eqtohuint16 data 0;
     (case sh_spawns sh (ucast k) of
       None \<Rightarrow> Some (sh, [])
     | Some a \<Rightarrow> do {
         (b1, sh1) \<leftarrow> updateFilterFlags env a sh;
         (b2, sh2) \<leftarrow> updateRuntimeFilterFlags env a sh1;
         ob \<leftarrow> get_obj sh2 a;
         let changes = tSpawnChangedWearing OR (if b1 then tSpawnChangedFilter else 0) OR (if b2 then tSpawnChangedRuntimeFilter else 0);
         Some (put_obj a (touch (benv env) ob) sh2, [EChangeItem a (touch (benv env) ob) changes])
       })
   }"

definition consider_spawn :: "u32 \<Rightarrow> SpawnShell \<Rightarrow> (SpawnShell \<times> shell_event list) option" where
  "consider_spawn k sh = (case sh_spawns sh k of
     None \<Rightarrow> Some (sh, [])
   | Some a \<Rightarrow> (case sh_heap sh a of
       Some (OSpawn s) \<Rightarrow> Some (put_obj a (OSpawn (s\<lparr>m_considered := True\<rparr>)) sh, [ESpawnConsidered a (OSpawn (s\<lparr>m_considered := True\<rparr>))])
     | _ \<Rightarrow> None))"

text \<open>Both directions do the same.\<close>

definition consMessage :: "bytes \<Rightarrow> u8 \<Rightarrow> SpawnShell \<Rightarrow> (SpawnShell \<times> shell_event list) option" where
  "consMessage data dir sh = do {
     con \<leftarrow> read_consider data;
     if con_playerid con \<noteq> con_targetid con then consider_spawn (ucast (con_targetid con)) sh else Some (sh, [])
   }"

definition clientTarget :: "bytes \<Rightarrow> SpawnShell \<Rightarrow> (SpawnShell \<times> shell_event list) option" where
  "clientTarget data sh = do { k \<leftarrow> eqtohuint16 data 0; Some (sh, [ETargetSpawn (ucast k)]) }"

section \<open>Deletion and death\<close>

definition note_dead :: "u16 \<Rightarrow> SpawnShell \<Rightarrow> SpawnShell" where
  "note_dead k sh = (let pos = (if sh_posDead sh < MAX_DEAD_SPAWNIDS - 1 then sh_posDead sh + 1 else 0)
     in sh\<lparr>sh_posDead := pos, sh_cntDead := (if sh_cntDead sh < MAX_DEAD_SPAWNIDS then sh_cntDead sh + 1 else sh_cntDead sh),
           sh_deadID := (sh_deadID sh)[pos := k]\<rparr>)"

definition deleteSpawn :: "shell_env \<Rightarrow> bytes \<Rightarrow> SpawnShell \<Rightarrow> (SpawnShell \<times> shell_event list) option" where
  "deleteSpawn env data sh = do { k \<leftarrow> eqtohuint16 data 0; deleteItem env tSpawn (ucast k) (note_dead k sh) }"

definition note_kill :: "ptr \<Rightarrow> SpawnShell \<Rightarrow> SpawnShell option" where
  "note_kill a sh = do {
     p \<leftarrow> get_player sh;
     ob \<leftarrow> get_obj sh a;
     (name, level) \<leftarrow> (case ob of OSpawn s \<Rightarrow> Some (v_name spawn_vt s, v_level spawn_vt s)
       | OPlayer q \<Rightarrow> Some (v_name player_vt q, v_level player_vt q) | _ \<Rightarrow> None);
     Some (put_obj player_ptr (OPlayer (setLastKill name level p)) sh)
   }"

definition corpse_name :: "'a Item_scheme \<Rightarrow> 'a Item_scheme" where
  "corpse_name i = i\<lparr>m_name := m_name i @ Spawn_Corpse_Designator\<rparr>"

definition killSpawn :: "shell_env \<Rightarrow> bytes \<Rightarrow> SpawnShell \<Rightarrow> (SpawnShell \<times> shell_event list) option" where
  "killSpawn env data sh = do {
     dead \<leftarrow> read_corpse data;
     p \<leftarrow> get_player sh;
     (case (if nc_spawnId dead \<noteq> m_ID p then sh_spawns sh (ucast (nc_spawnId dead)) else Some player_ptr) of
       None \<Rightarrow> Some (sh, [])
     | Some a \<Rightarrow> do {
         sh1 \<leftarrow> (if nc_killerId dead = m_ID p then note_kill a sh else Some sh);
         sh2 \<leftarrow> on_spawn spawn_kill spawn_kill a sh1;
         sh3 \<leftarrow> updateBothFlags env a sh2;
         sh4 \<leftarrow> on_spawn corpse_name corpse_name a sh3;
         ob \<leftarrow> get_obj sh4 a;
         Some (sh4, [EKillSpawn a ob (sh_spawns sh4 (ucast (nc_killerId dead))) (nc_killerId dead)])
       })
   }"

section \<open>Refiltering\<close>

definition refilter_item :: "shell_env \<Rightarrow> ptr \<Rightarrow> SpawnShell \<Rightarrow> (SpawnShell \<times> shell_event list) option" where
  "refilter_item env a sh = do {
     (changed, sh1) \<leftarrow> updateFilterFlags env a sh;
     ob \<leftarrow> get_obj sh1 a;
     Some (if changed then (put_obj a (touch (benv env) ob) sh1, [EChangeItem a (touch (benv env) ob) tSpawnChangedFilter])
           else (sh1, []))
   }"

definition refilterSpawns :: "shell_env \<Rightarrow> SpawnShell \<Rightarrow> (SpawnShell \<times> shell_event list) option" where
  "refilterSpawns env sh = do {
     (sh1, e1) \<leftarrow> each (refilter_item env) (ptrs env (getMap tSpawn sh)) sh;
     (sh2, e2) \<leftarrow> each (refilter_item env) (ptrs env (getMap tDrop sh1)) sh1;
     (sh3, e3) \<leftarrow> each (refilter_item env) (ptrs env (getMap tDoors sh2)) sh2;
     Some (sh3, e1 @ e2 @ e3)
   }"

definition refilter_item_runtime :: "shell_env \<Rightarrow> ptr \<Rightarrow> SpawnShell \<Rightarrow> (SpawnShell \<times> shell_event list) option" where
  "refilter_item_runtime env a sh = do {
     (changed, sh1) \<leftarrow> updateRuntimeFilterFlags env a sh;
     ob \<leftarrow> get_obj sh1 a;
     Some (if changed then (put_obj a (touch (benv env) ob) sh1, [EChangeItem a (touch (benv env) ob) tSpawnChangedRuntimeFilter])
           else (sh1, []))
   }"

definition refilterSpawnsRuntime :: "shell_env \<Rightarrow> SpawnShell \<Rightarrow> (SpawnShell \<times> shell_event list) option" where
  "refilterSpawnsRuntime env sh = do {
     (sh1, e1) \<leftarrow> each (refilter_item_runtime env) (ptrs env (getMap tSpawn sh)) sh;
     (sh2, e2) \<leftarrow> each (refilter_item_runtime env) (ptrs env (getMap tDrop sh1)) sh1;
     (sh3, e3) \<leftarrow> each (refilter_item_runtime env) (ptrs env (getMap tDoors sh2)) sh2;
     Some (sh3, e1 @ e2 @ e3)
   }"

end
