(* ===== verification/Machine.thy ===== *)
theory Machine
  imports Prelude
begin

text \<open>
  The contract of a part of the program that is driven by packets: a step may fault (\<open>None\<close>), and
  every step on an accepted packet keeps the invariant. That a run of accepted packets never faults
  and keeps the invariant is proved once; so is that a run leaves alone what none of its packets
  names (\<open>framed_machine\<close>), and that it acts like the abstract machine it implements
  (\<open>refined_machine\<close>).
\<close>

fun run :: "('p \<Rightarrow> 's \<Rightarrow> ('s \<times> 'e list) option) \<Rightarrow> 'p list \<Rightarrow> 's \<Rightarrow> ('s \<times> 'e list) option" where
  "run step [] s = Some (s, [])"
| "run step (p # ps) s = do {
     (s1, e1) \<leftarrow> step p s;
     (s2, e2) \<leftarrow> run step ps s1;
     Some (s2, e1 @ e2)
   }"

lemma run_append:
  "run step (ps @ qs) s = do { (s1, e1) \<leftarrow> run step ps s; (s2, e2) \<leftarrow> run step qs s1; Some (s2, e1 @ e2) }"
proof (induction ps arbitrary: s)
  case (Cons p ps)
  show ?case by (cases "step p s") (auto simp: Cons.IH split: Option.bind_splits)
qed (simp split: Option.bind_splits)

locale machine =
  fixes step :: "'p \<Rightarrow> 's \<Rightarrow> ('s \<times> 'e list) option"
    and ok :: "'s \<Rightarrow> bool"
    and accepts :: "'p \<Rightarrow> bool"
  assumes step_ok: "ok s \<Longrightarrow> accepts p \<Longrightarrow> \<exists>s' es. step p s = Some (s', es) \<and> ok s'"
begin

lemma run_ok:
  "ok s \<Longrightarrow> list_all accepts ps \<Longrightarrow> \<exists>s' es. run step ps s = Some (s', es) \<and> ok s'"
proof (induction ps arbitrary: s)
  case (Cons p ps)
  then obtain s1 e1 where s1: "step p s = Some (s1, e1)" "ok s1" using step_ok [of s p] by auto
  then obtain s2 e2 where "run step ps s1 = Some (s2, e2)" "ok s2" using Cons by fastforce
  then show ?case using s1 by auto
qed simp

end

text \<open>A machine that implements an abstract one: every step acts on the abstraction of the state like \<open>spec\<close>.\<close>

locale refined_machine = machine step ok accepts
  for step :: "'p \<Rightarrow> 's \<Rightarrow> ('s \<times> 'e list) option" and ok accepts +
  fixes abs_of :: "'s \<Rightarrow> 'a"
    and spec :: "'p \<Rightarrow> 'a \<Rightarrow> 'a"
  assumes step_abs: "ok s \<Longrightarrow> accepts p \<Longrightarrow> step p s = Some (s', es) \<Longrightarrow> abs_of s' = spec p (abs_of s)"
begin

lemma run_abs:
  "ok s \<Longrightarrow> list_all accepts ps \<Longrightarrow> \<exists>s' es. run step ps s = Some (s', es) \<and> ok s' \<and> abs_of s' = fold spec ps (abs_of s)"
proof (induction ps arbitrary: s)
  case (Cons p ps)
  then obtain s1 e1 where s1: "step p s = Some (s1, e1)" "ok s1" using step_ok [of s p] by auto
  then obtain s2 e2 where "run step ps s1 = Some (s2, e2)" "ok s2" "abs_of s2 = fold spec ps (abs_of s1)" using Cons by fastforce
  moreover have "abs_of s1 = spec p (abs_of s)" using step_abs [of s p s1 e1] Cons.prems s1 by simp
  ultimately show ?case using s1 by auto
qed simp

end

locale framed_machine = machine step ok accepts
  for step :: "'p \<Rightarrow> 's \<Rightarrow> ('s \<times> 'e list) option" and ok accepts +
  fixes look :: "'s \<Rightarrow> 'k \<Rightarrow> 'v option"
    and names :: "'p \<Rightarrow> 'k set"
  assumes step_frame: "ok s \<Longrightarrow> accepts p \<Longrightarrow> step p s = Some (s', es) \<Longrightarrow> k \<notin> names p \<Longrightarrow> look s' k = look s k"
begin

lemma run_frame:
  "ok s \<Longrightarrow> list_all accepts ps \<Longrightarrow> run step ps s = Some (s', es) \<Longrightarrow> \<forall>p \<in> set ps. k \<notin> names p \<Longrightarrow> look s' k = look s k"
proof (induction ps arbitrary: s s' es)
  case (Cons p ps)
  then obtain s1 e1 where s1: "step p s = Some (s1, e1)" "ok s1" using step_ok [of s p] by auto
  then obtain e2 where "run step ps s1 = Some (s', e2)" using Cons.prems by (auto simp: bind_Some_iff)
  then have "look s' k = look s1 k" using Cons s1 by auto
  then show ?case using step_frame [of s p s1 e1 k] Cons.prems s1 by auto
qed simp

end

end
