(* ===== verification/SpawnShellInv.thy ===== *)
theory SpawnShellInv
  imports SpawnShell Machine
begin

text \<open>
  The invariant of the spawn shell: the four maps hold addresses of live objects of the right class,
  no two keys share one, and the ring of deleted ids is in bounds. Every handler is first brought
  to a closed form (an object of the store is replaced, inserted or taken out of a map), from which
  the invariant and the frame follow.
\<close>

definition map_ok :: "(u32 \<Rightarrow> obj \<Rightarrow> bool) \<Rightarrow> item_map \<Rightarrow> (ptr \<Rightarrow> obj option) \<Rightarrow> bool" where
  "map_ok P mp hp \<longleftrightarrow> (\<forall>k a. mp k = Some a \<longrightarrow> (\<exists>ob. hp a = Some ob \<and> P k ob)) \<and> inj_on mp (dom mp)"

definition is_spawn :: "u32 \<Rightarrow> obj \<Rightarrow> bool" where
  "is_spawn k ob \<longleftrightarrow> (\<exists>s. ob = OSpawn s \<and> ucast (m_ID s) = k \<and> m_type s = tSpawn)"
definition is_drop :: "u32 \<Rightarrow> obj \<Rightarrow> bool" where "is_drop k ob \<longleftrightarrow> (\<exists>d. ob = ODrop d \<and> ucast k = m_ID d \<and> m_type d = tDrop)"
definition is_door :: "u32 \<Rightarrow> obj \<Rightarrow> bool" where "is_door k ob \<longleftrightarrow> (\<exists>d. ob = ODoor d \<and> ucast (m_ID d) = k \<and> m_type d = tDoors)"

definition store_ok :: "SpawnShell \<Rightarrow> bool" where
  "store_ok sh \<longleftrightarrow> (\<exists>p. sh_heap sh player_ptr = Some (OPlayer p) \<and> m_type p = tSpawn) \<and> player_ptr < sh_next sh
     \<and> (\<forall>a\<ge>sh_next sh. sh_heap sh a = None)
     \<and> (\<forall>a d. sh_heap sh a = Some (ODoor d) \<longrightarrow> m_type d = tDoors) \<and> (\<forall>a d. sh_heap sh a = Some (ODrop d) \<longrightarrow> m_type d = tDrop)"

definition dead_ok :: "SpawnShell \<Rightarrow> bool" where
  "dead_ok sh \<longleftrightarrow> length (sh_deadID sh) = MAX_DEAD_SPAWNIDS \<and> sh_cntDead sh \<le> MAX_DEAD_SPAWNIDS \<and> sh_posDead sh < MAX_DEAD_SPAWNIDS"

definition shell_ok :: "SpawnShell \<Rightarrow> bool" where
  "shell_ok sh \<longleftrightarrow> store_ok sh \<and> dead_ok sh \<and> map_ok is_spawn (sh_spawns sh) (sh_heap sh)
     \<and> map_ok is_drop (sh_drops sh) (sh_heap sh) \<and> map_ok is_door (sh_doors sh) (sh_heap sh)
     \<and> (\<forall>k a. sh_players sh k = Some a \<longrightarrow> a = player_ptr)"

definition order_ok :: "shell_env \<Rightarrow> bool" where
  "order_ok env \<longleftrightarrow> (\<forall>mp. distinct (h_order env mp) \<and> set (h_order env mp) = dom mp)"

definition view :: "SpawnShell \<Rightarrow> u32 \<Rightarrow> Spawn option" where
  "view sh k = (case sh_spawns sh k of None \<Rightarrow> None
     | Some a \<Rightarrow> (case sh_heap sh a of Some (OSpawn s) \<Rightarrow> Some s | _ \<Rightarrow> None))"

section \<open>The store\<close>

definition same_kind :: "obj \<Rightarrow> obj \<Rightarrow> bool" where
  "same_kind ob ob' \<longleftrightarrow> (case (ob, ob') of (OSpawn s, OSpawn s') \<Rightarrow> m_ID s' = m_ID s \<and> m_type s' = m_type s
     | (OPlayer p, OPlayer p') \<Rightarrow> m_type p' = m_type p
     | (ODoor d, ODoor d') \<Rightarrow> m_ID d' = m_ID d \<and> m_type d' = m_type d
     | (ODrop d, ODrop d') \<Rightarrow> m_ID d' = m_ID d \<and> m_type d' = m_type d | _ \<Rightarrow> False)"

lemma same_kind_refl [simp]: "same_kind ob ob" by (cases ob) (auto simp: same_kind_def)

lemma same_kind_trans: "same_kind a b \<Longrightarrow> same_kind b c \<Longrightarrow> same_kind a c"
  by (cases a; cases b; cases c) (auto simp: same_kind_def)

lemma put_obj_fields [simp]: "sh_spawns (put_obj a ob sh) = sh_spawns sh" "sh_drops (put_obj a ob sh) = sh_drops sh"
  "sh_doors (put_obj a ob sh) = sh_doors sh" "sh_players (put_obj a ob sh) = sh_players sh" "sh_next (put_obj a ob sh) = sh_next sh"
  "sh_deadID (put_obj a ob sh) = sh_deadID sh" "sh_cntDead (put_obj a ob sh) = sh_cntDead sh" "sh_posDead (put_obj a ob sh) = sh_posDead sh"
  "sh_heap (put_obj a ob sh) = (sh_heap sh)(a \<mapsto> ob)"
  by (simp_all add: put_obj_def)

lemma put_obj_put [simp]: "put_obj a x (put_obj a y sh) = put_obj a x sh" by (simp add: put_obj_def)

lemma put_obj_map: "put_obj a x (sh\<lparr>sh_spawns := mp\<rparr>) = (put_obj a x sh)\<lparr>sh_spawns := mp\<rparr>"
  by (simp add: put_obj_def)

lemma put_obj_same [simp]: "sh_heap sh a = Some ob \<Longrightarrow> put_obj a ob sh = sh"
  by (simp add: put_obj_def fun_upd_idem)

lemma map_ok_put:
  assumes "map_ok P mp hp" "hp a = Some ob" "\<And>k. P k ob \<Longrightarrow> P k ob'"
  shows "map_ok P mp (hp(a \<mapsto> ob'))"
  using assms unfolding map_ok_def by (metis fun_upd_apply option.inject)

lemma same_kind_is: "same_kind ob ob' \<Longrightarrow> is_spawn k ob \<Longrightarrow> is_spawn k ob'" "same_kind ob ob' \<Longrightarrow> is_drop k ob \<Longrightarrow> is_drop k ob'"
  "same_kind ob ob' \<Longrightarrow> is_door k ob \<Longrightarrow> is_door k ob'"
  by (cases ob'; auto simp: same_kind_def is_spawn_def is_drop_def is_door_def)+

lemma store_ok_put:
  assumes "store_ok sh" "sh_heap sh a = Some ob" "same_kind ob ob'"
  shows "store_ok (put_obj a ob' sh)"
proof -
  have "a < sh_next sh" using assms(1,2) by (auto simp: store_ok_def intro: ccontr)
  then show ?thesis using assms
    by (cases ob; cases ob') (auto simp: store_ok_def same_kind_def)
qed

lemma shell_ok_put [inv_intros]:
  assumes "shell_ok sh" "sh_heap sh a = Some ob" "same_kind ob ob'"
  shows "shell_ok (put_obj a ob' sh)"
  using assms store_ok_put [of sh a ob ob'] map_ok_put [where hp = "sh_heap sh" and a = a and ob = ob and ob' = ob'] same_kind_is [OF assms(3)]
  by (auto simp: shell_ok_def dead_ok_def)

lemma view_Some: "shell_ok sh \<Longrightarrow> sh_spawns sh k = Some a \<Longrightarrow> \<exists>s. sh_heap sh a = Some (OSpawn s) \<and> view sh k = Some s \<and> ucast (m_ID s) = k"
  by (auto simp: shell_ok_def map_ok_def is_spawn_def view_def) (metis obj.simps(17) option.simps(5))

lemma get_player_ok: "shell_ok sh \<Longrightarrow> \<exists>p. get_player sh = Some p \<and> sh_heap sh player_ptr = Some (OPlayer p)"
  by (auto simp: shell_ok_def store_ok_def get_player_def)

text \<open>What a change of one object does to the spawns that are seen.\<close>

lemma view_put_other:
  assumes "shell_ok sh" "sh_heap sh a = Some ob" "\<And>k. sh_spawns sh k = Some a \<Longrightarrow> k \<in> K" "k \<notin> K"
  shows "view (put_obj a ob' sh) k = view sh k"
  using assms by (auto simp: view_def split: option.splits)

section \<open>What a handler does\<close>

text \<open>\<open>does K r sh\<close>: the call returns, keeps the invariant and leaves the spawns outside \<open>K\<close> alone.\<close>

definition does :: "u32 set \<Rightarrow> (SpawnShell \<times> shell_event list) option \<Rightarrow> SpawnShell \<Rightarrow> bool" where
  "does K r sh \<longleftrightarrow> (\<exists>sh' es. r = Some (sh', es) \<and> shell_ok sh' \<and> (\<forall>k. k \<notin> K \<longrightarrow> view sh' k = view sh k))"

named_theorems does_rules \<open>calls of the shell that return and keep its invariant\<close>

lemma does_return [does_rules]: "shell_ok sh \<Longrightarrow> does K (Some (sh, es)) sh"
  by (simp add: does_def)

lemma does_mono: "does K r sh \<Longrightarrow> K \<subseteq> K' \<Longrightarrow> does K' r sh"
  by (auto simp: does_def)

lemma does_view: "does K r sh1 \<Longrightarrow> (\<And>k. k \<notin> K \<Longrightarrow> view sh1 k = view sh k) \<Longrightarrow> does K r sh"
  by (auto simp: does_def)

lemma does_bind:
  assumes "does K r sh" "\<And>sh1 e1. r = Some (sh1, e1) \<Longrightarrow> shell_ok sh1 \<Longrightarrow> does K (f sh1 e1) sh1"
  shows "does K (do { (sh1, e1) \<leftarrow> r; f sh1 e1 }) sh"
  using assms by (fastforce simp: does_def)

lemma does_put [does_rules]:
  assumes "shell_ok sh" "sh_heap sh a = Some ob" "same_kind ob ob'" "\<And>k. sh_spawns sh k = Some a \<Longrightarrow> k \<in> K"
  shows "does K (Some (put_obj a ob' sh, es)) sh"
  using shell_ok_put [OF assms(1-3)] view_put_other [OF assms(1,2,4)] by (auto simp: does_def)

lemma heap_class:
  assumes "shell_ok sh"
  shows "sh_spawns sh k = Some a \<Longrightarrow> \<exists>s. sh_heap sh a = Some (OSpawn s) \<and> ucast (m_ID s) = k \<and> m_type s = tSpawn"
    "sh_drops sh k = Some a \<Longrightarrow> \<exists>d. sh_heap sh a = Some (ODrop d) \<and> m_type d = tDrop"
    "sh_doors sh k = Some a \<Longrightarrow> \<exists>d. sh_heap sh a = Some (ODoor d) \<and> m_type d = tDoors"
    "sh_players sh k = Some a \<Longrightarrow> a = player_ptr"
  using assms by (auto simp: shell_ok_def map_ok_def is_spawn_def is_drop_def is_door_def) metis+

lemma map_classes:
  assumes "shell_ok sh"
  shows "sh_spawns sh k = Some a \<Longrightarrow> sh_drops sh k' = Some a \<Longrightarrow> False"
    "sh_spawns sh k = Some a \<Longrightarrow> sh_doors sh k' = Some a \<Longrightarrow> False"
    "sh_drops sh k = Some a \<Longrightarrow> sh_doors sh k' = Some a \<Longrightarrow> False"
    "sh_spawns sh k = Some player_ptr \<Longrightarrow> False"
  using heap_class [OF assms] get_player_ok [OF assms] by fastforce+

lemma spawn_key:
  assumes "shell_ok sh" "sh_spawns sh k = Some a" "sh_spawns sh k' = Some a"
  shows "k' = k"
  using heap_class(1) [OF assms(1,2)] heap_class(1) [OF assms(1,3)] by auto

lemma does_put_spawn [does_rules]:
  assumes "shell_ok sh" "sh_spawns sh k = Some a" "sh_heap sh a = Some ob" "same_kind ob ob'" "k \<in> K"
  shows "does K (Some (put_obj a ob' sh, es)) sh"
  using assms spawn_key [OF assms(1,2)] by (blast intro: does_put)

lemma does_put_player [does_rules]:
  assumes "shell_ok sh" "sh_heap sh player_ptr = Some (OPlayer p)" "m_type p' = m_type p"
  shows "does K (Some (put_obj player_ptr (OPlayer p') sh, es)) sh"
  using assms map_classes(4) [OF assms(1)] by (intro does_put [OF assms(1,2)]) (auto simp: same_kind_def)

section \<open>Flags\<close>

definition masked :: "shell_env \<Rightarrow> obj \<Rightarrow> obj" where
  "masked env ob = setFilterFlags (h_filterMask env (filterString (benv env) ob) (the (filter_level ob))) ob"

definition runtime_masked :: "shell_env \<Rightarrow> obj \<Rightarrow> obj" where
  "runtime_masked env ob = setRuntimeFilterFlags (h_runtimeMask env (filterString (benv env) ob) (the (filter_level ob))) ob"

lemma setFlags_same: "setFilterFlags (filterFlags ob) ob = ob" "setRuntimeFilterFlags (runtimeFilterFlags ob) ob = ob"
  by (cases ob; simp add: setFilterFlags_def filterFlags_def setRuntimeFilterFlags_def runtimeFilterFlags_def)+

lemma flags_kind [simp]: "same_kind ob (masked env ob)" "same_kind ob (runtime_masked env ob)" "same_kind ob (touch e ob)"
  by (cases ob; simp add: masked_def runtime_masked_def touch_def setFilterFlags_def setRuntimeFilterFlags_def
      same_kind_def updateLastChanged_def)+

lemma get_set_flags [simp]: "filterFlags (setFilterFlags w ob) = w" "runtimeFilterFlags (setRuntimeFilterFlags w ob) = w"
  by (cases ob; simp add: setFilterFlags_def filterFlags_def setRuntimeFilterFlags_def runtimeFilterFlags_def)+

lemma set_flags_iff: "setFilterFlags w ob = ob \<longleftrightarrow> w = filterFlags ob"
    "setRuntimeFilterFlags w ob = ob \<longleftrightarrow> w = runtimeFilterFlags ob"
  using setFlags_same [of ob] get_set_flags [of w ob] by metis+

lemma updateFilterFlags_eq:
  assumes "sh_heap sh a = Some ob" "filter_level ob \<noteq> None"
  shows "updateFilterFlags env a sh = Some (masked env ob \<noteq> ob, put_obj a (masked env ob) sh)"
  using assms by (auto simp: updateFilterFlags_def get_obj_def masked_def Let_def set_flags_iff setFlags_same)

lemma updateRuntimeFilterFlags_eq:
  assumes "sh_heap sh a = Some ob" "filter_level ob \<noteq> None"
  shows "updateRuntimeFilterFlags env a sh = Some (runtime_masked env ob \<noteq> ob, put_obj a (runtime_masked env ob) sh)"
  using assms by (auto simp: updateRuntimeFilterFlags_def get_obj_def runtime_masked_def Let_def set_flags_iff setFlags_same)

lemma filter_level_kind: "same_kind ob ob' \<Longrightarrow> (filter_level ob' = None) = (filter_level ob = None)"
  by (cases ob; cases ob') (auto simp: filter_level_def same_kind_def obj_type_def)

lemma updateBothFlags_eq:
  assumes "sh_heap sh a = Some ob" "filter_level ob \<noteq> None"
  shows "updateBothFlags env a sh = Some (put_obj a (runtime_masked env (masked env ob)) sh)"
proof -
  have "filter_level (masked env ob) \<noteq> None" using assms(2) filter_level_kind [of ob "masked env ob"] by simp
  then show ?thesis using assms
    by (simp add: updateBothFlags_def updateFilterFlags_eq updateRuntimeFilterFlags_eq)
qed

lemma level_OSpawn [simp]: "filter_level (OSpawn s) \<noteq> None" "filter_level (OPlayer p) \<noteq> None"
  "m_type d = tDoors \<Longrightarrow> filter_level (ODoor d) \<noteq> None" "m_type dr = tDrop \<Longrightarrow> filter_level (ODrop dr) \<noteq> None"
  by (auto simp: filter_level_def obj_type_def)

lemma live_level: "shell_ok sh \<Longrightarrow> sh_heap sh a = Some ob \<Longrightarrow> filter_level ob \<noteq> None"
  by (cases ob) (auto simp: shell_ok_def store_ok_def)

lemma masked_cases:
  "\<exists>w w'. runtime_masked env (masked env (OSpawn s)) = OSpawn (s\<lparr>m_filterFlags := w, m_runtimeFilterFlags := w'\<rparr>)"
  "\<exists>w w'. runtime_masked env (masked env (OPlayer p)) = OPlayer (p\<lparr>m_filterFlags := w, m_runtimeFilterFlags := w'\<rparr>)"
  "\<exists>w. masked env (ODoor d) = ODoor (d\<lparr>m_filterFlags := w\<rparr>)"
  "\<exists>w. masked env (ODrop dr) = ODrop (dr\<lparr>m_filterFlags := w\<rparr>)"
  by (auto simp: masked_def runtime_masked_def setFilterFlags_def setRuntimeFilterFlags_def)

lemma on_spawn_eq: "sh_heap sh a = Some (OSpawn s) \<Longrightarrow> on_spawn f g a sh = Some (put_obj a (OSpawn (f s)) sh)"
    "sh_heap sh a = Some (OPlayer p) \<Longrightarrow> on_spawn f g a sh = Some (put_obj a (OPlayer (g p)) sh)"
  by (simp_all add: on_spawn_def)

section \<open>What the operations of a spawn keep\<close>

lemma track_ops [simp]: "m_ID (setPoint x y z i) = m_ID i" "m_type (setPoint x y z i) = m_type i"
  by (simp_all add: setPoint_def)

lemma spawn_ops_keep [simp]:
  "m_ID (setDeltas x y z s) = m_ID s" "m_type (setDeltas x y z s) = m_type s"
  "m_ID (setHeading h d s) = m_ID s" "m_type (setHeading h d s) = m_type s"
  "m_ID (setEquipment n e s) = m_ID s" "m_type (setEquipment n e s) = m_type s"
  "m_ID (setRace vt r s) = m_ID s" "m_type (setRace vt r s) = m_type s"
  "m_ID (setDeity vt r s) = m_ID s" "m_type (setDeity vt r s) = m_type s"
  "m_ID (updateLast env i) = m_ID i" "m_type (updateLast env i) = m_type i"
  "m_ID (updateLastChanged env i) = m_ID i" "m_type (updateLastChanged env i) = m_type i"
  "m_ID (spawn_setPos x y z b l s) = m_ID s" "m_type (spawn_setPos x y z b l s) = m_type s"
  "m_ID (spawn_kill s) = m_ID s" "m_type (spawn_kill s) = m_type s"
  "m_ID (set_guild_tag henv s) = m_ID s" "m_type (set_guild_tag henv s) = m_type s"
  "m_ID (corpse_name i) = m_ID i" "m_type (corpse_name i) = m_type i"
  by (simp_all add: setDeltas_def setHeading_def setEquipment_def setRace_def setDeity_def Let_def updateLast_def
      updateLastChanged_def spawn_setPos_def item_setPos_def setPoint_def spawn_kill_def set_guild_tag_def corpse_name_def)

lemma fold_keep: "(\<And>i s. g (f i s) = g s) \<Longrightarrow> g (fold f xs s) = g s"
  by (induction xs arbitrary: s) auto

lemma core_equipment_keep [simp]: "m_ID (core_equipment es s) = m_ID s" "m_type (core_equipment es s) = m_type s"
  unfolding core_equipment_def by (rule fold_keep, simp)+

lemma update_motion_keep [simp]: "m_ID (update_motion s sp) = m_ID sp" "m_type (update_motion s sp) = m_type sp"
  by (simp_all add: update_motion_def)

lemma spawn_update_keep: "spawn_update env vt s sp = Some sp' \<Longrightarrow> m_ID sp' = m_ID sp \<and> m_type sp' = m_type sp"
  by (auto simp: spawn_update_def bind_Some_iff Let_def)

definition named_struct :: "spawnStruct \<Rightarrow> bool" where
  "named_struct s \<longleftrightarrow> 0 \<in> set (s_name s) \<and> 0 \<in> set (s_lastName s)"

lemma spawn_update_returns: "named_struct s \<Longrightarrow> \<exists>sp'. spawn_update env vt s sp = Some sp' \<and> m_ID sp' = m_ID sp \<and> m_type sp' = m_type sp"
  by (auto simp: spawn_update_def bind_Some_iff Let_def named_struct_def c_str_terminated)

lemma new_Spawn_returns: "named_struct s \<Longrightarrow> \<exists>sp. new_Spawn env s = Some sp \<and> m_ID sp = s_spawnId s \<and> m_type sp = tSpawn"
  using spawn_update_returns [of s env spawn_vt "blank_spawn env tSpawn (s_spawnId s)"]
  by (auto simp: new_Spawn_def blank_spawn_def)

lemma move_spawn_keep [simp]: "m_ID (move_spawn env x y z xv yv zv h dh an s) = m_ID s" "m_type (move_spawn env x y z xv yv zv h dh an s) = m_type s"
  by (simp_all add: move_spawn_def)

lemma new_unknown_keep [simp]: "m_ID (new_unknown_Spawn env i x y z dx dy dz h dh an) = i" "m_type (new_unknown_Spawn env i x y z dx dy dz h dh an) = tSpawn"
  by (simp_all add: new_unknown_Spawn_def blank_spawn_def)

section \<open>New items and deletion\<close>

lemma getMap_simps [simp]: "getMap tSpawn sh = sh_spawns sh" "getMap tDrop sh = sh_drops sh" "getMap tDoors sh = sh_doors sh"
    "getMap tPlayer sh = sh_players sh"
    "setMap tSpawn mp sh = sh\<lparr>sh_spawns := mp\<rparr>" "setMap tDrop mp sh = sh\<lparr>sh_drops := mp\<rparr>"
    "setMap tDoors mp sh = sh\<lparr>sh_doors := mp\<rparr>" "setMap tPlayer mp sh = sh\<lparr>sh_players := mp\<rparr>"
  by (simp_all add: getMap_def setMap_def)

lemma map_ok_insert:
  assumes "map_ok P mp hp" "hp a = Some ob" "P k ob" "a \<notin> ran mp"
  shows "map_ok P (mp(k \<mapsto> a)) hp"
  using assms unfolding map_ok_def inj_on_def ran_def by auto

lemma map_ok_remove: "map_ok P mp hp \<Longrightarrow> map_ok P (mp(k := None)) hp"
  unfolding map_ok_def inj_on_def by auto

lemma map_ok_heap:
  assumes "map_ok P mp hp" "hp a = None"
  shows "map_ok P mp (hp(a \<mapsto> ob))"
  using assms unfolding map_ok_def by (metis fun_upd_apply option.distinct(1))

text \<open>A new object is allocated, its flags are set, and it is put in a map.\<close>

definition fresh_class :: "obj \<Rightarrow> bool" where
  "fresh_class ob \<longleftrightarrow> (case ob of ODoor d \<Rightarrow> m_type d = tDoors | ODrop d \<Rightarrow> m_type d = tDrop | _ \<Rightarrow> True)"

lemma shell_ok_alloc:
  assumes "shell_ok sh" "fresh_class ob" "alloc ob sh = (a, sh1)"
  shows "shell_ok sh1" "sh_heap sh1 a = Some ob" "a \<notin> ran (sh_spawns sh1)" "a \<notin> ran (sh_drops sh1)" "a \<notin> ran (sh_doors sh1)"
    "sh_spawns sh1 = sh_spawns sh" "\<And>k. view sh1 k = view sh k" "a \<noteq> player_ptr"
proof -
  have a: "a = sh_next sh" "sh_heap sh a = None" using assms(1,3) by (auto simp: alloc_def shell_ok_def store_ok_def)
  have sh1: "sh1 = sh\<lparr>sh_heap := (sh_heap sh)(a \<mapsto> ob), sh_next := Suc (sh_next sh)\<rparr>" using assms(3) by (auto simp: alloc_def)
  show 1: "a \<noteq> player_ptr" using a assms(1) by (auto simp: shell_ok_def store_ok_def)
  show "shell_ok sh1" using assms(1,2) a 1
    by (auto simp: sh1 shell_ok_def store_ok_def dead_ok_def fresh_class_def intro!: map_ok_heap split: if_splits)
  show "sh_heap sh1 a = Some ob" "sh_spawns sh1 = sh_spawns sh" by (auto simp: sh1)
  have "a \<notin> ran (sh_spawns sh)" "a \<notin> ran (sh_drops sh)" "a \<notin> ran (sh_doors sh)"
    using heap_class [OF assms(1)] a(2) by (fastforce simp: ran_def)+
  then show "a \<notin> ran (sh_spawns sh1)" "a \<notin> ran (sh_drops sh1)" "a \<notin> ran (sh_doors sh1)" by (auto simp: sh1)
  then show "view sh1 k = view sh k" for k by (auto simp: view_def sh1 ran_def split: option.splits)
qed

lemma shell_ok_insert:
  assumes "shell_ok sh" "sh_heap sh a = Some ob"
  shows "is_spawn k ob \<Longrightarrow> a \<notin> ran (sh_spawns sh) \<Longrightarrow> shell_ok (insert_item tSpawn k a sh)"
    "is_drop k ob \<Longrightarrow> a \<notin> ran (sh_drops sh) \<Longrightarrow> shell_ok (insert_item tDrop k a sh)"
    "is_door k ob \<Longrightarrow> a \<notin> ran (sh_doors sh) \<Longrightarrow> shell_ok (insert_item tDoors k a sh)"
    "a = player_ptr \<Longrightarrow> shell_ok (insert_item tPlayer k a sh)"
  using assms map_ok_insert [where hp = "sh_heap sh" and a = a and ob = ob and k = k]
  by (auto simp: insert_item_def shell_ok_def store_ok_def dead_ok_def split: if_splits)

lemma view_cong: "sh_spawns sh' k = sh_spawns sh k \<Longrightarrow> sh_heap sh' = sh_heap sh \<Longrightarrow> view sh' k = view sh k"
  by (cases "sh_spawns sh k") (simp_all add: view_def)

lemma view_insert: "k' \<noteq> k \<Longrightarrow> view (insert_item tSpawn k a sh) k' = view sh k'"
    "view (insert_item tDrop k a sh) k' = view sh k'" "view (insert_item tDoors k a sh) k' = view sh k'"
    "view (insert_item tPlayer k a sh) k' = view sh k'"
  by (auto simp: insert_item_def intro: view_cong)

lemma does_delete [does_rules]:
  assumes "shell_ok sh" "t = tSpawn \<Longrightarrow> k \<in> K" "t \<noteq> tUnknown"
  shows "does K (deleteItem env t k sh) sh"
proof (cases "getMap t sh k")
  case None
  then show ?thesis using assms(1) by (simp add: deleteItem_def does_return)
next
  case (Some a)
  then obtain ob where ob: "sh_heap sh a = Some ob"
    using heap_class [OF assms(1)] get_player_ok [OF assms(1)] assms(3) by (cases t) fastforce+
  have "shell_ok (setMap t ((getMap t sh)(k := None)) sh)"
    using assms(1,3) by (cases t) (auto simp: shell_ok_def store_ok_def dead_ok_def intro: map_ok_remove split: if_splits)
  moreover have "view (setMap t ((getMap t sh)(k := None)) sh) k' = view sh k'" if "k' \<notin> K" for k'
    using assms(2,3) that by (cases t) (auto intro!: view_cong)
  ultimately show ?thesis using Some ob by (auto simp: deleteItem_def does_def get_obj_def Let_def)
qed

definition float16_ok :: "int \<Rightarrow> u32 \<Rightarrow> bool" where "float16_ok k w \<longleftrightarrow> float_int16 k w \<noteq> None"
definition float8_ok :: "u32 \<Rightarrow> bool" where "float8_ok w \<longleftrightarrow> float_int8 w \<noteq> None"

definition drop_ok :: "makeDropStruct \<Rightarrow> bool" where
  "drop_ok ds \<longleftrightarrow> float16_ok 1 (dr_x ds) \<and> float16_ok 1 (dr_y ds) \<and> float16_ok 1 (dr_z ds) \<and> float8_ok (dr_heading ds)"

definition door_ok :: "doorStruct \<Rightarrow> bool" where
  "door_ok d \<longleftrightarrow> float16_ok 1 (d_x d) \<and> float16_ok 1 (d_y d) \<and> float16_ok 10 (d_z d) \<and> float8_ok (d_heading d) \<and> 0 \<in> set (d_name d)"

lemma drop_update_returns: "drop_ok ds \<Longrightarrow> \<exists>dr'. drop_update env ds name dr = Some dr' \<and> m_ID dr' = m_ID dr \<and> m_type dr' = m_type dr"
  by (auto simp: drop_update_def bind_Some_iff drop_ok_def float16_ok_def float8_ok_def item_setPos_def setPoint_def updateLast_def)

lemma door_update_returns: "door_ok ds \<Longrightarrow> \<exists>dr'. door_update env ds dr = Some dr' \<and> m_ID dr' = m_ID dr \<and> m_type dr' = m_type dr"
  by (auto simp: door_update_def bind_Some_iff door_ok_def float16_ok_def float8_ok_def item_setPos_def setPoint_def updateLast_def
      c_str_terminated)

text \<open>An object that is in a map is replaced, its flags are set and it is announced.\<close>

lemma does_replace:
  assumes "shell_ok sh" "sh_heap sh a = Some ob" "same_kind ob ob1" "\<And>k. sh_spawns sh k \<noteq> Some a"
  shows "does {} (do { (_, sh1) \<leftarrow> updateFilterFlags env a (put_obj a ob1 sh); ob' \<leftarrow> get_obj sh1 a;
     Some (put_obj a (touch e ob') sh1, [EChangeItem a (touch e ob') w]) }) sh"
proof -
  have "filter_level ob1 \<noteq> None" using live_level [OF assms(1,2)] filter_level_kind [OF assms(3)] by simp
  then have u: "updateFilterFlags env a (put_obj a ob1 sh) = Some (masked env ob1 \<noteq> ob1, put_obj a (masked env ob1) sh)"
    by (subst updateFilterFlags_eq [where ob = ob1]) auto
  have "same_kind ob (touch e (masked env ob1))"
    by (rule same_kind_trans [OF assms(3) same_kind_trans [OF flags_kind(1,3)]])
  then have "does {} (Some (put_obj a (touch e (masked env ob1)) sh, [EChangeItem a (touch e (masked env ob1)) w])) sh"
    using assms(4) by (intro does_put [OF assms(1,2)]) auto
  then show ?thesis by (simp add: u get_obj_def del: put_obj_same)
qed

text \<open>A new object, its flags, and the insertion into the map of its class.\<close>

lemma does_create:
  assumes "shell_ok sh" "fresh_class ob" "t = tDrop \<and> is_drop k ob \<or> t = tDoors \<and> is_door k ob"
  shows "does {} (do { let (a, sh1) = alloc ob sh; (_, sh2) \<leftarrow> updateFilterFlags env a sh1; ob' \<leftarrow> get_obj sh2 a;
     Some (insert_item t k a sh2, [EAddItem a ob']) }) sh"
proof -
  obtain a sh1 where al: "alloc ob sh = (a, sh1)" by (cases "alloc ob sh") auto
  note A = shell_ok_alloc [OF assms(1,2) al]
  have u: "updateFilterFlags env a sh1 = Some (masked env ob \<noteq> ob, put_obj a (masked env ob) sh1)"
    using A(1,2) live_level updateFilterFlags_eq by blast
  have ok: "shell_ok (put_obj a (masked env ob) sh1)" using A(1,2) shell_ok_put by fastforce
  have k: "is_drop k ob \<Longrightarrow> is_drop k (masked env ob)" "is_door k ob \<Longrightarrow> is_door k (masked env ob)"
    using same_kind_is(2,3) [OF flags_kind(1)] by auto
  have "shell_ok (insert_item t k a (put_obj a (masked env ob) sh1))"
    using shell_ok_insert(2,3) [OF ok, of a "masked env ob" k] A k assms(3) by auto
  moreover have "view (insert_item t k a (put_obj a (masked env ob) sh1)) k' = view sh k'" for k'
  proof -
    have "view (put_obj a (masked env ob) sh1) k' = view sh1 k'"
      using A(1,2,3) by (intro view_put_other [where K = "{}"]) (auto simp: ran_def)
    then show ?thesis using assms(3) A(7) by (auto simp: view_insert)
  qed
  ultimately show ?thesis using A(2) by (simp add: al u get_obj_def does_def)
qed

section \<open>The handlers\<close>

lemma does_put_drop [does_rules]: "shell_ok sh \<Longrightarrow> drop_ok ds \<Longrightarrow> does {} (put_drop env ds sh) sh"
proof (cases "sh_drops sh (dr_dropId ds)")
  case (Some a)
  assume ok: "shell_ok sh" and d: "drop_ok ds"
  obtain dr where dr: "sh_heap sh a = Some (ODrop dr)" using heap_class(2) [OF ok Some] by auto
  obtain dr1 where dr1: "drop_update (benv env) ds [] dr = Some dr1" "m_ID dr1 = m_ID dr" "m_type dr1 = m_type dr"
    using drop_update_returns [OF d] by blast
  have "same_kind (ODrop dr) (ODrop dr1)" using dr1 by (simp add: same_kind_def)
  from does_replace [OF ok dr this] show ?thesis using Some dr dr1(1) map_classes(1) [OF ok _ Some]
    by (auto simp: put_drop_def)
next
  case None
  assume ok: "shell_ok sh" and d: "drop_ok ds"
  obtain dr where dr: "new_Drop (benv env) ds [] = Some dr" "m_ID dr = ucast (dr_dropId ds)" "m_type dr = tDrop"
    using drop_update_returns [OF d] by (fastforce simp: new_Drop_def blank_item_def Item.defs Drop.defs)
  have "does {} (do { let (a, sh1) = alloc (ODrop dr) sh; (_, sh2) \<leftarrow> updateFilterFlags env a sh1; ob' \<leftarrow> get_obj sh2 a;
     Some (insert_item tDrop (dr_dropId ds) a sh2, [EAddItem a ob']) }) sh"
    using dr by (intro does_create [OF ok]) (auto simp: fresh_class_def is_drop_def)
  then show ?thesis using None dr(1) by (simp add: put_drop_def)
qed

lemma door_key: "ucast (ucast (w :: u8) :: u16) = (ucast w :: u32)"
  by (rule bit_word_eqI) (auto simp: bit_simps dest: bit_imp_le_length)

lemma does_newDoorSpawn [does_rules]: "shell_ok sh \<Longrightarrow> door_ok d \<Longrightarrow> does {} (newDoorSpawn env d sh) sh"
proof (cases "sh_doors sh (ucast (d_doorId d))")
  case (Some a)
  assume ok: "shell_ok sh" and d: "door_ok d"
  obtain dr where dr: "sh_heap sh a = Some (ODoor dr)" using heap_class(3) [OF ok Some] by auto
  obtain dr1 where dr1: "door_update (benv env) d dr = Some dr1" "m_ID dr1 = m_ID dr" "m_type dr1 = m_type dr"
    using door_update_returns [OF d] by blast
  have "same_kind (ODoor dr) (ODoor dr1)" using dr1 by (simp add: same_kind_def)
  from does_replace [OF ok dr this] show ?thesis using Some dr dr1(1) map_classes(2) [OF ok _ Some]
    by (auto simp: newDoorSpawn_def)
next
  case None
  assume ok: "shell_ok sh" and d: "door_ok d"
  obtain dr where dr: "new_Door (benv env) d = Some dr" "m_ID dr = ucast (d_doorId d)" "m_type dr = tDoors"
    using door_update_returns [OF d] by (fastforce simp: new_Door_def blank_item_def Item.defs Door.defs)
  have "does {} (do { let (a, sh1) = alloc (ODoor dr) sh; (_, sh2) \<leftarrow> updateFilterFlags env a sh1; ob' \<leftarrow> get_obj sh2 a;
     Some (insert_item tDoors (ucast (d_doorId d)) a sh2, [EAddItem a ob']) }) sh"
    using dr by (intro does_create [OF ok]) (auto simp: fresh_class_def is_door_def door_key)
  then show ?thesis using None dr(1) by (simp add: newDoorSpawn_def)
qed

lemma does_over_array:
  assumes "\<And>j. j < n \<Longrightarrow> \<exists>r. rd data (i + j * sz) = Some r \<and> Q r"
    and "\<And>r sh. Q r \<Longrightarrow> shell_ok sh \<Longrightarrow> does K (f r sh) sh" and "shell_ok sh"
  shows "does K (over_array rd f sz n i data sh) sh"
  using assms(1,3)
proof (induction n arbitrary: i sh)
  case (Suc n)
  obtain r where r: "rd data i = Some r" "Q r" using Suc.prems(1) [of 0] by auto
  have rest: "\<exists>r. rd data (i + sz + j * sz) = Some r \<and> Q r" if "j < n" for j
    using Suc.prems(1) [of "Suc j"] that by (simp add: algebra_simps)
  have "does K (do { (sh1, e1) \<leftarrow> f r sh; (sh2, e2) \<leftarrow> over_array rd f sz n (i + sz) data sh1; Some (sh2, e1 @ e2) }) sh"
  proof (rule does_bind)
    show "does K (f r sh) sh" using assms(2) r(2) Suc.prems(2) by blast
    fix sh1 e1 assume "shell_ok sh1"
    then have "does K (over_array rd f sz n (i + sz) data sh1) sh1" using Suc.IH rest by blast
    then show "does K (do { (sh2, e2) \<leftarrow> over_array rd f sz n (i + sz) data sh1; Some (sh2, e1 @ e2) }) sh1"
      by (auto simp: does_def)
  qed
  then show ?case using r(1) by simp
qed (simp add: does_return)

lemma forget_dead_keep: "shell_ok sh \<Longrightarrow> shell_ok (forget_dead k sh)" "view (forget_dead k sh) j = view sh j"
    "sh_spawns (forget_dead k sh) = sh_spawns sh" "sh_heap (forget_dead k sh) = sh_heap sh"
  by (auto simp: forget_dead_def shell_ok_def store_ok_def dead_ok_def intro!: view_cong)

lemma does_put_spawn_struct:
  assumes ok: "shell_ok sh" and s: "named_struct s"
  shows "does {ucast (s_spawnId s)} (put_spawn env s sh) sh"
proof (cases "sh_spawns sh (ucast (s_spawnId s))")
  case (Some a)
  obtain sp where sp: "sh_heap sh a = Some (OSpawn sp)" "m_type sp = tSpawn" using heap_class(1) [OF ok Some] by auto
  obtain sp1 where sp1: "spawn_update (benv env) spawn_vt s sp = Some sp1" "m_ID sp1 = m_ID sp" "m_type sp1 = m_type sp"
    using spawn_update_returns [OF s] by blast
  obtain w w' where w: "runtime_masked env (masked env (OSpawn sp1)) = OSpawn (sp1\<lparr>m_filterFlags := w, m_runtimeFilterFlags := w'\<rparr>)"
    using masked_cases(1) by blast
  have u: "updateBothFlags env a (put_obj a (OSpawn sp1) sh) = Some (put_obj a (OSpawn (sp1\<lparr>m_filterFlags := w, m_runtimeFilterFlags := w'\<rparr>)) sh)"
    by (subst updateBothFlags_eq [where ob = "OSpawn sp1"]) (auto simp: w)
  let ?sp = "set_guild_tag env (updateLastChanged (benv env) (sp1\<lparr>m_filterFlags := w, m_runtimeFilterFlags := w'\<rparr>))"
  have "does {ucast (s_spawnId s)} (Some (put_obj a (OSpawn ?sp) sh, [EChangeItem a (OSpawn ?sp) tSpawnChangedALL])) sh"
    using sp1 by (intro does_put_spawn [OF ok Some sp(1)]) (auto simp: same_kind_def)
  then show ?thesis by (simp add: put_spawn_def Some sp(1) sp1(1) u on_spawn_def get_obj_def del: put_obj_same)
next
  case None
  obtain sp where sp: "new_Spawn (benv env) s = Some sp" "m_ID sp = s_spawnId s" "m_type sp = tSpawn"
    using new_Spawn_returns [OF s] by blast
  obtain a sh1 where al: "alloc (OSpawn sp) sh = (a, sh1)" by (cases "alloc (OSpawn sp) sh") auto
  have "fresh_class (OSpawn sp)" by (simp add: fresh_class_def)
  note A = shell_ok_alloc [OF ok this al]
  obtain w w' where w: "runtime_masked env (masked env (OSpawn sp)) = OSpawn (sp\<lparr>m_filterFlags := w, m_runtimeFilterFlags := w'\<rparr>)"
    using masked_cases(1) by blast
  have u: "updateBothFlags env a sh1 = Some (put_obj a (OSpawn (sp\<lparr>m_filterFlags := w, m_runtimeFilterFlags := w'\<rparr>)) sh1)"
    by (subst updateBothFlags_eq [where ob = "OSpawn sp"]) (auto simp: w A(2))
  let ?sp = "set_guild_tag env (sp\<lparr>m_filterFlags := w, m_runtimeFilterFlags := w'\<rparr>)"
  let ?sh = "insert_item tSpawn (ucast (s_spawnId s)) a (put_obj a (OSpawn ?sp) sh1)"
  have ok1: "shell_ok (put_obj a (OSpawn ?sp) sh1)" using A(1,2) by (rule shell_ok_put) (simp add: same_kind_def)
  have "shell_ok ?sh" using A(3) sp by (intro shell_ok_insert(1) [OF ok1]) (auto simp: is_spawn_def)
  moreover have "view ?sh k = view sh k" if "k \<noteq> ucast (s_spawnId s)" for k
  proof -
    have "view (put_obj a (OSpawn ?sp) sh1) k = view sh1 k"
      by (rule view_put_other [OF A(1,2), where K = "{}"]) (use A(3) in \<open>auto simp: ran_def\<close>)
    then show ?thesis using that A(7) by (simp add: view_insert)
  qed
  ultimately show ?thesis
    by (simp add: put_spawn_def None sp(1) al u on_spawn_def insert_item_def get_obj_def does_def put_obj_map del: put_obj_same)
qed

lemma does_newSpawn [does_rules]:
  assumes "shell_ok sh" "named_struct s" "ucast (s_spawnId s) \<in> K"
  shows "does K (newSpawn env s sh) sh"
proof (cases "s_NPC s = SPAWN_SELF")
  case False
  have "does {ucast (s_spawnId s)} (put_spawn env s (forget_dead (s_spawnId s) sh)) (forget_dead (s_spawnId s) sh)"
    by (rule does_put_spawn_struct [OF forget_dead_keep(1) [OF assms(1)] assms(2)])
  then have "does {ucast (s_spawnId s)} (put_spawn env s (forget_dead (s_spawnId s) sh)) sh"
    by (rule does_view) (simp add: forget_dead_keep)
  then show ?thesis using False assms(3) by (auto simp: newSpawn_def intro: does_mono)
qed (simp add: newSpawn_def does_return assms)

lemma does_playerChangedID [does_rules]:
  assumes "shell_ok sh" "ucast new \<in> K"
  shows "does K (playerChangedID env old new sh) sh"
  unfolding playerChangedID_def
proof (rule does_bind)
  show "does K (deleteItem env tPlayer 0 sh) sh" using assms(1) by (rule does_delete) auto
  fix sh1 e1 assume ok1: "shell_ok sh1"
  show "does K (if old = new then Some (sh1, e1) else do { (sh2, e2) \<leftarrow> deleteItem env tPlayer (ucast old) sh1;
       (sh3, e3) \<leftarrow> deleteItem env tSpawn (ucast new) sh2; let sh4 = insert_item tPlayer (ucast new) player_ptr sh3;
       p \<leftarrow> get_player sh4; Some (sh4, e1 @ e2 @ e3 @ [EChangeItem player_ptr (OPlayer p) tSpawnChangedALL]) }) sh1"
  proof (cases "old = new")
    case False
    have "does K (do { (sh2, e2) \<leftarrow> deleteItem env tPlayer (ucast old) sh1;
       (sh3, e3) \<leftarrow> deleteItem env tSpawn (ucast new) sh2; let sh4 = insert_item tPlayer (ucast new) player_ptr sh3;
       p \<leftarrow> get_player sh4; Some (sh4, e1 @ e2 @ e3 @ [EChangeItem player_ptr (OPlayer p) tSpawnChangedALL]) }) sh1"
    proof (rule does_bind)
      show "does K (deleteItem env tPlayer (ucast old) sh1) sh1" using ok1 by (rule does_delete) auto
      fix sh2 e2 assume ok2: "shell_ok sh2"
      show "does K (do { (sh3, e3) \<leftarrow> deleteItem env tSpawn (ucast new) sh2; let sh4 = insert_item tPlayer (ucast new) player_ptr sh3;
         p \<leftarrow> get_player sh4; Some (sh4, e1 @ e2 @ e3 @ [EChangeItem player_ptr (OPlayer p) tSpawnChangedALL]) }) sh2"
      proof (rule does_bind)
        show "does K (deleteItem env tSpawn (ucast new) sh2) sh2" using ok2 assms(2) by (intro does_delete) auto
        fix sh3 e3 assume ok3: "shell_ok sh3"
        let ?sh4 = "insert_item tPlayer (ucast new) player_ptr sh3"
        obtain p where p: "sh_heap sh3 player_ptr = Some (OPlayer p)" using get_player_ok [OF ok3] by auto
        have ok4: "shell_ok ?sh4" by (rule shell_ok_insert(4) [OF ok3 p]) simp
        obtain p4 where "get_player ?sh4 = Some p4" using get_player_ok [OF ok4] by auto
        then show "does K (let sh4 = ?sh4 in do { p \<leftarrow> get_player sh4;
           Some (sh4, e1 @ e2 @ e3 @ [EChangeItem player_ptr (OPlayer p) tSpawnChangedALL]) }) sh3"
          using ok4 by (auto simp: does_def view_insert)
      qed
    qed
    then show ?thesis using False by simp
  qed (simp add: ok1 does_return)
qed

lemma does_setPlayerID [does_rules]:
  assumes ok: "shell_ok sh" and k: "ucast k \<in> K"
  shows "does K (setPlayerID env k sh) sh"
proof -
  obtain p where p: "get_player sh = Some p" "sh_heap sh player_ptr = Some (OPlayer p)" using get_player_ok [OF ok] by auto
  let ?sh0 = "put_obj player_ptr (OPlayer (p\<lparr>m_ID := k\<rparr>)) sh"
  have "does K (Some (?sh0, [] :: shell_event list)) sh" using does_put_player [OF ok p(2), of "p\<lparr>m_ID := k\<rparr>"] by simp
  then have ok0: "shell_ok ?sh0" and v0: "\<And>j. j \<notin> K \<Longrightarrow> view ?sh0 j = view sh j" by (auto simp: does_def)
  have "does K (do { (sh1, e1) \<leftarrow> playerChangedID env (m_ID p) k ?sh0; p1 \<leftarrow> get_player sh1; let p2 = updateLastChanged (benv env) p1;
     Some (put_obj player_ptr (OPlayer p2) sh1, e1 @ [EChangeItem player_ptr (OPlayer p2) tSpawnChangedALL]) }) ?sh0"
  proof (rule does_bind [OF does_playerChangedID [OF ok0 k]])
    fix sh1 e1 assume ok1: "shell_ok sh1"
    then obtain p1 where p1: "get_player sh1 = Some p1" "sh_heap sh1 player_ptr = Some (OPlayer p1)" using get_player_ok by auto
    show "does K (do { p1 \<leftarrow> get_player sh1; let p2 = updateLastChanged (benv env) p1;
     Some (put_obj player_ptr (OPlayer p2) sh1, e1 @ [EChangeItem player_ptr (OPlayer p2) tSpawnChangedALL]) }) sh1"
      using does_put_player [OF ok1 p1(2), of "updateLastChanged (benv env) p1"] by (simp add: p1(1) Let_def)
  qed
  from does_view [OF this v0] show ?thesis using p(1) ok by (auto simp: setPlayerID_def Let_def does_return)
qed

lemma does_bind_option:
  assumes "r = Some x" "does K (f x) sh"
  shows "does K (Option.bind r f) sh"
  using assms by simp

definition entry_ok :: "bytes \<Rightarrow> nat \<Rightarrow> bool" where
  "entry_ok data len \<longleftrightarrow> (\<exists>s. fillSpawnStruct data len = Some s \<and> named_struct s)"

lemma does_zoneEntry [does_rules]:
  assumes ok: "shell_ok sh" and s: "fillSpawnStruct data len = Some s" "named_struct s" and k: "ucast (s_spawnId s) \<in> K"
  shows "does K (zoneEntry env data len sh) sh"
proof -
  obtain p where p: "get_player sh = Some p" using get_player_ok [OF ok] by auto
  obtain name where name: "c_str (s_name s) = Some name" using s(2) by (auto simp: named_struct_def c_str_terminated)
  have me: "does K (do { (sh1, e1) \<leftarrow> setPlayerID env (s_spawnId s) sh; p1 \<leftarrow> get_player sh1;
       p2 \<leftarrow> spawn_update (benv env) player_vt s p1;
       Some (put_obj player_ptr (OPlayer p2) sh1, e1 @ [EChangeItem player_ptr (OPlayer p2) tSpawnChangedALL]) }) sh"
  proof (rule does_bind [OF does_setPlayerID [OF ok k]])
    fix sh1 e1 assume ok1: "shell_ok sh1"
    then obtain p1 where p1: "get_player sh1 = Some p1" "sh_heap sh1 player_ptr = Some (OPlayer p1)" using get_player_ok by auto
    obtain p2 where p2: "spawn_update (benv env) player_vt s p1 = Some p2" "m_type p2 = m_type p1"
      using spawn_update_returns [OF s(2)] by blast
    show "does K (do { p1 \<leftarrow> get_player sh1; p2 \<leftarrow> spawn_update (benv env) player_vt s p1;
       Some (put_obj player_ptr (OPlayer p2) sh1, e1 @ [EChangeItem player_ptr (OPlayer p2) tSpawnChangedALL]) }) sh1"
      using does_put_player [OF ok1 p1(2) p2(2)] by (simp add: p1(1) p2(1))
  qed
  have other: "does K (case sh_spawns sh (ucast (s_spawnId s)) of
       Some a \<Rightarrow> (case sh_heap sh a of
         Some (OSpawn sp) \<Rightarrow> do { sp1 \<leftarrow> spawn_update (benv env) spawn_vt s sp; Some (put_obj a (OSpawn sp1) sh, []) }
       | _ \<Rightarrow> None)
     | None \<Rightarrow> newSpawn env s sh) sh"
  proof (cases "sh_spawns sh (ucast (s_spawnId s))")
    case (Some a)
    obtain sp where sp: "sh_heap sh a = Some (OSpawn sp)" using heap_class(1) [OF ok Some] by auto
    obtain sp1 where sp1: "spawn_update (benv env) spawn_vt s sp = Some sp1" "m_ID sp1 = m_ID sp" "m_type sp1 = m_type sp"
      using spawn_update_returns [OF s(2)] by blast
    have "same_kind (OSpawn sp) (OSpawn sp1)" using sp1 by (simp add: same_kind_def)
    from does_put_spawn [OF ok Some sp this k] show ?thesis using Some sp sp1(1) by simp
  qed (use does_newSpawn [OF ok s(2) k] in simp)
  show ?thesis using me other by (simp add: zoneEntry_def s(1) p name)
qed

lemma does_updateSpawn [does_rules]:
  assumes ok: "shell_ok sh" and k: "ucast i \<in> K"
  shows "does K (updateSpawn env i x y z xv yv zv h dh an sh) sh"
proof -
  obtain p where p: "get_player sh = Some p" "sh_heap sh player_ptr = Some (OPlayer p)" using get_player_ok [OF ok] by auto
  let ?mv = "move_spawn env x y z xv yv zv h dh an"
  consider (player) "i = m_ID p" | (known) a where "i \<noteq> m_ID p" "sh_spawns sh (ucast i) = Some a"
    | (dead) j where "i \<noteq> m_ID p" "sh_spawns sh (ucast i) = None" "dead_slot (sh_cntDead sh) i (sh_deadID sh) = Some j"
    | (unknown) "i \<noteq> m_ID p" "sh_spawns sh (ucast i) = None" "dead_slot (sh_cntDead sh) i (sh_deadID sh) = None"
    by (metis option.exhaust)
  then show ?thesis
  proof cases
    case player
    then show ?thesis using does_put_player [OF ok p(2), of "move_spawn env x y z xv yv zv h dh an p"]
      by (simp add: updateSpawn_def p(1) on_spawn_eq(2) [OF p(2)] get_obj_def)
  next
    case known
    obtain s where s: "sh_heap sh a = Some (OSpawn s)" using heap_class(1) [OF ok known(2)] by auto
    have "same_kind (OSpawn s) (OSpawn (move_spawn env x y z xv yv zv h dh an s))" by (simp add: same_kind_def)
    from does_put_spawn [OF ok known(2) s this k] show ?thesis using known
      by (simp add: updateSpawn_def p(1) on_spawn_eq(1) [OF s] get_obj_def)
  next
    case dead
    have "shell_ok (sh\<lparr>sh_deadID := (sh_deadID sh)[j := 0]\<rparr>)" using ok
      by (auto simp: shell_ok_def store_ok_def dead_ok_def)
    then show ?thesis using dead ok by (auto simp: updateSpawn_def p(1) does_def intro!: view_cong)
  next
    case unknown
    let ?u = "new_unknown_Spawn (benv env) i x y z xv yv zv h dh an"
    obtain a sh1 where al: "alloc (OSpawn ?u) sh = (a, sh1)" by (cases "alloc (OSpawn ?u) sh") auto
    have "fresh_class (OSpawn ?u)" by (simp add: fresh_class_def)
    note A = shell_ok_alloc [OF ok this al]
    obtain w w' where w: "runtime_masked env (masked env (OSpawn ?u)) = OSpawn (?u\<lparr>m_filterFlags := w, m_runtimeFilterFlags := w'\<rparr>)"
      using masked_cases(1) by blast
    let ?u1 = "?u\<lparr>m_filterFlags := w, m_runtimeFilterFlags := w'\<rparr>"
    have u: "updateBothFlags env a sh1 = Some (put_obj a (OSpawn ?u1) sh1)"
      by (subst updateBothFlags_eq [where ob = "OSpawn ?u"]) (auto simp: w A(2))
    have ok1: "shell_ok (put_obj a (OSpawn ?u1) sh1)" using A(1,2) by (rule shell_ok_put) (simp add: same_kind_def)
    have "shell_ok (insert_item tSpawn (ucast i) a (put_obj a (OSpawn ?u1) sh1))"
      using A(3) by (intro shell_ok_insert(1) [OF ok1]) (auto simp: is_spawn_def)
    moreover have "view (insert_item tSpawn (ucast i) a (put_obj a (OSpawn ?u1) sh1)) k = view sh k" if "k \<noteq> ucast i" for k
    proof -
      have "view (put_obj a (OSpawn ?u1) sh1) k = view sh1 k"
        by (rule view_put_other [OF A(1,2), where K = "{}"]) (use A(3) in \<open>auto simp: ran_def\<close>)
      then show ?thesis using that A(7) by (simp add: view_insert)
    qed
    ultimately have "does {ucast i} (Some (insert_item tSpawn (ucast i) a (put_obj a (OSpawn ?u1) sh1), es)) sh" for es
      by (simp add: does_def)
    then have "does K (Some (insert_item tSpawn (ucast i) a (put_obj a (OSpawn ?u1) sh1), es)) sh" for es
      using k by (blast intro: does_mono)
    then show ?thesis using unknown ok
      by (simp add: updateSpawn_def p(1) al u get_obj_def insert_item_def does_return)
  qed
qed

lemma does_modify [does_rules]:
  assumes ok: "shell_ok sh" and f: "\<And>s. m_ID (f s) = m_ID s \<and> m_type (f s) = m_type s" and k: "k \<in> K"
  shows "does K (modify_spawn env k f w sh) sh"
proof (cases "sh_spawns sh k")
  case (Some a)
  obtain s where s: "sh_heap sh a = Some (OSpawn s)" using heap_class(1) [OF ok Some] by auto
  have "same_kind (OSpawn s) (OSpawn (updateLastChanged (benv env) (f s)))" using f [of s] by (simp add: same_kind_def)
  from does_put_spawn [OF ok Some s this k] show ?thesis using Some s by (simp add: modify_spawn_def Let_def)
qed (simp add: modify_spawn_def does_return ok)

lemma does_consider [does_rules]:
  assumes ok: "shell_ok sh" and k: "k \<in> K"
  shows "does K (consider_spawn k sh) sh"
proof (cases "sh_spawns sh k")
  case (Some a)
  obtain s where s: "sh_heap sh a = Some (OSpawn s)" using heap_class(1) [OF ok Some] by auto
  have "same_kind (OSpawn s) (OSpawn (s\<lparr>m_considered := True\<rparr>))" by (simp add: same_kind_def)
  from does_put_spawn [OF ok Some s this k] show ?thesis using Some s by (simp add: consider_spawn_def)
qed (simp add: consider_spawn_def does_return ok)

lemma does_wearing [does_rules]:
  assumes ok: "shell_ok sh" and len: "2 \<le> length data" and k: "\<And>i. eqtohuint16 data 0 = Some i \<Longrightarrow> ucast i \<in> K"
  shows "does K (spawnWearingUpdate env data sh) sh"
proof -
  obtain i where i: "eqtohuint16 data 0 = Some i" using eqtohuint16_Some [of 0 data] len by auto
  show ?thesis
  proof (cases "sh_spawns sh (ucast i)")
    case (Some a)
    obtain s where s: "sh_heap sh a = Some (OSpawn s)" using heap_class(1) [OF ok Some] by auto
    have u1: "updateFilterFlags env a sh = Some (masked env (OSpawn s) \<noteq> OSpawn s, put_obj a (masked env (OSpawn s)) sh)"
      using s by (intro updateFilterFlags_eq) auto
    have u2: "updateRuntimeFilterFlags env a (put_obj a (masked env (OSpawn s)) sh)
      = Some (runtime_masked env (masked env (OSpawn s)) \<noteq> masked env (OSpawn s), put_obj a (runtime_masked env (masked env (OSpawn s))) sh)"
      using filter_level_kind [of "OSpawn s" "masked env (OSpawn s)"]
      by (subst updateRuntimeFilterFlags_eq [where ob = "masked env (OSpawn s)"]) auto
    have kind: "same_kind (OSpawn s) (touch (benv env) (runtime_masked env (masked env (OSpawn s))))"
      by (rule same_kind_trans [OF flags_kind(1) same_kind_trans [OF flags_kind(2,3)]])
    show ?thesis using does_put_spawn [OF ok Some s kind k [OF i]] i Some
      by (simp add: spawnWearingUpdate_def u1 u2 get_obj_def del: put_obj_same)
  qed (simp add: spawnWearingUpdate_def i does_return ok)
qed

lemma note_dead_keep: "shell_ok sh \<Longrightarrow> shell_ok (note_dead k sh)" "view (note_dead k sh) j = view sh j"
  by (auto simp: note_dead_def Let_def shell_ok_def store_ok_def dead_ok_def MAX_DEAD_SPAWNIDS_def intro!: view_cong)

lemma does_kill [does_rules]:
  assumes ok: "shell_ok sh" and d: "read_corpse data = Some d" and k: "ucast (nc_spawnId d) \<in> K"
  shows "does K (killSpawn env data sh) sh"
proof -
  obtain p where p: "get_player sh = Some p" "sh_heap sh player_ptr = Some (OPlayer p)" using get_player_ok [OF ok] by auto
  have main: "does K (do { sh1 \<leftarrow> (if nc_killerId d = m_ID p then note_kill a sh else Some sh);
         sh2 \<leftarrow> on_spawn spawn_kill spawn_kill a sh1; sh3 \<leftarrow> updateBothFlags env a sh2; sh4 \<leftarrow> on_spawn corpse_name corpse_name a sh3;
         ob \<leftarrow> get_obj sh4 a;
         Some (sh4, [EKillSpawn a ob (sh_spawns sh4 (ucast (nc_killerId d))) (nc_killerId d)]) }) sh"
    if a: "a = player_ptr \<or> sh_spawns sh (ucast (nc_spawnId d)) = Some a" for a
  proof -
    obtain sh1 where sh1: "(if nc_killerId d = m_ID p then note_kill a sh else Some sh) = Some sh1" "shell_ok sh1"
      "\<And>j. view sh1 j = view sh j" "sh_spawns sh1 = sh_spawns sh"
    proof (cases "nc_killerId d = m_ID p")
      case True
      from a consider (player) "sh_heap sh a = Some (OPlayer p)" | (spawn) s where "sh_heap sh a = Some (OSpawn s)"
        using p(2) heap_class(1) [OF ok, of _ a] by blast
      then obtain nm lv where nk: "note_kill a sh = Some (put_obj player_ptr (OPlayer (setLastKill nm lv p)) sh)"
        by cases (auto simp: note_kill_def get_obj_def p(1))
      have "does {} (Some (put_obj player_ptr (OPlayer (setLastKill nm lv p)) sh, [] :: shell_event list)) sh"
        by (rule does_put_player [OF ok p(2)]) (simp add: setLastKill_def)
      then show ?thesis using nk True
        by (intro that [of "put_obj player_ptr (OPlayer (setLastKill nm lv p)) sh"]) (auto simp: does_def)
    qed (use ok that in auto)
    show ?thesis
    proof (cases "a = player_ptr")
      case True
      obtain q where q: "sh_heap sh1 player_ptr = Some (OPlayer q)" using get_player_ok [OF sh1(2)] by auto
      obtain w w' where w: "runtime_masked env (masked env (OPlayer (spawn_kill q))) = OPlayer ((spawn_kill q)\<lparr>m_filterFlags := w, m_runtimeFilterFlags := w'\<rparr>)"
        using masked_cases(2) by blast
      have u: "updateBothFlags env a (put_obj a (OPlayer (spawn_kill q)) sh1)
        = Some (put_obj a (OPlayer ((spawn_kill q)\<lparr>m_filterFlags := w, m_runtimeFilterFlags := w'\<rparr>)) sh1)"
        by (subst updateBothFlags_eq [where ob = "OPlayer (spawn_kill q)"]) (auto simp: w)
      let ?q = "corpse_name ((spawn_kill q)\<lparr>m_filterFlags := w, m_runtimeFilterFlags := w'\<rparr>)"
      have "does K (Some (put_obj player_ptr (OPlayer ?q) sh1, es)) sh1" for es
        by (rule does_put_player [OF sh1(2) q]) simp
      then show ?thesis using True q sh1 u
        by (simp add: on_spawn_def get_obj_def does_def del: put_obj_same)
    next
      case False
      then have a': "sh_spawns sh1 (ucast (nc_spawnId d)) = Some a" using a sh1(4) by simp
      obtain q where q: "sh_heap sh1 a = Some (OSpawn q)" using heap_class(1) [OF sh1(2) a'] by auto
      obtain w w' where w: "runtime_masked env (masked env (OSpawn (spawn_kill q))) = OSpawn ((spawn_kill q)\<lparr>m_filterFlags := w, m_runtimeFilterFlags := w'\<rparr>)"
        using masked_cases(1) by blast
      have u: "updateBothFlags env a (put_obj a (OSpawn (spawn_kill q)) sh1)
        = Some (put_obj a (OSpawn ((spawn_kill q)\<lparr>m_filterFlags := w, m_runtimeFilterFlags := w'\<rparr>)) sh1)"
        by (subst updateBothFlags_eq [where ob = "OSpawn (spawn_kill q)"]) (auto simp: w)
      let ?q = "corpse_name ((spawn_kill q)\<lparr>m_filterFlags := w, m_runtimeFilterFlags := w'\<rparr>)"
      have "does K (Some (put_obj a (OSpawn ?q) sh1, es)) sh1" for es
        by (rule does_put_spawn [OF sh1(2) a' q _ k]) (simp add: same_kind_def)
      then show ?thesis using q sh1 u
        by (simp add: on_spawn_def get_obj_def does_def del: put_obj_same)
    qed
  qed
  show ?thesis
  proof (cases "if nc_spawnId d \<noteq> m_ID p then sh_spawns sh (ucast (nc_spawnId d)) else Some player_ptr")
    case (Some a)
    then have "a = player_ptr \<or> sh_spawns sh (ucast (nc_spawnId d)) = Some a" by (simp split: if_splits)
    from main [OF this] show ?thesis by (simp only: killSpawn_def d p(1) Some bind.simps option.case)
  next
    case None
    then show ?thesis by (simp only: killSpawn_def d p(1) bind.simps option.case does_return [OF ok])
  qed
qed

section \<open>The loops over a map\<close>

text \<open>A loop over live objects whose body only replaces the object it is given.\<close>

definition live_in :: "ptr list \<Rightarrow> SpawnShell \<Rightarrow> bool" where
  "live_in as sh \<longleftrightarrow> shell_ok sh \<and> (\<forall>a \<in> set as. sh_heap sh a \<noteq> None)"

definition replaces :: "(ptr \<Rightarrow> SpawnShell \<Rightarrow> (SpawnShell \<times> shell_event list) option) \<Rightarrow> bool" where
  "replaces f \<longleftrightarrow> (\<forall>a sh ob. shell_ok sh \<longrightarrow> sh_heap sh a = Some ob \<longrightarrow>
     (\<exists>ob' es. f a sh = Some (put_obj a ob' sh, es) \<and> same_kind ob ob'))"

lemma each_replaces:
  assumes "replaces f"
  shows "shell_ok sh \<Longrightarrow> (\<forall>a \<in> set as. sh_heap sh a \<noteq> None) \<Longrightarrow>
    \<exists>sh' es. each f as sh = Some (sh', es) \<and> shell_ok sh' \<and> sh_spawns sh' = sh_spawns sh \<and> sh_drops sh' = sh_drops sh
      \<and> sh_doors sh' = sh_doors sh \<and> sh_players sh' = sh_players sh \<and> dom (sh_heap sh') = dom (sh_heap sh)"
proof (induction as arbitrary: sh)
  case (Cons a as)
  obtain ob where ob: "sh_heap sh a = Some ob" using Cons.prems(2) by auto
  obtain ob' es where f: "f a sh = Some (put_obj a ob' sh, es)" "same_kind ob ob'"
    using assms Cons.prems(1) ob unfolding replaces_def by blast
  have ok: "shell_ok (put_obj a ob' sh)" by (rule shell_ok_put [OF Cons.prems(1) ob f(2)])
  have live: "\<forall>b \<in> set as. sh_heap (put_obj a ob' sh) b \<noteq> None" using Cons.prems(2) by simp
  have d: "dom (sh_heap (put_obj a ob' sh)) = dom (sh_heap sh)" using ob by auto
  from Cons.IH [OF ok live] show ?case using f(1) d by fastforce
qed simp

lemma replaces_items: "replaces (refilter_item env)" "replaces (refilter_item_runtime env)"
proof -
  have "\<exists>ob' es. refilter_item env a sh = Some (put_obj a ob' sh, es) \<and> same_kind ob ob'"
    if "shell_ok sh" "sh_heap sh a = Some ob" for a sh ob
  proof -
    have "updateFilterFlags env a sh = Some (masked env ob \<noteq> ob, put_obj a (masked env ob) sh)"
      using that live_level by (intro updateFilterFlags_eq) auto
    moreover have "same_kind ob (touch (benv env) (masked env ob))" by (rule same_kind_trans [OF flags_kind(1,3)])
    ultimately show ?thesis using flags_kind(1) by (auto simp: refilter_item_def get_obj_def simp del: put_obj_same)
  qed
  then show "replaces (refilter_item env)" by (simp add: replaces_def)
  have "\<exists>ob' es. refilter_item_runtime env a sh = Some (put_obj a ob' sh, es) \<and> same_kind ob ob'"
    if "shell_ok sh" "sh_heap sh a = Some ob" for a sh ob
  proof -
    have "updateRuntimeFilterFlags env a sh = Some (runtime_masked env ob \<noteq> ob, put_obj a (runtime_masked env ob) sh)"
      using that live_level by (intro updateRuntimeFilterFlags_eq) auto
    moreover have "same_kind ob (touch (benv env) (runtime_masked env ob))" by (rule same_kind_trans [OF flags_kind(2,3)])
    ultimately show ?thesis using flags_kind(2) by (auto simp: refilter_item_runtime_def get_obj_def simp del: put_obj_same)
  qed
  then show "replaces (refilter_item_runtime env)" by (simp add: replaces_def)
qed

lemma ptrs_eq: "order_ok env \<Longrightarrow> set (ptrs env mp) = ran mp"
  by (force simp: order_ok_def ptrs_def ran_def image_iff)

lemma ptrs_distinct: "order_ok env \<Longrightarrow> inj_on mp (dom mp) \<Longrightarrow> distinct (ptrs env mp)"
  unfolding order_ok_def ptrs_def distinct_map by (auto simp: inj_on_def dom_def)

lemma map_live: "order_ok env \<Longrightarrow> shell_ok sh \<Longrightarrow> t \<noteq> tUnknown \<Longrightarrow> a \<in> set (ptrs env (getMap t sh)) \<Longrightarrow> sh_heap sh a \<noteq> None"
  using heap_class [of sh] get_player_ok [of sh] by (cases t) (fastforce simp: ptrs_eq ran_def)+

lemma each_does:
  assumes "replaces f" "order_ok env" "shell_ok sh" "t \<noteq> tUnknown"
  shows "does UNIV (each f (ptrs env (getMap t sh)) sh) sh"
  using each_replaces [OF assms(1,3)] map_live [OF assms(2,3,4)] by (fastforce simp: does_def)

lemma does_each3:
  assumes "replaces f" "order_ok env" "shell_ok sh"
  shows "does UNIV (do { (sh1, e1) \<leftarrow> each f (ptrs env (getMap tSpawn sh)) sh; (sh2, e2) \<leftarrow> each f (ptrs env (getMap tDrop sh1)) sh1;
     (sh3, e3) \<leftarrow> each f (ptrs env (getMap tDoors sh2)) sh2; Some (sh3, e1 @ e2 @ e3) }) sh"
proof (rule does_bind [OF each_does [OF assms]])
  show "tSpawn \<noteq> tUnknown" by simp
  fix sh1 e1 assume ok1: "shell_ok sh1"
  show "does UNIV (do { (sh2, e2) \<leftarrow> each f (ptrs env (getMap tDrop sh1)) sh1;
     (sh3, e3) \<leftarrow> each f (ptrs env (getMap tDoors sh2)) sh2; Some (sh3, e1 @ e2 @ e3) }) sh1"
  proof (rule does_bind [OF each_does [OF assms(1,2) ok1]])
    fix sh2 e2 assume ok2: "shell_ok sh2"
    show "does UNIV (do { (sh3, e3) \<leftarrow> each f (ptrs env (getMap tDoors sh2)) sh2; Some (sh3, e1 @ e2 @ e3) }) sh2"
      by (rule does_bind [OF each_does [OF assms(1,2) ok2]]) (auto intro: does_return)
  qed simp
qed

lemma does_refilter: "order_ok env \<Longrightarrow> shell_ok sh \<Longrightarrow> does UNIV (refilterSpawns env sh) sh"
    "order_ok env \<Longrightarrow> shell_ok sh \<Longrightarrow> does UNIV (refilterSpawnsRuntime env sh) sh"
  using does_each3 [OF replaces_items(1)] does_each3 [OF replaces_items(2)]
  by (simp_all add: refilterSpawns_def refilterSpawnsRuntime_def)

text \<open>Guild tags.\<close>

lemma tag_item_put:
  assumes "sh_heap sh a = Some ob" "\<And>d. ob \<noteq> ODoor d" "\<And>d. ob \<noteq> ODrop d"
  shows "\<exists>ob' es. tag_item env g a sh = Some (put_obj a ob' sh, es) \<and> same_kind ob ob'
    \<and> (\<forall>d. ob' \<noteq> ODoor d) \<and> (\<forall>d. ob' \<noteq> ODrop d)"
proof (cases ob)
  case (OSpawn s)
  show ?thesis
  proof (cases "g = ucast (m_guildID s)")
    case False
    then show ?thesis using OSpawn assms(1) by (intro exI [of _ ob]) (simp add: tag_item_def get_obj_def)
  qed (use OSpawn assms(1) in \<open>auto simp: tag_item_def get_obj_def on_spawn_def same_kind_def simp del: put_obj_same\<close>)
next
  case (OPlayer p)
  show ?thesis
  proof (cases "g = ucast (m_guildID p)")
    case False
    then show ?thesis using OPlayer assms(1) by (intro exI [of _ ob]) (simp add: tag_item_def get_obj_def)
  qed (use OPlayer assms(1) in \<open>auto simp: tag_item_def get_obj_def on_spawn_def same_kind_def simp del: put_obj_same\<close>)
qed (use assms in auto)

definition castable :: "ptr list \<Rightarrow> SpawnShell \<Rightarrow> bool" where
  "castable as sh \<longleftrightarrow> (\<forall>a \<in> set as. \<exists>ob. sh_heap sh a = Some ob \<and> (\<forall>d. ob \<noteq> ODoor d) \<and> (\<forall>d. ob \<noteq> ODrop d))"

lemma each_tag: "shell_ok sh \<Longrightarrow> castable as sh \<Longrightarrow> does UNIV (each (tag_item env g) as sh) sh"
proof (induction as arbitrary: sh)
  case (Cons a as)
  obtain ob where ob: "sh_heap sh a = Some ob" "\<And>d. ob \<noteq> ODoor d" "\<And>d. ob \<noteq> ODrop d" using Cons.prems(2) by (auto simp: castable_def)
  from tag_item_put [OF this] obtain ob' es where f: "tag_item env g a sh = Some (put_obj a ob' sh, es)" "same_kind ob ob'"
    "\<forall>d. ob' \<noteq> ODoor d" "\<forall>d. ob' \<noteq> ODrop d" by blast
  have ok: "shell_ok (put_obj a ob' sh)" by (rule shell_ok_put [OF Cons.prems(1) ob(1) f(2)])
  have "castable as (put_obj a ob' sh)" using Cons.prems(2) f(3,4) by (auto simp: castable_def)
  from Cons.IH [OF ok this] show ?case using f(1) by (auto simp: does_def)
qed (simp add: does_return)

lemma castable_maps: "order_ok env \<Longrightarrow> shell_ok sh \<Longrightarrow> castable (ptrs env (sh_spawns sh)) sh"
    "order_ok env \<Longrightarrow> shell_ok sh \<Longrightarrow> castable (ptrs env (sh_players sh)) sh"
  using heap_class [of sh] get_player_ok [of sh] by (fastforce simp: castable_def ptrs_eq ran_def)+

lemma does_updateGuildTag: "order_ok env \<Longrightarrow> shell_ok sh \<Longrightarrow> does UNIV (updateGuildTag env g sh) sh"
  unfolding updateGuildTag_def
proof (rule does_bind)
  assume o: "order_ok env" and ok: "shell_ok sh"
  show "does UNIV (each (tag_item env g) (ptrs env (sh_spawns sh)) sh) sh" by (rule each_tag [OF ok castable_maps(1) [OF o ok]])
  fix sh1 e1 assume ok1: "shell_ok sh1"
  show "does UNIV (do { (sh2, e2) \<leftarrow> each (tag_item env g) (ptrs env (sh_players sh1)) sh1; Some (sh2, e1 @ e2) }) sh1"
    by (rule does_bind [OF each_tag [OF ok1 castable_maps(2) [OF o ok1]]]) (simp add: does_return)
qed

section \<open>Clearing\<close>

lemma delete_all_Some:
  "distinct as \<Longrightarrow> (\<forall>a \<in> set as. hp a \<noteq> None) \<Longrightarrow> delete_all as hp = Some (\<lambda>a. if a \<in> set as then None else hp a)"
proof (induction as arbitrary: hp)
  case (Cons a as)
  have "delete_all as (hp(a := None)) = Some (\<lambda>b. if b \<in> set as then None else (hp(a := None)) b)"
    using Cons by (intro Cons.IH) auto
  moreover have "(\<lambda>b. if b \<in> set as then None else (hp(a := None)) b) = (\<lambda>b. if b \<in> set (a # as) then None else hp b)"
    by (rule ext) auto
  ultimately show ?case using Cons.prems(2) by simp
qed (simp add: fun_eq_iff)

text \<open>What is left of the store after \<open>clear\<close>.\<close>

definition cleared_heap :: "SpawnShell \<Rightarrow> ptr \<Rightarrow> obj option" where
  "cleared_heap sh a = (if a \<in> ran (sh_spawns sh) \<union> ran (sh_doors sh) \<union> ran (sh_drops sh) then None else sh_heap sh a)"

lemma shell_clear_eq:
  assumes o: "order_ok env" and ok: "shell_ok sh" and p: "get_player sh = Some p"
  shows "shell_clear env sh = Some (sh\<lparr>sh_heap := cleared_heap sh, sh_spawns := Map.empty, sh_doors := Map.empty,
     sh_drops := Map.empty, sh_players := [0 \<mapsto> player_ptr], sh_cntDead := 0, sh_posDead := 0,
     sh_deadID := replicate MAX_DEAD_SPAWNIDS 0\<rparr>, [EClearItems, EChangeItem player_ptr (OPlayer p) tSpawnChangedALL])"
proof -
  have dis: "distinct (ptrs env (sh_spawns sh))" "distinct (ptrs env (sh_doors sh))" "distinct (ptrs env (sh_drops sh))"
    using ok by (auto intro!: ptrs_distinct [OF o] simp: shell_ok_def map_ok_def)
  note live = map_live [OF o ok, of tSpawn, simplified] map_live [OF o ok, of tDoors, simplified] map_live [OF o ok, of tDrop, simplified]
  note cl = map_classes [OF ok]
  let ?h1 = "\<lambda>a. if a \<in> ran (sh_spawns sh) then None else sh_heap sh a"
  let ?h2 = "\<lambda>a. if a \<in> ran (sh_doors sh) then None else ?h1 a"
  have 1: "delete_all (ptrs env (sh_spawns sh)) (sh_heap sh) = Some ?h1"
    using delete_all_Some [OF dis(1)] live(1) by (simp add: ptrs_eq [OF o])
  have 2: "delete_all (ptrs env (sh_doors sh)) ?h1 = Some ?h2"
    using delete_all_Some [OF dis(2), of ?h1] live(2) cl(2) by (fastforce simp: ptrs_eq [OF o] ran_def)
  have 3: "delete_all (ptrs env (sh_drops sh)) ?h2 = Some (\<lambda>a. if a \<in> ran (sh_drops sh) then None else ?h2 a)"
    using delete_all_Some [OF dis(3), of ?h2] live(3) cl(1,3) by (fastforce simp: ptrs_eq [OF o] ran_def)
  have 4: "(\<lambda>a. if a \<in> ran (sh_drops sh) then None else ?h2 a) = cleared_heap sh"
    by (rule ext) (simp add: cleared_heap_def)
  have "player_ptr \<notin> ran (sh_spawns sh) \<union> ran (sh_doors sh) \<union> ran (sh_drops sh)"
    using heap_class [OF ok] get_player_ok [OF ok] by (fastforce simp: ran_def)
  then have 5: "cleared_heap sh player_ptr = sh_heap sh player_ptr" by (simp add: cleared_heap_def)
  show ?thesis using p by (simp add: shell_clear_def 1 2 3 [unfolded 4] get_player_def 5 Let_def)
qed

lemma does_clear: "order_ok env \<Longrightarrow> shell_ok sh \<Longrightarrow> does UNIV (shell_clear env sh) sh"
proof -
  assume o: "order_ok env" and ok: "shell_ok sh"
  obtain p where p: "get_player sh = Some p" "sh_heap sh player_ptr = Some (OPlayer p)" using get_player_ok [OF ok] by auto
  have "player_ptr \<notin> ran (sh_spawns sh) \<union> ran (sh_doors sh) \<union> ran (sh_drops sh)"
    using heap_class [OF ok] p(2) by (fastforce simp: ran_def)
  then have "cleared_heap sh player_ptr = sh_heap sh player_ptr" by (simp add: cleared_heap_def)
  moreover have sub: "cleared_heap sh a = Some ob \<Longrightarrow> sh_heap sh a = Some ob" for a ob by (auto simp: cleared_heap_def split: if_splits)
  moreover have "sh_heap sh a = None \<Longrightarrow> cleared_heap sh a = None" for a by (simp add: cleared_heap_def)
  ultimately show ?thesis using ok p
    by (auto simp: does_def shell_clear_eq [OF o ok p(1)] shell_ok_def store_ok_def dead_ok_def map_ok_def MAX_DEAD_SPAWNIDS_def
        dest!: sub)
qed

end
