(* ===== verification/SpawnShellProps.thy ===== *)
theory SpawnShellProps
  imports SpawnShellInv
begin

text \<open>
  The properties of the spawn shell. A packet is given with what the shell is told at that moment
  (\<open>shell_env\<close>); \<open>accepted\<close> says what the size checks of the dispatcher and a sane sender guarantee:
  the structures fit, the names in them end, and the coordinates of doors and drops are numbers
  that fit the integers they are converted to.
\<close>

datatype shell_packet = PGroundItem bytes u8 | PRemoveGround bytes u8 | PDoors bytes | PZoneSpawns bytes | PZoneEntry bytes
  | PNewSpawn bytes | PPosition2 bytes | PPosition bytes u8 | PMobUpdate bytes | PIllusion bytes | PAppearance bytes | PHP bytes
  | PWearing bytes | PConsider bytes u8 | PTarget bytes | PDelete bytes | PDeath bytes | PPlayerID u16 | PGuildTag u32
  | PRefilter | PRefilterRuntime | PZone

fun shell_step :: "shell_env \<times> shell_packet \<Rightarrow> SpawnShell \<Rightarrow> (SpawnShell \<times> shell_event list) option" where
  "shell_step (env, PGroundItem data dir) sh = newGroundItem env data (length data) dir sh"
| "shell_step (env, PRemoveGround data dir) sh = removeGroundItem env data dir sh"
| "shell_step (env, PDoors data) sh = newDoorSpawns env data (length data) sh"
| "shell_step (env, PZoneSpawns data) sh = zoneSpawns env data (length data) sh"
| "shell_step (env, PZoneEntry data) sh = zoneEntry env data (length data) sh"
| "shell_step (env, PNewSpawn data) sh = newSpawn_packet env data sh"
| "shell_step (env, PPosition2 data) sh = playerUpdate2 env data sh"
| "shell_step (env, PPosition data dir) sh = playerUpdate env data dir sh"
| "shell_step (env, PMobUpdate data) sh = updateSpawns env data (length data) sh"
| "shell_step (env, PIllusion data) sh = illusionSpawn env data sh"
| "shell_step (env, PAppearance data) sh = updateSpawnAppearance env data sh"
| "shell_step (env, PHP data) sh = updateNpcHP env data sh"
| "shell_step (env, PWearing data) sh = spawnWearingUpdate env data sh"
| "shell_step (env, PConsider data dir) sh = consMessage data dir sh"
| "shell_step (env, PTarget data) sh = clientTarget data sh"
| "shell_step (env, PDelete data) sh = deleteSpawn env data sh"
| "shell_step (env, PDeath data) sh = killSpawn env data sh"
| "shell_step (env, PPlayerID k) sh = setPlayerID env k sh"
| "shell_step (env, PGuildTag g) sh = updateGuildTag env g sh"
| "shell_step (env, PRefilter) sh = refilterSpawns env sh"
| "shell_step (env, PRefilterRuntime) sh = refilterSpawnsRuntime env sh"
| "shell_step (env, PZone) sh = shell_clear env sh"

definition structs_of :: "(bytes \<Rightarrow> nat \<Rightarrow> 'r option) \<Rightarrow> nat \<Rightarrow> nat \<Rightarrow> bytes \<Rightarrow> 'r set" where
  "structs_of rd sz i data = {r. \<exists>j < (length data - i) div sz. rd data (i + j * sz) = Some r}"

fun packet_ok :: "shell_env \<Rightarrow> shell_packet \<Rightarrow> bool" where
  "packet_ok env (PGroundItem data dir) = (\<exists>ds. read_makeDrop env data (length data) = Some ds \<and> drop_ok ds)"
| "packet_ok env (PRemoveGround data dir) = (4 \<le> length data)"
| "packet_ok env (PDoors data) = (\<forall>d \<in> structs_of read_doorStruct sizeof_doorStruct 0 data. door_ok d)"
| "packet_ok env (PZoneSpawns data) = (\<forall>s \<in> structs_of read_spawnStruct sizeof_spawnStruct 0 data. named_struct s)"
| "packet_ok env (PZoneEntry data) = (\<forall>s. fillSpawnStruct data (length data) = Some s \<longrightarrow> named_struct s)"
| "packet_ok env (PNewSpawn data) = (\<exists>s. read_spawnStruct data 0 = Some s \<and> named_struct s)"
| "packet_ok env (PPosition2 data) = (sizeof_spawnPositionUpdate \<le> length data)"
| "packet_ok env (PPosition data dir) = (sizeof_spawnPositionUpdate \<le> length data)"
| "packet_ok env (PIllusion data) = (332 \<le> length data)"
| "packet_ok env (PAppearance data) = (8 \<le> length data)"
| "packet_ok env (PHP data) = (12 \<le> length data)"
| "packet_ok env (PWearing data) = (14 \<le> length data)"
| "packet_ok env (PConsider data dir) = (24 \<le> length data)"
| "packet_ok env (PTarget data) = (2 \<le> length data)"
| "packet_ok env (PDelete data) = (2 \<le> length data)"
| "packet_ok env (PDeath data) = (20 \<le> length data)"
| "packet_ok env _ = True"

definition accepted :: "shell_env \<times> shell_packet \<Rightarrow> bool" where
  "accepted ep \<longleftrightarrow> order_ok (fst ep) \<and> packet_ok (fst ep) (snd ep)"

text \<open>The spawns a packet speaks of.\<close>

fun packet_ids :: "shell_packet \<Rightarrow> u32 set" where
  "packet_ids (PZoneSpawns data) = (\<lambda>s. ucast (s_spawnId s)) ` structs_of read_spawnStruct sizeof_spawnStruct 0 data"
| "packet_ids (PZoneEntry data) = {ucast (s_spawnId s) | s. fillSpawnStruct data (length data) = Some s}"
| "packet_ids (PNewSpawn data) = {ucast (s_spawnId s) | s. read_spawnStruct data 0 = Some s}"
| "packet_ids (PPosition2 data) = {ucast (u_spawnId u) | u. read_positionUpdate data 0 = Some u}"
| "packet_ids (PPosition data dir) = {ucast (u_spawnId u) | u. read_positionUpdate data 0 = Some u}"
| "packet_ids (PMobUpdate data) = (\<lambda>u. ucast (u_spawnId u)) ` structs_of read_positionUpdate sizeof_spawnPositionUpdate 4 data"
| "packet_ids (PIllusion data) = {il_spawnId i | i. read_illusion data = Some i}"
| "packet_ids (PAppearance data) = {ucast (ap_spawnId i) | i. read_appearance data = Some i}"
| "packet_ids (PHP data) = {hp_spawnId i | i. read_hpUpdate data = Some i}"
| "packet_ids (PWearing data) = {ucast k | k. eqtohuint16 data 0 = Some k}"
| "packet_ids (PConsider data dir) = {ucast (con_targetid c) | c. read_consider data = Some c}"
| "packet_ids (PDelete data) = {ucast k | k. eqtohuint16 data 0 = Some k}"
| "packet_ids (PDeath data) = {ucast (nc_spawnId d) | d. read_corpse data = Some d}"
| "packet_ids (PPlayerID k) = {ucast k}"
| "packet_ids (PGuildTag g) = UNIV"
| "packet_ids PRefilter = UNIV"
| "packet_ids PRefilterRuntime = UNIV"
| "packet_ids PZone = UNIV"
| "packet_ids _ = {}"

definition names_of :: "shell_env \<times> shell_packet \<Rightarrow> u32 set" where "names_of ep = packet_ids (snd ep)"

section \<open>Every accepted packet is handled\<close>

lemma read_struct_Some:
  "i + sizeof_spawnStruct \<le> length data \<Longrightarrow> \<exists>s. read_spawnStruct data i = Some s"
  "i + sizeof_spawnPositionUpdate \<le> length data \<Longrightarrow> \<exists>u. read_positionUpdate data i = Some u"
  "i + sizeof_doorStruct \<le> length data \<Longrightarrow> \<exists>d. read_doorStruct data i = Some d"
  by (auto simp: read_spawnStruct_def read_positionUpdate_def read_doorStruct_def rd_range_Some Let_def)

lemma array_end: "j < (n - i) div sz \<Longrightarrow> i + j * sz + sz \<le> (n :: nat)"
proof -
  assume j: "j < (n - i) div sz"
  then have "(j + 1) * sz \<le> ((n - i) div sz) * sz" by (intro mult_le_mono1) simp
  also have "\<dots> \<le> n - i" by simp
  finally show ?thesis using j by (cases "i \<le> n") auto
qed

lemma does_array:
  assumes "\<And>i. i + sz \<le> length data \<Longrightarrow> \<exists>r. rd data i = Some r" "n \<le> (length data - i) div sz"
    and "\<And>r. r \<in> structs_of rd sz i data \<Longrightarrow> Q r" "\<And>r sh. r \<in> structs_of rd sz i data \<Longrightarrow> Q r \<Longrightarrow> shell_ok sh \<Longrightarrow> does K (f r sh) sh"
    and "shell_ok sh"
  shows "does K (over_array rd f sz n i data sh) sh"
proof (rule does_over_array [where Q = "\<lambda>r. r \<in> structs_of rd sz i data \<and> Q r"])
  fix j assume "j < n"
  then have j: "j < (length data - i) div sz" using assms(2) by simp
  obtain r where "rd data (i + j * sz) = Some r" using assms(1) array_end [OF j] by blast
  then show "\<exists>r. rd data (i + j * sz) = Some r \<and> r \<in> structs_of rd sz i data \<and> Q r"
    using j assms(3) unfolding structs_of_def by blast
qed (use assms(4,5) in auto)

lemma does_newSpawn_packet:
  assumes "shell_ok sh" "read_spawnStruct data 0 = Some s" "named_struct s" "ucast (s_spawnId s) \<in> K"
  shows "does K (newSpawn_packet env data sh) sh"
  using assms by (simp add: newSpawn_packet_def does_return does_newSpawn)

lemma does_updateSpawns:
  assumes "shell_ok sh"
  shows "does ((\<lambda>u. ucast (u_spawnId u)) ` structs_of read_positionUpdate sizeof_spawnPositionUpdate 4 data) (updateSpawns env data (length data) sh) sh"
proof (cases "h_isZoning env \<or> length data < 4")
  case False
  then obtain n where n: "eqtohint32 data 0 = Some n" by (auto simp: eqtohint32_def rd_range_Some)
  let ?n = "min (nat n) ((length data - 4) div sizeof_spawnPositionUpdate)"
  have "does ((\<lambda>u. ucast (u_spawnId u)) ` structs_of read_positionUpdate sizeof_spawnPositionUpdate 4 data)
     (over_array read_positionUpdate (update_still env) sizeof_spawnPositionUpdate ?n 4 data sh) sh"
    using read_struct_Some(2) assms
    by (intro does_array [where Q = "\<lambda>_. True"]) (auto simp: update_still_def intro: does_updateSpawn)
  then show ?thesis using False n by (simp add: updateSpawns_def Let_def)
qed (simp add: updateSpawns_def does_return assms)

lemma shell_step_does: "shell_ok sh \<Longrightarrow> accepted ep \<Longrightarrow> does (names_of ep) (shell_step ep sh) sh"
proof -
  assume ok: "shell_ok sh" and acc: "accepted ep"
  obtain env p where ep: "ep = (env, p)" by (cases ep)
  have o: "order_ok env" and w: "packet_ok env p" using acc by (auto simp: ep accepted_def)
  show ?thesis
  proof (cases p)
    case (PGroundItem data dir)
    then obtain ds where "read_makeDrop env data (length data) = Some ds" "drop_ok ds" using w by auto
    then show ?thesis using PGroundItem ok by (auto simp: ep names_of_def newGroundItem_def does_return does_put_drop)
  next
    case (PRemoveGround data dir)
    then show ?thesis using w ok
      by (auto simp: ep names_of_def removeGroundItem_def eqtohuint32_Some intro: does_return does_delete)
  next
    case (PDoors data)
    then show ?thesis using w ok read_struct_Some(3) unfolding ep names_of_def
      by (auto simp: newDoorSpawns_def intro!: does_array [where Q = door_ok] does_newDoorSpawn)
  next
    case (PZoneSpawns data)
    then show ?thesis using w ok read_struct_Some(1) unfolding ep names_of_def
      by (auto simp: zoneSpawns_def intro!: does_array [where Q = named_struct] does_newSpawn)
  next
    case (PZoneEntry data)
    obtain s where s: "fillSpawnStruct data (length data) = Some s"
      using read_struct_Some(1) [of 0 data] by (cases "length data < sizeof_spawnStruct") (auto simp: fillSpawnStruct_def)
    then show ?thesis using PZoneEntry w ok unfolding ep names_of_def by (auto intro!: does_zoneEntry)
  next
    case (PNewSpawn data)
    then show ?thesis using w ok unfolding ep names_of_def by (auto intro!: does_newSpawn_packet)
  next
    case (PPosition2 data)
    then obtain u where "read_positionUpdate data 0 = Some u" using w read_struct_Some(2) [of 0 data] by auto
    then show ?thesis using PPosition2 ok unfolding ep names_of_def
      by (auto simp: playerUpdate2_def update_moving_def intro: does_return does_updateSpawn)
  next
    case (PPosition data dir)
    then obtain u where "read_positionUpdate data 0 = Some u" using w read_struct_Some(2) [of 0 data] by auto
    then show ?thesis using PPosition ok unfolding ep names_of_def
      by (auto simp: playerUpdate_def update_moving_def intro: does_return does_updateSpawn)
  next
    case (PMobUpdate data)
    then show ?thesis using does_updateSpawns [OF ok] by (simp add: ep names_of_def)
  next
    case (PIllusion data)
    then show ?thesis using w ok unfolding ep names_of_def
      by (auto simp: illusionSpawn_def read_illusion_def rd_range_Some intro!: does_modify)
  next
    case (PAppearance data)
    then show ?thesis using w ok unfolding ep names_of_def
      by (auto simp: updateSpawnAppearance_def read_appearance_def rd_range_Some intro!: does_modify does_return)
  next
    case (PHP data)
    then show ?thesis using w ok unfolding ep names_of_def
      by (auto simp: updateNpcHP_def read_hpUpdate_def rd_range_Some intro!: does_modify)
  next
    case (PWearing data)
    then show ?thesis using w ok unfolding ep names_of_def by (auto intro!: does_wearing)
  next
    case (PConsider data dir)
    then show ?thesis using w ok unfolding ep names_of_def
      by (auto simp: consMessage_def read_consider_def rd_range_Some intro!: does_consider does_return)
  next
    case (PTarget data)
    then show ?thesis using w ok unfolding ep names_of_def
      by (auto simp: clientTarget_def eqtohuint16_Some intro!: does_return)
  next
    case (PDelete data)
    then obtain k where k: "eqtohuint16 data 0 = Some k" using w by (auto simp: eqtohuint16_Some)
    have "does {ucast k} (deleteItem env tSpawn (ucast k) (note_dead k sh)) (note_dead k sh)"
      using note_dead_keep(1) [OF ok] by (rule does_delete) auto
    then have "does {ucast k} (deleteItem env tSpawn (ucast k) (note_dead k sh)) sh"
      by (rule does_view) (simp add: note_dead_keep)
    then show ?thesis using PDelete k by (simp add: ep names_of_def deleteSpawn_def)
  next
    case (PDeath data)
    then obtain d where "read_corpse data = Some d" using w by (auto simp: read_corpse_def rd_range_Some)
    then show ?thesis using PDeath ok unfolding ep names_of_def by (auto intro!: does_kill)
  qed (use ok o in \<open>auto simp: ep names_of_def intro: does_setPlayerID does_updateGuildTag does_refilter does_clear\<close>)
qed

interpretation shell: framed_machine shell_step shell_ok accepted view names_of
proof unfold_locales
  show "\<exists>s' es. shell_step p s = Some (s', es) \<and> shell_ok s'" if "shell_ok s" "accepted p" for s p
    using shell_step_does [OF that] by (auto simp: does_def)
  show "view s' k = view s k" if "shell_ok s" "accepted p" "shell_step p s = Some (s', es)" "k \<notin> names_of p" for s p s' es k
    using shell_step_does [OF that(1,2)] that(3,4) by (auto simp: does_def)
qed

section \<open>No packet makes the shell fault\<close>

lemma shell_ok_new: "m_type p = tSpawn \<Longrightarrow> shell_ok (new_SpawnShell p)"
  by (auto simp: shell_ok_def new_SpawnShell_def store_ok_def dead_ok_def map_ok_def player_ptr_def MAX_DEAD_SPAWNIDS_def
      split: if_splits)

text \<open>C3: Whatever accepted packets arrive, in whatever order and however often the zone, the filters and
  the player's id change in between, the spawn shell never follows a dead pointer, never deletes an
  object twice and never treats an object as one of another class; and its four maps keep pointing at
  live objects of the right class, without sharing.\<close>

theorem shell_never_faults:
  assumes "m_type p = tSpawn" "list_all accepted ps"
  shows "\<exists>sh es. run shell_step ps (new_SpawnShell p) = Some (sh, es) \<and> shell_ok sh"
  by (rule shell.run_ok [OF shell_ok_new [OF assms(1)] assms(2)])

text \<open>A surrounding to evaluate the shell in.\<close>

definition sample_env :: shell_env where
  "sample_env = \<lparr>q_msec = 0, q_time = 0, q_utf8 = map latin1, q_toInt = (\<lambda>_. 0), t_race = (\<lambda>_. None), t_type = (\<lambda>_. None),
     t_item = (\<lambda>_ _. None), t_class = (\<lambda>_. []), h_order = (\<lambda>mp. sorted_list_of_set (dom mp)), h_filterMask = (\<lambda>_ _. 0),
     h_runtimeMask = (\<lambda>_ _. 0), h_guildName = (\<lambda>_ _. []), h_isZoning = False, h_walkpathrecord = False, h_walkpathlength = 0,
     h_createUnknownSpawns = True\<rparr>"

lemma sample_order: "order_ok sample_env"
  by (simp add: order_ok_def sample_env_def)

text \<open>The packet of a spawn with an id below 256 and a kind, and a name.\<close>

definition sample_spawn :: "u8 \<Rightarrow> u8 \<Rightarrow> bytes \<Rightarrow> bytes" where
  "sample_spawn i npc name = replicate 76 0 @ [i, 0] @ replicate 8 0 @ [npc] @ replicate 40 0 @ name @ replicate (97 - length name) 0"

lemma sample_spawn_struct:
  assumes "length name \<le> 63" "0 \<notin> set name"
  shows "read_spawnStruct (sample_spawn i npc name) 0 = Some (spawn_fields (sample_spawn i npc name))"
    "named_struct (spawn_fields (sample_spawn i npc name))" "s_spawnId (spawn_fields (sample_spawn i npc name)) = ucast i"
    "s_NPC (spawn_fields (sample_spawn i npc name)) = npc"
    "c_str (s_name (spawn_fields (sample_spawn i npc name))) = Some name"
proof -
  have len: "length (sample_spawn i npc name) = 224" using assms(1) by (simp add: sample_spawn_def)
  then show "read_spawnStruct (sample_spawn i npc name) 0 = Some (spawn_fields (sample_spawn i npc name))"
    by (simp add: read_spawnStruct_def rd_range_Some sizeof_spawnStruct_def)
  have n: "s_name (spawn_fields (sample_spawn i npc name)) = name @ replicate (97 - length name) 0"
    by (simp add: spawn_fields_def sample_spawn_def Let_def)
  have l: "s_lastName (spawn_fields (sample_spawn i npc name)) = replicate 33 0"
    using assms(1) by (simp add: spawn_fields_def sample_spawn_def Let_def)
  show "named_struct (spawn_fields (sample_spawn i npc name))" using assms(1) by (simp add: named_struct_def n l)
  show "c_str (s_name (spawn_fields (sample_spawn i npc name))) = Some name"
  proof -
    have "\<And>x. x \<in> set name \<Longrightarrow> x \<noteq> 0" using assms(2) by auto
    then show ?thesis using assms(1) by (simp add: n c_str_terminated takeWhile_append2 takeWhile_replicate)
  qed
  have "take 2 (drop 76 (sample_spawn i npc name)) = [i, 0]" by (simp add: sample_spawn_def)
  then show "s_spawnId (spawn_fields (sample_spawn i npc name)) = ucast i" by (simp add: spawn_fields_def u16_at_def Let_def)
  show "s_NPC (spawn_fields (sample_spawn i npc name)) = npc"
    by (simp add: spawn_fields_def sample_spawn_def Let_def nth_append)
qed

definition sample_player :: Player where
  "sample_player = Spawn.Spawn.extend ((blank_spawn (benv sample_env) tSpawn 0)\<lparr>m_name := ''You'', m_NPC := SPAWN_SELF\<rparr>)
     (Player.fields ''You'' [] [] 1 396 1 1 ''unknown'' 0 False True True)"

lemma sample_player_type: "m_type sample_player = tSpawn" "m_ID sample_player = 0"
  by (simp_all add: sample_player_def Spawn.Spawn.defs Player.defs blank_spawn_def)

theorem shell_never_faults_witness:
  "\<exists>sh es. run shell_step [(sample_env, PNewSpawn (sample_spawn 7 1 [65, 66])), (sample_env, PMobUpdate [9, 9, 9, 9, 1]),
      (sample_env, PDelete [7, 0]), (sample_env, PRefilter), (sample_env, PZone)] (new_SpawnShell sample_player) = Some (sh, es) \<and> shell_ok sh"
  using sample_order sample_spawn_struct [of "[65, 66]" 7 1]
  by (intro shell_never_faults sample_player_type) (auto simp: accepted_def)

section \<open>What is announced stays until it is named again\<close>

lemma key_inj:
  assumes "(ucast (a :: u16) :: u32) = ucast b"
  shows "a = b"
proof (rule bit_word_eqI)
  fix n assume "n < LENGTH(16)"
  then show "bit a n = bit b n" using arg_cong [OF assms, of "\<lambda>w. bit w n"] by (simp add: bit_simps)
qed

lemma core_equipment_frame: "core_equipment es s = s\<lparr>m_equipment := m_equipment (core_equipment es s)\<rparr>"
proof -
  have "\<exists>e. fold (\<lambda>i. setEquipment i (material_only (es ! i))) xs s = s\<lparr>m_equipment := e\<rparr>" for xs and s :: "'a Spawn_scheme"
  proof (induction xs arbitrary: s)
    case Nil
    show ?case by (rule exI [of _ "m_equipment s"]) simp
  next
    case (Cons i xs)
    obtain e where e: "setEquipment i (material_only (es ! i)) s = s\<lparr>m_equipment := e\<rparr>"
      by (cases "i < tNumWearSlots") (auto simp: setEquipment_def intro: that [of "m_equipment s"])
    obtain e' where "fold (\<lambda>i. setEquipment i (material_only (es ! i))) xs (s\<lparr>m_equipment := e\<rparr>) = (s\<lparr>m_equipment := e\<rparr>)\<lparr>m_equipment := e'\<rparr>"
      using Cons.IH by blast
    then show ?case using e by auto
  qed
  then obtain e where "core_equipment es s = s\<lparr>m_equipment := e\<rparr>" unfolding core_equipment_def by blast
  then show ?thesis by simp
qed

text \<open>What the packet says about the spawn.\<close>

definition announced :: "shell_env \<Rightarrow> spawnStruct \<Rightarrow> Spawn \<Rightarrow> bool" where
  "announced env s sp \<longleftrightarrow> m_ID sp = s_spawnId s \<and> Some (m_name sp) = map_option (q_utf8 env) (c_str (s_name s))
     \<and> m_race sp = s_race s \<and> m_class sp = s_class s \<and> m_level sp = ucast (s_level s) \<and> m_NPC sp = npc_of s
     \<and> m_curHP sp = scast (s_curHp s) \<and> pt_x sp = signed_drop_bit 3 (s_x s) \<and> pt_y sp = signed_drop_bit 3 (s_y s)
     \<and> pt_z sp = signed_drop_bit 3 (s_z s) \<and> m_guildID sp = s_guildID s \<and> m_guildServerID sp = 0"

lemma benv_utf8 [simp]: "q_utf8 (benv env) = q_utf8 env"
  by (simp add: benv_def spawn_env.defs)

lemma core_equipment_fields [simp]:
  "m_name (core_equipment es s) = m_name s" "m_race (core_equipment es s) = m_race s" "m_class (core_equipment es s) = m_class s"
  "m_level (core_equipment es s) = m_level s" "m_curHP (core_equipment es s) = m_curHP s" "m_guildID (core_equipment es s) = m_guildID s"
  "m_guildServerID (core_equipment es s) = m_guildServerID s"
  "pt_x (core_equipment es s) = pt_x s" "pt_y (core_equipment es s) = pt_y s" "pt_z (core_equipment es s) = pt_z s"
  by (subst core_equipment_frame, simp)+

lemma spawn_update_announced:
  fixes sp sp' :: Spawn
  assumes "spawn_update (benv env) vt s sp = Some sp'" "m_ID sp = s_spawnId s"
  shows "announced env s sp'"
proof -
  have "m_ID sp' = s_spawnId s" using spawn_update_keep [OF assms(1)] assms(2) by simp
  then show ?thesis using assms(1)
    by (auto simp: announced_def spawn_update_def bind_Some_iff Let_def update_motion_def setHeading_def setDeltas_def
        setEquipment_def slot_defs setRace_def setDeity_def spawn_setPos_def item_setPos_def setPoint_def updateLast_def)
qed

lemma announced_more:
  "announced env s sp \<Longrightarrow> announced env s (set_guild_tag env (sp\<lparr>m_filterFlags := w, m_runtimeFilterFlags := w'\<rparr>))"
  "announced env s sp \<Longrightarrow> announced env s (set_guild_tag env (updateLastChanged e (sp\<lparr>m_filterFlags := w, m_runtimeFilterFlags := w'\<rparr>)))"
  by (simp_all add: announced_def set_guild_tag_def updateLastChanged_def)

lemma guild_tagged: "m_guildTag (set_guild_tag env sp) = h_guildName env (m_guildID (set_guild_tag env sp)) (m_guildServerID (set_guild_tag env sp))"
  by (simp add: set_guild_tag_def)

lemma put_spawn_view:
  assumes ok: "shell_ok sh" and s: "named_struct s"
  shows "\<exists>sh' es sp. put_spawn env s sh = Some (sh', es) \<and> view sh' (ucast (s_spawnId s)) = Some sp \<and> announced env s sp
    \<and> m_guildTag sp = h_guildName env (m_guildID sp) (m_guildServerID sp)"
proof (cases "sh_spawns sh (ucast (s_spawnId s))")
  case (Some a)
  obtain sp where sp: "sh_heap sh a = Some (OSpawn sp)" "ucast (m_ID sp) = (ucast (s_spawnId s) :: u32)" "m_type sp = tSpawn"
    using heap_class(1) [OF ok Some] by auto
  obtain sp1 where sp1: "spawn_update (benv env) spawn_vt s sp = Some sp1" "m_ID sp1 = m_ID sp" "m_type sp1 = m_type sp"
    using spawn_update_returns [OF s] by blast
  obtain w w' where w: "runtime_masked env (masked env (OSpawn sp1)) = OSpawn (sp1\<lparr>m_filterFlags := w, m_runtimeFilterFlags := w'\<rparr>)"
    using masked_cases(1) by blast
  have u: "updateBothFlags env a (put_obj a (OSpawn sp1) sh) = Some (put_obj a (OSpawn (sp1\<lparr>m_filterFlags := w, m_runtimeFilterFlags := w'\<rparr>)) sh)"
    by (subst updateBothFlags_eq [where ob = "OSpawn sp1"]) (auto simp: w)
  have "announced env s sp1" using spawn_update_announced [OF sp1(1)] key_inj [OF sp(2)] by simp
  from announced_more(2) [OF this] show ?thesis
    by (simp add: put_spawn_def Some sp(1) sp1(1) u on_spawn_def get_obj_def view_def guild_tagged del: put_obj_same)
next
  case None
  obtain sp where sp: "new_Spawn (benv env) s = Some sp" "m_ID sp = s_spawnId s" "m_type sp = tSpawn"
    using new_Spawn_returns [OF s] by blast
  obtain a sh1 where al: "alloc (OSpawn sp) sh = (a, sh1)" by (cases "alloc (OSpawn sp) sh") auto
  have "fresh_class (OSpawn sp)" by (simp add: fresh_class_def)
  note A = shell_ok_alloc [OF ok this al]
  obtain w w' where w: "runtime_masked env (masked env (OSpawn sp)) = OSpawn (sp\<lparr>m_filterFlags := w, m_runtimeFilterFlags := w'\<rparr>)"
    using masked_cases(1) by blast
  have u: "updateBothFlags env a sh1 = Some (put_obj a (OSpawn (sp\<lparr>m_filterFlags := w, m_runtimeFilterFlags := w'\<rparr>)) sh1)"
    by (subst updateBothFlags_eq [where ob = "OSpawn sp"]) (auto simp: w A(2))
  have "announced env s sp" using sp(1) by (auto simp: new_Spawn_def blank_spawn_def intro!: spawn_update_announced)
  from announced_more(1) [OF this] show ?thesis
    by (simp add: put_spawn_def None sp(1) al u on_spawn_def insert_item_def get_obj_def put_obj_map view_def guild_tagged del: put_obj_same)
qed

text \<open>C4: A spawn that a packet announces is known from then on as announced, under its id, with the name up
  to the closing zero byte, race, class, level, kind, hit points, position and guild, and the tag of
  its guild; and it stays exactly so, whatever accepted packets follow, as long as none of them names
  its id (and none clears the zone or walks over all spawns).\<close>

theorem spawn_stays_as_announced:
  assumes ok: "shell_ok sh" and acc: "accepted (env, PNewSpawn data)" and zone: "\<not> h_isZoning env"
    and s: "read_spawnStruct data 0 = Some s" "s_NPC s \<noteq> SPAWN_SELF"
    and rest: "list_all accepted ps" "\<forall>ep \<in> set ps. ucast (s_spawnId s) \<notin> names_of ep"
  shows "\<exists>sh1 es1 sh2 es2 sp. shell_step (env, PNewSpawn data) sh = Some (sh1, es1) \<and> run shell_step ps sh1 = Some (sh2, es2)
    \<and> view sh2 (ucast (s_spawnId s)) = Some sp \<and> announced env s sp \<and> m_guildTag sp = h_guildName env (m_guildID sp) (m_guildServerID sp)"
proof -
  have n: "named_struct s" using acc s(1) by (auto simp: accepted_def)
  obtain sh1 es1 sp where 1: "put_spawn env s (forget_dead (s_spawnId s) sh) = Some (sh1, es1)"
    "view sh1 (ucast (s_spawnId s)) = Some sp" "announced env s sp" "m_guildTag sp = h_guildName env (m_guildID sp) (m_guildServerID sp)"
    using put_spawn_view [OF forget_dead_keep(1) [OF ok] n] by blast
  have step: "shell_step (env, PNewSpawn data) sh = Some (sh1, es1)"
    using zone s 1(1) by (simp add: newSpawn_packet_def newSpawn_def)
  have ok1: "shell_ok sh1" using shell.step_ok [OF ok acc] step by auto
  obtain sh2 es2 where 2: "run shell_step ps sh1 = Some (sh2, es2)" using shell.run_ok [OF ok1 rest(1)] by auto
  have "view sh2 (ucast (s_spawnId s)) = view sh1 (ucast (s_spawnId s))" by (rule shell.run_frame [OF ok1 rest(1) 2 rest(2)])
  then show ?thesis using step 1 2 by auto
qed

theorem spawn_stays_as_announced_witness:
  "\<exists>sh1 es1 sh2 es2 sp. shell_step (sample_env, PNewSpawn (sample_spawn 7 1 [65, 66])) (new_SpawnShell sample_player) = Some (sh1, es1)
    \<and> run shell_step [(sample_env, PDelete [8, 0]), (sample_env, PTarget [7, 0])] sh1 = Some (sh2, es2)
    \<and> view sh2 (ucast (s_spawnId (spawn_fields (sample_spawn 7 1 [65, 66])))) = Some sp
    \<and> announced sample_env (spawn_fields (sample_spawn 7 1 [65, 66])) sp \<and> m_guildTag sp = h_guildName sample_env (m_guildID sp) (m_guildServerID sp)"
proof (rule spawn_stays_as_announced)
  note S = sample_spawn_struct [of "[65, 66]" 7 1, simplified]
  show "shell_ok (new_SpawnShell sample_player)" by (rule shell_ok_new [OF sample_player_type(1)])
  show "accepted (sample_env, PNewSpawn (sample_spawn 7 1 [65, 66]))" using sample_order S by (auto simp: accepted_def)
  show "\<not> h_isZoning sample_env" by (simp add: sample_env_def)
  show "read_spawnStruct (sample_spawn 7 1 [65, 66]) 0 = Some (spawn_fields (sample_spawn 7 1 [65, 66]))" by (rule S(1))
  show "s_NPC (spawn_fields (sample_spawn 7 1 [65, 66])) \<noteq> SPAWN_SELF" using S(4) by (simp add: SPAWN_SELF_def)
  show "list_all accepted [(sample_env, PDelete [8, 0]), (sample_env, PTarget [7, 0])]" using sample_order by (simp add: accepted_def)
  show "\<forall>ep \<in> set [(sample_env, PDelete [8, 0]), (sample_env, PTarget [7, 0])]. ucast (s_spawnId (spawn_fields (sample_spawn 7 1 [65, 66]))) \<notin> names_of ep"
    using S(3) by (simp add: names_of_def eqtohuint16_Some)
qed

section \<open>Deleted spawns\<close>

lemma dead_slot_None: "k \<notin> set (take n ds) \<Longrightarrow> dead_slot n k ds = None"
  by (induction n k ds rule: dead_slot.induct) auto

lemma updateSpawn_unknown:
  assumes ok: "shell_ok sh" and p: "get_player sh = Some p" "i \<noteq> m_ID p" and none: "sh_spawns sh (ucast i) = None"
    and dead: "dead_slot (sh_cntDead sh) i (sh_deadID sh) = None" and c: "h_createUnknownSpawns env"
  shows "\<exists>sh' es s. updateSpawn env i x y z xv yv zv h dh an sh = Some (sh', es) \<and> view sh' (ucast i) = Some s \<and> m_name s = ''unknown''"
proof -
  let ?u = "new_unknown_Spawn (benv env) i x y z xv yv zv h dh an"
  obtain a sh1 where al: "alloc (OSpawn ?u) sh = (a, sh1)" by (cases "alloc (OSpawn ?u) sh") auto
  have "fresh_class (OSpawn ?u)" by (simp add: fresh_class_def)
  note A = shell_ok_alloc [OF ok this al]
  obtain w w' where w: "runtime_masked env (masked env (OSpawn ?u)) = OSpawn (?u\<lparr>m_filterFlags := w, m_runtimeFilterFlags := w'\<rparr>)"
    using masked_cases(1) by blast
  have u: "updateBothFlags env a sh1 = Some (put_obj a (OSpawn (?u\<lparr>m_filterFlags := w, m_runtimeFilterFlags := w'\<rparr>)) sh1)"
    by (subst updateBothFlags_eq [where ob = "OSpawn ?u"]) (auto simp: w A(2))
  have "m_name ?u = ''unknown''"
    by (simp add: new_unknown_Spawn_def setHeading_def setDeltas_def spawn_setPos_def item_setPos_def setPoint_def Let_def)
  then show ?thesis using p none dead c
    by (simp add: updateSpawn_def al u get_obj_def insert_item_def view_def)
qed

text \<open>The ring of deleted ids misses the newest one. It is meant to recognise a late position update of
  a spawn that has just been deleted; but the position of the ring is advanced before the id is
  stored, while the search goes over the slots below the count, so until the ring has wrapped round
  (the position equals the count) the id that was deleted last is stored and not found: a position
  update for it brings the spawn back, as an unknown one.\<close>

theorem deleted_id_comes_back:
  assumes ok: "shell_ok sh" and ring: "sh_posDead sh = sh_cntDead sh" "sh_cntDead sh < MAX_DEAD_SPAWNIDS - 1"
    and k: "eqtohuint16 data 0 = Some k" "k \<notin> set (sh_deadID sh)"
    and p: "get_player sh = Some p" "k \<noteq> m_ID p" and c: "h_createUnknownSpawns env"
  shows "\<exists>sh1 es1 sh2 es2 s. deleteSpawn env data sh = Some (sh1, es1) \<and> view sh1 (ucast k) = None \<and> k \<in> set (sh_deadID sh1)
    \<and> updateSpawn env k x y z xv yv zv h dh an sh1 = Some (sh2, es2) \<and> view sh2 (ucast k) = Some s \<and> m_name s = ''unknown''"
proof -
  let ?n = "sh_cntDead sh" and ?nd = "note_dead k sh"
  have nd: "sh_posDead ?nd = Suc ?n" "sh_cntDead ?nd = Suc ?n" "sh_deadID ?nd = (sh_deadID sh)[Suc ?n := k]"
    "sh_spawns ?nd = sh_spawns sh" "sh_heap ?nd = sh_heap sh" "sh_players ?nd = sh_players sh"
    using ring by (simp_all add: note_dead_def Let_def)
  have len: "Suc ?n < length (sh_deadID sh)" using ok ring(2) by (auto simp: shell_ok_def dead_ok_def)
  have d: "does {ucast k} (deleteItem env tSpawn (ucast k) ?nd) ?nd" using note_dead_keep(1) [OF ok] by (rule does_delete) auto
  then obtain sh1 es1 where 1: "deleteItem env tSpawn (ucast k) ?nd = Some (sh1, es1)" "shell_ok sh1" by (auto simp: does_def)
  then have sh1: "sh_spawns sh1 (ucast k) = None" "sh_heap sh1 = sh_heap sh" "sh_deadID sh1 = sh_deadID ?nd" "sh_cntDead sh1 = Suc ?n"
    by (auto simp: deleteItem_def nd bind_Some_iff Let_def split: option.splits)
  have "k \<notin> set (take (Suc ?n) (sh_deadID sh1))" using k(2) by (auto simp: sh1(3) nd(3) dest: in_set_takeD)
  then have dead: "dead_slot (sh_cntDead sh1) k (sh_deadID sh1) = None" unfolding sh1(4) by (rule dead_slot_None)
  have "get_player sh1 = Some p" using p(1) sh1(2) by (simp add: get_player_def)
  from updateSpawn_unknown [OF 1(2) this p(2) sh1(1) dead c] obtain sh2 es2 s where
    "updateSpawn env k x y z xv yv zv h dh an sh1 = Some (sh2, es2)" "view sh2 (ucast k) = Some s" "m_name s = ''unknown''" by blast
  moreover have "k \<in> set (sh_deadID sh1)" using len by (simp add: sh1(3) nd(3) set_update_memI)
  ultimately show ?thesis using 1 sh1(1) k(1) by (auto simp: deleteSpawn_def view_def)
qed

theorem deleted_id_comes_back_witness:
  "\<exists>sh1 es1 sh2 es2 s. deleteSpawn sample_env [7, 0] (new_SpawnShell sample_player) = Some (sh1, es1) \<and> view sh1 (ucast (7 :: u16)) = None
    \<and> 7 \<in> set (sh_deadID sh1) \<and> updateSpawn sample_env 7 1 2 3 0 0 0 0 0 0 sh1 = Some (sh2, es2)
    \<and> view sh2 (ucast (7 :: u16)) = Some s \<and> m_name s = ''unknown''"
proof (rule deleted_id_comes_back)
  show "shell_ok (new_SpawnShell sample_player)" by (rule shell_ok_new [OF sample_player_type(1)])
  show "get_player (new_SpawnShell sample_player) = Some sample_player" by (simp add: get_player_def new_SpawnShell_def)
  show "eqtohuint16 [7, 0] 0 = Some 7" by (simp add: eqtohuint16_Some)
qed (simp_all add: new_SpawnShell_def MAX_DEAD_SPAWNIDS_def sample_env_def sample_player_type)

section \<open>Deaths\<close>

text \<open>What the handler makes of a spawn that dies.\<close>

definition corpse_of :: "shell_env \<Rightarrow> Spawn \<Rightarrow> obj" where
  "corpse_of env s = (case runtime_masked env (masked env (OSpawn (spawn_kill s))) of
     OSpawn q \<Rightarrow> OSpawn (corpse_name q) | ob \<Rightarrow> ob)"

lemma killSpawn_eq:
  assumes ok: "shell_ok sh" and d: "read_corpse data = Some d" and p: "get_player sh = Some p" "nc_spawnId d \<noteq> m_ID p" "nc_killerId d \<noteq> m_ID p"
    and a: "sh_spawns sh (ucast (nc_spawnId d)) = Some a" "sh_heap sh a = Some (OSpawn s)"
  shows "killSpawn env data sh = Some (put_obj a (corpse_of env s) sh,
    [EKillSpawn a (corpse_of env s) (sh_spawns sh (ucast (nc_killerId d))) (nc_killerId d)])"
proof -
  obtain w w' where w: "runtime_masked env (masked env (OSpawn (spawn_kill s))) = OSpawn ((spawn_kill s)\<lparr>m_filterFlags := w, m_runtimeFilterFlags := w'\<rparr>)"
    using masked_cases(1) by blast
  have u: "updateBothFlags env a (put_obj a (OSpawn (spawn_kill s)) sh)
    = Some (put_obj a (OSpawn ((spawn_kill s)\<lparr>m_filterFlags := w, m_runtimeFilterFlags := w'\<rparr>)) sh)"
    by (subst updateBothFlags_eq [where ob = "OSpawn (spawn_kill s)"]) (auto simp: w)
  show ?thesis using p a by (simp add: killSpawn_def d on_spawn_def u get_obj_def corpse_of_def w del: put_obj_same)
qed

lemma spawn_kill_level [simp]: "m_level (spawn_kill s) = m_level s" "m_name (spawn_kill s) = m_name s"
  by (simp_all add: spawn_kill_def setHeading_def setDeltas_def Let_def)

lemma corpse_of_spawn:
  assumes "m_type s = tSpawn"
  shows "\<exists>w'. corpse_of env s = OSpawn (corpse_name ((spawn_kill s)\<lparr>m_filterFlags :=
     h_filterMask env (filterString (benv env) (OSpawn (spawn_kill s))) (ucast (m_level s)), m_runtimeFilterFlags := w'\<rparr>))"
  using assms by (simp add: corpse_of_def masked_def runtime_masked_def setFilterFlags_def setRuntimeFilterFlags_def filter_level_def
      obj_type_def spawn_vt_def) (rule exI, rule refl)

lemma spawn_kill_fields [simp]: "m_curHP (spawn_kill s) = 0" "m_deltaX (spawn_kill s) = 0" "m_deltaY (spawn_kill s) = 0"
    "m_deltaZ (spawn_kill s) = 0" "isCorpse (spawn_kill s)" "\<not> isPlayer (spawn_kill s)"
  by (simp_all add: spawn_kill_def setHeading_def setDeltas_def Let_def isCorpse_def isPlayer_def SPAWN_defs)

lemma corpse_fields [simp]:
  fixes s :: Spawn
  shows "m_curHP (corpse_name s) = m_curHP s" "m_deltaX (corpse_name s) = m_deltaX s" "m_deltaY (corpse_name s) = m_deltaY s"
    "m_deltaZ (corpse_name s) = m_deltaZ s" "m_name (corpse_name s) = m_name s @ Spawn_Corpse_Designator"
    "m_filterFlags (corpse_name s) = m_filterFlags s" "isCorpse (corpse_name s) = isCorpse s" "isPlayer (corpse_name s) = isPlayer s"
    "isCorpse (s\<lparr>m_filterFlags := w, m_runtimeFilterFlags := w'\<rparr>) = isCorpse s"
    "isPlayer (s\<lparr>m_filterFlags := w, m_runtimeFilterFlags := w'\<rparr>) = isPlayer s"
  by (simp_all add: corpse_name_def isCorpse_def isPlayer_def)

lemma view_put_self: "sh_spawns sh k = Some a \<Longrightarrow> view (put_obj a (OSpawn x) sh) k = Some x"
  by (simp add: view_def)

text \<open>C19: A spawn that is killed (by anyone but the player) becomes a corpse in place: no hit points, no
  motion, no longer a player, and \<open>'s corpse\<close> after its name; every other spawn stays as it was. Its
  filter flags are those of the string it had before the name was changed: they are not computed
  again, so a filter that is written for corpses does not see it.\<close>

theorem killed_spawn_becomes_corpse:
  assumes ok: "shell_ok sh" and d: "read_corpse data = Some d" and p: "get_player sh = Some p" "nc_spawnId d \<noteq> m_ID p" "nc_killerId d \<noteq> m_ID p"
    and s: "view sh (ucast (nc_spawnId d)) = Some s"
  shows "\<exists>sh' es s'. killSpawn env data sh = Some (sh', es) \<and> view sh' (ucast (nc_spawnId d)) = Some s'
    \<and> m_name s' = m_name s @ Spawn_Corpse_Designator \<and> isCorpse s' \<and> \<not> isPlayer s' \<and> m_curHP s' = 0
    \<and> m_deltaX s' = 0 \<and> m_deltaY s' = 0 \<and> m_deltaZ s' = 0
    \<and> m_filterFlags s' = h_filterMask env (filterString (benv env) (OSpawn (spawn_kill s))) (ucast (m_level s))
    \<and> m_name (spawn_kill s) = m_name s \<and> (\<forall>k. k \<noteq> ucast (nc_spawnId d) \<longrightarrow> view sh' k = view sh k)"
proof -
  obtain a where a: "sh_spawns sh (ucast (nc_spawnId d)) = Some a" using s by (auto simp: view_def split: option.splits)
  obtain s0 where s0: "sh_heap sh a = Some (OSpawn s0)" "m_type s0 = tSpawn" using heap_class(1) [OF ok a] by auto
  have "s0 = s" using s a s0(1) by (simp add: view_def)
  then have hs: "sh_heap sh a = Some (OSpawn s)" "m_type s = tSpawn" using s0 by auto
  obtain w' where w: "corpse_of env s = OSpawn (corpse_name ((spawn_kill s)\<lparr>m_filterFlags :=
     h_filterMask env (filterString (benv env) (OSpawn (spawn_kill s))) (ucast (m_level s)), m_runtimeFilterFlags := w'\<rparr>))"
    using corpse_of_spawn [OF hs(2)] by blast
  have frame: "\<forall>k. k \<noteq> ucast (nc_spawnId d) \<longrightarrow> view (put_obj a (corpse_of env s) sh) k = view sh k"
    using view_put_other [OF ok hs(1), of "{ucast (nc_spawnId d)}"] spawn_key [OF ok a] by auto
  show ?thesis
    using killSpawn_eq [OF ok d p a hs(1), of env] frame a
    by (simp add: w view_put_self [OF a] del: put_obj_same)
qed

text \<open>A zone with one other player in it.\<close>

definition sample_bob :: Spawn where
  "sample_bob = (blank_spawn (benv sample_env) tSpawn 7)\<lparr>m_name := ''Bob'', m_NPC := SPAWN_PLAYER\<rparr>"

definition sample_zone :: SpawnShell where
  "sample_zone = (new_SpawnShell sample_player)\<lparr>sh_heap := [player_ptr \<mapsto> OPlayer sample_player, 1 \<mapsto> OSpawn sample_bob],
     sh_next := 2, sh_spawns := [7 \<mapsto> 1]\<rparr>"

lemma sample_zone_ok: "shell_ok sample_zone" "get_player sample_zone = Some sample_player" "view sample_zone 7 = Some sample_bob"
    "sh_spawns sample_zone 7 = Some 1" "sh_heap sample_zone 1 = Some (OSpawn sample_bob)"
  using sample_player_type by (auto simp: shell_ok_def sample_zone_def new_SpawnShell_def store_ok_def dead_ok_def map_ok_def player_ptr_def
      MAX_DEAD_SPAWNIDS_def is_spawn_def sample_bob_def blank_spawn_def get_player_def view_def inj_on_def split: if_splits)

definition sample_death :: bytes where "sample_death = [7, 0, 9, 0] @ replicate 16 0"

lemma sample_death_read: "read_corpse sample_death = Some \<lparr>nc_spawnId = 7, nc_killerId = 9\<rparr>"
  by (simp add: read_corpse_def sample_death_def rd_range_Some u16_at_def)

theorem killed_spawn_becomes_corpse_witness:
  "\<exists>sh' es s'. killSpawn sample_env sample_death sample_zone = Some (sh', es) \<and> view sh' 7 = Some s'
    \<and> m_name s' = ''Bob'' @ Spawn_Corpse_Designator \<and> isCorpse s' \<and> \<not> isPlayer s'"
proof -
  have v: "view sample_zone (ucast (nc_spawnId \<lparr>nc_spawnId = 7, nc_killerId = 9\<rparr>)) = Some sample_bob"
    using sample_zone_ok(3) by simp
  have n: "m_name sample_bob = ''Bob''" by (simp add: sample_bob_def)
  show ?thesis using killed_spawn_becomes_corpse [OF sample_zone_ok(1) sample_death_read sample_zone_ok(2) _ _ v, of sample_env] n
    by (auto simp: sample_player_type)
qed

end
