(* ===== verification/SpawnProps.thy ===== *)
theory SpawnProps
  imports SpawnShellProps
begin

text \<open>
  The motion of a spawn: the position that is predicted from the last update is the fixed point product, near the nominal
  one, and does not overflow for every velocity a packet can carry, and the track of a spawn is bounded.
\<close>

lemma sint_word_of_int_cast:
  fixes w :: "10 word"
  shows "sint (scast w :: u16) = sint w"
proof -
  have "- (2 ^ 15) \<le> sint w" "sint w < 2 ^ 15" using sint_ge [of w] sint_lt [of w] by simp_all
  then show ?thesis by (simp add: signed_scast_eq signed_take_bit_int_eq_self)
qed

lemma signed10_range: "- 512 \<le> sint (signed10 k d)" "sint (signed10 k d) < 512"
proof -
  have "sint (signed10 k d) = sint (ucast (drop_bit k d) :: 10 word)"
    unfolding signed10_def by (rule sint_word_of_int_cast)
  moreover have "- (2 ^ 9) \<le> sint (ucast (drop_bit k d) :: 10 word)" "sint (ucast (drop_bit k d) :: 10 word) < 2 ^ 9"
    using sint_ge [of "ucast (drop_bit k d) :: 10 word"] sint_lt [of "ucast (drop_bit k d) :: 10 word"] by simp_all
  ultimately show "- 512 \<le> sint (signed10 k d)" "sint (signed10 k d) < 512" by simp_all
qed

lemma predicted_fits:
  assumes "- 512 \<le> sint d" "sint d < 512" "0 \<le> e" "e < 90 * 1000"
  shows "fixPtMulII (cooked d) qFormat e = Some ((21 * sint d * e) div 2 ^ 14)"
proof -
  have "- (512 * 90000) \<le> sint d * e"
  proof -
    have "- 512 * e \<le> sint d * e" using assms by (intro mult_right_mono) auto
    moreover have "512 * e \<le> 512 * 90000" using assms by simp
    ultimately show ?thesis by linarith
  qed
  moreover have "sint d * e \<le> 512 * 90000"
  proof -
    have "sint d * e \<le> 512 * e" using assms by (intro mult_right_mono) auto
    then show ?thesis using assms by linarith
  qed
  ultimately have "- (2 ^ 31) \<le> 21 * (sint d * e)" "21 * (sint d * e) < 2 ^ 31" by simp_all
  then show ?thesis
    by (simp add: fixPtMulII_def c_int_def cooked_def animationCoefficientFixPt_21 qFormat_def mult.assoc)
qed

text \<open>The factor 21 / 2 ^ 14 is 0.0013 less one 71st of it.\<close>

lemma prediction_error:
  fixes k :: int
  shows "71 * \<bar>10000 * (21 * k div 2 ^ 14) - 13 * k\<bar> \<le> 71 * 10000 + 13 * \<bar>k\<bar>"
proof -
  have "21 * k div 16384 * 16384 \<le> 21 * k" "21 * k < 21 * k div 16384 * 16384 + 16384"
    using div_mult_mod_eq [of "21 * k" 16384] pos_mod_bound [of 16384 "21 * k"] pos_mod_sign [of 16384 "21 * k"] by linarith+
  then show ?thesis by (simp add: abs_if)
qed

text \<open>C20: The predicted position. For a spawn whose velocity came with a position update, and times of day
  less than a day apart (also across midnight), the prediction never overflows: within 90 seconds of
  the update each coordinate is the last one plus the fixed point product
  \<open>21 * velocity * milliseconds / 2 ^ 14\<close>, rounded down and cut to 16 bits; after that the prediction is
  refused and the position is the last one. Before the cut that product differs from the distance at the
  rate of the code's constant, 13 ten-thousandths of \<open>velocity * milliseconds\<close>, by at most one unit and one
  71st of the distance. The bound on the velocity is needed: at 1200 the product leaves \<open>int\<close>.\<close>

theorem predicted_position_exact:
  fixes s0 :: Spawn
  assumes u: "read_positionUpdate data i = Some u" and s: "s = setDeltas (u_deltaX u) (u_deltaY u) (u_deltaZ u) s0"
    and t: "0 \<le> t" "t < msec_per_day" "0 \<le> m_lastUpdate s0" "m_lastUpdate s0 < msec_per_day"
    and e: "e = (t - m_lastUpdate s0) mod msec_per_day"
  shows "approximatePosition True t s = Some (if e < 90 * 1000
      then (True, pt_x s0 + word_of_int (21 * sint (u_deltaX u) * e div 2 ^ 14), pt_y s0 + word_of_int (21 * sint (u_deltaY u) * e div 2 ^ 14),
            pt_z s0 + word_of_int (21 * sint (u_deltaZ u) * e div 2 ^ 14))
      else (False, pt_x s0, pt_y s0, pt_z s0))
    \<and> (\<forall>v :: u16. 71 * \<bar>10000 * (21 * sint v * e div 2 ^ 14) - 13 * (sint v * e)\<bar> \<le> 71 * 10000 + 13 * \<bar>sint v * e\<bar>)
    \<and> approximatePosition True 89999 (setDeltas 1200 0 0 (s0\<lparr>m_lastUpdate := 0\<rparr>)) = None"
proof -
  obtain w where d: "u_deltaY u = signed10 0 w" "u_deltaZ u = signed10 11 w" "u_deltaX u = signed10 22 w"
    using u by (auto simp: read_positionUpdate_def bind_Some_iff Let_def)
  have e0: "0 \<le> e" by (simp add: e msec_per_day_def)
  have el: "(if t - m_lastUpdate s0 < 0 then t - m_lastUpdate s0 + msec_per_day else t - m_lastUpdate s0) = e"
  proof (cases "t - m_lastUpdate s0 < 0")
    case True
    then have "(t - m_lastUpdate s0 + msec_per_day) mod msec_per_day = t - m_lastUpdate s0 + msec_per_day"
      using t by (intro mod_pos_pos_trivial) auto
    then show ?thesis using True by (simp add: e)
  qed (use t in \<open>simp add: e mod_pos_pos_trivial\<close>)
  have f: "fixPtMulII (cooked (signed10 k w)) qFormat e = Some (21 * sint (signed10 k w) * e div 2 ^ 14)" if "e < 90 * 1000" for k
    using predicted_fits [OF signed10_range e0 that] .
  have 1: "approximatePosition True t s = Some (if e < 90 * 1000
      then (True, pt_x s0 + word_of_int (21 * sint (u_deltaX u) * e div 2 ^ 14), pt_y s0 + word_of_int (21 * sint (u_deltaY u) * e div 2 ^ 14),
            pt_z s0 + word_of_int (21 * sint (u_deltaZ u) * e div 2 ^ 14))
      else (False, pt_x s0, pt_y s0, pt_z s0))"
    using el f by (simp add: approximatePosition_def s setDeltas_def Let_def d)
  have "sint (1200 :: u16) = 1200" by simp
  then have "fixPtMulII (cooked 1200) qFormat 89999 = None"
    by (simp add: fixPtMulII_def c_int_def cooked_def animationCoefficientFixPt_21)
  then have "approximatePosition True 89999 (setDeltas 1200 0 0 (s0\<lparr>m_lastUpdate := 0\<rparr>)) = None"
    by (simp add: approximatePosition_def setDeltas_def Let_def)
  moreover have "71 * \<bar>10000 * (21 * sint v * e div 2 ^ 14) - 13 * (sint v * e)\<bar> \<le> 71 * 10000 + 13 * \<bar>sint v * e\<bar>" for v :: u16
    using prediction_error [of "sint v * e"] by (simp only: mult.assoc)
  ultimately show ?thesis using 1 by blast
qed

theorem predicted_position_exact_witness:
  "\<exists>u. read_positionUpdate (replicate 11 0 @ [0, 0, 64, 2]) 0 = Some u \<and> sint (u_deltaX u) = 9
    \<and> approximatePosition True 1000 (setDeltas (u_deltaX u) (u_deltaY u) (u_deltaZ u) sample_bob) = Some (True, 11, 0, 0)"
proof -
  let ?d = "replicate 11 0 @ [0, 0, 64, 2] :: bytes"
  obtain u where u: "read_positionUpdate ?d 0 = Some u"
    using read_struct_Some(2) [of 0 ?d] by (auto simp: sizeof_spawnPositionUpdate_def)
  have "u32_at ?d 11 = 0x02400000" by (simp add: u32_at_def)
  then have v: "sint (u_deltaX u) = 9" "sint (u_deltaY u) = 0" "sint (u_deltaZ u) = 0" using u
    by (auto simp: read_positionUpdate_def rd_range_Some sizeof_spawnPositionUpdate_def Let_def signed10_def)
  have b: "m_lastUpdate sample_bob = 0" "pt_x sample_bob = 0" "pt_y sample_bob = 0" "pt_z sample_bob = 0"
    by (simp_all add: sample_bob_def blank_spawn_def benv_def spawn_env.defs sample_env_def)
  have "approximatePosition True 1000 (setDeltas (u_deltaX u) (u_deltaY u) (u_deltaZ u) sample_bob) = Some (True, 11, 0, 0)"
    using predicted_position_exact [OF u refl, of 1000 sample_bob 1000] v b by (simp add: msec_per_day_def)
  then show ?thesis using u v(1) by blast
qed

section \<open>The track\<close>

text \<open>The track of a spawn. With a limit on its length, however the spawn moves, a track that starts
  empty never has more points than the larger of three and one more than the limit, and a long
  enough straight walk reaches that: the limit itself, which the comment says is not exceeded, is.\<close>

theorem track_is_bounded:
  assumes "0 < limit" "limit < 2 ^ 15"
  shows "length (fold (track_point limit) ps []) \<le> max 3 (limit + 1)
    \<and> (\<exists>qs. length (fold (track_point limit) qs []) = max 3 (limit + 1))"
proof -
  have step: "length (track_point limit p tr) \<le> max 3 (limit + 1)" if "length tr \<le> max 3 (limit + 1)" for p tr
    using that assms by (auto simp: track_point_def Let_def)
  have len: "length (fold (track_point limit) ps tr) \<le> max 3 (limit + 1)" if "length tr \<le> max 3 (limit + 1)" for tr
    using that
  proof (induction ps arbitrary: tr)
    case (Cons p ps)
    from Cons.IH [OF step [OF Cons.prems]] show ?case by simp
  qed simp
  let ?f = "\<lambda>i. (of_nat i :: u16, 0 :: u16, 0 :: u16)"
  have reach: "fold (track_point limit) (map ?f [0..<n]) [] = map ?f [0..<n]" if "n \<le> max 3 (limit + 1)" for n
    using that assms(2)
  proof (induction n)
    case (Suc n)
    have ih: "fold (track_point limit) (map ?f [0..<n]) [] = map ?f [0..<n]" using Suc by simp
    have "track_point limit (?f n) (map ?f [0..<n]) = map ?f [0..<n] @ [?f n]"
    proof (cases n)
      case (Suc m)
      have "n < 2 ^ 16" using Suc.prems by auto
      then have "unat (of_nat n :: u16) = n" by (simp add: unat_of_nat)
      moreover have "unat (of_nat m :: u16) = m" using Suc \<open>n < 2 ^ 16\<close> by (simp add: unat_of_nat)
      ultimately have "(of_nat m :: u16) \<noteq> of_nat n" using Suc by (metis n_not_Suc_n)
      moreover have "\<not> (n > 2 \<and> n > limit)" using Suc.prems by auto
      ultimately show ?thesis using Suc by (auto simp: track_point_def Let_def last_map)
    qed (simp add: track_point_def)
    then show ?case using ih by simp
  qed simp
  show ?thesis
    using len [of "[]"] reach [of "max 3 (limit + 1)"]
    by (intro conjI exI [of _ "map ?f [0..<max 3 (limit + 1)]"]) auto
qed

theorem track_is_bounded_witness:
  "length (fold (track_point 4) [(1, 1, 1), (2, 2, 2), (3, 3, 3), (4, 4, 4), (5, 5, 5), (6, 6, 6)] []) \<le> max 3 (4 + 1)
    \<and> (\<exists>qs. length (fold (track_point 4) qs []) = max 3 (4 + 1))"
  by (rule track_is_bounded) simp_all

section \<open>The velocity of an announced spawn\<close>

lemma sint_small:
  fixes u :: u16
  assumes "unat u < 512"
  shows "0 \<le> sint u"
proof -
  have "int (unat u) < int 512" using assms by (simp only: of_nat_less_iff)
  then have "uint u < 2 ^ 15" by simp
  moreover have "- (2 ^ 15) \<le> uint u" by (rule order_trans [of _ 0]) simp_all
  ultimately have "sint u = uint u" by (simp add: sint_uint signed_take_bit_int_eq_self)
  then show ?thesis by simp
qed

lemma velocity_word:
  fixes w :: u32
  assumes "unat w < 2 ^ 11"
  shows "0 \<le> sint (ucast (drop_bit 2 w) :: u16)"
proof -
  have "unat (drop_bit 2 w) < 512" using assms by (simp add: drop_bit_eq_div unat_div)
  then have "unat (ucast (drop_bit 2 w) :: u16) < 512" by (simp add: unsigned_ucast_eq take_bit_nat_eq_self)
  then show ?thesis by (rule sint_small)
qed

text \<open>The velocity fields of the structure that announces a spawn are unsigned (those of a position
  update are signed), so an announced spawn never moves towards smaller coordinates.\<close>

theorem announced_velocity_not_negative:
  assumes "read_spawnStruct data i = Some s" "spawn_update env vt s sp = Some sp'"
  shows "0 \<le> sint (m_deltaX sp') \<and> 0 \<le> sint (m_deltaY sp') \<and> 0 \<le> sint (m_deltaZ sp')"
proof -
  obtain w where w: "s_deltaX s = drop_bit 22 w" "s_deltaY s = take_bit 11 w" "s_deltaZ s = take_bit 11 (drop_bit 11 w)"
    using assms(1) by (auto simp: read_spawnStruct_def spawn_fields_def Let_def)
  have "unat w < 2 ^ LENGTH(32)" by (rule unsigned_less)
  then have "unat (s_deltaX s) < 2 ^ 11" by (simp add: w drop_bit_eq_div unat_div)
  moreover have "unat (s_deltaY s) < 2 ^ 11" "unat (s_deltaZ s) < 2 ^ 11"
    by (simp_all add: w take_bit_eq_mod unat_mod)
  ultimately have "0 \<le> sint (ucast (drop_bit 2 (s_deltaX s)) :: u16)" "0 \<le> sint (ucast (drop_bit 2 (s_deltaY s)) :: u16)"
    "0 \<le> sint (ucast (drop_bit 2 (s_deltaZ s)) :: u16)" using velocity_word by blast+
  then show ?thesis using assms(2)
    by (auto simp: spawn_update_def bind_Some_iff Let_def update_motion_def setDeltas_def setHeading_def updateLast_def)
qed

end
