(* ===== verification/GroupMgr.thy ===== *)
theory GroupMgr
  imports NetStream SpawnShell SlotTable
begin

text \<open>
  \<open>src/src/group.h\<close> and \<open>src/src/group.cpp\<close>: the members of the player's group. A slot has a name
  (empty when the slot is free) and a pointer to the member's spawn, an address of the store of the
  spawn shell. What the spawn shell finds under a name is an argument of the operations that ask it;
  the items its signals carry are pairs of an address and the object there. The counters are \<open>size_t\<close>
  and wrap. \<open>player\<close> and \<open>groupUpdate\<close> do nothing; the bonus (a float for display) and the dump are
  left out.
\<close>

definition MAX_GROUP_MEMBERS :: nat where "MAX_GROUP_MEMBERS = 6"

record GroupMember =
  gm_name :: string
  gm_spawn :: "ptr option"

record GroupMgr =
  g_members :: "GroupMember list"
  g_memberCount :: u64
  g_membersInZoneCount :: u64

datatype group_event = GAdded string "ptr option" | GRemoved string "ptr option" | GCleared

definition empty_member :: "GroupMember" where
  "empty_member = \<lparr>gm_name = [], gm_spawn = None\<rparr>"

definition new_GroupMgr :: "GroupMgr" where
  "new_GroupMgr = \<lparr>g_members = replicate MAX_GROUP_MEMBERS empty_member, g_memberCount = 0, g_membersInZoneCount = 0\<rparr>"

text \<open>The loops of the class stop at the first slot that satisfies a test.\<close>

fun first_slot :: "(GroupMember \<Rightarrow> bool) \<Rightarrow> GroupMember list \<Rightarrow> nat option" where
  "first_slot P [] = None"
| "first_slot P (m # ms) = (if P m then Some 0 else map_option Suc (first_slot P ms))"

definition inc_if :: "bool \<Rightarrow> u64 \<Rightarrow> u64" where "inc_if b n = (if b then n + 1 else n)"
definition dec_if :: "bool \<Rightarrow> u64 \<Rightarrow> u64" where "dec_if b n = (if b then n - 1 else n)"

text \<open>The name in the packet: up to 64 bytes, ended by a zero byte.\<close>

fun follow_name :: "nat \<Rightarrow> bytes \<Rightarrow> string option" where
  "follow_name 0 data = Some []"
| "follow_name (Suc n) data = (case data of
     [] \<Rightarrow> None
   | b # bs \<Rightarrow> if b = 0 then Some [] else map_option ((#) (latin1 b)) (follow_name n bs))"

definition add_name :: "(string \<Rightarrow> ptr option) \<Rightarrow> string \<Rightarrow> GroupMgr \<Rightarrow> GroupMgr \<times> group_event list" where
  "add_name find_player name g =
     (if name = [] then (g, [])
      else (case first_slot (\<lambda>m. gm_name m = []) (g_members g) of
        None \<Rightarrow> (g, [])
      | Some i \<Rightarrow> let sp = find_player name in
          (g\<lparr>g_members := (g_members g)[i := \<lparr>gm_name = name, gm_spawn = sp\<rparr>],
             g_memberCount := g_memberCount g + 1,
             g_membersInZoneCount := inc_if (sp \<noteq> None) (g_membersInZoneCount g)\<rparr>,
           [GAdded name sp])))"

definition addGroupMember :: "(string \<Rightarrow> ptr option) \<Rightarrow> bytes \<Rightarrow> GroupMgr
    \<Rightarrow> (GroupMgr \<times> group_event list) option" where
  "addGroupMember find_player data g = do { name \<leftarrow> follow_name 64 data; Some (add_name find_player name g) }"

text \<open>\<open>membername\<close> is the string in the packet.\<close>

definition removeGroupMember :: "(string \<Rightarrow> ptr option) \<Rightarrow> string \<Rightarrow> string \<Rightarrow> GroupMgr
    \<Rightarrow> GroupMgr \<times> group_event list" where
  "removeGroupMember find_player playerName membername g =
     (if membername = playerName
      then (g\<lparr>g_memberCount := 0, g_membersInZoneCount := 0,
              g_members := replicate MAX_GROUP_MEMBERS empty_member\<rparr>, [GCleared])
      else (case first_slot (\<lambda>m. gm_name m = membername) (g_members g) of
        None \<Rightarrow> (g, [])
      | Some i \<Rightarrow> let m = g_members g ! i in
          (g\<lparr>g_memberCount := g_memberCount g - 1,
             g_membersInZoneCount := dec_if (find_player (gm_name m) \<noteq> None) (g_membersInZoneCount g),
             g_members := (g_members g)[i := empty_member]\<rparr>,
           [GRemoved (gm_name m) (gm_spawn m)])))"

section \<open>Spawns that come and go\<close>

text \<open>The cast of the item to \<open>Spawn\<close> follows the test of its type.\<close>

definition relevant :: "obj \<Rightarrow> bool" where
  "relevant ob \<longleftrightarrow> (obj_type ob = tSpawn \<or> obj_type ob = tPlayer)
     \<and> (case ob of OSpawn s \<Rightarrow> isPlayer s | OPlayer p \<Rightarrow> isPlayer p | _ \<Rightarrow> False)"

definition raw_name :: "obj \<Rightarrow> string" where
  "raw_name ob = (case ob of OSpawn s \<Rightarrow> v_name spawn_vt s | OPlayer p \<Rightarrow> v_name player_vt p | ODoor d \<Rightarrow> m_name d | ODrop d \<Rightarrow> m_name d)"

definition display_name :: "obj \<Rightarrow> string" where
  "display_name ob = (case ob of OSpawn s \<Rightarrow> transformedName spawn_vt s | OPlayer p \<Rightarrow> transformedName player_vt p
     | ODoor d \<Rightarrow> m_name d | ODrop d \<Rightarrow> m_name d)"

definition named :: "obj \<Rightarrow> GroupMember \<Rightarrow> bool" where
  "named ob m \<longleftrightarrow> gm_name m \<noteq> [] \<and> (gm_name m = raw_name ob \<or> gm_name m = display_name ob)"

definition g_addItem :: "ptr \<Rightarrow> obj \<Rightarrow> GroupMgr \<Rightarrow> GroupMgr" where
  "g_addItem a ob g =
     (if \<not> relevant ob then g
      else (case first_slot (named ob) (g_members g) of
        None \<Rightarrow> g
      | Some i \<Rightarrow> g\<lparr>g_members := (g_members g)[i := (g_members g ! i)\<lparr>gm_spawn := Some a\<rparr>],
                    g_membersInZoneCount := g_membersInZoneCount g + 1\<rparr>))"

definition g_delItem :: "ptr \<Rightarrow> obj \<Rightarrow> GroupMgr \<Rightarrow> GroupMgr" where
  "g_delItem a ob g =
     (if \<not> relevant ob then g
      else (case first_slot (named ob) (g_members g) of
        None \<Rightarrow> g
      | Some i \<Rightarrow> g\<lparr>g_members := (g_members g)[i := (g_members g ! i)\<lparr>gm_spawn := None\<rparr>],
                    g_membersInZoneCount := g_membersInZoneCount g - 1\<rparr>))"

definition g_killSpawn :: "ptr \<Rightarrow> obj \<Rightarrow> GroupMgr \<Rightarrow> GroupMgr" where
  "g_killSpawn a ob g =
     (if \<not> relevant ob then g
      else (case first_slot (named ob) (g_members g) of
        None \<Rightarrow> g
      | Some i \<Rightarrow> g\<lparr>g_members := (g_members g)[i := (g_members g ! i)\<lparr>gm_spawn := None\<rparr>],
                    g_membersInZoneCount := g_membersInZoneCount g - 1\<rparr>))"

section \<open>Queries\<close>

text \<open>The queries that follow a member's pointer are given the store.\<close>

fun add_levels :: "SpawnShell \<Rightarrow> GroupMember list \<Rightarrow> u64 \<Rightarrow> u64 option" where
  "add_levels sh [] tot = Some tot"
| "add_levels sh (m # ms) tot = (case gm_spawn m of
     None \<Rightarrow> add_levels sh ms tot
   | Some a \<Rightarrow> (case sh_heap sh a of
       Some (OSpawn s) \<Rightarrow> add_levels sh ms (tot + scast (v_level spawn_vt s))
     | Some (OPlayer p) \<Rightarrow> add_levels sh ms (tot + scast (v_level player_vt p))
     | _ \<Rightarrow> None))"

definition totalLevels :: "SpawnShell \<Rightarrow> GroupMgr \<Rightarrow> u64 option" where
  "totalLevels sh g = do {
     p \<leftarrow> get_player sh;
     if g_memberCount g = 0 then Some (scast (v_level player_vt p))
     else do {
       tot \<leftarrow> add_levels sh (g_members g) 0;
       Some (if tot = 0 then scast (v_level player_vt p) else tot)
     }
   }"

fun find_id :: "SpawnShell \<Rightarrow> u16 \<Rightarrow> GroupMember list \<Rightarrow> ptr option option" where
  "find_id sh k [] = Some None"
| "find_id sh k (m # ms) = (case gm_spawn m of
     None \<Rightarrow> find_id sh k ms
   | Some a \<Rightarrow> do { ob \<leftarrow> get_obj sh a; if obj_id ob = k then Some (Some a) else find_id sh k ms })"

definition memberByID :: "SpawnShell \<Rightarrow> u16 \<Rightarrow> GroupMgr \<Rightarrow> ptr option option" where
  "memberByID sh k g = find_id sh k (g_members g)"

definition memberByName :: "string \<Rightarrow> GroupMgr \<Rightarrow> ptr option" where
  "memberByName name g =
     (case first_slot (\<lambda>m. gm_name m = name) (g_members g) of None \<Rightarrow> None | Some i \<Rightarrow> gm_spawn (g_members g ! i))"

definition memberBySlot :: "u16 \<Rightarrow> GroupMgr \<Rightarrow> ptr option" where
  "memberBySlot slot g = (if unat slot \<ge> MAX_GROUP_MEMBERS then None else gm_spawn (g_members g ! unat slot))"

definition memberNameBySlot :: "u16 \<Rightarrow> GroupMgr \<Rightarrow> string" where
  "memberNameBySlot slot g = (if unat slot \<ge> MAX_GROUP_MEMBERS then [] else gm_name (g_members g ! unat slot))"

section \<open>The slots\<close>

lemma first_slot_Some:
  "first_slot P ms = Some i \<longleftrightarrow> i < length ms \<and> P (ms ! i) \<and> (\<forall>j<i. \<not> P (ms ! j))"
proof (induction ms arbitrary: i)
  case (Cons m ms)
  then show ?case by (cases i) (auto simp: less_Suc_eq_0_disj)
qed simp

lemma first_slot_None: "first_slot P ms = None \<longleftrightarrow> (\<forall>m \<in> set ms. \<not> P m)"
  by (induction ms) auto

definition taken :: "GroupMgr \<Rightarrow> nat" where
  "taken g = length (filter (\<lambda>m. gm_name m \<noteq> []) (g_members g))"

definition group_ok :: "GroupMgr \<Rightarrow> bool" where
  "group_ok g \<longleftrightarrow> length (g_members g) = MAX_GROUP_MEMBERS \<and> g_memberCount g = of_nat (taken g)"

definition slot_name :: "GroupMgr \<Rightarrow> nat \<Rightarrow> string option" where
  "slot_name g i = (if i < length (g_members g) \<and> gm_name (g_members g ! i) \<noteq> [] then Some (gm_name (g_members g ! i)) else None)"

lemma group_ok_new: "group_ok new_GroupMgr"
  by (simp add: group_ok_def new_GroupMgr_def taken_def empty_member_def MAX_GROUP_MEMBERS_def)

lemma filter_update:
  "i < length xs \<Longrightarrow> length (filter P (xs[i := x])) + (if P (xs ! i) then 1 else 0) = length (filter P xs) + (if P x then 1 else 0)"
proof (induction xs arbitrary: i)
  case (Cons y xs)
  then show ?case by (cases i) auto
qed simp

definition put_member :: "(string \<Rightarrow> ptr option) \<Rightarrow> string \<Rightarrow> GroupMgr \<Rightarrow> (nat \<times> GroupMgr) option" where
  "put_member fp name g = map_option (\<lambda>i. (i, fst (add_name fp name g))) (first_slot (\<lambda>m. gm_name m = []) (g_members g))"

interpretation group: slot_table slot_name "put_member fp" MAX_GROUP_MEMBERS group_ok "\<lambda>n. n \<noteq> []" for fp
proof unfold_locales
  fix g :: "GroupMgr" and name :: string and n
  assume a: "group_ok g" "name \<noteq> []" "n < MAX_GROUP_MEMBERS" "slot_name g n = None" "\<forall>i<n. slot_name g i \<noteq> None"
  let ?m = "\<lparr>gm_name = name, gm_spawn = fp name\<rparr>"
  have l: "n < length (g_members g)" using a by (simp add: group_ok_def)
  then have f: "first_slot (\<lambda>m. gm_name m = []) (g_members g) = Some n"
    unfolding first_slot_Some using a(4,5) by (auto simp: slot_name_def split: if_splits)
  have t: "length (filter (\<lambda>m. gm_name m \<noteq> []) ((g_members g)[n := ?m])) = taken g + 1"
    using filter_update [OF l, of "\<lambda>m. gm_name m \<noteq> []" ?m] a(2,4) l by (auto simp: taken_def slot_name_def split: if_splits)
  let ?g = "fst (add_name fp name g)"
  have "group_ok ?g" using a(1,2) f t by (simp add: add_name_def Let_def group_ok_def taken_def)
  moreover have "slot_name ?g = (slot_name g)(n \<mapsto> name)"
    using a(2) f l by (auto simp: add_name_def Let_def slot_name_def fun_eq_iff nth_list_update)
  ultimately show "\<exists>s'. put_member fp name g = Some (n, s') \<and> group_ok s' \<and> slot_name s' = (slot_name g)(n \<mapsto> name)"
    using f by (simp add: put_member_def)
next
  fix g :: "GroupMgr" and name :: string
  assume "group_ok g" "\<forall>i<MAX_GROUP_MEMBERS. slot_name g i \<noteq> None"
  then have "first_slot (\<lambda>m. gm_name m = []) (g_members g) = None"
    unfolding first_slot_None by (auto simp: slot_name_def group_ok_def in_set_conv_nth split: if_splits)
  then show "put_member fp name g = None" by (simp add: put_member_def)
qed

end
