(* ===== verification/GroupProps.thy ===== *)
theory GroupProps
  imports GroupMgr SpawnShellProps
begin

text \<open>
  The group and the spawn shell, connected as \<open>src/src/daemonapp.cpp\<close> connects them: the signals
  \<open>addItem\<close>, \<open>delItem\<close> and \<open>killSpawn\<close> of the shell are slots of the group, and no other signal is.
\<close>

section \<open>The slots of the group\<close>

datatype group_op = Follow bytes | Disband string | SigAdd ptr obj | SigDel ptr obj | SigKill ptr obj

fun group_step :: "(string \<Rightarrow> ptr option) \<Rightarrow> string \<Rightarrow> group_op \<Rightarrow> GroupMgr \<Rightarrow> (GroupMgr \<times> group_event list) option" where
  "group_step fp me (Follow data) g = addGroupMember fp data g"
| "group_step fp me (Disband name) g = Some (removeGroupMember fp me name g)"
| "group_step fp me (SigAdd a ob) g = Some (g_addItem a ob g, [])"
| "group_step fp me (SigDel a ob) g = Some (g_delItem a ob g, [])"
| "group_step fp me (SigKill a ob) g = Some (g_killSpawn a ob g, [])"

fun group_accepts :: "group_op \<Rightarrow> bool" where
  "group_accepts (Follow data) = (64 \<le> length data)"
| "group_accepts (Disband name) = (name \<noteq> [])"
| "group_accepts _ = True"

lemma follow_name_returns: "n \<le> length data \<Longrightarrow> \<exists>name. follow_name n data = Some name"
proof (induction n arbitrary: data)
  case (Suc n)
  then obtain b bs where "data = b # bs" "n \<le> length bs" by (cases data) auto
  then show ?case using Suc.IH [of bs] by auto
qed simp

lemma group_ok_same_names:
  assumes "group_ok g" "i < length (g_members g)" "gm_name m = gm_name (g_members g ! i)"
  shows "group_ok (g\<lparr>g_members := (g_members g)[i := m], g_membersInZoneCount := c\<rparr>)"
  using assms filter_update [OF assms(2), of "\<lambda>m. gm_name m \<noteq> []" m] by (auto simp: group_ok_def taken_def split: if_splits)

lemma group_ok_signals: "group_ok g \<Longrightarrow> group_ok (g_addItem a ob g)" "group_ok g \<Longrightarrow> group_ok (g_delItem a ob g)"
    "group_ok g \<Longrightarrow> group_ok (g_killSpawn a ob g)"
  by (auto simp: g_addItem_def g_delItem_def g_killSpawn_def first_slot_Some intro!: group_ok_same_names split: option.splits)

lemma group_ok_add_name: "group_ok g \<Longrightarrow> group_ok (fst (add_name fp name g))"
proof (cases "name = [] \<or> first_slot (\<lambda>m. gm_name m = []) (g_members g) = None")
  case False
  assume ok: "group_ok g"
  then obtain i where i: "first_slot (\<lambda>m. gm_name m = []) (g_members g) = Some i" using False by auto
  then have "put_member fp name g = Some (i, fst (add_name fp name g))" by (simp add: put_member_def)
  from group.put_Some [OF ok _ this] show ?thesis using False by simp
qed (auto simp: add_name_def)

lemma taken_remove:
  assumes "i < length (g_members g)" "gm_name (g_members g ! i) \<noteq> []"
  shows "taken g = Suc (length (filter (\<lambda>m. gm_name m \<noteq> []) ((g_members g)[i := empty_member])))"
  using filter_update [OF assms(1), of "\<lambda>m. gm_name m \<noteq> []" empty_member] assms(2)
  by (simp add: taken_def empty_member_def)

lemma group_ok_remove:
  assumes ok: "group_ok g" and n: "name \<noteq> []"
  shows "group_ok (fst (removeGroupMember fp me name g))"
proof (cases "name = me \<or> first_slot (\<lambda>m. gm_name m = name) (g_members g) = None")
  case True
  then show ?thesis using ok by (auto simp: removeGroupMember_def group_ok_def taken_def empty_member_def)
next
  case False
  then obtain i where i: "first_slot (\<lambda>m. gm_name m = name) (g_members g) = Some i" by auto
  then have l: "i < length (g_members g)" "gm_name (g_members g ! i) = name" by (auto simp: first_slot_Some)
  show ?thesis using ok i l taken_remove [OF l(1)] n False
    by (simp add: removeGroupMember_def Let_def group_ok_def) (simp add: taken_def)
qed

lemma taken_bound: "length (g_members g) = MAX_GROUP_MEMBERS \<Longrightarrow> taken g \<le> MAX_GROUP_MEMBERS"
  by (metis taken_def length_filter_le)

interpretation group_machine: machine "group_step fp me" group_ok group_accepts for fp me
proof unfold_locales
  fix g :: GroupMgr and p
  assume ok: "group_ok g" and acc: "group_accepts p"
  show "\<exists>g' es. group_step fp me p g = Some (g', es) \<and> group_ok g'"
  proof (cases p)
    case (Follow data)
    then obtain name where "follow_name 64 data = Some name" using acc follow_name_returns [of 64 data] by auto
    then show ?thesis using Follow group_ok_add_name [OF ok, of fp name]
      by (cases "add_name fp name g") (auto simp: addGroupMember_def)
  next
    case (Disband name)
    then show ?thesis using acc group_ok_remove [OF ok, of name fp me]
      by (cases "removeGroupMember fp me name g") auto
  qed (use ok in \<open>auto intro: group_ok_signals\<close>)
qed

text \<open>C22: However members join, leave and disband the group and whatever spawns come, go and die, the group
  has six slots, its count of members is the number of slots with a name and never wraps; the names
  of the first six that join an empty group fill the slots in order. The one exception is a packet
  that disbands the empty name: it is equal to the name of a free slot, and the count goes below the
  number of members, to \<open>2 ^ 64 - 1\<close> in an empty group.\<close>

theorem group_members_counted:
  assumes "list_all group_accepts ops" "length names \<le> MAX_GROUP_MEMBERS" "list_all (\<lambda>n. n \<noteq> []) names" "me \<noteq> []"
  shows "(\<exists>g es. run (group_step fp me) ops new_GroupMgr = Some (g, es) \<and> length (g_members g) = MAX_GROUP_MEMBERS
      \<and> unat (g_memberCount g) = length (filter (\<lambda>m. gm_name m \<noteq> []) (g_members g)) \<and> unat (g_memberCount g) \<le> MAX_GROUP_MEMBERS)
    \<and> (\<exists>g. put_all (put_member fp) names new_GroupMgr = Some ([0..<length names], g)
      \<and> (\<forall>i < length names. memberNameBySlot (of_nat i) g = names ! i) \<and> unat (g_memberCount g) = length names)
    \<and> g_memberCount (fst (removeGroupMember fp me [] new_GroupMgr)) = - 1"
proof (intro conjI)
  obtain g es where g: "run (group_step fp me) ops new_GroupMgr = Some (g, es)" "group_ok g"
    using group_machine.run_ok [OF group_ok_new assms(1)] by blast
  have t: "taken g \<le> 6" using g(2) taken_bound [of g] by (simp add: group_ok_def MAX_GROUP_MEMBERS_def)
  then have "unat (g_memberCount g) = taken g" using g(2) by (simp add: group_ok_def unat_of_nat)
  then show "\<exists>g es. run (group_step fp me) ops new_GroupMgr = Some (g, es) \<and> length (g_members g) = MAX_GROUP_MEMBERS
      \<and> unat (g_memberCount g) = length (filter (\<lambda>m. gm_name m \<noteq> []) (g_members g)) \<and> unat (g_memberCount g) \<le> MAX_GROUP_MEMBERS"
    using g t by (auto simp: group_ok_def taken_def MAX_GROUP_MEMBERS_def)
next
  have "\<forall>i. slot_name new_GroupMgr i = None" by (simp add: slot_name_def new_GroupMgr_def empty_member_def)
  then obtain g where g: "put_all (put_member fp) names new_GroupMgr = Some ([0..<length names], g)" "group_ok g"
    "\<forall>i. slot_name g i = (if i < length names then Some (names ! i) else None)"
    using group.fill [OF group_ok_new _ _ assms(2)] assms(3) by blast
  have len: "length (g_members g) = 6" using g(2) by (simp add: group_ok_def MAX_GROUP_MEMBERS_def)
  have l6: "length names \<le> 6" using assms(2) by (simp add: MAX_GROUP_MEMBERS_def)
  have slot: "gm_name (g_members g ! i) = (if i < length names then names ! i else [])" if "i < 6" for i
    using g(3) [rule_format, of i] that len assms(3) by (auto simp: slot_name_def list_all_length split: if_splits)
  have names: "memberNameBySlot (of_nat i) g = names ! i" if "i < length names" for i
  proof -
    have "unat (of_nat i :: u16) = i" using that l6 by (simp add: unat_of_nat)
    then show ?thesis using slot [of i] that l6 by (simp add: memberNameBySlot_def MAX_GROUP_MEMBERS_def)
  qed
  have "{i. i < 6 \<and> gm_name (g_members g ! i) \<noteq> []} = {i. i < length names}"
    using slot l6 assms(3) by (auto simp: list_all_length split: if_splits)
  then have "taken g = length names" using len by (simp add: taken_def length_filter_conv_card)
  then have "unat (g_memberCount g) = length names" using g(2) l6 by (simp add: group_ok_def unat_of_nat)
  then show "\<exists>g. put_all (put_member fp) names new_GroupMgr = Some ([0..<length names], g)
      \<and> (\<forall>i < length names. memberNameBySlot (of_nat i) g = names ! i) \<and> unat (g_memberCount g) = length names"
    using g(1) names by blast
next
  show "g_memberCount (fst (removeGroupMember fp me [] new_GroupMgr)) = - 1"
    using assms(4) by (simp add: removeGroupMember_def new_GroupMgr_def empty_member_def MAX_GROUP_MEMBERS_def Let_def eval_nat_numeral)
qed

theorem group_members_counted_witness:
  "(\<exists>g es. run (group_step (\<lambda>_. None) ''You'') [Follow (66 # replicate 63 0), Disband ''B'', SigAdd 1 (OSpawn sample_bob)] new_GroupMgr = Some (g, es)
      \<and> length (g_members g) = MAX_GROUP_MEMBERS \<and> unat (g_memberCount g) = length (filter (\<lambda>m. gm_name m \<noteq> []) (g_members g))
      \<and> unat (g_memberCount g) \<le> MAX_GROUP_MEMBERS)
    \<and> (\<exists>g. put_all (put_member (\<lambda>_. None)) [''A'', ''B''] new_GroupMgr = Some ([0..<length [''A'', ''B'']], g)
      \<and> (\<forall>i < length [''A'', ''B'']. memberNameBySlot (of_nat i) g = [''A'', ''B''] ! i) \<and> unat (g_memberCount g) = length [''A'', ''B''])
    \<and> g_memberCount (fst (removeGroupMember (\<lambda>_. None) ''You'' [] new_GroupMgr)) = - 1"
  by (rule group_members_counted) (simp_all add: MAX_GROUP_MEMBERS_def)

section \<open>The group and the zone\<close>

fun group_signal :: "shell_event \<Rightarrow> GroupMgr \<Rightarrow> GroupMgr" where
  "group_signal (EAddItem a ob) g = g_addItem a ob g"
| "group_signal (EDelItem a ob) g = g_delItem a ob g"
| "group_signal (EKillSpawn a ob killer k) g = g_killSpawn a ob g"
| "group_signal _ g = g"

definition zone_step :: "shell_env \<times> shell_packet \<Rightarrow> SpawnShell \<times> GroupMgr \<Rightarrow> ((SpawnShell \<times> GroupMgr) \<times> shell_event list) option" where
  "zone_step ep sg = do { (sh, es) \<leftarrow> shell_step ep (fst sg); Some ((sh, fold group_signal es (snd sg)), es) }"

lemma add_levels_dangling:
  assumes "i < length ms" "gm_spawn (ms ! i) = Some a" "sh_heap sh a = None"
  shows "add_levels sh ms n = None"
  using assms
proof (induction ms arbitrary: i n)
  case (Cons m ms)
  show ?case
  proof (cases i)
    case 0
    then show ?thesis using Cons.prems by simp
  next
    case (Suc j)
    then have "add_levels sh ms n' = None" for n' using Cons by auto
    then show ?thesis by (auto split: option.splits obj.splits)
  qed
qed simp

text \<open>C21: A change of zone leaves the group with dangling pointers. The spawn shell deletes its spawns
  and announces that with \<open>clearItems\<close> only, to which the group is not connected: a member that was in
  the zone still points at the spawn that has been deleted, \<open>memberBySlot\<close> hands the pointer out and
  \<open>totalLevels\<close> follows it. (The comment in \<open>GroupMgr::player\<close> expects \<open>delItem\<close> for every spawn of the
  old zone.)\<close>

theorem zone_leaves_dangling_member:
  assumes ok: "shell_ok sh" and o: "order_ok env" and i: "i < MAX_GROUP_MEMBERS" "length (g_members g) = MAX_GROUP_MEMBERS"
    and m: "gm_spawn (g_members g ! i) = Some a" "sh_spawns sh k = Some a" and c: "g_memberCount g \<noteq> 0"
  shows "\<exists>sh' es. zone_step (env, PZone) (sh, g) = Some ((sh', g), es) \<and> memberBySlot (of_nat i) g = Some a
    \<and> sh_heap sh' a = None \<and> totalLevels sh' g = None"
proof -
  obtain p where p: "get_player sh = Some p" "sh_heap sh player_ptr = Some (OPlayer p)" using get_player_ok [OF ok] by auto
  let ?sh = "sh\<lparr>sh_heap := cleared_heap sh, sh_spawns := Map.empty, sh_doors := Map.empty,
     sh_drops := Map.empty, sh_players := [0 \<mapsto> player_ptr], sh_cntDead := 0, sh_posDead := 0, sh_deadID := replicate MAX_DEAD_SPAWNIDS 0\<rparr>"
  have a: "sh_heap ?sh a = None" using m(2) by (auto simp: cleared_heap_def ran_def)
  have "add_levels ?sh (g_members g) 0 = None" by (rule add_levels_dangling [of i]) (use i m(1) a in auto)
  then have "totalLevels ?sh g = None" using c by (cases "get_player ?sh") (simp_all add: totalLevels_def)
  moreover have "memberBySlot (of_nat i) g = Some a"
  proof -
    have "unat (of_nat i :: u16) = i" using i(1) by (simp add: MAX_GROUP_MEMBERS_def unat_of_nat)
    then show ?thesis using i(1) m(1) by (simp add: memberBySlot_def)
  qed
  moreover have "zone_step (env, PZone) (sh, g) = Some ((?sh, g), [EClearItems, EChangeItem player_ptr (OPlayer p) tSpawnChangedALL])"
    by (simp add: zone_step_def shell_clear_eq [OF o ok p(1)])
  ultimately show ?thesis using a by blast
qed

definition sample_group :: GroupMgr where
  "sample_group = \<lparr>g_members = \<lparr>gm_name = ''Bob'', gm_spawn = Some 1\<rparr> # replicate 5 empty_member, g_memberCount = 1, g_membersInZoneCount = 1\<rparr>"

theorem zone_leaves_dangling_member_witness:
  "\<exists>sh' es. zone_step (sample_env, PZone) (sample_zone, sample_group) = Some ((sh', sample_group), es)
    \<and> memberBySlot (of_nat 0) sample_group = Some 1 \<and> sh_heap sh' 1 = None \<and> totalLevels sh' sample_group = None"
  by (rule zone_leaves_dangling_member [OF sample_zone_ok(1) sample_order _ _ _ sample_zone_ok(4)])
    (simp_all add: sample_group_def MAX_GROUP_MEMBERS_def)

text \<open>The death of a member in the zone goes unnoticed. When the spawn shell emits \<open>killSpawn\<close>, the spawn
  has already been made a corpse and renamed: it is no player any more, so the group ignores the
  signal, and it ignores the \<open>delItem\<close> of the corpse for the same reason. The slot keeps the pointer
  and the count of members in the zone keeps the dead one; when the member returns, he is counted
  again.\<close>

theorem dead_member_stays_counted:
  assumes ok: "shell_ok sh" and d: "read_corpse dd = Some d" and p: "get_player sh = Some p" "nc_spawnId d \<noteq> m_ID p" "nc_killerId d \<noteq> m_ID p"
    and s: "view sh (ucast (nc_spawnId d)) = Some s" and del: "eqtohuint16 data 0 = Some (nc_spawnId d)"
  shows "\<exists>sh' es. run zone_step [(env, PDeath dd), (env, PDelete data)] (sh, g) = Some ((sh', g), es) \<and> view sh' (ucast (nc_spawnId d)) = None"
proof -
  let ?k = "ucast (nc_spawnId d) :: u32"
  obtain a where a: "sh_spawns sh ?k = Some a" using s by (auto simp: view_def split: option.splits)
  obtain s0 where s0: "sh_heap sh a = Some (OSpawn s0)" "m_type s0 = tSpawn" using heap_class(1) [OF ok a] by auto
  have "s0 = s" using s a s0(1) by (simp add: view_def)
  then have hs: "sh_heap sh a = Some (OSpawn s)" "m_type s = tSpawn" using s0 by auto
  let ?c = "corpse_of env s" and ?sh1 = "put_obj a (corpse_of env s) sh"
  have irr: "\<not> relevant ?c" using corpse_of_spawn [OF hs(2), of env] by (auto simp: relevant_def)
  have 1: "zone_step (env, PDeath dd) (sh, g) = Some ((?sh1, g), [EKillSpawn a ?c (sh_spawns sh (ucast (nc_killerId d))) (nc_killerId d)])"
    using killSpawn_eq [OF ok d p a hs(1), of env] irr by (simp add: zone_step_def g_killSpawn_def)
  have nd: "sh_spawns (note_dead (nc_spawnId d) ?sh1) = sh_spawns sh" "sh_heap (note_dead (nc_spawnId d) ?sh1) = sh_heap ?sh1"
    by (simp_all add: note_dead_def Let_def)
  obtain sh2 es2 where 2: "zone_step (env, PDelete data) (?sh1, g) = Some ((sh2, g), es2)" "sh_spawns sh2 ?k = None"
    using del a irr by (auto simp: zone_step_def deleteSpawn_def deleteItem_def nd get_obj_def Let_def g_delItem_def)
  then show ?thesis using 1 by (auto simp: view_def)
qed

theorem dead_member_stays_counted_witness:
  "\<exists>sh' es. run zone_step [(sample_env, PDeath sample_death), (sample_env, PDelete [7, 0])] (sample_zone, sample_group) = Some ((sh', sample_group), es)
     \<and> view sh' (ucast (nc_spawnId \<lparr>nc_spawnId = 7, nc_killerId = 9\<rparr>)) = None"
proof (rule dead_member_stays_counted [OF sample_zone_ok(1) sample_death_read sample_zone_ok(2)])
  show "view sample_zone (ucast (nc_spawnId \<lparr>nc_spawnId = 7, nc_killerId = 9\<rparr>)) = Some sample_bob" using sample_zone_ok(3) by simp
qed (simp_all add: sample_player_type eqtohuint16_Some)

end
