(* ===== verification/EqStr.thy ===== *)
theory EqStr
  imports Strings Filters Spawn
begin

text \<open>
  \<open>src/src/eqstr.h\<close> and \<open>src/src/eqstr.cpp\<close>: the table of message templates, and the substitution of
  the arguments of a packet into a template. The two loops of \<open>formatMessage\<close> search the string
  they change, so they need not end: the loop is a partial function, whose value \<open>None\<close> means that
  it never returns, and an argument that does not exist is the outcome \<open>Fault\<close>.

  The file is the list of its lines; the conversion of text to numbers and of bytes to text is the
  library's (\<open>eqstr_env\<close>).
\<close>

record eqstr_env =
  es_utf8 :: "bytes \<Rightarrow> string"
  es_toULong :: "string \<Rightarrow> u64"
  es_toInt :: "string \<Rightarrow> int option"

record EQStr =
  es_messageStrings :: "u32 \<Rightarrow> string option"
  es_loaded :: bool

definition new_EQStr :: EQStr where
  "new_EQStr = \<lparr>es_messageStrings = Map.empty, es_loaded = False\<rparr>"

text \<open>The lines after the first two are a number, a space and the text.\<close>

definition format_line :: "eqstr_env \<Rightarrow> string \<Rightarrow> u32 \<times> string" where
  "format_line env l =
     (let spc = (case index_of (CHR '' '') l of None \<Rightarrow> - 1 | Some i \<Rightarrow> int i)
      in (ucast (es_toULong env (q_left spc l)), drop (nat (spc + 1)) l))"

fun insert_formats :: "eqstr_env \<Rightarrow> string list \<Rightarrow> (u32 \<Rightarrow> string option) \<Rightarrow> (u32 \<Rightarrow> string option)" where
  "insert_formats env [] m = m"
| "insert_formats env (l # ls) m = (let (k, v) = format_line env l in insert_formats env ls (m(k \<mapsto> v)))"

text \<open>The first two lines are read without a look at the end of the list.\<close>

definition es_load :: "eqstr_env \<Rightarrow> string list option \<Rightarrow> EQStr \<Rightarrow> (bool \<times> EQStr) option" where
  "es_load env file es = (case file of
     None \<Rightarrow> Some (False, es\<lparr>es_messageStrings := Map.empty\<rparr>)
   | Some (magicString # cnt # ls) \<Rightarrow>
       Some (True, es\<lparr>es_messageStrings := insert_formats env ls Map.empty, es_loaded := True\<rparr>)
   | Some _ \<Rightarrow> None)"

definition es_find :: "EQStr \<Rightarrow> u32 \<Rightarrow> string" where
  "es_find es formatid = (case es_messageStrings es formatid of None \<Rightarrow> [] | Some s \<Rightarrow> s)"

definition es_message :: "EQStr \<Rightarrow> u32 \<Rightarrow> string" where
  "es_message es formatid = (let res = es_find es formatid
     in if res \<noteq> [] then res else ''Unknown: '' @ hex_string (unat formatid))"

section \<open>The arguments of a packet\<close>

text \<open>Strings that end with a zero byte or with the packet; an empty one ends the list.\<close>

function split_args :: "(bytes \<Rightarrow> string) \<Rightarrow> bytes \<Rightarrow> string list" where
  "split_args utf8 bs =
     (let a = takeWhile (\<lambda>b. b \<noteq> 0) bs
      in if a = [] then [] else utf8 a # split_args utf8 (drop (Suc (length a)) bs))"
  by pat_completeness auto
termination
proof (relation "measure (\<lambda>(utf8, bs). length bs)")
  fix utf8 :: "bytes \<Rightarrow> string" and bs a :: bytes
  assume "a = takeWhile (\<lambda>b. b \<noteq> 0) bs" "a \<noteq> []"
  then show "((utf8, drop (Suc (length a)) bs), utf8, bs) \<in> measure (\<lambda>(utf8, bs). length bs)"
    by (cases bs) auto
qed simp

declare split_args.simps [simp del]

section \<open>Placeholders\<close>

text \<open>\<open>%T(\d{1,3})\<close> and \<open>%(\d{1,3})\<close>: the first place from an offset on where the prefix is followed by
  digits, at most three of them. The result is the start of the digits and the digits.\<close>

definition digits3 :: "string \<Rightarrow> string" where "digits3 s = take 3 (takeWhile is_digit s)"

fun match_from :: "string \<Rightarrow> string \<Rightarrow> nat \<Rightarrow> (nat \<times> string) option" where
  "match_from p [] i = None"
| "match_from p (c # s) i =
     (if startsWith p (c # s) \<and> digits3 (drop (length p) (c # s)) \<noteq> []
      then Some (i + length p, digits3 (drop (length p) (c # s))) else match_from p s (Suc i))"

definition rx_match :: "string \<Rightarrow> string \<Rightarrow> nat \<Rightarrow> (nat \<times> string) option" where
  "rx_match p s pos = match_from p (drop pos s) pos"

datatype outcome = Fault | Done string

partial_function (option) subst_loop ::
  "string \<Rightarrow> (string \<Rightarrow> nat \<Rightarrow> string \<Rightarrow> (string \<times> nat) option) \<Rightarrow> string \<Rightarrow> nat \<Rightarrow> outcome option" where
  "subst_loop p f s pos =
     (case rx_match p s pos of
        None \<Rightarrow> Some (Done s)
      | Some (i, cap) \<Rightarrow>
          (case f s i cap of
             None \<Rightarrow> Some Fault
           | Some (s', pos') \<Rightarrow> subst_loop p f s' pos'))"

text \<open>\<open>argList[substArg - 1]\<close> when \<open>substArg\<close> is not above the number of arguments.\<close>

definition arg_at :: "string list \<Rightarrow> nat \<Rightarrow> string option" where
  "arg_at args n = (if 0 < n \<and> n \<le> length args then Some (args ! (n - 1)) else None)"

text \<open>A template placeholder names an argument that is the number of another message.\<close>

definition template_text :: "eqstr_env \<Rightarrow> EQStr \<Rightarrow> string \<Rightarrow> string" where
  "template_text env es arg = (case es_toInt env arg of None \<Rightarrow> [] | Some v \<Rightarrow> es_find es (word_of_int v))"

definition template_step :: "eqstr_env \<Rightarrow> EQStr \<Rightarrow> string list \<Rightarrow> string \<Rightarrow> nat \<Rightarrow> string \<Rightarrow> (string \<times> nat) option" where
  "template_step env es args s curPos cap = do {
     res \<leftarrow> (if digits_value cap \<le> length args
             then map_option (template_text env es) (arg_at args (digits_value cap)) else Some []);
     let s' = replace_at (curPos - 2) (length cap + 2) res s;
     Some (s', if res \<noteq> [] then curPos else curPos + length cap)
   }"

text \<open>Of an argument with fields only the last one is used, without its apostrophe.\<close>

definition arg_text :: "string \<Rightarrow> string" where
  "arg_text sub =
     (if CHR ''^'' \<in> set sub
      then let t = after_last (CHR ''^'') sub in if startsWith [CHR 0x27] t then drop 1 t else t
      else sub)"

definition arg_step :: "string list \<Rightarrow> string \<Rightarrow> nat \<Rightarrow> string \<Rightarrow> (string \<times> nat) option" where
  "arg_step args s curPos cap =
     (if digits_value cap \<le> length args
      then do {
        sub \<leftarrow> arg_at args (digits_value cap);
        Some (replace_at (curPos - 1) (length cap + 1) (arg_text sub) s, curPos)
      }
      else Some (replace_at (curPos - 1) (length cap + 1) [] s, curPos + length cap))"

definition unknown_format :: "u32 \<Rightarrow> string list \<Rightarrow> string" where
  "unknown_format formatid args = (let h = hex_string (unat formatid)
     in ''Unknown: '' @ replicate (4 - length h) (CHR ''0'') @ h @ '':'' @ concat (map (\<lambda>a. CHR '' '' # a) args))"

definition formatMessage :: "eqstr_env \<Rightarrow> EQStr \<Rightarrow> u32 \<Rightarrow> bytes \<Rightarrow> outcome option" where
  "formatMessage env es formatid arguments =
     (let args = split_args (es_utf8 env) arguments; fmt = es_find es formatid
      in if fmt = [] then Some (Done (unknown_format formatid args))
         else case subst_loop ''%T'' (template_step env es args) fmt 0 of
             Some (Done s) \<Rightarrow> subst_loop ''%'' (arg_step args) s 0
           | r \<Rightarrow> r)"

end
