(* ===== verification/EqStrProps.thy ===== *)
theory EqStrProps
  imports EqStr
begin

text \<open>
  The properties of the message templates: when the substitution equals a single pass over the
  template, when it returns, and an argument with which it never returns.
\<close>

section \<open>Searching a placeholder\<close>

lemma digits3_append: "digits3 s @ drop (length (digits3 s)) s = s"
proof -
  have "digits3 s = take (min 3 (length (takeWhile is_digit s))) s"
    unfolding digits3_def by (subst takeWhile_eq_take) simp
  then show ?thesis by (metis append_take_drop_id length_take min_def take_all_iff nat_le_linear)
qed

lemma match_from_Some:
  "match_from p s i = Some (j, cap) \<Longrightarrow> p \<noteq> [] \<Longrightarrow>
     \<exists>w rest. s = w @ p @ cap @ rest \<and> j = i + length w + length p \<and> cap \<noteq> []"
proof (induction s arbitrary: i)
  case (Cons c s)
  show ?case
  proof (cases "startsWith p (c # s) \<and> digits3 (drop (length p) (c # s)) \<noteq> []")
    case True
    let ?d = "digits3 (drop (length p) (c # s))"
    have "c # s = p @ drop (length p) (c # s)" using True by (metis append_take_drop_id startsWith_def)
    then have "c # s = [] @ p @ ?d @ drop (length ?d) (drop (length p) (c # s))" by (simp only: digits3_append append_Nil)
    then show ?thesis using Cons.prems(1) True by fastforce
  next
    case False
    then obtain w rest where "s = w @ p @ cap @ rest" "j = Suc i + length w + length p" "cap \<noteq> []"
      using Cons.IH [of "Suc i"] Cons.prems False by (simp split: if_splits) blast+
    then have "c # s = (c # w) @ p @ cap @ rest \<and> j = i + length (c # w) + length p \<and> cap \<noteq> []" by simp
    then show ?thesis by blast
  qed
qed simp

lemma match_from_skip: "p = CHR ''%'' # q \<Longrightarrow> CHR ''%'' \<notin> set v \<Longrightarrow> match_from p (v @ s) i = match_from p s (i + length v)"
  by (induction v arbitrary: i) (auto simp: startsWith_def)

lemma rx_match_append:
  assumes "pos \<le> length u" "CHR ''%'' \<notin> set (drop pos u)" "p = CHR ''%'' # q"
  shows "rx_match p (u @ s) pos = match_from p s (length u)"
  using match_from_skip [OF assms(3,2), of s pos] assms(1) by (simp add: rx_match_def)

lemma rx_match_Some:
  assumes "rx_match p s pos = Some (i, cap)" "p \<noteq> []"
  obtains w rest where "s = w @ p @ cap @ rest" "i = length w + length p" "pos \<le> length w" "cap \<noteq> []"
proof -
  obtain v rest where v: "drop pos s = v @ p @ cap @ rest" "i = pos + length v + length p" "cap \<noteq> []"
    using match_from_Some [OF assms(1) [unfolded rx_match_def] assms(2)] by blast
  then have "pos < length s" using assms(2) by (cases "pos < length s") auto
  then have "s = (take pos s @ v) @ p @ cap @ rest" "length (take pos s @ v) = pos + length v"
    using v(1) by (metis append.assoc append_take_drop_id, simp)
  with that v show ?thesis by (metis le_add1)
qed

section \<open>The loop returns\<close>

definition percents :: "string \<Rightarrow> nat" where "percents s = count_list s (CHR ''%'')"

lemma percents_simps [simp]: "percents [] = 0" "percents (u @ v) = percents u + percents v"
  "percents (c # s) = (if c = CHR ''%'' then 1 else 0) + percents s"
  by (simp_all add: percents_def)

lemma percents_0 [simp]: "percents s = 0 \<longleftrightarrow> CHR ''%'' \<notin> set s"
  by (simp add: percents_def count_list_0_iff)

lemma percents_drop: "percents (drop n s) \<le> percents s"
  by (metis append_take_drop_id le_add2 percents_simps(2))

lemma subst_loop_returns:
  assumes p: "p = CHR ''%'' # q"
    and step: "\<And>w cap rest s' pos'. cap \<noteq> [] \<Longrightarrow> f (w @ p @ cap @ rest) (length w + length p) cap = Some (s', pos')
        \<Longrightarrow> percents (drop pos' s') \<le> percents rest"
  shows "\<exists>r. subst_loop p f s pos = Some r"
proof (induction "percents (drop pos s)" arbitrary: s pos rule: less_induct)
  case less
  show ?case
  proof (cases "rx_match p s pos")
    case None
    then show ?thesis by (simp add: subst_loop.simps)
  next
    case (Some m)
    then obtain i cap where m: "rx_match p s pos = Some (i, cap)" by (cases m) auto
    then obtain w rest where w: "s = w @ p @ cap @ rest" "i = length w + length p" "pos \<le> length w" "cap \<noteq> []"
      using rx_match_Some [of p s pos i cap] p by blast
    show ?thesis
    proof (cases "f s i cap")
      case None
      then show ?thesis using m by (simp add: subst_loop.simps)
    next
      case (Some r)
      then obtain s' pos' where r: "f s i cap = Some (s', pos')" by (cases r) auto
      then have "percents (drop pos' s') \<le> percents rest" using step w by simp
      then have "percents (drop pos' s') < percents (drop pos s)" using w p by simp
      with less [of pos' s'] show ?thesis using m r by (simp add: subst_loop.simps)
    qed
  qed
qed

lemma replace_placeholder:
  "length u = n \<Longrightarrow> replace_at n (length cap + k) a (u @ (pre @ cap) @ rest) = u @ a @ rest" if "length pre = k"
  using that replace_at_append [of u n "pre @ cap" "length cap + k" a rest] by simp

lemma arg_text_percent: "CHR ''%'' \<notin> set a \<Longrightarrow> CHR ''%'' \<notin> set (arg_text a)"
  using after_last_subset [of "CHR ''^''" a] in_set_dropD [of "CHR ''%''" 1 "after_last (CHR ''^'') a"]
  by (auto simp: arg_text_def Let_def)

lemma arg_at_in: "arg_at args n = Some a \<Longrightarrow> a \<in> set args"
  by (auto simp: arg_at_def split: if_splits)

lemma arg_step_eq:
  "arg_step args (w @ ''%'' @ cap @ rest) (length w + 1) cap =
     (if digits_value cap \<le> length args
      then map_option (\<lambda>a. (w @ arg_text a @ rest, length w + 1)) (arg_at args (digits_value cap))
      else Some (w @ rest, length w + 1 + length cap))"
  using replace_placeholder [where pre = "''%''" and k = 1 and u = w and n = "length w"]
  by (auto simp: arg_step_def split: Option.bind_splits)

lemma percents_step: "CHR ''%'' \<notin> set a \<Longrightarrow> percents (drop (length w + n) (w @ a @ rest)) \<le> percents rest"
proof -
  assume "CHR ''%'' \<notin> set a"
  then have "percents (drop n (a @ rest)) \<le> percents rest"
    using percents_drop [of n "a @ rest"] by (metis add_0 percents_0 percents_simps(2))
  then show ?thesis by simp
qed

lemma arg_loop_returns:
  assumes "\<forall>a \<in> set args. CHR ''%'' \<notin> set a"
  shows "\<exists>r. subst_loop ''%'' (arg_step args) s pos = Some r"
proof (rule subst_loop_returns)
  fix w cap rest s' pos'
  assume a: "arg_step args (w @ ''%'' @ cap @ rest) (length w + length ''%'') cap = Some (s', pos')"
  show "percents (drop pos' s') \<le> percents rest"
  proof (cases "digits_value cap \<le> length args")
    case True
    then obtain b where b: "b \<in> set args" "s' = w @ arg_text b @ rest" "pos' = length w + 1"
      using a arg_step_eq [of args w cap rest] arg_at_in [of args "digits_value cap"]
      by (cases "arg_at args (digits_value cap)") auto
    then have "CHR ''%'' \<notin> set (arg_text b)" using assms arg_text_percent by blast
    then show ?thesis using percents_step [of "arg_text b" w 1 rest] b by simp
  next
    case False
    then have "s' = w @ rest" "pos' = length w + (1 + length cap)" using a arg_step_eq [of args w cap rest] by auto
    then show ?thesis using percents_step [of "[]" w "1 + length cap" rest] by simp
  qed
qed simp

lemma template_step_eq:
  "template_step env es args (w @ ''%T'' @ cap @ rest) (length w + 2) cap = Some (s', pos') \<Longrightarrow>
     \<exists>n a. (a = [] \<or> (\<exists>arg \<in> set args. a = template_text env es arg)) \<and> s' = w @ a @ rest \<and> pos' = length w + n"
  using replace_placeholder [where pre = "''%T''" and k = 2 and u = w and n = "length w"] arg_at_in
  by (fastforce simp: template_step_def Let_def bind_Some_iff split: if_splits)

lemma template_loop_returns:
  assumes "\<forall>a \<in> set args. CHR ''%'' \<notin> set (template_text env es a)"
  shows "\<exists>r. subst_loop ''%T'' (template_step env es args) s pos = Some r"
proof (rule subst_loop_returns)
  fix w cap rest s' pos'
  assume "template_step env es args (w @ ''%T'' @ cap @ rest) (length w + length ''%T'') cap = Some (s', pos')"
  then obtain n a where "a = [] \<or> (\<exists>arg \<in> set args. a = template_text env es arg)" "s' = w @ a @ rest" "pos' = length w + n"
    using template_step_eq [of env es args w cap rest s' pos'] by auto
  then show "percents (drop pos' s') \<le> percents rest" using percents_step [of a w n rest] assms by auto
qed simp

text \<open>C24: the substitution of the arguments returns whenever neither an argument nor a message an
  argument refers to contains a percent sign.\<close>

theorem format_message_returns:
  assumes "\<forall>a \<in> set (split_args (es_utf8 env) arguments). CHR ''%'' \<notin> set a \<and> CHR ''%'' \<notin> set (template_text env es a)"
  shows "\<exists>r. formatMessage env es formatid arguments = Some r"
proof -
  let ?args = "split_args (es_utf8 env) arguments"
  obtain r where "subst_loop ''%T'' (template_step env es ?args) (es_find es formatid) 0 = Some r"
    using template_loop_returns assms by blast
  moreover have "\<exists>r2. subst_loop ''%'' (arg_step ?args) s 0 = Some r2" for s
    using arg_loop_returns [of ?args] assms by blast
  ultimately show ?thesis by (cases r) (simp_all add: formatMessage_def Let_def)
qed

section \<open>The substitution is a single pass\<close>

text \<open>The reference: every placeholder is replaced where it stands.\<close>

function expand :: "string list \<Rightarrow> string \<Rightarrow> string" where
  "expand args [] = []"
| "expand args (c # s) =
     (if c = CHR ''%'' \<and> digits3 s \<noteq> []
      then arg_text (args ! (digits_value (digits3 s) - 1)) @ expand args (drop (length (digits3 s)) s)
      else c # expand args s)"
  by pat_completeness auto
termination by (relation "measure (\<lambda>(args, s). length s)") auto

text \<open>The placeholders of a template, and those of a prefix \<open>p\<close>.\<close>

function placeholders :: "string \<Rightarrow> nat list" where
  "placeholders [] = []"
| "placeholders (c # s) =
     (if c = CHR ''%'' \<and> digits3 s \<noteq> [] then digits_value (digits3 s) # placeholders (drop (length (digits3 s)) s)
      else placeholders s)"
  by pat_completeness auto
termination by (relation "measure length") auto

lemma percent_next:
  "(match_from ''%'' s i = None \<longrightarrow> expand args s = s) \<and>
   (\<forall>j cap. match_from ''%'' s i = Some (j, cap) \<longrightarrow>
     (\<exists>w rest. s = w @ ''%'' @ cap @ rest \<and> j = i + length w + 1
        \<and> expand args s = w @ arg_text (args ! (digits_value cap - 1)) @ expand args rest
        \<and> digits_value cap \<in> set (placeholders s) \<and> set (placeholders rest) \<subseteq> set (placeholders s)))"
proof (induction s arbitrary: i)
  case (Cons c s)
  show ?case
  proof (cases "c = CHR ''%'' \<and> digits3 s \<noteq> []")
    case True
    then have "c # s = [] @ ''%'' @ digits3 s @ drop (length (digits3 s)) s" by (simp add: digits3_append)
    then show ?thesis using True by (fastforce simp: startsWith_def)
  next
    case False
    then have m: "match_from ''%'' (c # s) i = match_from ''%'' s (Suc i)" by (auto simp: startsWith_def)
    have e: "expand args (c # s) = c # expand args s" "placeholders (c # s) = placeholders s" using False by auto
    show ?thesis
    proof (intro conjI allI impI)
      show "match_from ''%'' (c # s) i = None \<Longrightarrow> expand args (c # s) = c # s" using Cons.IH [of "Suc i"] m e by simp
      fix j cap
      assume "match_from ''%'' (c # s) i = Some (j, cap)"
      then have "match_from ''%'' s (Suc i) = Some (j, cap)" using m by simp
      then obtain w rest where "s = w @ ''%'' @ cap @ rest" "j = Suc i + length w + 1"
        "expand args s = w @ arg_text (args ! (digits_value cap - 1)) @ expand args rest"
        "digits_value cap \<in> set (placeholders s)" "set (placeholders rest) \<subseteq> set (placeholders s)"
        using Cons.IH [of "Suc i"] by blast
      then show "\<exists>w rest. c # s = w @ ''%'' @ cap @ rest \<and> j = i + length w + 1
        \<and> expand args (c # s) = w @ arg_text (args ! (digits_value cap - 1)) @ expand args rest
        \<and> digits_value cap \<in> set (placeholders (c # s)) \<and> set (placeholders rest) \<subseteq> set (placeholders (c # s))"
        using e by (intro exI [of _ "c # w"] exI [of _ rest] conjI) simp_all
    qed
  qed
qed simp

lemma arg_loop_expands:
  assumes "\<forall>a \<in> set args. CHR ''%'' \<notin> set a \<and> arg_text a \<noteq> []" "\<forall>n \<in> set (placeholders s). 0 < n \<and> n \<le> length args"
    "pos \<le> length u" "CHR ''%'' \<notin> set (drop pos u)"
  shows "subst_loop ''%'' (arg_step args) (u @ s) pos = Some (Done (u @ expand args s))"
  using assms(2-4)
proof (induction "length s" arbitrary: s u pos rule: less_induct)
  case less
  have m: "rx_match ''%'' (u @ s) pos = match_from ''%'' s (length u)" using rx_match_append less.prems(2,3) by blast
  show ?case
  proof (cases "match_from ''%'' s (length u)")
    case None
    then show ?thesis using m percent_next [of s "length u" args] by (simp add: subst_loop.simps)
  next
    case (Some r)
    then obtain j cap where r: "match_from ''%'' s (length u) = Some (j, cap)" by (cases r) auto
    then obtain w rest where w: "s = w @ ''%'' @ cap @ rest" "j = length u + length w + 1"
      "expand args s = w @ arg_text (args ! (digits_value cap - 1)) @ expand args rest"
      "digits_value cap \<in> set (placeholders s)" "set (placeholders rest) \<subseteq> set (placeholders s)"
      using percent_next [of s "length u" args] by blast
    define t where "t = arg_text (args ! (digits_value cap - 1))"
    have n: "0 < digits_value cap" "digits_value cap \<le> length args" using less.prems(1) w(4) by auto
    then have "args ! (digits_value cap - 1) \<in> set args" by simp
    then have t: "t \<noteq> []" "CHR ''%'' \<notin> set t" using assms(1) arg_text_percent t_def by auto
    have f: "arg_step args (u @ s) j cap = Some ((u @ w @ t) @ rest, j)"
      using arg_step_eq [of args "u @ w" cap rest] n w(1,2) by (simp add: arg_at_def t_def)
    have "CHR ''%'' \<notin> set (drop j (u @ w @ t))" using t w(2) by (auto dest: in_set_dropD)
    moreover have "j \<le> length (u @ w @ t)" "length rest < length s" using t(1) w(1,2) by (cases t; simp)+
    ultimately have "subst_loop ''%'' (arg_step args) ((u @ w @ t) @ rest) j = Some (Done ((u @ w @ t) @ expand args rest))"
      using less.hyps [of rest j "u @ w @ t"] less.prems(1) w(5) by blast
    then show ?thesis using m r f w(3) by (subst subst_loop.simps) (simp add: t_def)
  qed
qed

text \<open>C25: substituting the arguments one after the other in the changing string gives the same as one
  pass over the template, for templates without references to other messages, whose placeholders
  all name an argument of the packet, and arguments that are not empty and have no percent sign.\<close>

theorem format_message_single_pass:
  assumes "es_find es formatid \<noteq> []" "rx_match ''%T'' (es_find es formatid) 0 = None"
    "\<forall>n \<in> set (placeholders (es_find es formatid)). 0 < n \<and> n \<le> length (split_args (es_utf8 env) arguments)"
    "\<forall>a \<in> set (split_args (es_utf8 env) arguments). CHR ''%'' \<notin> set a \<and> arg_text a \<noteq> []"
  shows "formatMessage env es formatid arguments
    = Some (Done (expand (split_args (es_utf8 env) arguments) (es_find es formatid)))"
  using assms arg_loop_expands [OF assms(4,3), of 0 "[]"]
  by (simp add: formatMessage_def Let_def subst_loop.simps [of "''%T''"])

section \<open>An argument with which the loop never returns\<close>

text \<open>The strings of such a run: a placeholder \<open>%1\<close> comes first after the place of the search.\<close>

definition refilled :: "string \<Rightarrow> nat \<Rightarrow> bool" where
  "refilled s pos \<longleftrightarrow> (\<exists>u v. s = u @ ''%1'' @ v \<and> pos \<le> length u \<and> CHR ''%'' \<notin> set (drop pos u)
     \<and> (v = [] \<or> \<not> is_digit (hd v)))"

lemma digits3_one: "v = [] \<or> \<not> is_digit (hd v) \<Longrightarrow> digits3 (CHR ''1'' # v) = ''1''"
  by (cases v) (auto simp: digits3_def is_digit_def)

lemma refilled_step:
  assumes "refilled s pos" "a = w @ ''%1'' @ z" "w \<noteq> []" "CHR ''%'' \<notin> set w" "z = [] \<or> \<not> is_digit (hd z)"
    "CHR ''^'' \<notin> set a" "args = a # as"
  shows "\<exists>i s' pos'. rx_match ''%'' s pos = Some (i, ''1'') \<and> arg_step args s i ''1'' = Some (s', pos') \<and> refilled s' pos'"
proof -
  obtain u v where u: "s = u @ ''%1'' @ v" "pos \<le> length u" "CHR ''%'' \<notin> set (drop pos u)" "v = [] \<or> \<not> is_digit (hd v)"
    using assms(1) by (auto simp: refilled_def)
  have m: "rx_match ''%'' s pos = Some (length u + 1, ''1'')"
    using rx_match_append [OF u(2,3), of "''%''" "[]" "''%1'' @ v"] u(1) digits3_one [OF u(4)] by (simp add: startsWith_def)
  have "arg_step args s (length u + 1) ''1'' = Some (u @ a @ v, length u + 1)"
    using arg_step_eq [of args u "''1''" v] u(1) assms(6,7)
    by (simp add: digits_value_def arg_at_def arg_text_def)
  moreover have "refilled (u @ a @ v) (length u + 1)"
    unfolding refilled_def
  proof (intro exI conjI)
    show "u @ a @ v = (u @ w) @ ''%1'' @ (z @ v)" "length u + 1 \<le> length (u @ w)"
      "CHR ''%'' \<notin> set (drop (length u + 1) (u @ w))" "z @ v = [] \<or> \<not> is_digit (hd (z @ v))"
      using assms(2-5) u(4) by (cases w; cases z; auto)+
  qed
  ultimately show ?thesis using m by blast
qed

lemma refilled_never_returns:
  assumes "refilled s pos" "a = w @ ''%1'' @ z" "w \<noteq> []" "CHR ''%'' \<notin> set w" "z = [] \<or> \<not> is_digit (hd z)"
    "CHR ''^'' \<notin> set a" "args = a # as"
  shows "subst_loop ''%'' (arg_step args) s pos = None"
proof -
  define Q where "Q p f s pos \<longleftrightarrow> p = ''%'' \<and> f = arg_step args \<and> refilled s pos" for p f s pos
  have "\<not> Q p f s pos" if "subst_loop p f s pos = Some r" for p f s pos r
  proof (rule subst_loop.raw_induct [where P = "\<lambda>p f s pos r. \<not> Q p f s pos", OF _ that])
    fix loop p f s pos r
    assume ih: "\<And>p f s pos r. loop p f s pos = Some r \<Longrightarrow> \<not> Q p f s pos"
      and step: "(case rx_match p s pos of None \<Rightarrow> Some (Done s)
        | Some (i, cap) \<Rightarrow> (case f s i cap of None \<Rightarrow> Some Fault | Some (s', pos') \<Rightarrow> loop p f s' pos')) = Some r"
    show "\<not> Q p f s pos"
    proof
      assume a: "Q p f s pos"
      then have q: "p = ''%''" "f = arg_step args" "refilled s pos" unfolding Q_def by blast+
      obtain i s' pos' where "rx_match ''%'' s pos = Some (i, ''1'')" "arg_step args s i ''1'' = Some (s', pos')" "refilled s' pos'"
        using refilled_step [OF q(3) assms(2-7)] by blast
      moreover from this have "loop p f s' pos' = Some r" using step q(1,2) by simp
      ultimately show False using ih [of p f s' pos' r] q(1,2) unfolding Q_def by blast
    qed
  qed
  then have "\<not> Q ''%'' (arg_step args) s pos" if "subst_loop ''%'' (arg_step args) s pos = Some r" for r using that by blast
  then show ?thesis using assms(1) unfolding Q_def by (cases "subst_loop ''%'' (arg_step args) s pos") auto
qed

text \<open>C23: an argument that contains the placeholder \<open>%1\<close> behind its first character makes the
  substitution of \<open>%1\<close> run forever: every replacement puts a new placeholder behind the place from
  which the search goes on. The arguments come from packets, so the text of another player is
  enough.\<close>

theorem format_message_hangs:
  assumes "es_find es formatid = pre @ ''%1'' @ post" "CHR ''%'' \<notin> set pre" "CHR ''%'' \<notin> set post"
    "post = [] \<or> \<not> is_digit (hd post)"
    "split_args (es_utf8 env) arguments = (w @ ''%1'' @ z) # as" "w \<noteq> []" "CHR ''%'' \<notin> set w"
    "CHR ''^'' \<notin> set (w @ z)" "z = [] \<or> \<not> is_digit (hd z)"
  shows "formatMessage env es formatid arguments = None"
proof -
  have "refilled (es_find es formatid) 0"
    using assms(1,2,4) by (fastforce simp: refilled_def)
  then have "subst_loop ''%'' (arg_step ((w @ ''%1'' @ z) # as)) (es_find es formatid) 0 = None"
    using refilled_never_returns [OF _ refl assms(6,7,9)] assms(8) by simp
  moreover have "match_from ''%T'' (pre @ ''%1'' @ post) 0 = None"
    using match_from_skip [OF refl assms(2), of "''T''" "''%1'' @ post" 0]
      match_from_skip [OF refl assms(3), of "''T''" "[]"] by (simp add: startsWith_def)
  ultimately show ?thesis using assms(1,5)
    by (simp add: formatMessage_def Let_def subst_loop.simps [of "''%T''"] rx_match_def)
qed

section \<open>Samples\<close>

definition latin :: "bytes \<Rightarrow> string" where "latin bs = map (\<lambda>b. char_of (unat b)) bs"

definition sample_eqstr_env :: eqstr_env where
  "sample_eqstr_env = \<lparr>es_utf8 = latin, es_toULong = (\<lambda>s. of_nat (digits_value s)), es_toInt = (\<lambda>s. None)\<rparr>"

definition sample_eqstr :: EQStr where
  "sample_eqstr = \<lparr>es_messageStrings = [7 \<mapsto> ''%1 hits %2.''], es_loaded = True\<rparr>"

lemma sample_find: "es_find sample_eqstr 7 = ''%1 hits %2.''"
  by (simp add: es_find_def sample_eqstr_def)

text \<open>The packets with the arguments \<open>Al\<close> and \<open>Bo\<close>, and with \<open>A%1\<close>.\<close>

lemma sample_args:
  "split_args (es_utf8 sample_eqstr_env) [65, 108, 0, 66, 111, 0, 0] = [''Al'', ''Bo'']"
  "split_args (es_utf8 sample_eqstr_env) [65, 37, 49, 0] = [''A%1'']"
  by (simp_all add: split_args.simps sample_eqstr_env_def latin_def char_of_def bit_0)

theorem format_message_returns_witness:
  "\<exists>r. formatMessage sample_eqstr_env sample_eqstr 7 [65, 108, 0, 66, 111, 0, 0] = Some r"
  by (rule format_message_returns) (simp add: sample_args template_text_def, simp add: sample_eqstr_env_def)

theorem format_message_single_pass_witness:
  "formatMessage sample_eqstr_env sample_eqstr 7 [65, 108, 0, 66, 111, 0, 0] = Some (Done ''Al hits Bo.'')"
proof -
  let ?p = "[65, 108, 0, 66, 111, 0, 0] :: bytes"
  have n: "es_find sample_eqstr 7 \<noteq> []" "rx_match ''%T'' (es_find sample_eqstr 7) 0 = None" unfolding sample_find by code_simp+
  have "placeholders (es_find sample_eqstr 7) = [1, 2]" unfolding sample_find by code_simp
  then have ph: "\<forall>n \<in> set (placeholders (es_find sample_eqstr 7)). 0 < n \<and> n \<le> length (split_args (es_utf8 sample_eqstr_env) ?p)"
    by (simp add: sample_args)
  have ar: "\<forall>a \<in> set (split_args (es_utf8 sample_eqstr_env) ?p). CHR ''%'' \<notin> set a \<and> arg_text a \<noteq> []"
    by (simp add: sample_args arg_text_def)
  have "expand [''Al'', ''Bo''] (es_find sample_eqstr 7) = ''Al hits Bo.''" unfolding sample_find by code_simp
  then show ?thesis using format_message_single_pass [OF n ph ar] by (simp only: sample_args)
qed

theorem format_message_hangs_witness:
  "formatMessage sample_eqstr_env (sample_eqstr\<lparr>es_messageStrings := [9 \<mapsto> ''you say %1'']\<rparr>) 9 [65, 37, 49, 0] = None"
proof (rule format_message_hangs)
  show "es_find (sample_eqstr\<lparr>es_messageStrings := [9 \<mapsto> ''you say %1'']\<rparr>) 9 = ''you say '' @ ''%1'' @ []"
    by (simp add: es_find_def)
  show "split_args (es_utf8 sample_eqstr_env) [65, 37, 49, 0] = (''A'' @ ''%1'' @ []) # []" by (simp add: sample_args)
qed simp_all

end
