(* ===== verification/Files.thy ===== *)
theory Files
  imports Prelude
begin

text \<open>
  The files as the components see them: a map from paths to contents. What the contents are depends on the reader: the text, or
  the document a text parses to.
\<close>

type_synonym 'c files = "string \<Rightarrow> 'c option"

text \<open>\<open>QDir::rename\<close>: fails when there is no such file, or the new name is taken.\<close>

definition fs_rename :: "string \<Rightarrow> string \<Rightarrow> 'c files \<Rightarrow> bool \<times> 'c files" where
  "fs_rename old new fs = (case fs old of
     None \<Rightarrow> (False, fs)
   | Some t \<Rightarrow> if fs new \<noteq> None then (False, fs) else (True, fs(new \<mapsto> t, old := None)))"

end
