(* ===== verification/SpawnMonitor.thy ===== *)
theory SpawnMonitor
  imports SpawnShell Files
begin

text \<open>
  \<open>src/src/spawnmonitor.h\<close> and \<open>src/src/spawnmonitor.cpp\<close>: the places where monsters appear again. The
  first monster at a place makes a candidate, the second one makes it a point, and points are kept
  in one file per zone. The points live in a store, the two maps hold their addresses, and following
  or deleting an address that is not in the store is \<open>None\<close>.

  What comes from outside is \<open>monitor_env\<close>: the clock (its readings within one call are the same), the order in which a hash is walked, the case
  mapping and the number reader of the Qt library, and the search for files. The files are a map
  from paths to texts, with the rename of Qt, which does not replace a file. The age of a point (a
  float for display) is left out.
\<close>

record SpawnPoint = EQPoint +
  sp_spawnTime :: int
  sp_deathTime :: int
  sp_diffTime :: int
  sp_count :: u32
  sp_name :: string
  sp_last :: string
  sp_lastID :: u16

record monitor_env =
  mo_now :: int
  mo_order :: "(string \<Rightarrow> ptr option) \<Rightarrow> string list"
  mo_lower :: "string \<Rightarrow> string"
  mo_number :: "string \<Rightarrow> u64 option \<times> string"
  mo_findExisting :: "string \<Rightarrow> string"
  mo_findWrite :: "string \<Rightarrow> string"
  mo_writable :: "string \<Rightarrow> bool"

definition new_SpawnPoint :: "monitor_env \<Rightarrow> u16 \<Rightarrow> 'a EQPoint_scheme \<Rightarrow> string \<Rightarrow> int \<Rightarrow> u32 \<Rightarrow> SpawnPoint" where
  "new_SpawnPoint env spawnID loc name diffTime cnt = \<lparr>pt_x = pt_x loc, pt_y = pt_y loc, pt_z = pt_z loc,
     sp_spawnTime = mo_now env, sp_deathTime = 0, sp_diffTime = diffTime, sp_count = cnt, sp_name = name,
     sp_last = [], sp_lastID = spawnID\<rparr>"

definition point_key :: "'a EQPoint_scheme \<Rightarrow> string" where
  "point_key p = dec_int (sint (pt_x p)) @ ''|'' @ dec_int (sint (pt_y p)) @ ''|'' @ dec_int (sint (pt_z p))"

definition secsLeft :: "monitor_env \<Rightarrow> SpawnPoint \<Rightarrow> int" where
  "secsLeft env p = sp_diffTime p - (mo_now env - sp_deathTime p)"

definition point_restart :: "monitor_env \<Rightarrow> SpawnPoint \<Rightarrow> SpawnPoint" where
  "point_restart env p = p\<lparr>sp_lastID := 0, sp_deathTime := mo_now env\<rparr>"

text \<open>\<open>SpawnPoint::update\<close> with the id and the name of the spawn.\<close>

definition point_update :: "monitor_env \<Rightarrow> u16 \<Rightarrow> string \<Rightarrow> SpawnPoint \<Rightarrow> SpawnPoint" where
  "point_update env i name p =
     (let p1 = p\<lparr>sp_lastID := i, sp_last := (if i \<noteq> 0 then name else []), sp_spawnTime := mo_now env\<rparr>;
          p2 = (if sp_deathTime p1 \<noteq> 0 then p1\<lparr>sp_diffTime := sp_spawnTime p1 - sp_deathTime p1\<rparr> else p1)
      in p2\<lparr>sp_count := sp_count p2 + 1\<rparr>)"

section \<open>The monitor\<close>

datatype monitor_event = NewSpawnPoint ptr SpawnPoint | ClearSpawnPoints | SelectionChanged "ptr option"
  | SpawnPointUpdated ptr SpawnPoint | SpawnPointDeleted ptr SpawnPoint

record SpawnMonitor =
  mo_heap :: "ptr \<Rightarrow> SpawnPoint option"
  mo_next :: ptr
  mo_spawns :: "string \<Rightarrow> ptr option"
  mo_points :: "string \<Rightarrow> ptr option"
  mo_selected :: "ptr option"
  mo_modified :: bool
  mo_zoneName :: string

definition new_SpawnMonitor :: SpawnMonitor where
  "new_SpawnMonitor = \<lparr>mo_heap = Map.empty, mo_next = 0, mo_spawns = Map.empty, mo_points = Map.empty,
     mo_selected = None, mo_modified = False, mo_zoneName = []\<rparr>"

definition setName :: "ptr option \<Rightarrow> string \<Rightarrow> SpawnMonitor \<Rightarrow> (SpawnMonitor \<times> monitor_event list) option" where
  "setName csp name mo = (case csp of
     None \<Rightarrow> Some (mo, [])
   | Some a \<Rightarrow> do {
       p \<leftarrow> mo_heap mo a;
       let p1 = p\<lparr>sp_name := name\<rparr>;
       Some (mo\<lparr>mo_heap := (mo_heap mo)(a \<mapsto> p1), mo_modified := True\<rparr>, [SpawnPointUpdated a p1])
     })"

definition setSelected :: "ptr option \<Rightarrow> SpawnMonitor \<Rightarrow> SpawnMonitor \<times> monitor_event list" where
  "setSelected selected mo = (if mo_selected mo = selected then (mo, [])
     else (mo\<lparr>mo_selected := selected\<rparr>, [SelectionChanged selected]))"

text \<open>\<open>qDeleteAll\<close> of the addresses of a hash.\<close>

fun delete_points :: "ptr list \<Rightarrow> (ptr \<Rightarrow> SpawnPoint option) \<Rightarrow> (ptr \<Rightarrow> SpawnPoint option) option" where
  "delete_points [] hp = Some hp"
| "delete_points (a # as) hp = (case hp a of None \<Rightarrow> None | Some _ \<Rightarrow> delete_points as (hp(a := None)))"

definition walk :: "monitor_env \<Rightarrow> (string \<Rightarrow> ptr option) \<Rightarrow> ptr list" where
  "walk env m = map (\<lambda>k. the (m k)) (mo_order env m)"

definition mon_clear :: "monitor_env \<Rightarrow> SpawnMonitor \<Rightarrow> (SpawnMonitor \<times> monitor_event list) option" where
  "mon_clear env mo = do {
     h1 \<leftarrow> delete_points (walk env (mo_spawns mo)) (mo_heap mo);
     h2 \<leftarrow> delete_points (walk env (mo_points mo)) h1;
     Some (mo\<lparr>mo_heap := h2, mo_spawns := Map.empty, mo_points := Map.empty, mo_selected := None\<rparr>, [ClearSpawnPoints])
   }"

text \<open>Deleting the null pointer of a key that is not in the second map does nothing.\<close>

definition deleteSpawnPoint :: "ptr \<Rightarrow> SpawnMonitor \<Rightarrow> (SpawnMonitor \<times> monitor_event list) option" where
  "deleteSpawnPoint a mo = do {
     let (mo1, e1) = (if mo_selected mo = Some a then (mo\<lparr>mo_selected := None\<rparr>, [SelectionChanged None]) else (mo, []));
     p \<leftarrow> mo_heap mo1 a;
     let key = point_key p;
     mo2 \<leftarrow> (case mo_points mo1 key of
        Some b \<Rightarrow> do { _ \<leftarrow> mo_heap mo1 b;
          Some (mo1\<lparr>mo_points := (mo_points mo1)(key := None), mo_heap := (mo_heap mo1)(b := None)\<rparr>) }
      | None \<Rightarrow> (case mo_spawns mo1 key of
          Some b \<Rightarrow> do { _ \<leftarrow> mo_heap mo1 b;
            Some (mo1\<lparr>mo_spawns := (mo_spawns mo1)(key := None), mo_heap := (mo_heap mo1)(b := None)\<rparr>) }
        | None \<Rightarrow> Some mo1));
     Some (mo2\<lparr>mo_modified := True\<rparr>, e1 @ [SpawnPointDeleted a p])
   }"

definition restartSpawnPoint :: "monitor_env \<Rightarrow> ptr \<Rightarrow> SpawnMonitor \<Rightarrow> (SpawnMonitor \<times> monitor_event list) option" where
  "restartSpawnPoint env a mo = do {
     p \<leftarrow> mo_heap mo a;
     let p1 = point_restart env p;
     Some (mo\<lparr>mo_heap := (mo_heap mo)(a \<mapsto> p1)\<rparr>, [SpawnPointUpdated a p1])
   }"

fun kill_points :: "monitor_env \<Rightarrow> u16 \<Rightarrow> ptr list \<Rightarrow> SpawnMonitor \<Rightarrow> (SpawnMonitor \<times> monitor_event list) option" where
  "kill_points env i [] mo = Some (mo, [])"
| "kill_points env i (a # as) mo = do {
     p \<leftarrow> mo_heap mo a;
     if i = sp_lastID p then restartSpawnPoint env a mo else kill_points env i as mo
   }"

definition mon_killSpawn :: "monitor_env \<Rightarrow> obj \<Rightarrow> SpawnMonitor \<Rightarrow> (SpawnMonitor \<times> monitor_event list) option" where
  "mon_killSpawn env killed mo = kill_points env (obj_id killed) (walk env (mo_points mo)) mo"

section \<open>New spawns\<close>

definition is_mob :: "'a Spawn_scheme \<Rightarrow> bool" where
  "is_mob s \<longleftrightarrow> \<not> (m_NPC s \<noteq> SPAWN_NPC \<or> m_petOwnerID s \<noteq> 0 \<or> m_isMount s \<or> m_isAura s \<or> m_isMercenary s)"

definition checkSpawnPoint :: "monitor_env \<Rightarrow> ('a Spawn_scheme \<Rightarrow> string) \<Rightarrow> 'a Spawn_scheme \<Rightarrow> SpawnMonitor
    \<Rightarrow> (SpawnMonitor \<times> monitor_event list) option" where
  "checkSpawnPoint env nm s mo =
     (if \<not> is_mob s then Some (mo, [])
      else let key = point_key s in
        (case mo_points mo key of
          Some a \<Rightarrow> do {
            p \<leftarrow> mo_heap mo a;
            let p1 = point_update env (m_ID s) (nm s) p;
            Some (mo\<lparr>mo_heap := (mo_heap mo)(a \<mapsto> p1), mo_modified := True\<rparr>, [SpawnPointUpdated a p1])
          }
        | None \<Rightarrow> (case mo_spawns mo key of
            Some a \<Rightarrow> do {
              p \<leftarrow> mo_heap mo a;
              let p1 = point_update env (m_ID s) (nm s) p;
              Some (mo\<lparr>mo_heap := (mo_heap mo)(a \<mapsto> p1), mo_points := (mo_points mo)(key \<mapsto> a),
                      mo_spawns := (mo_spawns mo)(key := None), mo_modified := True\<rparr>, [NewSpawnPoint a p1])
            }
          | None \<Rightarrow>
              Some (mo\<lparr>mo_heap := (mo_heap mo)(mo_next mo \<mapsto> new_SpawnPoint env (m_ID s) s [] 0 1), mo_next := Suc (mo_next mo),
                      mo_spawns := (mo_spawns mo)(key \<mapsto> mo_next mo)\<rparr>, []))))"

definition mon_newSpawn :: "monitor_env \<Rightarrow> obj \<Rightarrow> SpawnMonitor \<Rightarrow> (SpawnMonitor \<times> monitor_event list) option" where
  "mon_newSpawn env item mo =
     (if obj_type item \<noteq> tSpawn then Some (mo, [])
      else (case item of
        OSpawn s \<Rightarrow> checkSpawnPoint env (v_name spawn_vt) s mo
      | OPlayer p \<Rightarrow> checkSpawnPoint env (v_name player_vt) p mo
      | _ \<Rightarrow> None))"

section \<open>Files\<close>

definition point_line :: "SpawnPoint \<Rightarrow> string" where
  "point_line p = dec_int (sint (pt_x p)) @ '' '' @ dec_int (sint (pt_y p)) @ '' '' @ dec_int (sint (pt_z p)) @ '' ''
     @ dec_string (nat (sp_diffTime p mod 2 ^ 64)) @ '' '' @ dec_int (sint (sp_count p)) @ '' '' @ sp_name p @ [CHR 0x0A]"

fun point_lines :: "(ptr \<Rightarrow> SpawnPoint option) \<Rightarrow> ptr list \<Rightarrow> string option" where
  "point_lines hp [] = Some []"
| "point_lines hp (a # as) = do { p \<leftarrow> hp a; t \<leftarrow> point_lines hp as; Some (point_line p @ t) }"

definition saveSpawnPoints :: "monitor_env \<Rightarrow> SpawnMonitor \<times> string files \<Rightarrow> (SpawnMonitor \<times> string files) option" where
  "saveSpawnPoints env = (\<lambda>(mo, fs).
     if \<not> mo_modified mo \<or> mo_zoneName mo = [] then Some (mo, fs)
     else let fileName = mo_findWrite env (mo_zoneName mo @ ''.sp''); newName = fileName @ ''.new'' in
       if \<not> mo_writable env newName then Some (mo, fs)
       else do {
         t \<leftarrow> point_lines (mo_heap mo) (walk env (mo_points mo));
         let fs1 = fs(newName \<mapsto> t);
         let fs2 = (if fs1 fileName \<noteq> None
           then (let (ok, fs') = fs_rename fileName (fileName @ ''.bak'') fs1 in if ok then snd (fs_rename newName fileName fs') else fs')
           else snd (fs_rename newName fileName fs1));
         Some (mo\<lparr>mo_modified := False\<rparr>, fs2)
       })"

text \<open>\<open>QTextStream::operator>>\<close> for the integer types: a value that is not a number is 0.\<close>

definition read_int :: "monitor_env \<Rightarrow> string \<Rightarrow> u64 \<times> string" where
  "read_int env s = (case mo_number env s of (Some w, r) \<Rightarrow> (w, r) | (None, r) \<Rightarrow> (0, r))"

definition read_line :: "string \<Rightarrow> string \<times> string" where
  "read_line s = (takeWhile (\<lambda>c. c \<noteq> CHR 0x0A) s, drop 1 (dropWhile (\<lambda>c. c \<noteq> CHR 0x0A) s))"

definition read_point :: "monitor_env \<Rightarrow> string \<Rightarrow> SpawnPoint \<times> string" where
  "read_point env s0 =
     (let (x, s1) = read_int env s0; (y, s2) = read_int env s1; (z, s3) = read_int env s2;
          (diffTime, s4) = read_int env s3; (cnt, s5) = read_int env s4; (name, s6) = read_line s5
      in (new_SpawnPoint env 0 \<lparr>pt_x = ucast x, pt_y = ucast y, pt_z = ucast z\<rparr> (trimmed name) (sint diffTime) (ucast cnt), s6))"

definition add_point :: "SpawnPoint \<Rightarrow> SpawnMonitor \<Rightarrow> SpawnMonitor \<times> monitor_event list" where
  "add_point p mo = (case mo_points mo (point_key p) of
     None \<Rightarrow> (mo\<lparr>mo_heap := (mo_heap mo)(mo_next mo \<mapsto> p), mo_next := Suc (mo_next mo),
               mo_points := (mo_points mo)(point_key p \<mapsto> mo_next mo)\<rparr>, [NewSpawnPoint (mo_next mo) p])
   | Some _ \<Rightarrow> (mo, []))"

text \<open>The loop over the file, with as many rounds as the text has characters: a round that finds text
  reads at least one character, so it never needs more.\<close>

fun load_points :: "monitor_env \<Rightarrow> nat \<Rightarrow> string \<Rightarrow> SpawnMonitor \<Rightarrow> (SpawnMonitor \<times> monitor_event list) option" where
  "load_points env n [] mo = Some (mo, [])"
| "load_points env 0 (c # s) mo = None"
| "load_points env (Suc n) (c # s) mo =
     (let (p, r) = read_point env (c # s); (mo1, e1) = add_point p mo
      in map_option (\<lambda>(mo2, e2). (mo2, e1 @ e2)) (load_points env n r mo1))"

definition loadSpawnPoints :: "monitor_env \<Rightarrow> SpawnMonitor \<times> string files \<Rightarrow> ((SpawnMonitor \<times> string files) \<times> monitor_event list) option" where
  "loadSpawnPoints env = (\<lambda>(mo, fs).
     (case fs (mo_findExisting env (mo_zoneName mo @ ''.sp'')) of
        None \<Rightarrow> Some ((mo, fs), [])
      | Some t \<Rightarrow> map_option (\<lambda>(mo1, e). ((mo1\<lparr>mo_modified := False\<rparr>, fs), e)) (load_points env (length t) t mo)))"

section \<open>Zones\<close>

definition mon_zoneChanged :: "monitor_env \<Rightarrow> string \<Rightarrow> SpawnMonitor \<times> string files \<Rightarrow> ((SpawnMonitor \<times> string files) \<times> monitor_event list) option" where
  "mon_zoneChanged env newZoneName = (\<lambda>(mo, fs).
     if mo_zoneName mo = newZoneName then Some ((mo, fs), [])
     else do {
       (mo1, fs1) \<leftarrow> saveSpawnPoints env (mo, fs);
       (mo2, e2) \<leftarrow> mon_clear env mo1;
       (st, e3) \<leftarrow> loadSpawnPoints env (mo2\<lparr>mo_zoneName := newZoneName\<rparr>, fs1);
       Some (st, e2 @ e3)
     })"

definition mon_zoneEnd :: "monitor_env \<Rightarrow> string \<Rightarrow> SpawnMonitor \<times> string files \<Rightarrow> ((SpawnMonitor \<times> string files) \<times> monitor_event list) option" where
  "mon_zoneEnd env newZoneName = (\<lambda>(mo, fs).
     let lower = mo_lower env newZoneName in
     if mo_zoneName mo = lower then Some ((mo, fs), [])
     else do {
       (mo1, fs1) \<leftarrow> saveSpawnPoints env (mo, fs);
       (mo2, e2) \<leftarrow> mon_clear env (mo1\<lparr>mo_zoneName := lower\<rparr>);
       (st, e3) \<leftarrow> loadSpawnPoints env (mo2, fs1);
       Some (st, e2 @ e3)
     })"

end
