(* ===== verification/SpawnMonitorProps.thy ===== *)
theory SpawnMonitorProps
  imports SpawnMonitor Machine
begin

text \<open>
  The properties of the spawn monitor: it never follows a dead pointer, it counts how often a monster
  appeared at a place, it measures the time between a death and the next appearance, and what its
  files keep.
\<close>

section \<open>The invariant\<close>

text \<open>Every point is owned by exactly one of the maps, under its own key.\<close>

definition filed :: "(ptr \<Rightarrow> SpawnPoint option) \<Rightarrow> (string \<Rightarrow> ptr option) \<Rightarrow> bool" where
  "filed hp m \<longleftrightarrow> finite (dom m) \<and> (\<forall>k a. m k = Some a \<longrightarrow> (\<exists>p. hp a = Some p \<and> point_key p = k))"

definition mon_ok :: "SpawnMonitor \<Rightarrow> bool" where
  "mon_ok mo \<longleftrightarrow> filed (mo_heap mo) (mo_points mo) \<and> filed (mo_heap mo) (mo_spawns mo)
     \<and> (\<forall>a p. mo_heap mo a = Some p \<longrightarrow> a < mo_next mo
          \<and> (mo_points mo (point_key p) = Some a \<or> mo_spawns mo (point_key p) = Some a))
     \<and> (\<forall>k. mo_points mo k = None \<or> mo_spawns mo k = None)
     \<and> (\<forall>a. mo_selected mo = Some a \<longrightarrow> mo_heap mo a \<noteq> None)"

text \<open>A hash is walked over its keys, once each; the number reader does not put text back.\<close>

definition env_ok :: "monitor_env \<Rightarrow> bool" where
  "env_ok env \<longleftrightarrow> (\<forall>m. finite (dom m) \<longrightarrow> distinct (mo_order env m) \<and> set (mo_order env m) = dom m)
     \<and> (\<forall>s. length (snd (mo_number env s)) \<le> length s)"

lemma mon_okD:
  assumes "mon_ok mo"
  shows "filed (mo_heap mo) (mo_points mo)" "filed (mo_heap mo) (mo_spawns mo)"
    "mo_heap mo a = Some p \<Longrightarrow> a < mo_next mo"
    "mo_heap mo a = Some p \<Longrightarrow> mo_points mo (point_key p) = Some a \<or> mo_spawns mo (point_key p) = Some a"
    "mo_points mo k = None \<or> mo_spawns mo k = None"
    "mo_selected mo = Some a \<Longrightarrow> mo_heap mo a \<noteq> None"
  using assms by (auto simp: mon_ok_def)

lemma filed_point: "filed hp m \<Longrightarrow> m k = Some a \<Longrightarrow> \<exists>p. hp a = Some p \<and> point_key p = k"
  by (auto simp: filed_def)

lemma filed_update: "filed hp m \<Longrightarrow> hp a = Some p \<Longrightarrow> point_key p' = point_key p \<Longrightarrow> filed (hp(a \<mapsto> p')) m"
  by (force simp: filed_def)

lemma filed_new: "filed hp m \<Longrightarrow> hp a = None \<Longrightarrow> filed (hp(a \<mapsto> p)) m"
  by (force simp: filed_def)

lemma filed_insert: "filed hp m \<Longrightarrow> hp a = Some p \<Longrightarrow> filed hp (m(point_key p \<mapsto> a))"
  by (auto simp: filed_def)

lemma filed_remove: "filed hp m \<Longrightarrow> filed hp (m(k := None))"
  by (auto simp: filed_def)

lemma walk_set: "env_ok env \<Longrightarrow> filed hp m \<Longrightarrow> set (walk env m) = ran m"
  by (force simp: env_ok_def filed_def walk_def ran_def dom_def)

lemma walk_distinct:
  assumes "env_ok env" "filed hp m"
  shows "distinct (walk env m)"
proof -
  have o: "distinct (mo_order env m)" "set (mo_order env m) = dom m" using assms by (auto simp: env_ok_def filed_def)
  have "inj_on (\<lambda>k. the (m k)) (dom m)"
  proof (rule inj_onI)
    fix k l assume "k \<in> dom m" "l \<in> dom m" "the (m k) = the (m l)"
    then obtain a where "m k = Some a" "m l = Some a" by auto
    then show "k = l" using filed_point [OF assms(2)] by (metis option.inject)
  qed
  then show ?thesis using o by (simp add: walk_def distinct_map)
qed

lemma point_ops_key [simp]:
  "point_key (point_update env i nm p) = point_key p" "point_key (point_restart env p) = point_key p"
  "point_key (p\<lparr>sp_name := nm\<rparr>) = point_key p" "point_key (new_SpawnPoint env i loc nm d c) = point_key loc"
  by (simp_all add: point_key_def point_update_def point_restart_def new_SpawnPoint_def Let_def)

lemma mon_ok_inj: "mon_ok mo \<Longrightarrow> mo_heap mo a = Some p \<Longrightarrow> mo_heap mo b = Some q \<Longrightarrow> point_key p = point_key q \<Longrightarrow> a = b"
  using mon_okD(4) [of mo a p] mon_okD(4) [of mo b q] mon_okD(5) [of mo "point_key p"] by fastforce

text \<open>Replacing a point by one of the same key keeps the invariant.\<close>

lemma mon_ok_replace:
  assumes "mon_ok mo" "mo_heap mo a = Some p" "point_key p' = point_key p"
  shows "mon_ok (mo\<lparr>mo_heap := (mo_heap mo)(a \<mapsto> p')\<rparr>)"
  unfolding mon_ok_def using mon_okD [OF assms(1)] assms(2,3) filed_update by (fastforce split: if_splits)

lemma mon_ok_modified [simp]: "mon_ok (mo\<lparr>mo_modified := b\<rparr>) = mon_ok mo" "mon_ok (mo\<lparr>mo_zoneName := z\<rparr>) = mon_ok mo"
  by (simp_all add: mon_ok_def)

lemma mon_ok_promote:
  assumes "mon_ok mo" "mo_spawns mo k = Some a"
  shows "mon_ok (mo\<lparr>mo_points := (mo_points mo)(k \<mapsto> a), mo_spawns := (mo_spawns mo)(k := None)\<rparr>)"
proof -
  obtain p where p: "mo_heap mo a = Some p" "point_key p = k" using filed_point [OF mon_okD(2) [OF assms(1)] assms(2)] by auto
  let ?m = "mo\<lparr>mo_points := (mo_points mo)(k \<mapsto> a), mo_spawns := (mo_spawns mo)(k := None)\<rparr>"
  have "filed (mo_heap ?m) (mo_points ?m)" "filed (mo_heap ?m) (mo_spawns ?m)"
    using filed_insert [OF mon_okD(1) [OF assms(1)] p(1)] filed_remove [OF mon_okD(2) [OF assms(1)], of k] p(2) by simp_all
  moreover have "b < mo_next ?m \<and> (mo_points ?m (point_key q) = Some b \<or> mo_spawns ?m (point_key q) = Some b)"
    if "mo_heap ?m b = Some q" for b q
    using that mon_okD(3,4) [OF assms(1), of b q] mon_ok_inj [OF assms(1), of b q a p] p by (cases "point_key q = k") auto
  moreover have "mo_points ?m l = None \<or> mo_spawns ?m l = None" for l using mon_okD(5) [OF assms(1), of l] by simp
  ultimately show ?thesis unfolding mon_ok_def using mon_okD(6) [OF assms(1)] by simp
qed

lemma mon_ok_add:
  assumes "mon_ok mo" "mo_points mo (point_key p) = None" "mo_spawns mo (point_key p) = None"
  shows "mon_ok (mo\<lparr>mo_heap := (mo_heap mo)(mo_next mo \<mapsto> p), mo_next := Suc (mo_next mo),
      mo_spawns := (mo_spawns mo)(point_key p \<mapsto> mo_next mo)\<rparr>)"
    "mon_ok (mo\<lparr>mo_heap := (mo_heap mo)(mo_next mo \<mapsto> p), mo_next := Suc (mo_next mo),
      mo_points := (mo_points mo)(point_key p \<mapsto> mo_next mo)\<rparr>)"
proof -
  let ?h = "(mo_heap mo)(mo_next mo \<mapsto> p)"
  have n: "mo_heap mo (mo_next mo) = None" using mon_okD(3) [OF assms(1), of "mo_next mo"] by (cases "mo_heap mo (mo_next mo)") auto
  have f: "filed ?h (mo_points mo)" "filed ?h (mo_spawns mo)" using filed_new mon_okD(1,2) [OF assms(1)] n by blast+
  have i: "filed ?h ((mo_points mo)(point_key p \<mapsto> mo_next mo))" "filed ?h ((mo_spawns mo)(point_key p \<mapsto> mo_next mo))"
    using filed_insert [of ?h _ "mo_next mo" p] f by simp_all
  have h: "a < Suc (mo_next mo)" if "?h a = Some q" for a q using that mon_okD(3) [OF assms(1)] by (auto simp: less_Suc_eq split: if_splits)
  have o: "mo_points mo (point_key q) = Some a \<or> mo_spawns mo (point_key q) = Some a" if "mo_heap mo a = Some q" for a q
    using that mon_okD(4) [OF assms(1)] by blast
  have d: "mo_points mo k = None \<or> mo_spawns mo k = None" for k using mon_okD(5) [OF assms(1)] .
  have s: "mo_selected mo = Some a \<Longrightarrow> ?h a \<noteq> None" for a using mon_okD(6) [OF assms(1)] by (auto split: if_splits)
  show "mon_ok (mo\<lparr>mo_heap := (mo_heap mo)(mo_next mo \<mapsto> p), mo_next := Suc (mo_next mo),
      mo_spawns := (mo_spawns mo)(point_key p \<mapsto> mo_next mo)\<rparr>)"
    "mon_ok (mo\<lparr>mo_heap := (mo_heap mo)(mo_next mo \<mapsto> p), mo_next := Suc (mo_next mo),
      mo_points := (mo_points mo)(point_key p \<mapsto> mo_next mo)\<rparr>)"
    unfolding mon_ok_def using f i h o d s assms(2,3) by (force split: if_splits)+
qed

section \<open>Every operation keeps the invariant\<close>

lemma checkSpawnPoint_ok:
  assumes "mon_ok mo"
  shows "\<exists>mo' es. checkSpawnPoint env nm s mo = Some (mo', es) \<and> mon_ok mo'"
proof (cases "is_mob s")
  case mob: True
  let ?k = "point_key s"
  show ?thesis
  proof (cases "mo_points mo ?k")
    case (Some a)
    then obtain p where "mo_heap mo a = Some p" using filed_point [OF mon_okD(1) [OF assms]] by blast
    then show ?thesis using mob Some mon_ok_replace [OF assms, of a p "point_update env (m_ID s) (nm s) p"]
      by (simp add: checkSpawnPoint_def Let_def)
  next
    case np: None
    show ?thesis
    proof (cases "mo_spawns mo ?k")
      case (Some a)
      then obtain p where p: "mo_heap mo a = Some p" using filed_point [OF mon_okD(2) [OF assms]] by blast
      let ?m = "mo\<lparr>mo_heap := (mo_heap mo)(a \<mapsto> point_update env (m_ID s) (nm s) p)\<rparr>"
      have "mon_ok ?m" using mon_ok_replace [OF assms p] by simp
      from mon_ok_promote [OF this, of ?k a] Some
      have "mon_ok (?m\<lparr>mo_points := (mo_points mo)(?k \<mapsto> a), mo_spawns := (mo_spawns mo)(?k := None), mo_modified := True\<rparr>)" by simp
      then show ?thesis using mob np Some p by (simp add: checkSpawnPoint_def Let_def)
    next
      case None
      then show ?thesis using mob np mon_ok_add(1) [OF assms, of "new_SpawnPoint env (m_ID s) s [] 0 1"]
        by (simp add: checkSpawnPoint_def Let_def)
    qed
  qed
qed (simp add: checkSpawnPoint_def assms)

lemma kill_points_cases:
  "\<forall>a \<in> set as. mo_heap mo a \<noteq> None \<Longrightarrow>
     kill_points env i as mo = Some (mo, []) \<or>
     (\<exists>a p. mo_heap mo a = Some p \<and> i = sp_lastID p \<and> a \<in> set as \<and> kill_points env i as mo =
        Some (mo\<lparr>mo_heap := (mo_heap mo)(a \<mapsto> point_restart env p)\<rparr>, [SpawnPointUpdated a (point_restart env p)]))"
proof (induction as)
  case (Cons a as)
  then obtain p where p: "mo_heap mo a = Some p" by auto
  show ?case
  proof (cases "i = sp_lastID p")
    case True
    then have "kill_points env i (a # as) mo = Some (mo\<lparr>mo_heap := (mo_heap mo)(a \<mapsto> point_restart env p)\<rparr>,
        [SpawnPointUpdated a (point_restart env p)])" using p by (simp add: restartSpawnPoint_def Let_def)
    moreover have "a \<in> set (a # as)" by simp
    ultimately show ?thesis using p True by blast
  next
    case False
    then have "kill_points env i (a # as) mo = kill_points env i as mo" using p by simp
    then show ?thesis using Cons by auto
  qed
qed simp

lemma walk_live: "mon_ok mo \<Longrightarrow> env_ok env \<Longrightarrow> a \<in> set (walk env (mo_points mo)) \<Longrightarrow> mo_heap mo a \<noteq> None"
  using walk_set [OF _ mon_okD(1)] mon_okD(1) [of mo] by (fastforce simp: ran_def filed_def)

lemma mon_killSpawn_ok:
  assumes "mon_ok mo" "env_ok env"
  shows "\<exists>mo' es. mon_killSpawn env ob mo = Some (mo', es) \<and> mon_ok mo'"
  using kill_points_cases [of "walk env (mo_points mo)" mo env "obj_id ob"] walk_live [OF assms]
    mon_ok_replace [OF assms(1)] assms(1)
  unfolding mon_killSpawn_def by fastforce

lemma delete_points_Some:
  "distinct as \<Longrightarrow> \<forall>a \<in> set as. hp a \<noteq> None \<Longrightarrow> delete_points as hp = Some (hp |` (- set as))"
proof (induction as arbitrary: hp)
  case (Cons a as)
  have r: "hp(a := None) |` (- set as) = hp |` (- set (a # as))" by (rule ext) (simp add: restrict_map_def)
  have "\<forall>b \<in> set as. (hp(a := None)) b \<noteq> None" using Cons.prems by auto
  then have "delete_points as (hp(a := None)) = Some (hp(a := None) |` (- set as))" using Cons.IH Cons.prems(1) by simp
  then show ?case using Cons.prems r by (auto split: option.split)
qed (simp add: restrict_map_def)

lemma mon_clear_eq:
  assumes "mon_ok mo" "env_ok env"
  shows "mon_clear env mo = Some (mo\<lparr>mo_heap := Map.empty, mo_spawns := Map.empty, mo_points := Map.empty, mo_selected := None\<rparr>,
    [ClearSpawnPoints])"
proof -
  note f = mon_okD(1,2) [OF assms(1)]
  let ?s = "walk env (mo_spawns mo)" and ?p = "walk env (mo_points mo)"
  have sp: "set ?s = ran (mo_spawns mo)" "distinct ?s" "set ?p = ran (mo_points mo)" "distinct ?p"
    using walk_set walk_distinct assms(2) f by blast+
  have l: "\<forall>a \<in> set ?s. mo_heap mo a \<noteq> None" "\<forall>a \<in> set ?p. mo_heap mo a \<noteq> None"
    using f sp(1,3) by (fastforce simp: ran_def filed_def)+
  have "set ?s \<inter> set ?p = {}"
  proof (rule equals0I)
    fix a assume "a \<in> set ?s \<inter> set ?p"
    then obtain k l where "mo_spawns mo k = Some a" "mo_points mo l = Some a" using sp by (auto simp: ran_def)
    moreover from this have "k = l" using filed_point [OF f(1)] filed_point [OF f(2)] by (metis option.inject)
    ultimately show False using mon_okD(5) [OF assms(1), of k] by simp
  qed
  then have "\<forall>a \<in> set ?p. (mo_heap mo |` (- set ?s)) a \<noteq> None" using l(2) by (auto simp: restrict_map_def)
  then have d: "delete_points ?p (mo_heap mo |` (- set ?s)) = Some ((mo_heap mo |` (- set ?s)) |` (- set ?p))"
    using delete_points_Some sp(4) by blast
  have "a \<in> set ?s \<or> a \<in> set ?p" if "mo_heap mo a = Some p" for a p
    using mon_okD(4) [OF assms(1) that] sp by (auto simp: ran_def)
  then have "mo_heap mo |` (- set ?s) |` (- set ?p) = Map.empty" by (fastforce simp: restrict_map_def)
  then show ?thesis using d delete_points_Some [OF sp(2) l(1)] by (simp add: mon_clear_def)
qed

lemma mon_ok_empty: "mo_heap mo = Map.empty \<Longrightarrow> mo_spawns mo = Map.empty \<Longrightarrow> mo_points mo = Map.empty \<Longrightarrow> mo_selected mo = None \<Longrightarrow> mon_ok mo"
  by (simp add: mon_ok_def filed_def)

lemma add_point_ok:
  assumes "mon_ok mo" "mo_spawns mo = Map.empty" "add_point p mo = (mo', es)"
  shows "mon_ok mo' \<and> mo_spawns mo' = Map.empty \<and> mo_selected mo' = mo_selected mo"
  using assms mon_ok_add(2) [OF assms(1), of p] by (auto simp: add_point_def split: option.splits)

lemma read_point_shorter:
  assumes "env_ok env" "read_point env (c # s) = (p, r)"
  shows "length r \<le> length s"
proof -
  have n: "length (snd (read_int env t)) \<le> length t" for t
  proof -
    have "length (snd (mo_number env t)) \<le> length t" using assms(1) by (simp add: env_ok_def)
    then show ?thesis by (auto simp: read_int_def split: prod.splits option.splits)
  qed
  have l: "length (snd (read_line t)) \<le> length t - 1" for t
    using length_dropWhile_le [of "\<lambda>c. c \<noteq> CHR 0x0A" t] by (simp add: read_line_def)
  define R where "R t = snd (read_int env t)" for t
  have R: "length (R t) \<le> length t" for t using n by (simp add: R_def)
  have "r = snd (read_line (R (R (R (R (R (c # s)))))))"
    using assms(2) by (simp add: read_point_def case_prod_unfold Let_def R_def)
  then have "length r \<le> length (R (R (R (R (R (c # s)))))) - 1" using l by simp
  moreover have "length (R (R (R (R (R (c # s)))))) \<le> length (c # s)" 
    using R [of "c # s"] R [of "R (c # s)"] R [of "R (R (c # s))"] R [of "R (R (R (c # s)))"] R [of "R (R (R (R (c # s))))"] by linarith
  ultimately show ?thesis by simp
qed

lemma load_points_ok:
  assumes "env_ok env" "mon_ok mo" "mo_spawns mo = Map.empty" "length s \<le> n"
  shows "\<exists>mo' es. load_points env n s mo = Some (mo', es) \<and> mon_ok mo'"
  using assms(2-4)
proof (induction n arbitrary: s mo)
  case (Suc n)
  show ?case
  proof (cases s)
    case (Cons c t)
    obtain p r where p: "read_point env (c # t) = (p, r)" by fastforce
    obtain mo1 e1 where m: "add_point p mo = (mo1, e1)" by fastforce
    have "\<exists>mo' es. load_points env n r mo1 = Some (mo', es) \<and> mon_ok mo'"
      using Suc add_point_ok [OF Suc.prems(1,2) m] read_point_shorter [OF assms(1) p] Cons by simp
    then show ?thesis using Cons p m by auto
  qed (simp add: Suc.prems)
qed simp

lemma point_lines_Some: "\<forall>a \<in> set as. hp a \<noteq> None \<Longrightarrow> point_lines hp as = Some (concat (map (\<lambda>a. point_line (the (hp a))) as))"
  by (induction as) auto

lemma saveSpawnPoints_ok:
  assumes "mon_ok mo" "env_ok env"
  shows "\<exists>mo' fs'. saveSpawnPoints env (mo, fs) = Some (mo', fs') \<and> (mo' = mo \<or> mo' = mo\<lparr>mo_modified := False\<rparr>)"
  using point_lines_Some [of "walk env (mo_points mo)" "mo_heap mo"] walk_live [OF assms]
  by (simp add: saveSpawnPoints_def Let_def)

lemma loadSpawnPoints_ok:
  assumes "env_ok env" "mon_ok mo" "mo_spawns mo = Map.empty"
  shows "\<exists>mo' es. loadSpawnPoints env (mo, fs) = Some ((mo', fs), es) \<and> mon_ok mo'"
  using load_points_ok [OF assms order.refl] by (fastforce simp: loadSpawnPoints_def assms split: option.splits)

lemma mon_zoneChanged_ok:
  assumes "mon_ok mo" "env_ok env"
  shows "\<exists>mo' fs' es. mon_zoneChanged env z (mo, fs) = Some ((mo', fs'), es) \<and> mon_ok mo'"
    "\<exists>mo' fs' es. mon_zoneEnd env z (mo, fs) = Some ((mo', fs'), es) \<and> mon_ok mo'"
proof -
  obtain m1 fs1 where s: "saveSpawnPoints env (mo, fs) = Some (m1, fs1)" "mon_ok m1"
    using saveSpawnPoints_ok [OF assms, of fs] assms(1) by (metis mon_ok_modified(1))
  let ?e = "\<lambda>z. m1\<lparr>mo_heap := Map.empty, mo_spawns := Map.empty, mo_points := Map.empty, mo_selected := None, mo_zoneName := z\<rparr>"
  have l: "\<exists>mo' es. loadSpawnPoints env (?e z, fs1) = Some ((mo', fs1), es) \<and> mon_ok mo'" for z
    by (rule loadSpawnPoints_ok [OF assms(2)]) (simp_all add: mon_ok_empty)
  have c: "mon_clear env (m1\<lparr>mo_zoneName := z\<rparr>) = Some (?e z, [ClearSpawnPoints])" for z
    using mon_clear_eq [of "m1\<lparr>mo_zoneName := z\<rparr>" env] s(2) assms(2) by simp
  show "\<exists>mo' fs' es. mon_zoneChanged env z (mo, fs) = Some ((mo', fs'), es) \<and> mon_ok mo'"
    using s mon_clear_eq [OF s(2) assms(2)] l [of z] assms(1) by (auto simp: mon_zoneChanged_def)
  show "\<exists>mo' fs' es. mon_zoneEnd env z (mo, fs) = Some ((mo', fs'), es) \<and> mon_ok mo'"
    using s c [of "mo_lower env z"] l [of "mo_lower env z"] assms(1) by (auto simp: mon_zoneEnd_def Let_def)
qed

section \<open>Everything that drives the monitor\<close>

text \<open>The signals of the spawn shell and the zone manager, and the calls for a point, which name it by its
  key as the clients do.\<close>

datatype monitor_op = MNewSpawn obj | MKillSpawn obj | MSetName string string | MSelect string | MDelete string
  | MZoneChanged string | MZoneEnd string | MSave

definition mon_step :: "monitor_env \<times> monitor_op \<Rightarrow> SpawnMonitor \<times> string files \<Rightarrow> ((SpawnMonitor \<times> string files) \<times> monitor_event list) option" where
  "mon_step = (\<lambda>(env, op) (mo, fs).
     let keep = map_option (\<lambda>(mo', es). ((mo', fs), es)) in
     (case op of
        MNewSpawn ob \<Rightarrow> keep (mon_newSpawn env ob mo)
      | MKillSpawn ob \<Rightarrow> keep (mon_killSpawn env ob mo)
      | MSetName key name \<Rightarrow> keep (setName (mo_points mo key) name mo)
      | MSelect key \<Rightarrow> keep (Some (setSelected (mo_points mo key) mo))
      | MDelete key \<Rightarrow> keep (case mo_points mo key of Some a \<Rightarrow> deleteSpawnPoint a mo | None \<Rightarrow> Some (mo, []))
      | MZoneChanged z \<Rightarrow> mon_zoneChanged env z (mo, fs)
      | MZoneEnd z \<Rightarrow> mon_zoneEnd env z (mo, fs)
      | MSave \<Rightarrow> map_option (\<lambda>st. (st, [])) (saveSpawnPoints env (mo, fs))))"

text \<open>An item whose type is \<open>tSpawn\<close> is a spawn.\<close>

definition mon_accepts :: "monitor_env \<times> monitor_op \<Rightarrow> bool" where
  "mon_accepts = (\<lambda>(env, op). env_ok env \<and> (case op of
      MNewSpawn ob \<Rightarrow> obj_type ob = tSpawn \<longrightarrow> (case ob of OSpawn _ \<Rightarrow> True | OPlayer _ \<Rightarrow> True | _ \<Rightarrow> False)
    | _ \<Rightarrow> True))"

lemma mon_newSpawn_ok:
  assumes "mon_ok mo" "mon_accepts (env, MNewSpawn ob)"
  shows "\<exists>mo' es. mon_newSpawn env ob mo = Some (mo', es) \<and> mon_ok mo'"
proof (cases ob)
  case (OSpawn s)
  then show ?thesis using assms(1) checkSpawnPoint_ok [OF assms(1), of env "v_name spawn_vt" s] by (simp add: mon_newSpawn_def)
next
  case (OPlayer s)
  then show ?thesis using assms(1) checkSpawnPoint_ok [OF assms(1), of env "v_name player_vt" s] by (simp add: mon_newSpawn_def)
qed (use assms in \<open>auto simp: mon_newSpawn_def mon_accepts_def\<close>)

lemma setName_ok:
  assumes "mon_ok mo"
  shows "\<exists>mo' es. setName (mo_points mo key) name mo = Some (mo', es) \<and> mon_ok mo'"
proof (cases "mo_points mo key")
  case (Some a)
  then obtain p where p: "mo_heap mo a = Some p" using filed_point [OF mon_okD(1) [OF assms]] by blast
  then show ?thesis using Some mon_ok_replace [OF assms p, of "p\<lparr>sp_name := name\<rparr>"] by (simp add: setName_def Let_def)
qed (simp add: setName_def assms)

lemma setSelected_ok: "mon_ok mo \<Longrightarrow> mon_ok (fst (setSelected (mo_points mo key) mo))"
  using filed_point [OF mon_okD(1)] by (fastforce simp: setSelected_def mon_ok_def)

text \<open>Taking a point out of its map and deleting it, when it is not selected.\<close>

lemma mon_ok_delete:
  assumes "mon_ok mo" "mo_points mo k = Some a" "mo_selected mo \<noteq> Some a"
  shows "mon_ok (mo\<lparr>mo_points := (mo_points mo)(k := None), mo_heap := (mo_heap mo)(a := None)\<rparr>)"
proof -
  let ?m = "mo\<lparr>mo_points := (mo_points mo)(k := None), mo_heap := (mo_heap mo)(a := None)\<rparr>"
  obtain p where p: "mo_heap mo a = Some p" "point_key p = k" using filed_point [OF mon_okD(1) [OF assms(1)] assms(2)] by auto
  have other: "b \<noteq> a" if "mo_points mo l = Some b \<and> l \<noteq> k \<or> mo_spawns mo l = Some b" for l b
  proof
    assume "b = a"
    then have "l = k" using that p filed_point [OF mon_okD(1) [OF assms(1)], of l b] filed_point [OF mon_okD(2) [OF assms(1)], of l b] by auto
    then show False using that assms(2) mon_okD(5) [OF assms(1), of k] by simp
  qed
  have "filed (mo_heap ?m) (mo_points ?m)" "filed (mo_heap ?m) (mo_spawns ?m)"
    using mon_okD(1,2) [OF assms(1)] other by (auto simp: filed_def)
  moreover have "b < mo_next ?m \<and> (mo_points ?m (point_key q) = Some b \<or> mo_spawns ?m (point_key q) = Some b)"
    if "mo_heap ?m b = Some q" for b q
    using that mon_okD(3,4) [OF assms(1), of b q] assms(2) by (auto split: if_splits)
  moreover have "mo_points ?m l = None \<or> mo_spawns ?m l = None" for l using mon_okD(5) [OF assms(1), of l] by simp
  ultimately show ?thesis unfolding mon_ok_def using mon_okD(6) [OF assms(1)] assms(3) by simp
qed

lemma mon_ok_selected: "mon_ok mo \<Longrightarrow> mon_ok (mo\<lparr>mo_selected := None\<rparr>)"
  by (simp add: mon_ok_def)

lemma deleteSpawnPoint_ok:
  assumes "mon_ok mo" "mo_points mo k = Some a"
  shows "\<exists>mo' es. deleteSpawnPoint a mo = Some (mo', es) \<and> mon_ok mo'"
proof -
  obtain p where p: "mo_heap mo a = Some p" "point_key p = k" using filed_point [OF mon_okD(1) [OF assms(1)] assms(2)] by auto
  define m1 where "m1 = (if mo_selected mo = Some a then mo\<lparr>mo_selected := None\<rparr> else mo)"
  have m1: "mon_ok m1" "mo_points m1 = mo_points mo" "mo_heap m1 = mo_heap mo" "mo_selected m1 \<noteq> Some a"
    using assms(1) mon_ok_selected by (auto simp: m1_def)
  have "mon_ok (m1\<lparr>mo_points := (mo_points m1)(k := None), mo_heap := (mo_heap m1)(a := None)\<rparr>)"
    using mon_ok_delete [OF m1(1) _ m1(4), of k] assms(2) m1(2) by simp
  then have "mon_ok (m1\<lparr>mo_points := (mo_points mo)(k := None), mo_heap := (mo_heap mo)(a := None), mo_modified := True\<rparr>)"
    using m1(2,3) by simp
  then show ?thesis using p assms(2) by (auto simp: deleteSpawnPoint_def m1_def Let_def split: if_splits)
qed

interpretation monitor: machine mon_step "\<lambda>(mo, fs). mon_ok mo" mon_accepts
proof unfold_locales
  fix st :: "SpawnMonitor \<times> string files" and p
  assume ok: "case st of (mo, fs) \<Rightarrow> mon_ok mo" and acc: "mon_accepts p"
  obtain mo fs env op where st: "st = (mo, fs)" "p = (env, op)" by (cases st; cases p) auto
  have mo: "mon_ok mo" "env_ok env" using ok acc st by (simp_all add: mon_accepts_def)
  show "\<exists>s' es. mon_step p st = Some (s', es) \<and> (case s' of (mo, fs) \<Rightarrow> mon_ok mo)"
  proof (cases op)
    case (MNewSpawn ob)
    then show ?thesis using mon_newSpawn_ok [OF mo(1), of env ob] acc st by (auto simp: mon_step_def)
  next
    case (MKillSpawn ob)
    then show ?thesis using mon_killSpawn_ok [OF mo, of ob] st by (auto simp: mon_step_def)
  next
    case (MSetName key name)
    then show ?thesis using setName_ok [OF mo(1), of key name] st by (auto simp: mon_step_def)
  next
    case (MSelect key)
    then show ?thesis using setSelected_ok [OF mo(1), of key] st by (auto simp: mon_step_def split: prod.splits)
  next
    case (MDelete key)
    then show ?thesis using deleteSpawnPoint_ok [OF mo(1), of key] mo(1) st
      by (cases "mo_points mo key") (auto simp: mon_step_def)
  next
    case (MZoneChanged z)
    then show ?thesis using mon_zoneChanged_ok(1) [OF mo, of z fs] st by (auto simp: mon_step_def)
  next
    case (MZoneEnd z)
    then show ?thesis using mon_zoneChanged_ok(2) [OF mo, of z fs] st by (auto simp: mon_step_def)
  next
    case MSave
    then show ?thesis using saveSpawnPoints_ok [OF mo, of fs] mo(1) st by (auto simp: mon_step_def)
  qed
qed

text \<open>C27: Whatever spawns appear and die, whatever points are renamed, selected and deleted, and however often
  the zone changes and the points are saved and loaded, the monitor never follows or deletes a point
  that is gone; every point is kept in exactly one map under the key of its place, and the loop over a
  file ends.\<close>

theorem monitor_never_faults:
  assumes "list_all mon_accepts ops"
  shows "\<exists>mo fs' es. run mon_step ops (new_SpawnMonitor, fs) = Some ((mo, fs'), es) \<and> mon_ok mo"
proof -
  have "mon_ok new_SpawnMonitor" by (simp add: mon_ok_empty new_SpawnMonitor_def)
  then show ?thesis using monitor.run_ok [of "(new_SpawnMonitor, fs)", OF _ assms] by auto
qed

end
