(* ===== verification/SpawnPointProps.thy ===== *)
theory SpawnPointProps
  imports SpawnMonitorProps "HOL-Library.List_Lexorder" "HOL-Library.Char_ord"
begin

text \<open>
  What the spawn monitor learns: how often a monster appeared at a place, how long it takes to appear
  again, and what its files keep of that.
\<close>

section \<open>Counting\<close>

text \<open>What is known of a place: whether it is a point, and the count.\<close>

definition known :: "SpawnMonitor \<Rightarrow> string \<Rightarrow> (bool \<times> u32) option" where
  "known mo k = (case mo_points mo k of
      Some a \<Rightarrow> map_option (\<lambda>p. (True, sp_count p)) (mo_heap mo a)
    | None \<Rightarrow> (case mo_spawns mo k of Some a \<Rightarrow> map_option (\<lambda>p. (False, sp_count p)) (mo_heap mo a) | None \<Rightarrow> None))"

definition mob_at :: "string \<Rightarrow> obj \<Rightarrow> bool" where
  "mob_at k ob \<longleftrightarrow> obj_type ob = tSpawn \<and> (case ob of OSpawn s \<Rightarrow> is_mob s \<and> point_key s = k
     | OPlayer p \<Rightarrow> is_mob p \<and> point_key p = k | _ \<Rightarrow> False)"

text \<open>The abstract monitor counts the appearances at every place; deleting forgets a point.\<close>

definition count_spec :: "monitor_env \<times> monitor_op \<Rightarrow> (string \<Rightarrow> (bool \<times> u32) option) \<Rightarrow> string \<Rightarrow> (bool \<times> u32) option" where
  "count_spec = (\<lambda>(env, op) kn k. (case op of
      MNewSpawn ob \<Rightarrow> (if mob_at k ob then (case kn k of None \<Rightarrow> Some (False, 1) | Some (_, c) \<Rightarrow> Some (True, c + 1)) else kn k)
    | MDelete key \<Rightarrow> (if key = k \<and> map_option fst (kn k) = Some True then None else kn k)
    | _ \<Rightarrow> kn k))"

definition in_zone :: "monitor_env \<times> monitor_op \<Rightarrow> bool" where
  "in_zone p \<longleftrightarrow> mon_accepts p \<and> (case snd p of MZoneChanged _ \<Rightarrow> False | MZoneEnd _ \<Rightarrow> False | _ \<Rightarrow> True)"

lemma known_replace:
  assumes "mo_heap mo a = Some p" "sp_count p' = sp_count p"
  shows "known (mo\<lparr>mo_heap := (mo_heap mo)(a \<mapsto> p')\<rparr>) = known mo"
  using assms by (auto simp: known_def fun_eq_iff split: option.splits)

lemma known_fields [simp]: "known (mo\<lparr>mo_modified := b\<rparr>) = known mo" "known (mo\<lparr>mo_selected := s\<rparr>) = known mo"
  by (simp_all add: known_def fun_eq_iff split: option.split)

lemma mon_owner: "mon_ok mo \<Longrightarrow> mo_points mo k = Some a \<or> mo_spawns mo k = Some a \<Longrightarrow> \<exists>p. mo_heap mo a = Some p \<and> point_key p = k"
  using filed_point [OF mon_okD(1)] filed_point [OF mon_okD(2)] by blast

lemma mon_owner_inj:
  assumes "mon_ok mo" "mo_points mo k = Some a \<or> mo_spawns mo k = Some a" "mo_points mo l = Some a \<or> mo_spawns mo l = Some a"
  shows "k = l"
  using mon_owner [OF assms(1,2)] mon_owner [OF assms(1,3)] by auto

lemma update_count [simp]: "sp_count (point_update env i nm p) = sp_count p + 1" "sp_count (point_restart env p) = sp_count p"
  by (simp_all add: point_update_def point_restart_def Let_def)

lemma known_checkSpawnPoint:
  assumes "mon_ok mo" "checkSpawnPoint env nm s mo = Some (mo', es)"
  shows "known mo' k = (if is_mob s \<and> point_key s = k
    then (case known mo k of None \<Rightarrow> Some (False, 1) | Some (_, c) \<Rightarrow> Some (True, c + 1)) else known mo k)"
proof (cases "is_mob s")
  case mob: True
  let ?k = "point_key s"
  note f = mon_okD(1,2) [OF assms(1)]
  have other: "mo_points mo k \<noteq> Some a \<and> mo_spawns mo k \<noteq> Some a"
    if "mo_points mo ?k = Some a \<or> mo_spawns mo ?k = Some a" "k \<noteq> ?k" for a
    using mon_owner_inj [OF assms(1) that(1), of k] that(2) by blast
  have new: "mo_points mo k \<noteq> Some (mo_next mo)" "mo_spawns mo k \<noteq> Some (mo_next mo)" for k
    using filed_point [OF f(1), of k "mo_next mo"] filed_point [OF f(2), of k "mo_next mo"] mon_okD(3) [OF assms(1), of "mo_next mo"] by auto
  show ?thesis
  proof (cases "mo_points mo ?k")
    case (Some a)
    then obtain p where "mo_heap mo a = Some p" using filed_point [OF f(1)] by blast
    then show ?thesis using assms(2) mob Some other [of a]
      by (cases "k = ?k") (auto simp: checkSpawnPoint_def Let_def known_def split: option.splits)
  next
    case np: None
    show ?thesis
    proof (cases "mo_spawns mo ?k")
      case (Some a)
      then obtain p where "mo_heap mo a = Some p" using filed_point [OF f(2)] by blast
      then show ?thesis using assms(2) mob np Some other [of a]
        by (cases "k = ?k") (auto simp: checkSpawnPoint_def Let_def known_def split: option.splits)
    next
      case None
      then show ?thesis using assms(2) mob np new
        by (cases "k = ?k") (auto simp: checkSpawnPoint_def Let_def known_def new_SpawnPoint_def split: option.splits)
    qed
  qed
qed (use assms in \<open>simp add: checkSpawnPoint_def\<close>)

lemma known_killSpawn:
  assumes "mon_ok mo" "env_ok env" "mon_killSpawn env ob mo = Some (mo', es)"
  shows "known mo' = known mo"
proof -
  have "\<forall>a \<in> set (walk env (mo_points mo)). mo_heap mo a \<noteq> None" using walk_live [OF assms(1,2)] by blast
  from kill_points_cases [OF this, of env "obj_id ob"] known_replace [of mo] show ?thesis
    using assms(3) by (auto simp: mon_killSpawn_def)
qed

lemma known_delete:
  assumes ok: "mon_ok mo" and a: "mo_points mo key = Some a" and d: "deleteSpawnPoint a mo = Some (mo', es)"
  shows "known mo' k = (if k = key then None else known mo k)"
proof -
  obtain p where p: "mo_heap mo a = Some p" "point_key p = key" using filed_point [OF mon_okD(1) [OF ok] a] by auto
  have s: "mo_spawns mo key = None" using mon_okD(5) [OF ok, of key] a by simp
  have o: "mo_points mo k \<noteq> Some a \<and> mo_spawns mo k \<noteq> Some a" if "k \<noteq> key"
    using mon_owner_inj [OF ok, of key a k] a that by blast
  have "mo_points mo' = (mo_points mo)(key := None)" "mo_spawns mo' = mo_spawns mo" "mo_heap mo' = (mo_heap mo)(a := None)"
    using d p a by (auto simp: deleteSpawnPoint_def Let_def split: if_splits)
  then show ?thesis using o s by (auto simp: known_def split: option.split)
qed

lemma known_promoted: "mon_ok mo \<Longrightarrow> map_option fst (known mo k) = Some True \<longleftrightarrow> mo_points mo k \<noteq> None"
  using mon_owner [of mo k] by (auto simp: known_def split: option.splits)

lemma known_setName:
  "setName csp name mo = Some (mo', es) \<Longrightarrow> known mo' = known mo"
  using known_replace [of mo] by (auto simp: setName_def Let_def bind_Some_iff split: option.splits)

lemma known_save: "saveSpawnPoints env (mo, fs) = Some (mo', fs') \<Longrightarrow> known mo' = known mo"
  by (auto simp: saveSpawnPoints_def Let_def bind_Some_iff split: if_splits)

lemma known_step:
  assumes ok: "mon_ok mo" and acc: "in_zone (env, op)" and st: "mon_step (env, op) (mo, fs) = Some ((mo', fs'), es)"
  shows "known mo' k = count_spec (env, op) (known mo) k"
proof (cases op)
  case (MNewSpawn ob)
  then have "mon_newSpawn env ob mo = Some (mo', es)" using st by (auto simp: mon_step_def)
  then show ?thesis using known_checkSpawnPoint [OF ok, of env "v_name spawn_vt" _ mo' es k]
      known_checkSpawnPoint [OF ok, of env "v_name (player_vt :: Player vtable)" _ mo' es k] MNewSpawn
    by (auto simp: mon_newSpawn_def mob_at_def count_spec_def split: if_splits obj.splits)
next
  case (MKillSpawn ob)
  have "env_ok env" using acc by (simp add: in_zone_def mon_accepts_def)
  then show ?thesis using known_killSpawn [OF ok] st MKillSpawn by (auto simp: mon_step_def count_spec_def)
next
  case (MDelete key)
  then show ?thesis using st ok known_delete [OF ok, of key _ mo' es k] known_promoted [OF ok, of key]
    by (cases "mo_points mo key") (auto simp: mon_step_def count_spec_def)
next
  case (MSelect key)
  then show ?thesis using st by (auto simp: mon_step_def count_spec_def setSelected_def split: if_splits)
qed (use st acc known_setName known_save in \<open>auto simp: mon_step_def count_spec_def in_zone_def\<close>)

interpretation counting: refined_machine mon_step "\<lambda>(mo, fs). mon_ok mo" in_zone "\<lambda>(mo, fs). known mo" count_spec
proof unfold_locales
  show "\<exists>s' es. mon_step p s = Some (s', es) \<and> (case s' of (mo, fs) \<Rightarrow> mon_ok mo)" if "case s of (mo, fs) \<Rightarrow> mon_ok mo" "in_zone p" for s p
    using monitor.step_ok [OF that(1), of p] that(2) by (simp add: in_zone_def)
  show "(case s' of (mo, fs) \<Rightarrow> known mo) = count_spec p (case s of (mo, fs) \<Rightarrow> known mo)"
    if "case s of (mo, fs) \<Rightarrow> mon_ok mo" "in_zone p" "mon_step p s = Some (s', es)" for s p s' es
    using known_step [of "fst s" "fst p" "snd p" "snd s" "fst s'" "snd s'" es] that by (auto simp: fun_eq_iff split: prod.splits)
qed

text \<open>C28: Between two changes of the zone the monitor is the abstract counter: for every place, what it knows
  is the fold over the monsters that appeared there (the first one makes a candidate, every further one a
  point with the count one higher) and the deletions of its point. Deaths, renamed and selected
  points and saves have no influence.\<close>

theorem monitor_counts:
  assumes "list_all in_zone ops"
  shows "\<exists>mo fs' es. run mon_step ops (new_SpawnMonitor, fs) = Some ((mo, fs'), es)
    \<and> known mo = fold count_spec ops (\<lambda>k. None)"
proof -
  have "mon_ok new_SpawnMonitor" "known new_SpawnMonitor = (\<lambda>k. None)"
    by (simp_all add: mon_ok_empty new_SpawnMonitor_def known_def fun_eq_iff)
  then show ?thesis using counting.run_abs [of "(new_SpawnMonitor, fs)", OF _ assms] by auto
qed

section \<open>The time between a death and the next appearance\<close>

text \<open>When the monster that appeared last at a point dies and another one appears there, the respawn
  time of the point is the time between the two, if no other point remembers the same id.\<close>

theorem respawn_time_measured:
  assumes "mon_ok mo" "env_ok env1" "mo_points mo (point_key s) = Some a" "mo_heap mo a = Some p"
    "sp_lastID p = obj_id ob" "\<forall>b q. mo_heap mo b = Some q \<and> sp_lastID q = obj_id ob \<longrightarrow> b = a"
    "is_mob s" "m_type s = tSpawn" "mo_now env1 \<noteq> 0"
  shows "\<exists>mo' p' es. run mon_step [(env1, MKillSpawn ob), (env2, MNewSpawn (OSpawn s))] (mo, fs) = Some ((mo', fs), es)
    \<and> mo_heap mo' a = Some p' \<and> sp_diffTime p' = mo_now env2 - mo_now env1 \<and> sp_count p' = sp_count p + 1"
proof -
  let ?w = "walk env1 (mo_points mo)"
  have w: "\<forall>b \<in> set ?w. mo_heap mo b \<noteq> None" using walk_live [OF assms(1,2)] by blast
  have a: "a \<in> set ?w" using assms(3) walk_set [OF assms(2) mon_okD(1) [OF assms(1)]] by (auto simp: ran_def)
  have "kill_points env1 (obj_id ob) as mo \<noteq> Some (mo, [])" if "a \<in> set as" "\<forall>b \<in> set as. mo_heap mo b \<noteq> None" for as
    using that
  proof (induction as)
    case (Cons b as)
    then show ?case using assms(4,5) by (auto simp: restartSpawnPoint_def Let_def split: if_splits)
  qed simp
  then have "\<exists>b q. mo_heap mo b = Some q \<and> obj_id ob = sp_lastID q \<and> mon_killSpawn env1 ob mo =
      Some (mo\<lparr>mo_heap := (mo_heap mo)(b \<mapsto> point_restart env1 q)\<rparr>, [SpawnPointUpdated b (point_restart env1 q)])"
    using kill_points_cases [OF w, of env1 "obj_id ob"] a w unfolding mon_killSpawn_def by blast
  then have k: "mon_killSpawn env1 ob mo = Some (mo\<lparr>mo_heap := (mo_heap mo)(a \<mapsto> point_restart env1 p)\<rparr>,
      [SpawnPointUpdated a (point_restart env1 p)])" using assms(4,6) by (metis option.inject)
  let ?p = "point_update env2 (m_ID s) (v_name spawn_vt s) (point_restart env1 p)"
  have "checkSpawnPoint env2 (v_name spawn_vt) s (mo\<lparr>mo_heap := (mo_heap mo)(a \<mapsto> point_restart env1 p)\<rparr>)
      = Some (mo\<lparr>mo_heap := (mo_heap mo)(a \<mapsto> ?p), mo_modified := True\<rparr>, [SpawnPointUpdated a ?p])"
    using assms(3,7) by (simp add: checkSpawnPoint_def Let_def)
  then show ?thesis using k assms(8,9)
    by (simp add: mon_step_def mon_newSpawn_def obj_type_def) (simp add: point_update_def point_restart_def Let_def)
qed

section \<open>Saving\<close>

definition points_text :: "monitor_env \<Rightarrow> SpawnMonitor \<Rightarrow> string" where
  "points_text env mo = concat (map (\<lambda>a. point_line (the (mo_heap mo a))) (walk env (mo_points mo)))"

definition point_file :: "monitor_env \<Rightarrow> SpawnMonitor \<Rightarrow> string" where
  "point_file env mo = mo_findWrite env (mo_zoneName mo @ ''.sp'')"

definition can_save :: "monitor_env \<Rightarrow> SpawnMonitor \<Rightarrow> bool" where
  "can_save env mo \<longleftrightarrow> mon_ok mo \<and> env_ok env \<and> mo_modified mo \<and> mo_zoneName mo \<noteq> [] \<and> mo_writable env (point_file env mo @ ''.new'')"

lemma save_result:
  assumes "can_save env mo"
  shows "saveSpawnPoints env (mo, fs) = Some (mo\<lparr>mo_modified := False\<rparr>,
    let f = point_file env mo; t = points_text env mo in
    if fs f = None then fs(f \<mapsto> t, f @ ''.new'' := None)
    else if fs (f @ ''.bak'') = None then fs(f @ ''.bak'' := fs f, f \<mapsto> t, f @ ''.new'' := None)
    else fs(f @ ''.new'' \<mapsto> t))"
proof -
  let ?f = "point_file env mo" and ?t = "points_text env mo"
  have l: "point_lines (mo_heap mo) (walk env (mo_points mo)) = Some ?t"
    unfolding points_text_def using walk_live assms by (intro point_lines_Some) (auto simp: can_save_def)
  have d: "?f \<noteq> ?f @ ''.new''" "?f \<noteq> ?f @ ''.bak''" "?f @ ''.new'' \<noteq> ?f @ ''.bak''" by simp_all
  show ?thesis using assms l unfolding can_save_def saveSpawnPoints_def point_file_def [symmetric] Let_def
    by (auto simp: fs_rename_def fun_upd_twist)
qed

text \<open>C26: A save whose file and backup both exist leaves the file as it was and reports that nothing is left
  to save: the file cannot be moved away, because the backup is not replaced, and the new text stays
  in the file next to it. So the first two saves of a zone reach its file, and no later one does.\<close>

theorem third_save_lost:
  assumes "can_save env mo" "fs (point_file env mo) \<noteq> None" "fs (point_file env mo @ ''.bak'') \<noteq> None"
  shows "\<exists>mo' fs'. saveSpawnPoints env (mo, fs) = Some (mo', fs') \<and> \<not> mo_modified mo'
    \<and> fs' (point_file env mo) = fs (point_file env mo) \<and> fs' (point_file env mo @ ''.bak'') = fs (point_file env mo @ ''.bak'')"
  using save_result [OF assms(1), of fs] assms(2,3) by (simp add: Let_def)

section \<open>Reading numbers\<close>

text \<open>What \<open>QTextStream\<close> documents of the numbers it reads: white space before a number is skipped, and
  the number in decimal digits ends where the digits end.\<close>

definition reads_numbers :: "monitor_env \<Rightarrow> bool" where
  "reads_numbers env \<longleftrightarrow> (\<forall>n t. mo_number env (dec_int n @ CHR '' '' # t) = (Some (word_of_int n), CHR '' '' # t))
     \<and> (\<forall>s. mo_number env (CHR '' '' # s) = mo_number env s)"

lemma read_int_dec:
  assumes "reads_numbers env"
  shows "read_int env (dec_int n @ CHR '' '' # t) = (word_of_int n, CHR '' '' # t)"
    "read_int env (CHR '' '' # dec_int n @ CHR '' '' # t) = (word_of_int n, CHR '' '' # t)"
  using assms by (simp_all add: reads_numbers_def read_int_def)

lemma read_line_append: "CHR 0x0A \<notin> set s \<Longrightarrow> read_line (s @ CHR 0x0A # t) = (s, t)"
  by (induction s) (auto simp: read_line_def)

lemma dec_string_int: "dec_string n = dec_int (int n)"
  by (simp add: dec_int_def)

text \<open>A point as its line in the file describes it.\<close>

definition stored_point :: "monitor_env \<Rightarrow> SpawnPoint \<Rightarrow> SpawnPoint" where
  "stored_point env p = new_SpawnPoint env 0 p (trimmed (sp_name p)) (sp_diffTime p) (sp_count p)"

definition storable :: "SpawnPoint \<Rightarrow> bool" where
  "storable p \<longleftrightarrow> CHR 0x0A \<notin> set (sp_name p) \<and> - (2 ^ 63) \<le> sp_diffTime p \<and> sp_diffTime p < 2 ^ 63"

lemma trimmed_space: "trimmed (CHR '' '' # s) = trimmed s"
  by (simp add: trimmed_def is_space_def)

lemma sint_word_of_int: "- (2 ^ 63) \<le> d \<Longrightarrow> d < 2 ^ 63 \<Longrightarrow> sint (word_of_int (d mod 2 ^ 64) :: u64) = d"
proof -
  assume d: "- (2 ^ 63) \<le> d" "d < 2 ^ 63"
  have "word_of_int (d mod 2 ^ 64) = (word_of_int d :: u64)" by (rule word_of_int_eq_iff [THEN iffD2]) (simp add: take_bit_eq_mod)
  then show ?thesis using d by (simp add: signed_take_bit_int_eq_self sint_sbintrunc')
qed

lemma ucast_scast: "(ucast (scast (w :: u16) :: u64) :: u16) = w" "(ucast (scast (v :: u32) :: u64) :: u32) = v"
  by (rule bit_word_eqI; simp add: bit_simps)+

lemma read_point_line:
  assumes "reads_numbers env" "storable p"
  shows "read_point env (point_line p @ t) = (stored_point env p, t)"
proof -
  have d: "dec_string (nat (sp_diffTime p mod 2 ^ 64)) = dec_int (sp_diffTime p mod 2 ^ 64)"
    by (simp add: dec_string_int)
  have s: "sint (word_of_int (sp_diffTime p mod 2 ^ 64) :: u64) = sp_diffTime p" using assms(2) sint_word_of_int by (simp add: storable_def)
  have n: "read_line (CHR '' '' # sp_name p @ CHR 0x0A # t) = (CHR '' '' # sp_name p, t)"
    using read_line_append [of "CHR '' '' # sp_name p" t] assms(2) by (simp add: storable_def)
  show ?thesis
    unfolding read_point_def point_line_def d using s n
    by (simp add: read_int_dec [OF assms(1)] trimmed_space stored_point_def Let_def)
      (simp add: new_SpawnPoint_def ucast_scast)
qed

section \<open>Loading what was saved\<close>

text \<open>What the monitor would store for every place.\<close>

definition stored :: "monitor_env \<Rightarrow> SpawnMonitor \<Rightarrow> string \<Rightarrow> SpawnPoint option" where
  "stored env mo k = (case mo_points mo k of None \<Rightarrow> None | Some a \<Rightarrow> map_option (stored_point env) (mo_heap mo a))"

lemma stored_key [simp]: "point_key (stored_point env p) = point_key p"
  by (simp add: stored_point_def)

definition point_of :: "SpawnMonitor \<Rightarrow> string \<Rightarrow> SpawnPoint option" where
  "point_of mo k = (case mo_points mo k of None \<Rightarrow> None | Some a \<Rightarrow> mo_heap mo a)"

lemma point_of_add:
  assumes "mon_ok mo" "mo_points mo (point_key p) = None" "add_point p mo = (mo', es)"
  shows "point_of mo' = (point_of mo)(point_key p \<mapsto> p)"
proof
  fix k
  have "mo_points mo k \<noteq> Some (mo_next mo)"
    using filed_point [OF mon_okD(1) [OF assms(1)], of k "mo_next mo"] mon_okD(3) [OF assms(1), of "mo_next mo"] by auto
  then show "point_of mo' k = ((point_of mo)(point_key p \<mapsto> p)) k"
    using assms(2,3) by (auto simp: add_point_def point_of_def split: option.splits)
qed

lemma point_of_modified [simp]: "point_of (mo\<lparr>mo_modified := b\<rparr>) = point_of mo"
  by (simp add: point_of_def fun_eq_iff split: option.split)

lemma point_of_None: "mon_ok mo \<Longrightarrow> point_of mo k = None \<longleftrightarrow> mo_points mo k = None"
  using filed_point [OF mon_okD(1), of mo k] by (auto simp: point_of_def split: option.splits)

lemma point_line_long: "\<exists>c s. point_line p @ t = c # s \<and> length t < length (c # s)"
  by (cases "point_line p @ t") (auto simp: point_line_def dest!: arg_cong [where f = length])

lemma load_lines:
  assumes "reads_numbers env" "\<forall>p \<in> set ps. storable p" "distinct (map point_key ps)" "mon_ok mo" "mo_spawns mo = Map.empty"
    "\<forall>p \<in> set ps. point_of mo (point_key p) = None" "length (concat (map point_line ps)) \<le> n"
  shows "\<exists>mo' es. load_points env n (concat (map point_line ps)) mo = Some (mo', es) \<and> mon_ok mo' \<and> mo_spawns mo' = Map.empty
    \<and> point_of mo' = point_of mo ++ map_of (map (\<lambda>p. (point_key p, stored_point env p)) ps)"
  using assms(2-)
proof (induction ps arbitrary: n mo)
  case (Cons p ps)
  let ?t = "concat (map point_line ps)"
  obtain c s where c: "point_line p @ ?t = c # s" "length ?t < length (c # s)" using point_line_long by blast
  then obtain m where m: "n = Suc m" using Cons.prems(6) by (cases n) auto
  have r: "read_point env (c # s) = (stored_point env p, ?t)" using read_point_line [OF assms(1), of p ?t] Cons.prems(1) c by simp
  obtain mo1 e1 where a: "add_point (stored_point env p) mo = (mo1, e1)" by fastforce
  have k: "mo_points mo (point_key p) = None" using Cons.prems(5) point_of_None [OF Cons.prems(3)] by simp
  have po: "point_of mo1 = (point_of mo)(point_key p \<mapsto> stored_point env p)"
    using point_of_add [OF Cons.prems(3) _ a] k by simp
  have m1: "mon_ok mo1" "mo_spawns mo1 = Map.empty" using add_point_ok [OF Cons.prems(3,4) a] by auto
  have "\<forall>q \<in> set ps. point_of mo1 (point_key q) = None" using Cons.prems(2,5) po by (auto simp: image_iff)
  moreover have "length ?t \<le> m" using c Cons.prems(6) m by simp
  ultimately obtain mo' es where "load_points env m ?t mo1 = Some (mo', es)" "mon_ok mo'" "mo_spawns mo' = Map.empty"
    "point_of mo' = point_of mo1 ++ map_of (map (\<lambda>p. (point_key p, stored_point env p)) ps)"
    using Cons.IH [of mo1 m] Cons.prems(1,2) m1 by auto
  moreover from this(1) have "load_points env n (concat (map point_line (p # ps))) mo = Some (mo', e1 @ es)"
    using c(1) r a m by simp
  moreover have "point_of mo1 ++ map_of (map (\<lambda>p. (point_key p, stored_point env p)) ps)
      = point_of mo ++ map_of (map (\<lambda>p. (point_key p, stored_point env p)) (p # ps))"
    using Cons.prems(2) po by (simp add: map_add_upd_left dom_map_of_conv_image_fst image_image)
  ultimately show ?case by metis
qed simp

lemma stored_eq:
  assumes "mon_ok mo" "env_ok env"
  shows "map_of (map (\<lambda>p. (point_key p, stored_point env p)) (map (\<lambda>a. the (mo_heap mo a)) (walk env (mo_points mo)))) = stored env mo"
proof
  fix k
  note f = mon_okD(1) [OF assms(1)]
  let ?ks = "mo_order env (mo_points mo)"
  have o: "set ?ks = dom (mo_points mo)" using f assms(2) by (simp add: env_ok_def filed_def)
  have h: "\<exists>p. mo_heap mo (the (mo_points mo l)) = Some p \<and> point_key p = l" if "l \<in> set ?ks" for l
    using that o filed_point [OF f] by force
  have m: "map (\<lambda>p. (point_key p, stored_point env p)) (map (\<lambda>a. the (mo_heap mo a)) (walk env (mo_points mo)))
      = map (\<lambda>l. (l, the (stored env mo l))) ?ks"
  proof -
    have "(point_key (the (mo_heap mo (the (mo_points mo l)))), stored_point env (the (mo_heap mo (the (mo_points mo l)))))
        = (l, the (stored env mo l))" if "l \<in> set ?ks" for l
      using h [OF that] that o by (auto simp: stored_def dom_def)
    then show ?thesis by (simp add: walk_def)
  qed
  have "stored env mo k \<noteq> None \<longleftrightarrow> k \<in> set ?ks" using o h [of k] by (auto simp: stored_def dom_def split: option.split)
  then show "map_of (map (\<lambda>p. (point_key p, stored_point env p)) (map (\<lambda>a. the (mo_heap mo a)) (walk env (mo_points mo)))) k = stored env mo k"
    unfolding m by (auto simp: map_of_map_restrict restrict_map_def)
qed

text \<open>A zone that is left and entered again has the points it had, each with its place, its respawn time, its
  count and its name without the white space around it, when the file of the zone did not exist
  before; the candidates are forgotten.\<close>

theorem zone_points_restored:
  assumes "can_save env mo" "reads_numbers env" "\<forall>a p. mo_heap mo a = Some p \<longrightarrow> storable p"
    "fs (point_file env mo) = None" "mo_findExisting env (mo_zoneName mo @ ''.sp'') = point_file env mo"
    "other \<noteq> mo_zoneName mo" "mo_findExisting env (other @ ''.sp'') \<noteq> point_file env mo" "fs (mo_findExisting env (other @ ''.sp'')) = None"
  shows "\<exists>mo' fs' es. run mon_step [(env, MZoneChanged other), (env, MZoneChanged (mo_zoneName mo))] (mo, fs) = Some ((mo', fs'), es)
    \<and> point_of mo' = stored env mo \<and> mo_spawns mo' = Map.empty"
proof -
  have ok: "mon_ok mo" "env_ok env" using assms(1) by (simp_all add: can_save_def)
  let ?f = "point_file env mo" and ?t = "points_text env mo"
  let ?ps = "map (\<lambda>a. the (mo_heap mo a)) (walk env (mo_points mo))"
  let ?fs = "fs(?f \<mapsto> ?t, ?f @ ''.new'' := None)"
  let ?e = "\<lambda>z. mo\<lparr>mo_modified := False, mo_heap := Map.empty, mo_spawns := Map.empty, mo_points := Map.empty, mo_selected := None, mo_zoneName := z\<rparr>"
  have s: "saveSpawnPoints env (mo, fs) = Some (mo\<lparr>mo_modified := False\<rparr>, ?fs)" using save_result [OF assms(1), of fs] assms(4) by (simp add: Let_def)
  have z1: "mon_zoneChanged env other (mo, fs) = Some ((?e other, ?fs), [ClearSpawnPoints])"
    using s mon_clear_eq [of "mo\<lparr>mo_modified := False\<rparr>" env] ok assms(6-8)
    by (auto simp: mon_zoneChanged_def loadSpawnPoints_def)
  have e: "mon_ok (?e z)" for z by (simp add: mon_ok_empty)
  have t: "?t = concat (map point_line ?ps)" by (simp add: points_text_def comp_def)
  have live: "\<forall>p \<in> set ?ps. \<exists>a. mo_heap mo a = Some p" using walk_live [OF ok] by fastforce
  have d: "distinct (map point_key ?ps)"
  proof -
    have "point_key (the (mo_heap mo (the (mo_points mo l)))) = l" if "l \<in> dom (mo_points mo)" for l
      using that filed_point [OF mon_okD(1) [OF ok(1)]] by force
    moreover have o: "distinct (mo_order env (mo_points mo))" "set (mo_order env (mo_points mo)) = dom (mo_points mo)"
      using ok mon_okD(1) by (auto simp: env_ok_def filed_def)
    ultimately have "map point_key ?ps = mo_order env (mo_points mo)" by (auto simp: walk_def intro: map_idI)
    then show ?thesis using o by simp
  qed
  have st: "\<forall>p \<in> set ?ps. storable p" using live assms(3) by blast
  let ?z = "?e (mo_zoneName mo)"
  have p: "point_of ?z = Map.empty" "mo_spawns ?z = Map.empty" by (simp_all add: point_of_def fun_eq_iff)
  then have n: "\<forall>p \<in> set ?ps. point_of ?z (point_key p) = None" by (simp only: p(1)) simp
  obtain mo' es where l: "load_points env (length ?t) ?t ?z = Some (mo', es)"
    "point_of mo' = point_of ?z ++ map_of (map (\<lambda>p. (point_key p, stored_point env p)) ?ps)" "mo_spawns mo' = Map.empty"
    using load_lines [OF assms(2) st d e p(2) n order.refl] unfolding t by blast
  have "mon_zoneChanged env (mo_zoneName mo) (?e other, ?fs) = Some ((mo'\<lparr>mo_modified := False\<rparr>, ?fs), ClearSpawnPoints # es)"
    using assms(5,6) l mon_clear_eq [OF e ok(2)] by (simp add: mon_zoneChanged_def saveSpawnPoints_def loadSpawnPoints_def)
  moreover have "point_of (mo'\<lparr>mo_modified := False\<rparr>) = stored env mo"
     unfolding point_of_modified l(2) stored_eq [OF ok] p(1) by simp
  ultimately show ?thesis using z1 l(3) by (simp add: mon_step_def)
qed

section \<open>Samples\<close>

text \<open>A reader of decimal numbers, and a surrounding with it.\<close>

definition decimal_reader :: "string \<Rightarrow> u64 option \<times> string" where
  "decimal_reader s = (case dropWhile (\<lambda>c. c = CHR '' '') s of
     [] \<Rightarrow> (None, [])
   | c # t \<Rightarrow> (if c = CHR ''-'' then (Some (- of_nat (digits_value (takeWhile is_digit t))), dropWhile is_digit t)
              else (Some (of_nat (digits_value (takeWhile is_digit (c # t)))), dropWhile is_digit (c # t))))"

definition sample_monitor_env :: "int \<Rightarrow> monitor_env" where
  "sample_monitor_env now = \<lparr>mo_now = now, mo_order = (\<lambda>m. sorted_list_of_set (dom m)), mo_lower = id, mo_number = decimal_reader,
     mo_findExisting = id, mo_findWrite = id, mo_writable = (\<lambda>_. True)\<rparr>"

lemma decimal_reader_shorter: "length (snd (decimal_reader s)) \<le> length s"
proof -
  have d: "length (dropWhile P t) \<le> length t" for P and t :: string by (rule length_dropWhile_le)
  show ?thesis
  proof (cases "dropWhile (\<lambda>c. c = CHR '' '') s")
    case (Cons c t)
    then have "length (c # t) \<le> length s" using d [of "\<lambda>c. c = CHR '' ''" s] by simp
    then show ?thesis using Cons d [of is_digit t] d [of is_digit "c # t"] by (auto simp: decimal_reader_def)
  next
    case Nil
    then show ?thesis by (simp only: decimal_reader_def) simp
  qed
qed

lemma sample_env_ok: "env_ok (sample_monitor_env now)"
  using decimal_reader_shorter by (simp add: env_ok_def sample_monitor_env_def)

lemma dec_string_cut:
  "takeWhile is_digit (dec_string n @ CHR '' '' # t) = dec_string n" "dropWhile is_digit (dec_string n @ CHR '' '' # t) = CHR '' '' # t"
proof -
  have "\<forall>c \<in> set (dec_string n). is_digit c" using dec_string_digits by (auto simp: is_digit_def)
  moreover have "\<not> is_digit (CHR '' '')" by (simp add: is_digit_def)
  ultimately show "takeWhile is_digit (dec_string n @ CHR '' '' # t) = dec_string n" "dropWhile is_digit (dec_string n @ CHR '' '' # t) = CHR '' '' # t"
    by (simp_all add: takeWhile_append2 dropWhile_append2)
qed

lemma sample_reads_numbers: "reads_numbers (sample_monitor_env now)"
proof -
  have nat: "decimal_reader (dec_string n @ CHR '' '' # t) = (Some (of_nat n), CHR '' '' # t)" for n t
  proof -
    obtain c s where c: "dec_string n = c # s" using dec_string_nonempty [of n] by (cases "dec_string n") auto
    have "c \<noteq> CHR '' ''" "c \<noteq> CHR ''-''" using dec_string_digits [of c n] c by auto
    then show ?thesis using dec_string_cut [of n t] by (simp add: decimal_reader_def c digits_value_dec [of n, unfolded c])
  qed
  have "decimal_reader (dec_int n @ CHR '' '' # t) = (Some (word_of_int n), CHR '' '' # t)" for n t
  proof (cases "n < 0")
    case True
    then have "of_nat (nat (- n)) = (word_of_int (- n) :: u64)" by (simp add: of_nat_nat)
    then show ?thesis using True dec_string_cut [of "nat (- n)" t] by (simp add: decimal_reader_def dec_int_def digits_value_dec)
  next
    case False
    then have "of_nat (nat n) = (word_of_int n :: u64)" by (simp add: of_nat_nat)
    then show ?thesis using False nat by (simp add: dec_int_def)
  qed
  moreover have "decimal_reader (CHR '' '' # s) = decimal_reader s" for s by (simp add: decimal_reader_def)
  ultimately show ?thesis by (simp add: reads_numbers_def sample_monitor_env_def)
qed

definition sample_mob :: "u16 \<Rightarrow> Spawn" where
  "sample_mob i = (blank_spawn \<lparr>q_msec = 0, q_time = 0, q_utf8 = (\<lambda>_. []), q_toInt = (\<lambda>_. 0), t_race = (\<lambda>_. None), t_type = (\<lambda>_. None),
     t_item = (\<lambda>_ _. None), t_class = (\<lambda>_. [])\<rparr> tSpawn i)\<lparr>m_NPC := SPAWN_NPC, pt_x := 10\<rparr>"

lemma sample_mob_fields: "is_mob (sample_mob i)" "m_type (sample_mob i) = tSpawn" "m_ID (sample_mob i) = i"
  "point_key (sample_mob i) = ''10|0|0''"
  by (simp_all add: is_mob_def sample_mob_def blank_spawn_def point_key_def dec_int_def dec_string.simps char_of_def bit_0)

definition sample_monitor :: SpawnMonitor where
  "sample_monitor = new_SpawnMonitor\<lparr>mo_heap := [0 \<mapsto> new_SpawnPoint (sample_monitor_env 5) 7 (sample_mob 7) ''Camp'' 0 2], mo_next := 1,
     mo_points := [''10|0|0'' \<mapsto> 0], mo_modified := True, mo_zoneName := ''befallen''\<rparr>"

lemma sample_monitor_ok: "mon_ok sample_monitor"
  using sample_mob_fields(4) [of 7] by (auto simp: mon_ok_def filed_def sample_monitor_def new_SpawnMonitor_def)

theorem monitor_never_faults_witness:
  "\<exists>mo fs' es. run mon_step [(sample_monitor_env 5, MNewSpawn (OSpawn (sample_mob 7))), (sample_monitor_env 9, MZoneChanged ''befallen'')]
     (new_SpawnMonitor, Map.empty) = Some ((mo, fs'), es) \<and> mon_ok mo"
  by (rule monitor_never_faults) (simp add: mon_accepts_def sample_env_ok)

theorem monitor_counts_witness:
  "\<exists>mo fs' es. run mon_step [(sample_monitor_env 5, MNewSpawn (OSpawn (sample_mob 7))), (sample_monitor_env 6, MNewSpawn (OSpawn (sample_mob 8)))]
     (new_SpawnMonitor, Map.empty) = Some ((mo, fs'), es) \<and> known mo ''10|0|0'' = Some (True, 2)"
proof -
  let ?ops = "[(sample_monitor_env 5, MNewSpawn (OSpawn (sample_mob 7))), (sample_monitor_env 6, MNewSpawn (OSpawn (sample_mob 8)))]"
  have "list_all in_zone ?ops" by (simp add: in_zone_def mon_accepts_def sample_env_ok)
  moreover have "fold count_spec ?ops (\<lambda>k. None) ''10|0|0'' = Some (True, 2)"
    by (simp add: count_spec_def mob_at_def obj_type_def sample_mob_fields)
  ultimately show ?thesis using monitor_counts [of ?ops Map.empty] by metis
qed

theorem respawn_time_measured_witness:
  "\<exists>mo' p' es. run mon_step [(sample_monitor_env 100, MKillSpawn (OSpawn (sample_mob 7))), (sample_monitor_env 160, MNewSpawn (OSpawn (sample_mob 9)))]
     (sample_monitor, Map.empty) = Some ((mo', Map.empty), es) \<and> mo_heap mo' 0 = Some p' \<and> sp_diffTime p' = 60 \<and> sp_count p' = 3"
  using respawn_time_measured [OF sample_monitor_ok sample_env_ok, of "sample_mob 9" 0 _ "OSpawn (sample_mob 7)" 100 "sample_monitor_env 160" Map.empty]
  by (simp add: sample_mob_fields sample_monitor_def new_SpawnMonitor_def new_SpawnPoint_def obj_id_def sample_monitor_env_def)

lemma sample_can_save: "can_save (sample_monitor_env 5) sample_monitor" "point_file (sample_monitor_env 5) sample_monitor = ''befallen.sp''"
  by (simp_all add: can_save_def sample_env_ok sample_monitor_ok point_file_def) (simp_all add: sample_monitor_def sample_monitor_env_def)

theorem third_save_lost_witness:
  "\<exists>mo' fs'. saveSpawnPoints (sample_monitor_env 5) (sample_monitor, [''befallen.sp'' \<mapsto> [], ''befallen.sp.bak'' \<mapsto> []]) = Some (mo', fs')
     \<and> \<not> mo_modified mo' \<and> fs' ''befallen.sp'' = Some []"
  using third_save_lost [OF sample_can_save(1), of "[''befallen.sp'' \<mapsto> [], ''befallen.sp.bak'' \<mapsto> []]"]
  by (fastforce simp: sample_can_save(2))

theorem zone_points_restored_witness:
  "\<exists>mo' fs' es. run mon_step [(sample_monitor_env 5, MZoneChanged ''nektulos''), (sample_monitor_env 5, MZoneChanged ''befallen'')]
     (sample_monitor, Map.empty) = Some ((mo', fs'), es)
     \<and> point_of mo' ''10|0|0'' = Some (new_SpawnPoint (sample_monitor_env 5) 0 (sample_mob 7) ''Camp'' 0 2)"
proof -
  have n: "mo_zoneName sample_monitor = ''befallen''" by (simp add: sample_monitor_def)
  have t: "trimmed ''Camp'' = ''Camp''" by code_simp
  have s: "stored (sample_monitor_env 5) sample_monitor ''10|0|0'' = Some (new_SpawnPoint (sample_monitor_env 5) 0 (sample_mob 7) ''Camp'' 0 2)"
    by (simp add: stored_def sample_monitor_def stored_point_def t new_SpawnPoint_def)
  have p: "\<forall>a p. mo_heap sample_monitor a = Some p \<longrightarrow> storable p"
    by (simp add: sample_monitor_def storable_def new_SpawnPoint_def)
  have f: "mo_findExisting (sample_monitor_env 5) t = t" for t by (simp add: sample_monitor_env_def)
  have "\<exists>mo' fs' es. run mon_step [(sample_monitor_env 5, MZoneChanged ''nektulos''),
      (sample_monitor_env 5, MZoneChanged (mo_zoneName sample_monitor))] (sample_monitor, Map.empty) = Some ((mo', fs'), es)
    \<and> point_of mo' = stored (sample_monitor_env 5) sample_monitor \<and> mo_spawns mo' = Map.empty"
    by (rule zone_points_restored [OF sample_can_save(1) sample_reads_numbers p]) (simp_all add: f n sample_can_save(2))
  then obtain mo' fs' es where "run mon_step [(sample_monitor_env 5, MZoneChanged ''nektulos''),
      (sample_monitor_env 5, MZoneChanged (mo_zoneName sample_monitor))] (sample_monitor, Map.empty) = Some ((mo', fs'), es)"
    "point_of mo' = stored (sample_monitor_env 5) sample_monitor" by blast
  then show ?thesis using s unfolding n by metis
qed

end
