(* ===== verification/Guild.thy ===== *)
theory Guild
  imports NetStream OrdMap Strings
begin

text \<open>
  \<open>src/src/guild.h\<close> and \<open>src/src/guild.cpp\<close>: the names of the guilds, by a key of server and guild id, from
  two packets and a file. The file is its bytes (\<open>None\<close> when it does not exist). The codecs of the Qt library, its number
  reader and whether the file can be removed and opened are \<open>guild_env\<close>. \<open>listGuildInfo\<close> writes to the log and is left out.
\<close>

record guild_env =
  gu_utf8 :: "bytes \<Rightarrow> string"
  gu_encode :: "string \<Rightarrow> bytes"
  gu_toULong :: "bytes \<Rightarrow> u64"
  gu_removable :: bool
  gu_writable :: bool

type_synonym guild_list = "(u32, string) omap"

record GuildMgr =
  gu_list :: guild_list
  gu_file :: "bytes option"

datatype guild_event = GuildTagUpdated u32

definition guild_key :: "u32 \<Rightarrow> u32 \<Rightarrow> u32" where
  "guild_key guildServerId guildId = push_bit 16 guildServerId OR guildId"

definition has_guild :: "u32 \<Rightarrow> guild_list \<Rightarrow> bool" where
  "has_guild key gl \<longleftrightarrow> map_of gl key \<noteq> None"

text \<open>The parameters have 16 bits and are widened before the shift.\<close>

definition guildIdToName :: "GuildMgr \<Rightarrow> u16 \<Rightarrow> u16 \<Rightarrow> string" where
  "guildIdToName gm guildID guildServerID =
     (let key = guild_key (ucast guildServerID) (ucast guildID)
      in if guildID = 0 \<or> guildServerID = 0 \<or> \<not> has_guild key (gu_list gm) then []
         else the (map_of (gu_list gm) key))"

section \<open>The file\<close>

text \<open>\<open>QString::toLatin1\<close>, and \<open>QByteArray::trimmed\<close> with the white space of the C library.\<close>

definition to_latin1 :: "string \<Rightarrow> bytes" where
  "to_latin1 s = map (\<lambda>c. of_nat (of_char c)) s"

definition byte_space :: "u8 \<Rightarrow> bool" where
  "byte_space b \<longleftrightarrow> (9 \<le> b \<and> b \<le> 13) \<or> b = 32"

definition bytes_trimmed :: "bytes \<Rightarrow> bytes" where
  "bytes_trimmed bs = rev (dropWhile byte_space (rev (dropWhile byte_space bs)))"

text \<open>A \<open>QByteArray\<close> that is appended to a \<open>QString\<close> is read as UTF-8.\<close>

definition guild_line :: "guild_env \<Rightarrow> u32 \<times> string \<Rightarrow> bytes" where
  "guild_line env e = gu_encode env (trimmed (dec_string (unat (fst e)) @ ''|'' @ gu_utf8 env (to_latin1 (snd e)))) @ [10]"

definition guild_lines :: "guild_env \<Rightarrow> guild_list \<Rightarrow> bytes" where
  "guild_lines env gl = concat (map (guild_line env) (filter (\<lambda>e. fst e \<noteq> 0) gl))"

definition writeGuildList :: "guild_env \<Rightarrow> GuildMgr \<Rightarrow> GuildMgr" where
  "writeGuildList env gm =
     (if gu_file gm \<noteq> None \<and> \<not> gu_removable env then gm
      else if \<not> gu_writable env then gm\<lparr>gu_file := None\<rparr>
      else gm\<lparr>gu_file := Some (guild_lines env (gu_list gm))\<rparr>)"

text \<open>\<open>readLine\<close> keeps the line break.\<close>

function read_lines :: "bytes \<Rightarrow> bytes list" where
  "read_lines bs = (if bs = [] then []
     else let l = takeWhile (\<lambda>b. b \<noteq> 10) bs; r = dropWhile (\<lambda>b. b \<noteq> 10) bs
          in (l @ take 1 r) # read_lines (drop 1 r))"
  by pat_completeness auto
termination
proof (relation "measure length")
  fix bs l r :: bytes
  assume "bs \<noteq> []" "r = dropWhile (\<lambda>b. b \<noteq> 10) bs"
  then show "(drop 1 r, bs) \<in> measure length"
    using length_dropWhile_le [of "\<lambda>b. b \<noteq> 10" bs] by (cases bs; cases r) auto
qed simp

declare read_lines.simps [simp del]

fun split_bytes :: "u8 \<Rightarrow> bytes \<Rightarrow> bytes list" where
  "split_bytes c [] = [[]]"
| "split_bytes c (d # s) =
     (if c = d then [] # split_bytes c s
      else (case split_bytes c s of [] \<Rightarrow> [[d]] | p # ps \<Rightarrow> (d # p) # ps))"

fun read_guilds :: "guild_env \<Rightarrow> bytes list \<Rightarrow> guild_list \<Rightarrow> guild_list \<times> guild_event list" where
  "read_guilds env [] gl = (gl, [])"
| "read_guilds env (l # ls) gl =
     (case split_bytes 124 l of
        [k, n] \<Rightarrow> let key = ucast (gu_toULong env k);
                      (gl', es) = read_guilds env ls (om_assign key (gu_utf8 env (bytes_trimmed n)) gl)
                  in (gl', GuildTagUpdated (key AND 0xffff) # es)
      | _ \<Rightarrow> read_guilds env ls gl)"

definition readGuildList :: "guild_env \<Rightarrow> GuildMgr \<Rightarrow> GuildMgr \<times> guild_event list" where
  "readGuildList env gm = (case gu_file gm of
     None \<Rightarrow> (gm\<lparr>gu_list := []\<rparr>, [])
   | Some bs \<Rightarrow> let (gl, es) = read_guilds env (read_lines bs) [] in (gm\<lparr>gu_list := gl\<rparr>, es))"

definition new_guild_mgr :: "guild_env \<Rightarrow> bytes option \<Rightarrow> GuildMgr" where
  "new_guild_mgr env file = fst (readGuildList env \<lparr>gu_list = [], gu_file = file\<rparr>)"

text \<open>\<open>guildList2text\<close> writes another file.\<close>

definition guildList2text :: "guild_env \<Rightarrow> GuildMgr \<Rightarrow> bytes option \<Rightarrow> bytes option" where
  "guildList2text env gm file =
     (if file \<noteq> None \<and> \<not> gu_removable env then file
      else if \<not> gu_writable env then None
      else Some (concat (map (\<lambda>(k, n). gu_encode env (dec_string (unat k) @ [CHR 0x09] @ n @ [CHR 0x0A]))
        (filter (\<lambda>e. fst e \<noteq> 0) (gu_list gm)))))"

section \<open>Packets\<close>

definition newGuildInZone :: "guild_env \<Rightarrow> bytes \<Rightarrow> nat \<Rightarrow> GuildMgr \<Rightarrow> (GuildMgr \<times> guild_event list) option" where
  "newGuildInZone env data len gm = do {
     (guildId, n1) \<leftarrow> readUInt32NC (mkNetStream data len);
     (guildServerId, n2) \<leftarrow> readUInt32NC n1;
     let key = guild_key guildServerId guildId;
     (guildName, n3) \<leftarrow> readText (gu_utf8 env) n2;
     Some (if guildName \<noteq> [] \<and> \<not> has_guild key (gu_list gm)
           then (writeGuildList env (gm\<lparr>gu_list := om_assign key guildName (gu_list gm)\<rparr>), [GuildTagUpdated guildId])
           else (gm, []))
   }"

text \<open>One entry of the list: the name is kept when it is not empty and the key is new.\<close>

definition add_guild :: "u32 \<Rightarrow> u32 \<Rightarrow> string \<Rightarrow> guild_list \<Rightarrow> guild_list \<times> guild_event list" where
  "add_guild guildId guildServerId guildName gl =
     (let key = guild_key guildServerId guildId
      in if guildName \<noteq> [] \<and> \<not> has_guild key gl then (om_assign key guildName gl, [GuildTagUpdated guildId]) else (gl, []))"

lemma readUInt32NC_pos: "readUInt32NC ns = Some (v, ns') \<Longrightarrow> ns_length ns' = ns_length ns \<and> ns_pos ns \<le> ns_pos ns'"
  by (auto simp: readUInt32NC_def bind_Some_iff split: if_splits)

lemma text_scan_pos: "text_scan m l p = Some k \<Longrightarrow> p \<le> k"
proof (induction m l p rule: text_scan.induct)
  case (1 m l p)
  then show ?case by (subst (asm) (2) text_scan.simps) (auto split: option.splits if_splits dest: Suc_leD)
qed

lemma readText_pos: "readText u ns = Some (s, ns') \<Longrightarrow> ns_length ns' = ns_length ns \<and>
    (ns_pos ns < ns_length ns \<longrightarrow> ns_pos ns < ns_pos ns') \<and> ns_pos ns \<le> ns_pos ns'"
proof (cases "ns_pos ns < ns_length ns")
  case True
  assume r: "readText u ns = Some (s, ns')"
  then obtain k where k: "text_scan (ns_data ns) (ns_length ns) (ns_pos ns) = Some k"
    "ns' = ns\<lparr>ns_pos := (if k < ns_length ns then Suc k else k)\<rparr>"
    using True by (auto simp: readText_def bind_Some_iff Let_def)
  then show ?thesis using True text_scan_pos [OF k(1)] by auto
qed (simp add: readText_def)

function guild_entries :: "guild_env \<Rightarrow> nat \<Rightarrow> u32 \<Rightarrow> netstream \<Rightarrow> guild_list \<Rightarrow> (guild_list \<times> guild_event list) option" where
  "guild_entries env len sz ns gl =
     (if ns_end ns then Some (gl, [])
      else do {
        (guildId, n1) \<leftarrow> readUInt32NC ns;
        (guildServerId, n2) \<leftarrow> readUInt32NC n1;
        (guildName, n3) \<leftarrow> readText (gu_utf8 env) n2;
        let (gl1, e1) = add_guild guildId guildServerId guildName gl;
        let size1 = sz + 8 + of_nat (length guildName) + 1;
        if unat size1 \<ge> len then Some (gl1, e1)
        else map_option (\<lambda>(gl2, e2). (gl2, e1 @ e2)) (guild_entries env len size1 n3 gl1)
      })"
  by pat_completeness auto
termination
proof (relation "measure (\<lambda>(env, len, sz, ns, gl). ns_length ns - ns_pos ns)", goal_cases)
  case 2
  then show ?case by (auto simp: ns_end_def dest!: readUInt32NC_pos readText_pos)
qed simp

declare guild_entries.simps [simp del]

definition guildsInZoneList :: "guild_env \<Rightarrow> bytes \<Rightarrow> nat \<Rightarrow> GuildMgr \<Rightarrow> (GuildMgr \<times> guild_event list) option" where
  "guildsInZoneList env data len gm = do {
     (nameLen, n1) \<leftarrow> readUInt32NC (mkNetStream data len);
     (_, n2) \<leftarrow> readUInt32NC (skipBytes (unat nameLen) n1);
     (gl, es) \<leftarrow> guild_entries env len (4 + nameLen + 4) n2 (gu_list gm);
     let gm1 = gm\<lparr>gu_list := gl\<rparr>;
     Some (if es \<noteq> [] then writeGuildList env gm1 else gm1, es)
   }"

end
