(* ===== verification/GuildProps.thy ===== *)
theory GuildProps
  imports Guild SpawnShellProps
begin

text \<open>
  The properties of the guild manager: what it learns from a packet, that its file gives the names
  back, and that the spawns of the shell never get one of them.
\<close>

section \<open>The list of a packet\<close>

type_synonym guild_entry = "u32 \<times> u32 \<times> bytes"

definition entry_bytes :: "guild_entry \<Rightarrow> bytes" where
  "entry_bytes = (\<lambda>(i, s, n). le_bytes 4 i @ le_bytes 4 s @ n @ [0])"

definition zone_list :: "bytes \<Rightarrow> u32 \<Rightarrow> guild_entry list \<Rightarrow> bytes" where
  "zone_list player num es = le_bytes 4 (of_nat (length player) :: u32) @ player @ le_bytes 4 num @ concat (map entry_bytes es)"

text \<open>The first name of a key is kept.\<close>

definition learn :: "guild_env \<Rightarrow> guild_entry \<Rightarrow> (u32 \<Rightarrow> string option) \<Rightarrow> u32 \<Rightarrow> string option" where
  "learn env = (\<lambda>(i, s, n) m. let k = guild_key s i in if m k = None then m(k \<mapsto> gu_utf8 env n) else m)"

text \<open>A name in the alphabet in which every character is one byte.\<close>

definition entry_ok :: "guild_env \<Rightarrow> guild_entry \<Rightarrow> bool" where
  "entry_ok env = (\<lambda>(i, s, n). n \<noteq> [] \<and> 0 \<notin> set n \<and> length (gu_utf8 env n) = length n)"

lemma le_read: "le_word (take 4 (le_bytes 4 w @ xs)) = (w :: u32)"
  by (simp add: le_word_le_bytes)

lemma readUInt32NC_at:
  assumes "ns_data ns = pre @ le_bytes 4 w @ rest" "ns_pos ns = length pre" "ns_length ns = length (ns_data ns)"
  shows "readUInt32NC ns = Some (w, ns\<lparr>ns_pos := length pre + 4\<rparr>)"
proof -
  have "eqtohuint32 (ns_data ns) (ns_pos ns) = Some w" using assms by (simp add: eqtohuint32_def rd_range_def le_word_le_bytes)
  then show ?thesis using assms by (simp add: readUInt32NC_def ns_left_def ns_skip_def)
qed

lemma readText_at:
  assumes "ns_data ns = pre @ n @ [0] @ rest" "ns_pos ns = length pre" "ns_length ns = length (ns_data ns)" "0 \<notin> set n"
  shows "readText u ns = Some (u n, ns\<lparr>ns_pos := length pre + length n + 1\<rparr>)"
proof -
  have "ns_data ns ! j \<noteq> 0" if "ns_pos ns \<le> j" "j < ns_pos ns + length n" for j
  proof -
    have "j - length pre < length n" using assms(2) that by auto
    moreover from this have "ns_data ns ! j = n ! (j - length pre)" using assms(1,2) that by (simp add: nth_append)
    ultimately show ?thesis using assms(4) nth_mem by metis
  qed
  then have "readText u ns = Some (u (take (ns_pos ns + length n - ns_pos ns) (drop (ns_pos ns) (ns_data ns))), ns\<lparr>ns_pos := Suc (ns_pos ns + length n)\<rparr>)"
    using assms by (intro readText_terminated) (auto simp: ns_ok_def nth_append)
  then show ?thesis using assms(1,2) by simp
qed

lemma length_entry_bytes: "length (entry_bytes (i, s, n)) = 9 + length n"
  by (simp add: entry_bytes_def)

lemma guild_entries_learn:
  assumes "list_all (entry_ok env) es" "ns_data ns = pre @ concat (map entry_bytes es)" "ns_pos ns = length pre"
    "ns_length ns = length (ns_data ns)" "sz = of_nat (length pre)" "length (ns_data ns) < 2 ^ 32" "om_ok gl"
  shows "\<exists>gl' ev. guild_entries env (length (ns_data ns)) sz ns gl = Some (gl', ev) \<and> om_ok gl' \<and> map_of gl' = fold (learn env) es (map_of gl)
    \<and> (ev = [] \<longrightarrow> map_of gl' = map_of gl)"
  using assms
proof (induction es arbitrary: ns pre sz gl)
  case Nil
  then show ?case by (simp add: guild_entries.simps [of _ _ _ ns] ns_end_def)
next
  case (Cons e es)
  obtain i s n where e: "e = (i, s, n)" by (cases e)
  have n: "n \<noteq> []" "0 \<notin> set n" "length (gu_utf8 env n) = length n" using Cons.prems(1) by (auto simp: entry_ok_def e)
  let ?L = "length (ns_data ns)" and ?r = "concat (map entry_bytes es)"
  have d: "ns_data ns = pre @ le_bytes 4 i @ le_bytes 4 s @ n @ [0] @ ?r" using Cons.prems(2) by (simp add: e entry_bytes_def)
  let ?n1 = "ns\<lparr>ns_pos := length pre + 4\<rparr>" and ?n2 = "ns\<lparr>ns_pos := length pre + 8\<rparr>" and ?n3 = "ns\<lparr>ns_pos := length pre + 9 + length n\<rparr>"
  have r1: "readUInt32NC ns = Some (i, ?n1)" using readUInt32NC_at [OF d] Cons.prems by simp
  have r2: "readUInt32NC ?n1 = Some (s, ?n2)" using readUInt32NC_at [of ?n1 "pre @ le_bytes 4 i" s "n @ [0] @ ?r"] Cons.prems d by simp
  have r3: "readText (gu_utf8 env) ?n2 = Some (gu_utf8 env n, ?n3)"
    using readText_at [of ?n2 "pre @ le_bytes 4 i @ le_bytes 4 s" n ?r] Cons.prems d n(2) by (simp add: ac_simps)
  obtain gl1 e1 where a: "add_guild i s (gu_utf8 env n) gl = (gl1, e1)" by fastforce
  have ne: "gu_utf8 env n \<noteq> []" using n by auto
  have g1: "om_ok gl1" "map_of gl1 = learn env e (map_of gl)" "e1 = [] \<longrightarrow> gl1 = gl"
    using a ne Cons.prems(7) by (auto simp: add_guild_def learn_def e has_guild_def Let_def om_assign_ok split: if_splits)
  let ?sz = "sz + 8 + of_nat (length (gu_utf8 env n)) + 1" and ?p = "pre @ entry_bytes e"
  have lp: "length ?p = length pre + 9 + length n" by (simp add: e length_entry_bytes)
  have sz: "?sz = of_nat (length ?p)" using Cons.prems(5) n(3) lp by simp
  have lL: "length ?p \<le> ?L" "?L = length ?p + length ?r" using Cons.prems(2) by simp_all
  have "unat ?sz = length ?p" unfolding sz using lL Cons.prems(6) by (subst unat_of_nat) (simp add: take_bit_eq_mod)
  have ends: "\<not> ns_end ns" using Cons.prems(3,4) d by (simp add: ns_end_def)
  have step: "guild_entries env ?L sz ns gl = (if length ?p \<ge> ?L then Some (gl1, e1)
      else map_option (\<lambda>(gl2, e2). (gl2, e1 @ e2)) (guild_entries env ?L ?sz ?n3 gl1))"
    using ends r1 r2 r3 a \<open>unat ?sz = length ?p\<close> by (subst guild_entries.simps) (simp add: Let_def)
  show ?case
  proof (cases "length ?p \<ge> ?L")
    case True
    then have "?r = []" using lL by simp
    then have "es = []" by (cases es) (auto simp: entry_bytes_def split: prod.splits)
    then show ?thesis using step True g1 by auto
  next
    case False
    have "ns_data ?n3 = ?p @ ?r" "ns_pos ?n3 = length ?p" "ns_length ?n3 = length (ns_data ?n3)"
      using Cons.prems(2,4) lp by simp_all
    from Cons.IH [OF _ this sz _ g1(1)] obtain gl2 e2 where "guild_entries env ?L ?sz ?n3 gl1 = Some (gl2, e2)" "om_ok gl2"
      "map_of gl2 = fold (learn env) es (map_of gl1)" "e2 = [] \<longrightarrow> map_of gl2 = map_of gl1"
      using Cons.prems(1,6) by auto
    then show ?thesis using step False g1 by auto
  qed
qed

text \<open>From a packet with the guilds of the zone the manager learns every guild whose key it does not know yet,
  and no other: the list of names is the one before, extended by the entries in their order.\<close>

theorem zone_guilds_learned:
  assumes "list_all (entry_ok env) es" "length (zone_list player num es) < 2 ^ 32" "om_ok (gu_list gm)"
  shows "\<exists>gm' ev. guildsInZoneList env (zone_list player num es) (length (zone_list player num es)) gm = Some (gm', ev)
    \<and> map_of (gu_list gm') = fold (learn env) es (map_of (gu_list gm))"
proof -
  let ?d = "zone_list player num es" and ?l = "of_nat (length player) :: u32"
  let ?ns = "mkNetStream ?d (length ?d)" and ?pre = "le_bytes 4 ?l @ player @ le_bytes 4 num"
  have pl: "length player < 2 ^ 32" using assms(2) by (simp add: zone_list_def)
  then have ul: "unat ?l = length player" by (simp add: unat_of_nat take_bit_eq_mod)
  have r1: "readUInt32NC ?ns = Some (?l, ?ns\<lparr>ns_pos := 4\<rparr>)"
    using readUInt32NC_at [of ?ns "[]" ?l "player @ le_bytes 4 num @ concat (map entry_bytes es)"] by (simp add: mkNetStream_def zone_list_def)
  have left: "ns_left (?ns\<lparr>ns_pos := 4\<rparr>) = int (length player) + 4 + int (length (concat (map entry_bytes es)))"
    by (simp add: mkNetStream_def ns_left_def zone_list_def)
  moreover have "ns_left (?ns\<lparr>ns_pos := 4\<rparr>) < 2 ^ 32" using left assms(2) by (simp add: zone_list_def)
  ultimately have sk: "skipBytes (length player) (?ns\<lparr>ns_pos := 4\<rparr>) = ?ns\<lparr>ns_pos := 4 + length player\<rparr>"
    by (simp add: skipBytes_def ns_skip_def take_bit_int_eq_self)
  have r2: "readUInt32NC (?ns\<lparr>ns_pos := 4 + length player\<rparr>) = Some (num, ?ns\<lparr>ns_pos := 8 + length player\<rparr>)"
    using readUInt32NC_at [of "?ns\<lparr>ns_pos := 4 + length player\<rparr>" "le_bytes 4 ?l @ player" num "concat (map entry_bytes es)"]
    by (simp add: mkNetStream_def zone_list_def add.commute)
  obtain gl' ev where g: "guild_entries env (length ?d) (4 + ?l + 4) (?ns\<lparr>ns_pos := 8 + length player\<rparr>) (gu_list gm) = Some (gl', ev)"
    "map_of gl' = fold (learn env) es (map_of (gu_list gm))"
    using guild_entries_learn [OF assms(1), of "?ns\<lparr>ns_pos := 8 + length player\<rparr>" ?pre "4 + ?l + 4" "gu_list gm"] assms(2,3)
    by (auto simp: mkNetStream_def zone_list_def add.commute)
  have "gu_list (writeGuildList env g) = gu_list g" for g by (simp add: writeGuildList_def)
  then show ?thesis using r1 sk r2 g ul by (simp add: guildsInZoneList_def Let_def)
qed

section \<open>The file\<close>

text \<open>The codecs on the characters below 128, and the number reader on decimal digits.\<close>

definition ascii_codec :: "guild_env \<Rightarrow> bool" where
  "ascii_codec env \<longleftrightarrow> (\<forall>bs. (\<forall>b \<in> set bs. b < 128) \<longrightarrow> gu_utf8 env bs = map latin1 bs)
     \<and> (\<forall>s. (\<forall>c \<in> set s. (of_char c :: nat) < 128) \<longrightarrow> gu_encode env s = to_latin1 s)
     \<and> (\<forall>n. gu_toULong env (to_latin1 (dec_string n)) = of_nat n)"

definition guild_name_ok :: "string \<Rightarrow> bool" where
  "guild_name_ok n \<longleftrightarrow> (\<forall>c \<in> set n. (of_char c :: nat) < 128 \<and> c \<noteq> CHR ''|'' \<and> c \<noteq> CHR 0x0A)
     \<and> (n = [] \<or> \<not> is_space (hd n) \<and> \<not> is_space (last n))"

lemma to_latin1_simps [simp]: "to_latin1 [] = []" "to_latin1 (c # s) = of_nat (of_char c) # to_latin1 s"
  "to_latin1 (s @ t) = to_latin1 s @ to_latin1 t" "length (to_latin1 s) = length s"
  by (simp_all add: to_latin1_def)

lemma char_byte: "unat (of_nat (of_char c) :: u8) = of_char c"
proof -
  have "(of_char c :: nat) < 256" using nat_of_char_less_256 .
  then show ?thesis by (simp add: unat_of_nat take_bit_eq_mod)
qed

lemma latin1_to_latin1 [simp]: "map latin1 (to_latin1 s) = s"
  by (simp add: to_latin1_def latin1_def comp_def char_byte map_idI)

lemma to_latin1_ascii: "\<forall>c \<in> set s. (of_char c :: nat) < 128 \<Longrightarrow> b \<in> set (to_latin1 s) \<Longrightarrow> b < 128"
  by (auto simp: to_latin1_def word_less_nat_alt char_byte)

lemma byte_eq: 
  assumes "k < 256"
  shows "(of_nat (of_char c) = (of_nat k :: u8)) = ((of_char c :: nat) = k)"
proof
  assume "of_nat (of_char c) = (of_nat k :: u8)"
  then have "unat (of_nat (of_char c) :: u8) = unat (of_nat k :: u8)" by simp
  then show "(of_char c :: nat) = k" unfolding char_byte using assms by (simp add: unat_of_nat take_bit_eq_mod)
qed simp

lemma to_latin1_notin: 
  assumes "k < 256" "\<forall>c \<in> set s. (of_char c :: nat) \<noteq> k"
  shows "of_nat k \<notin> set (to_latin1 s)"
proof
  assume "of_nat k \<in> set (to_latin1 s)"
  then obtain c where "c \<in> set s" "of_nat (of_char c) = (of_nat k :: u8)" by (auto simp: to_latin1_def)
  then show False using byte_eq [OF assms(1)] assms(2) by blast
qed

lemma dropWhile_hd: "s = [] \<or> \<not> P (hd s) \<Longrightarrow> dropWhile P s = s"
  by (cases s) auto

lemma trimmed_id: "s = [] \<or> \<not> is_space (hd s) \<and> \<not> is_space (last s) \<Longrightarrow> trimmed s = s"
  using dropWhile_hd [of s is_space] dropWhile_hd [of "rev s" is_space] by (auto simp: trimmed_def hd_rev)

lemma byte_space_char: "(of_char c :: nat) < 128 \<Longrightarrow> byte_space (of_nat (of_char c)) = is_space c"
  using byte_eq [of 32 c] by (simp add: byte_space_def is_space_def word_le_nat_alt char_byte Let_def)

lemma bytes_trimmed_line: 
  assumes "\<forall>c \<in> set n. (of_char c :: nat) < 128" "n = [] \<or> \<not> is_space (hd n) \<and> \<not> is_space (last n)"
  shows "bytes_trimmed (to_latin1 n @ [10]) = to_latin1 n"
proof (cases "n = []")
  case True
  then show ?thesis by (simp add: bytes_trimmed_def byte_space_def)
next
  case False
  have hd: "\<not> byte_space (hd (to_latin1 n))" "\<not> byte_space (last (to_latin1 n))"
    using assms False byte_space_char by (simp_all add: to_latin1_def hd_map last_map)
  have ne: "to_latin1 n \<noteq> []" using False by (cases n) auto
  have "dropWhile byte_space (to_latin1 n @ [10]) = to_latin1 n @ [10]" using hd(1) ne by (intro dropWhile_hd) simp
  moreover have "dropWhile byte_space (rev (to_latin1 n)) = rev (to_latin1 n)" using hd(2) ne by (intro dropWhile_hd) (simp add: hd_rev)
  ultimately show ?thesis by (simp add: bytes_trimmed_def byte_space_def)
qed

lemma split_bytes_none: "c \<notin> set s \<Longrightarrow> split_bytes c s = [s]"
  by (induction s) auto

lemma split_bytes_one: "c \<notin> set s \<Longrightarrow> c \<notin> set t \<Longrightarrow> split_bytes c (s @ c # t) = [s, t]"
  by (induction s) (auto simp: split_bytes_none)

lemma read_lines_cons: "10 \<notin> set l \<Longrightarrow> read_lines (l @ [10] @ r) = (l @ [10]) # read_lines r"
proof -
  assume "10 \<notin> set l"
  then have "takeWhile (\<lambda>b. b \<noteq> 10) (l @ [10] @ r) = l" "dropWhile (\<lambda>b. b \<noteq> 10) (l @ [10] @ r) = [10] @ r"
    by (auto simp: takeWhile_append dropWhile_append)
  then show ?thesis by (subst read_lines.simps) simp
qed

lemma guild_line_eq:
  assumes "ascii_codec env" "guild_name_ok n"
  shows "guild_line env (k, n) = to_latin1 (dec_string (unat k)) @ [124] @ to_latin1 n @ [10]"
proof -
  let ?k = "dec_string (unat k)"
  have d: "\<forall>c \<in> set ?k. 48 \<le> (of_char c :: nat) \<and> (of_char c :: nat) < 58" using dec_string_digits by blast
  have asc: "\<forall>c \<in> set n. (of_char c :: nat) < 128" using assms(2) by (simp add: guild_name_ok_def)
  have "gu_utf8 env (to_latin1 n) = map latin1 (to_latin1 n)" using assms(1) to_latin1_ascii [OF asc] unfolding ascii_codec_def by blast
  then have u: "gu_utf8 env (to_latin1 n) = n" by simp
  have ne: "?k \<noteq> []" by (rule dec_string_nonempty)
  have "\<not> is_space (hd ?k)" using d ne hd_in_set [OF ne] by (fastforce simp: is_space_def)
  moreover have "\<not> is_space (last (?k @ ''|'' @ n))"
    using assms(2) by (cases "n = []") (auto simp: guild_name_ok_def is_space_def)
  ultimately have "trimmed (?k @ ''|'' @ n) = ?k @ ''|'' @ n" using ne by (intro trimmed_id) simp
  moreover have "\<forall>c \<in> set (?k @ ''|'' @ n). (of_char c :: nat) < 128" using d asc by auto
  ultimately show ?thesis using u assms(1) by (simp add: guild_line_def ascii_codec_def)
qed

lemma read_guild_lines:
  assumes "ascii_codec env" "\<forall>e \<in> set es. guild_name_ok (snd e)"
  shows "fst (read_guilds env (read_lines (concat (map (guild_line env) es))) gl) = fold (\<lambda>(k, n). om_assign k n) es gl"
  using assms(2)
proof (induction es arbitrary: gl)
  case Nil
  then show ?case by (simp add: read_lines.simps)
next
  case (Cons e es)
  obtain k n where e: "e = (k, n)" by (cases e)
  have n: "guild_name_ok n" using Cons.prems e by simp
  then have asc: "\<forall>c \<in> set n. (of_char c :: nat) < 128" by (simp add: guild_name_ok_def)
  let ?k = "to_latin1 (dec_string (unat k))" and ?n = "to_latin1 n"
  have d: "\<forall>c \<in> set (dec_string (unat k)). 48 \<le> (of_char c :: nat) \<and> (of_char c :: nat) < 58" using dec_string_digits by blast
  have sp: "(of_char c :: nat) \<noteq> 124 \<and> (of_char c :: nat) \<noteq> 10" if "c \<in> set n" for c
  proof -
    have "c \<noteq> CHR ''|''" "c \<noteq> CHR 0x0A" using n that by (auto simp: guild_name_ok_def)
    moreover have "char_of (of_char c :: nat) = c" by simp
    moreover have "char_of (124 :: nat) = CHR ''|''" "char_of (10 :: nat) = CHR 0x0A" by (simp_all add: char_of_def bit_0)
    ultimately show ?thesis by metis
  qed
  have "of_nat 124 \<notin> set ?k" "of_nat 124 \<notin> set ?n" "of_nat 10 \<notin> set ?k" "of_nat 10 \<notin> set ?n"
    using d sp to_latin1_notin [of 124 "dec_string (unat k)"] to_latin1_notin [of 124 n]
      to_latin1_notin [of 10 "dec_string (unat k)"] to_latin1_notin [of 10 n] by force+
  then have nin: "124 \<notin> set ?k" "124 \<notin> set (?n @ [10])" "10 \<notin> set (?k @ [124] @ ?n)" by simp_all
  have l: "guild_line env e = (?k @ [124] @ ?n) @ [10]" using guild_line_eq [OF assms(1) n] e by simp
  have "read_lines (concat (map (guild_line env) (e # es))) = guild_line env e # read_lines (concat (map (guild_line env) es))"
    using read_lines_cons [OF nin(3)] l by simp
  moreover have "split_bytes 124 (guild_line env e) = [?k, ?n @ [10]]" using split_bytes_one [OF nin(1,2)] l by simp
  moreover have "gu_utf8 env (bytes_trimmed (?n @ [10])) = n"
  proof -
    have "bytes_trimmed (?n @ [10]) = ?n" using bytes_trimmed_line [OF asc] n by (simp add: guild_name_ok_def)
    moreover have "gu_utf8 env ?n = map latin1 ?n" using assms(1) to_latin1_ascii [OF asc] unfolding ascii_codec_def by blast
    ultimately show ?thesis by simp
  qed
  moreover have "ucast (gu_toULong env ?k) = k"
    
  proof -
    have "gu_toULong env ?k = ucast k" using assms(1) by (simp add: ascii_codec_def)
    moreover have "(ucast (ucast k :: u64) :: u32) = k" by (rule bit_word_eqI) (simp add: bit_simps)
    ultimately show ?thesis by simp
  qed
  ultimately show ?case using Cons.IH [of "om_assign k n gl"] Cons.prems e by (simp add: case_prod_unfold Let_def)
qed

lemma fold_assign_lookup: "om_ok gl \<Longrightarrow> map_of (fold (\<lambda>(k, n). om_assign k n) es gl) = map_of gl ++ map_of (rev es)"
proof (induction es arbitrary: gl)
  case (Cons e es)
  then show ?case by (cases e) (auto simp: om_assign_ok map_add_assoc fun_eq_iff map_add_def split: option.split)
qed simp

lemma map_of_rev_distinct: "distinct (map fst xs) \<Longrightarrow> map_of (rev xs) = map_of xs"
proof
  fix k assume d: "distinct (map fst xs)"
  then have "map_of (rev xs) k = Some v \<longleftrightarrow> map_of xs k = Some v" for v
    by (simp add: map_of_eq_Some_iff flip: rev_map)
  then show "map_of (rev xs) k = map_of xs k" by (metis not_Some_eq)
qed

lemma map_of_filter_key: "map_of (filter (\<lambda>e. fst e \<noteq> x) es) = (map_of es)(x := None)"
  by (induction es) (auto simp: fun_eq_iff)

text \<open>A manager that is started with the file another one wrote has the same names, without the key 0, if the
  names have no vertical bar, no line break, no white space around them and only characters below 128.\<close>

theorem guild_file_restores:
  assumes "ascii_codec env" "\<forall>e \<in> set (gu_list gm). guild_name_ok (snd e)" "om_ok (gu_list gm)" "gu_removable env" "gu_writable env"
  shows "map_of (gu_list (new_guild_mgr env (gu_file (writeGuildList env gm)))) = (map_of (gu_list gm))(0 := None)"
proof -
  let ?es = "filter (\<lambda>e. fst e \<noteq> 0) (gu_list gm)"
  have f: "gu_file (writeGuildList env gm) = Some (guild_lines env (gu_list gm))" using assms(4,5) by (simp add: writeGuildList_def)
  have r: "fst (read_guilds env (read_lines (guild_lines env (gu_list gm))) []) = fold (\<lambda>(k, n). om_assign k n) ?es []"
    unfolding guild_lines_def using assms(2) by (intro read_guild_lines [OF assms(1)]) auto
  have d: "distinct (map fst (gu_list gm))" by (rule om_ok_distinct [OF assms(3)])
  then have "distinct (map fst ?es)" by (rule distinct_map_filter)
  then have "map_of (rev ?es) = map_of ?es" by (rule map_of_rev_distinct)
  moreover have "map_of ?es = (map_of (gu_list gm))(0 := None)" by (rule map_of_filter_key)
  ultimately have "map_of (fold (\<lambda>(k, n). om_assign k n) ?es []) = (map_of (gu_list gm))(0 := None)"
    using fold_assign_lookup [of "[]" ?es] by simp
  then show ?thesis using r f by (simp add: new_guild_mgr_def readGuildList_def case_prod_unfold)
qed

section \<open>The guild of a spawn\<close>

text \<open>C29: No spawn a packet announces gets the name of its guild, whatever names the manager has: the spawn's
  server id is set to 0, and the manager takes the server id 0 for no guild.\<close>

theorem spawns_have_no_guild_name:
  assumes ok: "shell_ok sh" and acc: "accepted (env, PNewSpawn data)" and zone: "\<not> h_isZoning env"
    and s: "read_spawnStruct data 0 = Some s" "s_NPC s \<noteq> SPAWN_SELF" and names: "h_guildName env = guildIdToName gm"
  shows "\<exists>sh' es sp. shell_step (env, PNewSpawn data) sh = Some (sh', es) \<and> view sh' (ucast (s_spawnId s)) = Some sp
    \<and> m_guildID sp = s_guildID s \<and> m_guildTag sp = []"
proof -
  have n: "named_struct s" using acc s(1) by (auto simp: accepted_def)
  obtain sh1 es1 sp where 1: "put_spawn env s (forget_dead (s_spawnId s) sh) = Some (sh1, es1)"
    "view sh1 (ucast (s_spawnId s)) = Some sp" "announced env s sp" "m_guildTag sp = h_guildName env (m_guildID sp) (m_guildServerID sp)"
    using put_spawn_view [OF forget_dead_keep(1) [OF ok] n] by blast
  have "shell_step (env, PNewSpawn data) sh = Some (sh1, es1)"
    using zone s 1(1) by (simp add: newSpawn_packet_def newSpawn_def)
  moreover have "m_guildTag sp = []" using 1(3,4) names by (simp add: announced_def guildIdToName_def)
  ultimately show ?thesis using 1(2,3) by (auto simp: announced_def)
qed

section \<open>Samples\<close>

definition digit_env :: guild_env where
  "digit_env = \<lparr>gu_utf8 = map latin1, gu_encode = to_latin1, gu_toULong = (\<lambda>bs. of_nat (digits_value (map latin1 bs))),
     gu_removable = True, gu_writable = True\<rparr>"

lemma digit_env_codec: "ascii_codec digit_env"
  by (simp add: ascii_codec_def digit_env_def digits_value_dec)

definition sample_guilds :: GuildMgr where
  "sample_guilds = \<lparr>gu_list = [(65541, ''Fires of Heaven'')], gu_file = None\<rparr>"

theorem zone_guilds_learned_witness:
  "\<exists>gm' ev. guildsInZoneList digit_env (zone_list [66, 111] 2 [(5, 1, [65]), (7, 1, [66])]) (length (zone_list [66, 111] 2 [(5, 1, [65]), (7, 1, [66])])) sample_guilds
     = Some (gm', ev) \<and> map_of (gu_list gm') 65543 = Some ''B'' \<and> map_of (gu_list gm') 65541 = Some ''Fires of Heaven''"
proof -
  have k: "guild_key 1 5 = 65541" "guild_key 1 7 = 65543" by (simp_all add: guild_key_def)
  have "latin1 66 = CHR ''B''" by (simp add: latin1_def char_of_def bit_0)
  then have "fold (learn digit_env) [(5, 1, [65]), (7, 1, [66])] (map_of (gu_list sample_guilds)) 65543 = Some ''B''"
    "fold (learn digit_env) [(5, 1, [65]), (7, 1, [66])] (map_of (gu_list sample_guilds)) 65541 = Some ''Fires of Heaven''"
    by (simp_all add: learn_def k sample_guilds_def digit_env_def)
  then show ?thesis
    using zone_guilds_learned [of digit_env "[(5, 1, [65]), (7, 1, [66])]" "[66, 111]" 2 sample_guilds]
    by (fastforce simp: entry_ok_def digit_env_def zone_list_def entry_bytes_def sample_guilds_def)
qed

theorem guild_file_restores_witness:
  "map_of (gu_list (new_guild_mgr digit_env (gu_file (writeGuildList digit_env sample_guilds)))) 65541 = Some ''Fires of Heaven''"
proof -
  have n: "\<forall>e \<in> set (gu_list sample_guilds). guild_name_ok (snd e)"
    by (simp add: sample_guilds_def guild_name_ok_def is_space_def)
  have "om_ok (gu_list sample_guilds)" "gu_removable digit_env" "gu_writable digit_env" by (simp_all add: sample_guilds_def digit_env_def)
  from guild_file_restores [OF digit_env_codec n this] show ?thesis by (simp add: sample_guilds_def)
qed

theorem spawns_have_no_guild_name_witness:
  "\<exists>sh' es sp. shell_step (sample_env\<lparr>h_guildName := guildIdToName sample_guilds\<rparr>, PNewSpawn (sample_spawn 7 1 [65, 66])) (new_SpawnShell sample_player) = Some (sh', es)
    \<and> view sh' (ucast (s_spawnId (spawn_fields (sample_spawn 7 1 [65, 66])))) = Some sp
    \<and> m_guildID sp = s_guildID (spawn_fields (sample_spawn 7 1 [65, 66])) \<and> m_guildTag sp = []"
proof (rule spawns_have_no_guild_name)
  note S = sample_spawn_struct [of "[65, 66]" 7 1, simplified]
  show "shell_ok (new_SpawnShell sample_player)" by (rule shell_ok_new [OF sample_player_type(1)])
  show "accepted (sample_env\<lparr>h_guildName := guildIdToName sample_guilds\<rparr>, PNewSpawn (sample_spawn 7 1 [65, 66]))"
    using sample_order S by (auto simp: accepted_def order_ok_def)
  show "read_spawnStruct (sample_spawn 7 1 [65, 66]) 0 = Some (spawn_fields (sample_spawn 7 1 [65, 66]))" by (rule S(1))
  show "s_NPC (spawn_fields (sample_spawn 7 1 [65, 66])) \<noteq> SPAWN_SELF" using S(4) by (simp add: SPAWN_SELF_def)
qed (simp_all add: sample_env_def)

end
