(* ===== verification/XmlConv.thy ===== *)
theory XmlConv
  imports SeqColor
begin

text \<open>
  \<open>src/src/xmlconv.h\<close> and \<open>src/src/xmlconv.cpp\<close>: values as elements of a document and back. A document is the
  tree that the library parses a file to; what is no element, text or comment (a processing instruction, the document
  type) is \<open>Other\<close>. The conversions between
  text and numbers are the library's (\<open>conv_env\<close>, where \<open>None\<close> is the flag \<open>ok\<close> being false); a \<open>double\<close> is its 64 bits.
\<close>

section \<open>Documents\<close>

datatype dom = Elem (tag: string) (attributes: "string \<Rightarrow> string option") (children: "dom list") | Text string | Comment string | Other string

fun is_elem :: "dom \<Rightarrow> bool" where
  "is_elem (Elem _ _ _) = True"
| "is_elem _ = False"

text \<open>\<open>elementsByTagName\<close>: the elements below a node, in the order of the document.\<close>

fun by_tag :: "string \<Rightarrow> dom \<Rightarrow> dom list" where
  "by_tag t (Elem g a ks) = (if g = t then [Elem g a ks] else []) @ concat (map (by_tag t) ks)"
| "by_tag t _ = []"

definition elements_by_tag :: "string \<Rightarrow> dom list \<Rightarrow> dom list" where
  "elements_by_tag t ks = concat (map (by_tag t) ks)"

text \<open>The text of an element is that of the texts below it, comments excluded.\<close>

fun dom_text :: "dom \<Rightarrow> string" where
  "dom_text (Elem g a ks) = concat (map dom_text ks)"
| "dom_text (Text s) = s"
| "dom_text _ = []"

section \<open>Values\<close>

datatype variant = VInvalid | VString string | VInt u32 | VUInt u32 | VLongLong u64 | VULongLong u64 | VULong u64
  | VDouble u64 | VBool bool | VColor SeqColor | VPoint u32 u32 | VRect u32 u32 u32 u32 | VSize u32 u32 | VStringList "string list"

record conv_env =
  xc_toInt :: "int \<Rightarrow> string \<Rightarrow> u32 option"
  xc_toUInt :: "int \<Rightarrow> string \<Rightarrow> u32 option"
  xc_toULongLong16 :: "string \<Rightarrow> u64 option"
  xc_toDouble :: "string \<Rightarrow> u64 option"
  xc_number :: "u64 \<Rightarrow> string"

definition attr_or_empty :: "dom \<Rightarrow> string \<Rightarrow> string" where
  "attr_or_empty e n = (case attributes e n of None \<Rightarrow> [] | Some v \<Rightarrow> v)"

definition getBase :: "conv_env \<Rightarrow> dom \<Rightarrow> int" where
  "getBase env e = (case attributes e ''base'' of None \<Rightarrow> 10
     | Some b \<Rightarrow> (case xc_toInt env 10 b of None \<Rightarrow> 10 | Some w \<Rightarrow> sint w))"

definition getBoolFromString :: "string \<Rightarrow> bool \<times> bool" where
  "getBoolFromString s = (if s = ''true'' \<or> s = ''1'' then (True, True)
     else if s = ''false'' \<or> s = ''0'' then (False, True) else (False, False))"

text \<open>A coordinate is 0 when there is no attribute, and when it is no number.\<close>

definition coord :: "conv_env \<Rightarrow> dom \<Rightarrow> string \<Rightarrow> u32" where
  "coord env e n = (case attributes e n of None \<Rightarrow> 0
     | Some s \<Rightarrow> (case xc_toInt env (getBase env e) s of None \<Rightarrow> 0 | Some v \<Rightarrow> v))"

definition color_part :: "conv_env \<Rightarrow> dom \<Rightarrow> string \<Rightarrow> u8 \<Rightarrow> u8" where
  "color_part env e n d = (case attributes e n of None \<Rightarrow> d
     | Some s \<Rightarrow> (case xc_toInt env (getBase env e) s of None \<Rightarrow> 0 | Some v \<Rightarrow> ucast v))"

definition getColor :: "conv_env \<Rightarrow> dom \<Rightarrow> SeqColor" where
  "getColor env e =
     (let color = (case attributes e ''name'' of None \<Rightarrow> no_color | Some s \<Rightarrow> seq_color_of (xc_toUInt env 16) s)
      in if attributes e ''red'' \<noteq> None \<or> attributes e ''green'' \<noteq> None \<or> attributes e ''blue'' \<noteq> None
         then rgb (color_part env e ''red'' (if col_valid color then col_r color else 0))
                  (color_part env e ''green'' (if col_valid color then col_g color else 0))
                  (color_part env e ''blue'' (if col_valid color then col_b color else 0))
         else color)"

text \<open>The strings of a list are read from the element of the list, not from their own elements.\<close>

definition elementToVariant :: "conv_env \<Rightarrow> dom \<Rightarrow> variant option" where
  "elementToVariant env e =
     (let t = tag e; val = attributes e ''value'' in
      if t = ''string'' then map_option VString val
      else if t = ''int'' then Option.bind val (\<lambda>s. map_option VInt (xc_toInt env (getBase env e) s))
      else if t = ''uint'' then Option.bind val (\<lambda>s. map_option VUInt (xc_toUInt env (getBase env e) s))
      else if t = ''double'' then Option.bind val (\<lambda>s. map_option VDouble (xc_toDouble env s))
      else if t = ''bool'' then Option.bind val (\<lambda>s. let (b, ok) = getBoolFromString s in if ok then Some (VBool b) else None)
      else if t = ''color'' then (let c = getColor env e in if col_valid c then Some (VColor c) else None)
      else if t = ''point'' then Some (VPoint (coord env e ''x'') (coord env e ''y''))
      else if t = ''rect'' then Some (VRect (coord env e ''x'') (coord env e ''y'') (coord env e ''width'') (coord env e ''height''))
      else if t = ''size'' then Some (VSize (coord env e ''width'') (coord env e ''height''))
      else if t = ''stringlist'' then
        Some (VStringList (map (\<lambda>_. attr_or_empty e ''value'')
          (filter (\<lambda>s. attributes s ''value'' \<noteq> None) (elements_by_tag ''string'' (children e)))))
      else if t = ''uint64'' then map_option VULong (xc_toULongLong16 env (attr_or_empty e ''value''))
      else None)"

section \<open>Writing\<close>

definition hex16 :: "u64 \<Rightarrow> string" where
  "hex16 w = map (\<lambda>k. hex_digit (unat w div 16 ^ k mod 16)) (rev [0..<16])"

text \<open>A string goes through a C string and ends at its first zero.\<close>

definition c_string :: "string \<Rightarrow> string" where
  "c_string s = takeWhile (\<lambda>c. c \<noteq> CHR 0x00) s"

definition boolString :: "bool \<Rightarrow> string" where
  "boolString b = (if b then ''true'' else ''false'')"

definition string_elem :: "dom list \<Rightarrow> string \<Rightarrow> dom" where
  "string_elem ks s = Elem ''string'' [''value'' \<mapsto> c_string s] ks"

text \<open>The elements \<open>string\<close> anywhere below the list are rewritten in order; the ones that are left over are
  removed with \<open>removeChild\<close>, new ones are appended.\<close>

fun put_strings :: "string list \<Rightarrow> dom \<Rightarrow> string list \<times> dom"
  and put_strings_all :: "string list \<Rightarrow> dom list \<Rightarrow> string list \<times> dom list" where
  "put_strings ss (Elem g a ks) =
     (if g = ''string'' then (case ss of
          [] \<Rightarrow> (let (r, ks') = put_strings_all [] ks in (r, Elem g a ks'))
        | s # r \<Rightarrow> (let (r', ks') = put_strings_all r ks in (r', string_elem ks' s)))
      else (let (r, ks') = put_strings_all ss ks in (r, Elem g a ks')))"
| "put_strings ss d = (ss, d)"
| "put_strings_all ss [] = (ss, [])"
| "put_strings_all ss (k # ks) =
     (let (r, k') = put_strings ss k; (r', ks') = put_strings_all r ks in (r', k' # ks'))"

text \<open>A leftover that is not a child of the element is not removed, and the loop that removes it does not end:
  the outcome is \<open>None\<close>.\<close>

fun remove_strings :: "nat \<Rightarrow> dom list \<Rightarrow> dom list option" where
  "remove_strings n [] = Some []"
| "remove_strings n (k # ks) =
     (let c = length (by_tag ''string'' k) in
      if n = 0 \<and> is_elem k \<and> tag k = ''string'' then remove_strings 0 ks
      else if c \<le> n then map_option ((#) k) (remove_strings (n - c) ks)
      else None)"

definition write_strings :: "string list \<Rightarrow> dom list \<Rightarrow> dom list option" where
  "write_strings ss ks =
     (let (rest, ks') = put_strings_all ss ks
      in if length (elements_by_tag ''string'' ks) > length ss then remove_strings (length ss) ks'
         else Some (ks' @ map (string_elem []) rest))"

text \<open>The attributes of the element are replaced, its children are kept (but for a list). The second result is false for
  a value that cannot be written.\<close>

definition variantToElement :: "conv_env \<Rightarrow> variant \<Rightarrow> dom \<Rightarrow> (dom \<times> bool) option" where
  "variantToElement env v e = (let ks = children e in
     case v of
       VColor c \<Rightarrow> Some (Elem ''color'' [''red'' \<mapsto> dec_string (unat (col_r c)), ''green'' \<mapsto> dec_string (unat (col_g c)),
                     ''blue'' \<mapsto> dec_string (unat (col_b c))] ks, True)
     | VString s \<Rightarrow> Some (string_elem ks s, True)
     | VInt w \<Rightarrow> Some (Elem ''int'' [''value'' \<mapsto> dec_int (sint w)] ks, True)
     | VUInt w \<Rightarrow> Some (Elem ''uint'' [''value'' \<mapsto> dec_string (unat w)] ks, True)
     | VLongLong w \<Rightarrow> Some (Elem ''int64'' [''value'' \<mapsto> hex16 w] ks, True)
     | VULongLong w \<Rightarrow> Some (Elem ''uint64'' [''value'' \<mapsto> hex16 w] ks, True)
     | VULong w \<Rightarrow> Some (Elem ''uint64'' [''value'' \<mapsto> hex16 w] ks, True)
     | VDouble d \<Rightarrow> Some (Elem ''double'' [''value'' \<mapsto> xc_number env d] ks, True)
     | VBool b \<Rightarrow> Some (Elem ''bool'' [''value'' \<mapsto> boolString b] ks, True)
     | VPoint x y \<Rightarrow> Some (Elem ''point'' [''x'' \<mapsto> dec_int (sint x), ''y'' \<mapsto> dec_int (sint y)] ks, True)
     | VRect x y w h \<Rightarrow> Some (Elem ''rect'' [''x'' \<mapsto> dec_int (sint x), ''y'' \<mapsto> dec_int (sint y),
                     ''width'' \<mapsto> dec_int (sint w), ''height'' \<mapsto> dec_int (sint h)] ks, True)
     | VSize w h \<Rightarrow> Some (Elem ''size'' [''width'' \<mapsto> dec_int (sint w), ''height'' \<mapsto> dec_int (sint h)] ks, True)
     | VStringList ss \<Rightarrow> map_option (\<lambda>ks'. (Elem ''stringlist'' Map.empty ks', True)) (write_strings ss ks)
     | VInvalid \<Rightarrow> Some (Elem (tag e) Map.empty ks, False))"

end
