(* ===== verification/XMLPreferences.thy ===== *)
theory XMLPreferences
  imports XmlConv Files
begin

text \<open>
  \<open>src/src/xmlpreferences.h\<close> and \<open>src/src/xmlpreferences.cpp\<close>: values by section and name in three layers (run time, user and defaults), two
  of which are loaded from files and saved to them. A file is the document its text parses to, or text that does not
  parse. The layers are maps of values: no address of a value leaves the class. The order in
  which the library walks a hash, which files can be opened, whether the writer of the library leaves the third character of \<open>-->\<close> in a
  value as it is (\<open>xp_raw_arrow\<close>; XML allows both), and what its parser reads for a line break in a value (\<open>xp_attr_break\<close>; XML asks
  for a space) are \<open>prefs_env\<close>.
\<close>

datatype pref_file = Malformed | Document "dom list" dom

text \<open>\<open>Document\<close> holds what precedes the root element, and the root element.\<close>

record prefs_env = conv_env +
  xp_order :: "string set \<Rightarrow> string list"
  xp_readable :: "string \<Rightarrow> bool"
  xp_writable :: "string \<Rightarrow> bool"
  xp_raw_arrow :: bool
  xp_attr_break :: string

type_synonym prefs = "string \<Rightarrow> (string \<Rightarrow> variant option) option"
type_synonym pref_comments = "string \<Rightarrow> string \<Rightarrow> string option"

definition Runtime :: u8 where "Runtime = 1"
definition User :: u8 where "User = 2"
definition Defaults :: u8 where "Defaults = 4"
definition AnyPref :: u8 where "AnyPref = Runtime OR User OR Defaults"

record XMLPreferences =
  m_defaultsFilename :: string
  m_filename :: string
  m_modified :: u8
  m_runtimeSections :: prefs
  m_userSections :: prefs
  m_defaultsSections :: prefs
  m_commentSections :: pref_comments

section \<open>Values in the layers\<close>

definition in_layer :: "u8 \<Rightarrow> u8 \<Rightarrow> bool" where
  "in_layer pers l \<longleftrightarrow> pers AND l \<noteq> 0"

definition layer_value :: "prefs \<Rightarrow> string \<Rightarrow> string \<Rightarrow> variant option" where
  "layer_value ps inName inSection = (case ps inSection of None \<Rightarrow> None | Some d \<Rightarrow> d inName)"

definition getPref :: "string \<Rightarrow> string \<Rightarrow> u8 \<Rightarrow> XMLPreferences \<Rightarrow> variant option" where
  "getPref inName inSection pers xp =
     (case (if in_layer pers Runtime then layer_value (m_runtimeSections xp) inName inSection else None) of
        Some v \<Rightarrow> Some v
      | None \<Rightarrow> (case (if in_layer pers User then layer_value (m_userSections xp) inName inSection else None) of
          Some v \<Rightarrow> Some v
        | None \<Rightarrow> if in_layer pers Defaults then layer_value (m_defaultsSections xp) inName inSection else None))"

definition set_layer :: "string \<Rightarrow> string \<Rightarrow> variant \<Rightarrow> prefs \<Rightarrow> prefs" where
  "set_layer inName inSection v ps =
     (let d = (case ps inSection of None \<Rightarrow> Map.empty | Some d \<Rightarrow> d) in ps(inSection \<mapsto> d(inName \<mapsto> v)))"

definition setPref :: "string \<Rightarrow> string \<Rightarrow> variant \<Rightarrow> u8 \<Rightarrow> XMLPreferences \<Rightarrow> XMLPreferences" where
  "setPref inName inSection v pers xp =
     xp\<lparr>m_modified := m_modified xp OR pers,
        m_runtimeSections := (if in_layer pers Runtime then set_layer inName inSection v else id) (m_runtimeSections xp),
        m_userSections := (if in_layer pers User then set_layer inName inSection v else id) (m_userSections xp),
        m_defaultsSections := (if in_layer pers Defaults then set_layer inName inSection v else id) (m_defaultsSections xp)\<rparr>"

definition isSection :: "string \<Rightarrow> u8 \<Rightarrow> XMLPreferences \<Rightarrow> bool" where
  "isSection inSection pers xp \<longleftrightarrow> in_layer pers Runtime \<and> m_runtimeSections xp inSection \<noteq> None
     \<or> in_layer pers User \<and> m_userSections xp inSection \<noteq> None
     \<or> in_layer pers Defaults \<and> m_defaultsSections xp inSection \<noteq> None"

definition isPreference :: "string \<Rightarrow> string \<Rightarrow> u8 \<Rightarrow> XMLPreferences \<Rightarrow> bool" where
  "isPreference inName inSection pers xp \<longleftrightarrow> getPref inName inSection pers xp \<noteq> None"

definition getPrefComment :: "string \<Rightarrow> string \<Rightarrow> XMLPreferences \<Rightarrow> string" where
  "getPrefComment inName inSection xp = (case m_commentSections xp inSection inName of None \<Rightarrow> [] | Some c \<Rightarrow> c)"

definition getPrefVariant :: "string \<Rightarrow> string \<Rightarrow> variant \<Rightarrow> u8 \<Rightarrow> XMLPreferences \<Rightarrow> variant" where
  "getPrefVariant inName inSection def pers xp = (case getPref inName inSection pers xp of None \<Rightarrow> def | Some v \<Rightarrow> v)"

text \<open>The typed access: a value of another type is converted by the library (\<open>conv\<close>).\<close>

definition getPref_as :: "(variant \<Rightarrow> 'a) \<Rightarrow> string \<Rightarrow> string \<Rightarrow> 'a \<Rightarrow> u8 \<Rightarrow> XMLPreferences \<Rightarrow> 'a" where
  "getPref_as conv inName inSection def pers xp = (case getPref inName inSection pers xp of None \<Rightarrow> def | Some v \<Rightarrow> conv v)"

definition setPrefString :: "string \<Rightarrow> string \<Rightarrow> string \<Rightarrow> u8 \<Rightarrow> XMLPreferences \<Rightarrow> XMLPreferences" where
  "setPrefString n s v pers = setPref n s (VString v) pers"
definition setPrefInt :: "string \<Rightarrow> string \<Rightarrow> u32 \<Rightarrow> u8 \<Rightarrow> XMLPreferences \<Rightarrow> XMLPreferences" where
  "setPrefInt n s v pers = setPref n s (VInt v) pers"
definition setPrefUInt :: "string \<Rightarrow> string \<Rightarrow> u32 \<Rightarrow> u8 \<Rightarrow> XMLPreferences \<Rightarrow> XMLPreferences" where
  "setPrefUInt n s v pers = setPref n s (VUInt v) pers"
definition setPrefDouble :: "string \<Rightarrow> string \<Rightarrow> u64 \<Rightarrow> u8 \<Rightarrow> XMLPreferences \<Rightarrow> XMLPreferences" where
  "setPrefDouble n s v pers = setPref n s (VDouble v) pers"
definition setPrefStringList :: "string \<Rightarrow> string \<Rightarrow> string list \<Rightarrow> u8 \<Rightarrow> XMLPreferences \<Rightarrow> XMLPreferences" where
  "setPrefStringList n s v pers = setPref n s (VStringList v) pers"
definition setPrefColor :: "string \<Rightarrow> string \<Rightarrow> SeqColor \<Rightarrow> u8 \<Rightarrow> XMLPreferences \<Rightarrow> XMLPreferences" where
  "setPrefColor n s v pers = setPref n s (VColor v) pers"
definition setPrefBool :: "string \<Rightarrow> string \<Rightarrow> bool \<Rightarrow> u8 \<Rightarrow> XMLPreferences \<Rightarrow> XMLPreferences" where
  "setPrefBool n s v pers = setPref n s (VBool v) pers"
definition setPrefInt64 :: "string \<Rightarrow> string \<Rightarrow> u64 \<Rightarrow> u8 \<Rightarrow> XMLPreferences \<Rightarrow> XMLPreferences" where
  "setPrefInt64 n s v pers = setPref n s (VLongLong v) pers"
definition setPrefUInt64 :: "string \<Rightarrow> string \<Rightarrow> u64 \<Rightarrow> u8 \<Rightarrow> XMLPreferences \<Rightarrow> XMLPreferences" where
  "setPrefUInt64 n s v pers = setPref n s (VULongLong v) pers"

definition setPrefPoint :: "string \<Rightarrow> string \<Rightarrow> u32 \<Rightarrow> u32 \<Rightarrow> u8 \<Rightarrow> XMLPreferences \<Rightarrow> XMLPreferences" where
  "setPrefPoint n s x y pers = setPref n s (VPoint x y) pers"
definition setPrefRect :: "string \<Rightarrow> string \<Rightarrow> u32 \<Rightarrow> u32 \<Rightarrow> u32 \<Rightarrow> u32 \<Rightarrow> u8 \<Rightarrow> XMLPreferences \<Rightarrow> XMLPreferences" where
  "setPrefRect n s x y w h pers = setPref n s (VRect x y w h) pers"
definition setPrefSize :: "string \<Rightarrow> string \<Rightarrow> u32 \<Rightarrow> u32 \<Rightarrow> u8 \<Rightarrow> XMLPreferences \<Rightarrow> XMLPreferences" where
  "setPrefSize n s w h pers = setPref n s (VSize w h) pers"
definition setPrefVariant :: "string \<Rightarrow> string \<Rightarrow> variant \<Rightarrow> u8 \<Rightarrow> XMLPreferences \<Rightarrow> XMLPreferences" where
  "setPrefVariant n s v pers = setPref n s v pers"

text \<open>\<open>getPrefUInt64\<close>: text is read by \<open>strtoull\<close> with base 16, integers are converted with their sign; the conversion of
  a double is only defined in the range of the type.\<close>

definition double_trunc :: "u64 \<Rightarrow> int option" where
  "double_trunc w =
     (let e = (unat w div 2 ^ 52) mod 2 ^ 11; f = int (unat w mod 2 ^ 52);
          m = (if e = 0 then f else f + 2 ^ 52); x = (if e = 0 then 1 else e)
      in if e = 2047 then None
         else Some ((if bit w 63 then -1 else 1) * (m * 2 ^ (x - 1075) div 2 ^ (1075 - x))))"

definition uint64_of :: "(string \<Rightarrow> u64) \<Rightarrow> u64 \<Rightarrow> variant \<Rightarrow> u64 option" where
  "uint64_of strtoull16 def v = (case v of
     VString s \<Rightarrow> Some (strtoull16 s)
   | VUInt w \<Rightarrow> Some (ucast w)
   | VInt w \<Rightarrow> Some (scast w)
   | VULong w \<Rightarrow> Some w
   | VULongLong w \<Rightarrow> Some w
   | VLongLong w \<Rightarrow> Some w
   | VDouble d \<Rightarrow> Option.bind (double_trunc d) (\<lambda>i. if 0 \<le> i \<and> i < 2 ^ 64 then Some (word_of_int i) else None)
   | _ \<Rightarrow> Some def)"

definition getPrefUInt64 :: "(string \<Rightarrow> u64) \<Rightarrow> string \<Rightarrow> string \<Rightarrow> u64 \<Rightarrow> u8 \<Rightarrow> XMLPreferences \<Rightarrow> u64 option" where
  "getPrefUInt64 strtoull16 inName inSection def pers xp =
     (case getPref inName inSection pers xp of None \<Rightarrow> Some def | Some v \<Rightarrow> uint64_of strtoull16 def v)"

definition int64_of :: "(string \<Rightarrow> u64) \<Rightarrow> u64 \<Rightarrow> variant \<Rightarrow> u64 option" where
  "int64_of strtoll16 def v = (case v of
     VDouble d \<Rightarrow> Option.bind (double_trunc d) (\<lambda>i. if - (2 ^ 63) \<le> i \<and> i < 2 ^ 63 then Some (word_of_int i) else None)
   | _ \<Rightarrow> uint64_of strtoll16 def v)"

definition getPrefInt64 :: "(string \<Rightarrow> u64) \<Rightarrow> string \<Rightarrow> string \<Rightarrow> u64 \<Rightarrow> u8 \<Rightarrow> XMLPreferences \<Rightarrow> u64 option" where
  "getPrefInt64 strtoll16 inName inSection def pers xp =
     (case getPref inName inSection pers xp of None \<Rightarrow> Some def | Some v \<Rightarrow> int64_of strtoll16 def v)"

section \<open>Loading\<close>

text \<open>The nodes below a property: comments before the value are remembered, nodes that are no value are skipped, the
  first value ends the search.\<close>

fun read_property :: "conv_env \<Rightarrow> dom list \<Rightarrow> string option \<Rightarrow> variant option \<times> string option" where
  "read_property env [] c = (None, c)"
| "read_property env (k # ks) c =
     (if \<not> is_elem k then read_property env ks c
      else if tag k = ''comment'' then read_property env ks (if dom_text k \<noteq> [] then Some (dom_text k) else c)
      else if tag k = ''font'' \<or> tag k = ''key'' then read_property env ks c
      else case elementToVariant env k of
          None \<Rightarrow> read_property env ks c
        | Some v \<Rightarrow> (Some v, c))"

definition load_property :: "conv_env \<Rightarrow> string \<Rightarrow> dom \<Rightarrow> prefs \<times> pref_comments \<Rightarrow> prefs \<times> pref_comments" where
  "load_property env sectionName p = (\<lambda>(ps, cs). case attributes p ''name'' of
     None \<Rightarrow> (ps, cs)
   | Some propertyName \<Rightarrow>
       let (v, c) = read_property env (children p) None in
       (case v of None \<Rightarrow> ps | Some w \<Rightarrow> set_layer propertyName sectionName w ps,
        case c of None \<Rightarrow> cs | Some t \<Rightarrow> cs(sectionName := (cs sectionName)(propertyName \<mapsto> t))))"

definition load_section :: "conv_env \<Rightarrow> dom \<Rightarrow> prefs \<times> pref_comments \<Rightarrow> prefs \<times> pref_comments" where
  "load_section env s = (\<lambda>(ps, cs). case attributes s ''name'' of
     None \<Rightarrow> (ps, cs)
   | Some sectionName \<Rightarrow>
       fold (load_property env sectionName) (elements_by_tag ''property'' (children s))
         (case ps sectionName of None \<Rightarrow> ps(sectionName \<mapsto> Map.empty) | Some _ \<Rightarrow> ps, cs))"

definition loadPreferences :: "prefs_env \<Rightarrow> pref_file files \<Rightarrow> string \<Rightarrow> prefs \<times> pref_comments \<Rightarrow> prefs \<times> pref_comments" where
  "loadPreferences env fs f st =
     (if xp_readable env f then
        (case fs f of
           Some (Document pre root) \<Rightarrow> fold (load_section (conv_env.truncate env)) (elements_by_tag ''section'' [root]) st
         | _ \<Rightarrow> st)
      else st)"

definition xp_load :: "prefs_env \<Rightarrow> pref_file files \<Rightarrow> XMLPreferences \<Rightarrow> XMLPreferences" where
  "xp_load env fs xp =
     (let (d, c1) = loadPreferences env fs (m_defaultsFilename xp) (m_defaultsSections xp, m_commentSections xp);
          (u, c2) = loadPreferences env fs (m_filename xp) (m_userSections xp, c1)
      in xp\<lparr>m_defaultsSections := d, m_userSections := u, m_commentSections := c2\<rparr>)"

definition new_XMLPreferences :: "prefs_env \<Rightarrow> pref_file files \<Rightarrow> string \<Rightarrow> string \<Rightarrow> XMLPreferences" where
  "new_XMLPreferences env fs defaultsFileName inFileName =
     xp_load env fs \<lparr>m_defaultsFilename = defaultsFileName, m_filename = inFileName, m_modified = 0, m_runtimeSections = Map.empty,
       m_userSections = Map.empty, m_defaultsSections = Map.empty, m_commentSections = (\<lambda>_. Map.empty)\<rparr>"

definition xp_revert :: "prefs_env \<Rightarrow> pref_file files \<Rightarrow> XMLPreferences \<Rightarrow> XMLPreferences" where
  "xp_revert env fs xp = xp_load env fs (xp\<lparr>m_defaultsSections := Map.empty, m_userSections := Map.empty\<rparr>)"

section \<open>Saving\<close>

text \<open>The first element below, in the order of the document, that satisfies a predicate is changed. The outer
  \<open>None\<close> means that there is none, the inner one that the change does not return.\<close>

fun change_first :: "(dom \<Rightarrow> bool) \<Rightarrow> (dom \<Rightarrow> dom option) \<Rightarrow> dom \<Rightarrow> dom option option"
  and change_first_below :: "(dom \<Rightarrow> bool) \<Rightarrow> (dom \<Rightarrow> dom option) \<Rightarrow> dom list \<Rightarrow> dom list option option" where
  "change_first P f (Elem g a ks) =
     (if P (Elem g a ks) then Some (f (Elem g a ks))
      else map_option (map_option (Elem g a)) (change_first_below P f ks))"
| "change_first P f _ = None"
| "change_first_below P f [] = None"
| "change_first_below P f (k # ks) =
     (case change_first P f k of
        Some k' \<Rightarrow> Some (map_option (\<lambda>k'. k' # ks) k')
      | None \<Rightarrow> map_option (map_option ((#) k)) (change_first_below P f ks))"

definition named_elem :: "string \<Rightarrow> string \<Rightarrow> dom \<Rightarrow> bool" where
  "named_elem t n e \<longleftrightarrow> is_elem e \<and> tag e = t \<and> attributes e ''name'' = Some n"

text \<open>The first child that is an element and no comment gets the value; without one a new child does.\<close>

fun write_value :: "conv_env \<Rightarrow> variant \<Rightarrow> dom list \<Rightarrow> dom list option" where
  "write_value env v [] = map_option (\<lambda>(e, ok). [e]) (variantToElement env v (Elem ''bogus'' Map.empty []))"
| "write_value env v (k # ks) =
     (if is_elem k \<and> tag k \<noteq> ''comment'' then map_option (\<lambda>(e, ok). e # ks) (variantToElement env v k)
      else map_option ((#) k) (write_value env v ks))"

definition write_children :: "(dom list \<Rightarrow> dom list option) \<Rightarrow> dom \<Rightarrow> dom option" where
  "write_children f e = map_option (Elem (tag e) (attributes e)) (f (children e))"

text \<open>The element with a tag and a name is changed, or a new one is appended and changed.\<close>

definition change_or_append :: "string \<Rightarrow> string \<Rightarrow> (dom list \<Rightarrow> dom list option) \<Rightarrow> dom list \<Rightarrow> dom list option" where
  "change_or_append t n f ks =
     (case change_first_below (named_elem t n) (write_children f) ks of
        Some r \<Rightarrow> r
      | None \<Rightarrow> map_option (\<lambda>e. ks @ [e]) (write_children f (Elem t [''name'' \<mapsto> n] [])))"

fun save_properties :: "conv_env \<Rightarrow> (string \<Rightarrow> variant option) \<Rightarrow> string list \<Rightarrow> dom list \<Rightarrow> dom list option" where
  "save_properties env d [] ks = Some ks"
| "save_properties env d (n # ns) ks = do {
     ks1 \<leftarrow> change_or_append ''property'' n (write_value env (the (d n))) ks;
     save_properties env d ns ks1
   }"

fun save_sections :: "prefs_env \<Rightarrow> prefs \<Rightarrow> string list \<Rightarrow> dom list \<Rightarrow> dom list option" where
  "save_sections env ps [] ks = Some ks"
| "save_sections env ps (s # ss) ks = do {
     let d = the (ps s);
     ks1 \<leftarrow> change_or_append ''section'' s (save_properties (conv_env.truncate env) d (xp_order env (dom d))) ks;
     save_sections env ps ss ks1
   }"

definition template_doc :: pref_file where
  "template_doc = Document [Other ''?xml version=\"1.0\" encoding=\"UTF-8\"?'', Other ''!DOCTYPE seqpreferences SYSTEM \"seqpref.dtd\"'']
     (Elem ''seqpreferences'' [''version'' \<mapsto> ''1.0''] [Comment '' ============================================================= ''])"

text \<open>A line break is put behind every \<open>-->\<close> of the text of the document, to have each comment on a line of its own. That also is
  the end of a comment that a text follows, and every \<open>-->\<close> in a text or in a value that the writer did not escape: what is parsed from the
  file has the gap \<open>tg\<close> behind those in a text and the gap \<open>ag\<close> behind those in a value. (A comment cannot contain \<open>-->\<close>; line breaks
  between elements are not part of the document. No name of an element ends with two hyphens.)\<close>

fun break_ends :: "string \<Rightarrow> string \<Rightarrow> string" where
  "break_ends gap [] = []"
| "break_ends gap (c # s) = (if take 3 (c # s) = ''-->'' then ''-->'' @ gap @ break_ends gap (drop 2 s) else c # break_ends gap s)"

definition line_break :: string where "line_break = [CHR 0x0A]"

fun is_comment :: "dom \<Rightarrow> bool" where
  "is_comment (Comment _) = True"
| "is_comment _ = False"

fun break_dom :: "string \<Rightarrow> string \<Rightarrow> bool \<Rightarrow> dom \<Rightarrow> dom" and break_doms :: "string \<Rightarrow> string \<Rightarrow> bool \<Rightarrow> dom list \<Rightarrow> dom list" where
  "break_dom ag tg behind_comment (Elem g a ks) = Elem g (map_option (break_ends ag) \<circ> a) (break_doms ag tg False ks)"
| "break_dom ag tg behind_comment (Text s) = Text ((if behind_comment then line_break else []) @ break_ends tg s)"
| "break_dom ag tg behind_comment (Comment s) = Comment s"
| "break_dom ag tg behind_comment (Other s) = Other (break_ends line_break s)"
| "break_doms ag tg behind_comment [] = []"
| "break_doms ag tg behind_comment (k # ks) = break_dom ag tg behind_comment k # break_doms ag tg (is_comment k) ks"

definition attr_gap :: "prefs_env \<Rightarrow> string" where "attr_gap env = (if xp_raw_arrow env then xp_attr_break env else [])"
definition text_gap :: "prefs_env \<Rightarrow> string" where "text_gap env = (if xp_raw_arrow env then line_break else [])"

text \<open>A file that is there is first renamed; when that fails because there is a backup already, it is overwritten.\<close>

definition savePreferences :: "prefs_env \<Rightarrow> string \<Rightarrow> prefs \<Rightarrow> pref_file files \<Rightarrow> pref_file files option" where
  "savePreferences env f ps fs =
     (let doc = (if xp_readable env f then (case fs f of Some (Document pre root) \<Rightarrow> Document pre root | _ \<Rightarrow> template_doc)
                 else template_doc);
          fs1 = (if fs f \<noteq> None then snd (fs_rename f (f @ ''.bak'') fs) else fs)
      in case doc of
           Malformed \<Rightarrow> Some fs1
         | Document pre root \<Rightarrow> do {
             root' \<leftarrow> write_children (save_sections env ps (xp_order env (dom ps))) root;
             let written = Document (break_doms (attr_gap env) (text_gap env) False pre) (break_dom (attr_gap env) (text_gap env) False root');
             Some (if xp_writable env f then fs1(f \<mapsto> written) else fs1)
           })"

definition xp_save :: "prefs_env \<Rightarrow> XMLPreferences \<Rightarrow> pref_file files \<Rightarrow> pref_file files option" where
  "xp_save env xp fs = do {
     fs1 \<leftarrow> (if in_layer (m_modified xp) User then savePreferences env (m_filename xp) (m_userSections xp) fs else Some fs);
     if in_layer (m_modified xp) Defaults then savePreferences env (m_defaultsFilename xp) (m_defaultsSections xp) fs1 else Some fs1
   }"

end
