(* ===== verification/XMLPrefsProps.thy ===== *)
theory XMLPrefsProps
  imports XMLPreferences "HOL-Library.List_Lexorder" "HOL-Library.Char_ord"
begin

text \<open>
  The properties of the preferences: which layer a value comes from, which values survive the
  file, and which do not.
\<close>

section \<open>A store of values\<close>

text \<open>The contract the components with preferences rely on.\<close>

locale value_store =
  fixes ok :: "'s \<Rightarrow> bool"
    and get :: "'k \<Rightarrow> 's \<Rightarrow> 'v option"
    and put :: "'k \<Rightarrow> 'v \<Rightarrow> 's \<Rightarrow> 's"
  assumes put_ok: "ok s \<Longrightarrow> ok (put k v s)"
    and get_put: "ok s \<Longrightarrow> get k (put k' v s) = (if k = k' then Some v else get k s)"
begin

lemma puts_ok: "ok s \<Longrightarrow> ok (fold (\<lambda>(k, v). put k v) kvs s)"
  by (induction kvs arbitrary: s) (auto simp: put_ok)

lemma get_puts:
  "ok s \<Longrightarrow> get k (fold (\<lambda>(k, v). put k v) kvs s) = (case map_of (rev kvs) k of Some v \<Rightarrow> Some v | None \<Rightarrow> get k s)"
proof (induction kvs arbitrary: s)
  case (Cons e kvs)
  obtain k' v where e: "e = (k', v)" by (cases e)
  have "get k (fold (\<lambda>(k, v). put k v) kvs (put k' v s)) = (case map_of (rev kvs) k of Some v \<Rightarrow> Some v | None \<Rightarrow> get k (put k' v s))"
    using Cons.IH [OF put_ok [OF Cons.prems]] .
  then show ?case using e get_put [OF Cons.prems, of k k' v] by (auto simp: map_add_def split: option.splits)
qed simp

end

lemma layer_value_set [simp]:
  "layer_value (set_layer n' s' v ps) n s = (if n = n' \<and> s = s' then Some v else layer_value ps n s)"
  by (auto simp: layer_value_def set_layer_def Let_def split: option.splits)

lemma layers [simp]: "in_layer AnyPref Runtime" "in_layer AnyPref User" "in_layer AnyPref Defaults"
  "in_layer User User" "\<not> in_layer User Runtime" "\<not> in_layer User Defaults" "in_layer Runtime Runtime" "\<not> in_layer Runtime User"
  by (simp_all add: in_layer_def AnyPref_def Runtime_def User_def Defaults_def)

definition no_runtime :: "XMLPreferences \<Rightarrow> bool" where "no_runtime xp \<longleftrightarrow> m_runtimeSections xp = Map.empty"

definition pref :: "string \<times> string \<Rightarrow> XMLPreferences \<Rightarrow> variant option" where
  "pref k xp = getPref (fst k) (snd k) AnyPref xp"

definition put_pref :: "string \<times> string \<Rightarrow> variant \<Rightarrow> XMLPreferences \<Rightarrow> XMLPreferences" where
  "put_pref k v xp = setPref (fst k) (snd k) v User xp"

interpretation user_prefs: value_store no_runtime pref put_pref
proof unfold_locales
  show "no_runtime (put_pref k v xp)" if "no_runtime xp" for k v xp
    using that by (simp add: no_runtime_def put_pref_def setPref_def)
  show "pref k (put_pref k' v xp) = (if k = k' then Some v else pref k xp)" if "no_runtime xp" for k k' v xp
    using that by (cases k; cases k') (auto simp: pref_def put_pref_def no_runtime_def getPref_def setPref_def layer_value_def [of Map.empty]
      split: option.splits)
qed

section \<open>The layers\<close>

record pref_set =
  ps_name :: string
  ps_section :: string
  ps_value :: variant
  ps_pers :: u8

definition apply_set :: "pref_set \<Rightarrow> XMLPreferences \<Rightarrow> XMLPreferences" where
  "apply_set p = setPref (ps_name p) (ps_section p) (ps_value p) (ps_pers p)"

text \<open>The last setting of a name in a layer.\<close>

definition last_set :: "u8 \<Rightarrow> string \<Rightarrow> string \<Rightarrow> pref_set list \<Rightarrow> variant option" where
  "last_set l n s ops = map_option ps_value (find (\<lambda>p. in_layer (ps_pers p) l \<and> ps_name p = n \<and> ps_section p = s) (rev ops))"

definition over :: "'a option \<Rightarrow> 'a option \<Rightarrow> 'a option" where
  "over a b = (case a of None \<Rightarrow> b | Some _ \<Rightarrow> a)"

lemma last_set_snoc: "last_set l n s (ops @ [p]) = (if in_layer (ps_pers p) l \<and> ps_name p = n \<and> ps_section p = s then Some (ps_value p)
    else last_set l n s ops)"
  by (simp add: last_set_def)

lemma set_layer_values:
  "layer_value (m_runtimeSections (fold apply_set ops xp)) n s = over (last_set Runtime n s ops) (layer_value (m_runtimeSections xp) n s)"
  "layer_value (m_userSections (fold apply_set ops xp)) n s = over (last_set User n s ops) (layer_value (m_userSections xp) n s)"
  "layer_value (m_defaultsSections (fold apply_set ops xp)) n s = over (last_set Defaults n s ops) (layer_value (m_defaultsSections xp) n s)"
  by (induction ops rule: rev_induct) (auto simp: last_set_snoc over_def apply_set_def setPref_def last_set_def)

text \<open>After any sequence of settings a preference has the value that was set last in the first of the
  layers (run time, user, defaults) that is asked for and has one; a setting touches exactly the layers
  it names.\<close>

theorem preference_of_layers:
  "getPref n s pers (fold apply_set ops xp) =
     over (if in_layer pers Runtime then over (last_set Runtime n s ops) (layer_value (m_runtimeSections xp) n s) else None)
     (over (if in_layer pers User then over (last_set User n s ops) (layer_value (m_userSections xp) n s) else None)
       (if in_layer pers Defaults then over (last_set Defaults n s ops) (layer_value (m_defaultsSections xp) n s) else None))"
  unfolding getPref_def set_layer_values by (simp add: over_def split: option.split)

text \<open>A value that was set at run time hides every value that is set for the user or as default later, whatever else
  is set in between; the description of the class says that a later persistent value overrides it.\<close>

theorem runtime_value_hides_later:
  assumes "list_all (\<lambda>p. \<not> in_layer (ps_pers p) Runtime) ops"
  shows "getPref n s AnyPref (fold apply_set ops (setPref n s v Runtime xp)) = Some v"
proof -
  have "last_set Runtime n s ops = None"
    using assms by (auto simp: last_set_def find_None_iff list_all_iff)
  then show ?thesis by (simp add: getPref_def set_layer_values over_def) (simp add: setPref_def)
qed

section \<open>Values in elements\<close>

text \<open>What the library documents of its formats of integers: it reads back what it writes. Of a double only the values that
  are saved matter, and they come back as what is read from their text.\<close>

definition number_codec :: "conv_env \<Rightarrow> bool" where
  "number_codec env \<longleftrightarrow> (\<forall>w. xc_toInt env 10 (dec_int (sint w)) = Some w) \<and> (\<forall>w. xc_toUInt env 10 (dec_string (unat w)) = Some w)
     \<and> (\<forall>w. xc_toULongLong16 env (hex16 w) = Some w)"

text \<open>A string with the end of a comment in it, and the elements without such values.\<close>

fun has_arrow :: "string \<Rightarrow> bool" where
  "has_arrow [] = False"
| "has_arrow (c # s) = (take 3 (c # s) = ''-->'' \<or> has_arrow s)"

definition plain_elem :: "dom \<Rightarrow> bool" where
  "plain_elem e \<longleftrightarrow> (\<forall>n v. attributes e n = Some v \<longrightarrow> \<not> has_arrow v)"

definition plain_value :: "dom \<Rightarrow> bool" where
  "plain_value e \<longleftrightarrow> is_elem e \<longrightarrow> tag e = ''string'' \<or> plain_elem e"

lemma break_ends_plain [simp]: "\<not> has_arrow s \<Longrightarrow> break_ends g s = s"
  by (induction g s rule: break_ends.induct) auto

lemma has_arrow_char: "has_arrow s \<Longrightarrow> CHR ''>'' \<in> set s"
proof (induction s)
  case (Cons c s)
  have "CHR ''>'' \<in> set (take 3 (c # s))" if "take 3 (c # s) = ''-->''" using that by simp
  then show ?case using Cons set_take_subset [of 3 "c # s"] by auto
qed simp

lemma digits_no_arrow [simp]: "\<not> has_arrow (dec_string n)" "\<not> has_arrow (dec_int i)" "\<not> has_arrow (hex16 w)" "\<not> has_arrow (boolString b)"
proof -
  have d: "CHR ''>'' \<notin> set (dec_string n)" for n using dec_string_digits [of "CHR ''>''" n] by auto
  then show "\<not> has_arrow (dec_string n)" "\<not> has_arrow (dec_int i)" using has_arrow_char [of "dec_string n"] has_arrow_char [of "dec_int i"] by (auto simp: dec_int_def split: if_splits)
  have "hex_digit k \<noteq> CHR ''>''" if "k < 16" for k using that by (cases "k < 10") (auto simp: hex_digit_def Let_def dest: arg_cong [where f = "of_char :: char \<Rightarrow> nat"])
  then have "CHR ''>'' \<notin> set (hex16 w)" by (auto simp: hex16_def) (metis mod_less_divisor zero_less_numeral)
  then show "\<not> has_arrow (hex16 w)" using has_arrow_char by blast
  show "\<not> has_arrow (boolString b)" by (simp add: boolString_def)
qed

text \<open>The value that is read from the element of a value.\<close>

definition restored :: "conv_env \<Rightarrow> variant \<Rightarrow> variant option" where
  "restored env v = (case v of
     VString s \<Rightarrow> Some (VString (c_string s))
   | VULongLong w \<Rightarrow> Some (VULong w)
   | VDouble d \<Rightarrow> map_option VDouble (xc_toDouble env (xc_number env d))
   | VLongLong _ \<Rightarrow> None
   | VInvalid \<Rightarrow> None
   | VStringList ss \<Rightarrow> Some (VStringList (replicate (length ss) []))
   | VColor c \<Rightarrow> Some (VColor (c\<lparr>col_valid := True\<rparr>))
   | _ \<Rightarrow> Some v)"

text \<open>The kinds of values that survive; of a double, that the library writes it as text it reads as a number.\<close>

definition durable :: "conv_env \<Rightarrow> variant \<Rightarrow> bool" where
  "durable env v \<longleftrightarrow> (case v of VInvalid \<Rightarrow> False | VLongLong _ \<Rightarrow> False | VStringList _ \<Rightarrow> False
     | VDouble d \<Rightarrow> xc_toDouble env (xc_number env d) \<noteq> None \<and> \<not> has_arrow (xc_number env d) | _ \<Rightarrow> True)"

lemma toInt_byte: "number_codec env \<Longrightarrow> xc_toInt env 10 (dec_string (unat (b :: u8))) = Some (ucast b)"
proof -
  assume c: "number_codec env"
  have "sint (ucast b :: u32) = int (unat b)"
  proof -
    have u: "0 \<le> uint b" "uint b < 2 ^ 8" using uint_bounded [of b] by simp_all
    have w: "(ucast b :: u32) = word_of_int (uint b)" by (rule bit_word_eqI) (simp add: bit_simps)
    have "sint (ucast b :: u32) = signed_take_bit 31 (uint b)" unfolding w sint_sbintrunc' by simp
    also have "\<dots> = uint b" 
    proof (rule signed_take_bit_int_eq_self)
      show "- (2 ^ 31) \<le> uint b" by (rule order_trans [OF _ u(1)]) simp
    qed (use u(2) in simp)
    finally show ?thesis by simp
  qed
  then have "dec_string (unat b) = dec_int (sint (ucast b :: u32))" by (simp add: dec_int_def)
  then show ?thesis using c by (simp add: number_codec_def)
qed

lemma element_restored:
  assumes "number_codec env" "durable env v"
  shows "\<exists>e'. variantToElement env v e = Some (e', True) \<and> is_elem e' \<and> tag e' \<notin> {''comment'', ''font'', ''key''}
    \<and> children e' = children e \<and> plain_value e' \<and> elementToVariant env e' = restored env v"
proof -
  note d = variantToElement_def elementToVariant_def restored_def durable_def getBase_def coord_def
    number_codec_def string_elem_def getColor_def color_part_def attr_or_empty_def plain_value_def plain_elem_def
  show ?thesis
  proof (cases v)
    case (VColor c)
    have "ucast (ucast b :: u32) = (b :: u8)" for b by (rule bit_word_eqI) (simp add: bit_simps)
    then show ?thesis using assms VColor toInt_byte [OF assms(1)] by (simp add: d rgb_def)
  next
    case (VBool b)
    then show ?thesis by (cases b) (simp_all add: d boolString_def getBoolFromString_def)
  qed (use assms in \<open>simp_all add: d\<close>)
qed

section \<open>Flat documents\<close>

text \<open>The documents the class writes: sections with different names below the root, and in them properties with
  different names. No name has \<open>-->\<close> in it.\<close>

definition elem_names :: "dom list \<Rightarrow> string list" where
  "elem_names ks = List.map_filter (\<lambda>k. if is_elem k then attributes k ''name'' else None) ks"

definition flat :: "string \<Rightarrow> dom list \<Rightarrow> bool" where
  "flat t ks \<longleftrightarrow> (\<forall>k \<in> set ks. is_elem k \<longrightarrow> tag k = t \<and> elements_by_tag t (children k) = [] \<and> plain_elem k) \<and> distinct (elem_names ks)"

text \<open>The children of the element with a name.\<close>

fun kid :: "string \<Rightarrow> dom list \<Rightarrow> dom list option" where
  "kid n [] = None"
| "kid n (k # ks) = (if is_elem k \<and> attributes k ''name'' = Some n then Some (children k) else kid n ks)"

lemma elem_names_simps [simp]: "elem_names [] = []"
  "elem_names (k # ks) = (case (if is_elem k then attributes k ''name'' else None) of None \<Rightarrow> elem_names ks | Some n \<Rightarrow> n # elem_names ks)"
  "elem_names (ks @ ls) = elem_names ks @ elem_names ls"
  by (simp_all add: elem_names_def map_filter_def split: option.split)

lemma kid_None: "kid n ks = None \<longleftrightarrow> n \<notin> set (elem_names ks)"
  by (induction ks) (auto split: option.split)

lemma change_first_none:
  "by_tag t d = [] \<Longrightarrow> change_first (named_elem t n) f d = None"
  "elements_by_tag t ds = [] \<Longrightarrow> change_first_below (named_elem t n) f ds = None"
  by (induction "named_elem t n" f d and "named_elem t n" f ds rule: change_first_change_first_below.induct)
    (auto simp: named_elem_def elements_by_tag_def split: if_splits)

definition changed_flat :: "string \<Rightarrow> string \<Rightarrow> (dom list \<Rightarrow> dom list option) \<Rightarrow> dom list \<Rightarrow> bool" where
  "changed_flat t n f ks \<longleftrightarrow> (case kid n ks of
      None \<Rightarrow> change_first_below (named_elem t n) (write_children f) ks = None
    | Some c \<Rightarrow> (case f c of
        None \<Rightarrow> change_first_below (named_elem t n) (write_children f) ks = Some None
      | Some c' \<Rightarrow> \<exists>us vs g. ks = us @ Elem t g c # vs \<and> kid n us = None \<and> g ''name'' = Some n
          \<and> change_first_below (named_elem t n) (write_children f) ks = Some (Some (us @ Elem t g c' # vs))))"

lemma changed_flatI:
  assumes "kid n ks = Some c" "f c = Some c'" "ks = us @ Elem t g c # vs" "kid n us = None" "g ''name'' = Some n"
    "change_first_below (named_elem t n) (write_children f) ks = Some (Some (us @ Elem t g c' # vs))"
  shows "changed_flat t n f ks"
  unfolding changed_flat_def using assms by (simp only: option.case) blast

lemma changed_flat_skip:
  assumes "changed_flat t n f ks" "change_first (named_elem t n) (write_children f) k = None" "kid n (k # ks) = kid n ks"
    "kid n [k] = None"
  shows "changed_flat t n f (k # ks)"
proof (cases "kid n ks")
  case None
  then show ?thesis using assms by (simp add: changed_flat_def)
next
  case (Some c)
  show ?thesis
  proof (cases "f c")
    case None
    then show ?thesis using assms Some by (simp add: changed_flat_def)
  next
    case (Some c')
    then obtain us vs g where u: "ks = us @ Elem t g c # vs" "kid n us = None" "g ''name'' = Some n"
      "change_first_below (named_elem t n) (write_children f) ks = Some (Some (us @ Elem t g c' # vs))"
      using assms(1) \<open>kid n ks = Some c\<close> by (auto simp: changed_flat_def)
    have "k # ks = (k # us) @ Elem t g c # vs" "kid n (k # us) = None" using u assms(4) by (auto split: if_splits)
    moreover have "change_first_below (named_elem t n) (write_children f) (k # ks) = Some (Some ((k # us) @ Elem t g c' # vs))"
      using u(4) assms(2) by simp
    moreover have "kid n (k # ks) = Some c" using assms(3) \<open>kid n ks = Some c\<close> by simp
    ultimately show ?thesis using changed_flatI Some u(3) by blast
  qed
qed

lemma change_first_flat:
  "\<forall>k \<in> set ks. is_elem k \<longrightarrow> tag k = t \<and> elements_by_tag t (children k) = [] \<Longrightarrow> changed_flat t n f ks"
proof (induction ks)
  case Nil
  then show ?case by (simp add: changed_flat_def)
next
  case (Cons k ks)
  then have ih: "changed_flat t n f ks" by simp
  show ?case
  proof (cases k)
    case (Elem g a cs)
    then have g: "g = t" "elements_by_tag t cs = []" using Cons.prems by auto
    show ?thesis
    proof (cases "a ''name'' = Some n")
      case True
      then have p: "change_first (named_elem t n) (write_children f) k = Some (map_option (Elem t a) (f cs))" "kid n (k # ks) = Some cs"
        using Elem g by (simp_all add: named_elem_def write_children_def)
      show ?thesis
      proof (cases "f cs")
        case None
        then show ?thesis using p unfolding changed_flat_def by simp
      next
        case (Some c')
        show ?thesis
          by (rule changed_flatI [where f = f and c = cs and c' = c' and us = "[]" and t = t and g = a and vs = ks]) (use p Some True Elem g in simp_all)
      qed
    next
      case False
      then have "change_first (named_elem t n) (write_children f) k = None" using Elem g change_first_none(2) by (simp add: named_elem_def)
      then show ?thesis using changed_flat_skip [OF ih] Elem False by simp
    qed
  qed (use changed_flat_skip [OF ih] in simp_all)
qed

text \<open>On a flat list the children of one name are replaced and nothing else changes.\<close>

lemma change_or_append_flat:
  assumes "flat t ks" "f (case kid n ks of None \<Rightarrow> [] | Some c \<Rightarrow> c) = Some c'" "elements_by_tag t c' = []" "\<not> has_arrow n"
  shows "\<exists>ks'. change_or_append t n f ks = Some ks' \<and> flat t ks' \<and> kid n ks' = Some c' \<and> (\<forall>m. m \<noteq> n \<longrightarrow> kid m ks' = kid m ks)
    \<and> (\<forall>Q. (\<forall>k \<in> set ks. is_elem k \<longrightarrow> Q (children k)) \<longrightarrow> Q c' \<longrightarrow> (\<forall>k \<in> set ks'. is_elem k \<longrightarrow> Q (children k)))
    \<and> (\<forall>u. u \<noteq> t \<longrightarrow> elements_by_tag u ks = [] \<longrightarrow> elements_by_tag u c' = [] \<longrightarrow> elements_by_tag u ks' = [])"
proof -
  have c: "changed_flat t n f ks" using assms(1) by (intro change_first_flat) (simp add: flat_def)
  have app: "kid m (us @ vs) = (case kid m us of None \<Rightarrow> kid m vs | Some d \<Rightarrow> Some d)" for m us vs by (induction us) auto
  show ?thesis
  proof (cases "kid n ks")
    case None
    let ?ks = "ks @ [Elem t [''name'' \<mapsto> n] c']"
    have "change_or_append t n f ks = Some ?ks"
      using c assms(2) None by (simp add: changed_flat_def change_or_append_def write_children_def)
    moreover have "flat t ?ks" using assms(1,3,4) None kid_None [of n ks] by (auto simp: flat_def plain_elem_def)
    moreover have "kid n ?ks = Some c'" "\<forall>m. m \<noteq> n \<longrightarrow> kid m ?ks = kid m ks" using None by (auto simp: app split: option.split)
    moreover have "\<forall>u. u \<noteq> t \<longrightarrow> elements_by_tag u ks = [] \<longrightarrow> elements_by_tag u c' = [] \<longrightarrow> elements_by_tag u ?ks = []"
      by (auto simp: elements_by_tag_def)
    moreover have "\<forall>Q. (\<forall>k \<in> set ks. is_elem k \<longrightarrow> Q (children k)) \<longrightarrow> Q c' \<longrightarrow> (\<forall>k \<in> set ?ks. is_elem k \<longrightarrow> Q (children k))"
      by auto
    ultimately show ?thesis by blast
  next
    case (Some d)
    then obtain us vs g where u: "ks = us @ Elem t g d # vs" "kid n us = None" "g ''name'' = Some n"
      "change_first_below (named_elem t n) (write_children f) ks = Some (Some (us @ Elem t g c' # vs))"
      using c assms(2) by (auto simp: changed_flat_def)
    let ?ks = "us @ Elem t g c' # vs"
    have "change_or_append t n f ks = Some ?ks" using u(4) by (simp add: change_or_append_def)
    moreover have "elem_names ?ks = elem_names ks" using u(1,3) by simp
    moreover from this have "flat t ?ks" using assms(1,3) u(1) unfolding flat_def plain_elem_def by auto
    moreover have "kid n ?ks = Some c'" "\<forall>m. m \<noteq> n \<longrightarrow> kid m ?ks = kid m ks" using u(1-3) by (auto simp: app split: option.split)
    moreover have "\<forall>u. u \<noteq> t \<longrightarrow> elements_by_tag u ks = [] \<longrightarrow> elements_by_tag u c' = [] \<longrightarrow> elements_by_tag u ?ks = []"
      using u(1) by (auto simp: elements_by_tag_def)
    moreover have "\<forall>Q. (\<forall>k \<in> set ks. is_elem k \<longrightarrow> Q (children k)) \<longrightarrow> Q c' \<longrightarrow> (\<forall>k \<in> set ?ks. is_elem k \<longrightarrow> Q (children k))"
      using u(1) by auto
    ultimately show ?thesis by blast
  qed
qed

section \<open>Writing and reading a property\<close>

lemma read_property_value: "\<exists>v. \<forall>c. fst (read_property env ks c) = v"
proof (induction ks)
  case (Cons k ks)
  then obtain v where v: "\<forall>c. fst (read_property env ks c) = v" by blast
  show ?case
  proof (cases "is_elem k \<and> tag k \<notin> {''comment'', ''font'', ''key''} \<and> elementToVariant env k \<noteq> None")
    case True
    then show ?thesis by auto
  next
    case False
    then have "\<forall>c. fst (read_property env (k # ks) c) = v" using v by (auto split: option.split)
    then show ?thesis by blast
  qed
qed simp

lemma read_property_fst: "fst (read_property env ks c) = fst (read_property env ks None)"
  using read_property_value [of env ks] by auto

lemma write_value_reads:
  assumes "number_codec env" "durable env v"
  shows "\<exists>ks'. write_value env v ks = Some ks' \<and> (\<forall>c. fst (read_property env ks' c) = restored env v)
    \<and> (\<forall>t \<in> {''section'', ''property''}. elements_by_tag t ks = [] \<longrightarrow> elements_by_tag t ks' = [])
    \<and> (list_all plain_value ks \<longrightarrow> list_all plain_value ks')"
proof (induction ks)
  case Nil
  obtain e where "variantToElement env v (Elem ''bogus'' Map.empty []) = Some (e, True)" "is_elem e" "tag e \<notin> {''comment'', ''font'', ''key''}"
    "children e = []" "elementToVariant env e = restored env v" "restored env v \<noteq> None" "tag e \<notin> {''section'', ''property''}" "plain_value e"
    using element_restored [OF assms, of "Elem ''bogus'' Map.empty []"] assms(2)
    by (cases v) (auto simp: durable_def restored_def variantToElement_def string_elem_def)
  then show ?case by (cases e) (auto simp: elements_by_tag_def)
next
  case (Cons k ks)
  show ?case
  proof (cases "is_elem k \<and> tag k \<noteq> ''comment''")
    case True
    obtain e where e: "variantToElement env v k = Some (e, True)" "is_elem e" "tag e \<notin> {''comment'', ''font'', ''key''}"
      "children e = children k" "elementToVariant env e = restored env v" "restored env v \<noteq> None" "tag e \<notin> {''section'', ''property''}" "plain_value e"
      using element_restored [OF assms, of k] assms(2)
      by (cases v) (auto simp: durable_def restored_def variantToElement_def string_elem_def)
    have "by_tag t e = []" if "t \<in> {''section'', ''property''}" "by_tag t k = []" for t
      using that e True by (cases e; cases k) auto
    then have "\<forall>t \<in> {''section'', ''property''}. elements_by_tag t (k # ks) = [] \<longrightarrow> elements_by_tag t (e # ks) = []"
      by (simp add: elements_by_tag_def)
    moreover have "fst (read_property env (e # ks) c) = restored env v" for c using e by auto
    ultimately show ?thesis using True e(1,8) by simp
  next
    case False
    obtain ks' where ks': "write_value env v ks = Some ks'" "\<forall>c. fst (read_property env ks' c) = restored env v"
      "\<forall>t \<in> {''section'', ''property''}. elements_by_tag t ks = [] \<longrightarrow> elements_by_tag t ks' = []"
      "list_all plain_value ks \<longrightarrow> list_all plain_value ks'" using Cons.IH by blast
    have "fst (read_property env (k # ks') c) = restored env v" for c using False ks'(2) by auto
    moreover have "write_value env v (k # ks) = Some (k # ks')" using False ks'(1) by auto
    moreover have "\<forall>t \<in> {''section'', ''property''}. elements_by_tag t (k # ks) = [] \<longrightarrow> elements_by_tag t (k # ks') = []"
      using ks'(3) by (simp add: elements_by_tag_def)
    moreover have "list_all plain_value (k # ks) \<longrightarrow> list_all plain_value (k # ks')" using ks'(4) by simp
    ultimately show ?thesis by blast
  qed
qed

text \<open>The properties of a section, and the value of a name in them.\<close>

definition prop_list :: "dom list \<Rightarrow> bool" where
  "prop_list ks \<longleftrightarrow> flat ''property'' ks \<and> elements_by_tag ''section'' ks = []
     \<and> (\<forall>k \<in> set ks. is_elem k \<longrightarrow> list_all plain_value (children k))"

definition value_in :: "conv_env \<Rightarrow> dom list \<Rightarrow> string \<Rightarrow> variant option" where
  "value_in env ks n = (case kid n ks of None \<Rightarrow> None | Some c \<Rightarrow> fst (read_property env c None))"

lemma kid_in: "kid n ks = Some c \<Longrightarrow> \<exists>k \<in> set ks. is_elem k \<and> children k = c"
  by (induction ks) (auto split: if_splits)

lemma by_tag_children: "is_elem k \<Longrightarrow> elements_by_tag t [k] = [] \<Longrightarrow> elements_by_tag t (children k) = []"
  by (cases k) (auto simp: elements_by_tag_def)

lemma prop_list_kid:
  assumes "prop_list ks" "kid n ks = Some c"
  shows "elements_by_tag ''property'' c = []" "elements_by_tag ''section'' c = []" "list_all plain_value c"
proof -
  obtain k where k: "k \<in> set ks" "is_elem k" "children k = c" using kid_in [OF assms(2)] by blast
  then show "elements_by_tag ''property'' c = []" "list_all plain_value c" using assms(1) by (auto simp: prop_list_def flat_def)
  have "elements_by_tag ''section'' [k] = []" using assms(1) k(1) by (auto simp: prop_list_def elements_by_tag_def)
  then show "elements_by_tag ''section'' c = []" using by_tag_children k by blast
qed

lemma save_property_value:
  assumes "number_codec env" "durable env v" "prop_list ks" "\<not> has_arrow n"
  shows "\<exists>ks'. change_or_append ''property'' n (write_value env v) ks = Some ks' \<and> prop_list ks'
    \<and> (\<forall>m. value_in env ks' m = (if m = n then restored env v else value_in env ks m))"
proof -
  let ?c = "case kid n ks of None \<Rightarrow> [] | Some c \<Rightarrow> c"
  obtain c' where c': "write_value env v ?c = Some c'" "\<forall>c. fst (read_property env c' c) = restored env v"
    "\<forall>t \<in> {''section'', ''property''}. elements_by_tag t ?c = [] \<longrightarrow> elements_by_tag t c' = []"
    "list_all plain_value ?c \<longrightarrow> list_all plain_value c'"
    using write_value_reads [OF assms(1,2)] by blast
  have "elements_by_tag ''property'' ?c = [] \<and> elements_by_tag ''section'' ?c = [] \<and> list_all plain_value ?c"
    using prop_list_kid [OF assms(3), of n] by (cases "kid n ks") (simp_all add: elements_by_tag_def)
  then have t: "elements_by_tag ''property'' c' = []" "elements_by_tag ''section'' c' = []" "list_all plain_value c'" using c'(3,4) by auto
  obtain ks' where k: "change_or_append ''property'' n (write_value env v) ks = Some ks'" "flat ''property'' ks'" "kid n ks' = Some c'"
    "\<forall>m. m \<noteq> n \<longrightarrow> kid m ks' = kid m ks"
    "\<forall>u. u \<noteq> ''property'' \<longrightarrow> elements_by_tag u ks = [] \<longrightarrow> elements_by_tag u c' = [] \<longrightarrow> elements_by_tag u ks' = []"
    "\<forall>Q. (\<forall>k \<in> set ks. is_elem k \<longrightarrow> Q (children k)) \<longrightarrow> Q c' \<longrightarrow> (\<forall>k \<in> set ks'. is_elem k \<longrightarrow> Q (children k))"
    using change_or_append_flat [where f = "write_value env v" and n = n and t = "''property''", OF _ c'(1) t(1) assms(4)] assms(3) unfolding prop_list_def by blast
  have "\<forall>k \<in> set ks'. is_elem k \<longrightarrow> list_all plain_value (children k)"
    using k(6) [THEN spec, of "list_all plain_value"] t(3) assms(3) by (simp add: prop_list_def)
  then have "prop_list ks'" using k(2,5) t(2) assms(3) by (simp add: prop_list_def)
  moreover have "value_in env ks' m = (if m = n then restored env v else value_in env ks m)" for m
    using k(3,4) c'(2) by (simp add: value_in_def)
  ultimately show ?thesis using k(1) by blast
qed

lemma save_properties_values:
  assumes "number_codec env" "prop_list ks" "distinct ns" "\<forall>n \<in> set ns. durable env (the (d n)) \<and> \<not> has_arrow n"
  shows "\<exists>ks'. save_properties env d ns ks = Some ks' \<and> prop_list ks'
    \<and> (\<forall>m. value_in env ks' m = (if m \<in> set ns then restored env (the (d m)) else value_in env ks m))"
  using assms(2-)
proof (induction ns arbitrary: ks)
  case (Cons n ns)
  obtain ks1 where k1: "change_or_append ''property'' n (write_value env (the (d n))) ks = Some ks1" "prop_list ks1"
    "\<forall>m. value_in env ks1 m = (if m = n then restored env (the (d n)) else value_in env ks m)"
    using save_property_value [OF assms(1) _ Cons.prems(1), of "the (d n)" n] Cons.prems(3) by auto
  then obtain ks' where "save_properties env d ns ks1 = Some ks'" "prop_list ks'"
    "\<forall>m. value_in env ks' m = (if m \<in> set ns then restored env (the (d m)) else value_in env ks1 m)"
    using Cons.IH [OF k1(2)] Cons.prems by auto
  then show ?case using k1 Cons.prems(2) by auto
qed simp

section \<open>Loading\<close>

lemma by_tag_self: "tag k = t \<Longrightarrow> elements_by_tag t (children k) = [] \<Longrightarrow> is_elem k \<Longrightarrow> by_tag t k = [k]"
  by (cases k) (simp_all add: elements_by_tag_def)

lemma elements_flat:
  assumes "flat t ks"
  shows "elements_by_tag t ks = filter is_elem ks"
proof -
  have "by_tag t k = (if is_elem k then [k] else [])" if "k \<in> set ks" for k
    using assms that by_tag_self [of k t] by (cases k) (auto simp: flat_def)
  then show ?thesis unfolding elements_by_tag_def by (induction ks) simp_all
qed

lemma load_property_value:
  "layer_value (fst (load_property env s p (ps, cs))) n s' =
     over (if s' = s \<and> attributes p ''name'' = Some n then fst (read_property env (children p) None) else None) (layer_value ps n s')"
proof (cases "attributes p ''name''")
  case (Some m)
  obtain v c where "read_property env (children p) None = (v, c)" by (rule prod.exhaust)
  then show ?thesis using Some by (cases v) (simp_all add: load_property_def over_def)
qed (simp add: load_property_def over_def)

lemma over_simps [simp]: "over None b = b" "over a None = a"
  by (simp_all add: over_def split: option.split)

lemma value_in_Cons: "value_in env (k # ks) n =
    (if is_elem k \<and> attributes k ''name'' = Some n then fst (read_property env (children k) None) else value_in env ks n)"
  by (simp add: value_in_def)

lemma load_properties_value:
  assumes "distinct (elem_names ks)"
  shows "layer_value (fst (fold (load_property env s) (filter is_elem ks) st)) n s' =
     over (if s' = s then value_in env ks n else None) (layer_value (fst st) n s')"
  using assms
proof (induction ks arbitrary: st)
  case Nil
  then show ?case by (simp add: value_in_def over_def)
next
  case (Cons k ks)
  show ?case
  proof (cases "is_elem k")
    case True
    have d: "distinct (elem_names ks)" using Cons.prems by (auto split: option.splits if_splits)
    have "layer_value (fst (fold (load_property env s) (filter is_elem (k # ks)) st)) n s'
      = over (if s' = s then value_in env ks n else None)
          (over (if s' = s \<and> attributes k ''name'' = Some n then fst (read_property env (children k) None) else None) (layer_value (fst st) n s'))"
      using True Cons.IH [OF d, of "load_property env s k st"] load_property_value [of env s k "fst st" "snd st" n s'] by simp
    moreover have "value_in env ks n = None" if "attributes k ''name'' = Some n"
      using that Cons.prems True kid_None [of n ks] by (simp add: value_in_def)
    ultimately show ?thesis using True by (simp add: value_in_Cons)
  qed (use Cons in \<open>auto simp: value_in_Cons\<close>)
qed

definition section_in :: "conv_env \<Rightarrow> dom list \<Rightarrow> string \<Rightarrow> string \<Rightarrow> variant option" where
  "section_in env ks n s = (case kid s ks of None \<Rightarrow> None | Some c \<Rightarrow> value_in env c n)"

definition section_list :: "dom list \<Rightarrow> bool" where
  "section_list ks \<longleftrightarrow> flat ''section'' ks \<and> (\<forall>k \<in> set ks. is_elem k \<longrightarrow> prop_list (children k))"

lemma load_section_value:
  assumes "prop_list (children k)"
  shows "layer_value (fst (load_section env k st)) n s =
    over (if attributes k ''name'' = Some s then value_in env (children k) n else None) (layer_value (fst st) n s)"
proof -
  have f: "elements_by_tag ''property'' (children k) = filter is_elem (children k)" "distinct (elem_names (children k))"
    using assms elements_flat by (auto simp: prop_list_def flat_def)
  have e: "layer_value (case ps t of None \<Rightarrow> ps(t \<mapsto> Map.empty) | Some _ \<Rightarrow> ps) n s = layer_value ps n s" for ps t
    by (auto simp: layer_value_def split: option.split)
  show ?thesis using load_properties_value [OF f(2)] e
    by (auto simp: load_section_def f(1) case_prod_unfold over_def split: option.split)
qed

lemma section_in_Cons: "section_in env (k # ks) n s =
    (if is_elem k \<and> attributes k ''name'' = Some s then value_in env (children k) n else section_in env ks n s)"
  by (simp add: section_in_def)

lemma load_sections_value:
  assumes "\<forall>k \<in> set ks. is_elem k \<longrightarrow> prop_list (children k)" "distinct (elem_names ks)"
  shows "layer_value (fst (fold (load_section env) (filter is_elem ks) st)) n s = over (section_in env ks n s) (layer_value (fst st) n s)"
  using assms
proof (induction ks arbitrary: st)
  case Nil
  then show ?case by (simp add: section_in_def over_def)
next
  case (Cons k ks)
  show ?case
  proof (cases "is_elem k")
    case True
    have d: "distinct (elem_names ks)" using Cons.prems by (auto split: option.splits if_splits)
    have "layer_value (fst (fold (load_section env) (filter is_elem (k # ks)) st)) n s
      = over (section_in env ks n s) (over (if attributes k ''name'' = Some s then value_in env (children k) n else None) (layer_value (fst st) n s))"
      using True Cons.IH [OF _ d, of "load_section env k st"] load_section_value [of k env st n s] Cons.prems(1) by simp
    moreover have "section_in env ks n s = None" if "attributes k ''name'' = Some s"
      using that Cons.prems(2) True kid_None [of s ks] by (simp add: section_in_def)
    ultimately show ?thesis using True by (simp add: section_in_Cons)
  qed (use Cons in \<open>auto simp: section_in_Cons\<close>)
qed

section \<open>Saving\<close>

lemma prop_list_Nil [simp]: "prop_list []"
  by (simp add: prop_list_def flat_def elements_by_tag_def)

lemma value_in_Nil [simp]: "value_in env [] n = None"
  by (simp add: value_in_def)

text \<open>After a change every named child of the list is one of the list before, or the changed one.\<close>

lemma section_list_kid: "section_list ks \<Longrightarrow> kid s ks = Some c \<Longrightarrow> prop_list c"
  using kid_in [of s ks c] by (auto simp: section_list_def)

lemma change_section:
  assumes "section_list ks" "f (case kid s ks of None \<Rightarrow> [] | Some c \<Rightarrow> c) = Some c'" "prop_list c'" "\<not> has_arrow s"
  shows "\<exists>ks'. change_or_append ''section'' s f ks = Some ks' \<and> section_list ks' \<and> kid s ks' = Some c' \<and> (\<forall>m. m \<noteq> s \<longrightarrow> kid m ks' = kid m ks)"
proof -
  have fl: "flat ''section'' ks" using assms(1) by (simp add: section_list_def)
  have e: "elements_by_tag ''section'' c' = []" using assms(3) by (simp add: prop_list_def)
  obtain ks' where k: "change_or_append ''section'' s f ks = Some ks'" "flat ''section'' ks'" "kid s ks' = Some c'"
    "\<forall>m. m \<noteq> s \<longrightarrow> kid m ks' = kid m ks"
    "\<forall>Q. (\<forall>k \<in> set ks. is_elem k \<longrightarrow> Q (children k)) \<longrightarrow> Q c' \<longrightarrow> (\<forall>k \<in> set ks'. is_elem k \<longrightarrow> Q (children k))"
    using change_or_append_flat [where f = f and n = s and t = "''section''", OF fl assms(2) e assms(4)] by blast
  then show ?thesis using k(5) [THEN spec, of prop_list] assms(1,3) by (simp add: section_list_def)
qed

lemma save_sections_values:
  assumes "number_codec (conv_env.truncate env)" "\<And>S. finite S \<Longrightarrow> distinct (xp_order env S) \<and> set (xp_order env S) = S"
    "section_list ks" "distinct ss" "\<forall>s \<in> set ss. \<not> has_arrow s \<and> (\<exists>d. ps s = Some d \<and> finite (dom d) \<and>
      (\<forall>n v. d n = Some v \<longrightarrow> \<not> has_arrow n \<and> durable (conv_env.truncate env) v))"
  shows "\<exists>ks'. save_sections env ps ss ks = Some ks' \<and> section_list ks'
    \<and> (\<forall>n s. section_in (conv_env.truncate env) ks' n s =
        over (if s \<in> set ss then Option.bind (layer_value ps n s) (restored (conv_env.truncate env)) else None) (section_in (conv_env.truncate env) ks n s))"
  using assms(3-)
proof (induction ss arbitrary: ks)
  case Nil
  then show ?case by (simp add: over_def)
next
  case (Cons s ss)
  let ?env = "conv_env.truncate env"
  obtain d where d: "ps s = Some d" "finite (dom d)" "\<forall>n v. d n = Some v \<longrightarrow> \<not> has_arrow n \<and> durable ?env v" using Cons.prems(3) by auto
  let ?ns = "xp_order env (dom d)" and ?c = "case kid s ks of None \<Rightarrow> [] | Some c \<Rightarrow> c"
  have o: "distinct ?ns" "set ?ns = dom d" using assms(2) [OF d(2)] by auto
  have pc: "prop_list ?c" using section_list_kid [OF Cons.prems(1)] by (cases "kid s ks") auto
  have "\<forall>n \<in> set ?ns. durable ?env (the (d n)) \<and> \<not> has_arrow n" using o(2) d(3) by auto
  then obtain c' where c': "save_properties ?env d ?ns ?c = Some c'" "prop_list c'"
    "\<forall>m. value_in ?env c' m = (if m \<in> dom d then restored ?env (the (d m)) else value_in ?env ?c m)"
    using save_properties_values [OF assms(1) pc o(1)] o(2) by metis
  obtain ks1 where k1: "change_or_append ''section'' s (save_properties ?env d ?ns) ks = Some ks1" "section_list ks1"
    "kid s ks1 = Some c'" "\<forall>m. m \<noteq> s \<longrightarrow> kid m ks1 = kid m ks"
    using change_section [where f = "save_properties ?env d ?ns", OF Cons.prems(1) c'(1,2)] Cons.prems(3) by auto
  obtain ks' where k: "save_sections env ps ss ks1 = Some ks'" "section_list ks'"
    "\<forall>n s. section_in ?env ks' n s = over (if s \<in> set ss then Option.bind (layer_value ps n s) (restored ?env) else None) (section_in ?env ks1 n s)"
    using Cons.IH [OF k1(2)] Cons.prems(2,3) by auto
  have "section_in ?env ks1 n t = over (if t = s then Option.bind (layer_value ps n t) (restored ?env) else None) (section_in ?env ks n t)" for n t
  proof (cases "t = s")
    case True
    have "restored ?env v \<noteq> None" if "durable ?env v" for v using that by (cases v) (auto simp: durable_def restored_def)
    then have r: "restored ?env v \<noteq> None" if "d n = Some v" for v using that d(3) by blast
    have "section_in ?env ks n s = value_in ?env ?c n" by (simp add: section_in_def split: option.split)
    moreover have "section_in ?env ks1 n s = (if n \<in> dom d then restored ?env (the (d n)) else value_in ?env ?c n)"
      using k1(3) c'(3) by (simp add: section_in_def)
    ultimately show ?thesis using True d(1) r by (cases "d n") (auto simp: layer_value_def over_def)
  next
    case False
    then show ?thesis using k1(4) by (simp add: section_in_def over_def)
  qed
  then have "section_in ?env ks' n t = over (if t \<in> set (s # ss) then Option.bind (layer_value ps n t) (restored ?env) else None) (section_in ?env ks n t)" for n t
    using k(3) Cons.prems(2) by (cases "t = s") simp_all
  then show ?case using k1(1) d(1) k(1,2) by auto
qed

section \<open>The line breaks\<close>

text \<open>What the line breaks in the text of the file do to a value.\<close>

definition broken :: "string \<Rightarrow> variant \<Rightarrow> variant" where
  "broken gap v = (case v of VString s \<Rightarrow> VString (break_ends gap s) | _ \<Rightarrow> v)"

lemma break_dom_elem [simp]: "is_elem (break_dom ag tg b k) = is_elem k"
  "is_elem k \<Longrightarrow> tag (break_dom ag tg b k) = tag k"
  "is_elem k \<Longrightarrow> attributes (break_dom ag tg b k) n = map_option (break_ends ag) (attributes k n)"
  "is_elem k \<Longrightarrow> children (break_dom ag tg b k) = break_doms ag tg False (children k)"
  by (cases k; simp)+

lemma plain_attributes: "is_elem k \<Longrightarrow> plain_elem k \<Longrightarrow> attributes (break_dom ag tg b k) = attributes k"
proof
  fix n assume "is_elem k" "plain_elem k"
  then show "attributes (break_dom ag tg b k) n = attributes k n" by (cases "attributes k n") (simp_all add: plain_elem_def)
qed

lemma by_tag_break:
  "by_tag t (break_dom ag tg b k) = map (break_dom ag tg False) (by_tag t k)"
  "elements_by_tag t (break_doms ag tg b ks) = map (break_dom ag tg False) (elements_by_tag t ks)"
  by (induction ag tg b k and ag tg b ks rule: break_dom_break_doms.induct) (auto simp: elements_by_tag_def)

lemma by_tag_elem: "e \<in> set (by_tag t k) \<Longrightarrow> is_elem e"
  by (induction t k rule: by_tag.induct) (auto split: if_splits)

lemma element_break:
  assumes "is_elem e" "plain_value e"
  shows "elementToVariant env (break_dom ag tg b e) = map_option (broken ag) (elementToVariant env e)"
proof (cases "tag e = ''string''")
  case True
  then show ?thesis using assms(1) by (simp add: elementToVariant_def broken_def option.map_comp comp_def)
next
  case False
  then have a: "attributes (break_dom ag tg b e) = attributes e" using assms plain_attributes by (simp add: plain_value_def)
  have el: "is_elem x" if "x \<in> set (elements_by_tag t ks)" for x t ks using that by_tag_elem by (auto simp: elements_by_tag_def)
  have n: "map (\<lambda>_. z) (filter (\<lambda>s. attributes s ''value'' \<noteq> None) (elements_by_tag t (break_doms ag tg False ks)))
      = map (\<lambda>_. z) (filter (\<lambda>s. attributes s ''value'' \<noteq> None) (elements_by_tag t ks))" for z :: string and t ks
    unfolding by_tag_break filter_map comp_def map_map
    by (intro map_cong [OF filter_cong] refl) (simp_all add: el)
  have f: "getBase env (break_dom ag tg b e) = getBase env e" "attr_or_empty (break_dom ag tg b e) m = attr_or_empty e m" for m
    by (simp_all only: getBase_def attr_or_empty_def a)
  then have f': "coord env (break_dom ag tg b e) m = coord env e m" "color_part env (break_dom ag tg b e) m u = color_part env e m u" for m u
    by (simp_all only: coord_def color_part_def a)
  then have f'': "getColor env (break_dom ag tg b e) = getColor env e" by (simp only: getColor_def a)
  have "elementToVariant env (break_dom ag tg b e) = elementToVariant env e"
    unfolding elementToVariant_def a f f' f'' break_dom_elem(2,4) [OF assms(1)] n ..
  moreover have "elementToVariant env e \<noteq> Some (VString s)" for s
    using False by (auto simp: elementToVariant_def Let_def bind_eq_Some_conv split: if_splits prod.splits)
  ultimately show ?thesis by (cases "elementToVariant env e") (auto simp: broken_def split: variant.split)
qed

lemma read_property_break:
  "list_all plain_value ks \<Longrightarrow> fst (read_property env (break_doms ag tg b ks) c) = map_option (broken ag) (fst (read_property env ks d))"
proof (induction ks arbitrary: b c d)
  case (Cons k ks)
  show ?case
  proof (cases "is_elem k")
    case True
    then have "elementToVariant env (break_dom ag tg b k) = map_option (broken ag) (elementToVariant env k)" using Cons.prems element_break by simp
    then show ?thesis using True Cons by (cases "elementToVariant env k") auto
  qed (use Cons in simp)
qed simp

lemma kid_break:
  "\<forall>k \<in> set ks. is_elem k \<longrightarrow> plain_elem k \<Longrightarrow> kid n (break_doms ag tg b ks) = map_option (break_doms ag tg False) (kid n ks)"
  by (induction ks arbitrary: b) (auto simp: plain_attributes simp del: break_dom_elem(3))

lemma elem_names_break:
  "\<forall>k \<in> set ks. is_elem k \<longrightarrow> plain_elem k \<Longrightarrow> elem_names (break_doms ag tg b ks) = elem_names ks"
  by (induction ks arbitrary: b) (auto simp: plain_attributes simp del: break_dom_elem(3) split: option.split)

lemma break_doms_in: "k' \<in> set (break_doms ag tg b ks) \<Longrightarrow> \<exists>k \<in> set ks. \<exists>b. k' = break_dom ag tg b k"
  by (induction ks arbitrary: b) auto

lemma plain_break: "is_elem k \<Longrightarrow> plain_elem k \<Longrightarrow> plain_elem (break_dom ag tg b k)" "plain_value k \<Longrightarrow> plain_value (break_dom ag tg b k)"
  using plain_attributes by (auto simp: plain_value_def) (auto simp: plain_elem_def)

lemma flat_break: "flat t ks \<Longrightarrow> flat t (break_doms ag tg b ks)"
  using elem_names_break [of ks ag tg b] by (fastforce simp: flat_def by_tag_break plain_break dest: break_doms_in)

lemma prop_list_break: "prop_list ks \<Longrightarrow> prop_list (break_doms ag tg b ks)"
proof -
  assume p: "prop_list ks"
  have "list_all plain_value (break_doms ag tg b' ls)" if "list_all plain_value ls" for b' ls
    using that plain_break(2) by (induction ls arbitrary: b') auto
  then have "\<forall>k \<in> set (break_doms ag tg b ks). is_elem k \<longrightarrow> list_all plain_value (children k)"
    using p by (auto simp: prop_list_def dest!: break_doms_in)
  then show ?thesis using p flat_break by (simp add: prop_list_def by_tag_break)
qed

lemma section_list_break: "section_list ks \<Longrightarrow> section_list (break_doms ag tg b ks)"
  using flat_break prop_list_break by (auto simp: section_list_def dest!: break_doms_in)

lemma value_in_break: "prop_list ks \<Longrightarrow> value_in env (break_doms ag tg b ks) n = map_option (broken ag) (value_in env ks n)"
  using prop_list_kid(3) [of ks n] read_property_break kid_break [of ks n ag tg b]
  by (cases "kid n ks") (auto simp: value_in_def prop_list_def flat_def)

lemma section_in_break: "section_list ks \<Longrightarrow> section_in env (break_doms ag tg b ks) n s = map_option (broken ag) (section_in env ks n s)"
  using section_list_kid [of ks s] value_in_break kid_break [of ks s ag tg b]
  by (cases "kid s ks") (auto simp: section_in_def section_list_def flat_def)

section \<open>A restart\<close>

definition doc_ok :: "pref_file option \<Rightarrow> bool" where
  "doc_ok pf \<longleftrightarrow> (case pf of None \<Rightarrow> True | Some Malformed \<Rightarrow> True
     | Some (Document pre root) \<Rightarrow> is_elem root \<and> tag root \<noteq> ''section'' \<and> section_list (children root))"

definition doc_value :: "conv_env \<Rightarrow> pref_file option \<Rightarrow> string \<Rightarrow> string \<Rightarrow> variant option" where
  "doc_value env pf n s = (case pf of Some (Document pre root) \<Rightarrow> section_in env (children root) n s | _ \<Rightarrow> None)"

lemma load_prefs_document:
  assumes "doc_ok (fs f)" "xp_readable env f"
  shows "layer_value (fst (loadPreferences env fs f st)) n s = over (doc_value (conv_env.truncate env) (fs f) n s) (layer_value (fst st) n s)"
proof (cases "fs f")
  case (Some pf)
  show ?thesis
  proof (cases pf)
    case (Document pre root)
    then have r: "is_elem root" "tag root \<noteq> ''section''" "section_list (children root)" using assms(1) Some by (simp_all add: doc_ok_def)
    then have "elements_by_tag ''section'' [root] = elements_by_tag ''section'' (children root)"
      by (cases root) (simp_all add: elements_by_tag_def)
    then have "elements_by_tag ''section'' [root] = filter is_elem (children root)"
      using elements_flat [of "''section''" "children root"] r(3) by (simp add: section_list_def)
    moreover have "distinct (elem_names (children root))" "\<forall>k \<in> set (children root). is_elem k \<longrightarrow> prop_list (children k)"
      using r(3) by (simp_all add: section_list_def flat_def)
    ultimately show ?thesis using load_sections_value assms(2) Some Document by (simp add: loadPreferences_def doc_value_def)
  qed (use assms Some in \<open>simp add: loadPreferences_def doc_value_def\<close>)
qed (use assms in \<open>simp add: loadPreferences_def doc_value_def\<close>)

definition hash_order_ok :: "prefs_env \<Rightarrow> bool" where
  "hash_order_ok env \<longleftrightarrow> (\<forall>S. finite S \<longrightarrow> distinct (xp_order env S) \<and> set (xp_order env S) = S)"

definition durable_prefs :: "conv_env \<Rightarrow> prefs \<Rightarrow> bool" where
  "durable_prefs env ps \<longleftrightarrow> finite (dom ps) \<and> (\<forall>s d. ps s = Some d \<longrightarrow> \<not> has_arrow s \<and> finite (dom d) \<and> (\<forall>n v. d n = Some v \<longrightarrow> \<not> has_arrow n \<and> durable env v))"

lemma savePreferences_document:
  assumes "number_codec (conv_env.truncate env)" "hash_order_ok env" "durable_prefs (conv_env.truncate env) ps" "doc_ok (fs f)"
    "xp_readable env f" "xp_writable env f"
  shows "\<exists>fs'. savePreferences env f ps fs = Some fs' \<and> doc_ok (fs' f)
    \<and> (\<forall>n s. doc_value (conv_env.truncate env) (fs' f) n s = map_option (broken (attr_gap env))
        (over (Option.bind (layer_value ps n s) (restored (conv_env.truncate env))) (doc_value (conv_env.truncate env) (fs f) n s)))
    \<and> (\<forall>g. g \<noteq> f \<and> g \<noteq> f @ ''.bak'' \<longrightarrow> fs' g = fs g)"
proof -
  let ?env = "conv_env.truncate env" and ?ag = "attr_gap env" and ?tg = "text_gap env"
  define doc where "doc = (case fs f of Some (Document pre root) \<Rightarrow> Document pre root | _ \<Rightarrow> template_doc)"
  have d: "doc_ok (Some doc)" "doc_value ?env (Some doc) = doc_value ?env (fs f)"
    using assms(4) by (auto simp: doc_def doc_ok_def doc_value_def template_doc_def section_list_def flat_def section_in_def fun_eq_iff
      split: option.split pref_file.split)
  obtain pre root where doc: "doc = Document pre root" by (cases doc) (auto simp: doc_def template_doc_def split: option.splits pref_file.splits)
  then have r: "is_elem root" "tag root \<noteq> ''section''" "section_list (children root)" using d(1) by (simp_all add: doc_ok_def)
  have dp: "finite (dom ps)" "\<forall>s \<in> dom ps. \<not> has_arrow s \<and> (\<exists>d. ps s = Some d \<and> finite (dom d) \<and> (\<forall>n v. d n = Some v \<longrightarrow> \<not> has_arrow n \<and> durable ?env v))"
    using assms(3) by (auto simp: durable_prefs_def)
  have o: "\<And>S. finite S \<Longrightarrow> distinct (xp_order env S) \<and> set (xp_order env S) = S" using assms(2) by (simp add: hash_order_ok_def)
  obtain ks' where k: "save_sections env ps (xp_order env (dom ps)) (children root) = Some ks'" "section_list ks'"
    "\<forall>n s. section_in ?env ks' n s = over (if s \<in> dom ps then Option.bind (layer_value ps n s) (restored ?env) else None) (section_in ?env (children root) n s)"
    using save_sections_values [OF assms(1) o r(3), of "xp_order env (dom ps)" ps] o [OF dp(1)] dp(2) by auto
  let ?root = "Elem (tag root) (attributes root) ks'"
  let ?written = "Document (break_doms ?ag ?tg False pre) (break_dom ?ag ?tg False ?root)"
  define fs1 where "fs1 = (if fs f \<noteq> None then snd (fs_rename f (f @ ''.bak'') fs) else fs)"
  have f1: "fs1 g = fs g" if "g \<noteq> f" "g \<noteq> f @ ''.bak''" for g
    using that by (auto simp: fs1_def fs_rename_def split: option.split)
  have "savePreferences env f ps fs = Some (fs1(f \<mapsto> ?written))"
    using doc k(1) assms(5,6) unfolding savePreferences_def fs1_def [symmetric] doc_def [symmetric] Let_def
    by (simp add: write_children_def)
  moreover have "doc_ok (Some ?written)" using r k(2) section_list_break by (simp add: doc_ok_def)
  moreover have "doc_value ?env (Some ?written) n s = map_option (broken ?ag)
      (over (Option.bind (layer_value ps n s) (restored ?env)) (doc_value ?env (fs f) n s))" for n s
  proof -
    have "doc_value ?env (fs f) n s = section_in ?env (children root) n s" using d(2) doc by (simp add: doc_value_def fun_eq_iff)
    moreover have "layer_value ps n s = None" if "s \<notin> dom ps" using that by (simp add: layer_value_def domIff)
    ultimately show ?thesis using k(3) section_in_break [OF k(2)] by (auto simp: doc_value_def)
  qed
  ultimately show ?thesis using f1 by auto
qed

text \<open>C30: After the preferences were saved, a new instance with the same file has every value of the user layer again,
  where the file had a value with the same name and section it is replaced, and the others are kept:
  for all kinds of values but signed 64-bit integers and lists of strings (\<open>values_lost\<close>), and a document in which no section and no
  property occurs twice, and no name and no value but strings has \<open>-->\<close> in it. A double comes back as the number the
  library reads from its text, and a string, a saved one as well as one of the file, with what the parser makes of a line
  break behind every \<open>-->\<close>: those strings are changed by every save, all others come back as they are.\<close>

theorem user_values_survive:
  assumes "number_codec (conv_env.truncate env)" "hash_order_ok env" "durable_prefs (conv_env.truncate env) (m_userSections xp)"
    "doc_ok (fs (m_filename xp))" "xp_readable env (m_filename xp)" "xp_writable env (m_filename xp)"
    "in_layer (m_modified xp) User" "\<not> in_layer (m_modified xp) Defaults"
  shows "\<exists>fs'. xp_save env xp fs = Some fs' \<and>
    (\<forall>n s. getPref n s User (new_XMLPreferences env fs' defaults (m_filename xp)) = map_option (broken (attr_gap env))
      (over (Option.bind (getPref n s User xp) (restored (conv_env.truncate env))) (getPref n s User (new_XMLPreferences env fs defaults (m_filename xp)))))"
proof -
  let ?env = "conv_env.truncate env"
  obtain fs' where fs': "savePreferences env (m_filename xp) (m_userSections xp) fs = Some fs'" "doc_ok (fs' (m_filename xp))"
    "\<forall>n s. doc_value ?env (fs' (m_filename xp)) n s = map_option (broken (attr_gap env))
        (over (Option.bind (layer_value (m_userSections xp) n s) (restored ?env)) (doc_value ?env (fs (m_filename xp)) n s))"
    using savePreferences_document [where fs = fs and f = "m_filename xp", OF assms(1-6)] by blast
  have g: "getPref n s User (new_XMLPreferences env gs defaults (m_filename xp)) = doc_value ?env (gs (m_filename xp)) n s"
    if "doc_ok (gs (m_filename xp))" for gs :: "pref_file files" and n s
    using load_prefs_document [where fs = gs and f = "m_filename xp", OF that assms(5)] by (simp add: getPref_def new_XMLPreferences_def xp_load_def case_prod_unfold Let_def layer_value_def [of Map.empty] split: option.split)
  have "getPref n s User xp = layer_value (m_userSections xp) n s" for n s by (simp add: getPref_def split: option.split)
  then show ?thesis using fs' g [of fs, OF assms(4)] g [of fs', OF fs'(2)] assms(7,8) by (simp add: xp_save_def)
qed

section \<open>What does not survive\<close>

text \<open>A 64-bit signed value that is saved under a name the file does not have yet is not read back, because it is
  written with a tag the reader does not know; of a list of strings only the length comes back, because the
  reader takes the values of the strings from the element of the list.\<close>

theorem values_lost:
  "(\<exists>ks. write_value env (VLongLong w) [] = Some ks \<and> fst (read_property env ks None) = None)
   \<and> (\<exists>ks. write_value env (VStringList ss) [] = Some ks \<and> fst (read_property env ks None) = Some (VStringList (replicate (length ss) [])))"
proof (intro conjI)
  show "\<exists>ks. write_value env (VLongLong w) [] = Some ks \<and> fst (read_property env ks None) = None"
    by (simp add: variantToElement_def elementToVariant_def)
  have e: "elements_by_tag ''string'' (map (string_elem []) ss) = map (string_elem []) ss"
    unfolding elements_by_tag_def by (induction ss) (simp_all add: string_elem_def)
  have "filter (\<lambda>s. attributes s ''value'' \<noteq> None) (map (string_elem []) ss) = map (string_elem []) ss"
    by (induction ss) (simp_all add: string_elem_def)
  then have "elementToVariant env (Elem ''stringlist'' Map.empty (map (string_elem []) ss)) = Some (VStringList (replicate (length ss) []))"
    by (simp add: elementToVariant_def attr_or_empty_def e comp_def map_replicate_const)
  then show "\<exists>ks. write_value env (VStringList ss) [] = Some ks \<and> fst (read_property env ks None) = Some (VStringList (replicate (length ss) []))"
    by (simp add: variantToElement_def write_strings_def elements_by_tag_def)
qed

section \<open>Samples\<close>

text \<open>Readers of decimal and hexadecimal digits, as a surrounding for the samples.\<close>

definition hex_digit_value :: "char \<Rightarrow> nat" where
  "hex_digit_value c = (let n = of_char c in if n < 58 then n - 48 else n - 87)"

definition hex_value :: "string \<Rightarrow> nat" where
  "hex_value s = foldl (\<lambda>a c. a * 16 + hex_digit_value c) 0 s"

definition digit_conv :: conv_env where
  "digit_conv = \<lparr>xc_toInt = (\<lambda>b s. case s of [] \<Rightarrow> None | c # t \<Rightarrow> Some (if c = CHR ''-'' then - of_nat (digits_value t) else of_nat (digits_value s))),
     xc_toUInt = (\<lambda>b s. Some (of_nat (digits_value s))), xc_toULongLong16 = (\<lambda>s. Some (of_nat (hex_value s))),
     xc_toDouble = (\<lambda>s. Some (of_nat (hex_value s))), xc_number = hex16\<rparr>"

definition sample_prefs_env :: prefs_env where
  "sample_prefs_env = conv_env.extend digit_conv (prefs_env.fields sorted_list_of_set (\<lambda>_. True) (\<lambda>_. True) True '' '')"

lemma hex_digit_value [simp]: "k < 16 \<Longrightarrow> hex_digit_value (hex_digit k) = k"
  by (auto simp: hex_digit_value_def hex_digit_def of_char_of take_bit_eq_mod Let_def)

lemma hex_value_digits:
  "foldl (\<lambda>a c. a * 16 + hex_digit_value c) a (map (\<lambda>k. hex_digit (m div 16 ^ k mod 16)) (rev [0..<n])) = a * 16 ^ n + m mod 16 ^ n"
proof (induction n arbitrary: a)
  case (Suc n)
  have "m mod 16 ^ Suc n = 16 ^ n * (m div 16 ^ n mod 16) + m mod 16 ^ n" by (simp add: mod_mult2_eq mult.commute [of 16])
  then show ?case using Suc by (simp add: algebra_simps)
qed simp

lemma hex_value_hex16: "of_nat (hex_value (hex16 w)) = w"
proof -
  have u: "unat w < 16 ^ 16" using unsigned_less [of w] by simp
  have "hex_value (hex16 w) = unat w mod 16 ^ 16"
    unfolding hex_value_def hex16_def using hex_value_digits [of 0 "unat w" 16] by simp
  also have "\<dots> = unat w" using u by (rule mod_less)
  finally show ?thesis by simp
qed

lemma digit_conv_codec: "number_codec digit_conv"
proof -
  have i: "xc_toInt digit_conv 10 (dec_int (sint w)) = Some w" for w
  proof (cases "sint w < 0")
    case True
    then have "of_nat (nat (- sint w)) = (word_of_int (- sint w) :: u32)" by (simp add: of_nat_nat)
    then show ?thesis using True by (simp add: digit_conv_def dec_int_def digits_value_dec)
  next
    case False
    then have w: "of_nat (nat (sint w)) = (word_of_int (sint w) :: u32)" by (simp add: of_nat_nat)
    obtain c s where c: "dec_string (nat (sint w)) = c # s" using dec_string_nonempty [of "nat (sint w)"] by (cases "dec_string (nat (sint w))") auto
    then have "c \<noteq> CHR ''-''" using dec_string_hyphen [of "nat (sint w)"] by auto
    then show ?thesis using False w c digits_value_dec [of "nat (sint w)"] by (simp add: digit_conv_def dec_int_def)
  qed
  then show ?thesis using i by (simp add: number_codec_def digit_conv_def digits_value_dec hex_value_hex16)
qed

lemma sample_prefs_env: "conv_env.truncate sample_prefs_env = digit_conv" "hash_order_ok sample_prefs_env"
  "xp_readable sample_prefs_env f" "xp_writable sample_prefs_env f"
  by (simp_all add: sample_prefs_env_def conv_env.defs prefs_env.defs hash_order_ok_def)

definition sample_preferences :: XMLPreferences where
  "sample_preferences = \<lparr>m_defaultsFilename = ''seqdef.xml'', m_filename = ''showeq.xml'', m_modified = User, m_runtimeSections = Map.empty,
     m_userSections = [''Network'' \<mapsto> [''Device'' \<mapsto> VString ''a-->b'', ''Port'' \<mapsto> VUInt 9090]], m_defaultsSections = Map.empty,
     m_commentSections = (\<lambda>_. Map.empty)\<rparr>"

theorem runtime_value_hides_later_witness:
  "getPref ''Device'' ''Network'' AnyPref (setPref ''Device'' ''Network'' (VString ''eth1'') User (setPref ''Device'' ''Network'' (VString ''lo'') Runtime sample_preferences))
    = Some (VString ''lo'')"
  using runtime_value_hides_later [of "[\<lparr>ps_name = ''Device'', ps_section = ''Network'', ps_value = VString ''eth1'', ps_pers = User\<rparr>]"
      "''Device''" "''Network''" "VString ''lo''" sample_preferences]
  by (simp add: apply_set_def)

theorem user_values_survive_witness:
  "\<exists>fs'. xp_save sample_prefs_env sample_preferences Map.empty = Some fs' \<and>
     getPref ''Port'' ''Network'' User (new_XMLPreferences sample_prefs_env fs' ''seqdef.xml'' ''showeq.xml'') = Some (VUInt 9090)
     \<and> getPref ''Device'' ''Network'' User (new_XMLPreferences sample_prefs_env fs' ''seqdef.xml'' ''showeq.xml'') = Some (VString ''a--> b'')"
proof -
  have "durable_prefs digit_conv (m_userSections sample_preferences)"
    by (auto simp: durable_prefs_def sample_preferences_def durable_def split: if_splits)
  then obtain fs' where fs': "xp_save sample_prefs_env sample_preferences Map.empty = Some fs'"
    "\<forall>n s. getPref n s User (new_XMLPreferences sample_prefs_env fs' ''seqdef.xml'' (m_filename sample_preferences)) =
      map_option (broken (attr_gap sample_prefs_env)) (over (Option.bind (getPref n s User sample_preferences) (restored digit_conv))
        (getPref n s User (new_XMLPreferences sample_prefs_env Map.empty ''seqdef.xml'' (m_filename sample_preferences))))"
    using user_values_survive [of sample_prefs_env sample_preferences Map.empty "''seqdef.xml''"]
    by (auto simp: sample_prefs_env digit_conv_codec doc_ok_def sample_preferences_def User_def Defaults_def in_layer_def)
  have v: "getPref ''Port'' ''Network'' User sample_preferences = Some (VUInt 9090)"
    "getPref ''Device'' ''Network'' User sample_preferences = Some (VString ''a-->b'')"
    by (simp_all add: getPref_def layer_value_def sample_preferences_def)
  have "attr_gap sample_prefs_env = '' ''" by (simp add: attr_gap_def sample_prefs_env_def prefs_env.defs conv_env.defs)
  moreover have "m_filename sample_preferences = ''showeq.xml''" by (simp add: sample_preferences_def)
  ultimately show ?thesis using fs'(1) fs'(2) [rule_format, of "''Port''" "''Network''"] fs'(2) [rule_format, of "''Device''" "''Network''"] v
    by (simp add: restored_def over_def broken_def c_string_def)
qed

end
