(* ===== verification/MessageFilter.thy ===== *)
theory MessageFilter
  imports XMLPreferences
begin

text \<open>
  \<open>src/src/messagefilter.h\<close> and \<open>src/src/messagefilter.cpp\<close>: a table of 32 filters of messages, each a set of message types
  and an expression. The table is read from the preferences when it is created, and every change is written to
  them. Whether an expression matches a text, and how the library converts a value that is no string to
  one, are parameters.
\<close>

type_synonym qt_match = "string \<Rightarrow> u32 \<Rightarrow> string \<Rightarrow> bool"

record pref_reader =
  pr_string :: "variant \<Rightarrow> string"
  pr_color :: "variant \<Rightarrow> SeqColor"
  pr_strtoull :: "string \<Rightarrow> u64"

definition getPrefString :: "pref_reader \<Rightarrow> string \<Rightarrow> string \<Rightarrow> string \<Rightarrow> XMLPreferences \<Rightarrow> string" where
  "getPrefString env inName inSection def xp =
     getPref_as (\<lambda>v. case v of VString s \<Rightarrow> s | _ \<Rightarrow> pr_string env v) inName inSection def AnyPref xp"

definition getPrefColor :: "pref_reader \<Rightarrow> string \<Rightarrow> string \<Rightarrow> SeqColor \<Rightarrow> XMLPreferences \<Rightarrow> SeqColor" where
  "getPrefColor env inName inSection def xp =
     getPref_as (\<lambda>v. case v of VColor c \<Rightarrow> c | _ \<Rightarrow> pr_color env v) inName inSection def AnyPref xp"

section \<open>A filter\<close>

record MessageFilter =
  mf_name :: string
  mf_types :: u64
  mf_pattern :: string
  mf_options :: u32

definition new_MessageFilter :: "string \<Rightarrow> u64 \<Rightarrow> string \<Rightarrow> u32 \<Rightarrow> MessageFilter" where
  "new_MessageFilter name matchTypes pattern options =
     \<lparr>mf_name = name, mf_types = matchTypes, mf_pattern = pattern, mf_options = options\<rparr>"

definition new_MessageFilter_unnamed :: "u64 \<Rightarrow> string \<Rightarrow> u32 \<Rightarrow> MessageFilter" where
  "new_MessageFilter_unnamed matchTypes pattern options = new_MessageFilter pattern matchTypes pattern options"

definition mf_isFiltered :: "qt_match \<Rightarrow> u64 \<Rightarrow> string \<Rightarrow> MessageFilter \<Rightarrow> bool" where
  "mf_isFiltered match messageTypeMask message mf \<longleftrightarrow>
     mf_types mf AND messageTypeMask \<noteq> 0 \<and> match (mf_pattern mf) (mf_options mf) message"

definition mf_isFiltered_type :: "qt_match \<Rightarrow> nat \<Rightarrow> string \<Rightarrow> MessageFilter \<Rightarrow> bool" where
  "mf_isFiltered_type match type message mf \<longleftrightarrow> mf_isFiltered match (push_bit type 1) message mf"

section \<open>The table\<close>

definition maxMessageFilters :: nat where "maxMessageFilters = 32"

type_synonym MessageFilters = "MessageFilter option list"

datatype mf_event = MfRemoved u32 u8 | MfAdded u32 u8 MessageFilter

definition mf_section :: string where "mf_section = ''MessageFilters''"

definition load_slot :: "pref_reader \<Rightarrow> XMLPreferences \<Rightarrow> nat \<Rightarrow> MessageFilter option option" where
  "load_slot env xp i =
     (let filterName = getPrefString env (dec_string i @ ''Name'') mf_section [] xp in
      if filterName = [] then Some None
      else do {
        types \<leftarrow> getPrefUInt64 (pr_strtoull env) (dec_string i @ ''Types'') mf_section 0 AnyPref xp;
        Some (Some (new_MessageFilter filterName types (getPrefString env (dec_string i @ ''Pattern'') mf_section ''.'' xp) 0))
      })"

definition new_MessageFilters :: "pref_reader \<Rightarrow> XMLPreferences \<Rightarrow> MessageFilters option" where
  "new_MessageFilters env xp = those (map (load_slot env xp) [0..<maxMessageFilters])"

definition store_slot :: "nat \<Rightarrow> string \<Rightarrow> string \<Rightarrow> u64 \<Rightarrow> XMLPreferences \<Rightarrow> XMLPreferences" where
  "store_slot i name pattern types xp =
     setPrefUInt64 (dec_string i @ ''Types'') mf_section types User
       (setPrefString (dec_string i @ ''Pattern'') mf_section pattern User
         (setPrefString (dec_string i @ ''Name'') mf_section name User xp))"

definition mf_addFilter :: "MessageFilter \<Rightarrow> MessageFilters \<times> XMLPreferences \<Rightarrow> u8 \<times> (MessageFilters \<times> XMLPreferences) \<times> mf_event list" where
  "mf_addFilter f = (\<lambda>(fs, xp).
     case find (\<lambda>i. fs ! i = None) [0..<maxMessageFilters] of
       Some i \<Rightarrow> (of_nat i, (fs[i := Some f], store_slot i (mf_name f) (mf_pattern f) (mf_types f) xp),
                  [MfAdded (push_bit i 1) (of_nat i) f])
     | None \<Rightarrow> (0xFF, (fs, xp), []))"

text \<open>The slot is not checked: \<open>None\<close> is an access outside the table.\<close>

definition mf_remFilter_at :: "u8 \<Rightarrow> MessageFilters \<times> XMLPreferences \<Rightarrow> (bool \<times> (MessageFilters \<times> XMLPreferences) \<times> mf_event list) option" where
  "mf_remFilter_at n = (\<lambda>(fs, xp).
     Option.bind (nth_opt fs (unat n)) (\<lambda>slot. case slot of
         None \<Rightarrow> Some (False, (fs, xp), [])
       | Some _ \<Rightarrow> Some (True, (fs[unat n := None], store_slot (unat n) [] [] 0 xp),
                     [MfRemoved (push_bit (unat n) 1) n])))"

definition mf_remFilter_by :: "(MessageFilter \<Rightarrow> bool) \<Rightarrow> MessageFilters \<times> XMLPreferences \<Rightarrow> (bool \<times> (MessageFilters \<times> XMLPreferences) \<times> mf_event list) option" where
  "mf_remFilter_by P st =
     (case find (\<lambda>i. case fst st ! i of None \<Rightarrow> False | Some f \<Rightarrow> P f) [0..<maxMessageFilters] of
        Some i \<Rightarrow> mf_remFilter_at (of_nat i) st
      | None \<Rightarrow> Some (False, st, []))"

definition mf_remFilter :: "MessageFilter \<Rightarrow> MessageFilters \<times> XMLPreferences \<Rightarrow> (bool \<times> (MessageFilters \<times> XMLPreferences) \<times> mf_event list) option" where
  "mf_remFilter f st = mf_remFilter_by (\<lambda>g. g = f) st"

definition mf_remFilter_name :: "string \<Rightarrow> MessageFilters \<times> XMLPreferences \<Rightarrow> (bool \<times> (MessageFilters \<times> XMLPreferences) \<times> mf_event list) option" where
  "mf_remFilter_name name st = mf_remFilter_by (\<lambda>g. mf_name g = name) st"

definition filterMessage :: "qt_match \<Rightarrow> u64 \<Rightarrow> string \<Rightarrow> MessageFilters \<Rightarrow> u32" where
  "filterMessage match messageTypeMask message fs =
     fold (\<lambda>i mask. case fs ! i of
         None \<Rightarrow> mask
       | Some f \<Rightarrow> if mf_isFiltered match messageTypeMask message f then mask OR push_bit i 1 else mask)
       [0..<maxMessageFilters] 0"

definition filterMessage_type :: "qt_match \<Rightarrow> nat \<Rightarrow> string \<Rightarrow> MessageFilters \<Rightarrow> u32" where
  "filterMessage_type match messageType message fs = filterMessage match (push_bit messageType 1) message fs"

text \<open>The operations of the class as one step.\<close>

datatype mf_op = MfAdd MessageFilter | MfRemove MessageFilter | MfRemoveAt u8 | MfRemoveName string

fun mf_step :: "mf_op \<Rightarrow> MessageFilters \<times> XMLPreferences \<Rightarrow> ((MessageFilters \<times> XMLPreferences) \<times> mf_event list) option" where
  "mf_step (MfAdd f) st = Some (snd (mf_addFilter f st))"
| "mf_step (MfRemove f) st = map_option snd (mf_remFilter f st)"
| "mf_step (MfRemoveAt i) st = map_option snd (mf_remFilter_at i st)"
| "mf_step (MfRemoveName n) st = map_option snd (mf_remFilter_name n st)"

end
