(* ===== verification/MessageFilterProps.thy ===== *)
theory MessageFilterProps
  imports MessageFilter XMLPrefsProps SlotTable Machine
begin

text \<open>
  The table of message filters and the preferences: every operation keeps the two in step, so that a new
  table is the one that was there (\<open>store_slot\<close> is read back by \<open>load_slot\<close>, over the contract of the preferences,
  \<open>user_prefs\<close>); filters take the lowest free slot (\<open>slot_table\<close>); the mask of a message.
\<close>

section \<open>Slots and preferences\<close>

lemma dec_string_inj: "dec_string i = dec_string j \<longleftrightarrow> i = j"
  by (metis digits_value_dec)

lemma slot_keys [simp]:
  "dec_string i @ ''Name'' = dec_string j @ ''Name'' \<longleftrightarrow> i = j"
  "dec_string i @ ''Pattern'' = dec_string j @ ''Pattern'' \<longleftrightarrow> i = j"
  "dec_string i @ ''Types'' = dec_string j @ ''Types'' \<longleftrightarrow> i = j"
  "dec_string i @ ''Name'' \<noteq> dec_string j @ ''Pattern''" "dec_string i @ ''Name'' \<noteq> dec_string j @ ''Types''"
  "dec_string i @ ''Pattern'' \<noteq> dec_string j @ ''Name''" "dec_string i @ ''Pattern'' \<noteq> dec_string j @ ''Types''"
  "dec_string i @ ''Types'' \<noteq> dec_string j @ ''Name''" "dec_string i @ ''Types'' \<noteq> dec_string j @ ''Pattern''"
  using arg_cong [where f = last, of "dec_string i @ ''Name''" "dec_string j @ ''Pattern''"]
    arg_cong [where f = last, of "dec_string i @ ''Name''" "dec_string j @ ''Types''"]
    arg_cong [where f = last, of "dec_string i @ ''Pattern''" "dec_string j @ ''Types''"]
    arg_cong [where f = last, of "dec_string i @ ''Pattern''" "dec_string j @ ''Name''"]
    arg_cong [where f = last, of "dec_string i @ ''Types''" "dec_string j @ ''Name''"]
    arg_cong [where f = last, of "dec_string i @ ''Types''" "dec_string j @ ''Pattern''"]
  by (simp_all add: dec_string_inj)

lemma pref_after_set:
  assumes "no_runtime xp"
  shows "no_runtime (setPref n' s' v User xp)"
    and "getPref n s AnyPref (setPref n' s' v User xp) = (if n = n' \<and> s = s' then Some v else getPref n s AnyPref xp)"
  using user_prefs.put_ok [OF assms, of "(n', s')" v] user_prefs.get_put [OF assms, of "(n, s)" "(n', s')" v]
  by (simp_all add: put_pref_def pref_def)

lemma typed_after_set:
  assumes "no_runtime xp"
  shows "isPreference n s AnyPref (setPref n' s' v User xp) \<longleftrightarrow> n = n' \<and> s = s' \<or> isPreference n s AnyPref xp"
    and "getPrefString env n s d (setPref n' s' v User xp) =
      (if n = n' \<and> s = s' then case v of VString t \<Rightarrow> t | _ \<Rightarrow> pr_string env v else getPrefString env n s d xp)"
    and "getPrefColor env n s c (setPref n' s' v User xp) =
      (if n = n' \<and> s = s' then case v of VColor t \<Rightarrow> t | _ \<Rightarrow> pr_color env v else getPrefColor env n s c xp)"
  by (auto simp: isPreference_def getPrefString_def getPrefColor_def getPref_as_def pref_after_set assms)

definition plain :: "MessageFilter \<Rightarrow> MessageFilter" where "plain f = f\<lparr>mf_options := 0\<rparr>"

lemma load_store_slot:
  assumes "no_runtime xp"
  shows "load_slot env (store_slot j n p t xp) i =
    (if i = j then Some (if n = [] then None else Some (new_MessageFilter n t p 0)) else load_slot env xp i)"
  by (cases "i = j") (simp_all add: load_slot_def store_slot_def getPrefString_def getPref_as_def getPrefUInt64_def uint64_of_def
      setPrefString_def setPrefUInt64_def pref_after_set assms Let_def dec_string_inj)

lemma store_slot_no_runtime: "no_runtime xp \<Longrightarrow> no_runtime (store_slot j n p t xp)"
  by (simp add: store_slot_def setPrefString_def setPrefUInt64_def pref_after_set)

definition in_step :: "pref_reader \<Rightarrow> MessageFilters \<times> XMLPreferences \<Rightarrow> bool" where
  "in_step env st \<longleftrightarrow> length (fst st) = maxMessageFilters \<and> no_runtime (snd st)
     \<and> (\<forall>i<maxMessageFilters. load_slot env (snd st) i = Some (map_option plain (fst st ! i)))"

fun mf_accepts :: "mf_op \<Rightarrow> bool" where
  "mf_accepts (MfAdd f) \<longleftrightarrow> mf_name f \<noteq> []"
| "mf_accepts (MfRemoveAt i) \<longleftrightarrow> unat i < maxMessageFilters"
| "mf_accepts _ \<longleftrightarrow> True"

lemma find_upt: "find P [0..<n] = Some i \<longleftrightarrow> i < n \<and> P i \<and> (\<forall>j<i. \<not> P j)"
  by (auto simp: find_Some_iff)

lemma in_step_store:
  assumes "in_step env (fs, xp)" "i < maxMessageFilters"
    "s = None \<and> n = [] \<or> (\<exists>f. s = Some f \<and> n \<noteq> [] \<and> plain f = new_MessageFilter n t p 0)"
  shows "in_step env (fs[i := s], store_slot i n p t xp)"
  using assms by (auto simp: in_step_def load_store_slot store_slot_no_runtime nth_list_update)

lemma remove_at_in_step:
  assumes "in_step env st" "unat i < maxMessageFilters"
  shows "\<exists>b st' es. mf_remFilter_at i st = Some (b, st', es) \<and> in_step env st'"
proof (cases st)
  case (Pair fs xp)
  then have l: "nth_opt fs (unat i) = Some (fs ! unat i)" using assms by (simp add: nth_opt_def in_step_def)
  have "in_step env (fs[unat i := None], store_slot (unat i) [] [] 0 xp)"
    using in_step_store [of env fs xp "unat i" None "[]" 0 "[]"] assms Pair by simp
  then show ?thesis using l assms Pair by (cases "fs ! unat i") (auto simp: mf_remFilter_at_def)
qed

lemma remove_by_in_step:
  assumes "in_step env st"
  shows "\<exists>b st' es. mf_remFilter_by P st = Some (b, st', es) \<and> in_step env st'"
proof (cases "find (\<lambda>i. case fst st ! i of None \<Rightarrow> False | Some f \<Rightarrow> P f) [0..<maxMessageFilters]")
  case (Some i)
  then have i: "i < maxMessageFilters" by (simp only: find_upt)
  then have "unat (of_nat i :: u8) = i" by (simp add: unat_of_nat maxMessageFilters_def)
  then show ?thesis using remove_at_in_step [OF assms, of "of_nat i"] i Some by (simp add: mf_remFilter_by_def)
qed (use assms in \<open>auto simp: mf_remFilter_by_def\<close>)

lemma add_in_step:
  assumes "in_step env st" "mf_name f \<noteq> []"
  shows "in_step env (fst (snd (mf_addFilter f st)))"
proof (cases st)
  case (Pair fs xp)
  show ?thesis
  proof (cases "find (\<lambda>i. fs ! i = None) [0..<maxMessageFilters]")
    case (Some i)
    then have "i < maxMessageFilters" by (simp only: find_upt)
    then have "in_step env (fs[i := Some f], store_slot i (mf_name f) (mf_pattern f) (mf_types f) xp)"
      using in_step_store [of env fs xp i "Some f" "mf_name f" "mf_types f" "mf_pattern f"] assms Pair
      by (simp add: plain_def new_MessageFilter_def)
    then show ?thesis using Pair Some by (simp add: mf_addFilter_def)
  qed (use assms Pair in \<open>simp add: mf_addFilter_def\<close>)
qed

interpretation filters: machine mf_step "in_step env" mf_accepts for env
proof unfold_locales
  fix st op assume "in_step env st" "mf_accepts op"
  then show "\<exists>st' es. mf_step op st = Some (st', es) \<and> in_step env st'"
    using add_in_step [of env st] remove_by_in_step [of env st] remove_at_in_step [of env st]
    by (cases op) (force simp: mf_remFilter_def mf_remFilter_name_def prod_eq_iff)+
qed

lemma those_map: "those (map f xs) = Some ys \<longleftrightarrow> length ys = length xs \<and> (\<forall>i<length xs. f (xs ! i) = Some (ys ! i))"
proof (induction xs arbitrary: ys)
  case (Cons x xs)
  show ?case by (cases ys; cases "f x") (auto simp: Cons.IH less_Suc_eq_0_disj)
qed auto

lemma new_filters_in_step:
  assumes "new_MessageFilters env xp = Some fs" "no_runtime xp"
  shows "in_step env (fs, xp)"
proof -
  have l: "length fs = maxMessageFilters" "\<forall>i<maxMessageFilters. load_slot env xp i = Some (fs ! i)"
    using assms(1) by (simp_all add: new_MessageFilters_def those_map)
  have "map_option plain s = s" if "load_slot env xp i = Some s" for i s
    using that by (auto simp: load_slot_def Let_def plain_def new_MessageFilter_def bind_Some_iff split: if_splits)
  then show ?thesis using l assms(2) by (auto simp: in_step_def)
qed

text \<open>C31: Whatever filters are added and removed, a table that is created from the preferences afterwards has the same filters
  in the same slots; only the options of their expressions are not kept. (Filters without a name are
  lost; a removal beyond the table is an access outside it.)\<close>

theorem message_filters_restart:
  assumes "new_MessageFilters env xp = Some fs" "no_runtime xp" "list_all mf_accepts ops"
  shows "\<exists>fs' xp' es. run mf_step ops (fs, xp) = Some ((fs', xp'), es)
    \<and> new_MessageFilters env xp' = Some (map (map_option plain) fs')"
proof -
  obtain fs' xp' es where r: "run mf_step ops (fs, xp) = Some ((fs', xp'), es)" "in_step env (fs', xp')"
    using filters.run_ok [OF new_filters_in_step [OF assms(1,2)] assms(3)] by auto
  then show ?thesis by (auto simp: new_MessageFilters_def those_map in_step_def)
qed

section \<open>Slots\<close>

definition mf_slot :: "MessageFilters \<times> XMLPreferences \<Rightarrow> nat \<Rightarrow> MessageFilter option" where
  "mf_slot st i = (if i < length (fst st) then fst st ! i else None)"

definition put_filter :: "MessageFilter \<Rightarrow> MessageFilters \<times> XMLPreferences \<Rightarrow> (nat \<times> (MessageFilters \<times> XMLPreferences)) option" where
  "put_filter f st = (let (n, st', es) = mf_addFilter f st in if n = 0xFF then None else Some (unat n, st'))"

lemma slot_byte: "i < maxMessageFilters \<Longrightarrow> (of_nat i :: u8) \<noteq> 0xFF \<and> unat (of_nat i :: u8) = i"
  by (simp add: maxMessageFilters_def word_unat_eq_iff unat_of_nat)

interpretation message_slots: slot_table mf_slot put_filter maxMessageFilters
  "\<lambda>st. length (fst st) = maxMessageFilters" "\<lambda>_. True"
proof unfold_locales
  fix st f n
  assume a: "length (fst st) = maxMessageFilters" "n < maxMessageFilters" "mf_slot st n = None" "\<forall>i<n. mf_slot st i \<noteq> None"
  then have "find (\<lambda>i. fst st ! i = None) [0..<maxMessageFilters] = Some n" by (auto simp: find_upt mf_slot_def)
  then show "\<exists>st'. put_filter f st = Some (n, st') \<and> length (fst st') = maxMessageFilters \<and> mf_slot st' = (mf_slot st)(n \<mapsto> f)"
    using a slot_byte [of n] by (auto simp: put_filter_def mf_addFilter_def mf_slot_def case_prod_unfold fun_eq_iff nth_list_update)
next
  fix st :: "MessageFilters \<times> XMLPreferences" and f
  assume "length (fst st) = maxMessageFilters" "\<forall>i<maxMessageFilters. mf_slot st i \<noteq> None"
  then have "find (\<lambda>i. fst st ! i = None) [0..<maxMessageFilters] = None" by (auto simp: find_None_iff mf_slot_def)
  then show "put_filter f st = None" by (simp add: put_filter_def mf_addFilter_def case_prod_unfold)
qed

section \<open>The mask of a message\<close>

lemma mask_bits:
  assumes "\<forall>i \<in> set is. i < 32"
  shows "bit (fold (\<lambda>i mask. case fs ! i of None \<Rightarrow> mask | Some f \<Rightarrow> if Q f then mask OR push_bit i 1 else mask) is (m :: u32)) k
    \<longleftrightarrow> bit m k \<or> k \<in> set is \<and> (\<exists>f. fs ! k = Some f \<and> Q f)"
  using assms
proof (induction "is" arbitrary: m)
  case (Cons i "is")
  have "bit (push_bit i (1 :: u32)) k \<longleftrightarrow> k = i" using Cons.prems by (auto simp: bit_simps)
  then show ?case using Cons by (cases "fs ! i") (auto simp: bit_simps)
qed simp

text \<open>The filters added to an empty table take the slots from 0 on, the next one is refused once there are 32, and then a
  message has exactly the bits of the filters whose types and expression it fits.\<close>

theorem message_mask_exact:
  assumes "mf_slot st = (\<lambda>_. None)" "length (fst st) = maxMessageFilters" "length vs \<le> maxMessageFilters"
  shows "\<exists>st'. put_all put_filter vs st = Some ([0..<length vs], st')
    \<and> (\<forall>k. bit (filterMessage match types message (fst st')) k \<longleftrightarrow> k < length vs \<and> mf_isFiltered match types message (vs ! k))
    \<and> (length vs = maxMessageFilters \<longrightarrow> (\<forall>f. fst (mf_addFilter f st') = 0xFF))"
proof -
  obtain st' where s: "put_all put_filter vs st = Some ([0..<length vs], st')" "length (fst st') = maxMessageFilters"
    "\<forall>i. mf_slot st' i = (if i < length vs then Some (vs ! i) else None)"
    using message_slots.fill [of st vs] assms by (auto simp: list_all_iff)
  have slot: "fst st' ! i = (if i < length vs then Some (vs ! i) else None)" if "i < maxMessageFilters" for i
    using s(2) s(3) [rule_format, of i] that by (simp add: mf_slot_def)
  have b: "bit (filterMessage match types message (fst st')) k \<longleftrightarrow> k < maxMessageFilters \<and> (\<exists>f. fst st' ! k = Some f \<and> mf_isFiltered match types message f)" for k
    unfolding filterMessage_def using mask_bits [of "[0..<maxMessageFilters]" _ "fst st'" 0 k] by (simp add: maxMessageFilters_def)
  have "bit (filterMessage match types message (fst st')) k \<longleftrightarrow> k < length vs \<and> mf_isFiltered match types message (vs ! k)" for k
    using b slot assms(3) by (cases "k < maxMessageFilters") auto
  moreover have "fst (mf_addFilter f st') = 0xFF" if "length vs = maxMessageFilters" for f
  proof -
    have "find (\<lambda>i. fst st' ! i = None) [0..<maxMessageFilters] = None" using slot that by (simp add: find_None_iff)
    then show ?thesis by (simp add: mf_addFilter_def case_prod_unfold)
  qed
  ultimately show ?thesis using s(1) by blast
qed

section \<open>Samples\<close>

definition sample_reader :: pref_reader where
  "sample_reader = \<lparr>pr_string = (\<lambda>_. []), pr_color = (\<lambda>_. no_color), pr_strtoull = (\<lambda>_. 0)\<rparr>"

definition empty_prefs :: XMLPreferences where
  "empty_prefs = \<lparr>m_defaultsFilename = ''d'', m_filename = ''u'', m_modified = 0, m_runtimeSections = Map.empty,
     m_userSections = Map.empty, m_defaultsSections = Map.empty, m_commentSections = (\<lambda>_. Map.empty)\<rparr>"

lemma empty_prefs_simps [simp]: "getPref n s pers empty_prefs = None" "no_runtime empty_prefs"
  by (simp_all add: getPref_def empty_prefs_def layer_value_def no_runtime_def)

lemma sample_filters: "new_MessageFilters sample_reader empty_prefs = Some (replicate 32 None)"
  by (simp add: new_MessageFilters_def those_map load_slot_def getPrefString_def getPref_as_def maxMessageFilters_def)

theorem message_filters_restart_witness:
  "\<exists>fs' xp' es. run mf_step [MfAdd (new_MessageFilter ''shout'' 2 ''hello'' 1), MfAdd (new_MessageFilter ''say'' 1 ''.'' 0), MfRemoveAt 0]
      (replicate 32 None, empty_prefs) = Some ((fs', xp'), es)
    \<and> new_MessageFilters sample_reader xp' = Some (map (map_option plain) fs')"
  by (rule message_filters_restart [OF sample_filters]) (simp_all add: new_MessageFilter_def maxMessageFilters_def)

theorem message_mask_exact_witness:
  "\<exists>st'. put_all put_filter [new_MessageFilter ''shout'' 2 ''hello'' 1, new_MessageFilter ''say'' 1 ''.'' 0] (replicate 32 None, empty_prefs)
      = Some ([0, 1], st') \<and> bit (filterMessage (\<lambda>p opts t. True) 1 ''hello'' (fst st')) 1 \<and> \<not> bit (filterMessage (\<lambda>p opts t. True) 1 ''hello'' (fst st')) 0"
  using message_mask_exact [where match = "\<lambda>p opts t. True" and types = 1 and message = "''hello''" and vs = "[new_MessageFilter ''shout'' 2 ''hello'' 1, new_MessageFilter ''say'' 1 ''.'' 0]" and st = "(replicate 32 None, empty_prefs)"]
  by (force simp: mf_slot_def maxMessageFilters_def fun_eq_iff mf_isFiltered_def new_MessageFilter_def upt_rec simp del: put_all.simps)

end
