(* ===== verification/Category.thy ===== *)
theory Category
  imports Filters MessageFilter
begin

text \<open>
  \<open>src/src/category.h\<close> and \<open>src/src/category.cpp\<close>: named pairs of filters (one that selects, one that takes out again) with a
  colour. The manager hands out pointers to its categories, so each is kept with its address. The
  categories are loaded from the preferences and saved to them.
\<close>

section \<open>A category\<close>

record Category =
  cat_name :: string
  cat_filter :: string
  cat_filterout :: string
  cat_color :: SeqColor
  cat_item :: FilterItem
  cat_out :: "FilterItem option"
  cat_filteredFilter :: bool

text \<open>The flags of POSIX expressions, passed for the parameter \<open>caseSensitive\<close>.\<close>

definition REG_EXTENDED :: nat where "REG_EXTENDED = 1"
definition REG_ICASE :: nat where "REG_ICASE = 2"

fun contains_filtered :: "string \<Rightarrow> bool" where
  "contains_filtered [] = False"
| "contains_filtered (c # cs) \<longleftrightarrow> map lower_char (take 10 (c # cs)) = '':filtered:'' \<or> contains_filtered cs"

definition new_Category :: "toInt \<Rightarrow> string \<Rightarrow> string \<Rightarrow> string \<Rightarrow> SeqColor \<Rightarrow> Category" where
  "new_Category toInt name filt filterout color =
     (let cFlags = or REG_EXTENDED REG_ICASE in
      \<lparr>cat_name = name, cat_filter = filt, cat_filterout = filterout, cat_color = color,
       cat_item = new_FilterItem toInt filt (cFlags \<noteq> 0),
       cat_out = (if filterout = [] then None else Some (new_FilterItem toInt filterout (cFlags \<noteq> 0))),
       cat_filteredFilter = contains_filtered filt\<rparr>)"

definition cat_isFiltered :: "re_engine \<Rightarrow> Category \<Rightarrow> string \<Rightarrow> u32 \<Rightarrow> bool" where
  "cat_isFiltered re c filterString level \<longleftrightarrow>
     item_isFiltered re (cat_item c) filterString (ucast level)
     \<and> (case cat_out c of None \<Rightarrow> True | Some out \<Rightarrow> \<not> item_isFiltered re out filterString (ucast level))"

section \<open>The manager\<close>

definition tMaxNumCategories :: nat where "tMaxNumCategories = 32"

record CategoryMgr =
  cm_categories :: "(nat \<times> Category) list"
  cm_changed :: bool
  cm_next :: nat

datatype cat_event = CatAdded nat | CatDeleted nat | CatsCleared | CatsLoaded

definition findCategories :: "re_engine \<Rightarrow> string \<Rightarrow> u32 \<Rightarrow> CategoryMgr \<Rightarrow> nat list" where
  "findCategories re filterString level cm =
     map fst (filter (\<lambda>(a, c). cat_isFiltered re c filterString level) (cm_categories cm))"

definition addCategory :: "toInt \<Rightarrow> string \<Rightarrow> string \<Rightarrow> string \<Rightarrow> SeqColor \<Rightarrow> CategoryMgr \<Rightarrow> nat option \<times> CategoryMgr \<times> cat_event list" where
  "addCategory toInt name filt filterout color cm =
     (let cm1 = cm\<lparr>cm_changed := True\<rparr>; a = cm_next cm in
      if name \<noteq> [] \<and> filt \<noteq> []
      then (Some a, cm1\<lparr>cm_categories := cm_categories cm @ [(a, new_Category toInt name filt filterout color)], cm_next := a + 1\<rparr>, [CatAdded a])
      else (None, cm1, []))"

definition remCategory :: "nat option \<Rightarrow> CategoryMgr \<Rightarrow> CategoryMgr \<times> cat_event list" where
  "remCategory cat cm =
     (let cm1 = cm\<lparr>cm_changed := True\<rparr> in case cat of
        None \<Rightarrow> (cm1, [])
      | Some a \<Rightarrow> (cm1\<lparr>cm_categories := filter (\<lambda>(b, c). b \<noteq> a) (cm_categories cm)\<rparr>, [CatDeleted a]))"

definition clearCategories :: "CategoryMgr \<Rightarrow> CategoryMgr \<times> cat_event list" where
  "clearCategories cm = (cm\<lparr>cm_categories := [], cm_changed := True\<rparr>, [CatsCleared])"

definition cat_section :: string where "cat_section = ''CategoryMgr''"

definition cat_key :: "nat \<Rightarrow> string \<Rightarrow> string" where
  "cat_key i suffix = (''Category'' @ dec_string i @ ''_'') @ suffix"

definition load_category :: "pref_reader \<Rightarrow> toInt \<Rightarrow> XMLPreferences \<Rightarrow> nat \<Rightarrow> Category option" where
  "load_category env toInt xp i =
     (if isPreference (cat_key i ''Name'') cat_section AnyPref xp then
        (let name = getPrefString env (cat_key i ''Name'') cat_section [] xp;
             filt = getPrefString env (cat_key i ''Filter'') cat_section [] xp;
             color = getPrefColor env (cat_key i ''Color'') cat_section (seq_color_of (\<lambda>_. None) ''black'') xp;
             filterout = (if isPreference (cat_key i ''FilterOut'') cat_section AnyPref xp
                          then getPrefString env (cat_key i ''FilterOut'') cat_section [] xp else [])
         in if name \<noteq> [] \<and> filt \<noteq> [] then Some (new_Category toInt name filt filterout color) else None)
      else None)"

definition load_categories :: "pref_reader \<Rightarrow> toInt \<Rightarrow> XMLPreferences \<Rightarrow> Category list" where
  "load_categories env toInt xp = List.map_filter (load_category env toInt xp) [1..<Suc tMaxNumCategories]"

definition reloadCategories :: "pref_reader \<Rightarrow> toInt \<Rightarrow> XMLPreferences \<Rightarrow> CategoryMgr \<Rightarrow> CategoryMgr \<times> cat_event list" where
  "reloadCategories env toInt xp cm =
     (let (cm1, es) = clearCategories cm; cs = load_categories env toInt xp in
      (cm1\<lparr>cm_categories := zip [cm_next cm..<cm_next cm + length cs] cs, cm_changed := False, cm_next := cm_next cm + length cs\<rparr>,
       es @ [CatsLoaded]))"

definition new_CategoryMgr :: "pref_reader \<Rightarrow> toInt \<Rightarrow> XMLPreferences \<Rightarrow> CategoryMgr" where
  "new_CategoryMgr env toInt xp = fst (reloadCategories env toInt xp \<lparr>cm_categories = [], cm_changed = False, cm_next = 0\<rparr>)"

definition store_category :: "nat \<Rightarrow> string \<Rightarrow> string \<Rightarrow> string \<Rightarrow> SeqColor \<Rightarrow> XMLPreferences \<Rightarrow> XMLPreferences" where
  "store_category i name filt filterout color xp =
     setPrefColor (cat_key i ''Color'') cat_section color User
       (setPrefString (cat_key i ''FilterOut'') cat_section filterout User
         (setPrefString (cat_key i ''Filter'') cat_section filt User
           (setPrefString (cat_key i ''Name'') cat_section name User xp)))"

fun save_categories :: "nat \<Rightarrow> Category list \<Rightarrow> XMLPreferences \<Rightarrow> nat \<times> XMLPreferences" where
  "save_categories count [] xp = (count, xp)"
| "save_categories count (c # cs) xp =
     save_categories (count + 1) cs (store_category count (cat_name c) (cat_filter c) (cat_filterout c) (cat_color c) xp)"

definition savePrefs :: "CategoryMgr \<Rightarrow> XMLPreferences \<Rightarrow> XMLPreferences" where
  "savePrefs cm xp =
     (if \<not> cm_changed cm then xp
      else let (count, xp1) = save_categories 1 (map snd (cm_categories cm)) xp in
           fold (\<lambda>i. store_category i [] [] [] (seq_color_of (\<lambda>_. None) ''black'')) [count..<Suc tMaxNumCategories] xp1)"

text \<open>The operations of the class as one step, together with the preferences.\<close>

datatype cat_op = CatAdd string string string SeqColor | CatRemove "nat option" | CatClear | CatReload | CatSave

fun cat_step :: "pref_reader \<Rightarrow> toInt \<Rightarrow> cat_op \<Rightarrow> CategoryMgr \<times> XMLPreferences \<Rightarrow> ((CategoryMgr \<times> XMLPreferences) \<times> cat_event list) option" where
  "cat_step env toInt (CatAdd n f x c) (cm, xp) = (let (a, cm1, es) = addCategory toInt n f x c cm in Some ((cm1, xp), es))"
| "cat_step env toInt (CatRemove a) (cm, xp) = (let (cm1, es) = remCategory a cm in Some ((cm1, xp), es))"
| "cat_step env toInt CatClear (cm, xp) = (let (cm1, es) = clearCategories cm in Some ((cm1, xp), es))"
| "cat_step env toInt CatReload (cm, xp) = (let (cm1, es) = reloadCategories env toInt xp cm in Some ((cm1, xp), es))"
| "cat_step env toInt CatSave (cm, xp) = Some ((cm, savePrefs cm xp), [])"

end
