(* ===== verification/CategoryProps.thy ===== *)
theory CategoryProps
  imports Category MessageFilterProps
begin

text \<open>
  The categories and the preferences: every operation keeps the categories well formed and, as long as nothing was changed, equal to
  what the preferences hold (\<open>categories\<close>, an instance of \<open>machine\<close>); what is saved is loaded again, up to the
  limit of 32; and the flag for the case of letters that \<open>new_Category\<close> passes is the opposite of its name.
\<close>

section \<open>Keys\<close>

lemma cat_key_eq:
  assumes "CHR ''_'' \<notin> set s" "CHR ''_'' \<notin> set t"
  shows "cat_key i s = cat_key j t \<longleftrightarrow> i = j \<and> s = t"
proof
  assume e: "cat_key i s = cat_key j t"
  have l: "after_last (CHR ''_'') (cat_key k u) = u" if "CHR ''_'' \<notin> set u" for k u
  proof -
    have "takeWhile (\<lambda>d. d \<noteq> CHR ''_'') (rev u @ rev (''Category'' @ dec_string k @ ''_'')) = rev u"
      using that by (subst takeWhile_append2) auto
    then show ?thesis by (simp add: after_last_def cat_key_def)
  qed
  have "s = t" using l [OF assms(1), of i] l [OF assms(2), of j] e by simp
  then show "i = j \<and> s = t" using e by (simp add: cat_key_def dec_string_inj)
qed simp

lemma cat_keys [simp]:
  "cat_key i ''Name'' = cat_key j ''Name'' \<longleftrightarrow> i = j" "cat_key i ''Filter'' = cat_key j ''Filter'' \<longleftrightarrow> i = j"
  "cat_key i ''FilterOut'' = cat_key j ''FilterOut'' \<longleftrightarrow> i = j" "cat_key i ''Color'' = cat_key j ''Color'' \<longleftrightarrow> i = j"
  "cat_key i ''Name'' \<noteq> cat_key j ''Filter''" "cat_key i ''Name'' \<noteq> cat_key j ''FilterOut''" "cat_key i ''Name'' \<noteq> cat_key j ''Color''"
  "cat_key i ''Filter'' \<noteq> cat_key j ''Name''" "cat_key i ''Filter'' \<noteq> cat_key j ''FilterOut''" "cat_key i ''Filter'' \<noteq> cat_key j ''Color''"
  "cat_key i ''FilterOut'' \<noteq> cat_key j ''Name''" "cat_key i ''FilterOut'' \<noteq> cat_key j ''Filter''" "cat_key i ''FilterOut'' \<noteq> cat_key j ''Color''"
  "cat_key i ''Color'' \<noteq> cat_key j ''Name''" "cat_key i ''Color'' \<noteq> cat_key j ''Filter''" "cat_key i ''Color'' \<noteq> cat_key j ''FilterOut''"
  by (simp_all add: cat_key_eq)

section \<open>Saving and loading\<close>

definition wf_category :: "toInt \<Rightarrow> Category \<Rightarrow> bool" where
  "wf_category toInt c \<longleftrightarrow> cat_name c \<noteq> [] \<and> cat_filter c \<noteq> []
     \<and> c = new_Category toInt (cat_name c) (cat_filter c) (cat_filterout c) (cat_color c)"

lemma wf_new: "n \<noteq> [] \<Longrightarrow> f \<noteq> [] \<Longrightarrow> wf_category toInt (new_Category toInt n f x c)"
  by (simp add: wf_category_def new_Category_def Let_def)

lemma load_store_category:
  assumes "no_runtime xp"
  shows "load_category env toInt (store_category j n f x c xp) i =
    (if i = j then if n \<noteq> [] \<and> f \<noteq> [] then Some (new_Category toInt n f x c) else None else load_category env toInt xp i)"
  by (cases "i = j") (simp_all add: load_category_def store_category_def typed_after_set setPrefString_def setPrefColor_def pref_after_set Let_def assms)

lemma store_category_no_runtime: "no_runtime xp \<Longrightarrow> no_runtime (store_category j n f x c xp)"
  by (simp add: store_category_def setPrefString_def setPrefColor_def pref_after_set)

lemma save_categories_load:
  assumes "no_runtime xp" "list_all (wf_category toInt) cs"
  shows "\<exists>xp'. save_categories k cs xp = (k + length cs, xp') \<and> no_runtime xp'
    \<and> (\<forall>i. load_category env toInt xp' i = (if k \<le> i \<and> i < k + length cs then Some (cs ! (i - k)) else load_category env toInt xp i))"
  using assms
proof (induction cs arbitrary: k xp)
  case (Cons c cs)
  let ?xp = "store_category k (cat_name c) (cat_filter c) (cat_filterout c) (cat_color c) xp"
  obtain xp' where x: "save_categories (Suc k) cs ?xp = (Suc k + length cs, xp')" "no_runtime xp'"
    "\<forall>i. load_category env toInt xp' i = (if Suc k \<le> i \<and> i < Suc k + length cs then Some (cs ! (i - Suc k)) else load_category env toInt ?xp i)"
    using Cons.IH [of ?xp "Suc k"] Cons.prems store_category_no_runtime by auto
  have "cat_name c \<noteq> []" "cat_filter c \<noteq> []" "new_Category toInt (cat_name c) (cat_filter c) (cat_filterout c) (cat_color c) = c"
    using Cons.prems(2) by (simp_all add: wf_category_def)
  then have "load_category env toInt ?xp i = (if i = k then Some c else load_category env toInt xp i)" for i
    using load_store_category [OF Cons.prems(1)] by simp
  then have "load_category env toInt xp' i = (if k \<le> i \<and> i < k + length (c # cs) then Some ((c # cs) ! (i - k)) else load_category env toInt xp i)" for i
    using x(3) by (cases "i = k") (auto simp: nth_Cons' Suc_diff_le)
  then show ?case using x by simp
qed auto

lemma clear_rest_load:
  assumes "no_runtime xp"
  shows "no_runtime (fold (\<lambda>i. store_category i [] [] [] black) is xp)"
    and "load_category env toInt (fold (\<lambda>i. store_category i [] [] [] black) is xp) i = (if i \<in> set is then None else load_category env toInt xp i)"
  using assms by (induction "is" arbitrary: xp) (auto simp: load_store_category store_category_no_runtime)

lemma map_filter_upt:
  "(\<And>i. a \<le> i \<Longrightarrow> i < a + length xs \<Longrightarrow> f i = Some (xs ! (i - a))) \<Longrightarrow> List.map_filter f [a..<a + length xs] = xs"
proof (induction xs arbitrary: a)
  case (Cons x xs)
  have "List.map_filter f [Suc a..<Suc a + length xs] = xs" using Cons.prems by (intro Cons.IH) (auto simp: Suc_diff_le)
  moreover have "[a..<a + length (x # xs)] = a # [Suc a..<Suc a + length xs]" by (simp add: upt_rec)
  moreover have "f a = Some x" using Cons.prems [of a] by simp
  ultimately show ?case by (simp add: List.map_filter_simps)
qed (simp add: List.map_filter_simps)

lemma map_filter_none: "(\<And>i. i \<in> set is \<Longrightarrow> f i = None) \<Longrightarrow> List.map_filter f is = []"
  by (induction "is") (simp_all add: List.map_filter_simps)

lemma map_filter_append: "List.map_filter f (xs @ ys) = List.map_filter f xs @ List.map_filter f ys"
  by (simp add: List.map_filter_def)

lemma load_saved:
  assumes "no_runtime xp" "list_all (wf_category toInt) (map snd (cm_categories cm))" "cm_changed cm"
  shows "no_runtime (savePrefs cm xp)"
    and "load_categories env toInt (savePrefs cm xp) = take tMaxNumCategories (map snd (cm_categories cm))"
proof -
  define cs where "cs = map snd (cm_categories cm)"
  obtain xp1 where x1: "save_categories 1 cs xp = (1 + length cs, xp1)" "no_runtime xp1"
    "\<forall>i. load_category env toInt xp1 i = (if 1 \<le> i \<and> i < 1 + length cs then Some (cs ! (i - 1)) else load_category env toInt xp i)"
    using save_categories_load [OF assms(1), of toInt cs 1 env] assms(2) unfolding cs_def by blast
  define xp2 where "xp2 = fold (\<lambda>i. store_category i [] [] [] (seq_color_of (\<lambda>_. None) ''black'')) [1 + length cs..<Suc tMaxNumCategories] xp1"
  have s: "savePrefs cm xp = xp2" using assms(3) x1(1) by (simp add: savePrefs_def cs_def [symmetric] xp2_def)
  show "no_runtime (savePrefs cm xp)" using clear_rest_load(1) [OF x1(2)] s by (simp add: xp2_def)
  have l: "load_category env toInt xp2 i = (if i < 1 + length cs then Some (cs ! (i - 1)) else None)" if "1 \<le> i" "i < Suc tMaxNumCategories" for i
    unfolding xp2_def using clear_rest_load(2) [OF x1(2)] x1(3) that by simp
  have "load_categories env toInt xp2 = take tMaxNumCategories cs"
  proof (cases "length cs \<le> tMaxNumCategories")
    case True
    then have u: "[1..<Suc tMaxNumCategories] = [1..<1 + length cs] @ [1 + length cs..<Suc tMaxNumCategories]"
      using upt_add_eq_append [of 1 "1 + length cs" "tMaxNumCategories - length cs"] by simp
    have "List.map_filter (load_category env toInt xp2) [1..<1 + length cs] = cs"
      using l True by (intro map_filter_upt) simp
    moreover have "List.map_filter (load_category env toInt xp2) [1 + length cs..<Suc tMaxNumCategories] = []"
      using l by (intro map_filter_none) auto
    ultimately show ?thesis using True unfolding load_categories_def u map_filter_append by simp
  next
    case False
    then have k: "length (take tMaxNumCategories cs) = tMaxNumCategories" by simp
    have "List.map_filter (load_category env toInt xp2) [1..<1 + length (take tMaxNumCategories cs)] = take tMaxNumCategories cs"
      using l False by (intro map_filter_upt) simp
    then show ?thesis unfolding load_categories_def k by simp
  qed
  then show "load_categories env toInt (savePrefs cm xp) = take tMaxNumCategories (map snd (cm_categories cm))"
    using s by (simp add: cs_def)
qed

section \<open>Runs\<close>

definition cat_ok :: "pref_reader \<Rightarrow> toInt \<Rightarrow> CategoryMgr \<times> XMLPreferences \<Rightarrow> bool" where
  "cat_ok env toInt st \<longleftrightarrow> no_runtime (snd st) \<and> list_all (wf_category toInt) (map snd (cm_categories (fst st)))
     \<and> (\<not> cm_changed (fst st) \<longrightarrow> map snd (cm_categories (fst st)) = load_categories env toInt (snd st))"

lemma load_wf: "list_all (wf_category toInt) (load_categories env toInt xp)"
  by (auto simp: load_categories_def List.map_filter_def list_all_iff load_category_def Let_def intro: wf_new split: if_splits)

lemma reload_categories:
  "map snd (cm_categories (fst (reloadCategories env toInt xp cm))) = load_categories env toInt xp"
  "\<not> cm_changed (fst (reloadCategories env toInt xp cm))"
  by (simp_all add: reloadCategories_def clearCategories_def Let_def)

lemma reload_ok: "no_runtime xp \<Longrightarrow> cat_ok env toInt (fst (reloadCategories env toInt xp cm), xp)"
  by (simp add: cat_ok_def reload_categories load_wf)

interpretation categories: machine "cat_step env toInt" "cat_ok env toInt" "\<lambda>_. True" for env toInt
proof unfold_locales
  fix st op
  assume ok: "cat_ok env toInt st"
  obtain cm xp where st: "st = (cm, xp)" by (cases st)
  show "\<exists>st' es. cat_step env toInt op st = Some (st', es) \<and> cat_ok env toInt st'"
  proof (cases op)
    case (CatRemove a)
    then show ?thesis using ok st by (cases a) (auto simp: remCategory_def cat_ok_def list_all_iff)
  next
    case CatReload
    then show ?thesis using ok st reload_ok [of xp env toInt cm] by (simp add: cat_ok_def case_prod_unfold Let_def)
  next
    case CatSave
    have "cat_ok env toInt (cm, savePrefs cm xp)"
      using ok st load_saved(1) [of xp toInt cm] by (cases "cm_changed cm") (auto simp: cat_ok_def savePrefs_def)
    then show ?thesis using CatSave st by simp
  qed (use ok st in \<open>auto simp: addCategory_def clearCategories_def cat_ok_def Let_def intro: wf_new\<close>)
qed

text \<open>C32: Whatever is done with the categories, after they were saved a new manager has the same ones in the same order; from the 33rd on
  they are lost.\<close>

theorem categories_restart:
  assumes "no_runtime xp"
  shows "\<exists>cm xp' es. run (cat_step env toInt) ops (new_CategoryMgr env toInt xp, xp) = Some ((cm, xp'), es)
    \<and> map snd (cm_categories (new_CategoryMgr env toInt (savePrefs cm xp'))) = take tMaxNumCategories (map snd (cm_categories cm))"
proof -
  obtain cm xp' es where r: "run (cat_step env toInt) ops (new_CategoryMgr env toInt xp, xp) = Some ((cm, xp'), es)" "cat_ok env toInt (cm, xp')"
    using categories.run_ok [of env toInt "(new_CategoryMgr env toInt xp, xp)" ops] reload_ok [OF assms] unfolding new_CategoryMgr_def list_all_iff by force
  have n: "map snd (cm_categories (new_CategoryMgr env toInt xp2)) = load_categories env toInt xp2" for xp2
    by (simp add: new_CategoryMgr_def reload_categories)
  have "load_categories env toInt (savePrefs cm xp') = take tMaxNumCategories (map snd (cm_categories cm))"
  proof (cases "cm_changed cm")
    case False
    have "length (load_categories env toInt xp') \<le> tMaxNumCategories"
      unfolding load_categories_def List.map_filter_def using length_filter_le [of _ "[1..<Suc tMaxNumCategories]"] by (simp del: upt_Suc)
    then show ?thesis using r(2) False by (simp add: cat_ok_def savePrefs_def)
  qed (use r(2) load_saved(2) in \<open>simp add: cat_ok_def\<close>)
  then show ?thesis using r(1) n by auto
qed

section \<open>The case of letters\<close>

text \<open>A category selects a spawn only if its expression matches with the case of the letters, although it is created with the flag to
  ignore the case: the parameter means the opposite.\<close>

theorem categories_respect_case:
  assumes "cat_isFiltered re (new_Category toInt name filt filterout color) filterString level"
  shows "re_find re False (fi_pattern (new_FilterItem toInt filt True)) filterString"
proof -
  have "\<not> fi_caseInsensitive (new_FilterItem toInt filt True)"
    by (auto simp: new_FilterItem_def item_init_def Let_def split: option.split prod.split)
  then show ?thesis using assms
    by (auto simp: cat_isFiltered_def new_Category_def item_isFiltered_def REG_EXTENDED_def REG_ICASE_def Let_def split: if_splits)
qed

section \<open>Samples\<close>

definition sample_matcher :: re_engine where
  "sample_matcher = \<lparr>re_valid = (\<lambda>_. True), re_find = (\<lambda>ci p s. if ci then map lower_char p = map lower_char s else p = s)\<rparr>"

theorem categories_restart_witness:
  "\<exists>cm xp' es. run (cat_step sample_reader (\<lambda>_. None)) [CatAdd ''Orcs'' ''orc'' [] (rgb 1 2 3), CatAdd ''Rats'' ''rat'' ''king'' (rgb 0 0 0), CatRemove (Some 0), CatSave]
      (new_CategoryMgr sample_reader (\<lambda>_. None) empty_prefs, empty_prefs) = Some ((cm, xp'), es)
    \<and> map snd (cm_categories (new_CategoryMgr sample_reader (\<lambda>_. None) (savePrefs cm xp'))) = take tMaxNumCategories (map snd (cm_categories cm))"
  by (rule categories_restart) simp

theorem categories_respect_case_witness:
  "re_find sample_matcher False (fi_pattern (new_FilterItem (\<lambda>_. None) ''orc'' True)) ''orc''
    \<and> \<not> cat_isFiltered sample_matcher (new_Category (\<lambda>_. None) ''Orcs'' ''orc'' [] no_color) ''Orc'' 5"
proof
  show "re_find sample_matcher False (fi_pattern (new_FilterItem (\<lambda>_. None) ''orc'' True)) ''orc''"
    by (rule categories_respect_case [of sample_matcher "\<lambda>_. None" "''Orcs''" "''orc''" "[]" no_color "''orc''" 5]) code_simp
  show "\<not> cat_isFiltered sample_matcher (new_Category (\<lambda>_. None) ''Orcs'' ''orc'' [] no_color) ''Orc'' 5" by code_simp
qed

end
