(* ===== verification/Zones.thy ===== *)
theory Zones
  imports Main
begin

text \<open>
  \<open>src/src/zones.h\<close>: the names of the zones by their number, short and long; \<open>None\<close> is a pair of null pointers. The table of \<open>src/src/zonemgr.cpp\<close>
  is given in seven parts.
\<close>

definition zoneNames0 :: "(string \<times> string) option list" where
  "zoneNames0 =
   [None, Some (''qeynos'', ''South Qeynos''), Some (''qeynos2'', ''North Qeynos''), Some (''qrg'', ''Surefall Glade''),
     Some (''qeytoqrg'', ''Qeynos Hills''), None, Some (''highkeep'', ''High Keep''), None, Some (''freportn'', ''North Freeport''),
     Some (''freportw'', ''West Freeport''), Some (''freporte'', ''East Freeport''),
     Some (''runnyeye'', ''The Liberated Citadel of Runnyeye''), Some (''qey2hh1'', ''The Western Plains of Karana''),
     Some (''northkarana'', ''The Northern Plains of Karana''), Some (''southkarana'', ''The Southern Plains of Karana''),
     Some (''eastkarana'', ''The Eastern Plains of Karana''), Some (''beholder'', ''The Gorge of King Xorbb''),
     Some (''blackburrow'', ''Blackburrow''), Some (''paw'', ''The Lair of the Splitpaw''), Some (''rivervale'', ''Rivervale''),
     Some (''kithicor'', ''Kithicor Forest''), Some (''commons'', ''West Commonlands''), Some (''ecommons'', ''East Commonlands''),
     Some (''erudnint'', ''Erudin Palace''), Some (''erudnext'', ''Erudin''), Some (''nektulos'', ''Nektulos Forest''),
     Some (''cshome'', ''Sunset Home''), Some (''lavastorm'', ''The Lavastorm Mountains''), Some (''nektropos'', ''nektropos''),
     Some (''halas'', ''Halas''), Some (''everfrost'', ''Everfrost Peaks''), Some (''soldunga'', ''Solusek's Eye''),
     Some (''soldungb'', ''Nagafen's Lair''), Some (''misty'', ''Misty Thicket''), Some (''nro'', ''The Northern Desert of Ro''),
     Some (''sro'', ''The Southern Desert of Ro''), Some (''befallen'', ''Befallen''), Some (''oasis'', ''The Oasis of Marr''),
     Some (''tox'', ''Toxxulia Forest''), Some (''hole'', ''The Ruins of Old Paineel''), Some (''neriaka'', ''Neriak - Foreign Quarter''),
     Some (''neriakb'', ''Neriak - Commons''), Some (''neriakc'', ''Neriak - Third Gate''), Some (''neriakd'', ''Neriak - Fourth Gate''),
     Some (''najena'', ''Najena''), Some (''qcat'', ''The Qeynos Aqueduct System''), Some (''innothule'', ''Innothule Swamp''),
     Some (''feerrott'', ''The Feerrott''), Some (''cazicthule'', ''Temple of Cazic-Thule''), Some (''oggok'', ''Oggok''),
     Some (''rathemtn'', ''The Rathe Mountains''), Some (''lakerathe'', ''Lake Rathetear''), Some (''grobb'', ''Grobb''),
     Some (''aviak'', ''Aviak''), Some (''gfaydark'', ''The Greater Faydark''), Some (''akanon'', ''Ak'Anon''),
     Some (''steamfont'', ''The Steamfont Mountains''), Some (''lfaydark'', ''The Lesser Faydark''),
     Some (''crushbone'', ''Clan Crushbone''), Some (''mistmoore'', ''The Castle of Mistmoore''), Some (''kaladima'', ''South Kaladim''),
     Some (''felwithea'', ''Northern Felwithe''), Some (''felwitheb'', ''Southern Felwithe''), Some (''unrest'', ''The Estate of Unrest''),
     Some (''kedge'', ''Kedge Keep''), Some (''guktop'', ''The City of Guk''), Some (''gukbottom'', ''The Ruins of Old Guk''),
     Some (''kaladimb'', ''North Kaladim''), Some (''butcher'', ''Butcherblock Mountains''), Some (''oot'', ''The Ocean of Tears''),
     Some (''cauldron'', ''Dagnor's Cauldron''), Some (''airplane'', ''The Plane of Sky''), Some (''fearplane'', ''The Plane of Fear''),
     Some (''permafrost'', ''Permafrost Keep''), Some (''kerraridge'', ''Kerra Isle''), Some (''paineel'', ''Paineel''),
     Some (''hateplane'', ''The Plane of Hate''), Some (''arena'', ''The Arena''), Some (''fieldofbone'', ''The Field of Bone''),
     Some (''warslikswood'', ''The Warsliks Woods''), Some (''soltemple'', ''The Temple of Solusek Ro''),
     Some (''droga'', ''The Temple of Droga''), Some (''cabwest'', ''Cabilis West''), Some (''swampofnohope'', ''The Swamp of No Hope''),
     Some (''firiona'', ''Firiona Vie''), Some (''lakeofillomen'', ''Lake of Ill Omen''), Some (''dreadlands'', ''The Dreadlands''),
     Some (''burningwood'', ''The Burning Woods''), Some (''kaesora'', ''Kaesora''), Some (''sebilis'', ''The Ruins of Sebilis''),
     Some (''citymist'', ''The City of Mist''), Some (''skyfire'', ''The Skyfire Mountains''),
     Some (''frontiermtns'', ''Frontier Mountains''), Some (''overthere'', ''The Overthere''),
     Some (''emeraldjungle'', ''The Emerald Jungle''), Some (''trakanon'', ''Trakanon's Teeth''), Some (''timorous'', ''Timorous Deep''),
     Some (''kurn'', ''Kurn's Tower''), Some (''erudsxing'', ''Erud's Crossing''), None,
     Some (''stonebrunt'', ''The Stonebrunt Mountains''), Some (''warrens'', ''The Warrens''), Some (''karnor'', ''Karnor's Castle''),
     Some (''chardok'', ''Chardok''), Some (''dalnir'', ''The Crypt of Dalnir''), Some (''charasis'', ''Howling Stones''),
     Some (''cabeast'', ''Cabilis East''), Some (''nurga'', ''The Mines of Nurga''), Some (''veeshan'', ''Veeshan's Peak''),
     Some (''veksar'', ''Veksar''), Some (''iceclad'', ''The Iceclad Ocean''), Some (''frozenshadow'', ''The Tower of Frozen Shadow''),
     Some (''velketor'', ''Velketor's Labyrinth''), Some (''kael'', ''Kael Drakkel''), Some (''skyshrine'', ''Skyshrine''),
     Some (''thurgadina'', ''The City of Thurgadin''), Some (''eastwastes'', ''Eastern Wastes''), Some (''cobaltscar'', ''Cobalt Scar''),
     Some (''greatdivide'', ''The Great Divide''), Some (''wakening'', ''The Wakening Land''),
     Some (''westwastes'', ''The Western Wastes''), Some (''crystal'', ''Crystal Caverns''), None,
     Some (''necropolis'', ''Dragon Necropolis''), Some (''templeveeshan'', ''The Temple of Veeshan''),
     Some (''sirens'', ''Siren's Grotto''), Some (''mischiefplane'', ''The Plane of Mischief''),
     Some (''growthplane'', ''The Plane of Growth''), Some (''sleeper'', ''The Sleeper's Tomb''), Some (''thurgadinb'', ''Icewell Keep''),
     Some (''erudsxing2'', ''erudsxing2''), None, None, None, None, None, None, None, None, None, None, None, None]"

definition zoneNames1 :: "(string \<times> string) option list" where
  "zoneNames1 =
   [None, None, None, None, None, None, None, Some (''shadowhaven'', ''Shadow Haven''), Some (''bazaar'', ''The Bazaar''),
     Some (''nexus'', ''The Nexus''), Some (''echo'', ''Echo Caverns''), Some (''acrylia'', ''Acrylia Caverns''),
     Some (''sharvahl'', ''Shar Vahl''), Some (''paludal'', ''Paludal Caverns''), Some (''fungusgrove'', ''The Fungus Grove''),
     Some (''vexthal'', ''Vex Thal''), Some (''sseru'', ''Sanctus Seru''), Some (''katta'', ''Katta Castellum''),
     Some (''netherbian'', ''Netherbian Lair''), Some (''ssratemple'', ''Ssraeshza Temple''), Some (''griegsend'', ''Grieg's End''),
     Some (''thedeep'', ''The Deep''), Some (''shadeweaver'', ''Shadeweaver's Thicket''), Some (''hollowshade'', ''Hollowshade Moor''),
     Some (''grimling'', ''Grimling Forest''), Some (''mseru'', ''Marus Seru''), Some (''letalis'', ''Mons Letalis''),
     Some (''twilight'', ''The Twilight Sea''), Some (''thegrey'', ''The Grey''), Some (''tenebrous'', ''The Tenebrous Mountains''),
     Some (''maiden'', ''The Maiden's Eye''), Some (''dawnshroud'', ''Dawnshroud Peaks''), Some (''scarlet'', ''The Scarlet Desert''),
     Some (''umbral'', ''The Umbral Plains''), None, None, Some (''akheva'', ''The Akheva Ruins''), Some (''arena2'', ''Arenatwo''),
     Some (''jaggedpine'', ''Jaggedpine Forest''), Some (''nedaria'', ''Nedaria's Landing''), Some (''tutorial'', ''Tutorial''),
     Some (''load'', ''Load''), Some (''load2'', ''Loadtwo''), Some (''hateplaneb'', ''The Plane of Hate''),
     Some (''shadowrest'', ''Shadowrest''), Some (''tutoriala'', ''tutoriala''), Some (''tutorialb'', ''tutorialb''),
     Some (''clz'', ''clz''), None, None, None, None, None, None, None, None, None, Some (''codecay'', ''Ruins of Lxanvom''),
     Some (''pojustice'', ''The Plane of Justice''), Some (''poknowledge'', ''The Plane of Knowledge''),
     Some (''potranquility'', ''The Plane of Tranquility''), Some (''ponightmare'', ''The Plane of Nightmare''),
     Some (''podisease'', ''The Plane of Disease''), Some (''poinnovation'', ''The Plane of Innovation''),
     Some (''potorment'', ''Torment, the Plane of Pain''), Some (''povalor'', ''The Plane of Valor''),
     Some (''bothunder'', ''Torden, the Bastion of Thunder''), Some (''postorms'', ''The Plane of Storms''),
     Some (''hohonora'', ''The Halls of Honor''), Some (''solrotower'', ''The Tower of Solusek Ro''),
     Some (''powar'', ''The Plane of War''), Some (''potactics'', ''Drunder, the Fortress of Zek''),
     Some (''poair'', ''Eryslai, the Kingdom of Wind''), Some (''powater'', ''The Reef of Coirnav''),
     Some (''pofire'', ''Doomfire, the Burning Lands''), Some (''poeartha'', ''Vegarlson, The Earthen Badlands''),
     Some (''potimea'', ''The Plane of Time''), Some (''hohonorb'', ''The Temple of Marr''),
     Some (''nightmareb'', ''The Lair of Terris-Thule''), Some (''poearthb'', ''Ragrax, Stronghold of the Twelve''),
     Some (''potimeb'', ''The Prison of the Forsaken''), Some (''gunthak'', ''The Gulf of Gunthak''), Some (''dulak'', ''Dulak's Harbor''),
     Some (''torgiran'', ''The Torgiran Mines''), Some (''nadox'', ''The Crypt of Nadox''), Some (''hatesfury'', ''Hate's Fury''),
     Some (''guka'', ''Deepest Guk: Cauldron of Lost Souls''), Some (''ruja'', ''The Rujarkian Hills: Bloodied Quarries''),
     Some (''taka'', ''Takish-Hiz: Sunken Library''), Some (''mira'', ''Miragul's Menagerie: Silent Gallery''),
     Some (''mmca'', ''Mistmoore's Catacombs: Forlorn Caverns''), Some (''gukb'', ''Deepest Guk: Drowning Crypt''),
     Some (''rujb'', ''The Rujarkian Hills: Halls of War''), Some (''takb'', ''Takish-Hiz: Shifting Tower''),
     Some (''mirb'', ''Miragul's Menagerie: Maw of the Menagerie''), Some (''mmcb'', ''Mistmoore's Catacombs: Dreary Grotto''),
     Some (''gukc'', ''Deepest Guk: Ancient Aqueducts''), Some (''rujc'', ''The Rujarkian Hills: Wind Bridges''),
     Some (''takc'', ''Takish-Hiz: Fading Temple''), Some (''mirc'', ''Miragul's Menagerie: Spider Den''),
     Some (''mmcc'', ''Mistmoore's Catacombs: Asylum of Invoked Stone''), Some (''gukd'', ''Deepest Guk: Mushroom Grove''),
     Some (''rujd'', ''The Rujarkian Hills: Gladiator Pits''), Some (''takd'', ''Takish-Hiz: Royal Observatory''),
     Some (''mird'', ''Miragul's Menagerie: Hushed Banquet''), Some (''mmcd'', ''Mistmoore's Catacombs: Chambers of Eternal Affliction''),
     Some (''guke'', ''Deepest Guk: Foreboding Prison''), Some (''ruje'', ''The Rujarkian Hills: Drudge Hollows''),
     Some (''take'', ''Takish-Hiz: River of Recollection''), Some (''mire'', ''Miragul's Menagerie: Frosted Halls''),
     Some (''mmce'', ''Mistmoore's Catacombs: Sepulcher of the Damned''), Some (''gukf'', ''Deepest Guk: Chapel of the Witnesses''),
     Some (''rujf'', ''The Rujarkian Hills: Fortified Lair of the Taskmasters''), Some (''takf'', ''Takish-Hiz: Sandfall Corridors''),
     Some (''mirf'', ''Miragul's Menagerie: Forgotten Wastes''), Some (''mmcf'', ''Mistmoore's Catacombs: Ritualistic Summoning Grounds''),
     Some (''gukg'', ''Deepest Guk: Root Garden''), Some (''rujg'', ''The Rujarkian Hills: Hidden Vale''),
     Some (''takg'', ''Takish-Hiz: Balancing Chamber''), Some (''mirg'', ''Miragul's Menagerie: Heart of the Menagerie''),
     Some (''mmcg'', ''Mistmoore's Catacombs: Cesspits of Putrescence''), Some (''gukh'', ''Deepest Guk: Accursed Sanctuary''),
     Some (''rujh'', ''The Rujarkian Hills: Blazing Forge''), Some (''takh'', ''Takish-Hiz: Sweeping Tides''),
     Some (''mirh'', ''Miragul's Menagerie: Morbid Laboratory''), Some (''mmch'', ''Mistmoore's Catacombs: Aisles of Blood''),
     Some (''ruji'', ''The Rujarkian Hills: Arena of Chance''), Some (''taki'', ''Takish-Hiz: Antiquated Palace''),
     Some (''miri'', ''Miragul's Menagerie: Theater of Imprisoned Horrors''),
     Some (''mmci'', ''Mistmoore's Catacombs: Halls of Sanguinary Rites''), Some (''rujj'', ''The Rujarkian Hills: Barracks of War''),
     Some (''takj'', ''Takish-Hiz: Prismatic Corridors''), Some (''mirj'', ''Miragul's Menagerie: Grand Library''),
     Some (''mmcj'', ''Mistmoore's Catacombs: Infernal Sanctuary''), Some (''chardokb'', ''Chardok: The Halls of Betrayal''),
     Some (''soldungc'', ''The Caverns of Exile''), Some (''abysmal'', ''The Abysmal Sea''),
     Some (''natimbi'', ''Natimbi, the Broken Shores''), Some (''qinimi'', ''Qinimi, Court of Nihilia''),
     Some (''riwwi'', ''Riwwi, Coliseum of Games''), Some (''barindu'', ''Barindu, Hanging Gardens''),
     Some (''ferubi'', ''Ferubi, Forgotten Temple of Taelosia''), Some (''snpool'', ''Sewers of Nihilia, Pool of Sludge'')]"

definition zoneNames2 :: "(string \<times> string) option list" where
  "zoneNames2 =
   [Some (''snlair'', ''Sewers of Nihilia, Lair of Trapped Ones''), Some (''snplant'', ''Sewers of Nihilia, Purifying Plant''),
     Some (''sncrematory'', ''Sewers of Nihilia, Emanating Crematory''), Some (''tipt'', ''Tipt, Treacherous Crags''),
     Some (''vxed'', ''Vxed, the Crumbling Caverns''), Some (''yxtta'', ''Yxtta, Pulpit of Exiles''),
     Some (''uqua'', ''Uqua, the Ocean God Chantry''), Some (''kodtaz'', ''Kod'Taz, Broken Trial Grounds''),
     Some (''ikkinz'', ''Ikkinz, Chambers of Destruction''), Some (''qvic'', ''Qvic, Prayer Grounds of Calling''),
     Some (''inktuta'', ''Inktu'Ta, the Unmasked Chapel''), Some (''txevu'', ''Txevu, Lair of the Elite''),
     Some (''tacvi'', ''Tacvi, the Broken Temple''), Some (''qvicb'', ''qvicb''), Some (''wallofslaughter'', ''Wall of Slaughter''),
     Some (''bloodfields'', ''The Bloodfields''), Some (''draniksscar'', ''Dranik's Scar''), Some (''causeway'', ''Nobles' Causeway''),
     Some (''chambersa'', ''Proving Grounds''), Some (''chambersb'', ''Proving Grounds''), Some (''chambersc'', ''Proving Grounds''),
     Some (''chambersd'', ''Proving Grounds''), Some (''chamberse'', ''Proving Grounds''), Some (''chambersf'', ''Proving Grounds''), None,
     None, None, None, None, None, Some (''provinggrounds'', ''Muramite Proving Grounds''),
     Some (''anguish'', ''Anguish, the Fallen Palace''), Some (''dranikhollowsa'', ''Dranik's Hollows: Watering Hole''),
     Some (''dranikhollowsb'', ''Dranik's Hollows: Fire Pit''), Some (''dranikhollowsc'', ''Dranik's Hollows: Murkglider Hive''),
     Some (''dranikhollowsd'', ''Dranik's Hollows''), Some (''dranikhollowse'', ''Dranik's Hollows''),
     Some (''dranikhollowsf'', ''Dranik's Hollows''), Some (''dranikhollowsg'', ''Dranik's Hollows''),
     Some (''dranikhollowsh'', ''Dranik's Hollows''), Some (''dranikhollowsi'', ''Dranik's Hollows''),
     Some (''dranikhollowsj'', ''Dranik's Hollows''), Some (''dranikcatacombsa'', ''Catacombs of Dranik''),
     Some (''dranikcatacombsb'', ''Catacombs of Dranik''), Some (''dranikcatacombsc'', ''Catacombs of Dranik''),
     Some (''draniksewersa'', ''Sewers of Dranik''), Some (''draniksewersb'', ''Sewers of Dranik''),
     Some (''draniksewersc'', ''Sewers of Dranik''), Some (''riftseekers'', ''Riftseekers' Sanctum''),
     Some (''harbingers'', ''Harbinger's Spire''), Some (''dranik'', ''The Ruined City of Dranik''),
     Some (''broodlands'', ''The Broodlands''), Some (''stillmoona'', ''Stillmoon Temple''), Some (''stillmoonb'', ''The Ascent''),
     Some (''thundercrest'', ''Thundercrest Isles''), Some (''delvea'', ''Lavaspinner's Lair''), Some (''delveb'', ''Tirranun's Delve''),
     Some (''thenest'', ''The Accursed Nest''), Some (''guildlobby'', ''Guild Lobby''), Some (''guildhall'', ''Guild Hall''),
     Some (''barter'', ''barter''), Some (''illsalin'', ''Ruins of Illsalin''), Some (''illsalina'', ''Illsalin Marketplace''),
     Some (''illsalinb'', ''Temple of the Korlach''), Some (''illsalinc'', ''The Nargilor Pits''),
     Some (''dreadspire'', ''Dreadspire Keep''), None, None, Some (''drachnidhive'', ''The Hive''),
     Some (''drachnidhivea'', ''The Hatchery''), Some (''drachnidhiveb'', ''The Cocoons''), Some (''drachnidhivec'', ''The Queen's Lair''),
     Some (''westkorlach'', ''Stoneroot Falls''), Some (''westkorlacha'', ''Chambers of Xill''),
     Some (''westkorlachb'', ''Caverns of the Lost''), Some (''westkorlachc'', ''Lair of the Korlach''),
     Some (''eastkorlach'', ''The Undershore''), Some (''eastkorlacha'', ''Snarlstone Dens''), Some (''shadowspine'', ''Shadowspine''),
     Some (''corathus'', ''Corathus Creep''), Some (''corathusa'', ''Sporali Caverns''), Some (''corathusb'', ''Corathus Lair''),
     Some (''nektulosa'', ''Shadowed Grove''), Some (''arcstone'', ''Arcstone, Isle of Spirits''),
     Some (''relic'', ''Relic, the Artifact City''), Some (''skylance'', ''Skylance''), Some (''devastation'', ''The Devastation''),
     Some (''devastationa'', ''The Seething Wall''), Some (''rage'', ''Sverag, Stronghold of Rage''),
     Some (''ragea'', ''Razorthorn, Tower of Sullon Zek''), Some (''takishruins'', ''Ruins of Takish-Hiz''),
     Some (''takishruinsa'', ''The Root of Ro''), Some (''elddar'', ''The Elddar Forest''), Some (''elddara'', ''Tunare's Shrine''),
     Some (''theater'', ''Theater of Blood''), Some (''theatera'', ''Deathknell, Tower of Dissonance''),
     Some (''freeporteast'', ''East Freeport''), Some (''freeportwest'', ''West Freeport''),
     Some (''freeportsewers'', ''Freeport Sewers''), Some (''freeportacademy'', ''Academy of Arcane Sciences''),
     Some (''freeporttemple'', ''Temple of Marr''), Some (''freeportmilitia'', ''Freeport Militia House''),
     Some (''freeportarena'', ''Arena''), Some (''freeportcityhall'', ''City Hall''), Some (''freeporttheater'', ''Theater''),
     Some (''freeporthall'', ''Hall of Truth''), Some (''northro'', ''North Desert of Ro''), Some (''southro'', ''South Desert of Ro''),
     Some (''crescent'', ''Crescent Reach''), Some (''moors'', ''Blightfire Moors''), Some (''stonehive'', ''Stone Hive''),
     Some (''mesa'', ''Goru`kar Mesa''), Some (''roost'', ''Blackfeather Roost''), Some (''steppes'', ''The Steppes''),
     Some (''icefall'', ''Icefall Glacier''), Some (''valdeholm'', ''Valdeholm''),
     Some (''frostcrypt'', ''Frostcrypt, Throne of the Shade King''), Some (''sunderock'', ''Sunderock Springs''),
     Some (''vergalid'', ''Vergalid Mines''), Some (''direwind'', ''Direwind Cliffs''),
     Some (''ashengate'', ''Ashengate, Reliquary of the Scale''), Some (''highpasshold'', ''Highpass Hold''),
     Some (''commonlands'', ''The Commonlands''), Some (''oceanoftears'', ''The Ocean of Tears''), Some (''kithforest'', ''kithforest''),
     Some (''befallenb'', ''befallenb''), Some (''highpasskeep'', ''highpasskeep''), Some (''innothuleb'', ''Innothule Swamp''),
     Some (''toxxulia'', ''Toxxulia Forest''), Some (''mistythicket'', ''Misty Thicket''), Some (''kattacastrum'', ''Katta Castrum''),
     Some (''thalassius'', ''Thalassius, the Coral Keep''), Some (''atiiki'', ''Jewel of Atiiki''),
     Some (''zhisza'', ''Zhisza, the Shissar Sanctuary''), Some (''silyssar'', ''Silyssar, New Chelsith''),
     Some (''solteris'', ''Solteris, the Throne of Ro''), Some (''barren'', ''Barren Coast''), Some (''buriedsea'', ''The Buried Sea''),
     Some (''jardelshook'', ''Jardel's Hook''), Some (''monkeyrock'', ''Monkey Rock''), Some (''suncrest'', ''Suncrest Isle''),
     Some (''deadbone'', ''Deadbone Reef''), Some (''blacksail'', ''Blacksail Folly'')]"

definition zoneNames3 :: "(string \<times> string) option list" where
  "zoneNames3 =
   [Some (''maidensgrave'', ''Maiden's Grave''), Some (''redfeather'', ''Redfeather Isle''), Some (''shipmvp'', ''The Open Sea''),
     Some (''shipmvu'', ''The Open Sea''), Some (''shippvu'', ''The Open Sea''), Some (''shipuvu'', ''The Open Sea''),
     Some (''shipmvm'', ''The Open Sea''), Some (''mechanotus'', ''Fortress Mechanotus''),
     Some (''mansion'', ''Meldrath's Majestic Mansion''), Some (''steamfactory'', ''The Steam Factory''),
     Some (''shipworkshop'', ''S.H.I.P. Workshop''), Some (''gyrospireb'', ''Gyrospire Beza''), Some (''gyrospirez'', ''Gyrospire Zeka''),
     Some (''dragonscale'', ''Dragonscale Hills''), Some (''lopingplains'', ''Loping Plains''),
     Some (''hillsofshade'', ''Hills of Shade''), Some (''bloodmoon'', ''Bloodmoon Keep''),
     Some (''crystallos'', ''Crystallos, Lair of the Awakened''), Some (''guardian'', ''The Mechamatic Guardian''),
     Some (''steamfontmts'', ''The Steamfont Mountains''), Some (''cryptofshade'', ''Crypt of Shade''),
     Some (''dragonscalea'', ''Tinmizer's Wunderwerks''), Some (''dragonscaleb'', ''Deepscar's Den''),
     Some (''oldfieldofbone'', ''Field of Scale''), Some (''oldkaesoraa'', ''Kaesora Library''),
     Some (''oldkaesorab'', ''Kaesora Hatchery''), Some (''oldkurn'', ''Kurn's Tower''), Some (''oldkithicor'', ''Bloody Kithicor''),
     Some (''oldcommons'', ''Old Commonlands''), Some (''oldhighpass'', ''oldhighpass''), Some (''thevoida'', ''The Void''),
     Some (''thevoidb'', ''The Void''), Some (''thevoidc'', ''The Void''), Some (''thevoidd'', ''The Void''),
     Some (''thevoide'', ''The Void''), Some (''thevoidf'', ''The Void''), Some (''thevoidg'', ''The Void''),
     Some (''oceangreenhills'', ''Oceangreen Hills''), Some (''oceangreenvillage'', ''Oceangreen Village''),
     Some (''oldblackburrow'', ''Blackburrow''), Some (''bertoxtemple'', ''Temple of Bertoxxulous''),
     Some (''discord'', ''Korafax, Home of the Riders''), Some (''discordtower'', ''Citadel of the Worldslayer''),
     Some (''oldbloodfield'', ''Old Bloodfields''), Some (''precipiceofwar'', ''Precipice of War''),
     Some (''olddranik'', ''City of Dranik''), Some (''toskirakk'', ''Toskirakk''), Some (''korascian'', ''Korascian Warrens''),
     Some (''rathechamber'', ''Rathe Council Chamber''), Some (''oldfieldofboneb'', ''Field of Scale''),
     Some (''crafthalls'', ''Ngreth's Den''), Some (''brellsrest'', ''Brell's Rest''), Some (''fungalforest'', ''Fungal Forest''),
     Some (''underquarry'', ''The Underquarry''), Some (''coolingchamber'', ''The Cooling Chamber''),
     Some (''shiningcity'', ''Kernagir, the Shining City''), Some (''arthicrex'', ''Arthicrex''),
     Some (''foundation'', ''The Foundation''), Some (''lichencreep'', ''Lichen Creep''), Some (''pellucid'', ''Pellucid Grotto''),
     Some (''stonesnake'', ''Volska's Husk''), Some (''brellstemple'', ''Brell's Temple''), Some (''convorteum'', ''The Convorteum''),
     Some (''brellsarena'', ''Brell's Arena''), Some (''weddingchapel'', ''Wedding Chapel''),
     Some (''weddingchapeldark'', ''Wedding Chapel''), Some (''dragoncrypt'', ''Lair of the Fallen''), None, None, None, None, None, None,
     None, None, None, None, None, None, None, None, None, None, None, None, None, None, None, None, None, None, None, None, None, None,
     None, None, None, None, None, None, None, None, None, None, None, None, None, None, None, None, None, None, None, None, None, None,
     None, None, None, None, None, None, None, None, None, None, None, None, None, None, None, None, None, None, None, None, None, None,
     None, None, None, None]"

definition zoneNames4 :: "(string \<times> string) option list" where
  "zoneNames4 =
   [None, None, None, None, None, None, None, None, None, None, None, None, None, None, None, None, None, None, None, None, None, None,
     None, None, None, None, None, None, None, None, None, None, None, None, None, None, None, None, None, None, None, None, None, None,
     None, None, None, None, None, None, None, None, None, None, None, None, None, None, None, None, None, None, None, None, None, None,
     None, None, None, None, None, None, None, None, None, None, None, None, None, None, None, None, None, None, None, None, None, None,
     None, None, None, None, None, None, None, None, None, None, None, None, None, None, None, None, None, None, None, None, None, None,
     None, None, None, None, None, None, None, None, None, None, None, None, None, None, None, None, None, None,
     Some (''feerrott2'', ''The Feerrott''), Some (''thulehouse1'', ''House of Thule''),
     Some (''thulehouse2'', ''House of Thule, Upper Floors''), Some (''housegarden'', ''The Grounds''),
     Some (''thulelibrary'', ''The Library''), Some (''well'', ''The Well''), Some (''fallen'', ''Erudin Burning''),
     Some (''morellcastle'', ''Morell's Castle''), Some (''somnium'', ''Sanctum Somnium''),
     Some (''alkabormare'', ''Al'Kabor's Nightmare''), Some (''miragulmare'', ''Miragul's Nightmare''),
     Some (''thuledream'', ''Fear Itself''), Some (''neighborhood'', ''Sunrise Hills''), Some (''phylactery'', ''Miragul's Phylactery''),
     Some (''phinterior3a1'', ''Three Room House Interior'')]"

definition zoneNames5 :: "(string \<times> string) option list" where
  "zoneNames5 =
   [Some (''phinterior1a1'', ''One Room House Interior''), Some (''phinterior3a2'', ''Three Room House Interior''),
     Some (''phinterior3a3'', ''Three Room House Interior''), Some (''phinterior1a2'', ''One Room House Interior''),
     Some (''phinterior1a3'', ''One Room House Interior''), Some (''phinterior1b1'', ''One Room House Interior''), None, None,
     Some (''phinterior1d1'', ''Hermit's Hideaway Interior''), Some (''argath'', ''Argath, Bastion of Illdaera''),
     Some (''arelis'', ''Valley of Lunanyn''), Some (''sarithcity'', ''Sarith, City of Tides''),
     Some (''rubak'', ''Rubak Oseka, Temple of the Sea''), Some (''beastdomain'', ''Beasts' Domain''),
     Some (''resplendent'', ''The Resplendent Temple''), Some (''pillarsalra'', ''Pillars of Alra''),
     Some (''windsong'', ''Windsong Sanctuary''), Some (''cityofbronze'', ''Erillion, City of Bronze''),
     Some (''sepulcher'', ''Sepulcher of Order''), Some (''eastsepulcher'', ''Sepulcher East''),
     Some (''westsepulcher'', ''Sepulcher West''), Some (''shadowedmount'', ''Shadowed Mount''),
     Some (''guildhalllrg'', ''Palatial Guild Hall''), Some (''guildhallsml'', ''Grand Guild Hall''),
     Some (''plhogrinteriors1a1'', ''One Bedroom House Interior''), Some (''plhogrinteriors1a2'', ''One Bedroom House Interior''),
     Some (''plhogrinteriors3a1'', ''Three Bedroom House Interior''), Some (''plhogrinteriors3a2'', ''Three Bedroom House Interior''),
     Some (''plhogrinteriors3b1'', ''Three Bedroom House Interior''), Some (''plhogrinteriors3b2'', ''Three Bedroom House Interior''),
     Some (''plhdkeinteriors1a1'', ''One Bedroom House Interior''), Some (''plhdkeinteriors1a2'', ''One Bedroom House Interior''),
     Some (''plhdkeinteriors1a3'', ''One Bedroom House Interior''), Some (''plhdkeinteriors3a1'', ''Three Bedroom House Interior''),
     Some (''plhdkeinteriors3a2'', ''Three Bedroom House Interior''), Some (''plhdkeinteriors3a3'', ''Three Bedroom House Interior''),
     Some (''guildhall3'', ''Modest Guild Hall''), Some (''shardslanding'', ''Shard's Landing''),
     Some (''xorbb'', ''Valley of King Xorbb''), Some (''kaelshard'', ''Kael Drakkel: The King's Madness''),
     Some (''eastwastesshard'', ''East Wastes: Zeixshi-Kar's Awakening''),
     Some (''crystalshard'', ''The Crystal Caverns: Fragment of Fear''), Some (''breedinggrounds'', ''The Breeding Grounds''),
     Some (''eviltree'', ''Evantil, the Vile Oak''), Some (''grelleth'', ''Grelleth's Palace, the Chateau of Filth''),
     Some (''chapterhouse'', ''Chapterhouse of the Fallen''), Some (''pomischief'', ''The Plane of Mischief''),
     Some (''burnedwoods'', ''The Burned Woods''), Some (''chelsithreborn'', ''Chelsith Reborn''),
     Some (''poshadow'', ''Plane of Shadow''), Some (''heartoffear'', ''Heart of Fear: The Threshold''),
     Some (''phinteriortree'', ''Evantil's Abode''), Some (''interiorwalltest'', ''Wall Wall Wall''),
     Some (''heartoffearb'', ''Heart of Fear: The Rebirth''), Some (''heartoffearc'', ''Heart of Fear: The Epicenter''),
     Some (''bixiewarfront'', ''Bixie Warfront''), Some (''deadhills'', ''The Dead Hills''),
     Some (''ethernere'', ''Ethernere Tainted West Karana''), Some (''thevoidh'', ''The Void''), Some (''plhbixieint'', ''Bixie Hive''),
     Some (''towerofrot'', ''Tower of Rot''), Some (''arginhiz'', ''Argin-Hiz''), Some (''exalted'', ''Sul Vius: Demiplane of Life''),
     Some (''arxmentis'', ''Arx Mentis''), Some (''brotherisland'', ''Brother Island''),
     Some (''kattacastrumb'', ''Katta Castrum: Deluge''), Some (''dredge'', ''Combine Dredge''),
     Some (''endlesscaverns'', ''Caverns of Endless Song''), Some (''thuliasaur'', ''Thuliasaur Island''),
     Some (''degmar'', ''Degmar, the Lost Castle''), Some (''tempesttemple'', ''Tempest Temple''),
     Some (''plhpirateshipint'', ''The Wayward Lady''), Some (''gnomemtn'', ''Gnome Memorial Mountain''),
     Some (''drogab'', ''The Temple of Droga''), Some (''charasisb'', ''Sathir's Tomb''), Some (''scorchedwoods'', ''The Scorched Woods''),
     Some (''frontiermtnsb'', ''Frontier Mountains''), Some (''gorowyn'', ''Gorowyn''), Some (''korshaext'', ''Gates of Kor-Sha''),
     Some (''lceanium'', ''Lceanium''), Some (''cosul'', ''Crypt of Sul''), Some (''codecayb'', ''Ruins of Lxanvom''),
     Some (''exaltedb'', ''Sul Vius: Demiplane of Decay''), Some (''pohealth'', ''The Plane of Health''),
     Some (''korshaint'', ''Kor-Sha Laboratory''), Some (''chardoktwo'', ''Chardok''), None, None, None, None, None, None, None, None,
     None, None, None, None, Some (''charasistwo'', ''Howling Stones''), Some (''skyfiretwo'', ''The Skyfire Mountains''),
     Some (''overtheretwo'', ''The Overthere''), Some (''veeshantwo'', ''Veeshan's Peak''), Some (''trialsofsmoke'', ''Plane of Smoke''),
     Some (''stratos'', ''Stratos: Zephyr's Flight''), Some (''aalishai'', ''Aalishai: Palace of Embers''),
     Some (''empyr'', ''Empyr: Realms of Ash''), Some (''esianti'', ''Esianti: Palace of the Winds''),
     Some (''mearatas'', ''Mearatas: The Stone Demesne''), Some (''chamberoftears'', ''Chamber of Tears''),
     Some (''eastwastestwo'', ''The Eastern Wastes''), Some (''frozenshadowtwo'', ''The Tower of Frozen Shadow''),
     Some (''crystaltwoa'', ''The Ry`Gorr Mines''), Some (''greatdividetwo'', ''The Great Divide''),
     Some (''velketortwo'', ''Velketor's Labyrinth''), Some (''kaeltwo'', ''Kael Drakkel''), Some (''crystaltwob'', ''Crystal Caverns''),
     Some (''sleepertwo'', ''The Sleeper's Tomb''), Some (''necropolistwo'', ''Dragon Necropolis''),
     Some (''cobaltscartwo'', ''Cobalt Scar''), Some (''westwastestwo'', ''The Western Wastes''), Some (''skyshrinetwo'', ''Skyshrine''),
     Some (''templeveeshantwo'', ''The Temple of Veeshan''), Some (''clz-winter'', ''Winter''),
     Some (''clz-anniversary'', ''Anniversary''), Some (''clz-spring'', ''Spring''), Some (''clz-autumn'', ''Autumn''),
     Some (''clz-frostfell'', ''Frostfell''), Some (''clz-af'', ''April Fools''), Some (''maidentwo'', ''Maiden's Eye''),
     Some (''umbraltwo'', ''Umbral Plains''), Some (''akhevatwo'', ''Ka Vethan''), Some (''vexthaltwo'', ''Vex Thal''),
     Some (''shadowvalley'', ''Shadow Valley''), Some (''basilica'', ''Basilica of Adumbration''), Some (''bloodfalls'', ''Bloodfalls''),
     Some (''maidenhouseint'', ''Coterie Chambers''), Some (''shadowhaventwo'', ''Ruins of Shadow Haven''),
     Some (''sharvahltwo'', ''Shar Vahl, Divided''), Some (''paludaltwo'', ''Paludal Depths''),
     Some (''shadeweavertwo'', ''Shadeweaver's Tangle''), Some (''darklightcaverns'', ''Darklight Caverns''),
     Some (''deepshade'', ''Deepshade''), Some (''firefallpass'', ''Firefall Pass'')]"

definition zoneNames6 :: "(string \<times> string) option list" where
  "zoneNames6 =
   [Some (''hollowshadetwo'', ''Hollowshade Moor''), Some (''laurioninn'', ''Laurion Inn''), Some (''ankexfen'', ''Ankexfen Keep''),
     Some (''pallomen'', ''Pal'Lomen''), Some (''herosforge'', ''The Hero's Forge''), Some (''moorsofnokk'', ''Moors of Nokk''),
     Some (''unkemptwoods'', ''Unkempt Woods''), Some (''timorousfalls'', ''Timorous Falls''),
     Some (''clz-tempest'', ''Tempest Festival''), None, None, Some (''anniversarytower'', ''Tides of Time''),
     Some (''hodstock'', ''Hodstock Hills''), Some (''toe'', ''The Theater of Eternity''), Some (''aureatecovert'', ''Aureate Covert''),
     Some (''harbingerscradle'', ''The Harbinger's Cradle''), Some (''puissance'', ''The Chambers of Puissance''),
     Some (''gildedspire'', ''The Gilded Spire''), Some (''clz-25anniversary'', ''Anniversary''),
     Some (''dragonhouseinta'', ''Aureate Chalet Three Room''), Some (''dragonhouseintb'', ''Aureate Chalet One Room''),
     Some (''candlemakers'', ''Candlemaker's Workshop''), Some (''embattledpogrowth'', ''Scarred Grove''),
     Some (''arcstoneruins'', ''Arcstone, Shattered Isles''), Some (''ruinedrelic'', ''Ruined Relic''), Some (''vortex'', ''The Vortex''),
     Some (''spite'', ''Labyrinth of Spite''), Some (''guildhallsng'', ''Grand Guild Hall''), Some (''giftygiver'', ''The Gifty Giver''),
     Some (''clz-brewday'', ''Brew Day''), None, None, None, None, None, None, None, None, None, None, None, None, None, None, None, None,
     None, None, None, None, None, None, None, None, None, None, None, None, None, None, None, None, None, None, None, None, None, None,
     None, None, None, None, None, None, None, None, None, None, None, None, None, None, None, None, None, None, None, None, None, None,
     None, None, None, None, None, None, None, None, None, None, None, None, None, None, None, None, None, None, None, None, None, None,
     None, None, None, None, None, None, None, None, None, None, None, None, None, None, None, None, None, None, None, None, None, None,
     None, None, None, None, Some (''arttest'', ''The Pit of Rathpher''), None, Some (''fhalls'', ''The Forgotten Halls''),
     Some (''apprentice'', ''Plane of Noob'')]"

definition zoneNames :: "(string \<times> string) option list" where
  "zoneNames = zoneNames0 @ zoneNames1 @ zoneNames2 @ zoneNames3 @ zoneNames4 @ zoneNames5 @ zoneNames6"

end
