(* ===== verification/DataStream.thy ===== *)
theory DataStream
  imports Prelude
begin

text \<open>
  The \<open>QDataStream\<close> in which the zone manager and the player keep their state: numbers with the highest byte first, a text as the
  number of its bytes and its UTF-16 units. A read behind the end gives 0, or the empty text, and leaves
  nothing to read. The conversion between texts and units is the library's (\<open>ds_codec\<close>).
\<close>

record ds_codec =
  ds_units :: "string \<Rightarrow> u16 list"
  ds_text :: "u16 list \<Rightarrow> string"

definition be_bytes :: "nat \<Rightarrow> 'a::len word \<Rightarrow> bytes" where
  "be_bytes n w = rev (le_bytes n w)"

definition wr8 :: "u8 \<Rightarrow> bytes" where "wr8 w = [w]"
definition wr16 :: "u16 \<Rightarrow> bytes" where "wr16 w = be_bytes 2 w"
definition wr32 :: "u32 \<Rightarrow> bytes" where "wr32 w = be_bytes 4 w"

definition wr_string :: "ds_codec \<Rightarrow> string \<Rightarrow> bytes" where
  "wr_string c s = (let us = ds_units c s in wr32 (of_nat (2 * length us)) @ concat (map wr16 us))"

definition rd_be :: "nat \<Rightarrow> bytes \<Rightarrow> 'a::len word \<times> bytes" where
  "rd_be n bs = (if n \<le> length bs then (be_word (take n bs), drop n bs) else (0, []))"

fun units_of :: "bytes \<Rightarrow> u16 list" where
  "units_of (a # b # bs) = be_word [a, b] # units_of bs"
| "units_of _ = []"

text \<open>An odd number of bytes is refused, with the bytes left where they are.\<close>

definition rd_string :: "ds_codec \<Rightarrow> bytes \<Rightarrow> string \<times> bytes" where
  "rd_string c bs =
     (let (n :: u32, r) = rd_be 4 bs in
      if n = 0xFFFFFFFF \<or> n = 0 \<or> odd (unat n) then ([], r)
      else if unat n \<le> length r then (ds_text c (units_of (take (unat n) r)), drop (unat n) r)
      else ([], []))"

section \<open>Round trips\<close>

lemma rd_be_bytes [simp]:
  fixes w :: "'a::len word"
  assumes "LENGTH('a) = 8 * n"
  shows "rd_be n (be_bytes n w @ bs) = (w, bs)"
  using assms by (simp add: rd_be_def be_bytes_def be_word_def le_word_le_bytes)

lemma rd_wr8 [simp]: "(rd_be 1 (wr8 w @ bs) :: u8 \<times> bytes) = (w, bs)"
  using rd_be_bytes [of 1 w bs] by (simp add: wr8_def be_bytes_def)

lemma rd_wr16 [simp]: "(rd_be 2 (wr16 w @ bs) :: u16 \<times> bytes) = (w, bs)"
  by (simp add: wr16_def)

lemma rd_wr32 [simp]: "(rd_be 4 (wr32 w @ bs) :: u32 \<times> bytes) = (w, bs)"
  by (simp add: wr32_def)

lemma units_of_wr: "units_of (concat (map wr16 us)) = us"
proof (induction us)
  case (Cons u us)
  obtain a b where ab: "wr16 u = [a, b]"
    by (cases "wr16 u"; cases "tl (wr16 u)") (auto simp: wr16_def be_bytes_def numeral_2_eq_2)
  then have "be_word [a, b] = u" using rd_wr16 [of u "[]"] by (simp add: rd_be_def)
  then show ?case using Cons ab by simp
qed simp

lemma length_units [simp]: "length (concat (map wr16 us)) = 2 * length us"
  by (induction us) (simp_all add: wr16_def be_bytes_def)

text \<open>A text is read back when its units are and their number fits the field (\<open>2 ^ 31\<close> units).\<close>

definition text_ok :: "ds_codec \<Rightarrow> string \<Rightarrow> bool" where
  "text_ok c s \<longleftrightarrow> length (ds_units c s) < 2 ^ 31 - 1 \<and> ds_text c (ds_units c s) = s \<and> (ds_units c s = [] \<longrightarrow> s = [])"

lemma rd_wr_string:
  assumes "text_ok c s"
  shows "rd_string c (wr_string c s @ bs) = (s, bs)"
proof -
  define us where "us = ds_units c s"
  define w :: u32 where "w = of_nat (2 * length us)"
  have n: "unat w = 2 * length us"
    using assms unfolding unat_of_nat w_def by (intro mod_less) (simp add: text_ok_def us_def [symmetric])
  have "w \<noteq> 0xFFFFFFFF"
  proof
    assume "w = 0xFFFFFFFF"
    then have "2 * length us = 4294967295" using n by simp
    then show False by presburger
  qed
  moreover have "w = 0 \<longleftrightarrow> us = []" using n by (simp add: unat_eq_0 [symmetric])
  moreover have "us = [] \<Longrightarrow> s = []" "ds_text c us = s" using assms by (simp_all add: text_ok_def us_def)
  ultimately show ?thesis
    unfolding rd_string_def wr_string_def us_def [symmetric] Let_def w_def [symmetric] by (simp add: n units_of_wr)
qed

end
