(* ===== verification/ZoneMgr.thy ===== *)
theory ZoneMgr
  imports Zones Profile NetStream Strings Motion DataStream Files
begin

text \<open>
  \<open>src/src/zonemgr.h\<close> and \<open>src/src/zonemgr.cpp\<close>: in which zone the player is, and whether it is being left. The packets are their
  bytes; the signals the manager emits are its events. The list of zone points is never filled, so \<open>zonePoint\<close>
  always returns the null pointer and the list is left out. A \<open>float\<close> is its 32 bits.
\<close>

record zone_env =
  z_utf8 :: "bytes \<Rightarrow> string"
  z_latin1 :: "string \<Rightarrow> bytes"
  z_codec :: ds_codec
  z_file :: string
  z_save :: bool
  z_writable :: bool
  z_readable :: bool

record ZoneMgr =
  z_longZoneName :: string
  z_shortZoneName :: string
  z_zoning :: bool
  z_safePoint :: EQPoint
  z_exp_multiplier :: u32

datatype zone_event = ZoneBegin | ZoneBeginNamed string | ZoneBeginEntry bytes u8 | PlayerProfile charProfileStruct
  | ZoneChanged string | ZoneChangedStruct bytes u8 | ZoneEnd string string

type_synonym zone_state = "ZoneMgr \<times> bytes files"

definition magic_zon2 :: u32 where "magic_zon2 = 0x326E6F7A"

text \<open>0.75\<close>

definition defaultZoneExperienceMultiplier :: u32 where "defaultZoneExperienceMultiplier = 0x3F400000"

definition zone_name :: "(string \<times> string \<Rightarrow> string) \<Rightarrow> u16 \<Rightarrow> string" where
  "zone_name sel zoneId =
     (let i = unat (zoneId AND 0x0fff) in
      case (if i < length zoneNames then zoneNames ! i else None) of
        Some e \<Rightarrow> sel e
      | None \<Rightarrow> ''unk_zone_'' @ dec_string (unat zoneId))"

definition zoneNameFromID :: "u16 \<Rightarrow> string" where "zoneNameFromID zoneId = zone_name fst zoneId"
definition zoneLongNameFromID :: "u16 \<Rightarrow> string" where "zoneLongNameFromID zoneId = zone_name snd zoneId"

section \<open>The file\<close>

definition saveZoneState :: "zone_env \<Rightarrow> zone_state \<Rightarrow> zone_state" where
  "saveZoneState env = (\<lambda>(z, fs).
     if z_writable env
     then (z, fs(z_file env \<mapsto> wr32 magic_zon2 @ wr_string (z_codec env) (z_longZoneName z) @ wr_string (z_codec env) (z_shortZoneName z)))
     else (z, fs))"

definition restoreZoneState :: "zone_env \<Rightarrow> zone_state \<Rightarrow> zone_state" where
  "restoreZoneState env = (\<lambda>(z, fs).
     case (if z_readable env then fs (z_file env) else None) of
       None \<Rightarrow> (z, fs)
     | Some d \<Rightarrow>
         (let (magicTest :: u32, d1) = rd_be 4 d in
          if magicTest \<noteq> magic_zon2 then (z, fs)
          else let (long, d2) = rd_string (z_codec env) d1; (short, d3) = rd_string (z_codec env) d2
               in (z\<lparr>z_longZoneName := long, z_shortZoneName := short\<rparr>, fs)))"

definition save_if :: "zone_env \<Rightarrow> zone_state \<Rightarrow> zone_state" where
  "save_if env st = (if z_save env then saveZoneState env st else st)"

definition new_ZoneMgr :: "zone_env \<Rightarrow> bool \<Rightarrow> bytes files \<Rightarrow> zone_state" where
  "new_ZoneMgr env restore fs =
     (let z = \<lparr>z_longZoneName = ''unknown'', z_shortZoneName = ''unknown'', z_zoning = False,
               z_safePoint = \<lparr>pt_x = 0, pt_y = 0, pt_z = 0\<rparr>, z_exp_multiplier = defaultZoneExperienceMultiplier\<rparr>
      in if restore then restoreZoneState env (z, fs) else (z, fs))"

section \<open>The packets\<close>

definition zoneEntryClient :: "zone_env \<Rightarrow> bytes \<Rightarrow> u8 \<Rightarrow> zone_state \<Rightarrow> zone_state \<times> zone_event list" where
  "zoneEntryClient env data dir = (\<lambda>(z, fs).
     (save_if env (z\<lparr>z_shortZoneName := ''unknown'', z_longZoneName := ''unknown'',
        z_exp_multiplier := defaultZoneExperienceMultiplier, z_zoning := False\<rparr>, fs),
      [ZoneBegin, ZoneBeginEntry data dir]))"

text \<open>The zone number has 32 bits in the profile and is cut to the 16 of the parameter.\<close>

definition zonePlayer :: "zone_env \<Rightarrow> bytes \<Rightarrow> zone_state \<Rightarrow> zone_state \<times> zone_event list" where
  "zonePlayer env data = (\<lambda>(z, fs).
     (let player = fst (fillProfileStruct data);
          newShortName = zoneNameFromID (ucast (cp_zoneId player));
          zoneChanged = (newShortName \<noteq> z_shortZoneName z \<or> z_zoning z)
      in (save_if env (z\<lparr>z_shortZoneName := newShortName, z_longZoneName := zoneLongNameFromID (ucast (cp_zoneId player)),
            z_exp_multiplier := defaultZoneExperienceMultiplier, z_zoning := False\<rparr>, fs),
          (if zoneChanged then [ZoneBeginNamed newShortName] else []) @ [PlayerProfile player])))"

definition zoneChange :: "zone_env \<Rightarrow> bytes \<Rightarrow> u8 \<Rightarrow> zone_state \<Rightarrow> (zone_state \<times> zone_event list) option" where
  "zoneChange env data dir = (\<lambda>(z, fs). do {
     bs \<leftarrow> rd_range data 64 2;
     let zoneId = u16_at bs 0;
     Some (save_if env (z\<lparr>z_shortZoneName := zoneNameFromID zoneId, z_longZoneName := zoneLongNameFromID zoneId,
             z_exp_multiplier := defaultZoneExperienceMultiplier, z_zoning := True\<rparr>, fs),
           (if dir = DIR_Server then [ZoneChanged (zoneNameFromID zoneId)] else []) @ [ZoneChangedStruct data dir])
   })"

text \<open>\<open>strcpy\<close> into the cleared structure: a text that is longer than its field goes on in the next ones, and one
  that leaves the structure is \<open>None\<close>.\<close>

definition sizeof_newZoneStruct :: nat where "sizeof_newZoneStruct = 936"

definition zn_strcpy :: "nat \<Rightarrow> bytes \<Rightarrow> bytes \<Rightarrow> bytes option" where
  "zn_strcpy i src m =
     (let s = takeWhile (\<lambda>b. b \<noteq> 0) src @ [0] in
      if i + length s \<le> length m then Some (take i m @ s @ drop (i + length s) m) else None)"

definition zn_text :: "zone_env \<Rightarrow> nat \<Rightarrow> netstream \<times> bytes \<Rightarrow> (netstream \<times> bytes) option" where
  "zn_text env i = (\<lambda>(ns, m). do {
     (t, ns1) \<leftarrow> readText (z_utf8 env) ns;
     m1 \<leftarrow> (if t \<noteq> [] then zn_strcpy i (z_latin1 env t) m else Some m);
     Some (ns1, m1)
   })"

definition float_coord :: "u32 \<Rightarrow> u16 option" where
  "float_coord w = do {
     v \<leftarrow> float_round w;
     if - (2 ^ 63) \<le> v \<and> v < 2 ^ 63 then Some (word_of_int v) else None
   }"

text \<open>The expressions that cut a suffix: \<open>$\<close> also matches before a line break at the end.\<close>

definition at_end :: "(string \<Rightarrow> string) \<Rightarrow> string \<Rightarrow> string" where
  "at_end f s = (if s \<noteq> [] \<and> last s = CHR 0x0A then f (butlast s) @ [CHR 0x0A] else f s)"

definition cut_number :: "string \<Rightarrow> string" where
  "cut_number s =
     (let r = dropWhile is_digit (rev s) in
      if s \<noteq> [] \<and> is_digit (last s) \<and> r \<noteq> [] \<and> hd r = CHR ''_'' then rev (tl r) else s)"

definition cut_suffix :: "string \<Rightarrow> string \<Rightarrow> string" where
  "cut_suffix w s = (if length w \<le> length s \<and> drop (length s - length w) s = w then take (length s - length w) s else s)"

definition short_name_fixed :: "string \<Rightarrow> string" where
  "short_name_fixed s =
     at_end (cut_suffix ''_errand'') (at_end (cut_suffix ''_int'') (at_end (cut_suffix ''_progress'') (at_end cut_number s)))"

text \<open>What is read from the packet: the structure with its three texts, and the four numbers.\<close>

definition zn_parse :: "zone_env \<Rightarrow> bytes \<Rightarrow> (bytes \<times> u32 \<times> u32 \<times> u32 \<times> u32) option" where
  "zn_parse env data = do {
     (n1, m1) \<leftarrow> zn_text env 64 (mkNetStream data (length data), replicate sizeof_newZoneStruct 0);
     (n2, m2) \<leftarrow> zn_text env 192 (n1, m1);
     (n3, m3) \<leftarrow> zn_text env 672 (skipBytes 2 n2, m2);
     (mult, n4) \<leftarrow> readUInt32NC (skipBytes 90 n3);
     (y, n5) \<leftarrow> readUInt32NC (skipBytes 28 n4);
     (x, n6) \<leftarrow> readUInt32NC n5;
     (zz, n7) \<leftarrow> readUInt32NC n6;
     Some (m3, mult, x, y, zz)
   }"

definition zoneNew :: "zone_env \<Rightarrow> bytes \<Rightarrow> zone_state \<Rightarrow> (zone_state \<times> zone_event list) option" where
  "zoneNew env data = (\<lambda>(z, fs). do {
     (m, mult, x, y, zz) \<leftarrow> zn_parse env data;
     px \<leftarrow> float_coord x;
     py \<leftarrow> float_coord y;
     pz \<leftarrow> float_coord zz;
     shortName \<leftarrow> c_str (drop 64 m);
     longName \<leftarrow> c_str (drop 192 m);
     let short = (if z_shortZoneName z = [] \<or> take 3 (z_shortZoneName z) = ''unk'' then short_name_fixed (z_utf8 env shortName)
                  else z_shortZoneName z);
     let z1 = z\<lparr>z_safePoint := setPoint px py pz (z_safePoint z), z_exp_multiplier := mult, z_shortZoneName := short,
                z_longZoneName := z_utf8 env longName, z_zoning := False\<rparr>;
     Some (save_if env (z1, fs), [ZoneEnd short (z_longZoneName z1)])
   })"

definition applyCheckpoint :: "string \<Rightarrow> string \<Rightarrow> zone_state \<Rightarrow> zone_state \<times> zone_event list" where
  "applyCheckpoint shortName longName = (\<lambda>(z, fs).
     if shortName = [] then ((z, fs), [])
     else ((z\<lparr>z_shortZoneName := shortName, z_longZoneName := longName, z_zoning := False\<rparr>, fs), [ZoneBeginNamed shortName]))"

datatype zone_op = ZEntry bytes u8 | ZProfile bytes | ZChange bytes u8 | ZNew bytes | ZCheckpoint string string

fun zonemgr_step :: "zone_env \<Rightarrow> zone_op \<Rightarrow> zone_state \<Rightarrow> (zone_state \<times> zone_event list) option" where
  "zonemgr_step env (ZEntry d dir) st = Some (zoneEntryClient env d dir st)"
| "zonemgr_step env (ZProfile d) st = Some (zonePlayer env d st)"
| "zonemgr_step env (ZChange d dir) st = zoneChange env d dir st"
| "zonemgr_step env (ZNew d) st = zoneNew env d st"
| "zonemgr_step env (ZCheckpoint s l) st = Some (applyCheckpoint s l st)"

end
