(* ===== verification/ZoneProps.thy ===== *)
theory ZoneProps
  imports ZoneMgr Machine
begin

text \<open>
  The zone manager: a zone is announced once however often the profile is sent again; what the zone packet does to the names; the
  state that is saved is restored.
\<close>

section \<open>Names\<close>

text \<open>No zone of the table has an empty short name.\<close>

definition has_zone_name :: "(string \<times> string) option \<Rightarrow> bool" where
  "has_zone_name e \<longleftrightarrow> (case e of None \<Rightarrow> True | Some (s, l) \<Rightarrow> s \<noteq> [])"

lemma named_simps [simp]: "has_zone_name None" "has_zone_name (Some (c # cs, l))"
  by (simp_all add: has_zone_name_def)

lemma zoneNames_parts:
  "list_all has_zone_name zoneNames0" "list_all has_zone_name zoneNames1" "list_all has_zone_name zoneNames2" "list_all has_zone_name zoneNames3"
  "list_all has_zone_name zoneNames4" "list_all has_zone_name zoneNames5" "list_all has_zone_name zoneNames6"
  by (simp_all only: zoneNames0_def zoneNames1_def zoneNames2_def zoneNames3_def zoneNames4_def zoneNames5_def zoneNames6_def
      list.pred_inject named_simps simp_thms)

lemma zoneNames_nonempty: "list_all has_zone_name zoneNames"
  by (simp add: zoneNames_def zoneNames_parts)

lemma zone_name_nonempty: "zoneNameFromID i \<noteq> []"
proof -
  have "s \<noteq> []" if "k < length zoneNames" "zoneNames ! k = Some (s, l)" for k s l
    using zoneNames_nonempty that by (auto simp: list_all_length has_zone_name_def split: option.splits)
  then show ?thesis by (auto simp: zoneNameFromID_def zone_name_def Let_def split: option.splits if_splits)
qed

section \<open>Announcements\<close>

fun begin_name :: "zone_event \<Rightarrow> string option" where
  "begin_name (ZoneBeginNamed s) = Some s"
| "begin_name _ = None"

definition profile_zone :: "bytes \<Rightarrow> u16" where
  "profile_zone d = ucast (cp_zoneId (fst (fillProfileStruct d)))"

fun leaves :: "zone_op \<Rightarrow> bool" where
  "leaves (ZEntry d dir) = True"
| "leaves (ZChange d dir) = True"
| "leaves _ = False"

fun stays :: "u16 \<Rightarrow> zone_op \<Rightarrow> bool" where
  "stays i (ZProfile d) \<longleftrightarrow> profile_zone d = i"
| "stays i (ZNew d) = True"
| "stays i _ = False"

lemma save_if_fst [simp]: "fst (save_if env (z, fs)) = z"
  by (simp add: save_if_def saveZoneState_def)

lemma zoneNew_keeps:
  assumes "zoneNew env d st = Some (st', es)" "z_shortZoneName (fst st) \<noteq> []" "take 3 (z_shortZoneName (fst st)) \<noteq> ''unk''"
  shows "z_shortZoneName (fst st') = z_shortZoneName (fst st) \<and> \<not> z_zoning (fst st') \<and> List.map_filter begin_name es = []"
  using assms by (cases st) (auto simp: zoneNew_def bind_Some_iff List.map_filter_simps)

lemma zonePlayer_effect:
  assumes "zonePlayer env d st = (st', es)"
  shows "z_shortZoneName (fst st') = zoneNameFromID (profile_zone d) \<and> \<not> z_zoning (fst st') \<and>
    List.map_filter begin_name es =
      (if z_shortZoneName (fst st) \<noteq> zoneNameFromID (profile_zone d) \<or> z_zoning (fst st) then [zoneNameFromID (profile_zone d)] else [])"
  using assms by (cases st) (auto simp: zonePlayer_def Let_def profile_zone_def List.map_filter_simps)

lemma stays_silent:
  assumes "run (zonemgr_step env) ops st = Some (st', es)" "list_all (stays i) ops" "take 3 (zoneNameFromID i) \<noteq> ''unk''"
    "z_shortZoneName (fst st) = zoneNameFromID i" "\<not> z_zoning (fst st)"
  shows "z_shortZoneName (fst st') = zoneNameFromID i \<and> List.map_filter begin_name es = []"
  using assms
proof (induction ops arbitrary: st es)
  case (Cons op ops)
  obtain s1 e1 e2 where s1: "zonemgr_step env op st = Some (s1, e1)" "run (zonemgr_step env) ops s1 = Some (st', e2)" "es = e1 @ e2"
    using Cons.prems(1) by (auto simp: bind_Some_iff)
  have "z_shortZoneName (fst s1) = zoneNameFromID i \<and> \<not> z_zoning (fst s1) \<and> List.map_filter begin_name e1 = []"
  proof (cases op)
    case (ZProfile d)
    then show ?thesis using zonePlayer_effect [of env d st s1 e1] s1(1) Cons.prems by simp
  next
    case (ZNew d)
    then show ?thesis using zoneNew_keeps [of env d st s1 e1] s1(1) Cons.prems zone_name_nonempty by simp
  qed (use Cons.prems(2) in simp_all)
  then show ?case using Cons.IH [OF s1(2)] Cons.prems s1(3) by (simp add: List.map_filter_def)
qed (simp add: List.map_filter_simps)

text \<open>C33: After the player leaves a zone, the next profile announces the zone it names, once: further profiles for the same zone and the
  packets with its description announce nothing, provided that the name of the zone does not begin with "unk".\<close>

theorem zone_begins_once:
  assumes "leaves op" "profile_zone d = i" "list_all (stays i) ops" "take 3 (zoneNameFromID i) \<noteq> ''unk''"
    "run (zonemgr_step env) (op # ZProfile d # ops) st = Some (st', es)"
  shows "List.map_filter begin_name es = [zoneNameFromID i] \<and> z_shortZoneName (fst st') = zoneNameFromID i"
proof -
  obtain s1 e1 s2 e2 e3 where r: "zonemgr_step env op st = Some (s1, e1)" "zonePlayer env d s1 = (s2, e2)"
    "run (zonemgr_step env) ops s2 = Some (st', e3)" "es = e1 @ e2 @ e3"
  proof -
    obtain s1 e1 es1 where r1: "zonemgr_step env op st = Some (s1, e1)" "run (zonemgr_step env) (ZProfile d # ops) s1 = Some (st', es1)" "es = e1 @ es1"
      using assms(5) by (auto simp: bind_Some_iff)
    obtain s2 e2 where p: "zonePlayer env d s1 = (s2, e2)" by (cases "zonePlayer env d s1")
    then obtain e3 where "run (zonemgr_step env) ops s2 = Some (st', e3)" "es1 = e2 @ e3" using r1(2) by (auto simp: bind_Some_iff)
    then show thesis using that r1 p by simp
  qed
  have l: "List.map_filter begin_name e1 = [] \<and> (z_shortZoneName (fst s1) = ''unknown'' \<or> z_zoning (fst s1))"
    using assms(1) r(1) by (cases op; cases st) (auto simp: zoneEntryClient_def zoneChange_def Let_def List.map_filter_simps bind_Some_iff)
  have "zoneNameFromID i \<noteq> ''unknown''" using assms(4) by auto
  then have "List.map_filter begin_name e2 = [zoneNameFromID i]" "z_shortZoneName (fst s2) = zoneNameFromID i" "\<not> z_zoning (fst s2)"
    using zonePlayer_effect [OF r(2)] l assms(2) by auto
  then show ?thesis using stays_silent [OF r(3) assms(3,4)] l r(4) by (simp add: List.map_filter_def)
qed

section \<open>The zone packet\<close>

lemma zn_text_written:
  assumes "ahead ns (t @ [0])" "0 \<notin> set t"
  shows "zn_text env i (ns, m) = (if z_utf8 env t \<noteq> [] then map_option (\<lambda>m1. (ns_skip (length t + 1) ns, m1)) (zn_strcpy i (z_latin1 env (z_utf8 env t)) m)
    else Some (ns_skip (length t + 1) ns, m))"
  using read_text_ahead [OF assms, of "z_utf8 env"] by (simp add: zn_text_def bind_Some_map)

lemma zn_strcpy_drop:
  assumes "zn_strcpy i src m = Some m1"
  shows "length m1 = length m" "\<And>k. k < length m \<Longrightarrow> k < i \<or> i + length (takeWhile (\<lambda>b. b \<noteq> 0) src) < k \<Longrightarrow> m1 ! k = m ! k"
    "drop i m1 = takeWhile (\<lambda>b. b \<noteq> 0) src @ 0 # drop (i + length (takeWhile (\<lambda>b. b \<noteq> 0) src) + 1) m"
  using assms by (auto simp: zn_strcpy_def Let_def nth_append split: if_splits)

lemma zoneNew_names:
  assumes "zoneNew env data (z, fs) = Some ((z', fs'), es)"
  obtains m r shortName longName where "zn_parse env data = Some (m, r)"
    "c_str (drop 64 m) = Some shortName" "c_str (drop 192 m) = Some longName" "z_longZoneName z' = z_utf8 env longName"
    "z_shortZoneName z' = (if z_shortZoneName z = [] \<or> take 3 (z_shortZoneName z) = ''unk''
       then short_name_fixed (z_utf8 env shortName) else z_shortZoneName z)"
proof -
  obtain m mult x y zz where p: "zn_parse env data = Some (m, mult, x, y, zz)"
    using assms by (cases "zn_parse env data") (auto simp: zoneNew_def)
  obtain px py pz where f: "float_coord x = Some px" "float_coord y = Some py" "float_coord zz = Some pz"
    using assms p by (cases "float_coord x"; cases "float_coord y"; cases "float_coord zz") (simp_all add: zoneNew_def)
  obtain shortName longName where n: "c_str (drop 64 m) = Some shortName" "c_str (drop 192 m) = Some longName"
    using assms p f by (cases "c_str (drop 64 m)"; cases "c_str (drop 192 m)") (simp_all add: zoneNew_def)
  show thesis by (rule that [OF p n]) (use assms p f n in \<open>auto simp: zoneNew_def save_if_def saveZoneState_def Let_def split: if_splits\<close>)
qed

lemma zn_parse_texts:
  assumes "zn_parse env data = Some (m, r)"
  obtains n1 m1 n2 m2 n3 where "zn_text env 64 (mkNetStream data (length data), replicate sizeof_newZoneStruct 0) = Some (n1, m1)"
    "zn_text env 192 (n1, m1) = Some (n2, m2)" "zn_text env 672 (skipBytes 2 n2, m2) = Some (n3, m)"
proof -
  obtain n1 m1 where 1: "zn_text env 64 (mkNetStream data (length data), replicate sizeof_newZoneStruct 0) = Some (n1, m1)"
    using assms by (cases "zn_text env 64 (mkNetStream data (length data), replicate sizeof_newZoneStruct 0)") (auto simp: zn_parse_def)
  obtain n2 m2 where 2: "zn_text env 192 (n1, m1) = Some (n2, m2)"
    using assms 1 by (cases "zn_text env 192 (n1, m1)") (auto simp: zn_parse_def)
  obtain n3 m3 where 3: "zn_text env 672 (skipBytes 2 n2, m2) = Some (n3, m3)"
    using assms 1 2 by (cases "zn_text env 672 (skipBytes 2 n2, m2)") (auto simp: zn_parse_def)
  have "m3 = m" using assms 1 2 3 by (auto simp: zn_parse_def bind_Some_iff)
  then show thesis using that 1 2 3 by simp
qed

lemma c_str_prefix: "0 \<notin> set s \<Longrightarrow> c_str (s @ 0 # r) = Some s"
  by (induction s) auto

text \<open>C34: The packet with the description of a zone is a structure that begins with the name of the character. The code reads it as a sequence of texts,
  so that the long name of the zone becomes empty, and where the short name is not known it becomes the name
  of the character.\<close>

theorem new_zone_named_after_character:
  assumes "zoneNew env (name @ 0 # 0 # rest) (z, fs) = Some ((z', fs'), es)" "0 \<notin> set name" "z_utf8 env [] = []" "z_utf8 env name \<noteq> []"
    "length (z_latin1 env (z_utf8 env name)) < 128"
  shows "z_longZoneName z' = [] \<and> z_shortZoneName z' =
    (if z_shortZoneName z = [] \<or> take 3 (z_shortZoneName z) = ''unk''
     then short_name_fixed (z_utf8 env (takeWhile (\<lambda>b. b \<noteq> 0) (z_latin1 env (z_utf8 env name)))) else z_shortZoneName z)"
proof -
  let ?data = "name @ 0 # 0 # rest"
  let ?ns = "mkNetStream ?data (length ?data)"
  let ?n1 = "ns_skip (length name + 1) ?ns"
  let ?src = "takeWhile (\<lambda>b. b \<noteq> 0) (z_latin1 env (z_utf8 env name))"
  have a1: "ahead ?ns (name @ [0])" by (simp add: ahead_def ns_ok_def mkNetStream_def)
  have a2: "ahead ?n1 ([] @ [0])" by (simp add: ahead_def ns_ok_def mkNetStream_def ns_skip_def)
  obtain m3 r shortName longName where c: "zn_parse env ?data = Some (m3, r)"
    "c_str (drop 64 m3) = Some shortName" "c_str (drop 192 m3) = Some longName" "z_longZoneName z' = z_utf8 env longName"
    "z_shortZoneName z' = (if z_shortZoneName z = [] \<or> take 3 (z_shortZoneName z) = ''unk''
       then short_name_fixed (z_utf8 env shortName) else z_shortZoneName z)"
    by (rule zoneNew_names [OF assms(1)])
  obtain n1 m1 n2 m2 n3 where t: "zn_text env 64 (?ns, replicate sizeof_newZoneStruct 0) = Some (n1, m1)"
    "zn_text env 192 (n1, m1) = Some (n2, m2)" "zn_text env 672 (skipBytes 2 n2, m2) = Some (n3, m3)"
    by (rule zn_parse_texts [OF c(1)])
  have m1: "zn_strcpy 64 (z_latin1 env (z_utf8 env name)) (replicate sizeof_newZoneStruct 0) = Some m1" "n1 = ?n1"
    using t(1) zn_text_written [OF a1 assms(2)] assms(4) by auto
  have "zn_text env 192 (?n1, m1) = Some (ns_skip 1 ?n1, m1)" using zn_text_written [OF a2] assms(3) by simp
  then have m3: "zn_text env 672 (skipBytes 2 n2, m1) = Some (n3, m3)" using t(2,3) m1(2) by simp
  have l: "length m1 = sizeof_newZoneStruct" using zn_strcpy_drop(1) [OF m1(1)] by simp
  have k: "length m3 = sizeof_newZoneStruct \<and> (\<forall>k < 672. m3 ! k = m1 ! k)"
    using m3 zn_strcpy_drop [of 672 _ m1 m3] l by (auto simp: zn_text_def bind_Some_iff sizeof_newZoneStruct_def split: if_splits)
  have s: "length ?src < 128" using length_takeWhile_le [of _ "z_latin1 env (z_utf8 env name)"] assms(5) by (rule le_less_trans)
  have "take 608 (drop 64 m3) = take 608 (drop 64 m1)"
    using k l by (intro nth_equalityI) (simp_all add: sizeof_newZoneStruct_def)
  moreover have "take 608 (drop 64 m1) = ?src @ 0 # replicate (607 - length ?src) 0"
    using zn_strcpy_drop(3) [OF m1(1)] s by (simp add: sizeof_newZoneStruct_def take_Cons')
  ultimately have "drop 64 m3 = (?src @ 0 # replicate (607 - length ?src) 0) @ drop 672 m3"
    using append_take_drop_id [of 608 "drop 64 m3"] by simp
  then have sh: "c_str (drop 64 m3) = Some ?src"
    using c_str_prefix [of ?src "replicate (607 - length ?src) 0 @ drop 672 m3"] by (auto dest: set_takeWhileD)
  have "drop 192 m3 = m3 ! 192 # drop 193 m3" using k Cons_nth_drop_Suc [of 192 m3] by (simp add: sizeof_newZoneStruct_def)
  moreover have "m3 ! 192 = 0"
    using k zn_strcpy_drop(2) [OF m1(1), of 192] s by (simp add: sizeof_newZoneStruct_def)
  ultimately have "longName = []" using c(3) by simp
  then show ?thesis using c(2,4,5) sh assms(3) by simp
qed

section \<open>The saved state\<close>

text \<open>The names of the zone that were saved are those a new manager begins with.\<close>

theorem zone_state_restored:
  assumes "z_writable env" "z_readable env" "text_ok (z_codec env) (z_longZoneName z)" "text_ok (z_codec env) (z_shortZoneName z)"
  shows "\<exists>z'. new_ZoneMgr env True (snd (saveZoneState env (z, fs))) = (z', snd (saveZoneState env (z, fs)))
    \<and> z_longZoneName z' = z_longZoneName z \<and> z_shortZoneName z' = z_shortZoneName z \<and> \<not> z_zoning z'"
  using assms rd_wr_string [OF assms(4), of "[]"]
  by (simp add: new_ZoneMgr_def saveZoneState_def restoreZoneState_def Let_def rd_wr_string)

section \<open>Samples\<close>

definition sample_codec :: ds_codec where
  "sample_codec = \<lparr>ds_units = map (\<lambda>c. of_nat (of_char c)), ds_text = map (\<lambda>u. char_of (unat u))\<rparr>"

lemma sample_text_ok: "length s < 1000 \<Longrightarrow> text_ok sample_codec s"
proof -
  have "char_of (unat (of_nat (of_char c) :: u16)) = c" for c :: char
  proof -
    have "(of_char c :: nat) < 256" by (rule nat_of_char_less_256)
    then have "(of_char c :: nat) mod 2 ^ 16 = of_char c" by (intro mod_less) (rule less_le_trans, assumption, simp)
    then show ?thesis by (simp add: unat_of_nat)
  qed
  then show "length s < 1000 \<Longrightarrow> text_ok sample_codec s" by (simp add: text_ok_def sample_codec_def comp_def)
qed

definition sample_zone_env :: zone_env where
  "sample_zone_env = \<lparr>z_utf8 = map latin1, z_latin1 = map (\<lambda>c. of_nat (of_char c)), z_codec = sample_codec, z_file = ''Zone.dat'',
     z_save = True, z_writable = True, z_readable = True\<rparr>"

definition sample_zone :: ZoneMgr where
  "sample_zone = \<lparr>z_longZoneName = ''unknown'', z_shortZoneName = ''unknown'', z_zoning = False,
     z_safePoint = \<lparr>pt_x = 0, pt_y = 0, pt_z = 0\<rparr>, z_exp_multiplier = 0\<rparr>"

theorem zone_state_restored_witness:
  "\<exists>z'. new_ZoneMgr sample_zone_env True (snd (saveZoneState sample_zone_env (sample_zone, Map.empty)))
      = (z', snd (saveZoneState sample_zone_env (sample_zone, Map.empty)))
    \<and> z_longZoneName z' = z_longZoneName sample_zone \<and> z_shortZoneName z' = z_shortZoneName sample_zone \<and> \<not> z_zoning z'"
  by (rule zone_state_restored) (simp_all add: sample_zone_env_def sample_zone_def sample_text_ok)

text \<open>An empty profile names zone 0, which has no name in the table.\<close>

definition qeynos_change :: bytes where "qeynos_change = replicate 64 0 @ [1, 0] @ replicate 10 0"

lemma qeynos_name: "zoneNameFromID 1 = ''qeynos''"
  by (simp add: zoneNameFromID_def zone_name_def zoneNames_def zoneNames0_def zoneNames1_def)

lemma qeynos_profile: "profile_zone (replicate 3444 0 @ [1, 0, 0, 0] @ replicate 5012 0) = 1"
proof -
  have "take 4 (drop 3444 (take 8460 (replicate 3444 0 @ [1, 0, 0, 0] @ replicate 5012 0))) = [1, 0, 0, 0 :: u8]"
    by simp
  then show ?thesis by (simp add: profile_zone_def fillProfileStruct_def profile_fields_def u32_at_def sizeof_charProfileStruct_def)
qed

theorem zone_begins_once_witness:
  "\<exists>st' es. run (zonemgr_step sample_zone_env) (ZChange qeynos_change 2 # ZProfile (replicate 3444 0 @ [1, 0, 0, 0] @ replicate 5012 0)
      # [ZProfile (replicate 3444 0 @ [1, 0, 0, 0] @ replicate 5012 0)]) (sample_zone, Map.empty) = Some (st', es)
    \<and> List.map_filter begin_name es = [''qeynos''] \<and> z_shortZoneName (fst st') = ''qeynos''"
proof -
  let ?p = "replicate 3444 0 @ [1, 0, 0, 0] @ replicate 5012 0 :: bytes"
  obtain s1 e1 where c: "zonemgr_step sample_zone_env (ZChange qeynos_change 2) (sample_zone, Map.empty) = Some (s1, e1)"
    by (simp add: zoneChange_def qeynos_change_def rd_range_Some Let_def)
  obtain st' es where r: "run (zonemgr_step sample_zone_env) [ZChange qeynos_change 2, ZProfile ?p, ZProfile ?p] (sample_zone, Map.empty) = Some (st', es)"
    using c by (cases "zonePlayer sample_zone_env ?p s1"; cases "zonePlayer sample_zone_env ?p (fst (zonePlayer sample_zone_env ?p s1))") auto
  have "List.map_filter begin_name es = [zoneNameFromID 1] \<and> z_shortZoneName (fst st') = zoneNameFromID 1"
    by (rule zone_begins_once [OF _ _ _ _ r]) (simp_all only: leaves.simps qeynos_profile qeynos_name stays.simps list.pred_inject, simp_all)
  then show ?thesis using r by (simp only: qeynos_name) blast
qed

text \<open>The character Bo in a zone that is not known (the packet is cut; what is behind its end reads as 0).\<close>

abbreviation bo_at :: "nat \<Rightarrow> netstream" where "bo_at i \<equiv> \<lparr>ns_data = [66, 111, 0, 0], ns_length = 4, ns_pos = i\<rparr>"

lemma bo_reads:
  "readText (map latin1) (bo_at 0) = Some (''Bo'', bo_at 3)"
  "readText (map latin1) (bo_at 3) = Some ([], bo_at 4)" "skipBytes 2 (bo_at 4) = bo_at 4" "readText (map latin1) (bo_at 4) = Some ([], bo_at 4)"
  "skipBytes 90 (bo_at 4) = bo_at 4" "readUInt32NC (bo_at 4) = Some (0, bo_at 4)" "skipBytes 28 (bo_at 4) = bo_at 4"
  by code_simp+

lemma bo_start: "mkNetStream [66, 111, 0, 0] (Suc (Suc (Suc (Suc 0)))) = bo_at 0" by (simp add: mkNetStream_def)

lemma float_coord_0: "float_coord 0 = Some 0"
  by (simp add: float_coord_def float_round_def float_finite_def float_mantissa_def float_exponent_def)

lemma bo_zone: "\<exists>r. zoneNew sample_zone_env [66, 111, 0, 0] (sample_zone, Map.empty) = Some r"
proof -
  let ?m = "replicate 64 0 @ [66, 111, 0] @ replicate 869 0 :: bytes"
  have "zn_strcpy 64 [66, 111] (replicate sizeof_newZoneStruct 0) = Some ?m"
    by (simp add: zn_strcpy_def sizeof_newZoneStruct_def)
  then have "zn_parse sample_zone_env [66, 111, 0, 0] = Some (?m, 0, 0, 0, 0)"
    by (simp add: zn_parse_def zn_text_def sample_zone_env_def bo_reads bo_start)
  moreover have "c_str (drop 64 ?m) = Some [66, 111]" by simp
  moreover have "drop 192 ?m = 0 # replicate 743 0" by (simp add: drop_replicate numeral_eq_Suc)
  then have "c_str (drop 192 ?m) = Some []" by simp
  ultimately show ?thesis by (simp add: zoneNew_def float_coord_0 Let_def)
qed

theorem new_zone_named_after_character_witness:
  "\<exists>z' fs' es. zoneNew sample_zone_env ([66, 111] @ 0 # 0 # []) (sample_zone, Map.empty) = Some ((z', fs'), es)
    \<and> z_longZoneName z' = [] \<and> z_shortZoneName z' = ''Bo''"
proof -
  obtain z' fs' es where r: "zoneNew sample_zone_env ([66, 111] @ 0 # 0 # []) (sample_zone, Map.empty) = Some ((z', fs'), es)"
    using bo_zone by auto
  have "z_utf8 sample_zone_env [66, 111] = ''Bo''" "z_utf8 sample_zone_env [] = []" "z_latin1 sample_zone_env ''Bo'' = [66, 111]"
    "short_name_fixed ''Bo'' = ''Bo''"
    by code_simp+
  then show ?thesis using new_zone_named_after_character [OF r] r by (auto simp: sample_zone_def)
qed

end
