(* ===== verification/ConTable.thy ===== *)
theory ConTable
  imports SeqColor Motion
begin

text \<open>
  The table of colours of \<open>src/src/player.cpp\<close>: for every level of a spawn the colour that compares it with the level of the player
  (\<open>Player::fillConTable\<close>). The table has 255 entries and the index 8 bits; a store behind the table is \<open>None\<close>,
  so the index never wraps. A sum that leaves \<open>int\<close> is \<open>None\<close> too.
\<close>

definition maxSpawnLevel :: nat where "maxSpawnLevel = 255"

definition tGraySpawn :: nat where "tGraySpawn = 0"
definition tGreenSpawn :: nat where "tGreenSpawn = 1"
definition tCyanSpawn :: nat where "tCyanSpawn = 2"
definition tBlueSpawn :: nat where "tBlueSpawn = 3"
definition tEvenSpawn :: nat where "tEvenSpawn = 4"
definition tYellowSpawn :: nat where "tYellowSpawn = 5"
definition tRedSpawn :: nat where "tRedSpawn = 6"
definition tUnknownSpawn :: nat where "tUnknownSpawn = 7"
definition tMaxColorLevels :: nat where "tMaxColorLevels = 8"

lemmas color_levels = tGraySpawn_def tGreenSpawn_def tCyanSpawn_def tBlueSpawn_def tEvenSpawn_def tYellowSpawn_def tRedSpawn_def
  tUnknownSpawn_def tMaxColorLevels_def

type_synonym con_table = "SeqColor list"

definition con_ranges :: "int \<Rightarrow> int \<times> int" where
  "con_ranges level =
     (if level < 15 then (-6, -14) else if level < 17 then (-7, -5) else if level < 21 then (-8, -6)
      else if level < 25 then (-9, -7) else if level < 29 then (-10, -8) else if level < 33 then (-11, -9)
      else if level < 37 then (-13, -10) else if level < 41 then (-14, -11) else if level < 45 then (-16, -12)
      else if level < 49 then (-17, -13) else if level < 53 then (-18, -14) else if level < 57 then (-20, -15)
      else (-21, -16))"

text \<open>One of the loops: the entries below a bound get a colour that may change with every entry.\<close>

function con_loop :: "('r \<Rightarrow> SeqColor) \<Rightarrow> ('r \<Rightarrow> 'r) \<Rightarrow> int \<Rightarrow> 'r \<times> nat \<times> con_table \<Rightarrow> ('r \<times> nat \<times> con_table) option" where
  "con_loop color_of next bound (r, spawnLevel, t) =
     (if int spawnLevel < bound
      then if spawnLevel < length t
           then con_loop color_of next bound (next r, spawnLevel + 1, t[spawnLevel := color_of r])
           else None
      else Some (r, spawnLevel, t))"
  by pat_completeness auto
termination by (relation "measure (\<lambda>(c, n, bound, r, s, t). nat (bound - int s))") auto

declare con_loop.simps [simp del]

definition con_store :: "SeqColor \<Rightarrow> 'r \<times> nat \<times> con_table \<Rightarrow> ('r \<times> nat \<times> con_table) option" where
  "con_store c = (\<lambda>(r, spawnLevel, t). if spawnLevel < length t then Some (r, spawnLevel + 1, t[spawnLevel := c]) else None)"

definition plain_loop :: "SeqColor \<Rightarrow> int \<Rightarrow> 'r \<times> nat \<times> con_table \<Rightarrow> ('r \<times> nat \<times> con_table) option" where
  "plain_loop c = con_loop (\<lambda>r. c) (\<lambda>r. r)"

definition red_step :: "u8 \<Rightarrow> u8" where
  "red_step redBase = (if redBase > 155 then - 25 else 25)"

definition red_of :: "SeqColor list \<Rightarrow> u8 \<Rightarrow> SeqColor" where
  "red_of bases redColor = rgb redColor (col_g (bases ! tRedSpawn)) (col_b (bases ! tRedSpawn))"

definition con_fill :: "SeqColor list \<Rightarrow> int \<Rightarrow> con_table \<Rightarrow> con_table option" where
  "con_fill bases level t0 = do {
     let redBase = col_r (bases ! tRedSpawn);
     let redColor = redBase + red_step redBase * 4;
     grayEnd \<leftarrow> c_int (fst (con_ranges level) + level);
     greenEnd \<leftarrow> c_int (snd (con_ranges level) + level);
     s1 \<leftarrow> plain_loop (bases ! tGraySpawn) (grayEnd + 1) (redColor, 1, t0);
     s2 \<leftarrow> plain_loop (bases ! tGreenSpawn) (greenEnd + 1) s1;
     s3 \<leftarrow> plain_loop (bases ! tCyanSpawn) (level - 5) s2;
     s4 \<leftarrow> plain_loop (bases ! tBlueSpawn) level s3;
     s5 \<leftarrow> con_store (bases ! tEvenSpawn) s4;
     s6 \<leftarrow> plain_loop (bases ! tYellowSpawn) (level + 4) s5;
     s7 \<leftarrow> con_loop (red_of bases) (\<lambda>r. r - red_step redBase) (level + 8) s6;
     (r, n, t) \<leftarrow> con_loop (red_of bases) (\<lambda>r. r) (int maxSpawnLevel) s7;
     Some (t[0 := bases ! tUnknownSpawn])
   }"

definition pickConColor :: "con_table \<Rightarrow> nat \<Rightarrow> SeqColor option" where
  "pickConColor t otherSpawnLevel = nth_opt t otherSpawnLevel"

section \<open>What the table holds\<close>

text \<open>The colour by the difference of the levels.\<close>

definition con_color :: "SeqColor list \<Rightarrow> int \<Rightarrow> int \<Rightarrow> SeqColor" where
  "con_color bases level s =
     (let d = s - level; redBase = col_r (bases ! tRedSpawn) in
      if d \<le> fst (con_ranges level) then bases ! tGraySpawn
      else if d \<le> snd (con_ranges level) then bases ! tGreenSpawn
      else if d < -5 then bases ! tCyanSpawn
      else if d < 0 then bases ! tBlueSpawn
      else if d = 0 then bases ! tEvenSpawn
      else if d < 4 then bases ! tYellowSpawn
      else if d < 8 then red_of bases (redBase + red_step redBase * of_int (8 - d))
      else red_of bases redBase)"

lemma con_loop_Some:
  assumes "con_loop f g bound (r, s, t) = Some (r', s', t')"
  shows "length t' = length t \<and> s \<le> s' \<and> (int s < bound \<longrightarrow> int s' = bound) \<and> (bound \<le> int s \<longrightarrow> s' = s) \<and> r' = (g ^^ (s' - s)) r
    \<and> (\<forall>i. t' ! i = (if s \<le> i \<and> i < s' then f ((g ^^ (i - s)) r) else t ! i))"
  using assms
proof (induction f g bound "(r, s, t)" arbitrary: r s t rule: con_loop.induct)
  case (1 f g bound r s t)
  show ?case
  proof (cases "int s < bound")
    case True
    then have st: "s < length t" "con_loop f g bound (g r, s + 1, t[s := f r]) = Some (r', s', t')"
      using "1.prems" by (auto simp: con_loop.simps [of f g bound r s t] split: if_splits)
    note ih = "1.hyps" [OF True st]
    have le: "s + 1 \<le> s'" using ih by blast
    then have shift: "(g ^^ (i - s)) r = (g ^^ (i - (s + 1))) (g r)" if "s < i" for i
      using that by (cases "i - s") (auto simp: funpow_swap1 diff_Suc split: nat.splits)
    have "t' ! i = (if s \<le> i \<and> i < s' then f ((g ^^ (i - s)) r) else t ! i)" for i
      using ih le st shift [of i] by (cases "i = s") auto
    moreover have "r' = (g ^^ (s' - s)) r" using ih le shift [of s'] by auto
    ultimately show ?thesis using ih le True by auto
  next
    case False
    then show ?thesis using "1.prems" by (auto simp: con_loop.simps [of f g bound r s t])
  qed
qed

lemma con_loop_defined:
  assumes "bound \<le> int (length t)"
  shows "\<exists>r' s' t'. con_loop f g bound (r, s, t) = Some (r', s', t')"
  using assms
proof (induction f g bound "(r, s, t)" arbitrary: r s t rule: con_loop.induct)
  case (1 f g bound r s t)
  then show ?case by (cases "int s < bound") (simp_all add: con_loop.simps [of f g bound r s t])
qed


lemma con_store_Some:
  "con_store c (r, s, t) = Some (r', s', t') \<longleftrightarrow> s < length t \<and> r' = r \<and> s' = s + 1 \<and> t' = t[s := c]"
  by (auto simp: con_store_def)

definition filled :: "(nat \<Rightarrow> SeqColor) \<Rightarrow> nat \<Rightarrow> con_table \<Rightarrow> bool" where
  "filled col n t \<longleftrightarrow> length t = maxSpawnLevel \<and> (\<forall>i. 1 \<le> i \<and> i < n \<longrightarrow> t ! i = col i)"

lemma con_loop_fills:
  assumes "con_loop f g bound (r, s, t) = Some (r', s', t')" "filled col s t"
    "\<And>i. s \<le> i \<Longrightarrow> int i < bound \<Longrightarrow> f ((g ^^ (i - s)) r) = col i"
  shows "filled col s' t'" "int s' = max (int s) bound" "r' = (g ^^ (s' - s)) r"
proof -
  note c = con_loop_Some [OF assms(1)]
  show p: "int s' = max (int s) bound" using c by auto
  then show "filled col s' t'" using c assms(2,3) by (auto simp: filled_def)
  show "r' = (g ^^ (s' - s)) r" using c by blast
qed

lemma con_loop_runs:
  assumes "bound \<le> int maxSpawnLevel" "filled col s t" "\<And>i. s \<le> i \<Longrightarrow> int i < bound \<Longrightarrow> f ((g ^^ (i - s)) r) = col i"
  shows "\<exists>s' t'. con_loop f g bound (r, s, t) = Some ((g ^^ (s' - s)) r, s', t') \<and> filled col s' t' \<and> int s' = max (int s) bound"
proof -
  have "bound \<le> int (length t)" using assms(1,2) by (simp add: filled_def)
  then obtain r' s' t' where l: "con_loop f g bound (r, s, t) = Some (r', s', t')"
    using con_loop_defined [of bound t f g r s] by blast
  then show ?thesis using con_loop_fills [OF l assms(2,3)] by auto
qed

lemma plain_loop_runs:
  assumes "bound \<le> int maxSpawnLevel" "filled col s t" "\<And>i. s \<le> i \<Longrightarrow> int i < bound \<Longrightarrow> c = col i"
  shows "\<exists>s' t'. plain_loop c bound (r, s, t) = Some (r, s', t') \<and> filled col s' t' \<and> int s' = max (int s) bound"
proof -
  have "((\<lambda>r. r) ^^ n) r = r" for n and r :: 'a by (induction n) simp_all
  then show ?thesis using con_loop_runs [of bound col s t "\<lambda>r. c" "\<lambda>r. r" r] assms by (simp add: plain_loop_def)
qed

definition in_table :: "'r \<times> nat \<times> con_table \<Rightarrow> bool" where
  "in_table = (\<lambda>(r, s, t). length t = maxSpawnLevel \<and> s \<le> maxSpawnLevel)"

lemma con_loop_in_table:
  assumes "con_loop f g bound (r, s, t) = Some x" "in_table (r, s, t)"
  shows "in_table x \<and> bound \<le> int maxSpawnLevel"
  using assms
proof (induction f g bound "(r, s, t)" arbitrary: r s t rule: con_loop.induct)
  case (1 f g bound r s t)
  then show ?case by (auto simp: con_loop.simps [of f g bound r s t] in_table_def split: if_splits)
qed

lemma plain_loop_in_table: "plain_loop c bound x = Some y \<Longrightarrow> in_table x \<Longrightarrow> in_table y"
  by (cases x) (simp add: plain_loop_def con_loop_in_table)

lemma con_store_in_table: "con_store c x = Some y \<Longrightarrow> in_table x \<Longrightarrow> in_table y"
  by (cases x) (auto simp: con_store_def in_table_def split: if_splits)

lemma con_ranges_bounds: "-21 \<le> fst (con_ranges level)" "fst (con_ranges level) \<le> -6" "-16 \<le> snd (con_ranges level)" "snd (con_ranges level) \<le> -5"
  by (simp_all add: con_ranges_def)

lemma minus_power: "((\<lambda>r. r - c) ^^ n) (r :: u8) = r - of_nat n * c"
  by (induction n) (simp_all add: algebra_simps)

lemma con_color_parts:
  fixes bases level
  defines "gr \<equiv> fst (con_ranges level)" and "gn \<equiv> snd (con_ranges level)" and "base \<equiv> col_r (bases ! tRedSpawn)"
  shows "s \<le> gr + level \<Longrightarrow> con_color bases level s = bases ! tGraySpawn"
    "gr + level < s \<Longrightarrow> s \<le> gn + level \<Longrightarrow> con_color bases level s = bases ! tGreenSpawn"
    "gr + level < s \<Longrightarrow> gn + level < s \<Longrightarrow> s < level - 5 \<Longrightarrow> con_color bases level s = bases ! tCyanSpawn"
    "gr + level < s \<Longrightarrow> gn + level < s \<Longrightarrow> level - 5 \<le> s \<Longrightarrow> s < level \<Longrightarrow> con_color bases level s = bases ! tBlueSpawn"
    "con_color bases level level = bases ! tEvenSpawn"
    "level < s \<Longrightarrow> s < level + 4 \<Longrightarrow> con_color bases level s = bases ! tYellowSpawn"
    "level + 4 \<le> s \<Longrightarrow> s < level + 8 \<Longrightarrow> con_color bases level s = red_of bases (base + red_step base * of_int (8 - (s - level)))"
    "level + 8 \<le> s \<Longrightarrow> con_color bases level s = red_of bases base"
  using con_ranges_bounds [of level] by (simp_all add: con_color_def Let_def gr_def gn_def base_def)

text \<open>The table for a level the table has room for.\<close>

lemma con_fill_exact:
  assumes "1 \<le> level" "level < 248" "length t0 = maxSpawnLevel"
  shows "\<exists>t. con_fill bases level t0 = Some t \<and> length t = maxSpawnLevel \<and> t ! 0 = bases ! tUnknownSpawn
    \<and> (\<forall>s. 1 \<le> s \<and> s < maxSpawnLevel \<longrightarrow> t ! s = con_color bases level (int s))"
proof -
  let ?col = "\<lambda>i. con_color bases level (int i)"
  define gr gn where "gr = fst (con_ranges level)" and "gn = snd (con_ranges level)"
  define base where "base = col_r (bases ! tRedSpawn)"
  define red where "red = base + red_step base * 4"
  have b: "-21 \<le> gr" "gr \<le> -6" "-16 \<le> gn" "gn \<le> -5" using con_ranges_bounds by (simp_all add: gr_def gn_def)
  have m: "int maxSpawnLevel = 255" by (simp add: maxSpawnLevel_def)
  note col = con_color_parts [where bases = bases and level = level, folded gr_def gn_def base_def]
  have "filled ?col 1 t0" using assms by (simp add: filled_def)
  then obtain s1 t1 where 1: "plain_loop (bases ! tGraySpawn) (gr + level + 1) (red, 1, t0) = Some (red, s1, t1)" "filled ?col s1 t1"
      "int s1 = max (int 1) (gr + level + 1)"
    using plain_loop_runs [of "gr + level + 1" ?col 1 t0 "bases ! tGraySpawn" red] col(1) assms b m by fastforce
  then obtain s2 t2 where 2: "plain_loop (bases ! tGreenSpawn) (gn + level + 1) (red, s1, t1) = Some (red, s2, t2)" "filled ?col s2 t2"
      "int s2 = max (int s1) (gn + level + 1)"
    using plain_loop_runs [of "gn + level + 1" ?col s1 t1 "bases ! tGreenSpawn" red] col(2) assms b m by fastforce
  have l2: "gr + level < int s2" "gn + level < int s2" "int s2 \<le> level" using 1(3) 2(3) b assms by auto
  then obtain s3 t3 where 3: "plain_loop (bases ! tCyanSpawn) (level - 5) (red, s2, t2) = Some (red, s3, t3)" "filled ?col s3 t3"
      "int s3 = max (int s2) (level - 5)"
    using plain_loop_runs [of "level - 5" ?col s2 t2 "bases ! tCyanSpawn" red] 2(2) col(3) assms m by fastforce
  have l3: "gr + level < int s3" "gn + level < int s3" "level - 5 \<le> int s3" "int s3 \<le> level" using l2 3(3) by auto
  then obtain s4 t4 where 4: "plain_loop (bases ! tBlueSpawn) level (red, s3, t3) = Some (red, s4, t4)" "filled ?col s4 t4"
      "int s4 = max (int s3) level"
    using plain_loop_runs [of level ?col s3 t3 "bases ! tBlueSpawn" red] 3(2) col(4) assms m by fastforce
  have l4: "int s4 = level" using 4(3) l3 by simp
  define t5 where "t5 = t4[s4 := bases ! tEvenSpawn]"
  have 5: "con_store (bases ! tEvenSpawn) (red, s4, t4) = Some (red, s4 + 1, t5)" "filled ?col (s4 + 1) t5"
    using 4(2) l4 assms m col(5) by (auto simp: con_store_def t5_def filled_def less_Suc_eq)
  obtain s6 t6 where 6: "plain_loop (bases ! tYellowSpawn) (level + 4) (red, s4 + 1, t5) = Some (red, s6, t6)" "filled ?col s6 t6"
      "int s6 = max (int (s4 + 1)) (level + 4)"
    using plain_loop_runs [OF _ 5(2), of "level + 4" "bases ! tYellowSpawn" red] col(6) assms m l4 by fastforce
  have l6: "int s6 = level + 4" using 6(3) l4 by simp
  let ?g = "\<lambda>r. r - red_step base"
  have reds: "(?g ^^ n) red = base + red_step base * (4 - of_nat n)" for n
    by (simp add: minus_power red_def algebra_simps)
  have "red_of bases ((?g ^^ (i - s6)) red) = ?col i" if "s6 \<le> i" "int i < level + 8" for i
  proof -
    have "4 - int (i - s6) = 8 - (int i - level)" using that l6 by simp
    moreover have "(4 - of_nat (i - s6) :: u8) = of_int (4 - int (i - s6))" by simp
    ultimately have "(4 - of_nat (i - s6) :: u8) = of_int (8 - (int i - level))" by (simp only:)
    then show ?thesis using that l6 col(7) [of "int i"] by (simp only: reds)
  qed
  then obtain s7 t7 where 7: "con_loop (red_of bases) ?g (level + 8) (red, s6, t6) = Some ((?g ^^ (s7 - s6)) red, s7, t7)" "filled ?col s7 t7"
      "int s7 = max (int s6) (level + 8)"
    using con_loop_runs [OF _ 6(2), of "level + 8" "red_of bases" ?g red] assms m by fastforce
  have l7: "s7 - s6 = 4" "int s7 = level + 8" using 7(3) l6 by simp_all
  have r7: "(?g ^^ (s7 - s6)) red = base" using l7 by (simp add: reds)
  have id: "((\<lambda>r. r) ^^ n) base = base" for n by (induction n) simp_all
  obtain s8 t8 where 8: "con_loop (red_of bases) (\<lambda>r. r) 255 (base, s7, t7) = Some (base, s8, t8)" "filled ?col s8 t8" "int s8 = max (int s7) 255"
    using con_loop_runs [OF _ 7(2), of 255 "red_of bases" "\<lambda>r. r" base] col(8) l7 m id by fastforce
  have i: "c_int (gr + level) = Some (gr + level)" "c_int (gn + level) = Some (gn + level)" using b assms by (simp_all add: c_int_def)
  have "con_fill bases level t0 = Some (t8[0 := bases ! tUnknownSpawn])"
    unfolding con_fill_def Let_def gr_def [symmetric] gn_def [symmetric] base_def [symmetric] red_def [symmetric] m
    using 1(1) 2(1) 3(1) 4(1) 5(1) 6(1) 7(1) 8(1) i r7 by simp
  moreover have "255 \<le> s8" using 8(3) by simp
  ultimately show ?thesis using 8(2) m by (auto simp: filled_def)
qed

text \<open>For a higher level the loops run behind the table.\<close>

lemma con_fill_overruns:
  assumes "248 \<le> level" "length t0 = maxSpawnLevel"
  shows "con_fill bases level t0 = None"
proof (rule ccontr)
  assume "con_fill bases level t0 \<noteq> None"
  then obtain t where "con_fill bases level t0 = Some t" by blast
  then obtain red a b s1 s2 s3 s4 s5 s6 s7 where
      s: "plain_loop (bases ! tGraySpawn) a (red, 1, t0) = Some s1" "plain_loop (bases ! tGreenSpawn) b s1 = Some s2"
      "plain_loop (bases ! tCyanSpawn) (level - 5) s2 = Some s3" "plain_loop (bases ! tBlueSpawn) level s3 = Some s4"
      "con_store (bases ! tEvenSpawn) s4 = Some s5" "plain_loop (bases ! tYellowSpawn) (level + 4) s5 = Some s6"
      and 7: "con_loop (red_of bases) (\<lambda>r. r - red_step (col_r (bases ! tRedSpawn))) (level + 8) s6 = Some s7"
    unfolding con_fill_def Let_def bind_Some_iff by (elim exE conjE) (rule that)
  have "in_table (red, 1, t0)" using assms(2) by (simp add: in_table_def maxSpawnLevel_def)
  then have "in_table s4" using s(1-4) by (meson plain_loop_in_table)
  then have "in_table s6" using s(5,6) by (meson plain_loop_in_table con_store_in_table)
  then obtain r n u where s6: "s6 = (r, n, u)" "in_table (r, n, u)" by (cases s6) auto
  have "level + 8 \<le> int maxSpawnLevel" using con_loop_in_table [OF 7 [unfolded s6(1)] s6(2)] by simp
  then show False using assms(1) by (simp add: maxSpawnLevel_def)
qed

end
