(* ===== verification/CalcExp.thy ===== *)
theory CalcExp
  imports Prelude Complex_Main
begin

text \<open>
  \<open>calc_exp\<close> and \<open>calcMaxMana\<close> of \<open>src/src/util.cpp\<close>. The experience of a level is computed in single precision, some of its factors in double
  precision: a number is its mantissa and its power of two, and every operation rounds to the nearest number with the bits of
  its format, ties to even. The numbers stay far from the limits of the exponents. The result is \<open>None\<close>
  where the code has no defined one: the product of the levels leaves \<open>int\<close>, or the number does not fit \<open>uint32_t\<close>.
\<close>

section \<open>Floating point numbers\<close>

type_synonym fl = "nat \<times> int"

fun bit_len :: "nat \<Rightarrow> nat" where
  "bit_len n = (if n = 0 then 0 else Suc (bit_len (n div 2)))"

declare bit_len.simps [simp del]

definition nearest_even :: "nat \<Rightarrow> nat \<Rightarrow> nat" where
  "nearest_even n d = (let q = n div d; r = n mod d in if 2 * r > d \<or> (2 * r = d \<and> odd q) then q + 1 else q)"

definition fl_round :: "nat \<Rightarrow> fl \<Rightarrow> fl" where
  "fl_round p = (\<lambda>(m, e). let b = bit_len m in
     if b \<le> p then (m * 2 ^ (p - b), e - int (p - b)) else (nearest_even m (2 ^ (b - p)), e + int (b - p)))"

definition fl_mul :: "nat \<Rightarrow> fl \<Rightarrow> fl \<Rightarrow> fl" where
  "fl_mul p x y = fl_round p (fst x * fst y, snd x + snd y)"

definition fl_add :: "nat \<Rightarrow> fl \<Rightarrow> fl \<Rightarrow> fl" where
  "fl_add p x y = (let e = min (snd x) (snd y) in
     fl_round p (fst x * 2 ^ nat (snd x - e) + fst y * 2 ^ nat (snd y - e), e))"

definition fl_trunc :: "fl \<Rightarrow> nat" where
  "fl_trunc = (\<lambda>(m, e). if 0 \<le> e then m * 2 ^ nat e else m div 2 ^ nat (- e))"

definition single :: nat where "single = 24"
definition double :: nat where "double = 53"

text \<open>\<open>exp *= k\<close> for an \<open>int\<close> and for a \<open>double\<close>.\<close>

definition times_int :: "nat \<Rightarrow> fl \<Rightarrow> fl" where "times_int k x = fl_mul single x (k, 0)"
definition times_double :: "fl \<Rightarrow> fl \<Rightarrow> fl" where "times_double c x = fl_round single (fl_mul double x c)"

text \<open>The numbers 0.2 and 9.05 in double precision; 10.5, 11.5 and 9.5 are exact.\<close>

definition d0_2 :: fl where "d0_2 = (3602879701896397, -54)"
definition d9_05 :: fl where "d9_05 = (2547348539231437, -48)"
definition d10_5 :: fl where "d10_5 = (21, -1)"
definition d11_5 :: fl where "d11_5 = (23, -1)"
definition d9_5 :: fl where "d9_5 = (19, -1)"

section \<open>Experience\<close>

text \<open>The factor of a level, for levels that are not negative.\<close>

definition level_mod :: "nat \<Rightarrow> fl \<Rightarrow> fl" where
  "level_mod level =
     (if level < 30 then times_int 10
      else if level < 50 then times_double (fl_add double (10, 0) (fl_mul double (level - 29, 0) d0_2))
      else if level < 51 then times_int 14 else if level < 52 then times_int 15 else if level < 53 then times_int 16
      else if level < 54 then times_int 17 else if level < 55 then times_int 19 else if level < 56 then times_int 21
      else if level < 57 then times_int 23 else if level < 58 then times_int 25 else if level < 59 then times_int 27
      else if level < 61 then times_int 30 else if level < 62 then times_int 32 else if level < 63 then times_int 34
      else if level < 64 then times_int 36 else if level < 65 then times_int 38 else times_int 40)"

definition race_mod :: "u16 \<Rightarrow> fl \<Rightarrow> fl" where
  "race_mod race =
     (if race = 2 then times_double d10_5 else if race = 9 then times_int 12 else if race = 10 then times_double d11_5
      else if race = 11 then times_double d9_5 else if race = 128 then times_int 12 else times_int 10)"

definition class_mod :: "u8 \<Rightarrow> fl \<Rightarrow> fl" where
  "class_mod cls =
     (if cls = 1 then times_int 9 else if cls \<in> {3, 4, 5, 8} then times_int 14 else if cls = 7 then times_int 12
      else if cls = 9 then times_double d9_05 else if cls \<in> {11, 12, 13, 14} then times_int 11 else times_int 10)"

text \<open>A negative level gives a negative number, which has no \<open>uint32_t\<close>.\<close>

definition calc_exp :: "int \<Rightarrow> u16 \<Rightarrow> u8 \<Rightarrow> u32 option" where
  "calc_exp level race cls =
     (if level < 0 \<or> level * level * level \<ge> 2 ^ 31 then None
      else let v = fl_trunc (class_mod cls (race_mod race (level_mod (nat level) (fl_round single (nat level ^ 3, 0)))))
           in if v < 2 ^ 32 then Some (of_nat v) else None)"

section \<open>Mana\<close>

definition calcMaxMana :: "int \<Rightarrow> int \<Rightarrow> u8 \<Rightarrow> int \<Rightarrow> int" where
  "calcMaxMana intel wisdom daclass level =
     (if daclass \<in> {2, 3, 6, 10} then (wisdom div 5 + 2) * level
      else if daclass \<in> {8, 5, 11, 12, 13, 14} then (intel div 5 + 2) * level
      else 0)"

end
