(* ===== verification/PlayerStats.thy ===== *)
theory PlayerStats
  imports ConTable CalcExp Spawn ZoneMgr Guild MessageFilter
begin

text \<open>
  \<open>src/src/player.h\<close> and \<open>src/src/player.cpp\<close>: the player's character. It extends the identity that the spawn shell sees
  (\<open>Player\<close> of theory \<open>Spawn\<close>) with mana, statistics, skills, experience, the spell book and the table of
  colours. The packets are their bytes; a read behind a packet, an index behind an array and a number
  \<open>calc_exp\<close> does not define are \<open>None\<close>. The seven statistics are a list in the order strength, stamina, charisma,
  dexterity, intelligence, agility and wisdom. \<open>m_saveCount\<close> is the static counter of \<open>playerUpdateSelf\<close>.
\<close>

record player_env =
  pe_spawn :: spawn_env
  pe_zone :: ZoneMgr
  pe_guilds :: GuildMgr
  pe_codec :: ds_codec
  pe_file :: string
  pe_save :: bool
  pe_writable :: bool
  pe_readable :: bool
  pe_walkpathrecord :: bool
  pe_walkpathlength :: nat

record PlayerStats = Player +
  m_mana :: u16
  m_playerSkills :: "u32 list"
  m_playerLanguages :: "u8 list"
  m_plusMana :: u16
  m_plusHP :: u16
  m_maxMana :: u16
  m_maxStats :: "u8 list"
  m_food :: u16
  m_water :: u16
  m_fatigue :: u16
  m_currentAltExp :: u32
  m_currentAApts :: u16
  m_currentAAUnspent :: u32
  m_currentExp :: u32
  m_minExp :: u32
  m_maxExp :: u32
  m_tickExp :: u32
  m_spellBookSlots :: "u32 list"
  m_conColorBases :: "SeqColor list"
  m_conTable :: con_table
  m_headingDegrees :: u16
  m_validStam :: bool
  m_validMana :: bool
  m_validHP :: bool
  m_validExp :: bool
  m_validAttributes :: bool
  m_validPos :: bool
  m_saveCount :: u8

type_synonym player_state = "PlayerStats \<times> bytes files"

datatype player_event = NewPlayer | BuffLoad spellBuff | NewSpeed u16 u16 u16 | StatChanged nat u8 u8 | AddSkill nat u32
  | ChangeSkill u32 u32 | DeleteSkills | AddLanguage nat u8 | DeleteLanguages | SetExp u32 u32 u32 u32 u32
  | NewExp u32 u32 u32 u32 u32 u32 | SetAltExp u32 u32 u32 u16 | NewAltExp u32 u32 u32 u32 u32 u16 | ExpAltChangedInt u32 u32 u32
  | ExpChangedInt u32 u32 u32 | ExpGained string u32 u32 string | ManaChanged u16 u16 | StamChanged u16 u16 u16 u16
  | HpChanged u16 u16 | ChangedID u16 u16 | PosChanged u16 u16 u16 u16 u16 u16 u16 | ChangeItem u32 | HeadingChanged u16
  | LevelChanged u8 | GuildChanged | PlayerUpdate bytes u8

abbreviation pl_name :: "PlayerStats \<Rightarrow> string" where "pl_name p \<equiv> v_name player_vt p"
abbreviation pl_level :: "PlayerStats \<Rightarrow> int" where "pl_level p \<equiv> sint (v_level player_vt p)"
abbreviation pl_race :: "PlayerStats \<Rightarrow> u16" where "pl_race p \<equiv> v_race player_vt p"
abbreviation pl_classVal :: "PlayerStats \<Rightarrow> u8" where "pl_classVal p \<equiv> v_class player_vt p"

section \<open>Defaults and colours\<close>

definition fillConTable :: "PlayerStats \<Rightarrow> PlayerStats option" where
  "fillConTable p = map_option (\<lambda>t. p\<lparr>m_conTable := t\<rparr>) (con_fill (m_conColorBases p) (pl_level p) (m_conTable p))"

definition conColorBase :: "nat \<Rightarrow> PlayerStats \<Rightarrow> SeqColor" where
  "conColorBase level p = (if level < tMaxColorLevels then m_conColorBases p ! level else no_color)"

definition conColorBasePrefNames :: "string list" where
  "conColorBasePrefNames = [''GrayBase'', ''GreenBase'', ''CyanBase'', ''BlueBase'', ''Even'', ''YellowBase'', ''RedBase'', ''Unknown'']"

definition setConColorBase :: "nat \<Rightarrow> SeqColor \<Rightarrow> PlayerStats \<times> XMLPreferences \<Rightarrow> (PlayerStats \<times> XMLPreferences) option" where
  "setConColorBase level color = (\<lambda>(p, xp).
     if level \<ge> tMaxColorLevels then Some (p, xp)
     else map_option (\<lambda>p1. (p1, setPrefColor (conColorBasePrefNames ! level) ''Player'' color User xp))
       (fillConTable (p\<lparr>m_conColorBases := (m_conColorBases p)[level := color]\<rparr>)))"

definition setUseAutoDetectedSettings :: "bool \<Rightarrow> PlayerStats \<times> XMLPreferences \<Rightarrow> (PlayerStats \<times> XMLPreferences) option" where
  "setUseAutoDetectedSettings enable = (\<lambda>(p, xp).
     map_option (\<lambda>p1. (p1, setPrefBool ''useAutoDetectedSettings'' ''Defaults'' enable User xp))
       (fillConTable (p\<lparr>m_useAutoDetectedSettings := enable\<rparr>)))"

definition setDefaultName :: "string \<Rightarrow> PlayerStats \<times> XMLPreferences \<Rightarrow> PlayerStats \<times> XMLPreferences" where
  "setDefaultName name = (\<lambda>(p, xp). (p\<lparr>m_defaultName := name\<rparr>, setPrefString ''DefaultName'' ''Defaults'' name User xp))"

definition setDefaultLastname :: "string \<Rightarrow> PlayerStats \<times> XMLPreferences \<Rightarrow> PlayerStats \<times> XMLPreferences" where
  "setDefaultLastname lastName = (\<lambda>(p, xp). (p\<lparr>m_defaultLastName := lastName\<rparr>, setPrefString ''DefaultLastName'' ''Defaults'' lastName User xp))"

definition setDefaultLevel :: "u8 \<Rightarrow> PlayerStats \<times> XMLPreferences \<Rightarrow> (PlayerStats \<times> XMLPreferences) option" where
  "setDefaultLevel level = (\<lambda>(p, xp).
     let p1 = p\<lparr>m_defaultLevel := level\<rparr>; xp1 = setPrefInt ''DefaultLevel'' ''Defaults'' (ucast level) User xp in
     if defaults_used p1 then map_option (\<lambda>p2. (p2, xp1)) (fillConTable p1) else Some (p1, xp1))"

definition setDefaultRace :: "u16 \<Rightarrow> PlayerStats \<times> XMLPreferences \<Rightarrow> PlayerStats \<times> XMLPreferences" where
  "setDefaultRace race = (\<lambda>(p, xp). (p\<lparr>m_defaultRace := race\<rparr>, setPrefInt ''DefaultRace'' ''Defaults'' (ucast race) User xp))"

definition setDefaultClass :: "u8 \<Rightarrow> PlayerStats \<times> XMLPreferences \<Rightarrow> PlayerStats \<times> XMLPreferences" where
  "setDefaultClass classVal = (\<lambda>(p, xp). (p\<lparr>m_defaultClass := classVal\<rparr>, setPrefInt ''DefaultClass'' ''Defaults'' (ucast classVal) User xp))"

definition setDefaultDeity :: "u16 \<Rightarrow> PlayerStats \<times> XMLPreferences \<Rightarrow> PlayerStats \<times> XMLPreferences" where
  "setDefaultDeity deity = (\<lambda>(p, xp). (p\<lparr>m_defaultDeity := deity\<rparr>, setPrefInt ''DefaultDeity'' ''Defaults'' (ucast deity) User xp))"

section \<open>Clearing\<close>

text \<open>The degrees of a heading whose byte is read as a number from 0 to 255.\<close>

definition heading_degrees :: "u8 \<Rightarrow> u16" where
  "heading_degrees h = of_nat (360 - unat h * 360 div 256)"

definition pl_clear :: "player_env \<Rightarrow> PlayerStats \<Rightarrow> PlayerStats" where
  "pl_clear env p =
     updateLastChanged (pe_spawn env) (setPoint 0 0 0
       (p\<lparr>m_plusMana := 0, m_plusHP := 0, m_maxStats := replicate 7 0, m_maxMana := 0, m_maxHP := 0, m_curHP := 0, m_food := 0, m_water := 0,
          m_fatigue := 0, m_validStam := False, m_validMana := False, m_validHP := False, m_validAttributes := False,
          m_lastSpawnKilledName := ''unknown'', m_lastSpawnKilledLevel := 0, m_freshKill := False, m_heading := 0,
          m_headingDegrees := 360, m_ID := 0, m_validPos := False\<rparr>))"

text \<open>The experience of the level and of the one before, for the level, race and class that \<open>from\<close> reads.\<close>

definition exp_bounds :: "int \<Rightarrow> u16 \<Rightarrow> u8 \<Rightarrow> PlayerStats \<Rightarrow> PlayerStats option" where
  "exp_bounds level race classVal p = do {
     lo \<leftarrow> calc_exp (level - 1) race classVal;
     hi \<leftarrow> calc_exp level race classVal;
     Some (p\<lparr>m_minExp := lo, m_maxExp := hi, m_tickExp := (hi - lo) div 330\<rparr>)
   }"

definition pl_reset :: "player_env \<Rightarrow> PlayerStats \<Rightarrow> (PlayerStats \<times> player_event list) option" where
  "pl_reset env p = do {
     let p1 = p\<lparr>m_useDefaults := True, m_currentAltExp := 0, m_currentExp := 0, m_currentAApts := 0, m_currentAAUnspent := 0\<rparr>;
     p2 \<leftarrow> exp_bounds (pl_level p1) (pl_race p1) (pl_classVal p1) p1;
     let p3 = p2\<lparr>m_playerSkills := replicate MAX_KNOWN_SKILLS 255, m_playerLanguages := replicate MAX_KNOWN_LANGS 255, m_mana := 0, m_level := 1\<rparr>;
     let p4 = (setRace player_vt 1 p3)\<lparr>m_class := 1, m_validExp := False, m_validAttributes := False\<rparr>;
     p5 \<leftarrow> fillConTable p4;
     Some (updateLastChanged (pe_spawn env) p5, [DeleteSkills, DeleteLanguages])
   }"

definition pl_zoneChanged :: "player_env \<Rightarrow> PlayerStats \<Rightarrow> (PlayerStats \<times> player_event list) option" where
  "pl_zoneChanged env p = map_option (\<lambda>(p1, es). (pl_clear env p1, es)) (pl_reset env p)"

definition pl_killSpawn :: "PlayerStats \<Rightarrow> PlayerStats" where
  "pl_killSpawn p = spawn_kill p"


section \<open>The file\<close>

definition magic_plr2 :: u32 where "magic_plr2 = 0x32726C70"

fun wr_list :: "('a \<Rightarrow> bytes) \<Rightarrow> 'a list \<Rightarrow> bytes" where
  "wr_list wr [] = []"
| "wr_list wr (x # xs) = wr x @ wr_list wr xs"

fun rd_list :: "(bytes \<Rightarrow> 'a \<times> bytes) \<Rightarrow> nat \<Rightarrow> bytes \<Rightarrow> 'a list \<times> bytes" where
  "rd_list rd 0 bs = ([], bs)"
| "rd_list rd (Suc n) bs = (let (x, r) = rd bs; (xs, r2) = rd_list rd n r in (x # xs, r2))"

definition state_header :: "player_env \<Rightarrow> bytes" where
  "state_header env = wr32 magic_plr2 @ wr32 (of_nat sizeof_charProfileStruct) @ wr32 (of_nat MAX_KNOWN_SKILLS) @ wr32 (of_nat MAX_KNOWN_LANGS)
     @ wr_string (pe_codec env) (map lower_char (z_shortZoneName (pe_zone env)))"

definition save_identity :: "ds_codec \<Rightarrow> PlayerStats \<Rightarrow> bytes" where
  "save_identity c p = wr_string c (m_name p) @ wr_string c (m_lastName p) @ wr32 (m_level p) @ wr8 (m_class p) @ wr16 (m_deity p) @ wr16 (m_ID p)"

definition save_position :: "PlayerStats \<Rightarrow> bytes" where
  "save_position p = wr16 (pt_x p) @ wr16 (pt_y p) @ wr16 (pt_z p) @ wr16 (m_deltaX p) @ wr16 (m_deltaY p) @ wr16 (m_deltaZ p)
     @ wr8 (m_heading p) @ wr16 (m_headingDegrees p)"

definition save_stats :: "PlayerStats \<Rightarrow> bytes" where
  "save_stats p = wr_list wr32 (m_playerSkills p) @ wr_list wr8 (m_playerLanguages p) @ wr16 (m_plusMana p) @ wr16 (m_plusHP p)
     @ wr32 (m_curHP p) @ wr16 (m_maxMana p) @ wr_list wr8 (m_maxStats p) @ wr32 (m_maxHP p)"

definition save_supplies :: "PlayerStats \<Rightarrow> bytes" where
  "save_supplies p = wr16 (m_food p) @ wr16 (m_water p) @ wr16 (m_fatigue p) @ wr32 (m_currentAltExp p) @ wr16 (m_currentAApts p)
     @ wr32 (m_currentExp p) @ wr32 (m_maxExp p)"

definition state_flags :: "PlayerStats \<Rightarrow> u8" where
  "state_flags p = (if m_validStam p then 0x01 else 0) OR (if m_validMana p then 0x02 else 0) OR (if m_validHP p then 0x04 else 0)
     OR (if m_validExp p then 0x08 else 0) OR (if m_validAttributes p then 0x10 else 0) OR (if m_useDefaults p then 0x20 else 0)"

definition player_bytes :: "player_env \<Rightarrow> PlayerStats \<Rightarrow> bytes" where
  "player_bytes env p = state_header env @ save_identity (pe_codec env) p @ save_position p @ save_stats p @ save_supplies p @ wr8 (state_flags p)"

definition savePlayerState :: "player_env \<Rightarrow> player_state \<Rightarrow> player_state" where
  "savePlayerState env = (\<lambda>(p, fs). (p, if pe_writable env then fs(pe_file env \<mapsto> player_bytes env p) else fs))"

definition pl_save_if :: "player_env \<Rightarrow> player_state \<Rightarrow> player_state" where
  "pl_save_if env st = (if pe_save env then savePlayerState env st else st)"

definition rd8s :: "bytes \<Rightarrow> u8 \<times> bytes" where "rd8s = rd_be 1"
definition rd16s :: "bytes \<Rightarrow> u16 \<times> bytes" where "rd16s = rd_be 2"
definition rd32s :: "bytes \<Rightarrow> u32 \<times> bytes" where "rd32s = rd_be 4"

definition load_identity :: "ds_codec \<Rightarrow> PlayerStats \<times> bytes \<Rightarrow> PlayerStats \<times> bytes" where
  "load_identity c = (\<lambda>(p, d).
     let (name, d) = rd_string c d; (lastName, d) = rd_string c d; (level, d) = rd32s d; (cls, d) = rd8s d; (deity, d) = rd16s d; (i, d) = rd16s d
     in (p\<lparr>m_name := name, m_lastName := lastName, m_level := level, m_class := cls, m_deity := deity, m_ID := i\<rparr>, d))"

definition load_position :: "PlayerStats \<times> bytes \<Rightarrow> PlayerStats \<times> bytes" where
  "load_position = (\<lambda>(p, d).
     let (x, d) = rd16s d; (y, d) = rd16s d; (z, d) = rd16s d; (dx, d) = rd16s d; (dy, d) = rd16s d; (dz, d) = rd16s d;
         (h, d) = rd8s d; (hd, d) = rd16s d
     in (p\<lparr>pt_x := x, pt_y := y, pt_z := z, m_deltaX := dx, m_deltaY := dy, m_deltaZ := dz, m_heading := h, m_headingDegrees := hd\<rparr>, d))"

definition load_stats :: "PlayerStats \<times> bytes \<Rightarrow> PlayerStats \<times> bytes" where
  "load_stats = (\<lambda>(p, d).
     let (skills, d) = rd_list rd32s MAX_KNOWN_SKILLS d; (langs, d) = rd_list rd8s MAX_KNOWN_LANGS d; (plusMana, d) = rd16s d; (plusHP, d) = rd16s d;
         (curHP, d) = rd32s d; (maxMana, d) = rd16s d; (stats, d) = rd_list rd8s 7 d; (maxHP, d) = rd32s d
     in (p\<lparr>m_playerSkills := skills, m_playerLanguages := langs, m_plusMana := plusMana, m_plusHP := plusHP, m_curHP := curHP,
            m_maxMana := maxMana, m_maxStats := stats, m_maxHP := maxHP\<rparr>, d))"

definition load_supplies :: "PlayerStats \<times> bytes \<Rightarrow> PlayerStats \<times> bytes" where
  "load_supplies = (\<lambda>(p, d).
     let (food, d) = rd16s d; (water, d) = rd16s d; (fatigue, d) = rd16s d; (altExp, d) = rd32s d; (aapts, d) = rd16s d;
         (exp, d) = rd32s d; (maxExp, d) = rd32s d
     in (p\<lparr>m_food := food, m_water := water, m_fatigue := fatigue, m_currentAltExp := altExp, m_currentAApts := aapts,
            m_currentExp := exp, m_maxExp := maxExp\<rparr>, d))"

text \<open>A flag that is not set leaves its variable as it is; only the use of the defaults is assigned in both cases.\<close>

definition load_flags :: "PlayerStats \<times> bytes \<Rightarrow> PlayerStats" where
  "load_flags = (\<lambda>(p, d). let flags = fst (rd8s d) in
     p\<lparr>m_validStam := m_validStam p \<or> flags AND 0x01 \<noteq> 0, m_validMana := m_validMana p \<or> flags AND 0x02 \<noteq> 0,
       m_validHP := m_validHP p \<or> flags AND 0x04 \<noteq> 0, m_validExp := m_validExp p \<or> flags AND 0x08 \<noteq> 0,
       m_validAttributes := m_validAttributes p \<or> flags AND 0x10 \<noteq> 0, m_useDefaults := flags AND 0x20 \<noteq> 0\<rparr>)"

definition load_fields :: "ds_codec \<Rightarrow> PlayerStats \<times> bytes \<Rightarrow> PlayerStats" where
  "load_fields c s = load_flags (load_supplies (load_stats (load_position (load_identity c s))))"

text \<open>The header: whether it is accepted and the rest. The zone is only compared for a warning.\<close>

definition load_header :: "ds_codec \<Rightarrow> bytes \<Rightarrow> bool \<times> bytes" where
  "load_header c d =
     (let (magicTest, d) = rd32s d; (size, d) = rd32s d; (skills, d) = rd32s d; (langs, d) = rd32s d; (zone, d) = rd_string c d
      in (magicTest = magic_plr2 \<and> size = of_nat sizeof_charProfileStruct \<and> skills = of_nat MAX_KNOWN_SKILLS \<and> langs = of_nat MAX_KNOWN_LANGS, d))"

definition restorePlayerState :: "player_env \<Rightarrow> player_state \<Rightarrow> (player_state \<times> player_event list) option" where
  "restorePlayerState env = (\<lambda>(p, fs).
     case (if pe_readable env then fs (pe_file env) else None) of
       None \<Rightarrow> map_option (\<lambda>(p1, es). ((p1, fs), es)) (pl_zoneChanged env p)
     | Some file \<Rightarrow>
         (let (ok, d) = load_header (pe_codec env) file in
          if ok then map_option (\<lambda>p1. ((p1, fs), [])) (fillConTable (load_fields (pe_codec env) (p, d)))
          else map_option (\<lambda>(p1, es). ((p1, fs), es)) (pl_zoneChanged env p)))"

section \<open>The constructor\<close>

record player_prefs =
  pp_reader :: pref_reader
  pp_int :: "variant \<Rightarrow> u32"
  pp_bool :: "variant \<Rightarrow> bool"

definition getPrefInt :: "player_prefs \<Rightarrow> string \<Rightarrow> string \<Rightarrow> u32 \<Rightarrow> XMLPreferences \<Rightarrow> u32" where
  "getPrefInt pp n s def xp = getPref_as (\<lambda>v. case v of VInt i \<Rightarrow> i | _ \<Rightarrow> pp_int pp v) n s def AnyPref xp"
definition getPrefBool :: "player_prefs \<Rightarrow> string \<Rightarrow> string \<Rightarrow> bool \<Rightarrow> XMLPreferences \<Rightarrow> bool" where
  "getPrefBool pp n s def xp = getPref_as (\<lambda>v. case v of VBool b \<Rightarrow> b | _ \<Rightarrow> pp_bool pp v) n s def AnyPref xp"

definition conColorDefaults :: "SeqColor list" where
  "conColorDefaults = [rgb 140 140 140, rgb 0 95 0, rgb 0 255 255, rgb 0 0 160, rgb 255 255 255, rgb 255 255 0, rgb 127 0 0, rgb 160 160 164]"

definition DEITY_AGNOSTIC :: u32 where "DEITY_AGNOSTIC = 396"

text \<open>What the constructor and the operations it calls leave unset is the memory \<open>raw\<close>.\<close>

definition construct_player :: "player_env \<Rightarrow> player_prefs \<Rightarrow> XMLPreferences \<Rightarrow> PlayerStats \<Rightarrow> PlayerStats" where
  "construct_player env pp xp raw =
     (let defaultName = getPrefString (pp_reader pp) ''DefaultName'' ''Defaults'' ''You'' xp in
      (Spawn.Spawn.extend (new_fake_Spawn (pe_spawn env)) (Spawn.Spawn.more raw))
        \<lparr>m_NPC := SPAWN_SELF, m_useAutoDetectedSettings := getPrefBool pp ''useAutoDetectedSettings'' ''Defaults'' True xp,
         m_defaultName := defaultName, m_defaultLastName := getPrefString (pp_reader pp) ''DefaultLastName'' ''Defaults'' [] xp,
         m_defaultLevel := ucast (getPrefInt pp ''DefaultLevel'' ''Defaults'' 1 xp),
         m_defaultRace := ucast (getPrefInt pp ''DefaultRace'' ''Defaults'' 1 xp),
         m_defaultClass := ucast (getPrefInt pp ''DefaultClass'' ''Defaults'' 1 xp),
         m_defaultDeity := ucast (getPrefInt pp ''DefaultDeity'' ''Defaults'' DEITY_AGNOSTIC xp),
         m_useDefaults := True, m_name := defaultName, m_realName := [], m_lastSpawnKilledName := [], m_saveCount := 0,
         m_conColorBases := map (\<lambda>(n, c). getPrefColor (pp_reader pp) n ''Player'' c xp) (zip conColorBasePrefNames conColorDefaults)\<rparr>)"

definition new_Player :: "player_env \<Rightarrow> player_prefs \<Rightarrow> bool \<Rightarrow> XMLPreferences \<Rightarrow> PlayerStats \<Rightarrow> bytes files \<Rightarrow> (player_state \<times> player_event list) option" where
  "new_Player env pp restore xp raw fs =
     (let p = construct_player env pp xp raw in
      if restore then restorePlayerState env (p, fs)
      else map_option (\<lambda>(p1, es). ((p1, fs), es)) (pl_zoneChanged env p))"


section \<open>The profile\<close>

definition maxMana_of :: "PlayerStats \<Rightarrow> u16" where
  "maxMana_of p = word_of_int (calcMaxMana (uint (m_maxStats p ! 4)) (uint (m_maxStats p ! 6)) (m_class p) (sint (m_level p)) + uint (m_plusMana p))"

definition add_stats :: "u16 list \<Rightarrow> u8 list \<Rightarrow> u8 list" where
  "add_stats new old = map2 (\<lambda>m n. m + ucast n) old new"

text \<open>The spell book is copied as 800 numbers of four bytes.\<close>

definition copy_spellBook :: "bytes \<Rightarrow> u32 list" where
  "copy_spellBook bs = map (\<lambda>i. u32_at bs (4 * i)) [0..<MAX_SPELLBOOK_SLOTS]"

definition profile_identity :: "charProfileStruct \<Rightarrow> PlayerStats \<Rightarrow> PlayerStats" where
  "profile_identity cp p =
     (let p1 = (setRace player_vt (cp_race cp) (p\<lparr>m_useDefaults := False, m_gender := cp_gender cp\<rparr>))\<lparr>m_class := ucast (cp_class cp)\<rparr>
      in (setDeity player_vt (cp_deity cp) p1)\<lparr>m_curHP := scast (cp_curHp cp), m_level := ucast (cp_level cp)\<rparr>)"

definition profile_stats :: "charProfileStruct \<Rightarrow> PlayerStats \<Rightarrow> PlayerStats" where
  "profile_stats cp p =
     (let p1 = p\<lparr>m_maxStats := add_stats (cp_stats cp) (m_maxStats p), m_validAttributes := True, m_mana := cp_MANA cp\<rparr>
      in p1\<lparr>m_maxMana := maxMana_of p1, m_validMana := True\<rparr>)"

definition LIST_STR :: nat where "LIST_STR = 6"

definition loadProfile :: "charProfileStruct \<Rightarrow> PlayerStats \<Rightarrow> (PlayerStats \<times> player_event list) option" where
  "loadProfile cp p = do {
     p1 \<leftarrow> fillConTable (profile_identity cp p);
     let p2 = profile_stats cp p1;
     p3 \<leftarrow> exp_bounds (sint (m_level p2)) (m_race p2) (m_class p2) p2;
     let skills = map scast (cp_skills cp);
     Some (p3\<lparr>m_playerSkills := skills, m_spellBookSlots := copy_spellBook (cp_spellBook cp), m_currentAApts := 0, m_currentAAUnspent := ucast (cp_aapoints cp)\<rparr>,
       LevelChanged (ucast (v_level player_vt p1)) # map (\<lambda>i. StatChanged (LIST_STR + i) (m_maxStats p2 ! i) (m_maxStats p2 ! i)) [0..<7]
       @ ManaChanged (m_mana p2) (m_maxMana p2) # map (\<lambda>a. AddSkill a (skills ! a)) [0..<MAX_KNOWN_SKILLS]
       @ map BuffLoad (filter (\<lambda>b. sb_spellid b \<noteq> 0 \<and> sb_duration b \<noteq> 0) (cp_buffs cp)))
   }"

definition set_guild :: "player_env \<Rightarrow> u16 \<Rightarrow> PlayerStats \<Rightarrow> PlayerStats" where
  "set_guild env i p = p\<lparr>m_guildID := i, m_guildServerID := 0, m_guildTag := guildIdToName (pe_guilds env) i 0\<rparr>"

text \<open>The position comes as \<open>float\<close>; a number outside \<open>long\<close> has no defined rounding.\<close>

definition profile_position :: "player_env \<Rightarrow> charProfileStruct \<Rightarrow> PlayerStats \<Rightarrow> PlayerStats option" where
  "profile_position env cp p = do {
     x \<leftarrow> float_coord (cp_x cp);
     y \<leftarrow> float_coord (cp_y cp);
     z \<leftarrow> float_coord (cp_z cp);
     h \<leftarrow> float_int8 (cp_heading cp);
     let p1 = setDeltas 0 0 0 (spawn_setPos x y z (pe_walkpathrecord env) (pe_walkpathlength env) p);
     Some ((setHeading h 0 p1)\<lparr>m_headingDegrees := heading_degrees h, m_validPos := True\<rparr>)
   }"

definition pos_event :: "PlayerStats \<Rightarrow> player_event" where
  "pos_event p = PosChanged (pt_x p) (pt_y p) (pt_z p) (m_deltaX p) (m_deltaY p) (m_deltaZ p) (m_headingDegrees p)"

definition profile_rest :: "charProfileStruct \<Rightarrow> PlayerStats \<Rightarrow> PlayerStats" where
  "profile_rest cp p = p\<lparr>m_playerLanguages := cp_languages cp, m_currentExp := cp_exp cp, m_currentAltExp := cp_expAA cp, m_validExp := True\<rparr>"

definition exp_event :: "PlayerStats \<Rightarrow> player_event" where
  "exp_event p = ExpChangedInt (m_currentExp p) (m_minExp p) (m_maxExp p)"

definition player_profile :: "player_env \<Rightarrow> charProfileStruct \<Rightarrow> player_state \<Rightarrow> (player_state \<times> player_event list) option" where
  "player_profile env cp = (\<lambda>(p, fs). do {
     name \<leftarrow> c_str (cp_name cp);
     lastName \<leftarrow> c_str (cp_lastName cp);
     let newName = q_utf8 (pe_spawn env) name;
     (p1, es) \<leftarrow> loadProfile cp (p\<lparr>m_NPC := SPAWN_SELF, m_typeflag := 1, m_name := newName, m_realName := newName,
                                     m_lastName := q_utf8 (pe_spawn env) lastName\<rparr>);
     p2 \<leftarrow> profile_position env cp (set_guild env (cp_guildID cp) p1);
     let p3 = profile_rest cp p2;
     Some (pl_save_if env (p3, fs),
       (if m_name p \<noteq> newName then [NewPlayer] else []) @ es @ [GuildChanged, HeadingChanged (m_headingDegrees p2), pos_event p2]
       @ map (\<lambda>a. AddLanguage a (m_playerLanguages p3 ! a)) [0..<MAX_KNOWN_LANGS]
       @ [exp_event p3, ExpAltChangedInt (m_currentAltExp p3) 0 15000000, SetAltExp (m_currentAltExp p3) 15000000 (15000000 div 330) (m_currentAApts p3),
          ChangeItem tSpawnChangedALL])
   })"

section \<open>The packets\<close>

definition increaseSkill :: "player_env \<Rightarrow> bytes \<Rightarrow> player_state \<Rightarrow> (player_state \<times> player_event list) option" where
  "increaseSkill env data = (\<lambda>(p, fs). do {
     bs \<leftarrow> rd_range data 0 8;
     let skillId = u32_at bs 0;
     let value = u32_at bs 4;
     skills \<leftarrow> (if unat skillId < length (m_playerSkills p) then Some ((m_playerSkills p)[unat skillId := value]) else None);
     Some (pl_save_if env (p\<lparr>m_playerSkills := skills\<rparr>, fs), [ChangeSkill skillId value])
   })"

definition manaChange :: "player_env \<Rightarrow> bytes \<Rightarrow> player_state \<Rightarrow> (player_state \<times> player_event list) option" where
  "manaChange env data = (\<lambda>(p, fs). do {
     bs \<leftarrow> rd_range data 0 4;
     let p1 = p\<lparr>m_mana := u16_at bs 0, m_validMana := True\<rparr>;
     Some (pl_save_if env (p1, fs), [ManaChanged (m_mana p1) (m_maxMana p1)])
   })"

definition updateAltExp :: "player_env \<Rightarrow> bytes \<Rightarrow> player_state \<Rightarrow> (player_state \<times> player_event list) option" where
  "updateAltExp env data = (\<lambda>(p, fs). do {
     bs \<leftarrow> rd_range data 0 12;
     let altexp = u32_at bs 0;
     let realExp = altexp * (15000000 div 330);
     let expIncrement = (if realExp > m_currentExp p then realExp - m_currentAltExp p else 0);
     let p1 = p\<lparr>m_currentAAUnspent := u32_at bs 4, m_currentAltExp := realExp\<rparr>;
     Some (pl_save_if env (p1, fs),
       [ExpAltChangedInt realExp 0 15000000, NewAltExp expIncrement realExp altexp 15000000 (15000000 div 330) (m_currentAApts p1)])
   })"

definition exp_gained :: "player_env \<Rightarrow> u32 \<Rightarrow> PlayerStats \<Rightarrow> player_event" where
  "exp_gained env inc p = ExpGained (m_lastSpawnKilledName p) (m_lastSpawnKilledLevel p) inc (z_longZoneName (pe_zone env))"

definition updateExp :: "player_env \<Rightarrow> bytes \<Rightarrow> player_state \<Rightarrow> (player_state \<times> player_event list) option" where
  "updateExp env data = (\<lambda>(p, fs). do {
     bs \<leftarrow> rd_range data 0 4;
     let tick = u32_at bs 0;
     let realExp = m_tickExp p * tick + m_minExp p;
     let expIncrement = (if realExp > m_currentExp p then realExp - m_currentExp p else 0);
     let p1 = p\<lparr>m_currentExp := realExp, m_validExp := True, m_freshKill := False\<rparr>;
     Some (pl_save_if env (p1, fs),
       [NewExp expIncrement realExp tick (m_minExp p) (m_maxExp p) (m_tickExp p), exp_event p1,
        (if m_freshKill p then exp_gained env expIncrement p else SetExp realExp tick (m_minExp p) (m_maxExp p) (m_tickExp p))])
   })"

definition updateLevel :: "player_env \<Rightarrow> bytes \<Rightarrow> player_state \<Rightarrow> (player_state \<times> player_event list) option" where
  "updateLevel env data = (\<lambda>(p, fs). do {
     bs \<leftarrow> rd_range data 0 12;
     let tick = u32_at bs 8;
     let p1 = p\<lparr>m_level := u32_at bs 0\<rparr>;
     p2 \<leftarrow> exp_bounds (pl_level p1) (pl_race p1) (pl_classVal p1) p1;
     let p3 = p2\<lparr>m_currentExp := m_tickExp p2 * tick + m_minExp p2, m_validExp := True, m_freshKill := False\<rparr>;
     let expIncrement = m_currentExp p3 - m_currentExp p;
     p4 \<leftarrow> fillConTable p3;
     Some ((updateLastChanged (pe_spawn env) p4, snd (pl_save_if env (p4, fs))),
       [NewExp expIncrement (m_currentExp p3) tick (m_minExp p3) (m_maxExp p3) (m_tickExp p3),
        (if m_freshKill p then exp_gained env expIncrement p else ExpGained ''Unknown'' 0 expIncrement (z_longZoneName (pe_zone env))),
        exp_event p3, LevelChanged (ucast (m_level p4)), ChangeItem tSpawnChangedLevel])
   })"

definition updateNpcHP :: "player_env \<Rightarrow> bytes \<Rightarrow> player_state \<Rightarrow> (player_state \<times> player_event list) option" where
  "updateNpcHP env data = (\<lambda>(p, fs). do {
     hp \<leftarrow> read_hpUpdate data;
     if hp_spawnId hp \<noteq> ucast (m_ID p) then Some ((p, fs), [])
     else let p1 = updateLastChanged (pe_spawn env) (p\<lparr>m_curHP := hp_curHP hp, m_maxHP := hp_maxHP hp, m_validHP := True\<rparr>)
          in Some (pl_save_if env (p1, fs), [ChangeItem tSpawnChangedHP, HpChanged (ucast (m_curHP p1)) (ucast (m_maxHP p1))])
   })"

definition updateStamina :: "player_env \<Rightarrow> bytes \<Rightarrow> player_state \<Rightarrow> (player_state \<times> player_event list) option" where
  "updateStamina env data = (\<lambda>(p, fs). do {
     bs \<leftarrow> rd_range data 0 8;
     let p1 = p\<lparr>m_food := u16_at bs 0, m_water := u16_at bs 2, m_fatigue := scast (bs ! 4), m_validStam := True\<rparr>;
     Some (pl_save_if env (p1, fs), [StamChanged (m_food p1) 127 (m_water p1) 127])
   })"

definition setPlayerID :: "player_env \<Rightarrow> u16 \<Rightarrow> PlayerStats \<Rightarrow> PlayerStats \<times> player_event list" where
  "setPlayerID env playerID p =
     (if m_ID p \<noteq> playerID then (updateLastChanged (pe_spawn env) (p\<lparr>m_ID := playerID\<rparr>), [ChangedID (m_ID p) playerID, ChangeItem tSpawnChangedALL])
      else (p, []))"

definition self_moved :: "player_env \<Rightarrow> spawnPositionUpdate \<Rightarrow> PlayerStats \<Rightarrow> PlayerStats" where
  "self_moved env u p =
     (let p1 = setHeading (u_heading u) (u_deltaHeading u) (setDeltas (u_deltaX u) (u_deltaY u) (u_deltaZ u)
                 (spawn_setPos (u_x u) (u_y u) (u_z u) (pe_walkpathrecord env) (pe_walkpathlength env) p))
      in updateLastChanged (pe_spawn env) ((updateLast (pe_spawn env) (p1\<lparr>m_validPos := True\<rparr>))\<lparr>m_headingDegrees := heading_degrees (u_heading u)\<rparr>))"

text \<open>The counter of the position updates that are saved has 8 bits.\<close>

definition count_save :: "player_env \<Rightarrow> player_state \<Rightarrow> player_state" where
  "count_save env = (\<lambda>(p, fs).
     if pe_save env
     then let p1 = p\<lparr>m_saveCount := m_saveCount p + 1\<rparr> in if m_saveCount p1 mod 64 \<noteq> 0 then savePlayerState env (p1, fs) else (p1, fs)
     else (p, fs))"

definition playerUpdateSelf :: "player_env \<Rightarrow> bytes \<Rightarrow> u8 \<Rightarrow> player_state \<Rightarrow> (player_state \<times> player_event list) option" where
  "playerUpdateSelf env data dir = (\<lambda>(p, fs). do {
     u \<leftarrow> read_positionUpdate data 0;
     if dir \<noteq> DIR_Client \<and> u_spawnId u \<noteq> m_ID p then Some ((p, fs), [])
     else let (p1, es) = (if dir = DIR_Client \<and> m_ID p = 0 then setPlayerID env (u_spawnId u) p else (p, []))
       in if u_spawnId u \<noteq> m_ID p1 then Some ((p1, fs), es @ [PlayerUpdate data dir])
       else let p2 = self_moved env u p1
         in Some (count_save env (p2, fs),
              es @ [HeadingChanged (m_headingDegrees p2), pos_event p2, ChangeItem tSpawnChangedPosition, NewSpeed (u_deltaX u) (u_deltaY u) (u_deltaZ u)])
   })"

definition consMessage :: "player_env \<Rightarrow> bytes \<Rightarrow> u8 \<Rightarrow> player_state \<Rightarrow> (player_state \<times> player_event list) option" where
  "consMessage env data dir = (\<lambda>(p, fs).
     if dir = DIR_Client then Some ((p, fs), [])
     else do {
       con \<leftarrow> read_consider data;
       let (p1, es) = (if con_playerid con = con_targetid con then setPlayerID env (con_playerid con) p else (p, []));
       Some ((p1, fs), es)
     })"

text \<open>The slots are read for the log whatever the direction is.\<close>

definition tradeSpellBookSlots :: "bytes \<Rightarrow> u8 \<Rightarrow> player_state \<Rightarrow> (player_state \<times> player_event list) option" where
  "tradeSpellBookSlots data dir = (\<lambda>(p, fs). do {
     bs \<leftarrow> rd_range data 0 8;
     let slot1 = unat (u32_at bs 0);
     let slot2 = unat (u32_at bs 4);
     spell1 \<leftarrow> nth_opt (m_spellBookSlots p) slot1;
     spell2 \<leftarrow> nth_opt (m_spellBookSlots p) slot2;
     if dir \<noteq> DIR_Server then Some ((p, fs), [])
     else Some ((p\<lparr>m_spellBookSlots := (m_spellBookSlots p)[slot1 := spell2, slot2 := spell1]\<rparr>, fs), [])
   })"

record CheckpointData =
  ck_player_id :: u16
  ck_player_name :: string
  ck_player_last_name :: string
  ck_player_class :: u8
  ck_player_level :: u8
  ck_player_race :: u16
  ck_player_deity :: u16
  ck_player_gender :: u8
  ck_current_exp :: u32
  ck_max_exp :: u32
  ck_current_alt_exp :: u32
  ck_current_aa_pts :: u16
  ck_short_zone_name :: string
  ck_long_zone_name :: string

definition pl_applyCheckpoint :: "player_env \<Rightarrow> CheckpointData \<Rightarrow> PlayerStats \<Rightarrow> PlayerStats \<times> player_event list" where
  "pl_applyCheckpoint env ck p =
     (let p1 = p\<lparr>m_name := ck_player_name ck, m_lastName := ck_player_last_name ck, m_level := ucast (ck_player_level ck), m_class := ck_player_class ck\<rparr>;
          p2 = (setDeity player_vt (ck_player_deity ck) (setRace player_vt (ck_player_race ck) p1))\<lparr>m_gender := ck_player_gender ck,
                 m_currentExp := ck_current_exp ck, m_maxExp := ck_max_exp ck, m_currentAltExp := ck_current_alt_exp ck, m_currentAApts := ck_current_aa_pts ck\<rparr>;
          (p3, es) = setPlayerID env (ck_player_id ck) p2
      in (p3, es @ [NewPlayer, LevelChanged (ucast (v_level player_vt p3))]))"

text \<open>The checkpoint the daemon writes.\<close>

definition checkpoint_of :: "ZoneMgr \<Rightarrow> PlayerStats \<Rightarrow> CheckpointData option" where
  "checkpoint_of z p =
     (if m_ID p = 0 \<or> pl_name p = [] then None
      else Some \<lparr>ck_player_id = m_ID p, ck_player_name = pl_name p, ck_player_last_name = v_lastName player_vt p, ck_player_class = pl_classVal p,
                 ck_player_level = ucast (v_level player_vt p), ck_player_race = pl_race p, ck_player_deity = v_deity player_vt p,
                 ck_player_gender = m_gender p, ck_current_exp = m_currentExp p, ck_max_exp = m_maxExp p, ck_current_alt_exp = m_currentAltExp p,
                 ck_current_aa_pts = m_currentAApts p, ck_short_zone_name = z_shortZoneName z, ck_long_zone_name = z_longZoneName z\<rparr>)"

text \<open>A value, its maximum and whether they are known.\<close>

definition getStatValue :: "u8 \<Rightarrow> PlayerStats \<Rightarrow> bool \<times> u32 \<times> u32" where
  "getStatValue stat p =
     (if stat = 0 then (m_validHP p, m_curHP p, m_maxHP p)
      else if stat = 1 then (m_validMana p, ucast (m_mana p), ucast (m_maxMana p))
      else if stat = 2 then (m_validStam p, 100 - ucast (m_fatigue p), 100)
      else if stat = 3 then (m_validExp p, m_currentExp p, m_maxExp p)
      else if stat = 4 then (m_validStam p, ucast (m_food p), 127)
      else if stat = 5 then (m_validStam p, ucast (m_water p), 127)
      else if 6 \<le> stat \<and> stat < 13 then (let v = ucast (m_maxStats p ! (unat stat - LIST_STR)) in (m_validAttributes p, v, v))
      else (False, 0, 0))"

datatype player_op = PProfile charProfileStruct | PSkill bytes | PMana bytes | PExp bytes | PAltExp bytes | PLevel bytes | PHP bytes | PStamina bytes
  | PSelf bytes u8 | PCon bytes u8 | PTrade bytes u8 | PZoneChanged | PKill string u32

fun player_step :: "player_env \<times> player_op \<Rightarrow> player_state \<Rightarrow> (player_state \<times> player_event list) option" where
  "player_step (env, PProfile cp) st = player_profile env cp st"
| "player_step (env, PSkill d) st = increaseSkill env d st"
| "player_step (env, PMana d) st = manaChange env d st"
| "player_step (env, PExp d) st = updateExp env d st"
| "player_step (env, PAltExp d) st = updateAltExp env d st"
| "player_step (env, PLevel d) st = updateLevel env d st"
| "player_step (env, PHP d) st = updateNpcHP env d st"
| "player_step (env, PStamina d) st = updateStamina env d st"
| "player_step (env, PSelf d dir) st = playerUpdateSelf env d dir st"
| "player_step (env, PCon d dir) st = consMessage env d dir st"
| "player_step (env, PTrade d dir) st = tradeSpellBookSlots d dir st"
| "player_step (env, PZoneChanged) (p, fs) = map_option (\<lambda>(p1, es). ((p1, fs), es)) (pl_zoneChanged env p)"
| "player_step (env, PKill name level) (p, fs) = Some ((setLastKill name level p, fs), [])"

end
