(* ===== verification/CalcExpProps.thy ===== *)
theory CalcExpProps
  imports CalcExp
begin

text \<open>
  Rounding is monotone, and exact for numbers that fit; so the experience needed for a level does not decrease with the level.
\<close>

section \<open>Values\<close>

definition fl_val :: "fl \<Rightarrow> real" where
  "fl_val x = real (fst x) * 2 powi snd x"

lemma fl_val_nonneg [simp]: "0 \<le> fl_val x"
  by (simp add: fl_val_def)

lemma fl_val_0 [simp]: "fl_val (0, e) = 0"
  by (simp add: fl_val_def)

lemma powi_split: "(2 :: real) powi (a + b) = 2 powi a * 2 powi b"
  by (simp add: power_int_add)

lemma powi_nat: "(2 :: real) powi int k = 2 ^ k"
  by simp

section \<open>Lengths\<close>

lemma bit_len_0 [simp]: "bit_len 0 = 0"
  by (simp add: bit_len.simps)

lemma bit_len_le_iff: "bit_len n \<le> k \<longleftrightarrow> n < 2 ^ k"
proof (induction n arbitrary: k rule: bit_len.induct)
  case (1 n)
  show ?case
  proof (cases "n = 0")
    case False
    then have "bit_len n = Suc (bit_len (n div 2))" by (simp add: bit_len.simps [of n])
    have h: "n div 2 < x \<longleftrightarrow> n < 2 * x" for x :: nat by presburger
    show ?thesis
    proof (cases k)
      case (Suc j)
      then show ?thesis using 1 [OF False, of j] h [of "2 ^ j"] \<open>bit_len n = Suc (bit_len (n div 2))\<close> by simp
    qed (use False \<open>bit_len n = Suc (bit_len (n div 2))\<close> in simp)
  qed simp
qed

lemma bit_len_bounds: "0 < m \<Longrightarrow> 2 ^ (bit_len m - 1) \<le> m \<and> m < 2 ^ bit_len m \<and> 0 < bit_len m"
  using bit_len_le_iff [of m "bit_len m"] bit_len_le_iff [of m "bit_len m - 1"] bit_len_le_iff [of m 0] by (cases "bit_len m") auto

section \<open>Rounding to an integer\<close>

lemma nearest_even_mono: "0 < d \<Longrightarrow> n \<le> m \<Longrightarrow> nearest_even n d \<le> nearest_even m d"
proof -
  assume d: "0 < d" and le: "n \<le> m"
  show ?thesis
  proof (cases "n div d = m div d")
    case True
    then have "n mod d \<le> m mod d" using le by (metis add_le_cancel_left mult_div_mod_eq)
    then show ?thesis using True by (auto simp: nearest_even_def Let_def)
  next
    case False
    then have "n div d < m div d" using div_le_mono [OF le, of d] by simp
    then show ?thesis by (auto simp: nearest_even_def Let_def)
  qed
qed

lemma nearest_even_exact [simp]: "0 < d \<Longrightarrow> nearest_even (k * d) d = k"
  by (simp add: nearest_even_def)

lemma nearest_even_scale: "0 < c \<Longrightarrow> nearest_even (n * c) (d * c) = nearest_even n d"
proof -
  assume c: "0 < c"
  have "d * c < 2 * (n mod d * c) \<longleftrightarrow> d < 2 * (n mod d)" using c by (simp flip: mult.assoc)
  moreover have "2 * (n mod d * c) = d * c \<longleftrightarrow> 2 * (n mod d) = d" using c by (simp flip: mult.assoc)
  ultimately show ?thesis using c by (simp add: nearest_even_def mod_mult_mult2 Let_def)
qed

section \<open>Rounding to a format\<close>

text \<open>The same result with any larger number of guard bits.\<close>

lemma fl_round_form:
  assumes "bit_len m \<le> u"
  shows "fl_round p (m, e) = (nearest_even (m * 2 ^ (u + p - bit_len m)) (2 ^ u), e + int (bit_len m) - int p)"
proof (cases "bit_len m \<le> p")
  case True
  then have e: "m * 2 ^ (u + p - bit_len m) = (m * 2 ^ (p - bit_len m)) * 2 ^ u" by (simp add: power_add [symmetric] add.commute)
  have "nearest_even (m * 2 ^ (u + p - bit_len m)) (2 ^ u) = m * 2 ^ (p - bit_len m)" unfolding e by (rule nearest_even_exact) simp
  then show ?thesis using True by (simp add: fl_round_def Let_def)
next
  case False
  let ?c = "2 ^ (u + p - bit_len m) :: nat"
  have "2 ^ u = 2 ^ (bit_len m - p) * ?c" using False assms by (simp add: power_add [symmetric])
  then have "nearest_even (m * ?c) (2 ^ u) = nearest_even m (2 ^ (bit_len m - p))" by (simp add: nearest_even_scale)
  then show ?thesis using False by (simp add: fl_round_def Let_def)
qed

lemma fl_round_0 [simp]: "fl_val (fl_round p (0, e)) = 0"
  by (simp add: fl_round_def)

lemma fl_round_exact:
  assumes "bit_len (fst x) \<le> p"
  shows "fl_val (fl_round p x) = fl_val x"
proof -
  have "real (2 ^ (p - bit_len (fst x))) * 2 powi (snd x - int (p - bit_len (fst x))) = 2 powi snd x"
    using powi_split [of "int (p - bit_len (fst x))" "snd x - int (p - bit_len (fst x))"] by simp
  then show ?thesis using assms by (cases x) (simp add: fl_round_def fl_val_def Let_def mult.assoc)
qed

text \<open>The rounded number lies between the powers of two around the number.\<close>

lemma fl_round_binade:
  assumes "0 < m" "0 < p"
  shows "2 powi (int (bit_len m) + e - 1) \<le> fl_val (fl_round p (m, e))" "fl_val (fl_round p (m, e)) \<le> 2 powi (int (bit_len m) + e)"
proof -
  define b where "b = bit_len m"
  have b: "2 ^ (b - 1) \<le> m" "m < 2 ^ b" "0 < b" using bit_len_bounds [OF assms(1)] by (simp_all add: b_def)
  define M where "M = nearest_even (m * 2 ^ p) (2 ^ b)"
  have r: "fl_round p (m, e) = (M, e + int b - int p)" using fl_round_form [of m b p e] by (simp add: M_def b_def)
  have "m * 2 ^ p \<le> 2 ^ p * 2 ^ b" using b(2) by (simp add: mult.commute)
  then have hi: "M \<le> 2 ^ p" using nearest_even_mono [of "2 ^ b" "m * 2 ^ p" "2 ^ p * 2 ^ b"] by (simp add: M_def)
  have "2 ^ (p - 1) * 2 ^ b = 2 ^ (b - 1) * (2 ^ p :: nat)" using assms(2) b(3) by (simp add: power_add [symmetric])
  then have "2 ^ (p - 1) * 2 ^ b \<le> m * 2 ^ p" using b(1) by simp
  then have lo: "2 ^ (p - 1) \<le> M" using nearest_even_mono [of "2 ^ b" "2 ^ (p - 1) * 2 ^ b" "m * 2 ^ p"] by (simp add: M_def)
  have e2: "2 ^ k * 2 powi (e + int b - int p) = (2 :: real) powi (int k + (e + int b - int p))" for k
    using powi_split [of "int k" "e + int b - int p"] by simp
  have "real (2 ^ (p - 1)) \<le> real M" using lo by (simp only: of_nat_le_iff)
  then have "2 ^ (p - 1) * 2 powi (e + int b - int p) \<le> real M * 2 powi (e + int b - int p)" by (intro mult_right_mono) simp_all
  moreover have "int (p - 1) + (e + int b - int p) = int b + e - 1" using assms(2) by simp
  ultimately show "2 powi (int (bit_len m) + e - 1) \<le> fl_val (fl_round p (m, e))"
    unfolding r fl_val_def fst_conv snd_conv b_def [symmetric] by (simp only: e2)
  have "real M \<le> real (2 ^ p)" using hi by (simp only: of_nat_le_iff)
  then have "real M * 2 powi (e + int b - int p) \<le> 2 ^ p * 2 powi (e + int b - int p)" by (intro mult_right_mono) simp_all
  moreover have "int p + (e + int b - int p) = int b + e" by simp
  ultimately show "fl_val (fl_round p (m, e)) \<le> 2 powi (int (bit_len m) + e)"
    unfolding r fl_val_def fst_conv snd_conv b_def [symmetric] by (simp only: e2)
qed

lemma fl_val_binade:
  assumes "0 < m"
  shows "2 powi (int (bit_len m) + e - 1) \<le> fl_val (m, e)" "fl_val (m, e) < 2 powi (int (bit_len m) + e)"
proof -
  define b where "b = bit_len m"
  have b: "2 ^ (b - 1) \<le> m" "m < 2 ^ b" "0 < b" using bit_len_bounds [OF assms] by (simp_all add: b_def)
  have e2: "2 ^ k * 2 powi e = (2 :: real) powi (int k + e)" for k using powi_split [of "int k" e] by simp
  have "real (2 ^ (b - 1)) \<le> real m" using b(1) by (simp only: of_nat_le_iff)
  then have "2 ^ (b - 1) * 2 powi e \<le> real m * 2 powi e" by (intro mult_right_mono) simp_all
  moreover have "int (b - 1) + e = int b + e - 1" using b(3) by simp
  ultimately show "2 powi (int (bit_len m) + e - 1) \<le> fl_val (m, e)" unfolding fl_val_def fst_conv snd_conv b_def [symmetric] by (simp only: e2)
  have "real m < real (2 ^ b)" using b(2) by (simp only: of_nat_less_iff)
  then have "real m * 2 powi e < 2 ^ b * 2 powi e" by (intro mult_strict_right_mono) simp_all
  then show "fl_val (m, e) < 2 powi (int (bit_len m) + e)" unfolding fl_val_def fst_conv snd_conv b_def [symmetric] by (simp only: e2)
qed

lemma fl_round_mono:
  assumes "fl_val x \<le> fl_val y" "0 < p"
  shows "fl_val (fl_round p x) \<le> fl_val (fl_round p y)"
proof -
  obtain m e n f where x: "x = (m, e)" and y: "y = (n, f)" by (cases x; cases y)
  show ?thesis
  proof (cases "m = 0")
    case True
    then show ?thesis using x by simp
  next
    case False
    then have m: "0 < m" by simp
    then have "0 < fl_val x" using x by (simp add: fl_val_def)
    then have n: "0 < n" using assms(1) y by (cases "n = 0") simp_all
    define a b where "a = int (bit_len m) + e" and "b = int (bit_len n) + f"
    have "2 powi (a - 1) < (2 :: real) powi b"
      using fl_val_binade(1) [OF m, of e] fl_val_binade(2) [OF n, of f] assms(1) x y by (simp add: a_def b_def)
    then have ab: "a \<le> b" by (rule_tac ccontr) (use power_int_increasing [of b "a - 1" "2 :: real"] in simp)
    show ?thesis
    proof (cases "a = b")
      case False
      then have "(2 :: real) powi a \<le> 2 powi (b - 1)" using ab by (intro power_int_increasing) simp_all
      then show ?thesis using fl_round_binade(2) [OF m assms(2), of e] fl_round_binade(1) [OF n assms(2), of f] x y
        by (simp add: a_def b_def)
    next
      case True
      define u where "u = max (bit_len m) (bit_len n)"
      have u: "bit_len m \<le> u" "bit_len n \<le> u" by (simp_all add: u_def)
      define s t where "s = u + p - bit_len m" and "t = u + p - bit_len n"
      have st: "int s = int u + int p - a + e" "int t = int u + int p - a + f" using u True by (simp_all add: s_def t_def a_def b_def)
      have "real (m * 2 ^ s) = fl_val x * 2 powi (int u + int p - a)"
        using powi_split [of "int u + int p - a" e] st(1) x by (simp add: fl_val_def flip: powi_nat)
      moreover have "real (n * 2 ^ t) = fl_val y * 2 powi (int u + int p - a)"
        using powi_split [of "int u + int p - a" f] st(2) y by (simp add: fl_val_def flip: powi_nat)
      ultimately have "real (m * 2 ^ s) \<le> real (n * 2 ^ t)" using assms(1) by (simp add: mult_right_mono)
      then have "nearest_even (m * 2 ^ s) (2 ^ u) \<le> nearest_even (n * 2 ^ t) (2 ^ u)" by (intro nearest_even_mono) (simp_all only: of_nat_le_iff, simp)
      then have "real (nearest_even (m * 2 ^ s) (2 ^ u)) * 2 powi (a - int p) \<le> real (nearest_even (n * 2 ^ t) (2 ^ u)) * 2 powi (a - int p)"
        by (intro mult_right_mono) simp_all
      then show ?thesis using fl_round_form [OF u(1), of p e] fl_round_form [OF u(2), of p f] x y True
        by (simp add: fl_val_def s_def t_def a_def b_def add.commute)
    qed
  qed
qed

section \<open>The operations\<close>

lemma fl_val_prod: "fl_val (fst x * fst y, snd x + snd y) = fl_val x * fl_val y"
  by (simp add: fl_val_def powi_split)

lemma fl_mul_mono: "fl_val x \<le> fl_val x' \<Longrightarrow> fl_val y \<le> fl_val y' \<Longrightarrow> 0 < p \<Longrightarrow> fl_val (fl_mul p x y) \<le> fl_val (fl_mul p x' y')"
  unfolding fl_mul_def by (intro fl_round_mono) (simp_all add: fl_val_prod mult_mono)

lemma fl_val_sum: "fl_val (fst x * 2 ^ nat (snd x - min (snd x) (snd y)) + fst y * 2 ^ nat (snd y - min (snd x) (snd y)), min (snd x) (snd y)) = fl_val x + fl_val y"
proof -
  have "real (2 ^ nat (a - e)) * 2 powi e = 2 powi a" if "e \<le> a" for a e :: int
    using powi_split [of "a - e" e] powi_nat [of "nat (a - e)"] that by simp
  then show ?thesis by (simp add: fl_val_def algebra_simps)
qed

lemma fl_add_mono: "fl_val x \<le> fl_val x' \<Longrightarrow> fl_val y \<le> fl_val y' \<Longrightarrow> 0 < p \<Longrightarrow> fl_val (fl_add p x y) \<le> fl_val (fl_add p x' y')"
  unfolding fl_add_def Let_def by (intro fl_round_mono) (simp_all only: fl_val_sum add_mono)

lemma fl_trunc_val: "fl_trunc x = nat \<lfloor>fl_val x\<rfloor>"
proof (cases x)
  case (Pair m e)
  show ?thesis
  proof (cases "0 \<le> e")
    case True
    then have "fl_val x = real (m * 2 ^ nat e)" using Pair powi_nat [of "nat e"] by (simp add: fl_val_def)
    then have "nat \<lfloor>fl_val x\<rfloor> = m * 2 ^ nat e" by (simp only: floor_of_nat nat_int)
    then show ?thesis using True Pair by (simp add: fl_trunc_def)
  next
    case False
    then have "(2 :: real) powi e = inverse (2 ^ nat (- e))" using power_int_minus [of "2 :: real" "- e"] powi_nat [of "nat (- e)"] by simp
    then have "fl_val x = real m / real (2 ^ nat (- e))" using Pair by (simp add: fl_val_def divide_inverse)
    then have "\<lfloor>fl_val x\<rfloor> = int (m div 2 ^ nat (- e))" by (simp only: floor_divide_of_nat_eq)
    then show ?thesis using False Pair by (simp add: fl_trunc_def)
  qed
qed

lemma fl_trunc_mono: "fl_val x \<le> fl_val y \<Longrightarrow> fl_trunc x \<le> fl_trunc y"
  by (simp add: fl_trunc_val nat_mono floor_mono)

lemma format_pos [simp]: "0 < single" "0 < double"
  by (simp_all add: single_def double_def)

lemma fl_val_int [simp]: "fl_val (k, 0) = real k"
  by (simp add: fl_val_def)

lemma times_int_mono: "k \<le> k' \<Longrightarrow> fl_val x \<le> fl_val x' \<Longrightarrow> fl_val (times_int k x) \<le> fl_val (times_int k' x')"
  unfolding times_int_def by (intro fl_mul_mono) simp_all

lemma times_double_mono: "fl_val c \<le> fl_val c' \<Longrightarrow> fl_val x \<le> fl_val x' \<Longrightarrow> fl_val (times_double c x) \<le> fl_val (times_double c' x')"
  unfolding times_double_def by (intro fl_round_mono fl_mul_mono) simp_all

text \<open>A product with an \<open>int\<close> that fits double precision can as well be computed there.\<close>

lemma times_int_double:
  assumes "bit_len (fst x * k) \<le> double"
  shows "fl_val (times_double (k, 0) x) = fl_val (times_int k x)"
proof (rule antisym)
  have "fl_val (fl_mul double x (k, 0)) = fl_val x * real k" using assms fl_val_prod [of x "(k, 0)"] by (simp add: fl_mul_def fl_round_exact)
  then have e: "fl_val (fl_mul double x (k, 0)) = fl_val (fst x * k, snd x)" using fl_val_prod [of x "(k, 0)"] by simp
  show "fl_val (times_double (k, 0) x) \<le> fl_val (times_int k x)" "fl_val (times_int k x) \<le> fl_val (times_double (k, 0) x)"
    unfolding times_double_def times_int_def fl_mul_def [of single] by (intro fl_round_mono; simp add: e)+
qed

section \<open>Levels\<close>

definition level_factor :: "nat \<Rightarrow> fl" where
  "level_factor level = fl_add double (10, 0) (fl_mul double (level - 29, 0) d0_2)"

lemma level_factor_mono: "l \<le> l' \<Longrightarrow> fl_val (level_factor l) \<le> fl_val (level_factor l')"
  unfolding level_factor_def by (intro fl_add_mono fl_mul_mono) simp_all

lemmas fl_eval = fl_add_def fl_mul_def fl_round_def bit_len.simps nearest_even_def Let_def single_def double_def

lemma level_factor_30: "10 \<le> fl_val (level_factor 30)"
  by (simp add: level_factor_def d0_2_def fl_eval fl_val_def power_int_minus)

lemma level_factor_49: "fl_val (level_factor 49) \<le> 14"
  by (simp add: level_factor_def d0_2_def fl_eval fl_val_def power_int_minus)

lemma level_step:
  assumes "fl_val x \<le> fl_val y" "fst x < 2 ^ 40" "fst y < 2 ^ 40"
  shows "fl_val (level_mod l x) \<le> fl_val (level_mod (Suc l) y)"
proof -
  have b: "bit_len (fst z * k) \<le> double" if "fst z < 2 ^ 40" "k < 2 ^ 13" for z :: fl and k
    using mult_strict_mono [OF that] by (simp add: bit_len_le_iff double_def)
  consider "l < 29" | "l = 29" | "30 \<le> l" "l < 49" | "l = 49" | "50 \<le> l" by linarith
  then show ?thesis
  proof cases
    case 1
    then show ?thesis using assms by (simp add: level_mod_def times_int_mono)
  next
    case 2
    have "fl_val (times_int 10 x) = fl_val (times_double (10, 0) x)" using times_int_double [OF b, of x 10] assms by simp
    also have "\<dots> \<le> fl_val (times_double (level_factor 30) y)" using level_factor_30 assms by (intro times_double_mono) simp_all
    finally show ?thesis using 2 by (simp add: level_mod_def level_factor_def)
  next
    case 3
    then show ?thesis using level_factor_mono [of l "Suc l"] times_double_mono [OF _ assms(1)] by (simp add: level_mod_def level_factor_def)
  next
    case 4
    have "fl_val (times_double (level_factor 49) x) \<le> fl_val (times_double (14, 0) y)" using level_factor_49 assms by (intro times_double_mono) simp_all
    also have "\<dots> = fl_val (times_int 14 y)" using times_int_double [OF b, of y 14] assms by simp
    finally show ?thesis using 4 by (simp add: level_mod_def level_factor_def)
  next
    case 5
    then show ?thesis using assms by (auto simp: level_mod_def intro!: times_int_mono)
  qed
qed

lemma race_mod_mono: "fl_val x \<le> fl_val y \<Longrightarrow> fl_val (race_mod r x) \<le> fl_val (race_mod r y)"
  by (simp add: race_mod_def times_int_mono times_double_mono)

lemma class_mod_mono: "fl_val x \<le> fl_val y \<Longrightarrow> fl_val (class_mod c x) \<le> fl_val (class_mod c y)"
  by (simp add: class_mod_def times_int_mono times_double_mono)

lemma round_cube_small:
  assumes "n < 2 ^ 31"
  shows "fst (fl_round single (n, 0)) < 2 ^ 40"
proof -
  have b: "bit_len n \<le> 31" using assms by (simp add: bit_len_le_iff)
  show ?thesis
  proof (cases "bit_len n \<le> single")
    case True
    have "n < 2 ^ bit_len n" using bit_len_le_iff [of n "bit_len n"] by simp
    then have "n * 2 ^ (single - bit_len n) < 2 ^ bit_len n * 2 ^ (single - bit_len n)" by simp
    also have "\<dots> = 2 ^ single" using True by (simp add: power_add [symmetric])
    finally show ?thesis using True by (simp add: fl_round_def single_def Let_def)
  next
    case False
    have "nearest_even n (2 ^ (bit_len n - single)) \<le> n div 2 ^ (bit_len n - single) + 1" by (simp add: nearest_even_def Let_def)
    also have "\<dots> \<le> n + 1" by simp
    finally show ?thesis using False assms by (simp add: fl_round_def Let_def)
  qed
qed

definition exp_value :: "nat \<Rightarrow> u16 \<Rightarrow> u8 \<Rightarrow> nat" where
  "exp_value l r c = fl_trunc (class_mod c (race_mod r (level_mod l (fl_round single (l ^ 3, 0)))))"

lemma exp_value_Suc:
  assumes "Suc k ^ 3 < 2 ^ 31"
  shows "exp_value k r c \<le> exp_value (Suc k) r c"
proof -
  have le: "k ^ 3 \<le> Suc k ^ 3" by (simp add: power_mono)
  let ?f = "\<lambda>i. fl_round single (i ^ 3, 0)"
  have "fl_val (?f k) \<le> fl_val (?f (Suc k))" using le by (intro fl_round_mono) simp_all
  moreover have "k ^ 3 < 2 ^ 31" using le assms by linarith
  ultimately show ?thesis
    using round_cube_small [of "k ^ 3"] round_cube_small [OF assms] le assms unfolding exp_value_def
    by (intro fl_trunc_mono class_mod_mono race_mod_mono level_step) simp_all
qed

lemma exp_value_mono:
  assumes "k \<le> l" "l ^ 3 < 2 ^ 31"
  shows "exp_value k r c \<le> exp_value l r c"
  using assms
proof (induction l)
  case (Suc l)
  have "l ^ 3 \<le> Suc l ^ 3" by (simp add: power_mono)
  then have "l ^ 3 < 2 ^ 31" using Suc.prems(2) by linarith
  then show ?case using Suc exp_value_Suc [of l r c] by (cases "k = Suc l") (auto intro: order_trans)
qed simp

lemma calc_exp_value:
  "calc_exp level r c =
     (if 0 \<le> level \<and> nat level ^ 3 < 2 ^ 31 \<and> exp_value (nat level) r c < 2 ^ 32 then Some (of_nat (exp_value (nat level) r c)) else None)"
proof (cases "0 \<le> level")
  case True
  then obtain n where n: "level = int n" using nonneg_int_cases by blast
  have "level * level * level = int (n ^ 3)" by (simp add: n power3_eq_cube)
  moreover have "int (n ^ 3) < 2 ^ 31 \<longleftrightarrow> n ^ 3 < 2 ^ 31" by (metis of_nat_less_iff of_nat_numeral of_nat_power)
  ultimately show ?thesis using n by (auto simp: calc_exp_def exp_value_def Let_def)
qed (simp add: calc_exp_def)

lemma calc_exp_mono:
  assumes "calc_exp (l - 1) r c = Some a" "calc_exp l r c = Some b"
  shows "a \<le> b"
proof -
  obtain k where k: "l = int (Suc k)"
    using assms(1) by (cases "l \<le> 0") (auto simp: calc_exp_value intro: that [of "nat (l - 1)"] split: if_splits)
  then have "nat l = Suc k" "nat (l - 1) = k" by simp_all
  then have "Suc k ^ 3 < 2 ^ 31" "unat a = exp_value k r c" "unat b = exp_value (Suc k) r c"
    using assms by (auto simp: calc_exp_value unat_of_nat split: if_splits)
  then show ?thesis using exp_value_Suc [of k r c] by (simp add: word_le_nat_alt)
qed

text \<open>Up to level 86 the experience fits 32 bits for every race and class.\<close>

lemma level_86: "level_mod 86 (fl_round single (636056, 0)) = (12721120, 1)"
  by (simp add: level_mod_def times_int_def fl_eval)

lemma race_86: "race_mod r (12721120, 1) \<in> {(16696470, 4), (9540840, 5), (9143305, 5), (15106330, 4), (15901400, 4)}"
  by (simp add: race_mod_def times_int_def times_double_def d10_5_def d11_5_def d9_5_def fl_eval)

lemma class_86: "x \<in> {(16696470, 4), (9540840, 5), (9143305, 5), (15106330, 4), (15901400, 4)} \<Longrightarrow> fl_trunc (class_mod c x) < 2 ^ 32"
  by (elim insertE emptyE; simp only: class_mod_def split: if_split; simp add: times_int_def times_double_def d9_05_def fl_trunc_def fl_eval)

lemma exp_value_86: "exp_value 86 r c < 2 ^ 32"
  using class_86 [OF race_86] level_86 by (simp add: exp_value_def)

lemma calc_exp_defined:
  assumes "0 \<le> level" "level \<le> 86"
  shows "\<exists>v. calc_exp level r c = Some v"
proof -
  have "nat level \<le> 86" using assms by simp
  then have "exp_value (nat level) r c < 2 ^ 32" "nat level ^ 3 \<le> 86 ^ 3"
    using exp_value_mono [of "nat level" 86 r c] exp_value_86 [of r c] power_mono [of "nat level" 86 3] by simp_all
  then show ?thesis using assms by (simp add: calc_exp_value)
qed

end
