(* ===== verification/PlayerProps.thy ===== *)
theory PlayerProps
  imports PlayerStats CalcExpProps Machine MessageFilterProps ZoneProps
begin

text \<open>
  The player's character: its arrays keep their sizes and no packet of a sensible level faults, the table of colours compares levels,
  the experience stays between the bounds of its level, and the state comes back from its file. A profile that is sent again
  adds the statistics once more, and a checkpoint that is restored stays hidden behind the defaults.
\<close>

section \<open>Well-formed states\<close>

definition level_fits :: "int \<Rightarrow> bool" where "level_fits l \<longleftrightarrow> 1 \<le> l \<and> l \<le> 86"

definition player_ok :: "player_state \<Rightarrow> bool" where
  "player_ok = (\<lambda>(p, fs). length (m_conTable p) = maxSpawnLevel \<and> length (m_playerSkills p) = MAX_KNOWN_SKILLS
     \<and> length (m_spellBookSlots p) = MAX_SPELLBOOK_SLOTS \<and> level_fits (sint (m_level p)) \<and> level_fits (uint (m_defaultLevel p))
     \<and> m_minExp p \<le> m_maxExp p \<and> m_tickExp p = (m_maxExp p - m_minExp p) div 330)"

text \<open>The same without the bounds of the experience, which the constructor with a saved state and a checkpoint do not set.\<close>

definition player_sized :: "player_state \<Rightarrow> bool" where
  "player_sized = (\<lambda>(p, fs). length (m_conTable p) = maxSpawnLevel \<and> length (m_playerSkills p) = MAX_KNOWN_SKILLS
     \<and> length (m_spellBookSlots p) = MAX_SPELLBOOK_SLOTS \<and> level_fits (sint (m_level p)) \<and> level_fits (uint (m_defaultLevel p)))"

lemma player_ok_sized: "player_ok st \<Longrightarrow> player_sized st"
  by (auto simp: player_ok_def player_sized_def)

definition player_accepts :: "player_env \<times> player_op \<Rightarrow> bool" where
  "player_accepts = (\<lambda>(env, op). case op of
       PProfile cp \<Rightarrow> c_str (cp_name cp) \<noteq> None \<and> c_str (cp_lastName cp) \<noteq> None \<and> float_coord (cp_x cp) \<noteq> None \<and> float_coord (cp_y cp) \<noteq> None
         \<and> float_coord (cp_z cp) \<noteq> None \<and> float_int8 (cp_heading cp) \<noteq> None \<and> level_fits (uint (cp_level cp)) \<and> length (cp_skills cp) = MAX_KNOWN_SKILLS
     | PSkill d \<Rightarrow> 8 \<le> length d \<and> unat (u32_at d 0) < MAX_KNOWN_SKILLS
     | PMana d \<Rightarrow> 4 \<le> length d
     | PExp d \<Rightarrow> 4 \<le> length d
     | PAltExp d \<Rightarrow> 12 \<le> length d
     | PLevel d \<Rightarrow> 12 \<le> length d \<and> level_fits (sint (u32_at d 0))
     | PHP d \<Rightarrow> 12 \<le> length d
     | PStamina d \<Rightarrow> 8 \<le> length d
     | PSelf d dir \<Rightarrow> sizeof_spawnPositionUpdate \<le> length d
     | PCon d dir \<Rightarrow> 24 \<le> length d
     | PTrade d dir \<Rightarrow> 8 \<le> length d \<and> unat (u32_at d 0) < MAX_SPELLBOOK_SLOTS \<and> unat (u32_at d 4) < MAX_SPELLBOOK_SLOTS
     | PZoneChanged \<Rightarrow> True
     | PKill name level \<Rightarrow> True)"

lemma sint_ucast_level: "sint (ucast (l :: u8) :: u32) = uint l"
proof -
  have a: "0 \<le> uint l" "uint l < 2 ^ 8" using uint_bounded [of l] by simp_all
  have b: "- (2 ^ 31) \<le> uint l" by (rule order_trans [OF _ a(1)]) simp
  have "uint l < 2 ^ 31" using a(2) by simp
  then show ?thesis using a b signed_take_bit_int_eq_self [of 31 "uint l"] by (simp add: sint_uint unsigned_ucast_eq take_bit_int_eq_self)
qed

lemma pl_level_fits: "player_sized (p, fs) \<Longrightarrow> level_fits (pl_level p)"
  by (simp add: player_sized_def player_vt_def sint_ucast_level)

lemma fillConTable_ok:
  assumes "level_fits (pl_level p)" "length (m_conTable p) = maxSpawnLevel"
  shows "\<exists>t. fillConTable p = Some (p\<lparr>m_conTable := t\<rparr>) \<and> length t = maxSpawnLevel"
  using con_fill_exact [of "pl_level p" "m_conTable p" "m_conColorBases p"] assms by (auto simp: fillConTable_def level_fits_def)

definition exp_ok :: "PlayerStats \<Rightarrow> bool" where
  "exp_ok p \<longleftrightarrow> m_minExp p \<le> m_maxExp p \<and> m_tickExp p = (m_maxExp p - m_minExp p) div 330"

lemma exp_bounds_ok:
  assumes "level_fits level"
  shows "\<exists>lo hi. exp_bounds level r c p = Some (p\<lparr>m_minExp := lo, m_maxExp := hi, m_tickExp := (hi - lo) div 330\<rparr>) \<and> lo \<le> hi"
proof -
  obtain lo hi where "calc_exp (level - 1) r c = Some lo" "calc_exp level r c = Some hi"
    using calc_exp_defined [of "level - 1" r c] calc_exp_defined [of level r c] assms by (auto simp: level_fits_def)
  then have "exp_bounds level r c p = Some (p\<lparr>m_minExp := lo, m_maxExp := hi, m_tickExp := (hi - lo) div 330\<rparr>)" "lo \<le> hi"
    using calc_exp_mono by (simp_all add: exp_bounds_def)
  then show ?thesis by blast
qed

lemma save_if_player [simp]: "fst (pl_save_if env st) = fst st" "fst (savePlayerState env st) = fst st"
  by (cases st; simp add: pl_save_if_def savePlayerState_def)+

lemma player_ok_fst: "fst st = fst st' \<Longrightarrow> player_ok st \<longleftrightarrow> player_ok st'"
  by (cases st; cases st') (simp add: player_ok_def)

lemma player_ok_save [simp]: "player_ok (pl_save_if env st) \<longleftrightarrow> player_ok st"
  by (rule player_ok_fst) simp

lemma ex_saved [simp]: "(\<exists>a b. pl_save_if env st = (a, b) \<and> player_ok (a, b)) \<longleftrightarrow> player_ok st"
  using player_ok_save [of env st] by (cases "pl_save_if env st") simp

lemma ok_updates [simp]:
  "pl_level (updateLastChanged e p) = pl_level p" "m_conTable (updateLastChanged e p) = m_conTable p"
  by (simp_all add: updateLastChanged_def player_vt_def defaults_used_def)

lemma setRace_fields [simp]:
  "m_conTable (setRace vt r p) = m_conTable p" "m_playerSkills (setRace vt r p) = m_playerSkills p" "m_spellBookSlots (setRace vt r p) = m_spellBookSlots p"
  "m_level (setRace vt r p) = m_level p" "m_defaultLevel (setRace vt r p) = m_defaultLevel p" "m_minExp (setRace vt r p) = m_minExp p"
  "m_maxExp (setRace vt r p) = m_maxExp p" "m_tickExp (setRace vt r p) = m_tickExp p" "defaults_used (setRace vt r p) = defaults_used p"
  "m_useDefaults (setRace vt r p) = m_useDefaults p" "m_maxStats (setRace vt r p) = m_maxStats p"
  for p :: PlayerStats
  by (simp_all add: setRace_def defaults_used_def Let_def)

lemma setDeity_fields [simp]:
  "m_conTable (setDeity vt r p) = m_conTable p" "m_playerSkills (setDeity vt r p) = m_playerSkills p" "m_spellBookSlots (setDeity vt r p) = m_spellBookSlots p"
  "m_level (setDeity vt r p) = m_level p" "m_defaultLevel (setDeity vt r p) = m_defaultLevel p" "m_minExp (setDeity vt r p) = m_minExp p"
  "m_maxExp (setDeity vt r p) = m_maxExp p" "m_tickExp (setDeity vt r p) = m_tickExp p" "defaults_used (setDeity vt r p) = defaults_used p"
  "m_useDefaults (setDeity vt r p) = m_useDefaults p" "m_maxStats (setDeity vt r p) = m_maxStats p"
  for p :: PlayerStats
  by (simp_all add: setDeity_def defaults_used_def Let_def)

lemma reset_ok:
  assumes "length (m_conTable p) = maxSpawnLevel" "length (m_spellBookSlots p) = MAX_SPELLBOOK_SLOTS" "level_fits (uint (m_defaultLevel p))"
  shows "\<exists>p' es. pl_zoneChanged env p = Some (p', es) \<and> player_ok (p', fs) \<and> m_maxStats p' = replicate 7 0 \<and> m_useDefaults p'
    \<and> m_defaultName p' = m_defaultName p \<and> m_defaultLevel p' = m_defaultLevel p \<and> m_name p' = m_name p"
proof -
  define p1 where "p1 = p\<lparr>m_useDefaults := True, m_currentAltExp := 0, m_currentExp := 0, m_currentAApts := 0, m_currentAAUnspent := 0\<rparr>"
  have l: "pl_level p1 = uint (m_defaultLevel p)" by (simp add: p1_def player_vt_def defaults_used_def sint_ucast_level)
  obtain lo hi where e: "exp_bounds (pl_level p1) (pl_race p1) (pl_classVal p1) p1 = Some (p1\<lparr>m_minExp := lo, m_maxExp := hi, m_tickExp := (hi - lo) div 330\<rparr>)" "lo \<le> hi"
    using exp_bounds_ok [of "pl_level p1"] assms l by fastforce
  define p4 where "p4 = (setRace player_vt 1 (p1\<lparr>m_minExp := lo, m_maxExp := hi, m_tickExp := (hi - lo) div 330, m_playerSkills := replicate MAX_KNOWN_SKILLS 255,
    m_playerLanguages := replicate MAX_KNOWN_LANGS 255, m_mana := 0, m_level := 1\<rparr>))\<lparr>m_class := 1, m_validExp := False, m_validAttributes := False\<rparr>"
  have "pl_level p4 = uint (m_defaultLevel p)" by (simp add: p4_def p1_def player_vt_def defaults_used_def setRace_def Let_def sint_ucast_level)
  then obtain t where t: "fillConTable p4 = Some (p4\<lparr>m_conTable := t\<rparr>)" "length t = maxSpawnLevel"
    using fillConTable_ok [of p4] assms by (auto simp: p4_def p1_def)
  have "pl_reset env p = Some (updateLastChanged (pe_spawn env) (p4\<lparr>m_conTable := t\<rparr>), [DeleteSkills, DeleteLanguages])"
    using e(1) t(1) by (simp add: pl_reset_def Let_def p1_def [symmetric] p4_def)
  then show ?thesis using e(2) t(2) assms
    by (simp add: pl_zoneChanged_def pl_clear_def player_ok_def updateLastChanged_def setPoint_def p4_def p1_def setRace_def Let_def level_fits_def)
qed


section \<open>The packets\<close>

lemma exp_kept:
  "player_ok (p, fs) \<Longrightarrow> m_conTable p' = m_conTable p \<Longrightarrow> m_playerSkills p' = m_playerSkills p \<Longrightarrow> m_spellBookSlots p' = m_spellBookSlots p
    \<Longrightarrow> m_level p' = m_level p \<Longrightarrow> m_defaultLevel p' = m_defaultLevel p \<Longrightarrow> m_minExp p' = m_minExp p \<Longrightarrow> m_maxExp p' = m_maxExp p
    \<Longrightarrow> m_tickExp p' = m_tickExp p \<Longrightarrow> player_ok (p', fs')"
  by (simp add: player_ok_def)

lemma rd_prefix: "n \<le> length d \<Longrightarrow> rd_range d 0 n = Some (take n d)"
  by (simp add: rd_range_def)

lemma u32_prefix [simp]: "u32_at (take 8 d) 0 = u32_at d 0" "u32_at (take 8 d) 4 = u32_at d 4" "u32_at (take 12 d) 0 = u32_at d 0" "u32_at (take 4 d) 0 = u32_at d 0"
  "u32_at (take 12 d) 8 = u32_at d 8"
  by (simp_all add: u32_at_def drop_take)

lemma setPlayerID_ok: "player_ok (p, fs) \<Longrightarrow> player_ok (fst (setPlayerID env i p), fs)"
  by (auto simp: setPlayerID_def updateLastChanged_def player_ok_def)

lemma self_moved_ok: "player_ok (p, fs) \<Longrightarrow> player_ok (self_moved env u p, fs)"
  by (simp add: self_moved_def Let_def player_ok_def updateLastChanged_def updateLast_def setHeading_def setDeltas_def spawn_setPos_def item_setPos_def setPoint_def)

lemma count_save_ok: "player_ok (p, fs) \<Longrightarrow> player_ok (count_save env (p, fs))"
  by (auto simp: count_save_def player_ok_def savePlayerState_def Let_def)

lemma self_step:
  assumes "player_ok (p, fs)" "sizeof_spawnPositionUpdate \<le> length d"
  shows "\<exists>st es. playerUpdateSelf env d dir (p, fs) = Some (st, es) \<and> player_ok st"
proof -
  obtain u where u: "read_positionUpdate d 0 = Some u" using assms(2) by (simp add: read_positionUpdate_def rd_prefix Let_def)
  define pe where "pe = (if dir = DIR_Client \<and> m_ID p = 0 then setPlayerID env (u_spawnId u) p else (p, []))"
  have "player_ok (fst pe, fs)" using assms(1) setPlayerID_ok by (simp add: pe_def)
  then show ?thesis using u assms(1) self_moved_ok [of "fst pe" fs env u] count_save_ok [of "self_moved env u (fst pe)" fs env]
    by (cases pe; cases "count_save env (self_moved env u (fst pe), fs)") (auto simp: playerUpdateSelf_def pe_def [symmetric] Let_def)
qed

lemma level_step_ok:
  assumes "player_sized (p, fs)" "12 \<le> length d" "level_fits (sint (u32_at d 0))"
  shows "\<exists>st es. updateLevel env d (p, fs) = Some (st, es) \<and> player_ok st"
proof -
  define p1 where "p1 = p\<lparr>m_level := u32_at d 0\<rparr>"
  have p1: "player_sized (p1, fs)" using assms by (simp add: p1_def player_sized_def)
  obtain lo hi where e: "exp_bounds (pl_level p1) (pl_race p1) (pl_classVal p1) p1 = Some (p1\<lparr>m_minExp := lo, m_maxExp := hi, m_tickExp := (hi - lo) div 330\<rparr>)" "lo \<le> hi"
    using exp_bounds_ok [OF pl_level_fits [OF p1]] by blast
  define p3 where "p3 = p1\<lparr>m_minExp := lo, m_maxExp := hi, m_tickExp := (hi - lo) div 330, m_currentExp := (hi - lo) div 330 * u32_at d 8 + lo, m_validExp := True, m_freshKill := False\<rparr>"
  have "pl_level p3 = pl_level p1" by (simp add: p3_def player_vt_def defaults_used_def)
  then obtain t where t: "fillConTable p3 = Some (p3\<lparr>m_conTable := t\<rparr>)" "length t = maxSpawnLevel"
    using fillConTable_ok [of p3] pl_level_fits [OF p1] p1 by (auto simp: p3_def p1_def player_sized_def)
  have "player_ok (updateLastChanged (pe_spawn env) (p3\<lparr>m_conTable := t\<rparr>), fs')" for fs'
    using p1 e(2) t(2) by (simp add: player_ok_def player_sized_def updateLastChanged_def p3_def)
  then show ?thesis using e(1) t(1) assms(2) by (simp add: updateLevel_def rd_prefix Let_def p1_def [symmetric] p3_def)
qed

lemma trade_step:
  assumes "player_ok (p, fs)" "8 \<le> length d" "unat (u32_at d 0) < MAX_SPELLBOOK_SLOTS" "unat (u32_at d 4) < MAX_SPELLBOOK_SLOTS"
  shows "\<exists>st es. tradeSpellBookSlots d dir (p, fs) = Some (st, es) \<and> player_ok st"
  using assms by (auto simp: tradeSpellBookSlots_def rd_prefix Let_def nth_opt_def player_ok_def)

section \<open>The profile\<close>

lemma profile_fields_kept [simp]:
  "m_conTable (profile_identity cp p) = m_conTable p" "m_spellBookSlots (profile_identity cp p) = m_spellBookSlots p"
  "m_defaultLevel (profile_identity cp p) = m_defaultLevel p" "m_level (profile_identity cp p) = ucast (cp_level cp)" "m_maxStats (profile_identity cp p) = m_maxStats p"
  "m_conTable (profile_stats cp p) = m_conTable p" "m_defaultLevel (profile_stats cp p) = m_defaultLevel p" "m_level (profile_stats cp p) = m_level p"
  "m_maxStats (profile_stats cp p) = add_stats (cp_stats cp) (m_maxStats p)"
  by (simp_all add: profile_identity_def profile_stats_def Let_def)

lemma profile_level:
  "level_fits (uint (m_defaultLevel p)) \<Longrightarrow> level_fits (uint (cp_level cp)) \<Longrightarrow> level_fits (pl_level (profile_identity cp p))"
  by (simp add: player_vt_def sint_ucast_level)

lemma loadProfile_ok:
  assumes "length (m_conTable p) = maxSpawnLevel" "level_fits (uint (m_defaultLevel p))" "level_fits (uint (cp_level cp))" "length (cp_skills cp) = MAX_KNOWN_SKILLS"
  shows "\<exists>p' es. loadProfile cp p = Some (p', es) \<and> player_ok (p', fs) \<and> m_maxStats p' = add_stats (cp_stats cp) (m_maxStats p)"
proof -
  obtain t where t: "fillConTable (profile_identity cp p) = Some ((profile_identity cp p)\<lparr>m_conTable := t\<rparr>)" "length t = maxSpawnLevel"
    using fillConTable_ok [of "profile_identity cp p"] profile_level assms by auto
  define p2 where "p2 = profile_stats cp ((profile_identity cp p)\<lparr>m_conTable := t\<rparr>)"
  have l: "sint (m_level p2) = uint (cp_level cp)" by (simp add: p2_def sint_ucast_level)
  obtain lo hi where e: "exp_bounds (sint (m_level p2)) (m_race p2) (m_class p2) p2 = Some (p2\<lparr>m_minExp := lo, m_maxExp := hi, m_tickExp := (hi - lo) div 330\<rparr>)" "lo \<le> hi"
    using exp_bounds_ok [of "sint (m_level p2)"] assms(3) l by metis
  have "m_maxStats p2 = add_stats (cp_stats cp) (m_maxStats p)" "m_conTable p2 = t" "m_defaultLevel p2 = m_defaultLevel p" by (simp_all add: p2_def)
  then show ?thesis using t e assms l
    by (simp add: loadProfile_def Let_def p2_def [symmetric] player_ok_def copy_spellBook_def sint_ucast_level)
qed

lemma profile_step:
  assumes "player_sized (p, fs)" "player_accepts (env, PProfile cp)"
  shows "\<exists>p' fs' es. player_profile env cp (p, fs) = Some ((p', fs'), es) \<and> player_ok (p', fs') \<and> m_maxStats p' = add_stats (cp_stats cp) (m_maxStats p)"
proof -
  obtain name lastName where n: "c_str (cp_name cp) = Some name" "c_str (cp_lastName cp) = Some lastName" using assms(2) by (auto simp: player_accepts_def)
  define p0 where "p0 = p\<lparr>m_NPC := SPAWN_SELF, m_typeflag := 1, m_name := q_utf8 (pe_spawn env) name, m_realName := q_utf8 (pe_spawn env) name,
    m_lastName := q_utf8 (pe_spawn env) lastName\<rparr>"
  obtain p1 es where p1: "loadProfile cp p0 = Some (p1, es)" "player_ok (p1, fs)" "m_maxStats p1 = add_stats (cp_stats cp) (m_maxStats p)"
    using loadProfile_ok [of p0 cp fs] assms by (auto simp: p0_def player_sized_def player_accepts_def)
  obtain x y z h where f: "float_coord (cp_x cp) = Some x" "float_coord (cp_y cp) = Some y" "float_coord (cp_z cp) = Some z" "float_int8 (cp_heading cp) = Some h"
    using assms(2) by (auto simp: player_accepts_def)
  obtain p2 where p2: "profile_position env cp (set_guild env (cp_guildID cp) p1) = Some p2" using f by (simp add: profile_position_def Let_def)
  have "player_ok (profile_rest cp p2, fs)" "m_maxStats (profile_rest cp p2) = m_maxStats p1"
    using p1(2) p2 f by (auto simp: profile_position_def Let_def profile_rest_def set_guild_def player_ok_def setHeading_def setDeltas_def
        spawn_setPos_def item_setPos_def setPoint_def)
  moreover obtain fs' where s: "pl_save_if env (profile_rest cp p2, fs) = (profile_rest cp p2, fs')" by (cases "pl_save_if env (profile_rest cp p2, fs)") (metis fst_conv save_if_player(1))
  ultimately show ?thesis using n p1 p2 by (simp add: player_profile_def Let_def p0_def [symmetric] player_ok_def)
qed

lemma player_step_ok:
  assumes "player_ok st" "player_accepts op"
  shows "\<exists>st' es. player_step op st = Some (st', es) \<and> player_ok st'"
proof -
  obtain p fs env o' where s: "st = (p, fs)" "op = (env, o')" by (cases st, cases op)
  note ok = assms(1) [unfolded s]
  note acc = assms(2) [unfolded s]
  show ?thesis
  proof (cases o')
    case (PProfile cp)
    then show ?thesis using profile_step [OF player_ok_sized [OF ok], of env cp] acc s by auto
  next
    case (PLevel d)
    then show ?thesis using level_step_ok [OF player_ok_sized [OF ok], of d env] acc s by (auto simp: player_accepts_def)
  next
    case (PSelf d dir)
    then show ?thesis using self_step [OF ok, of d env dir] acc s by (auto simp: player_accepts_def)
  next
    case (PTrade d dir)
    then show ?thesis using trade_step [OF ok, of d dir] acc s by (auto simp: player_accepts_def)
  next
    case PZoneChanged
    then show ?thesis using reset_ok [of p env fs] ok s by (auto simp: player_ok_def)
  next
    case (PSkill d)
    then show ?thesis using ok acc s by (simp add: player_accepts_def increaseSkill_def rd_prefix Let_def) (simp add: player_ok_def)
  next
    case (PHP d)
    then show ?thesis using ok acc s by (simp add: player_accepts_def updateNpcHP_def read_hpUpdate_def rd_prefix Let_def) (simp add: player_ok_def updateLastChanged_def)
  next
    case (PCon d dir)
    then show ?thesis using ok acc s setPlayerID_ok [OF ok, of env "con_playerid (the (read_consider d))"]
      by (auto simp: player_accepts_def consMessage_def read_consider_def rd_prefix Let_def split: prod.split)
  next
    case (PKill name level)
    then show ?thesis using ok s by (simp add: player_ok_def setLastKill_def)
  next
    case (PMana d)
    then show ?thesis using ok acc s by (simp add: player_accepts_def manaChange_def rd_prefix Let_def) (simp add: player_ok_def)
  next
    case (PExp d)
    then show ?thesis using ok acc s by (simp add: player_accepts_def updateExp_def rd_prefix Let_def) (simp add: player_ok_def)
  next
    case (PAltExp d)
    then show ?thesis using ok acc s by (simp add: player_accepts_def updateAltExp_def rd_prefix Let_def) (simp add: player_ok_def)
  next
    case (PStamina d)
    then show ?thesis using ok acc s by (simp add: player_accepts_def updateStamina_def rd_prefix Let_def) (simp add: player_ok_def)
  qed
qed

interpretation player: machine player_step player_ok player_accepts
  by unfold_locales (rule player_step_ok)


lemma construct_fields [simp]:
  "m_conTable (construct_player env pp xp raw) = m_conTable raw" "m_spellBookSlots (construct_player env pp xp raw) = m_spellBookSlots raw"
  "m_defaultLevel (construct_player env pp xp raw) = ucast (getPrefInt pp ''DefaultLevel'' ''Defaults'' 1 xp)"
  "m_defaultName (construct_player env pp xp raw) = getPrefString (pp_reader pp) ''DefaultName'' ''Defaults'' ''You'' xp"
  by (cases raw; simp add: construct_player_def Let_def Spawn.Spawn.defs)+

text \<open>C35: A player that is created with a sensible default level keeps its arrays, its level and the bounds of its experience well-formed under
  every sequence of well-formed packets up to level 86, and no packet makes it fault.\<close>

theorem player_never_faults:
  assumes "length (m_conTable raw) = maxSpawnLevel" "length (m_spellBookSlots raw) = MAX_SPELLBOOK_SLOTS"
    "level_fits (uint (ucast (getPrefInt pp ''DefaultLevel'' ''Defaults'' 1 xp) :: u8))" "list_all player_accepts ops"
  shows "\<exists>st0 es0 st es. new_Player env pp False xp raw fs = Some (st0, es0) \<and> run player_step ops st0 = Some (st, es) \<and> player_ok st"
proof -
  obtain p es0 where p: "pl_zoneChanged env (construct_player env pp xp raw) = Some (p, es0)" "player_ok (p, fs)"
    using reset_ok [of "construct_player env pp xp raw" env fs] assms by auto
  then show ?thesis using player.run_ok [OF p(2) assms(4)] by (auto simp: new_Player_def)
qed

section \<open>Experience\<close>

lemma tick_bounds:
  fixes lo hi t :: u32
  assumes "lo \<le> hi" "unat t \<le> 330"
  shows "lo \<le> (hi - lo) div 330 * t + lo" "(hi - lo) div 330 * t + lo \<le> hi"
proof -
  let ?d = "unat hi - unat lo"
  have d: "unat (hi - lo) = ?d" using assms(1) by (rule unat_sub)
  have "?d div 330 * unat t \<le> ?d div 330 * 330" using assms(2) by simp
  also have "\<dots> \<le> ?d" by simp
  finally have le: "?d div 330 * unat t \<le> ?d" .
  have b: "unat hi < 2 ^ 32" "unat lo \<le> unat hi" using unsigned_less [of hi] assms(1) by (simp_all add: word_le_nat_alt)
  have "unat ((hi - lo) div 330 * t) = ?d div 330 * unat t" using le b by (simp add: unat_word_ariths unat_div d)
  moreover have "?d div 330 * unat t + unat lo < 2 ^ 32" using le b by linarith
  ultimately have "unat ((hi - lo) div 330 * t + lo) = ?d div 330 * unat t + unat lo" by (simp only: unat_word_ariths) simp
  then show "lo \<le> (hi - lo) div 330 * t + lo" "(hi - lo) div 330 * t + lo \<le> hi" using le b by (simp_all add: word_le_nat_alt)
qed

text \<open>The operations that compute the bounds of the experience; they do so in every state.\<close>

definition sets_bounds :: "player_op \<Rightarrow> bool" where
  "sets_bounds op = (case op of PProfile cp \<Rightarrow> True | PLevel d \<Rightarrow> True | PZoneChanged \<Rightarrow> True | _ \<Rightarrow> False)"

lemma bounds_step:
  assumes "player_sized st" "sets_bounds op" "player_accepts (env, op)"
  shows "\<exists>st' es. player_step (env, op) st = Some (st', es) \<and> player_ok st'"
proof -
  obtain p fs where st: "st = (p, fs)" by (cases st)
  note sz = assms(1) [unfolded st]
  show ?thesis
  proof (cases op)
    case (PProfile cp)
    then show ?thesis using profile_step [OF sz, of env cp] assms(3) st by auto
  next
    case (PLevel d)
    then show ?thesis using level_step_ok [OF sz, of d env] assms(3) st by (auto simp: player_accepts_def)
  next
    case PZoneChanged
    then show ?thesis using reset_ok [of p env fs] sz st by (auto simp: player_sized_def)
  qed (use assms(2) in \<open>simp_all add: sets_bounds_def\<close>)
qed

text \<open>A checkpoint may leave bounds that do not fit each other, and nothing else behind.\<close>

lemma checkpoint_sized:
  assumes "player_sized (p, fs)" "level_fits (uint (ck_player_level ck))"
  shows "player_sized (fst (pl_applyCheckpoint env ck p), fs)"
  using assms by (simp add: player_sized_def pl_applyCheckpoint_def Let_def setPlayerID_def updateLastChanged_def sint_ucast_level)

text \<open>C37: Let a player be in any state with tables of their sizes and levels in range, whatever its experience and the bounds of it are, as
  they may be after a checkpoint. Once a profile, a level packet or a zone change came (the constructor without a saved state ends with
  the work of a zone change), and after any well-formed packets behind it, an experience packet (with the 330ths of a level) leaves the
  experience between the one at which the level begins and the one at which it ends.\<close>

theorem experience_in_level:
  assumes "player_sized st" "sets_bounds op0" "player_accepts (env0, op0)" "list_all player_accepts ops" "4 \<le> length d" "unat (u32_at d 0) \<le> 330"
  shows "\<exists>p fs es. run player_step ((env0, op0) # ops @ [(env, PExp d)]) st = Some ((p, fs), es) \<and> m_minExp p \<le> m_currentExp p \<and> m_currentExp p \<le> m_maxExp p"
proof -
  obtain st1 es1 where 1: "player_step (env0, op0) st = Some (st1, es1)" "player_ok st1" using bounds_step [OF assms(1-3)] by blast
  obtain q fq es where q: "run player_step ops st1 = Some ((q, fq), es)" "player_ok (q, fq)" using player.run_ok [OF 1(2) assms(4)] by auto
  define q' where "q' = q\<lparr>m_currentExp := m_tickExp q * u32_at d 0 + m_minExp q, m_validExp := True, m_freshKill := False\<rparr>"
  have "m_minExp q' \<le> m_currentExp q' \<and> m_currentExp q' \<le> m_maxExp q'"
    using q(2) tick_bounds [of "m_minExp q" "m_maxExp q" "u32_at d 0"] assms(6) by (simp add: player_ok_def q'_def)
  moreover obtain f' where "pl_save_if env (q', fq) = (q', f')" by (cases "pl_save_if env (q', fq)") (metis fst_conv save_if_player(1))
  then obtain es' where "player_step (env, PExp d) (q, fq) = Some ((q', f'), es')" using assms(5)
    by (simp add: updateExp_def rd_prefix Let_def q'_def)
  ultimately show ?thesis using q(1) 1(1) by (auto simp: run_append)
qed

section \<open>Profiles\<close>

lemma add_stats_again:
  assumes "length new = length old"
  shows "add_stats new (map2 (\<lambda>m n. m + of_nat k * ucast n) old new) = map2 (\<lambda>m n. m + of_nat (Suc k) * ucast n) old new"
  using assms by (intro nth_equalityI) (simp_all add: add_stats_def algebra_simps)

lemma profiles_run:
  assumes "player_ok (p, fs)" "player_accepts (env, PProfile cp)" "length (cp_stats cp) = length (m_maxStats p)"
  shows "\<exists>p' fs' es. run player_step (replicate n (env, PProfile cp)) (p, fs) = Some ((p', fs'), es) \<and> player_ok (p', fs')
    \<and> m_maxStats p' = map2 (\<lambda>m k. m + of_nat n * ucast k) (m_maxStats p) (cp_stats cp)"
proof (induction n)
  case 0
  have "map2 (\<lambda>m k. m) (m_maxStats p) (cp_stats cp) = m_maxStats p" using assms(3) by (intro nth_equalityI) simp_all
  then show ?case using assms(1) by simp
next
  case (Suc n)
  then obtain p1 fs1 es1 where 1: "run player_step (replicate n (env, PProfile cp)) (p, fs) = Some ((p1, fs1), es1)" "player_ok (p1, fs1)"
      "m_maxStats p1 = map2 (\<lambda>m k. m + of_nat n * ucast k) (m_maxStats p) (cp_stats cp)" by blast
  obtain p2 fs2 es2 where "player_profile env cp (p1, fs1) = Some ((p2, fs2), es2)" "player_ok (p2, fs2)" "m_maxStats p2 = add_stats (cp_stats cp) (m_maxStats p1)"
    using profile_step [OF player_ok_sized [OF 1(2)] assms(2)] by blast
  moreover have "replicate (Suc n) (env, PProfile cp) = replicate n (env, PProfile cp) @ [(env, PProfile cp)]" by (simp add: replicate_append_same)
  ultimately show ?case using 1 add_stats_again [of "cp_stats cp" "m_maxStats p" n] assms(3)
    by (simp add: run_append del: replicate.simps of_nat_Suc)
qed

text \<open>C38: A profile that is sent again in a zone, as the server does about every minute, adds the statistics once more: after \<open>n\<close> profiles every
  maximum is \<open>n\<close> times the statistic, cut to 8 bits.\<close>

theorem statistics_grow_with_profiles:
  assumes "player_ok st" "player_accepts (env, PProfile cp)" "length (cp_stats cp) = 7"
  shows "\<exists>p fs es. run player_step ((env, PZoneChanged) # replicate n (env, PProfile cp)) st = Some ((p, fs), es)
    \<and> m_maxStats p = map (\<lambda>s. of_nat n * ucast s) (cp_stats cp)"
proof -
  obtain p0 fs0 where st: "st = (p0, fs0)" by (cases st)
  obtain p1 es1 where 1: "pl_zoneChanged env p0 = Some (p1, es1)" "player_ok (p1, fs0)" "m_maxStats p1 = replicate 7 0"
    using reset_ok [of p0 env fs0] assms(1) st by (auto simp: player_ok_def)
  obtain p2 fs2 es2 where 2: "run player_step (replicate n (env, PProfile cp)) (p1, fs0) = Some ((p2, fs2), es2)"
      "m_maxStats p2 = map2 (\<lambda>m k. m + of_nat n * ucast k) (replicate 7 0) (cp_stats cp)"
    using profiles_run [OF 1(2) assms(2), of n] assms(3) 1(3) by auto
  have "map2 (\<lambda>m k. m + of_nat n * ucast k) (replicate 7 0) (cp_stats cp) = map (\<lambda>s. of_nat n * ucast s :: u8) (cp_stats cp)"
    using assms(3) by (intro nth_equalityI) simp_all
  then show ?thesis using 1(1) 2 st by simp
qed

section \<open>Colours\<close>

text \<open>C36: For a player of level 1 to 247 the table gives the colour of the difference of the levels for every level of a spawn; for a higher one the code
  writes behind the table.\<close>

theorem con_table_exact:
  assumes "1 \<le> pl_level p" "length (m_conTable p) = maxSpawnLevel" "1 \<le> s" "s < maxSpawnLevel"
  shows "case fillConTable p of None \<Rightarrow> 248 \<le> pl_level p
    | Some p' \<Rightarrow> pl_level p < 248 \<and> pickConColor (m_conTable p') s = Some (con_color (m_conColorBases p) (pl_level p) (int s))"
proof (cases "pl_level p < 248")
  case True
  then show ?thesis using con_fill_exact [OF assms(1) True assms(2), of "m_conColorBases p"] assms by (auto simp: fillConTable_def pickConColor_def nth_opt_def)
next
  case False
  then show ?thesis using con_fill_overruns [of "pl_level p" "m_conTable p" "m_conColorBases p"] assms(2) by (simp add: fillConTable_def)
qed

section \<open>Checkpoints\<close>

text \<open>C40: A checkpoint that is restored after a restart does not become visible: the player goes on to report its defaults, and the next checkpoint
  that is written before a profile arrives holds the default name and level under the restored id.\<close>

theorem checkpoint_stays_hidden:
  assumes "new_Player env pp False xp raw fs = Some ((p, fs'), es)" "length (m_conTable raw) = maxSpawnLevel" "length (m_spellBookSlots raw) = MAX_SPELLBOOK_SLOTS"
    "level_fits (uint (ucast (getPrefInt pp ''DefaultLevel'' ''Defaults'' 1 xp) :: u8))" "getPrefString (pp_reader pp) ''DefaultName'' ''Defaults'' ''You'' xp \<noteq> []"
    "ck_player_id ck \<noteq> 0"
  shows "\<exists>ck'. checkpoint_of z (fst (pl_applyCheckpoint env ck p)) = Some ck' \<and> ck_player_id ck' = ck_player_id ck
    \<and> ck_player_name ck' = getPrefString (pp_reader pp) ''DefaultName'' ''Defaults'' ''You'' xp \<and> ck_player_level ck' = m_defaultLevel p"
proof -
  obtain p' es' where "pl_zoneChanged env (construct_player env pp xp raw) = Some (p', es')" "m_useDefaults p'"
      "m_defaultName p' = getPrefString (pp_reader pp) ''DefaultName'' ''Defaults'' ''You'' xp"
    using reset_ok [of "construct_player env pp xp raw" env fs] assms(2-4) by auto
  then have p: "m_useDefaults p" "m_defaultName p = getPrefString (pp_reader pp) ''DefaultName'' ''Defaults'' ''You'' xp" using assms(1) by (auto simp: new_Player_def)
  moreover have "ucast (ucast l :: u32) = l" for l :: u8 by (rule bit_word_eqI) (simp add: bit_simps)
  ultimately show ?thesis using assms(5,6)
    by (auto simp: pl_applyCheckpoint_def Let_def setPlayerID_def checkpoint_of_def player_vt_def defaults_used_def setDeity_def setRace_def updateLastChanged_def)
qed


section \<open>The saved state\<close>

lemma rds_wr [simp]: "rd8s (wr8 b @ bs) = (b, bs)" "rd16s (wr16 w @ bs) = (w, bs)" "rd32s (wr32 v @ bs) = (v, bs)"
  by (simp_all add: rd8s_def rd16s_def rd32s_def rd_wr8 [simplified] del: One_nat_def)

lemma rd_wr_list:
  assumes "\<And>x bs. rd (wr x @ bs) = (x, bs)"
  shows "rd_list rd (length xs) (wr_list wr xs @ bs) = (xs, bs)"
  by (induction xs) (simp_all add: assms)

definition with_saved :: "PlayerStats \<Rightarrow> PlayerStats \<Rightarrow> PlayerStats" where
  "with_saved p p0 = p0
     \<lparr>m_name := m_name p, m_lastName := m_lastName p, m_level := m_level p, m_class := m_class p, m_deity := m_deity p, m_ID := m_ID p,
      pt_x := pt_x p, pt_y := pt_y p, pt_z := pt_z p, m_deltaX := m_deltaX p, m_deltaY := m_deltaY p, m_deltaZ := m_deltaZ p,
      m_heading := m_heading p, m_headingDegrees := m_headingDegrees p, m_playerSkills := m_playerSkills p, m_playerLanguages := m_playerLanguages p,
      m_plusMana := m_plusMana p, m_plusHP := m_plusHP p, m_curHP := m_curHP p, m_maxMana := m_maxMana p, m_maxStats := m_maxStats p, m_maxHP := m_maxHP p,
      m_food := m_food p, m_water := m_water p, m_fatigue := m_fatigue p, m_currentAltExp := m_currentAltExp p, m_currentAApts := m_currentAApts p,
      m_currentExp := m_currentExp p, m_maxExp := m_maxExp p, m_useDefaults := m_useDefaults p,
      m_validStam := m_validStam p0 \<or> m_validStam p, m_validMana := m_validMana p0 \<or> m_validMana p, m_validHP := m_validHP p0 \<or> m_validHP p,
      m_validExp := m_validExp p0 \<or> m_validExp p, m_validAttributes := m_validAttributes p0 \<or> m_validAttributes p\<rparr>"

lemma state_flags_bits [simp]:
  "state_flags p AND 0x01 \<noteq> 0 \<longleftrightarrow> m_validStam p" "state_flags p AND 0x02 \<noteq> 0 \<longleftrightarrow> m_validMana p" "state_flags p AND 0x04 \<noteq> 0 \<longleftrightarrow> m_validHP p"
  "state_flags p AND 0x08 \<noteq> 0 \<longleftrightarrow> m_validExp p" "state_flags p AND 0x10 \<noteq> 0 \<longleftrightarrow> m_validAttributes p" "state_flags p AND 0x20 \<noteq> 0 \<longleftrightarrow> m_useDefaults p"
  by (cases "m_validStam p"; cases "m_validMana p"; cases "m_validHP p"; cases "m_validExp p"; cases "m_validAttributes p"; cases "m_useDefaults p";
      simp add: state_flags_def)+

lemma load_header_saved:
  "text_ok (pe_codec env) (map lower_char (z_shortZoneName (pe_zone env))) \<Longrightarrow> load_header (pe_codec env) (state_header env @ d) = (True, d)"
  by (simp add: load_header_def state_header_def rd_wr_string)

lemma load_identity_saved:
  "text_ok c (m_name p) \<Longrightarrow> text_ok c (m_lastName p) \<Longrightarrow> load_identity c (q, save_identity c p @ d)
    = (q\<lparr>m_name := m_name p, m_lastName := m_lastName p, m_level := m_level p, m_class := m_class p, m_deity := m_deity p, m_ID := m_ID p\<rparr>, d)"
  by (simp add: load_identity_def save_identity_def rd_wr_string)

lemma load_position_saved:
  "load_position (q, save_position p @ d) = (q\<lparr>pt_x := pt_x p, pt_y := pt_y p, pt_z := pt_z p, m_deltaX := m_deltaX p, m_deltaY := m_deltaY p,
     m_deltaZ := m_deltaZ p, m_heading := m_heading p, m_headingDegrees := m_headingDegrees p\<rparr>, d)"
  by (simp add: load_position_def save_position_def)

lemma load_stats_saved:
  assumes "length (m_playerSkills p) = MAX_KNOWN_SKILLS" "length (m_playerLanguages p) = MAX_KNOWN_LANGS" "length (m_maxStats p) = 7"
  shows "load_stats (q, save_stats p @ d) = (q\<lparr>m_playerSkills := m_playerSkills p, m_playerLanguages := m_playerLanguages p, m_plusMana := m_plusMana p,
     m_plusHP := m_plusHP p, m_curHP := m_curHP p, m_maxMana := m_maxMana p, m_maxStats := m_maxStats p, m_maxHP := m_maxHP p\<rparr>, d)"
proof -
  have "rd_list rd32s MAX_KNOWN_SKILLS (wr_list wr32 (m_playerSkills p) @ bs) = (m_playerSkills p, bs)"
    "rd_list rd8s MAX_KNOWN_LANGS (wr_list wr8 (m_playerLanguages p) @ bs) = (m_playerLanguages p, bs)"
    "rd_list rd8s 7 (wr_list wr8 (m_maxStats p) @ bs) = (m_maxStats p, bs)" for bs
    using rd_wr_list [of rd32s wr32 "m_playerSkills p" bs] rd_wr_list [of rd8s wr8 "m_playerLanguages p" bs] rd_wr_list [of rd8s wr8 "m_maxStats p" bs] assms by simp_all
  then show ?thesis by (simp add: load_stats_def save_stats_def)
qed

lemma load_supplies_saved:
  "load_supplies (q, save_supplies p @ d) = (q\<lparr>m_food := m_food p, m_water := m_water p, m_fatigue := m_fatigue p, m_currentAltExp := m_currentAltExp p,
     m_currentAApts := m_currentAApts p, m_currentExp := m_currentExp p, m_maxExp := m_maxExp p\<rparr>, d)"
  by (simp add: load_supplies_def save_supplies_def)

lemma load_fields_saved:
  assumes "text_ok c (m_name p)" "text_ok c (m_lastName p)"
    "length (m_playerSkills p) = MAX_KNOWN_SKILLS" "length (m_playerLanguages p) = MAX_KNOWN_LANGS" "length (m_maxStats p) = 7"
  shows "load_fields c (p0, save_identity c p @ save_position p @ save_stats p @ save_supplies p @ wr8 (state_flags p)) = with_saved p p0"
  using rds_wr(1) [of "state_flags p" "[]"]
  by (simp add: load_fields_def load_identity_saved [OF assms(1,2)] load_position_saved load_stats_saved [OF assms(3-5)] load_supplies_saved load_flags_def with_saved_def)

text \<open>C39: The state that was saved is the state another player restores, with the table that holds the colour of each level next to its own; what the file does not hold, like the race
  and the lower bound of the experience, stays as it was.\<close>

theorem player_state_restored:
  assumes "pe_writable env" "pe_readable env" "text_ok (pe_codec env) (map lower_char (z_shortZoneName (pe_zone env)))"
    "text_ok (pe_codec env) (m_name p)" "text_ok (pe_codec env) (m_lastName p)" "length (m_playerSkills p) = MAX_KNOWN_SKILLS"
    "length (m_playerLanguages p) = MAX_KNOWN_LANGS" "length (m_maxStats p) = 7"
    "length (m_conTable p0) = maxSpawnLevel" "1 \<le> pl_level (with_saved p p0)" "pl_level (with_saved p p0) < 248"
  shows "\<exists>t fs'. savePlayerState env (p, fs) = (p, fs') \<and> restorePlayerState env (p0, fs') = Some (((with_saved p p0)\<lparr>m_conTable := t\<rparr>, fs'), [])
    \<and> length t = maxSpawnLevel \<and> t ! 0 = m_conColorBases p0 ! tUnknownSpawn
    \<and> (\<forall>s. 1 \<le> s \<and> s < maxSpawnLevel \<longrightarrow> t ! s = con_color (m_conColorBases p0) (pl_level (with_saved p p0)) (int s))"
proof -
  have b: "m_conColorBases (with_saved p p0) = m_conColorBases p0" by (simp add: with_saved_def)
  obtain t where t: "con_fill (m_conColorBases (with_saved p p0)) (pl_level (with_saved p p0)) (m_conTable p0) = Some t" "length t = maxSpawnLevel"
    "t ! 0 = m_conColorBases p0 ! tUnknownSpawn" "\<forall>s. 1 \<le> s \<and> s < maxSpawnLevel \<longrightarrow> t ! s = con_color (m_conColorBases p0) (pl_level (with_saved p p0)) (int s)"
    using con_fill_exact [OF assms(10,11,9)] unfolding b by blast
  from t(1) have "fillConTable (with_saved p p0) = Some ((with_saved p p0)\<lparr>m_conTable := t\<rparr>)" by (simp add: fillConTable_def with_saved_def)
  then have "savePlayerState env (p, fs) = (p, fs(pe_file env \<mapsto> player_bytes env p))"
      "restorePlayerState env (p0, fs(pe_file env \<mapsto> player_bytes env p)) = Some (((with_saved p p0)\<lparr>m_conTable := t\<rparr>, fs(pe_file env \<mapsto> player_bytes env p)), [])"
    using assms(1,2) load_header_saved [OF assms(3)] load_fields_saved [OF assms(4-8)]
    by (auto simp: savePlayerState_def restorePlayerState_def player_bytes_def)
  then show ?thesis using t(2-4) by blast
qed


section \<open>Samples\<close>

definition sample_player_env :: player_env where
  "sample_player_env =
     \<lparr>pe_spawn = \<lparr>q_msec = 0, q_time = 0, q_utf8 = map latin1, q_toInt = (\<lambda>_. 0), t_race = (\<lambda>_. None), t_type = (\<lambda>_. None),
        t_item = (\<lambda>_ _. None), t_class = (\<lambda>_. [])\<rparr>, pe_zone = sample_zone, pe_guilds = \<lparr>gu_list = [], gu_file = None\<rparr>, pe_codec = sample_codec,
      pe_file = ''Player.dat'', pe_save = True, pe_writable = True, pe_readable = True, pe_walkpathrecord = False, pe_walkpathlength = 0\<rparr>"

definition sample_player_prefs :: player_prefs where
  "sample_player_prefs = \<lparr>pp_reader = sample_reader, pp_int = (\<lambda>_. 0), pp_bool = (\<lambda>_. False)\<rparr>"

definition sample_raw :: PlayerStats where
  "sample_raw = Spawn.Spawn.extend (blank_spawn (pe_spawn sample_player_env) tPlayer 0)
     (Player_ext ''You'' [] [] 1 396 1 1 [] 0 False True True
       (PlayerStats_ext 0 (replicate MAX_KNOWN_SKILLS 0) (replicate MAX_KNOWN_LANGS 0) 0 0 0 (replicate 7 0) 0 0 0 0 0 0 0 0 0 0
         (replicate MAX_SPELLBOOK_SLOTS 0) conColorDefaults (replicate maxSpawnLevel no_color) 360 False False False False False False 0 ()))"

lemma sample_raw_fields [simp]:
  "m_conTable sample_raw = replicate maxSpawnLevel no_color" "m_spellBookSlots sample_raw = replicate MAX_SPELLBOOK_SLOTS 0"
  "m_playerSkills sample_raw = replicate MAX_KNOWN_SKILLS 0" "m_playerLanguages sample_raw = replicate MAX_KNOWN_LANGS 0" "m_maxStats sample_raw = replicate 7 0"
  "m_defaultLevel sample_raw = 1" "m_level sample_raw = 0" "m_name sample_raw = []" "m_lastName sample_raw = []" "m_conColorBases sample_raw = conColorDefaults"
  "m_minExp sample_raw = 0" "m_maxExp sample_raw = 0" "m_tickExp sample_raw = 0" "m_useDefaults sample_raw" "defaults_used sample_raw"
  by (simp_all add: sample_raw_def Spawn.Spawn.defs blank_spawn_def defaults_used_def)

definition sample_profile :: charProfileStruct where
  "sample_profile = (profile_fields (replicate sizeof_charProfileStruct 0))\<lparr>cp_level := 50, cp_stats := [75, 75, 75, 75, 75, 75, 100]\<rparr>"

lemma c_str_zeros: "c_str (replicate (Suc n) 0) = Some []"
  by simp

lemma sample_profile_accepted: "player_accepts (sample_player_env, PProfile sample_profile)"
proof -
  have "c_str (drop 6 (replicate 8460 0)) = Some []" "c_str (drop 70 (replicate 8460 0)) = Some []"
    using c_str_zeros [of 8453] c_str_zeros [of 8389] by (simp_all add: drop_replicate)
  moreover have "u32_at (replicate 8460 0) n = 0" if "n < 8000" for n
  proof -
    have "take 4 (drop n (replicate 8460 0)) = replicate 4 (0 :: u8)" using that by (simp add: take_replicate drop_replicate)
    moreover have "(le_word (replicate 4 (0 :: u8)) :: u32) = 0" by (simp add: numeral_eq_Suc)
    ultimately show ?thesis by (simp add: u32_at_def)
  qed
  moreover have "float_int8 0 = Some 0"
    by (simp add: float_int8_def float_round_def float_finite_def float_mantissa_def float_exponent_def)
  ultimately show ?thesis
    by (simp add: player_accepts_def sample_profile_def profile_fields_def sizeof_charProfileStruct_def float_coord_0 level_fits_def)
qed

lemma sample_level: "getPrefInt sample_player_prefs n s d empty_prefs = d" "getPrefString r n s v empty_prefs = v"
  by (simp_all add: getPrefInt_def getPrefString_def getPref_as_def)

theorem player_never_faults_witness:
  "\<exists>st0 es0 st es. new_Player sample_player_env sample_player_prefs False empty_prefs sample_raw Map.empty = Some (st0, es0)
    \<and> run player_step [(sample_player_env, PProfile sample_profile), (sample_player_env, PExp [100, 0, 0, 0]), (sample_player_env, PZoneChanged)] st0 = Some (st, es)
    \<and> player_ok st"
  by (rule player_never_faults) (simp_all add: sample_level level_fits_def sample_profile_accepted, simp add: player_accepts_def)

definition sample_player :: PlayerStats where "sample_player = sample_raw\<lparr>m_level := 10\<rparr>"

lemma sample_player_ok: "player_ok (sample_player, Map.empty)"
  by (simp add: sample_player_def player_ok_def level_fits_def)

theorem statistics_grow_with_profiles_witness:
  "\<exists>p fs es. run player_step ((sample_player_env, PZoneChanged) # replicate 3 (sample_player_env, PProfile sample_profile)) (sample_player, Map.empty) = Some ((p, fs), es)
    \<and> m_maxStats p = map (\<lambda>s. of_nat 3 * ucast s) (cp_stats sample_profile)"
  by (rule statistics_grow_with_profiles [OF sample_player_ok sample_profile_accepted]) (simp add: sample_profile_def)

theorem con_table_exact_witness:
  "case fillConTable sample_player of None \<Rightarrow> 248 \<le> pl_level sample_player
    | Some p' \<Rightarrow> pl_level sample_player < 248 \<and> pickConColor (m_conTable p') 4 = Some (con_color (m_conColorBases sample_player) (pl_level sample_player) (int 4))"
  by (rule con_table_exact) (simp_all add: sample_player_def player_vt_def defaults_used_def maxSpawnLevel_def)

definition sample_checkpoint :: CheckpointData where
  "sample_checkpoint = \<lparr>ck_player_id = 7, ck_player_name = ''Soandso'', ck_player_last_name = [], ck_player_class = 2, ck_player_level = 50, ck_player_race = 3,
     ck_player_deity = 204, ck_player_gender = 1, ck_current_exp = 5, ck_max_exp = 9, ck_current_alt_exp = 0, ck_current_aa_pts = 0,
     ck_short_zone_name = ''qeynos'', ck_long_zone_name = ''South Qeynos''\<rparr>"

theorem experience_in_level_witness:
  "\<exists>p fs es. run player_step ((sample_player_env, PProfile sample_profile) # [(sample_player_env, PSkill [3, 0, 0, 0, 7, 0, 0, 0])] @ [(sample_player_env, PExp [100, 0, 0, 0])])
      (fst (pl_applyCheckpoint sample_player_env sample_checkpoint sample_player), Map.empty) = Some ((p, fs), es)
    \<and> m_minExp p \<le> m_currentExp p \<and> m_currentExp p \<le> m_maxExp p"
proof (rule experience_in_level)
  show "player_sized (fst (pl_applyCheckpoint sample_player_env sample_checkpoint sample_player), Map.empty)"
    by (rule checkpoint_sized [OF player_ok_sized [OF sample_player_ok]]) (simp add: sample_checkpoint_def level_fits_def)
next
  show "player_accepts (sample_player_env, PProfile sample_profile)" by (rule sample_profile_accepted)
qed (simp_all add: sets_bounds_def player_accepts_def u32_at_def MAX_KNOWN_SKILLS_def)

theorem checkpoint_stays_hidden_witness:
  "\<exists>p fs es ck'. new_Player sample_player_env sample_player_prefs False empty_prefs sample_raw Map.empty = Some ((p, fs), es)
    \<and> checkpoint_of sample_zone (fst (pl_applyCheckpoint sample_player_env sample_checkpoint p)) = Some ck' \<and> ck_player_id ck' = 7 \<and> ck_player_name ck' = ''You''
    \<and> ck_player_level ck' = m_defaultLevel p"
proof -
  obtain p es where "pl_zoneChanged sample_player_env (construct_player sample_player_env sample_player_prefs empty_prefs sample_raw) = Some (p, es)"
    using reset_ok [of "construct_player sample_player_env sample_player_prefs empty_prefs sample_raw" sample_player_env Map.empty]
    by (auto simp: sample_level level_fits_def)
  then have n: "new_Player sample_player_env sample_player_prefs False empty_prefs sample_raw Map.empty = Some ((p, Map.empty), es)" by (simp add: new_Player_def)
  have "\<exists>ck'. checkpoint_of sample_zone (fst (pl_applyCheckpoint sample_player_env sample_checkpoint p)) = Some ck' \<and> ck_player_id ck' = ck_player_id sample_checkpoint
    \<and> ck_player_name ck' = getPrefString (pp_reader sample_player_prefs) ''DefaultName'' ''Defaults'' ''You'' empty_prefs \<and> ck_player_level ck' = m_defaultLevel p"
    by (rule checkpoint_stays_hidden [OF n]) (simp_all add: sample_level level_fits_def sample_checkpoint_def)
  then show ?thesis using n by (auto simp: sample_level sample_checkpoint_def)
qed

theorem player_state_restored_witness:
  "\<exists>t fs'. savePlayerState sample_player_env (sample_player, Map.empty) = (sample_player, fs')
    \<and> restorePlayerState sample_player_env (sample_raw, fs') = Some (((with_saved sample_player sample_raw)\<lparr>m_conTable := t\<rparr>, fs'), [])
    \<and> length t = maxSpawnLevel \<and> t ! 0 = m_conColorBases sample_raw ! tUnknownSpawn
    \<and> (\<forall>s. 1 \<le> s \<and> s < maxSpawnLevel \<longrightarrow> t ! s = con_color (m_conColorBases sample_raw) (pl_level (with_saved sample_player sample_raw)) (int s))"
  by (rule player_state_restored)
    (simp_all add: sample_player_env_def sample_zone_def sample_text_ok sample_player_def with_saved_def player_vt_def defaults_used_def)

end
