(* ===== verification/Spec2Isabelle.thy ===== *)
theory Spec2Isabelle
  imports BitStream PacketStreamProps FilterFile SpellShellProps SpawnProps GroupProps EqStrProps SpawnPointProps GuildProps XMLPrefsProps MessageFilterProps CategoryProps ZoneProps PlayerProps
begin

text \<open>
  A verification library for the ShowEQ daemon (the EQ Mac "Quarm" branch), \<open>src/src\<close>: a program that listens to the packets
  between a game client and its servers, decodes them, keeps a picture of the zone the player is in, and serves it to clients over a web socket.

  \<^bold>\<open>How the program works and which theory models what.\<close> A captured frame becomes a view of its UDP payload (\<open>packetformat.cpp\<close>:
  \<open>PacketFormat\<close>; byte order in \<open>packetcommon.h\<close>: \<open>PacketCommon\<close>). The four streams (\<open>packetstream.cpp\<close>: \<open>PacketStream\<close>) keep a decoder per UDP flow
  (\<open>eqmac_decoder.cpp\<close>: \<open>EQMacCipher\<close>, \<open>EQMacDecoder\<close>), which checks and reassembles messages (\<open>packetfragment.cpp\<close>: \<open>PacketFragment\<close>; the checksums of
  \<open>util.cpp\<close>: \<open>Crc\<close>) and dispatches each opcode to the handlers that asked for it, by the opcode database (\<open>packetinfo.cpp\<close>: \<open>PacketInfo\<close>). Handlers
  read fixed structures through a pointer (\<open>everquest.h\<close>: \<open>SpawnWire\<close>, \<open>Profile\<close>) or the cursors of \<open>netstream.cpp\<close> (\<open>NetStream\<close>, \<open>BitStream\<close>).

  The picture of the zone is the spawn shell (\<open>spawnshell.cpp\<close>: \<open>SpawnShell\<close>) with its items (\<open>spawn.cpp\<close>: \<open>Spawn\<close>; points and fixed point numbers:
  \<open>Motion\<close>). Around it are the filters of items (\<open>filter.cpp\<close>, \<open>filtermgr.cpp\<close>: \<open>Filters\<close>, \<open>FilterMgr\<close>, \<open>FilterFile\<close>), the categories (\<open>category.cpp\<close>:
  \<open>Category\<close>), the spells that run (\<open>spells.cpp\<close>, \<open>spellshell.cpp\<close>: \<open>Spells\<close>, \<open>SpellShell\<close>), the group (\<open>group.cpp\<close>: \<open>GroupMgr\<close>), the places where monsters
  appear again (\<open>spawnmonitor.cpp\<close>: \<open>SpawnMonitor\<close>), the guilds (\<open>guild.cpp\<close>: \<open>Guild\<close>) and the player (\<open>player.cpp\<close>: \<open>PlayerStats\<close>, \<open>ConTable\<close>; \<open>util.cpp\<close>: \<open>CalcExp\<close>).
  The zone itself is kept by the zone manager (\<open>zonemgr.cpp\<close>, \<open>zones.h\<close>: \<open>ZoneMgr\<close>, \<open>Zones\<close>). Messages have templates (\<open>eqstr.cpp\<close>: \<open>EqStr\<close>) and filters
  (\<open>messagefilter.cpp\<close>: \<open>MessageFilter\<close>). What the user chose is in the preferences (\<open>xmlpreferences.cpp\<close>, \<open>xmlconv.cpp\<close>: \<open>XMLPreferences\<close>, \<open>XmlConv\<close>;
  colours in \<open>seqcolor.cpp\<close>: \<open>SeqColor\<close>). Components call each other directly or by signals of the Qt library: a signal is an event in the result of an
  operation, and where a property depends on who receives it (\<open>GroupProps\<close>, \<open>GuildProps\<close>) the composition is that of \<open>daemonapp.cpp\<close>.

  \<^bold>\<open>How the code is modelled.\<close> An object is a record with the members of the class, a method a function on it with the method's name, prefixed where two
  classes share one. Integers have their width; memory is a list of bytes. A result \<open>None\<close> is a fault: an access outside memory or
  an array, a dead pointer, a conversion or signed operation without a defined result. Where the code follows pointers, objects live in a store with addresses
  (opcode database, spawn shell, spell shell, spawn monitor). The shared vocabulary is in \<open>Prelude\<close>, Qt's strings in \<open>Strings\<close>, \<open>std::map\<close> in \<open>OrdMap\<close>,
  files in \<open>Files\<close>, \<open>QDataStream\<close> in \<open>DataStream\<close>. What is not under \<open>src/\<close> is an argument: the regular expressions, the codecs and number readers
  of Qt, zlib, the clock, the state of the other components at a call; hypotheses state what the code relies on, and the witnesses instantiate them.
  A file of preferences is the document its text parses to, with what the line breaks that saving puts behind every \<open>-->\<close> leave in it.

  \<^bold>\<open>Interfaces.\<close> \<open>Machine\<close> is the contract of a part that is driven by packets (accepted packets never fault and keep the invariant), with the extensions \<open>refined_machine\<close>
  (acts like an abstract machine) and \<open>framed_machine\<close> (leaves alone what no packet names); it is interpreted for the streams, the opcode database, the filter manager,
  the shells, the spawn monitor, the message filters, the categories and the player. \<open>SlotTable\<close> is the contract of a table that fills its lowest free slot (filter types, message
  filters, group). \<open>NetStream\<close> has the contract of a reader, interpreted for every reading method.

  \<^bold>\<open>What the properties show.\<close> Memory safety and invariants: \<open>EQMacProps\<close>, \<open>PacketStreamProps\<close>, \<open>PacketInfoProps\<close>, \<open>SpawnShellInv\<close> with \<open>SpawnShellProps\<close>, \<open>SpellShellProps\<close>,
  \<open>FilterProps\<close>, \<open>SpawnMonitorProps\<close>, \<open>PlayerProps\<close>. Function and order: delivery of fragmented messages, to exactly the handlers that asked for them, identity of spawns, respawn counts (\<open>SpawnPointProps\<close>), one announcement per zone
  (\<open>ZoneProps\<close>), the colours of levels. Round trips and restarts: \<open>FilterFile\<close>, \<open>FilterTypesProps\<close>, \<open>XMLPrefsProps\<close>, \<open>MessageFilterProps\<close>, \<open>CategoryProps\<close>, the files of the zone and the player. Numbers:
  predicted positions (\<open>SpawnProps\<close>), the experience of levels in floating point (\<open>CalcExpProps\<close>: rounding is monotone, so experience does not fall with the level), and its bounds once a packet has set them (a restored state or a checkpoint does not).
  Errors the code really has are theorems about the same definitions: a group that keeps a dead pointer, statistics that grow with every profile, a checkpoint that stays hidden.

  \<^bold>\<open>Bounds and fuel.\<close> The sizes are those of the code: 32 filters, 6 group members, 255 colours, 800 spell slots. The substitution of message arguments may run forever, so
  it has fuel: \<open>EqStrProps\<close> shows an argument with which no fuel is enough, and when it always ends. Levels up to 86 have an experience that fits 32 bits for every race and
  class; 247 is the last level the table of colours has room for. The other loops are functions with a termination proof.

  \<^bold>\<open>Not modelled.\<close> Capture threads and recordings (\<open>packetcapture.cpp\<close>, \<open>vpacket.cpp\<close>, \<open>packetlog.cpp\<close>), sockets and the messages of the protocol buffer compiler (\<open>wsserver.cpp\<close>,
  \<open>sessionadapter.cpp\<close>, \<open>protoencoder.cpp\<close>), start-up and connections (\<open>daemonapp.cpp\<close>, \<open>main.cpp\<close>) beyond those the properties use, text for display and logs (\<open>messageshell.cpp\<close>,
  \<open>logger.cpp\<close>, \<open>spawnlog.cpp\<close>), map files (\<open>mapcore.cpp\<close>), and the tables of spells, opcodes and weapons, which are data.
\<close>

end
